(* ===== verification/Prelude.thy ===== *)
theory Prelude
  imports Main "HOL-Library.Word"
begin

text \<open>
  What every component of the model shares: 64-bit machine integers of Go and BIGINT columns of
  the database, results and transactions (a failed statement rolls the whole transaction back),
  tables as lists of rows with a key, the few functions of Go's \<open>strings\<close> package the code calls,
  and the lemma collections the component theories use.
\<close>

named_theorems tx_simps "unfolding of statements and transactions"
named_theorems table_simps "characteristic equations of table operations"

section \<open>Integers\<close>

text \<open>
  A Go \<open>int64\<close> (and \<open>int\<close> on the 64-bit targets of the repository) is kept as an \<open>int\<close> in range;
  Go arithmetic wraps around. A BIGINT column has the same range, but the database raises
  "bigint out of range" where Go would wrap, so the two are kept apart.
\<close>

definition wrap64 :: "int \<Rightarrow> int" where
  "wrap64 x = signed_take_bit 63 x"

definition wrap32 :: "int \<Rightarrow> int" where
  "wrap32 x = signed_take_bit 31 x"

definition in_int64 :: "int \<Rightarrow> bool" where
  "in_int64 x \<longleftrightarrow> - (2 ^ 63) \<le> x \<and> x < 2 ^ 63"

lemma wrap64_word: "wrap64 x = sint (word_of_int x :: 64 word)"
  by (simp add: wrap64_def signed_take_bit_eq_take_bit_shift sint_sbintrunc')

lemma wrap64_id [simp]: "in_int64 x \<Longrightarrow> wrap64 x = x"
  by (simp add: wrap64_def in_int64_def signed_take_bit_int_eq_self_iff)

lemma wrap64_range [simp]: "in_int64 (wrap64 x)"
  using signed_take_bit_int_less_exp[of 63 x] signed_take_bit_int_greater_eq_minus_exp[of 63 x]
  by (simp add: wrap64_def in_int64_def)

lemma wrap64_wrap64 [simp]: "wrap64 (wrap64 x) = wrap64 x"
  by simp

lemma wrap64_cong: "(wrap64 x = wrap64 y) = (x mod 2 ^ 64 = y mod 2 ^ 64)"
  by (simp add: wrap64_def signed_take_bit_eq_iff_take_bit_eq take_bit_eq_mod)

lemma wrap64_mod: "wrap64 x mod 2 ^ 64 = x mod 2 ^ 64"
  using wrap64_cong[of "wrap64 x" x] by simp

lemma wrap64_add [simp]:
  "wrap64 (wrap64 x + y) = wrap64 (x + y)" "wrap64 (x + wrap64 y) = wrap64 (x + y)"
  by (simp_all only: wrap64_cong) (metis mod_add_cong wrap64_mod)+

lemma wrap64_diff [simp]:
  "wrap64 (wrap64 x - y) = wrap64 (x - y)" "wrap64 (x - wrap64 y) = wrap64 (x - y)"
  by (simp_all only: wrap64_cong) (metis mod_diff_cong wrap64_mod)+

lemma wrap64_minus [simp]: "wrap64 (- wrap64 x) = wrap64 (- x)"
  using wrap64_diff(2)[of 0 x] by simp

lemma in_int64_nonneg: "0 \<le> x \<Longrightarrow> x < 2 ^ 63 \<Longrightarrow> in_int64 x"
  by (simp add: in_int64_def)

lemma in_int64_0 [simp]: "in_int64 0"
  by (simp add: in_int64_def)

text \<open>Go's integer division truncates towards zero.\<close>

definition go_div :: "int \<Rightarrow> int \<Rightarrow> int" where
  "go_div a b = sgn a * sgn b * (\<bar>a\<bar> div \<bar>b\<bar>)"

lemma go_div_nonneg: "0 \<le> a \<Longrightarrow> 0 < b \<Longrightarrow> go_div a b = a div b"
  by (cases "a = 0") (simp_all add: go_div_def)

section \<open>Statements and transactions\<close>

text \<open>
  A repository operation runs statements on the database state \<open>'s\<close> and returns an error
  (\<open>Inl\<close>) or a value (\<open>Inr\<close>). Whether a statement fails for a reason outside the model (a lost
  connection, a cancelled context, a foreign key) is the oracle \<open>faults\<close>: it takes the text with
  which the source wraps the statement's error, and a key where one statement runs for several
  rows. Every theorem holds for every oracle unless it says otherwise.
\<close>

type_synonym faults = "string \<Rightarrow> string \<Rightarrow> bool"

abbreviation no_faults :: faults where
  "no_faults \<equiv> \<lambda>_ _. False"

type_synonym ('s, 'e, 'a) tx = "'s \<Rightarrow> ('e + 'a) \<times> 's"

definition tx_return :: "'a \<Rightarrow> ('s, 'e, 'a) tx" where
  "tx_return x s = (Inr x, s)"

definition tx_fail :: "'e \<Rightarrow> ('s, 'e, 'a) tx" where
  "tx_fail e s = (Inl e, s)"

definition tx_bind :: "('s, 'e, 'a) tx \<Rightarrow> ('a \<Rightarrow> ('s, 'e, 'b) tx) \<Rightarrow> ('s, 'e, 'b) tx" where
  "tx_bind m f s = (case m s of (Inl e, s') \<Rightarrow> (Inl e, s') | (Inr x, s') \<Rightarrow> f x s')"

text \<open>A statement fails with \<open>err\<close> when the oracle says so; otherwise it runs.\<close>

definition stmt :: "bool \<Rightarrow> 'e \<Rightarrow> ('s, 'e, 'a) tx \<Rightarrow> ('s, 'e, 'a) tx" where
  "stmt bad err m s = (if bad then (Inl err, s) else m s)"

definition query :: "('s \<Rightarrow> 'a) \<Rightarrow> ('s, 'e, 'a) tx" where
  "query f s = (Inr (f s), s)"

definition update :: "('s \<Rightarrow> 's) \<Rightarrow> ('s, 'e, unit) tx" where
  "update f s = (Inr (), f s)"

text \<open>A row that must exist (\<open>First\<close>, \<open>Take\<close>), and a constraint that must hold.\<close>

definition fetch :: "('s \<Rightarrow> 'a option) \<Rightarrow> 'e \<Rightarrow> ('s, 'e, 'a) tx" where
  "fetch f err s = (case f s of None \<Rightarrow> (Inl err, s) | Some x \<Rightarrow> (Inr x, s))"

definition require :: "('s \<Rightarrow> bool) \<Rightarrow> 'e \<Rightarrow> ('s, 'e, unit) tx" where
  "require P err s = (if P s then (Inr (), s) else (Inl err, s))"

text \<open>\<open>db.Transaction(fn)\<close>: an error of \<open>fn\<close> rolls every statement of it back.\<close>

definition transaction :: "('s, 'e, 'a) tx \<Rightarrow> ('s, 'e, 'a) tx" where
  "transaction m s = (case m s of (Inl e, _) \<Rightarrow> (Inl e, s) | (Inr x, s') \<Rightarrow> (Inr x, s'))"

lemmas tx_defs [tx_simps] =
  tx_return_def tx_fail_def tx_bind_def stmt_def query_def update_def fetch_def
  require_def transaction_def

lemma transaction_error: "transaction m s = (Inl e, s') \<Longrightarrow> s' = s"
  by (auto simp: transaction_def split: prod.splits sum.splits)

lemma transaction_ok: "transaction m s = (Inr x, s') \<longleftrightarrow> m s = (Inr x, s')"
  by (auto simp: transaction_def split: prod.splits sum.splits)

text \<open>
  Operations of the form "an invariant holds before, so it holds after": through a transaction it
  is enough to look at the branches that commit.
\<close>

lemma transaction_invariant:
  assumes "I s" "\<And>x s'. m s = (Inr x, s') \<Longrightarrow> I s'"
  shows "I (snd (transaction m s))"
  using assms by (auto simp: transaction_def split: prod.splits sum.splits)

lemma tx_bind_ok:
  "tx_bind m f s = (Inr y, s') \<longleftrightarrow> (\<exists>x t. m s = (Inr x, t) \<and> f x t = (Inr y, s'))"
  by (auto simp: tx_bind_def split: prod.splits sum.splits)

lemma stmt_ok: "stmt bad err m s = (Inr y, s') \<longleftrightarrow> \<not> bad \<and> m s = (Inr y, s')"
  by (auto simp: stmt_def)

lemma query_ok [simp]: "query f s = (Inr y, s') \<longleftrightarrow> y = f s \<and> s' = s"
  by (auto simp: query_def)

lemma update_ok [simp]: "update f s = (Inr y, s') \<longleftrightarrow> s' = f s"
  by (auto simp: update_def)

lemma fetch_ok [simp]: "fetch f err s = (Inr y, s') \<longleftrightarrow> f s = Some y \<and> s' = s"
  by (auto simp: fetch_def split: option.splits)

lemma require_ok [simp]: "require P err s = (Inr y, s') \<longleftrightarrow> P s \<and> s' = s"
  by (auto simp: require_def)

lemma tx_return_ok [simp]: "tx_return x s = (Inr y, s') \<longleftrightarrow> y = x \<and> s' = s"
  by (auto simp: tx_return_def)

lemma tx_fail_ok [simp]: "tx_fail e s \<noteq> (Inr y, s')"
  by (simp add: tx_fail_def)

lemmas tx_ok = transaction_ok tx_bind_ok stmt_ok

section \<open>Tables\<close>

text \<open>
  A table is the list of its rows; \<open>key\<close> reads the primary key (or another unique column).
\<close>

definition tbl_find :: "('r \<Rightarrow> 'k) \<Rightarrow> 'k \<Rightarrow> 'r list \<Rightarrow> 'r option" where
  "tbl_find key k rows = find (\<lambda>r. key r = k) rows"

definition tbl_has :: "('r \<Rightarrow> 'k) \<Rightarrow> 'k \<Rightarrow> 'r list \<Rightarrow> bool" where
  "tbl_has key k rows \<longleftrightarrow> list_ex (\<lambda>r. key r = k) rows"

text \<open>\<open>UPDATE ... WHERE key = k\<close>\<close>

definition tbl_update :: "('r \<Rightarrow> 'k) \<Rightarrow> 'k \<Rightarrow> ('r \<Rightarrow> 'r) \<Rightarrow> 'r list \<Rightarrow> 'r list" where
  "tbl_update key k f rows = map (\<lambda>r. if key r = k then f r else r) rows"

text \<open>\<open>INSERT\<close>, and \<open>INSERT ... ON CONFLICT DO NOTHING\<close>\<close>

definition tbl_insert :: "'r \<Rightarrow> 'r list \<Rightarrow> 'r list" where
  "tbl_insert r rows = rows @ [r]"

definition tbl_insert_ignore :: "('r \<Rightarrow> 'k) \<Rightarrow> 'r \<Rightarrow> 'r list \<Rightarrow> 'r list" where
  "tbl_insert_ignore key r rows = (if tbl_has key (key r) rows then rows else rows @ [r])"

definition tbl_unique :: "('r \<Rightarrow> 'k) \<Rightarrow> 'r list \<Rightarrow> bool" where
  "tbl_unique key rows \<longleftrightarrow> distinct (map key rows)"

lemma tbl_has_iff: "tbl_has key k rows \<longleftrightarrow> k \<in> key ` set rows"
  by (auto simp: tbl_has_def list_ex_iff)

lemma tbl_find_None: "tbl_find key k rows = None \<longleftrightarrow> k \<notin> key ` set rows"
  by (auto simp: tbl_find_def find_None_iff)

lemma tbl_find_SomeD: "tbl_find key k rows = Some r \<Longrightarrow> r \<in> set rows \<and> key r = k"
  by (auto simp: tbl_find_def find_Some_iff)

lemma tbl_find_unique:
  "tbl_unique key rows \<Longrightarrow> r \<in> set rows \<Longrightarrow> key r = k \<Longrightarrow> tbl_find key k rows = Some r"
  by (induction rows) (force simp: tbl_unique_def tbl_find_def)+

lemma tbl_find_Cons [table_simps]:
  "tbl_find key k (r # rows) = (if key r = k then Some r else tbl_find key k rows)"
  by (simp add: tbl_find_def)

lemma tbl_find_append [table_simps]:
  "tbl_find key k (xs @ ys) = (case tbl_find key k xs of Some r \<Rightarrow> Some r | None \<Rightarrow> tbl_find key k ys)"
  by (induction xs) (simp_all add: tbl_find_def)

lemma tbl_find_Nil [simp]: "tbl_find key k [] = None"
  by (simp add: tbl_find_def)

lemma tbl_find_update:
  assumes "\<And>r. key (f r) = key r"
  shows "tbl_find key k (tbl_update key k' f rows) =
    (if k = k' then map_option f (tbl_find key k rows) else tbl_find key k rows)"
  using assms by (induction rows) (auto simp: tbl_find_def tbl_update_def)

lemma tbl_keys_update:
  assumes "\<And>r. key (f r) = key r"
  shows "map key (tbl_update key k f rows) = map key rows"
  using assms by (simp add: tbl_update_def)

lemma tbl_has_update [simp]:
  "(\<And>r. key (f r) = key r) \<Longrightarrow> tbl_has key k (tbl_update key k' f rows) = tbl_has key k rows"
  by (simp add: tbl_has_iff tbl_keys_update flip: set_map)

lemma tbl_unique_update:
  "(\<And>r. key (f r) = key r) \<Longrightarrow> tbl_unique key (tbl_update key k f rows) = tbl_unique key rows"
  by (simp add: tbl_unique_def tbl_keys_update)

lemma tbl_unique_insert:
  "tbl_unique key rows \<Longrightarrow> \<not> tbl_has key (key r) rows \<Longrightarrow> tbl_unique key (tbl_insert r rows)"
  by (auto simp: tbl_unique_def tbl_has_iff tbl_insert_def)

lemma tbl_unique_insert_ignore:
  "tbl_unique key rows \<Longrightarrow> tbl_unique key (tbl_insert_ignore key r rows)"
  by (auto simp: tbl_unique_def tbl_has_iff tbl_insert_ignore_def)

lemma tbl_find_insert_ignore:
  "tbl_find key k (tbl_insert_ignore key r rows) =
    (if key r = k \<and> \<not> tbl_has key k rows then Some r else tbl_find key k rows)"
proof -
  have "tbl_has key k rows \<longleftrightarrow> tbl_find key k rows \<noteq> None" for k
    by (simp add: tbl_has_iff tbl_find_None)
  then show ?thesis
    by (cases "tbl_find key k rows")
      (auto simp: tbl_insert_ignore_def tbl_find_append tbl_find_Cons)
qed

lemma tbl_find_insert:
  "tbl_find key k (tbl_insert r rows) =
    (case tbl_find key k rows of Some x \<Rightarrow> Some x | None \<Rightarrow> if key r = k then Some r else None)"
  by (simp add: tbl_insert_def tbl_find_append tbl_find_Cons split: option.splits)

lemma tbl_update_absent: "\<not> tbl_has key k rows \<Longrightarrow> tbl_update key k f rows = rows"
  by (induction rows) (auto simp: tbl_has_def tbl_update_def)

text \<open>
  A sum over a table changes by the difference at the one row an update touches.
\<close>

lemma sum_list_tbl_update:
  fixes g :: "'r \<Rightarrow> int"
  assumes "tbl_unique key rows" "tbl_find key k rows = Some r"
  shows "sum_list (map g (tbl_update key k f rows)) = sum_list (map g rows) - g r + g (f r)"
  using assms
proof (induction rows)
  case (Cons a rows)
  show ?case
  proof (cases "key a = k")
    case True
    with Cons.prems have "\<not> tbl_has key k rows" "a = r"
      by (auto simp: tbl_unique_def tbl_has_iff tbl_find_Cons)
    with True show ?thesis
      using tbl_update_absent[of key k rows f] by (simp add: tbl_update_def)
  next
    case False
    with Cons show ?thesis
      by (simp add: tbl_unique_def tbl_find_Cons tbl_update_def)
  qed
qed simp

text \<open>\<open>ORDER BY\<close> with an ordering given by the caller (a collation, a column): a stable insertion sort.\<close>

definition insert_by :: "('a \<Rightarrow> 'a \<Rightarrow> bool) \<Rightarrow> 'a \<Rightarrow> 'a list \<Rightarrow> 'a list" where
  "insert_by le x xs = takeWhile (\<lambda>y. le y x) xs @ x # dropWhile (\<lambda>y. le y x) xs"

definition order_by :: "('a \<Rightarrow> 'a \<Rightarrow> bool) \<Rightarrow> 'a list \<Rightarrow> 'a list" where
  "order_by le xs = fold (insert_by le) xs []"

lemma set_insert_by [simp]: "set (insert_by le x xs) = insert x (set xs)"
  by (metis Un_insert_right insert_by_def list.simps(15) set_append takeWhile_dropWhile_id)

lemma set_order_by [simp]: "set (order_by le xs) = set xs"
proof -
  have "set (fold (insert_by le) xs ys) = set xs \<union> set ys" for ys
    by (induction xs arbitrary: ys) auto
  then show ?thesis by (simp add: order_by_def)
qed

lemma order_by_map:
  assumes "\<And>a b. le (g a) (g b) = le a b"
  shows "order_by le (map g xs) = map g (order_by le xs)"
proof -
  have one: "insert_by le (g x) (map g ys) = map g (insert_by le x ys)" for x ys
    using assms by (simp add: insert_by_def takeWhile_map dropWhile_map comp_def)
  have "fold (insert_by le) (map g xs) (map g ys) = map g (fold (insert_by le) xs ys)" for ys
    by (induction xs arbitrary: ys) (simp_all add: one)
  from this[of "[]"] show ?thesis by (simp add: order_by_def)
qed

lemma sum_list_insert_by [simp]:
  "sum_list (map g (insert_by le x xs)) = g x + sum_list (map g xs)" for g :: "'a \<Rightarrow> int"
proof -
  have "sum_list (map g (takeWhile P xs)) + sum_list (map g (dropWhile P xs)) = sum_list (map g xs)" for P
    by (induction xs) auto
  then show ?thesis by (simp add: insert_by_def algebra_simps)
qed

lemma sum_list_order_by [simp]: "sum_list (map g (order_by le xs)) = sum_list (map g xs)" for g :: "'a \<Rightarrow> int"
proof -
  have "sum_list (map g (fold (insert_by le) xs ys)) = sum_list (map g xs) + sum_list (map g ys)" for ys
    by (induction xs arbitrary: ys) simp_all
  then show ?thesis by (simp add: order_by_def)
qed

text \<open>\<open>GROUP BY\<close>: one value per distinct key, keys in order of first occurrence.\<close>

definition group_by :: "('r \<Rightarrow> 'k) \<Rightarrow> ('k \<Rightarrow> 'r list \<Rightarrow> 'v) \<Rightarrow> 'r list \<Rightarrow> 'v list" where
  "group_by key agg rows =
    map (\<lambda>k. agg k (filter (\<lambda>r. key r = k) rows)) (rev (remdups (rev (map key rows))))"

definition sum_of :: "('r \<Rightarrow> int) \<Rightarrow> 'r list \<Rightarrow> int" where
  "sum_of f rows = sum_list (map f rows)"

lemma sum_of_simps [simp]:
  "sum_of f [] = 0" "sum_of f (r # rows) = f r + sum_of f rows"
  "sum_of f (xs @ ys) = sum_of f xs + sum_of f ys"
  by (simp_all add: sum_of_def)

text \<open>The groups partition the rows: sums over groups add up to the sum over the rows.\<close>

lemma sum_filter_partition:
  assumes "distinct ks" "\<And>r. r \<in> set rows \<Longrightarrow> key r \<in> set ks"
  shows "sum_list (map (\<lambda>k. sum_of f (filter (\<lambda>r. key r = k) rows)) ks) = sum_of f rows"
  using assms(2)
proof (induction rows)
  case (Cons r rows)
  have one: "sum_list (map (\<lambda>k. if key r = k then f r else 0) ks) = f r"
    using assms(1) Cons.prems[of r]
    by (simp add: sum_list_distinct_conv_sum_set)
  have "sum_of f (filter (\<lambda>x. key x = k) (r # rows)) =
      (if key r = k then f r else 0) + sum_of f (filter (\<lambda>x. key x = k) rows)" for k
    by simp
  then show ?case using Cons one by (simp add: sum_list_addf)
qed (simp add: sum_of_def)

lemma sum_group_by:
  assumes "\<And>k rs. g (agg k rs) = sum_of f rs"
  shows "sum_list (map g (group_by key agg rows)) = sum_of f rows"
  using sum_filter_partition[of "rev (remdups (rev (map key rows)))" rows key f]
  by (simp add: group_by_def comp_def assms)

section \<open>Keyed stores as an interface\<close>

text \<open>
  What the services rely on when they read back what they wrote: a store with a lookup, an insert
  that keeps an existing row, and an update by key.
\<close>

locale keyed_store =
  fixes look :: "'k \<Rightarrow> 't \<Rightarrow> 'r option"
    and put_new :: "'r \<Rightarrow> 't \<Rightarrow> 't"
    and modify :: "'k \<Rightarrow> ('r \<Rightarrow> 'r) \<Rightarrow> 't \<Rightarrow> 't"
    and key_of :: "'r \<Rightarrow> 'k"
    and ok :: "'t \<Rightarrow> bool"
  assumes look_put_new: "ok t \<Longrightarrow> look k (put_new r t) =
      (if key_of r = k \<and> look k t = None then Some r else look k t)"
    and look_modify: "ok t \<Longrightarrow> (\<And>x. key_of (f x) = key_of x) \<Longrightarrow>
      look k (modify k' f t) = (if k = k' then map_option f (look k t) else look k t)"
    and ok_put_new: "ok t \<Longrightarrow> ok (put_new r t)"
    and ok_modify: "ok t \<Longrightarrow> (\<And>x. key_of (f x) = key_of x) \<Longrightarrow> ok (modify k' f t)"
    and key_of_look: "ok t \<Longrightarrow> look k t = Some r \<Longrightarrow> key_of r = k"
begin

lemma present_after_put_new: "ok t \<Longrightarrow> look (key_of r) (put_new r t) \<noteq> None"
  by (simp add: look_put_new)

lemma put_new_keeps: "ok t \<Longrightarrow> look k t = Some x \<Longrightarrow> look k (put_new r t) = Some x"
  by (simp add: look_put_new)

lemma modify_other:
  "ok t \<Longrightarrow> (\<And>x. key_of (f x) = key_of x) \<Longrightarrow> k \<noteq> k' \<Longrightarrow> look k (modify k' f t) = look k t"
  by (simp add: look_modify)

lemma modify_twice:
  assumes "ok t" "\<And>x. key_of (f x) = key_of x" "\<And>x. key_of (g x) = key_of x"
  shows "look k (modify k' g (modify k' f t)) = look k (modify k' (g \<circ> f) t)"
  using assms by (simp add: look_modify ok_modify option.map_comp)

end

interpretation tbl: keyed_store
  "tbl_find key" "tbl_insert_ignore key" "tbl_update key" key "tbl_unique key"
  for key :: "'r \<Rightarrow> 'k"
proof (unfold_locales, goal_cases)
  case 1
  then show ?case by (simp add: tbl_find_insert_ignore tbl_has_iff tbl_find_None)
next
  case 2
  then show ?case by (simp add: tbl_find_update)
next
  case 3
  then show ?case by (rule tbl_unique_insert_ignore)
next
  case 4
  then show ?case by (simp add: tbl_unique_update)
next
  case 5
  then show ?case by (blast dest: tbl_find_SomeD)
qed

section \<open>Strings\<close>

text \<open>
  Go strings are byte strings; the functions of package \<open>strings\<close> below are those of Go on ASCII
  text (the code applies them to identifiers, roles, periods and paths).
\<close>

definition is_space :: "char \<Rightarrow> bool" where
  "is_space c \<longleftrightarrow> c \<in> {CHR '' '', CHR 0x09, CHR 0x0A, CHR 0x0B, CHR 0x0C, CHR 0x0D}"

definition trim_space :: "string \<Rightarrow> string" where
  "trim_space s = rev (dropWhile is_space (rev (dropWhile is_space s)))"

definition lower_char :: "char \<Rightarrow> char" where
  "lower_char c =
    (let n = of_char c :: nat in if 65 \<le> n \<and> n \<le> 90 then char_of (n + 32) else c)"

definition to_lower :: "string \<Rightarrow> string" where
  "to_lower s = map lower_char s"

definition has_prefix :: "string \<Rightarrow> string \<Rightarrow> bool" where
  "has_prefix s p \<longleftrightarrow> take (length p) s = p"

definition has_suffix :: "string \<Rightarrow> string \<Rightarrow> bool" where
  "has_suffix s p \<longleftrightarrow> length p \<le> length s \<and> drop (length s - length p) s = p"

definition trim_prefix :: "string \<Rightarrow> string \<Rightarrow> string" where
  "trim_prefix s p = (if has_prefix s p then drop (length p) s else s)"

lemma has_prefix_append [simp]: "has_prefix (p @ s) p"
  by (simp add: has_prefix_def)

lemma has_prefix_iff: "has_prefix s p \<longleftrightarrow> (\<exists>t. s = p @ t)"
  by (metis append_take_drop_id has_prefix_append has_prefix_def)

lemma trim_prefix_append [simp]: "trim_prefix (p @ s) p = s"
  by (simp add: trim_prefix_def)

text \<open>\<open>strconv.Itoa\<close> and \<open>%d\<close>\<close>

fun nat_digits :: "nat \<Rightarrow> string" where
  "nat_digits n =
    (if n < 10 then [char_of (48 + n)] else nat_digits (n div 10) @ [char_of (48 + n mod 10)])"

declare nat_digits.simps [simp del]

definition itoa :: "int \<Rightarrow> string" where
  "itoa n = (if n < 0 then CHR ''-'' # nat_digits (nat (- n)) else nat_digits (nat n))"

text \<open>\<open>strings.Split\<close> at one character\<close>

fun split_on :: "char \<Rightarrow> string \<Rightarrow> string list" where
  "split_on c [] = [[]]"
| "split_on c (x # xs) = (if x = c then [] # split_on c xs
     else (case split_on c xs of [] \<Rightarrow> [[x]] | w # ws \<Rightarrow> (x # w) # ws))"

lemma split_on_nonempty [simp]: "split_on c s \<noteq> []"
  by (induction s) (auto split: list.splits)

lemma split_on_append: "c \<notin> set w \<Longrightarrow> split_on c (w @ c # rest) = w # split_on c rest"
  by (induction w) auto

lemma split_on_none: "c \<notin> set w \<Longrightarrow> split_on c w = [w]"
  by (induction w) auto

end
