(* ===== verification/CircuitBreaker.thy ===== *)
theory CircuitBreaker
  imports Prelude
begin

text \<open>
  \<open>internal/infrastructure/circuitbreaker/circuitbreaker.go\<close>: the three-state circuit breaker of the
  deployment worker. The two critical sections of \<open>Call\<close> are separate definitions (\<open>cb_begin\<close>,
  \<open>cb_end\<close>), because the lock is released while the wrapped function runs: concurrent callers
  interleave at exactly these points. \<open>cb_Call\<close> composes them as the sequential code does.
\<close>

datatype cb_state = StateClosed | StateOpen | StateHalfOpen

record CircuitBreaker =
  cb_failures :: int
  cb_state :: cb_state
  cb_openedAt :: int
  cb_threshold :: int
  cb_cooldown :: int

definition cb_New :: "int \<Rightarrow> int \<Rightarrow> CircuitBreaker" where
  "cb_New threshold cooldown =
    \<lparr>cb_failures = 0, cb_state = StateClosed, cb_openedAt = 0,
     cb_threshold = threshold, cb_cooldown = cooldown\<rparr>"

text \<open>\<open>State\<close> also moves an open breaker whose cooldown has passed to half-open.\<close>

definition cb_State :: "int \<Rightarrow> CircuitBreaker \<Rightarrow> cb_state \<times> CircuitBreaker" where
  "cb_State now cb =
    (let cb' = (if cb_state cb = StateOpen \<and> now - cb_openedAt cb \<ge> cb_cooldown cb
                then cb\<lparr>cb_state := StateHalfOpen\<rparr> else cb)
     in (cb_state cb', cb'))"

text \<open>The first critical section: \<open>None\<close> is the rejection with \<open>ErrOpen\<close>.\<close>

definition cb_begin :: "int \<Rightarrow> CircuitBreaker \<Rightarrow> bool option \<times> CircuitBreaker" where
  "cb_begin now cb =
    (if cb_state cb = StateOpen \<and> now - cb_openedAt cb < cb_cooldown cb then (None, cb)
     else let cb' = (if cb_state cb = StateOpen then cb\<lparr>cb_state := StateHalfOpen\<rparr> else cb)
          in (Some (cb_state cb' = StateHalfOpen), cb'))"

text \<open>The second critical section, after the wrapped function returned.\<close>

definition cb_end :: "bool \<Rightarrow> int \<Rightarrow> bool \<Rightarrow> CircuitBreaker \<Rightarrow> CircuitBreaker" where
  "cb_end halfOpen now success cb =
    (if success then cb\<lparr>cb_failures := 0, cb_state := StateClosed\<rparr>
     else let cb' = cb\<lparr>cb_failures := cb_failures cb + 1\<rparr>
          in if halfOpen \<or> cb_failures cb' \<ge> cb_threshold cb'
             then cb'\<lparr>cb_state := StateOpen, cb_openedAt := now\<rparr> else cb')"

datatype 'e call_error = ErrOpen | CtxErr 'e | FnErr 'e

text \<open>
  \<open>Call\<close> on a world \<open>'w\<close> that the wrapped function reads and changes. \<open>t0\<close> and \<open>t1\<close> are the two
  readings of the clock, \<open>ctxErr\<close> is \<open>ctx.Err()\<close>.
\<close>

definition cb_Call ::
  "int \<Rightarrow> int \<Rightarrow> 'e option \<Rightarrow> ('w \<Rightarrow> 'e option \<times> 'w) \<Rightarrow> CircuitBreaker \<Rightarrow> 'w \<Rightarrow>
   'e call_error option \<times> CircuitBreaker \<times> 'w" where
  "cb_Call t0 t1 ctxErr fn cb w =
    (case cb_begin t0 cb of
       (None, cb') \<Rightarrow> (Some ErrOpen, cb', w)
     | (Some halfOpen, cb') \<Rightarrow>
         (case ctxErr of
            Some e \<Rightarrow> (Some (CtxErr e), cb', w)
          | None \<Rightarrow>
              (case fn w of (err, w') \<Rightarrow>
                (map_option FnErr err, cb_end halfOpen t1 (err = None) cb', w'))))"

section \<open>What each call does\<close>

lemma cb_New_simps [simp]:
  "cb_failures (cb_New n c) = 0" "cb_state (cb_New n c) = StateClosed"
  "cb_threshold (cb_New n c) = n" "cb_cooldown (cb_New n c) = c"
  by (simp_all add: cb_New_def)

lemma cb_begin_static:
  assumes "cb_begin now cb = (r, cb')"
  shows "cb_threshold cb' = cb_threshold cb" "cb_cooldown cb' = cb_cooldown cb"
    "cb_failures cb' = cb_failures cb" "cb_openedAt cb' = cb_openedAt cb"
  using assms by (auto simp: cb_begin_def Let_def split: if_splits)

lemma cb_end_static [simp]:
  "cb_threshold (cb_end h now ok cb) = cb_threshold cb"
  "cb_cooldown (cb_end h now ok cb) = cb_cooldown cb"
  by (simp_all add: cb_end_def Let_def)

lemma cb_begin_closed [simp]: "cb_state cb = StateClosed \<Longrightarrow> cb_begin now cb = (Some False, cb)"
  by (simp add: cb_begin_def)

lemma cb_begin_half_open [simp]: "cb_state cb = StateHalfOpen \<Longrightarrow> cb_begin now cb = (Some True, cb)"
  by (simp add: cb_begin_def)

lemma cb_begin_cooled [simp]:
  "cb_state cb = StateOpen \<Longrightarrow> cb_cooldown cb \<le> now - cb_openedAt cb \<Longrightarrow>
   cb_begin now cb = (Some True, cb\<lparr>cb_state := StateHalfOpen\<rparr>)"
  by (simp add: cb_begin_def)

text \<open>A run of sequential calls: each call is its two clock readings and whether the function succeeds.\<close>

fun cb_run :: "(int \<times> int \<times> bool) list \<Rightarrow> CircuitBreaker \<Rightarrow> bool list \<times> CircuitBreaker" where
  "cb_run [] cb = ([], cb)"
| "cb_run ((t0, t1, ok) # cs) cb =
    (case cb_Call t0 t1 None (\<lambda>n. (if ok then None else Some (), Suc n)) cb (0::nat) of
       (_, cb', n) \<Rightarrow> (case cb_run cs cb' of (called, cb'') \<Rightarrow> ((n = 1) # called, cb'')))"

lemma cb_run_failing:
  assumes "\<forall>c \<in> set cs. \<not> snd (snd c)" "cb_state cb = StateClosed"
    "cb_failures cb + int (length cs) < cb_threshold cb"
  shows "cb_run cs cb =
    (replicate (length cs) True, cb\<lparr>cb_failures := cb_failures cb + int (length cs)\<rparr>)"
  using assms
proof (induction cs arbitrary: cb)
  case (Cons c cs)
  obtain t0 t1 where c: "c = (t0, t1, False)"
    using Cons.prems(1) by (cases c) auto
  have step: "cb_end False t1 False cb = cb\<lparr>cb_failures := cb_failures cb + 1\<rparr>"
    using Cons.prems by (simp add: cb_end_def)
  show ?case
    using Cons.IH[of "cb\<lparr>cb_failures := cb_failures cb + 1\<rparr>"] Cons.prems
    by (simp add: c cb_Call_def step add.assoc)
qed simp

lemma cb_run_append:
  "cb_run (xs @ ys) cb =
    (case cb_run xs cb of (i, cb') \<Rightarrow> case cb_run ys cb' of (j, cb'') \<Rightarrow> (i @ j, cb''))"
  by (induction xs arbitrary: cb) (auto split: prod.splits)

lemma cb_run_trip:
  "cb_state cb = StateClosed \<Longrightarrow> cb_failures cb + 1 = cb_threshold cb \<Longrightarrow>
   cb_run [(t0, t1, False)] cb =
    ([True], cb\<lparr>cb_failures := cb_threshold cb, cb_state := StateOpen, cb_openedAt := t1\<rparr>)"
  by (simp add: cb_Call_def cb_end_def)

lemmas cb_run.simps(2) [simp del]

text \<open>Interleaved callers: any order of begins, ends and \<open>State\<close> readings.\<close>

datatype cb_event = EvBegin int | EvEnd bool int bool | EvState int

fun cb_event_step :: "cb_event \<Rightarrow> CircuitBreaker \<Rightarrow> CircuitBreaker" where
  "cb_event_step (EvBegin now) cb = snd (cb_begin now cb)"
| "cb_event_step (EvEnd h now ok) cb = cb_end h now ok cb"
| "cb_event_step (EvState now) cb = snd (cb_State now cb)"

definition cb_events :: "cb_event list \<Rightarrow> CircuitBreaker \<Rightarrow> CircuitBreaker" where
  "cb_events evs cb = fold cb_event_step evs cb"

definition cb_inv :: "CircuitBreaker \<Rightarrow> bool" where
  "cb_inv cb \<longleftrightarrow> 0 \<le> cb_failures cb \<and>
     (cb_state cb = StateClosed \<longrightarrow> cb_failures cb < cb_threshold cb)"

lemma cb_inv_New: "1 \<le> threshold \<Longrightarrow> cb_inv (cb_New threshold cooldown)"
  by (simp add: cb_inv_def cb_New_def)

lemma cb_inv_step:
  "cb_inv cb \<Longrightarrow> 1 \<le> cb_threshold cb \<Longrightarrow>
   cb_inv (cb_event_step e cb) \<and> cb_threshold (cb_event_step e cb) = cb_threshold cb"
  by (cases e) (auto simp: cb_inv_def cb_begin_def cb_end_def cb_State_def Let_def)

lemma cb_inv_events:
  "cb_inv cb \<Longrightarrow> 1 \<le> cb_threshold cb \<Longrightarrow>
   cb_inv (cb_events evs cb) \<and> cb_threshold (cb_events evs cb) = cb_threshold cb"
  unfolding cb_events_def by (induction evs arbitrary: cb) (simp_all add: cb_inv_step)

text \<open>Callers that arrive one after the other before any of them has finished.\<close>

fun cb_admitted :: "int list \<Rightarrow> CircuitBreaker \<Rightarrow> bool option list" where
  "cb_admitted [] cb = []"
| "cb_admitted (t # ts) cb = (case cb_begin t cb of (r, cb') \<Rightarrow> r # cb_admitted ts cb')"

lemma cb_admitted_half_open:
  "cb_state cb = StateHalfOpen \<Longrightarrow> cb_admitted ts cb = replicate (length ts) (Some True)"
  by (induction ts) simp_all

section \<open>Properties\<close>

text \<open>while the breaker is open and the cooldown has not passed, a call returns
  \<open>ErrOpen\<close>, the wrapped function is not run (its world is unchanged) and the breaker stays as it is.\<close>

theorem open_breaker_rejects:
  assumes "cb_state cb = StateOpen" "t0 - cb_openedAt cb < cb_cooldown cb"
  shows "cb_Call t0 t1 ctxErr fn cb w = (Some ErrOpen, cb, w)"
  using assms by (simp add: cb_Call_def cb_begin_def)

theorem open_breaker_rejects_witness:
  "cb_Call 10 11 None (\<lambda>n. (Some ''down'', Suc n))
     ((cb_New 3 30)\<lparr>cb_state := StateOpen, cb_openedAt := 5\<rparr>) 0
   = (Some ErrOpen, (cb_New 3 30)\<lparr>cb_state := StateOpen, cb_openedAt := 5\<rparr>, 0::nat)"
  by (rule open_breaker_rejects) (simp_all add: cb_New_def)

text \<open>a fresh breaker with threshold \<open>n\<close> runs \<open>n\<close> failing calls in a row
  and is closed before the last of them and open after it, its opening stamped with the end of the last call.\<close>

theorem breaker_trips_at_threshold:
  assumes "int (length cs) + 1 = threshold" "\<forall>c \<in> set cs. \<not> snd (snd c)"
  shows "cb_run (cs @ [(t0, t1, False)]) (cb_New threshold cooldown) =
      (replicate (length cs + 1) True,
       (cb_New threshold cooldown)\<lparr>cb_failures := threshold, cb_state := StateOpen, cb_openedAt := t1\<rparr>)
    \<and> cb_state (snd (cb_run cs (cb_New threshold cooldown))) = StateClosed"
proof -
  have pre: "cb_run cs (cb_New threshold cooldown) =
      (replicate (length cs) True, (cb_New threshold cooldown)\<lparr>cb_failures := int (length cs)\<rparr>)"
    using cb_run_failing[of cs "cb_New threshold cooldown"] assms by simp
  have "cb_run [(t0, t1, False)] ((cb_New threshold cooldown)\<lparr>cb_failures := int (length cs)\<rparr>) =
      ([True], (cb_New threshold cooldown)\<lparr>cb_failures := threshold, cb_state := StateOpen, cb_openedAt := t1\<rparr>)"
    using assms(1) by (subst cb_run_trip) simp_all
  with pre show ?thesis
    by (simp add: cb_run_append replicate_append_same)
qed

theorem breaker_trips_at_threshold_witness:
  "cb_run ([(0, 1, False), (2, 3, False)] @ [(4, 5, False)]) (cb_New 3 30) =
     (replicate 3 True, (cb_New 3 30)\<lparr>cb_failures := 3, cb_state := StateOpen, cb_openedAt := 5\<rparr>)"
  using breaker_trips_at_threshold[of "[(0, 1, False), (2, 3, False)]" 3 4 5 30] by (simp add: eval_nat_numeral)

text \<open>however concurrent callers interleave, a breaker that is closed has counted
  fewer failures than its threshold.\<close>

theorem closed_below_threshold:
  assumes "1 \<le> threshold" "cb_state (cb_events evs (cb_New threshold cooldown)) = StateClosed"
  shows "0 \<le> cb_failures (cb_events evs (cb_New threshold cooldown)) \<and>
    cb_failures (cb_events evs (cb_New threshold cooldown)) < threshold"
proof -
  have "cb_threshold (cb_New threshold cooldown) = threshold"
    by (simp add: cb_New_def)
  with cb_inv_events[OF cb_inv_New[OF assms(1)], of cooldown evs] assms show ?thesis
    by (simp add: cb_inv_def)
qed

theorem closed_below_threshold_witness:
  "cb_failures (cb_events [EvBegin 0, EvBegin 1, EvEnd False 2 False] (cb_New 2 30)) < 2"
  using closed_below_threshold[of 2 "[EvBegin 0, EvBegin 1, EvEnd False 2 False]" 30]
  by (simp add: cb_events_def cb_begin_def cb_end_def cb_New_def)

text \<open>once the cooldown has passed, every caller that arrives before the
  probe has finished is admitted as a probe too, not a single one.\<close>

theorem half_open_admits_every_caller:
  assumes "cb_state cb = StateOpen" "cb_cooldown cb \<le> t - cb_openedAt cb"
  shows "cb_admitted (t # ts) cb = replicate (Suc (length ts)) (Some True)"
  using assms by (simp add: cb_admitted_half_open)

theorem half_open_admits_every_caller_witness:
  "cb_admitted [40, 41, 42] ((cb_New 3 30)\<lparr>cb_state := StateOpen, cb_openedAt := 5\<rparr>) =
     [Some True, Some True, Some True]"
  using half_open_admits_every_caller[of "(cb_New 3 30)\<lparr>cb_state := StateOpen, cb_openedAt := 5\<rparr>" 40 "[41, 42]"]
  by (simp add: cb_New_def numeral_2_eq_2)

end
