(* ===== verification/Retry.thy ===== *)
theory Retry
  imports Prelude
begin

text \<open>
  \<open>internal/infrastructure/retry/retry.go\<close>: the retry helper with exponential backoff and jitter.
  The retried function works on a world \<open>'w\<close>; \<open>rnd i n\<close> is the random draw \<open>rand.Int64N(n)\<close> after
  attempt \<open>i\<close>, and \<open>slept i\<close> tells whether the sleep after attempt \<open>i\<close> ran to its end (\<open>false\<close> when the
  context was cancelled first). The result carries the delays that were slept, in order.
\<close>

datatype 'e attempt = AttemptOk | AttemptErr 'e | AttemptPermanent 'e

datatype 'e retry_result = RetryOk | RetryErr 'e | RetryCtxErr | RetryPanic

record RetryOptions =
  ro_Attempts :: int
  ro_InitialDelay :: int

text \<open>50 ms in nanoseconds, the default of \<open>Do\<close>\<close>

definition default_delay :: int where
  "default_delay = 50000000"

text \<open>
  One iteration: \<open>1<<uint(i)\<close> and the product wrap around as Go's do, and \<open>rand.Int64N\<close> panics on a
  bound that is not positive.
\<close>

function retry_from ::
  "int \<Rightarrow> int \<Rightarrow> (int \<Rightarrow> int \<Rightarrow> int) \<Rightarrow> (int \<Rightarrow> bool) \<Rightarrow> ('w \<Rightarrow> 'e attempt \<times> 'w) \<Rightarrow>
   int \<Rightarrow> int \<Rightarrow> 'w \<Rightarrow> 'e retry_result \<times> int list \<times> 'w" where
  "retry_from attempts d0 rnd slept fn i delay w =
    (case fn w of
       (AttemptOk, w') \<Rightarrow> (RetryOk, [], w')
     | (AttemptPermanent e, w') \<Rightarrow> (RetryErr e, [], w')
     | (AttemptErr e, w') \<Rightarrow>
         if i \<ge> attempts then (RetryErr e, [], w')
         else if \<not> slept i then (RetryCtxErr, [delay], w')
         else let d = wrap64 (d0 * wrap64 (2 ^ nat i)) in
           if d \<le> 0 then (RetryPanic, [delay], w')
           else (case retry_from attempts d0 rnd slept fn (i + 1) (wrap64 (go_div d 2 + rnd i d)) w' of
                   (r, ds, w'') \<Rightarrow> (r, delay # ds, w'')))"
  by pat_completeness auto
termination
  by (relation "measure (\<lambda>(attempts, d0, rnd, slept, fn, i, delay, w). nat (attempts - i))") auto

declare retry_from.simps [simp del]

definition retry_Do ::
  "RetryOptions \<Rightarrow> (int \<Rightarrow> int \<Rightarrow> int) \<Rightarrow> (int \<Rightarrow> bool) \<Rightarrow> ('w \<Rightarrow> 'e attempt \<times> 'w) \<Rightarrow> 'w \<Rightarrow>
   'e retry_result \<times> int list \<times> 'w" where
  "retry_Do opts rnd slept fn w =
    (let attempts = (if ro_Attempts opts < 1 then 1 else ro_Attempts opts);
         d0 = (if ro_InitialDelay opts \<le> 0 then default_delay else ro_InitialDelay opts)
     in retry_from attempts d0 rnd slept fn 1 d0 w)"

section \<open>Scripted functions\<close>

text \<open>
  To speak about the attempts, the retried function is a script: attempt number \<open>k\<close> (from 0) has
  outcome \<open>f k\<close>, and the world counts the attempts.
\<close>

definition scripted :: "(nat \<Rightarrow> 'e attempt) \<Rightarrow> nat \<Rightarrow> 'e attempt \<times> nat" where
  "scripted f n = (f n, Suc n)"

definition is_err :: "'e attempt \<Rightarrow> bool" where
  "is_err a \<longleftrightarrow> (case a of AttemptErr _ \<Rightarrow> True | _ \<Rightarrow> False)"

text \<open>What the final result must be, given the outcome of the last attempt made.\<close>

definition fits :: "'e retry_result \<Rightarrow> 'e attempt \<Rightarrow> bool" where
  "fits r a \<longleftrightarrow> (case r of
      RetryOk \<Rightarrow> a = AttemptOk
    | RetryErr e \<Rightarrow> a = AttemptErr e \<or> a = AttemptPermanent e
    | _ \<Rightarrow> is_err a)"

lemma retry_from_scripted:
  assumes "retry_from attempts d0 rnd slept (scripted f) i delay k = (r, ds, n)" "i \<le> attempts"
  shows "k < n \<and> int n \<le> int k + (attempts - i) + 1 \<and> (\<forall>j. k \<le> j \<and> j < n - 1 \<longrightarrow> is_err (f j))
    \<and> fits r (f (n - 1)) \<and> length ds \<le> n - k
    \<and> (\<forall>e. r = RetryErr e \<and> f (n - 1) = AttemptErr e \<longrightarrow> int n = int k + (attempts - i) + 1)"
  using assms
proof (induction attempts d0 rnd slept "scripted f" i delay k arbitrary: r ds n rule: retry_from.induct)
  case (1 attempts d0 rnd slept i delay k)
  note eq = "1.prems"(1)[unfolded retry_from.simps[of attempts d0 rnd slept "scripted f" i delay k]]
  show ?case
  proof (cases "f k")
    case AttemptOk
    with eq "1.prems"(2) show ?thesis by (auto simp: scripted_def fits_def)
  next
    case (AttemptPermanent e)
    with eq "1.prems"(2) show ?thesis by (auto simp: scripted_def fits_def)
  next
    case (AttemptErr e)
    let ?d = "wrap64 (d0 * wrap64 (2 ^ nat i))"
    consider "i \<ge> attempts" | "i < attempts" "\<not> slept i" | "i < attempts" "slept i" "?d \<le> 0"
      | "i < attempts" "slept i" "0 < ?d" by linarith
    then show ?thesis
    proof cases
      case 4
      obtain r' ds' n' where rec: "retry_from attempts d0 rnd slept (scripted f) (i + 1)
          (wrap64 (go_div ?d 2 + rnd i ?d)) (Suc k) = (r', ds', n')"
        by (metis prod_cases3)
      with eq AttemptErr 4 have res: "r = r'" "ds = delay # ds'" "n = n'"
        by (auto simp: scripted_def Let_def)
      have ih: "Suc k < n' \<and> int n' \<le> int (Suc k) + (attempts - (i + 1)) + 1
          \<and> (\<forall>j. Suc k \<le> j \<and> j < n' - 1 \<longrightarrow> is_err (f j)) \<and> fits r' (f (n' - 1))
          \<and> length ds' \<le> n' - Suc k
          \<and> (\<forall>e. r' = RetryErr e \<and> f (n' - 1) = AttemptErr e \<longrightarrow>
               int n' = int (Suc k) + (attempts - (i + 1)) + 1)"
        using 4 AttemptErr rec by (intro "1.hyps"[of "f k" "Suc k" e ?d]) (auto simp: scripted_def)
      have "is_err (f j)" if "k \<le> j" "j < n - 1" for j
        using that ih res AttemptErr by (cases "j = k") (auto simp: is_err_def)
      with ih res show ?thesis by auto
    qed (use eq AttemptErr "1.prems"(2) in \<open>auto simp: scripted_def fits_def is_err_def Let_def\<close>)
  qed
qed

section \<open>Backoff\<close>

text \<open>The documented window of the delay that follows \<open>j\<close> doublings of the base.\<close>

definition in_window :: "int \<Rightarrow> nat \<Rightarrow> int \<Rightarrow> bool" where
  "in_window d0 j x \<longleftrightarrow> d0 * 2 ^ j \<le> 2 * x \<and> 2 * x < 3 * d0 * 2 ^ j"

lemma jittered_in_window:
  assumes "0 < d0" "d0 * 2 ^ Suc j < 2 ^ 62" "\<forall>i n. 0 < n \<longrightarrow> 0 \<le> rnd i n \<and> rnd i n < n"
    and d: "d = wrap64 (d0 * wrap64 (2 ^ Suc j))"
  shows "0 < d \<and> d = d0 * 2 ^ Suc j \<and> in_window d0 (Suc j) (wrap64 (go_div d 2 + rnd i d))"
proof -
  have "(2::int) ^ Suc j \<le> d0 * 2 ^ Suc j"
    using assms(1) by simp
  also note assms(2)
  finally have "(2::int) ^ Suc j < 2 ^ 62" .
  then have "in_int64 (2 ^ Suc j)"
    by (intro in_int64_nonneg) simp_all
  moreover have "in_int64 (d0 * 2 ^ Suc j)"
    using assms(1,2) by (intro in_int64_nonneg) simp_all
  ultimately have eq: "d = d0 * 2 ^ Suc j"
    by (simp only: d wrap64_id)
  then have pos: "0 < d"
    using assms(1) by simp
  have half: "go_div d 2 = d0 * 2 ^ j"
    using pos by (simp add: go_div_nonneg eq)
  have r: "0 \<le> rnd i d" "rnd i d < d"
    using assms(3) pos by blast+
  have "in_int64 (go_div d 2 + rnd i d)"
    using r half eq assms(1,2) by (intro in_int64_nonneg) simp_all
  with r half eq pos show ?thesis
    by (simp add: in_window_def)
qed

lemma retry_from_delays:
  assumes "retry_from attempts d0 rnd slept fn i delay w = (r, ds, w')"
    and "0 < d0" "d0 * 2 ^ nat attempts < 2 ^ 62" "1 \<le> i"
    and "\<forall>i n. 0 < n \<longrightarrow> 0 \<le> rnd i n \<and> rnd i n < n"
    and "in_window d0 (nat (i - 1)) delay"
  shows "r \<noteq> RetryPanic \<and> (\<forall>k < length ds. in_window d0 (nat (i - 1) + k) (ds ! k))"
  using assms
proof (induction attempts d0 rnd slept fn i delay w arbitrary: r ds w' rule: retry_from.induct)
  case (1 attempts d0 rnd slept fn i delay w)
  note eq = "1.prems"(1)[unfolded retry_from.simps[of attempts d0 rnd slept fn i delay w]]
  let ?d = "wrap64 (d0 * wrap64 (2 ^ nat i))"
  obtain a w1 where fn: "fn w = (a, w1)" by fastforce
  show ?case
  proof (cases "\<exists>e. a = AttemptErr e \<and> i < attempts \<and> slept i")
    case False
    with eq fn show ?thesis
      using "1.prems"(6) by (auto split: attempt.splits if_splits)
  next
    case True
    then obtain e where a: "a = AttemptErr e" "i < attempts" "slept i" by blast
    obtain j where j: "nat i = Suc j" "j = nat (i - 1)" "nat (i + 1 - 1) = Suc j"
      using "1.prems"(4) by (cases "nat i") auto
    have le: "d0 * 2 ^ Suc j \<le> d0 * 2 ^ nat attempts"
      using "1.prems"(2) a(2) j(1) by (intro mult_left_mono power_increasing) auto
    have "d0 * 2 ^ Suc j < 2 ^ 62"
      using le "1.prems"(3) by (rule order.strict_trans1)
    from jittered_in_window[OF "1.prems"(2) this "1.prems"(5), of ?d i]
    have win: "0 < ?d \<and> in_window d0 (Suc j) (wrap64 (go_div ?d 2 + rnd i ?d))"
      unfolding j(1) by blast
    obtain r' ds' w2 where rec: "retry_from attempts d0 rnd slept fn (i + 1)
        (wrap64 (go_div ?d 2 + rnd i ?d)) w1 = (r', ds', w2)"
      by (metis prod_cases3)
    with eq fn a win have res: "r = r'" "ds = delay # ds'"
      by (auto simp: Let_def)
    have ih: "r' \<noteq> RetryPanic \<and> (\<forall>k < length ds'. in_window d0 (Suc j + k) (ds' ! k))"
      using "1.IH"[OF fn[symmetric] a(1) _ _ refl _ rec] a win j "1.prems"(2-5) by simp
    have "in_window d0 (j + k) (ds ! k)" if "k < length ds" for k
      using that ih res "1.prems"(6) j by (cases k) simp_all
    with ih res j show ?thesis by simp
  qed
qed

section \<open>Properties\<close>

text \<open>\<open>Do\<close> always returns. It makes at least one and at most \<open>max 1 Attempts\<close> attempts; every attempt
  before the last one failed with a retryable error; the result is the outcome of the last attempt; and a
  retryable error is returned only once the attempts are used up.\<close>

theorem retry_Do_attempts:
  assumes "retry_Do opts rnd slept (scripted f) 0 = (r, ds, n)"
  shows "1 \<le> n \<and> int n \<le> max 1 (ro_Attempts opts) \<and> (\<forall>j < n - 1. is_err (f j)) \<and> fits r (f (n - 1)) \<and>
    (\<forall>e. r = RetryErr e \<and> f (n - 1) = AttemptErr e \<longrightarrow> int n = max 1 (ro_Attempts opts))"
proof -
  let ?a = "if ro_Attempts opts < 1 then 1 else ro_Attempts opts"
  have a: "?a = max 1 (ro_Attempts opts)" by (auto simp: max_def)
  from assms have "0 < n \<and> int n \<le> int 0 + (?a - 1) + 1 \<and> (\<forall>j. 0 \<le> j \<and> j < n - 1 \<longrightarrow> is_err (f j))
    \<and> fits r (f (n - 1)) \<and> length ds \<le> n - 0
    \<and> (\<forall>e. r = RetryErr e \<and> f (n - 1) = AttemptErr e \<longrightarrow> int n = int 0 + (?a - 1) + 1)"
    by (intro retry_from_scripted) (auto simp: retry_Do_def Let_def)
  then show ?thesis by (simp only: a) auto
qed

theorem retry_Do_attempts_witness:
  "retry_Do \<lparr>ro_Attempts = 3, ro_InitialDelay = 50000000\<rparr> (\<lambda>i n. n div 2) (\<lambda>i. True)
     (scripted (\<lambda>k. if k < 2 then AttemptErr ''blip'' else AttemptOk)) 0 = (RetryOk, [50000000, 100000000], 3)
   \<and> (1::nat) \<le> 3"
proof -
  have run: "retry_Do \<lparr>ro_Attempts = 3, ro_InitialDelay = 50000000\<rparr> (\<lambda>i n. n div 2) (\<lambda>i. True)
     (scripted (\<lambda>k. if k < 2 then AttemptErr ''blip'' else AttemptOk)) 0 = (RetryOk, [50000000, 100000000], 3)"
    by (simp add: retry_Do_def retry_from.simps scripted_def wrap64_def go_div_def Let_def eval_nat_numeral)
  show ?thesis using run retry_Do_attempts[OF run] by simp
qed

text \<open>with a positive base whose doublings fit in 62 bits, and random draws inside their bound, no draw
  panics and the delay before attempt \<open>n\<close> lies in \<open>[base * 2^(n-2) / 2, 3 * base * 2^(n-2) / 2)\<close>.\<close>

theorem retry_Do_delays:
  assumes "retry_Do opts rnd slept fn w = (r, ds, w')" "0 < ro_InitialDelay opts"
    "ro_InitialDelay opts * 2 ^ nat (max 1 (ro_Attempts opts)) < 2 ^ 62"
    "\<forall>i n. 0 < n \<longrightarrow> 0 \<le> rnd i n \<and> rnd i n < n"
  shows "r \<noteq> RetryPanic \<and> (\<forall>k < length ds. in_window (ro_InitialDelay opts) k (ds ! k))"
proof -
  let ?a = "if ro_Attempts opts < 1 then 1 else ro_Attempts opts"
  have a: "?a = max 1 (ro_Attempts opts)" by (auto simp: max_def)
  have "in_window (ro_InitialDelay opts) 0 (ro_InitialDelay opts)"
    using assms(2) by (simp add: in_window_def power_0)
  then have "r \<noteq> RetryPanic \<and> (\<forall>k < length ds. in_window (ro_InitialDelay opts) (nat (1 - 1) + k) (ds ! k))"
    using assms by (intro retry_from_delays[where attempts = "?a" and fn = fn and slept = slept])
      (simp_all add: retry_Do_def Let_def a)
  then show ?thesis by simp
qed

theorem retry_Do_delays_witness:
  "in_window 50000000 1
     (fst (snd (retry_Do \<lparr>ro_Attempts = 3, ro_InitialDelay = 50000000\<rparr> (\<lambda>i n. n div 2) (\<lambda>i. True)
        (\<lambda>n::nat. (AttemptErr ''down'', Suc n)) 0)) ! 1)"
proof -
  have run: "retry_Do \<lparr>ro_Attempts = 3, ro_InitialDelay = 50000000\<rparr> (\<lambda>i n. n div 2) (\<lambda>i. True)
     (\<lambda>n::nat. (AttemptErr ''down'', Suc n)) 0 = (RetryErr ''down'', [50000000, 100000000], 3)"
    by (simp add: retry_Do_def retry_from.simps wrap64_def go_div_def Let_def eval_nat_numeral)
  have "\<forall>k < length [50000000, 100000000 :: int]. in_window 50000000 k ([50000000, 100000000] ! k)"
    by (rule conjunct2[OF retry_Do_delays[OF run, simplified RetryOptions.simps]])
      (auto simp: max_def)
  then have "in_window 50000000 1 ([50000000, 100000000] ! 1)"
    by (elim allE[of _ 1]) simp
  then show ?thesis by (simp add: run)
qed

end
