(* ===== verification/BillingStore.thy ===== *)
theory BillingStore
  imports Prelude
begin

text \<open>
  The billing repositories (\<open>internal/services/billing\<close>: \<open>models.go\<close>, \<open>repository_pricing.go\<close>,
  \<open>repository_wallet.go\<close>) over the tables of migrations 0012 and 0013. Money is an \<open>int64\<close> number of
  micro-credits: Go arithmetic wraps, the SQL expressions \<open>reserved + ?\<close> and \<open>reserved - ?\<close> fail out of
  range. Ids, clock readings and the rows PostgreSQL picks under SKIP LOCKED are arguments. The
  \<open>metadata\<close> column of the ledger, which no code writes, is left out.
\<close>

section \<open>Rows\<close>

datatype reservation_status = ReservationHeld | ReservationSettled | ReservationReleased

datatype ledger_kind = LedgerTopup | LedgerCharge | LedgerGrant | LedgerRefund | LedgerAdjust

record pricingRow =
  p_ID :: string
  p_Model :: string
  p_Currency :: string
  p_PricePerMillionInputTokens :: int
  p_PricePerMillionOutputTokens :: int
  p_CreatedAt :: int
  p_UpdatedAt :: int

record walletRow =
  w_TenantID :: string
  w_Currency :: string
  w_Balance :: int
  w_Reserved :: int
  w_UpdatedAt :: int

record ledgerRow =
  l_ID :: int
  l_TenantID :: string
  l_Kind :: ledger_kind
  l_Amount :: int
  l_BalanceAfter :: int
  l_Currency :: string
  l_RefType :: string
  l_RefID :: string
  l_IdempotencyKey :: "string option"
  l_CreatedAt :: int

record reservationRow =
  r_ID :: string
  r_TenantID :: string
  r_Amount :: int
  r_InputPrice :: int
  r_OutputPrice :: int
  r_Currency :: string
  r_Status :: reservation_status
  r_ExpiresAt :: int
  r_CreatedAt :: int
  r_SettledAt :: "int option"

record topupRow =
  t_ID :: string
  t_TenantID :: string
  t_Amount :: int
  t_Currency :: string
  t_Provider :: string
  t_ProviderRef :: string
  t_Status :: string
  t_IdempotencyKey :: string
  t_CreatedAt :: int
  t_UpdatedAt :: int

record billing_db =
  pricing :: "pricingRow list"
  wallets :: "walletRow list"
  ledger :: "ledgerRow list"
  ledger_seq :: int
  reservations :: "reservationRow list"
  topups :: "topupRow list"

datatype billing_error =
    ErrNotFound | ErrInsufficientCredits | ErrNoPrice | ErrIdempotencyConflict
  | ErrInvalidAmount | ErrInvalidRequest | ErrInvalidPrice
  | DBError string | ProviderError string

section \<open>Domain types and mappers\<close>

record Price =
  Model :: string
  Currency :: string
  PricePerMillionInputTokens :: int
  PricePerMillionOutputTokens :: int

record Wallet =
  wl_TenantID :: string
  wl_Currency :: string
  wl_Balance :: int
  wl_Reserved :: int
  wl_Available :: int

record LedgerEntry =
  le_ID :: int
  le_Kind :: ledger_kind
  le_Amount :: int
  le_BalanceAfter :: int
  le_Currency :: string
  le_RefType :: string
  le_RefID :: string
  le_CreatedAt :: int

record TopupTransaction =
  tt_ID :: string
  tt_TenantID :: string
  tt_Amount :: int
  tt_Currency :: string
  tt_Provider :: string
  tt_ProviderRef :: string
  tt_Status :: string
  tt_CreatedAt :: int

definition toPrice :: "pricingRow \<Rightarrow> Price" where
  "toPrice r = \<lparr>Model = p_Model r, Currency = p_Currency r,
     PricePerMillionInputTokens = p_PricePerMillionInputTokens r,
     PricePerMillionOutputTokens = p_PricePerMillionOutputTokens r\<rparr>"

definition toWallet :: "walletRow \<Rightarrow> Wallet" where
  "toWallet r = \<lparr>wl_TenantID = w_TenantID r, wl_Currency = w_Currency r, wl_Balance = w_Balance r,
     wl_Reserved = w_Reserved r, wl_Available = wrap64 (w_Balance r - w_Reserved r)\<rparr>"

definition toLedgerEntry :: "ledgerRow \<Rightarrow> LedgerEntry" where
  "toLedgerEntry r = \<lparr>le_ID = l_ID r, le_Kind = l_Kind r, le_Amount = l_Amount r,
     le_BalanceAfter = l_BalanceAfter r, le_Currency = l_Currency r, le_RefType = l_RefType r,
     le_RefID = l_RefID r, le_CreatedAt = l_CreatedAt r\<rparr>"

definition toTopup :: "topupRow \<Rightarrow> TopupTransaction" where
  "toTopup r = \<lparr>tt_ID = t_ID r, tt_TenantID = t_TenantID r, tt_Amount = t_Amount r,
     tt_Currency = t_Currency r, tt_Provider = t_Provider r, tt_ProviderRef = t_ProviderRef r,
     tt_Status = t_Status r, tt_CreatedAt = t_CreatedAt r\<rparr>"

section \<open>Statements\<close>

text \<open>A statement whose error the source wraps with the text \<open>label\<close>.\<close>

abbreviation sql :: "faults \<Rightarrow> string \<Rightarrow> ('s, billing_error, 'a) tx \<Rightarrow> ('s, billing_error, 'a) tx" where
  "sql flt label m \<equiv> stmt (flt label []) (DBError label) m"

abbreviation sql_at ::
  "faults \<Rightarrow> string \<Rightarrow> string \<Rightarrow> ('s, billing_error, 'a) tx \<Rightarrow> ('s, billing_error, 'a) tx" where
  "sql_at flt label k m \<equiv> stmt (flt label k) (DBError label) m"

text \<open>
  \<open>UPDATE wallets SET reserved = reserved + d\<close>: BIGINT addition in the database. An absent wallet
  matches no row and is not an error.
\<close>

definition reserved_in_range :: "string \<Rightarrow> int \<Rightarrow> billing_db \<Rightarrow> bool" where
  "reserved_in_range tenant d db =
    (case tbl_find w_TenantID tenant (wallets db) of
       None \<Rightarrow> True | Some w \<Rightarrow> in_int64 (w_Reserved w + d))"

definition add_reserved :: "int \<Rightarrow> string \<Rightarrow> int \<Rightarrow> billing_db \<Rightarrow> billing_db" where
  "add_reserved now tenant d db = db\<lparr>wallets := tbl_update w_TenantID tenant
     (\<lambda>w. w\<lparr>w_Reserved := w_Reserved w + d, w_UpdatedAt := now\<rparr>) (wallets db)\<rparr>"

definition sql_add_reserved ::
  "faults \<Rightarrow> string \<Rightarrow> string \<Rightarrow> int \<Rightarrow> string \<Rightarrow> int \<Rightarrow> (billing_db, billing_error, unit) tx" where
  "sql_add_reserved flt label k now tenant d =
    sql_at flt label k (tx_bind (require (reserved_in_range tenant d) (DBError label))
      (\<lambda>_. update (add_reserved now tenant d)))"

definition set_reservation_status ::
  "string \<Rightarrow> reservation_status \<Rightarrow> int option \<Rightarrow> billing_db \<Rightarrow> billing_db" where
  "set_reservation_status rid st settled db = db\<lparr>reservations := tbl_update r_ID rid
     (\<lambda>r. r\<lparr>r_Status := st, r_SettledAt := (case settled of None \<Rightarrow> r_SettledAt r | Some t \<Rightarrow> Some t)\<rparr>)
     (reservations db)\<rparr>"

definition set_wallet :: "int \<Rightarrow> string \<Rightarrow> int \<Rightarrow> int option \<Rightarrow> billing_db \<Rightarrow> billing_db" where
  "set_wallet now tenant bal res db = db\<lparr>wallets := tbl_update w_TenantID tenant
     (\<lambda>w. w\<lparr>w_Balance := bal,
            w_Reserved := (case res of None \<Rightarrow> w_Reserved w | Some x \<Rightarrow> x), w_UpdatedAt := now\<rparr>)
     (wallets db)\<rparr>"

definition create_wallet :: "int \<Rightarrow> string \<Rightarrow> string \<Rightarrow> int \<Rightarrow> billing_db \<Rightarrow> billing_db" where
  "create_wallet now tenant currency bal db = db\<lparr>wallets := tbl_insert_ignore w_TenantID
     \<lparr>w_TenantID = tenant, w_Currency = currency, w_Balance = bal, w_Reserved = 0, w_UpdatedAt = now\<rparr>
     (wallets db)\<rparr>"

definition ledger_key_taken :: "string \<Rightarrow> billing_db \<Rightarrow> bool" where
  "ledger_key_taken k db \<longleftrightarrow> tbl_has l_IdempotencyKey (Some k) (ledger db)"

definition append_ledger :: "ledgerRow \<Rightarrow> billing_db \<Rightarrow> billing_db" where
  "append_ledger e db = db\<lparr>ledger := ledger db @ [e\<lparr>l_ID := ledger_seq db\<rparr>], ledger_seq := ledger_seq db + 1\<rparr>"

section \<open>Prices\<close>

text \<open>\<open>pricingRepo.Upsert\<close>: ON CONFLICT (model, currency) DO UPDATE.\<close>

definition price_key :: "pricingRow \<Rightarrow> string \<times> string" where
  "price_key r = (p_Model r, p_Currency r)"

definition pricing_Upsert :: "faults \<Rightarrow> int \<Rightarrow> string \<Rightarrow> Price \<Rightarrow> (billing_db, billing_error, unit) tx" where
  "pricing_Upsert flt now newid p =
    sql flt ''upsert price'' (update (\<lambda>db.
      if tbl_has price_key (Model p, Currency p) (pricing db)
      then db\<lparr>pricing := tbl_update price_key (Model p, Currency p)
        (\<lambda>r. r\<lparr>p_PricePerMillionInputTokens := PricePerMillionInputTokens p,
               p_PricePerMillionOutputTokens := PricePerMillionOutputTokens p, p_UpdatedAt := now\<rparr>)
        (pricing db)\<rparr>
      else db\<lparr>pricing := pricing db @
        [\<lparr>p_ID = newid, p_Model = Model p, p_Currency = Currency p,
          p_PricePerMillionInputTokens = PricePerMillionInputTokens p,
          p_PricePerMillionOutputTokens = PricePerMillionOutputTokens p,
          p_CreatedAt = now, p_UpdatedAt = now\<rparr>]\<rparr>))"

definition pricing_Get :: "faults \<Rightarrow> string \<Rightarrow> string \<Rightarrow> (billing_db, billing_error, Price) tx" where
  "pricing_Get flt model currency =
    sql flt ''get price'' (tx_bind
      (fetch (\<lambda>db. tbl_find price_key (model, currency) (pricing db)) ErrNoPrice)
      (\<lambda>row. tx_return (toPrice row)))"

text \<open>\<open>ORDER BY model\<close>: the collation of the database is the argument \<open>le\<close>.\<close>

definition pricing_List ::
  "faults \<Rightarrow> (string \<Rightarrow> string \<Rightarrow> bool) \<Rightarrow> (billing_db, billing_error, Price list) tx" where
  "pricing_List flt le =
    sql flt ''list prices'' (query (\<lambda>db.
      map toPrice (order_by (\<lambda>a b. le (p_Model a) (p_Model b)) (pricing db))))"

section \<open>Cost\<close>

text \<open>\<open>costMicro\<close> (\<open>pricing.go\<close>): the products and sums of Go's \<open>int64\<close> wrap around.\<close>

definition costMicro :: "int \<Rightarrow> int \<Rightarrow> int" where
  "costMicro tokens pricePerMillion =
    (if tokens \<le> 0 \<or> pricePerMillion \<le> 0 then 0
     else go_div (wrap64 (wrap64 (tokens * pricePerMillion) + 500000)) 1000000)"

section \<open>Wallets\<close>

definition wallet_Get :: "faults \<Rightarrow> string \<Rightarrow> (billing_db, billing_error, Wallet) tx" where
  "wallet_Get flt tenant =
    sql flt ''get wallet'' (query (\<lambda>db.
      case tbl_find w_TenantID tenant (wallets db) of
        None \<Rightarrow> \<lparr>wl_TenantID = tenant, wl_Currency = [], wl_Balance = 0, wl_Reserved = 0, wl_Available = 0\<rparr>
      | Some row \<Rightarrow> toWallet row))"

definition wallet_GetOrCreate ::
  "faults \<Rightarrow> int \<Rightarrow> string \<Rightarrow> string \<Rightarrow> int \<Rightarrow> (billing_db, billing_error, Wallet) tx" where
  "wallet_GetOrCreate flt now tenant currency initialAllowance =
    tx_bind (sql flt ''create wallet'' (update (create_wallet now tenant currency initialAllowance)))
      (\<lambda>_. wallet_Get flt tenant)"

text \<open>\<open>ORDER BY id DESC LIMIT\<close>: the ledger grows at its end with increasing ids.\<close>

definition wallet_ListLedger :: "faults \<Rightarrow> string \<Rightarrow> int \<Rightarrow> (billing_db, billing_error, LedgerEntry list) tx" where
  "wallet_ListLedger flt tenant limit =
    sql flt ''list ledger'' (query (\<lambda>db.
      map toLedgerEntry (take (nat limit) (rev (filter (\<lambda>r. l_TenantID r = tenant) (ledger db))))))"

record ReserveInput =
  ri_TenantID :: string
  ri_Currency :: string
  ri_InitialAllowance :: int
  ri_Amount :: int
  ri_InputPrice :: int
  ri_OutputPrice :: int
  ri_ReservationID :: string
  ri_TTL :: int
  ri_Enforce :: bool

definition new_reservation :: "int \<Rightarrow> ReserveInput \<Rightarrow> reservationRow" where
  "new_reservation now i =
    \<lparr>r_ID = ri_ReservationID i, r_TenantID = ri_TenantID i, r_Amount = ri_Amount i,
     r_InputPrice = ri_InputPrice i, r_OutputPrice = ri_OutputPrice i, r_Currency = ri_Currency i,
     r_Status = ReservationHeld, r_ExpiresAt = now + ri_TTL i, r_CreatedAt = now, r_SettledAt = None\<rparr>"

definition wallet_Reserve :: "faults \<Rightarrow> int \<Rightarrow> ReserveInput \<Rightarrow> (billing_db, billing_error, unit) tx" where
  "wallet_Reserve flt now i = transaction (
    tx_bind (sql flt ''reserve: create wallet''
      (update (create_wallet now (ri_TenantID i) (ri_Currency i) (ri_InitialAllowance i)))) (\<lambda>_.
    tx_bind (sql flt ''reserve: lock wallet''
      (fetch (\<lambda>db. tbl_find w_TenantID (ri_TenantID i) (wallets db)) (DBError ''reserve: lock wallet''))) (\<lambda>cur.
    if ri_Enforce i \<and> ri_Amount i > 0 \<and> wrap64 (w_Balance cur - w_Reserved cur) < ri_Amount i
    then tx_fail ErrInsufficientCredits
    else
    tx_bind (sql_add_reserved flt ''reserve: hold'' [] now (ri_TenantID i) (ri_Amount i)) (\<lambda>_.
    tx_bind (sql flt ''reserve: create reservation''
      (tx_bind (require (\<lambda>db. \<not> tbl_has r_ID (ri_ReservationID i) (reservations db))
                  (DBError ''reserve: create reservation''))
        (\<lambda>_. update (\<lambda>db. db\<lparr>reservations := tbl_insert (new_reservation now i) (reservations db)\<rparr>)))) (\<lambda>_.
    tx_return ())))))"

definition reservation_charge :: "reservationRow \<Rightarrow> int \<Rightarrow> int \<Rightarrow> int" where
  "reservation_charge res promptTokens completionTokens =
    wrap64 (costMicro promptTokens (r_InputPrice res) + costMicro completionTokens (r_OutputPrice res))"

definition charge_key :: "string \<Rightarrow> string" where
  "charge_key rid = ''charge:'' @ rid"

definition topup_key :: "string \<Rightarrow> string" where
  "topup_key k = ''topup:'' @ k"

definition charge_entry :: "int \<Rightarrow> reservationRow \<Rightarrow> int \<Rightarrow> int \<Rightarrow> ledgerRow" where
  "charge_entry now res charge newBalance =
    \<lparr>l_ID = 0, l_TenantID = r_TenantID res, l_Kind = LedgerCharge, l_Amount = wrap64 (- charge),
     l_BalanceAfter = newBalance, l_Currency = r_Currency res, l_RefType = ''reservation'',
     l_RefID = r_ID res, l_IdempotencyKey = Some (charge_key (r_ID res)), l_CreatedAt = now\<rparr>"

definition wallet_Settle :: "faults \<Rightarrow> int \<Rightarrow> string \<Rightarrow> int \<Rightarrow> int \<Rightarrow> (billing_db, billing_error, unit) tx" where
  "wallet_Settle flt now rid promptTokens completionTokens = transaction (
    tx_bind (sql flt ''settle: lock reservation''
      (fetch (\<lambda>db. tbl_find r_ID rid (reservations db)) ErrNotFound)) (\<lambda>res.
    if r_Status res = ReservationSettled then tx_return ()
    else let charge = reservation_charge res promptTokens completionTokens in
    tx_bind (sql flt ''settle: lock wallet''
      (fetch (\<lambda>db. tbl_find w_TenantID (r_TenantID res) (wallets db)) (DBError ''settle: lock wallet''))) (\<lambda>w.
    let newBalance = wrap64 (w_Balance w - charge);
        newReserved = (if r_Status res = ReservationHeld then wrap64 (w_Reserved w - r_Amount res)
                       else w_Reserved w) in
    tx_bind (sql flt ''settle: update wallet''
      (update (set_wallet now (r_TenantID res) newBalance (Some newReserved)))) (\<lambda>_.
    tx_bind (sql flt ''settle: ledger'' (update (\<lambda>db.
      if ledger_key_taken (charge_key (r_ID res)) db then db
      else append_ledger (charge_entry now res charge newBalance) db))) (\<lambda>_.
    sql flt ''settle: status'' (update (set_reservation_status (r_ID res) ReservationSettled (Some now))))))))"

definition wallet_Release :: "faults \<Rightarrow> int \<Rightarrow> string \<Rightarrow> (billing_db, billing_error, unit) tx" where
  "wallet_Release flt now rid = transaction (
    tx_bind (sql flt ''release: lock reservation''
      (fetch (\<lambda>db. tbl_find r_ID rid (reservations db)) ErrNotFound)) (\<lambda>res.
    if r_Status res \<noteq> ReservationHeld then tx_return ()
    else
    tx_bind (sql_add_reserved flt ''release: update wallet'' [] now (r_TenantID res) (- r_Amount res)) (\<lambda>_.
    sql flt ''release: status'' (update (set_reservation_status (r_ID res) ReservationReleased None)))))"

text \<open>
  The reaper's transaction. \<open>pick\<close> is what PostgreSQL returns of the candidate rows: FOR UPDATE SKIP
  LOCKED without ORDER BY may leave rows out and return them in any order.
\<close>

definition expired_holds :: "int \<Rightarrow> billing_db \<Rightarrow> reservationRow list" where
  "expired_holds now db =
    filter (\<lambda>r. r_Status r = ReservationHeld \<and> r_ExpiresAt r < now) (reservations db)"

fun reap_rows :: "faults \<Rightarrow> int \<Rightarrow> reservationRow list \<Rightarrow> (billing_db, billing_error, nat) tx" where
  "reap_rows flt now [] = tx_return 0"
| "reap_rows flt now (res # rest) =
    tx_bind (sql_add_reserved flt ''reaper: update wallet'' (r_ID res) now (r_TenantID res) (- r_Amount res)) (\<lambda>_.
    tx_bind (sql_at flt ''reaper: release reservation'' (r_ID res)
      (update (set_reservation_status (r_ID res) ReservationReleased None))) (\<lambda>_.
    tx_bind (reap_rows flt now rest) (\<lambda>n. tx_return (Suc n))))"

definition wallet_ReleaseExpired ::
  "faults \<Rightarrow> (reservationRow list \<Rightarrow> reservationRow list) \<Rightarrow> int \<Rightarrow> int \<Rightarrow> (billing_db, billing_error, nat) tx" where
  "wallet_ReleaseExpired flt pick now limit = transaction (
    tx_bind (sql flt ''reaper: scan'' (query (\<lambda>db. take (nat limit) (pick (expired_holds now db))))) (\<lambda>rows.
    reap_rows flt now rows))"

section \<open>Top-ups\<close>

record TopupInput =
  ti_TenantID :: string
  ti_Currency :: string
  ti_Amount :: int
  ti_Provider :: string
  ti_ProviderRef :: string
  ti_IdemKey :: string

definition topup_entry :: "int \<Rightarrow> string \<Rightarrow> TopupInput \<Rightarrow> int \<Rightarrow> ledgerRow" where
  "topup_entry now newid i newBalance =
    \<lparr>l_ID = 0, l_TenantID = ti_TenantID i, l_Kind = LedgerTopup, l_Amount = ti_Amount i,
     l_BalanceAfter = newBalance, l_Currency = ti_Currency i, l_RefType = ''topup'',
     l_RefID = newid, l_IdempotencyKey = Some (topup_key (ti_IdemKey i)), l_CreatedAt = now\<rparr>"

definition new_topup :: "int \<Rightarrow> string \<Rightarrow> TopupInput \<Rightarrow> topupRow" where
  "new_topup now newid i =
    \<lparr>t_ID = newid, t_TenantID = ti_TenantID i, t_Amount = ti_Amount i, t_Currency = ti_Currency i,
     t_Provider = ti_Provider i, t_ProviderRef = ti_ProviderRef i, t_Status = ''succeeded'',
     t_IdempotencyKey = ti_IdemKey i, t_CreatedAt = now, t_UpdatedAt = now\<rparr>"

definition topup_TopUp ::
  "faults \<Rightarrow> int \<Rightarrow> string \<Rightarrow> TopupInput \<Rightarrow> (billing_db, billing_error, TopupTransaction) tx" where
  "topup_TopUp flt now newid i = transaction (
    tx_bind (sql flt ''topup: lookup'' (query (\<lambda>db. tbl_find t_IdempotencyKey (ti_IdemKey i) (topups db)))) (\<lambda>found.
    case found of
      Some existing \<Rightarrow>
        if t_TenantID existing \<noteq> ti_TenantID i \<or> t_Amount existing \<noteq> ti_Amount i
        then tx_fail ErrIdempotencyConflict else tx_return (toTopup existing)
    | None \<Rightarrow>
        tx_bind (sql flt ''topup: insert''
          (tx_bind (require (\<lambda>db. \<not> tbl_has t_ID newid (topups db)) (DBError ''topup: insert''))
            (\<lambda>_. update (\<lambda>db. db\<lparr>topups := tbl_insert (new_topup now newid i) (topups db)\<rparr>)))) (\<lambda>_.
        tx_bind (sql flt ''topup: create wallet''
          (update (create_wallet now (ti_TenantID i) (ti_Currency i) 0))) (\<lambda>_.
        tx_bind (sql flt ''topup: lock wallet''
          (fetch (\<lambda>db. tbl_find w_TenantID (ti_TenantID i) (wallets db)) (DBError ''topup: lock wallet''))) (\<lambda>cur.
        let newBalance = wrap64 (w_Balance cur + ti_Amount i) in
        tx_bind (sql flt ''topup: credit'' (update (set_wallet now (ti_TenantID i) newBalance None))) (\<lambda>_.
        tx_bind (sql flt ''topup: ledger''
          (tx_bind (require (\<lambda>db. \<not> ledger_key_taken (topup_key (ti_IdemKey i)) db) (DBError ''topup: ledger''))
            (\<lambda>_. update (append_ledger (topup_entry now newid i newBalance))))) (\<lambda>_.
        tx_return (toTopup (new_topup now newid i)))))))))"

end
