(* ===== verification/BillingProofs.thy ===== *)
theory BillingProofs
  imports BillingStore
begin

text \<open>
  The books of the billing store. The aggregate invariant \<open>billing_inv\<close> says that keys are unique,
  that every reservation has its wallet, that the \<open>reserved\<close> column of a wallet is the sum of its held
  reservations, and that an idempotency key of the ledger belongs to a settled reservation or to a
  recorded top-up. Every operation of the repositories keeps it, whatever statement fails, and the
  balance of a wallet is at all times its opening balance plus the entries of its ledger.
\<close>

section \<open>The invariant\<close>

definition held_amount :: "string \<Rightarrow> reservationRow \<Rightarrow> int" where
  "held_amount tenant r = (if r_TenantID r = tenant \<and> r_Status r = ReservationHeld then r_Amount r else 0)"

definition held_sum :: "string \<Rightarrow> reservationRow list \<Rightarrow> int" where
  "held_sum tenant rs = sum_list (map (held_amount tenant) rs)"

definition key_accounted :: "string \<Rightarrow> billing_db \<Rightarrow> bool" where
  "key_accounted k db \<longleftrightarrow>
    (\<exists>r\<in>set (reservations db). k = charge_key (r_ID r) \<and> r_Status r = ReservationSettled) \<or>
    (\<exists>t\<in>set (topups db). k = topup_key (t_IdempotencyKey t))"

definition inv_keys :: "billing_db \<Rightarrow> bool" where
  "inv_keys db \<longleftrightarrow> tbl_unique w_TenantID (wallets db) \<and> tbl_unique r_ID (reservations db) \<and>
     tbl_unique t_IdempotencyKey (topups db)"

definition inv_owned :: "billing_db \<Rightarrow> bool" where
  "inv_owned db \<longleftrightarrow> (\<forall>r\<in>set (reservations db). tbl_has w_TenantID (r_TenantID r) (wallets db))"

definition inv_reserved :: "billing_db \<Rightarrow> bool" where
  "inv_reserved db \<longleftrightarrow>
    (\<forall>w\<in>set (wallets db). w_Reserved w = wrap64 (held_sum (w_TenantID w) (reservations db)))"

definition inv_ledger :: "billing_db \<Rightarrow> bool" where
  "inv_ledger db \<longleftrightarrow>
    (\<forall>e\<in>set (ledger db). case l_IdempotencyKey e of None \<Rightarrow> True | Some k \<Rightarrow> key_accounted k db)"

definition billing_inv :: "billing_db \<Rightarrow> bool" where
  "billing_inv db \<longleftrightarrow> inv_keys db \<and> inv_owned db \<and> inv_reserved db \<and> inv_ledger db"

lemmas inv_defs = billing_inv_def inv_keys_def inv_owned_def inv_reserved_def inv_ledger_def

lemma charge_key_inject [simp]: "charge_key a = charge_key b \<longleftrightarrow> a = b"
  by (simp add: charge_key_def)

lemma topup_key_inject [simp]: "topup_key a = topup_key b \<longleftrightarrow> a = b"
  by (simp add: topup_key_def)

lemma charge_key_neq_topup_key [simp]: "charge_key a \<noteq> topup_key b" "topup_key b \<noteq> charge_key a"
  by (simp_all add: charge_key_def topup_key_def)

lemma held_sum_append [simp]: "held_sum t (xs @ ys) = held_sum t xs + held_sum t ys"
  by (simp add: held_sum_def)

lemma held_sum_single [simp]: "held_sum t [r] = held_amount t r"
  by (simp add: held_sum_def)

lemma held_sum_update:
  "tbl_unique r_ID rs \<Longrightarrow> tbl_find r_ID rid rs = Some r \<Longrightarrow>
   held_sum t (tbl_update r_ID rid f rs) = held_sum t rs - held_amount t r + held_amount t (f r)"
  unfolding held_sum_def by (rule sum_list_tbl_update)

section \<open>Effect of the statements on the parts of the state\<close>

lemma billing_frames [simp]:
  "pricing (add_reserved now t d db) = pricing db"
  "ledger (add_reserved now t d db) = ledger db"
  "reservations (add_reserved now t d db) = reservations db"
  "topups (add_reserved now t d db) = topups db"
  "ledger (set_reservation_status rid st x db) = ledger db"
  "wallets (set_reservation_status rid st x db) = wallets db"
  "topups (set_reservation_status rid st x db) = topups db"
  "ledger (set_wallet now t b y db) = ledger db"
  "reservations (set_wallet now t b y db) = reservations db"
  "topups (set_wallet now t b y db) = topups db"
  "ledger (create_wallet now t c b db) = ledger db"
  "reservations (create_wallet now t c b db) = reservations db"
  "topups (create_wallet now t c b db) = topups db"
  "wallets (append_ledger e db) = wallets db"
  "reservations (append_ledger e db) = reservations db"
  "topups (append_ledger e db) = topups db"
  by (simp_all add: add_reserved_def set_reservation_status_def set_wallet_def create_wallet_def
      append_ledger_def)

lemma ledger_append_ledger [simp]:
  "ledger (append_ledger e db) = ledger db @ [e\<lparr>l_ID := ledger_seq db\<rparr>]"
  by (simp add: append_ledger_def)

lemma tbl_has_insert_ignore [simp]:
  "tbl_has key k (tbl_insert_ignore key r rows) \<longleftrightarrow> tbl_has key k rows \<or> key r = k"
  by (auto simp: tbl_has_iff tbl_insert_ignore_def)

lemma tbl_find_has: "tbl_find key k rows = Some r \<Longrightarrow> tbl_has key k rows"
  by (auto simp: tbl_has_iff dest!: tbl_find_SomeD)

lemma wallet_keys [simp]:
  "tbl_unique w_TenantID (wallets (add_reserved now t d db)) = tbl_unique w_TenantID (wallets db)"
  "tbl_unique w_TenantID (wallets (set_wallet now t b y db)) = tbl_unique w_TenantID (wallets db)"
  "tbl_has w_TenantID u (wallets (add_reserved now t d db)) = tbl_has w_TenantID u (wallets db)"
  "tbl_has w_TenantID u (wallets (set_wallet now t b y db)) = tbl_has w_TenantID u (wallets db)"
  "tbl_has w_TenantID u (wallets (create_wallet now t c b' db)) \<longleftrightarrow>
     tbl_has w_TenantID u (wallets db) \<or> t = u"
  by (simp_all add: add_reserved_def set_wallet_def create_wallet_def tbl_unique_update)

lemma reservation_keys [simp]:
  "tbl_unique r_ID (reservations (set_reservation_status rid st x db)) = tbl_unique r_ID (reservations db)"
  by (simp add: set_reservation_status_def tbl_unique_update)

lemma key_accounted_frames [simp]:
  "key_accounted k (add_reserved now t d db) = key_accounted k db"
  "key_accounted k (set_wallet now t b y db) = key_accounted k db"
  "key_accounted k (create_wallet now t c b db) = key_accounted k db"
  "key_accounted k (append_ledger e db) = key_accounted k db"
  by (simp_all add: key_accounted_def)

lemma inv_ledger_frames [simp]:
  "inv_ledger (add_reserved now t d db) = inv_ledger db"
  "inv_ledger (set_wallet now t b y db) = inv_ledger db"
  "inv_ledger (create_wallet now t c b db) = inv_ledger db"
  by (simp_all add: inv_ledger_def cong: option.case_cong)

lemma inv_owned_frames [simp]:
  "inv_owned (add_reserved now t d db) = inv_owned db"
  "inv_owned (set_wallet now t b y db) = inv_owned db"
  "inv_owned (append_ledger e db) = inv_owned db"
  by (simp_all add: inv_owned_def)

lemma inv_keys_frames [simp]:
  "inv_keys (add_reserved now t d db) = inv_keys db"
  "inv_keys (set_wallet now t b y db) = inv_keys db"
  "inv_keys (append_ledger e db) = inv_keys db"
  "inv_keys (set_reservation_status rid st x db) = inv_keys db"
  by (simp_all add: inv_keys_def)

text \<open>What a wallet lookup sees after each statement: the laws of the keyed store.\<close>

lemma find_wallet_add_reserved:
  assumes "tbl_unique w_TenantID (wallets db)"
  shows "tbl_find w_TenantID u (wallets (add_reserved now t d db)) =
    (if u = t then map_option (\<lambda>w. w\<lparr>w_Reserved := w_Reserved w + d, w_UpdatedAt := now\<rparr>)
                     (tbl_find w_TenantID u (wallets db))
     else tbl_find w_TenantID u (wallets db))"
  using tbl.look_modify[OF assms, of "\<lambda>w. w\<lparr>w_Reserved := w_Reserved w + d, w_UpdatedAt := now\<rparr>" u t]
  by (simp add: add_reserved_def)

lemma find_wallet_set_wallet:
  assumes "tbl_unique w_TenantID (wallets db)"
  shows "tbl_find w_TenantID u (wallets (set_wallet now t b y db)) =
    (if u = t then map_option (\<lambda>w. w\<lparr>w_Balance := b,
        w_Reserved := (case y of None \<Rightarrow> w_Reserved w | Some x \<Rightarrow> x), w_UpdatedAt := now\<rparr>)
                     (tbl_find w_TenantID u (wallets db))
     else tbl_find w_TenantID u (wallets db))"
  using tbl.look_modify[OF assms, of "\<lambda>w. w\<lparr>w_Balance := b,
        w_Reserved := (case y of None \<Rightarrow> w_Reserved w | Some x \<Rightarrow> x), w_UpdatedAt := now\<rparr>" u t]
  by (simp add: set_wallet_def)

lemma find_wallet_create:
  assumes "tbl_unique w_TenantID (wallets db)"
  shows "tbl_find w_TenantID u (wallets (create_wallet now t c b db)) =
    (if t = u \<and> tbl_find w_TenantID u (wallets db) = None
     then Some \<lparr>w_TenantID = t, w_Currency = c, w_Balance = b, w_Reserved = 0, w_UpdatedAt = now\<rparr>
     else tbl_find w_TenantID u (wallets db))"
  using tbl.look_put_new[OF assms, of u
      "\<lparr>w_TenantID = t, w_Currency = c, w_Balance = b, w_Reserved = 0, w_UpdatedAt = now\<rparr>"]
  by (simp add: create_wallet_def)

lemmas find_wallet = find_wallet_add_reserved find_wallet_set_wallet find_wallet_create

text \<open>The invariant on wallets, read through lookups.\<close>

lemma inv_reserved_iff:
  assumes "tbl_unique w_TenantID (wallets db)"
  shows "inv_reserved db \<longleftrightarrow> (\<forall>t w. tbl_find w_TenantID t (wallets db) = Some w \<longrightarrow>
    w_Reserved w = wrap64 (held_sum t (reservations db)))"
proof
  assume "inv_reserved db"
  then show "\<forall>t w. tbl_find w_TenantID t (wallets db) = Some w \<longrightarrow>
    w_Reserved w = wrap64 (held_sum t (reservations db))"
    by (auto simp: inv_reserved_def dest!: tbl_find_SomeD)
next
  assume r: "\<forall>t w. tbl_find w_TenantID t (wallets db) = Some w \<longrightarrow>
    w_Reserved w = wrap64 (held_sum t (reservations db))"
  show "inv_reserved db"
    unfolding inv_reserved_def using r tbl_find_unique[OF assms _ refl] by blast
qed

section \<open>Primitive steps keep the invariant\<close>

lemma held_sum_absent:
  assumes "inv_owned db" "tbl_find w_TenantID t (wallets db) = None"
  shows "held_sum t (reservations db) = 0"
proof -
  have "r \<in> set (reservations db) \<Longrightarrow> held_amount t r = 0" for r
    using assms by (auto simp: inv_owned_def held_amount_def tbl_find_None tbl_has_iff)
  then have "map (held_amount t) (reservations db) = map (\<lambda>_. 0) (reservations db)"
    by simp
  then show ?thesis
    by (simp add: held_sum_def del: map_eq_conv)
qed

lemma create_wallet_inv: "billing_inv db \<Longrightarrow> billing_inv (create_wallet now t c b db)"
proof -
  assume inv: "billing_inv db"
  have u: "tbl_unique w_TenantID (wallets (create_wallet now t c b db))"
    using inv tbl.ok_put_new by (fastforce simp: create_wallet_def inv_defs)
  have "inv_reserved (create_wallet now t c b db)"
    unfolding inv_reserved_iff[OF u] using inv
    by (auto simp: find_wallet billing_inv_def inv_keys_def inv_reserved_iff held_sum_absent split: if_splits)
  then show ?thesis
    using inv u by (auto simp: inv_defs key_accounted_def split: option.splits)
qed


text \<open>
  A new hold: the wallet's \<open>reserved\<close> grows by the amount of the reservation that is inserted.
\<close>

lemma hold_inv:
  assumes inv: "billing_inv db" and has: "tbl_has w_TenantID (r_TenantID r) (wallets db)"
    and range: "reserved_in_range (r_TenantID r) (r_Amount r) db"
    and new: "\<not> tbl_has r_ID (r_ID r) (reservations db)" and held: "r_Status r = ReservationHeld"
  shows "billing_inv ((add_reserved now (r_TenantID r) (r_Amount r) db)
           \<lparr>reservations := tbl_insert r (reservations db)\<rparr>)"
    (is "billing_inv ?db")
proof -
  have u: "tbl_unique w_TenantID (wallets db)" using inv by (simp add: inv_defs)
  then have u': "tbl_unique w_TenantID (wallets ?db)" by simp
  have w: "tbl_find w_TenantID t (wallets db) = Some w \<Longrightarrow>
      w_Reserved w = wrap64 (held_sum t (reservations db))" for t w
    using inv u by (simp add: billing_inv_def inv_reserved_iff)
  have "inv_reserved ?db"
    unfolding inv_reserved_iff[OF u'] using range held w
    by (auto simp: find_wallet u tbl_insert_def held_amount_def reserved_in_range_def
          dest: wrap64_id split: option.splits if_splits)
  moreover have "inv_keys ?db" "inv_owned ?db" "inv_ledger ?db"
    using inv new has
    by (auto simp: inv_defs tbl_unique_insert[unfolded tbl_insert_def] tbl_insert_def key_accounted_def
        split: option.splits)
  ultimately show ?thesis by (simp add: billing_inv_def)
qed

lemma set_status_ledger:
  assumes "inv_ledger db" "tbl_find r_ID rid (reservations db) = Some r"
    "tbl_unique r_ID (reservations db)" "r_Status r \<noteq> ReservationSettled"
  shows "inv_ledger (set_reservation_status rid st x db)"
proof -
  have "key_accounted k (set_reservation_status rid st x db)" if "key_accounted k db" for k
  proof -
    have "y \<in> set (reservations (set_reservation_status rid st x db))"
      if "y \<in> set (reservations db)" "r_Status y = ReservationSettled" for y
    proof -
      have "r_ID y \<noteq> rid"
        using tbl_find_unique[OF assms(3) that(1)] that(2) assms(2,4) by auto
      then show ?thesis
        using that by (auto simp: set_reservation_status_def tbl_update_def image_iff)
    qed
    then show ?thesis using that by (auto simp: key_accounted_def)
  qed
  then show ?thesis using assms(1) by (auto simp: inv_ledger_def split: option.splits)
qed

lemma set_status_owned:
  "inv_owned db \<Longrightarrow> inv_owned (set_reservation_status rid st x db)"
  by (auto simp: inv_owned_def set_reservation_status_def tbl_update_def split: if_splits)

lemma held_sum_set_status:
  assumes "tbl_unique r_ID (reservations db)" "tbl_find r_ID rid (reservations db) = Some r"
    "st \<noteq> ReservationHeld"
  shows "held_sum t (reservations (set_reservation_status rid st x db)) =
    held_sum t (reservations db) - held_amount t r"
  using held_sum_update[OF assms(1,2)] assms(3)
  by (simp add: set_reservation_status_def held_amount_def)

text \<open>A hold given back: \<open>Release\<close> and the reaper.\<close>

lemma unhold_inv:
  assumes inv: "billing_inv db" and r: "tbl_find r_ID rid (reservations db) = Some r"
    and held: "r_Status r = ReservationHeld"
    and range: "reserved_in_range (r_TenantID r) (- r_Amount r) db"
  shows "billing_inv (set_reservation_status rid ReservationReleased None
           (add_reserved now (r_TenantID r) (- r_Amount r) db))" (is "billing_inv ?db")
proof -
  have u: "tbl_unique w_TenantID (wallets db)" "tbl_unique r_ID (reservations db)"
    using inv by (simp_all add: inv_defs)
  then have u': "tbl_unique w_TenantID (wallets ?db)" by simp
  have w: "tbl_find w_TenantID t (wallets db) = Some w \<Longrightarrow>
      w_Reserved w = wrap64 (held_sum t (reservations db))" for t w
    using inv u by (simp add: billing_inv_def inv_reserved_iff)
  have "inv_reserved ?db"
    unfolding inv_reserved_iff[OF u'] using range held w r u
    by (auto simp: find_wallet held_sum_set_status held_amount_def reserved_in_range_def
          split: option.splits if_splits) (metis wrap64_diff(1) wrap64_id)+
  moreover have "inv_ledger ?db"
    using inv r u held by (intro set_status_ledger[where r=r]) (simp_all add: billing_inv_def)
  moreover have "inv_keys ?db" "inv_owned ?db"
    using inv by (simp_all add: billing_inv_def set_status_owned)
  ultimately show ?thesis by (simp add: billing_inv_def)
qed


lemma charge_key_free:
  assumes "tbl_find r_ID rid (reservations db) = Some r" "r_Status r \<noteq> ReservationSettled" "billing_inv db"
  shows "\<not> ledger_key_taken (charge_key rid) db"
proof
  assume "ledger_key_taken (charge_key rid) db"
  then obtain e where "e \<in> set (ledger db)" "l_IdempotencyKey e = Some (charge_key rid)"
    by (auto simp: ledger_key_taken_def tbl_has_iff)
  moreover have "inv_ledger db" using assms(3) by (simp add: billing_inv_def)
  ultimately have "key_accounted (charge_key rid) db"
    by (force simp: inv_ledger_def)
  then obtain y where y: "y \<in> set (reservations db)" "r_ID y = rid" "r_Status y = ReservationSettled"
    by (auto simp: key_accounted_def)
  then show False
    using tbl_find_unique[of r_ID "reservations db" y rid] assms by (auto simp: inv_defs)
qed

text \<open>A settled reservation: the hold goes, the charge is entered under the reservation's key.\<close>

lemma set_settled_accounted:
  assumes "tbl_find r_ID rid (reservations db) = Some r"
  shows "key_accounted (charge_key rid) (set_reservation_status rid ReservationSettled x db)"
proof -
  have "r \<in> set (reservations db)" "r_ID r = rid" using tbl_find_SomeD[OF assms] by auto
  then show ?thesis
    unfolding key_accounted_def set_reservation_status_def tbl_update_def
    by (intro disjI1 bexI[of _ "r\<lparr>r_Status := ReservationSettled,
          r_SettledAt := (case x of None \<Rightarrow> r_SettledAt r | Some t \<Rightarrow> Some t)\<rparr>"]) (auto simp: image_iff)
qed

lemma settle_inv:
  assumes inv: "billing_inv db" and r: "tbl_find r_ID rid (reservations db) = Some r"
    and open_r: "r_Status r \<noteq> ReservationSettled"
    and w: "tbl_find w_TenantID (r_TenantID r) (wallets db) = Some w"
    and res: "res' = (if r_Status r = ReservationHeld then wrap64 (w_Reserved w - r_Amount r)
                      else w_Reserved w)"
    and key: "l_IdempotencyKey e = Some (charge_key rid)"
  shows "billing_inv (set_reservation_status rid ReservationSettled (Some now)
           (append_ledger e (set_wallet now (r_TenantID r) b (Some res') db)))" (is "billing_inv ?db")
proof -
  have u: "tbl_unique w_TenantID (wallets db)" "tbl_unique r_ID (reservations db)"
    using inv by (simp_all add: inv_defs)
  then have u': "tbl_unique w_TenantID (wallets ?db)" by simp
  have rs: "tbl_find w_TenantID t (wallets db) = Some v \<Longrightarrow>
      w_Reserved v = wrap64 (held_sum t (reservations db))" for t v
    using inv u by (simp add: billing_inv_def inv_reserved_iff)
  have "inv_reserved ?db"
    unfolding inv_reserved_iff[OF u'] using w r u rs[OF w] res
    by (auto simp: find_wallet held_sum_set_status held_amount_def dest: rs split: option.splits)
  moreover have "inv_ledger (set_reservation_status rid ReservationSettled (Some now)
      (set_wallet now (r_TenantID r) b (Some res') db))"
    using inv r u open_r by (intro set_status_ledger[where r=r]) (simp_all add: billing_inv_def)
  then have "inv_ledger ?db"
    using key set_settled_accounted[OF r, of "Some now"]
    by (auto simp: inv_ledger_def set_reservation_status_def append_ledger_def set_wallet_def
          key_accounted_def split: option.splits)
  moreover have "inv_keys ?db" "inv_owned ?db"
    using inv by (simp_all add: billing_inv_def set_status_owned)
  ultimately show ?thesis by (simp add: billing_inv_def)
qed

text \<open>A credited top-up.\<close>

lemma set_balance_inv: "billing_inv db \<Longrightarrow> billing_inv (set_wallet now t b None db)"
proof -
  assume inv: "billing_inv db"
  then have u: "tbl_unique w_TenantID (wallets db)" by (simp add: inv_defs)
  then have u': "tbl_unique w_TenantID (wallets (set_wallet now t b None db))" by simp
  have "inv_reserved (set_wallet now t b None db)"
    unfolding inv_reserved_iff[OF u'] using inv u
    by (auto simp: find_wallet billing_inv_def inv_reserved_iff)
  then show ?thesis using inv by (simp add: billing_inv_def)
qed

lemma insert_topup_inv:
  assumes "billing_inv db" "tbl_find t_IdempotencyKey (t_IdempotencyKey row) (topups db) = None"
  shows "billing_inv (db\<lparr>topups := tbl_insert row (topups db)\<rparr>)"
  using assms tbl_unique_insert[of t_IdempotencyKey "topups db" row]
  by (auto simp: inv_defs tbl_find_None tbl_has_iff tbl_insert_def key_accounted_def
      split: option.splits)

lemma append_topup_entry_inv:
  assumes "billing_inv db" "row \<in> set (topups db)"
    "l_IdempotencyKey e = Some (topup_key (t_IdempotencyKey row))"
  shows "billing_inv (append_ledger e db)"
  using assms
  by (auto simp: inv_defs key_accounted_def split: option.splits)

section \<open>What each operation does when it commits\<close>

lemma wallet_Reserve_commit:
  assumes "wallet_Reserve flt now i db = (Inr x, db')"
  obtains w where
    "tbl_find w_TenantID (ri_TenantID i) (wallets (create_wallet now (ri_TenantID i) (ri_Currency i)
       (ri_InitialAllowance i) db)) = Some w"
    "\<not> (ri_Enforce i \<and> ri_Amount i > 0 \<and> wrap64 (w_Balance w - w_Reserved w) < ri_Amount i)"
    "reserved_in_range (ri_TenantID i) (ri_Amount i) (create_wallet now (ri_TenantID i) (ri_Currency i)
       (ri_InitialAllowance i) db)"
    "\<not> tbl_has r_ID (ri_ReservationID i) (reservations db)"
    "db' = (add_reserved now (ri_TenantID i) (ri_Amount i) (create_wallet now (ri_TenantID i)
       (ri_Currency i) (ri_InitialAllowance i) db))
       \<lparr>reservations := tbl_insert (new_reservation now i) (reservations db)\<rparr>"
  using assms that
  by (auto simp: wallet_Reserve_def sql_add_reserved_def tx_ok split: if_splits)

lemma wallet_Settle_commit:
  assumes "wallet_Settle flt now rid pt ct db = (Inr x, db')"
  obtains (settled) r where "tbl_find r_ID rid (reservations db) = Some r"
      "r_Status r = ReservationSettled" "db' = db"
  | (charged) r w c b rv where "tbl_find r_ID rid (reservations db) = Some r"
      "r_Status r \<noteq> ReservationSettled"
      "tbl_find w_TenantID (r_TenantID r) (wallets db) = Some w"
      "c = reservation_charge r pt ct" "b = wrap64 (w_Balance w - c)"
      "rv = (if r_Status r = ReservationHeld then wrap64 (w_Reserved w - r_Amount r) else w_Reserved w)"
      "db' = set_reservation_status rid ReservationSettled (Some now)
         (if ledger_key_taken (charge_key rid) db then set_wallet now (r_TenantID r) b (Some rv) db
          else append_ledger (charge_entry now r c b) (set_wallet now (r_TenantID r) b (Some rv) db))"
proof -
  from assms obtain r where r: "tbl_find r_ID rid (reservations db) = Some r"
    by (auto simp: wallet_Settle_def tx_ok)
  have rid: "r_ID r = rid" using tbl_find_SomeD[OF r] by simp
  show thesis
  proof (cases "r_Status r = ReservationSettled")
    case True
    then show ?thesis using assms r by (intro settled[of r]) (auto simp: wallet_Settle_def tx_ok)
  next
    case False
    with assms r obtain w where w: "tbl_find w_TenantID (r_TenantID r) (wallets db) = Some w"
      by (auto simp: wallet_Settle_def tx_ok Let_def)
    show ?thesis
      by (rule charged[OF r False w refl refl refl])
        (use assms r rid False w in \<open>auto simp: wallet_Settle_def tx_ok Let_def ledger_key_taken_def\<close>)
  qed
qed

lemma wallet_Release_commit:
  assumes "wallet_Release flt now rid db = (Inr x, db')"
  obtains (not_held) r where "tbl_find r_ID rid (reservations db) = Some r"
      "r_Status r \<noteq> ReservationHeld" "db' = db"
  | (released) r where "tbl_find r_ID rid (reservations db) = Some r" "r_Status r = ReservationHeld"
      "reserved_in_range (r_TenantID r) (- r_Amount r) db"
      "db' = set_reservation_status rid ReservationReleased None
         (add_reserved now (r_TenantID r) (- r_Amount r) db)"
proof -
  from assms obtain r where r: "tbl_find r_ID rid (reservations db) = Some r"
    by (auto simp: wallet_Release_def tx_ok)
  have "r_ID r = rid" using tbl_find_SomeD[OF r] by simp
  then show thesis
    using assms r not_held[of r] released[of r]
    by (cases "r_Status r = ReservationHeld") (auto simp: wallet_Release_def sql_add_reserved_def tx_ok)
qed

lemma topup_TopUp_commit:
  assumes "topup_TopUp flt now newid i db = (Inr out, db')"
  obtains (repeated) t where "tbl_find t_IdempotencyKey (ti_IdemKey i) (topups db) = Some t"
      "t_TenantID t = ti_TenantID i" "t_Amount t = ti_Amount i" "out = toTopup t" "db' = db"
  | (credited) w b where "tbl_find t_IdempotencyKey (ti_IdemKey i) (topups db) = None"
      "tbl_find w_TenantID (ti_TenantID i) (wallets (create_wallet now (ti_TenantID i) (ti_Currency i) 0 db))
         = Some w"
      "b = wrap64 (w_Balance w + ti_Amount i)" "out = toTopup (new_topup now newid i)"
      "db' = append_ledger (topup_entry now newid i b) (set_wallet now (ti_TenantID i) b None
         (create_wallet now (ti_TenantID i) (ti_Currency i) 0
           (db\<lparr>topups := tbl_insert (new_topup now newid i) (topups db)\<rparr>)))"
proof (cases "tbl_find t_IdempotencyKey (ti_IdemKey i) (topups db)")
  case (Some t)
  then show ?thesis
    using assms by (intro repeated[of t]) (auto simp: topup_TopUp_def tx_ok split: if_splits)
next
  case None
  have wf: "wallets (create_wallet now a c b (db\<lparr>topups := ts\<rparr>)) = wallets (create_wallet now a c b db)" for a c b ts
    by (simp add: create_wallet_def)
  from assms None obtain w where w: "tbl_find w_TenantID (ti_TenantID i)
      (wallets (create_wallet now (ti_TenantID i) (ti_Currency i) 0 db)) = Some w"
    by (auto simp: topup_TopUp_def tx_ok Let_def wf)
  show ?thesis
    by (rule credited[OF None w refl])
      (use assms None w in \<open>auto simp: topup_TopUp_def tx_ok Let_def wf\<close>)
qed


section \<open>Operations and runs\<close>

text \<open>
  Every state-changing operation of the repositories, and a run of them: each with its own clock
  reading and its own failing statements. PostgreSQL runs the transactions in some serial order,
  which row locks on the wallet enforce; a run is that order.
\<close>

datatype billing_op =
    OpGetOrCreate string string int
  | OpReserve ReserveInput
  | OpSettle string int int
  | OpRelease string
  | OpReleaseExpired "reservationRow list \<Rightarrow> reservationRow list" int
  | OpTopUp string TopupInput

fun billing_step :: "faults \<Rightarrow> int \<Rightarrow> billing_op \<Rightarrow> billing_db \<Rightarrow> billing_db" where
  "billing_step flt now (OpGetOrCreate tenant currency allowance) db =
     snd (wallet_GetOrCreate flt now tenant currency allowance db)"
| "billing_step flt now (OpReserve i) db = snd (wallet_Reserve flt now i db)"
| "billing_step flt now (OpSettle rid pt ct) db = snd (wallet_Settle flt now rid pt ct db)"
| "billing_step flt now (OpRelease rid) db = snd (wallet_Release flt now rid db)"
| "billing_step flt now (OpReleaseExpired pick limit) db = snd (wallet_ReleaseExpired flt pick now limit db)"
| "billing_step flt now (OpTopUp newid i) db = snd (topup_TopUp flt now newid i db)"

fun billing_run :: "(faults \<times> int \<times> billing_op) list \<Rightarrow> billing_db \<Rightarrow> billing_db" where
  "billing_run [] db = db"
| "billing_run ((flt, now, opn) # rest) db = billing_run rest (billing_step flt now opn db)"

text \<open>What SKIP LOCKED returns: some of the candidates, each once.\<close>

definition picks_from :: "(reservationRow list \<Rightarrow> reservationRow list) \<Rightarrow> bool" where
  "picks_from pick \<longleftrightarrow> (\<forall>xs. set (pick xs) \<subseteq> set xs \<and> (distinct (map r_ID xs) \<longrightarrow> distinct (map r_ID (pick xs))))"

definition picks_ok :: "billing_op \<Rightarrow> bool" where
  "picks_ok opn \<longleftrightarrow> (case opn of OpReleaseExpired pick _ \<Rightarrow> picks_from pick | _ \<Rightarrow> True)"

section \<open>The reaper\<close>

text \<open>
  The rows of one sweep are released one after another; each is still as it was read, because the
  ids are distinct.
\<close>

definition releasable :: "billing_db \<Rightarrow> reservationRow list \<Rightarrow> bool" where
  "releasable db rows \<longleftrightarrow> distinct (map r_ID rows) \<and>
    (\<forall>r\<in>set rows. tbl_find r_ID (r_ID r) (reservations db) = Some r \<and> r_Status r = ReservationHeld)"

lemma find_set_status_other:
  "tbl_unique r_ID (reservations db) \<Longrightarrow> rid \<noteq> rid' \<Longrightarrow>
   tbl_find r_ID rid (reservations (set_reservation_status rid' st x db)) = tbl_find r_ID rid (reservations db)"
  unfolding set_reservation_status_def by (simp add: tbl.modify_other)

lemma find_set_status_same:
  "tbl_unique r_ID (reservations db) \<Longrightarrow> tbl_find r_ID rid (reservations db) = Some r \<Longrightarrow>
   tbl_find r_ID rid (reservations (set_reservation_status rid st x db)) =
     Some (r\<lparr>r_Status := st, r_SettledAt := (case x of None \<Rightarrow> r_SettledAt r | Some t \<Rightarrow> Some t)\<rparr>)"
  unfolding set_reservation_status_def by (simp add: tbl.look_modify)

definition unhold :: "int \<Rightarrow> reservationRow \<Rightarrow> billing_db \<Rightarrow> billing_db" where
  "unhold now r db = set_reservation_status (r_ID r) ReservationReleased None
     (add_reserved now (r_TenantID r) (- r_Amount r) db)"

lemma releasable_step:
  assumes "releasable db (r # rows)" "billing_inv db"
  shows "releasable (unhold now r db) rows"
  using assms by (auto simp: releasable_def unhold_def find_set_status_other inv_defs image_iff)

lemma reap_rows_commit:
  "reap_rows flt now rows db = (Inr n, db') \<Longrightarrow> releasable db rows \<Longrightarrow> billing_inv db \<Longrightarrow>
   billing_inv db' \<and> n = length rows \<and> db' = fold (unhold now) rows db"
proof (induction rows arbitrary: n db)
  case (Cons r rows)
  from Cons.prems(1) obtain m where
    range: "reserved_in_range (r_TenantID r) (- r_Amount r) db"
    and rest: "reap_rows flt now rows (unhold now r db) = (Inr m, db')" and n: "n = Suc m"
    by (auto simp: tx_ok sql_add_reserved_def unhold_def)
  have r: "tbl_find r_ID (r_ID r) (reservations db) = Some r" "r_Status r = ReservationHeld"
    using Cons.prems(2) by (simp_all add: releasable_def)
  have "billing_inv (unhold now r db)"
    unfolding unhold_def by (rule unhold_inv[OF Cons.prems(3) r range])
  then show ?case
    using Cons.IH[OF rest releasable_step[OF Cons.prems(2,3)]] n by auto
qed simp

lemma releasable_picked:
  assumes "billing_inv db" "picks_from pick"
  shows "releasable db (take k (pick (expired_holds now db)))"
proof -
  have u: "distinct (map r_ID (reservations db))"
    using assms(1) by (simp add: inv_defs tbl_unique_def)
  then have "distinct (map r_ID (pick (expired_holds now db)))"
    using assms(2) by (simp add: picks_from_def expired_holds_def distinct_map_filter)
  then have "distinct (map r_ID (take k (pick (expired_holds now db))))"
    by (simp add: take_map[symmetric])
  moreover have "r \<in> set (take k (pick (expired_holds now db))) \<Longrightarrow>
      r \<in> set (reservations db) \<and> r_Status r = ReservationHeld" for r
    using assms(2) set_take_subset by (fastforce simp: picks_from_def expired_holds_def)
  ultimately show ?thesis
    using assms(1) by (auto simp: releasable_def inv_defs intro!: tbl_find_unique)
qed

lemma wallet_ReleaseExpired_commit:
  assumes "wallet_ReleaseExpired flt pick now limit db = (Inr n, db')" "billing_inv db" "picks_from pick"
  shows "billing_inv db' \<and> n = length (take (nat limit) (pick (expired_holds now db))) \<and>
    db' = fold (unhold now) (take (nat limit) (pick (expired_holds now db))) db"
proof -
  from assms(1) have "reap_rows flt now (take (nat limit) (pick (expired_holds now db))) db = (Inr n, db')"
    by (simp add: wallet_ReleaseExpired_def tx_ok)
  then show ?thesis
    by (rule reap_rows_commit[OF _ releasable_picked[OF assms(2,3)] assms(2)])
qed

section \<open>The invariant of runs\<close>

lemma billing_rollback:
  "wallet_Reserve flt now i db = (Inl e, db') \<Longrightarrow> db' = db"
  "wallet_Settle flt now rid pt ct db = (Inl e, db') \<Longrightarrow> db' = db"
  "wallet_Release flt now rid db = (Inl e, db') \<Longrightarrow> db' = db"
  "wallet_ReleaseExpired flt pick now limit db = (Inl e, db') \<Longrightarrow> db' = db"
  "topup_TopUp flt now newid t db = (Inl e, db') \<Longrightarrow> db' = db"
  unfolding wallet_Reserve_def wallet_Settle_def wallet_Release_def wallet_ReleaseExpired_def
    topup_TopUp_def
  by (rule transaction_error, assumption)+

lemma by_outcome:
  assumes "\<And>x db'. opn db = (Inr x, db') \<Longrightarrow> P db'" "\<And>e db'. opn db = (Inl e, db') \<Longrightarrow> db' = db" "P db"
  shows "P (snd (opn db))"
  using assms by (cases "opn db"; cases "fst (opn db)") auto

lemma snd_GetOrCreate:
  "snd (wallet_GetOrCreate flt now t c b db) = db \<or>
   snd (wallet_GetOrCreate flt now t c b db) = create_wallet now t c b db"
  by (auto simp: wallet_GetOrCreate_def wallet_Get_def tx_simps)

lemma reserve_inv:
  assumes "wallet_Reserve flt now i db = (Inr x, db')" "billing_inv db"
  shows "billing_inv db'"
  using assms(1)
proof (cases rule: wallet_Reserve_commit)
  case (1 w)
  show ?thesis
    using hold_inv[OF create_wallet_inv[OF assms(2)], of "new_reservation now i" now "ri_TenantID i" "ri_Currency i"
        "ri_InitialAllowance i" now] 1
    by (simp add: new_reservation_def)
qed

lemma settle_commit_inv:
  assumes "wallet_Settle flt now rid pt ct db = (Inr x, db')" "billing_inv db"
  shows "billing_inv db'"
  using assms(1)
proof (cases rule: wallet_Settle_commit)
  case settled
  then show ?thesis using assms(2) by simp
next
  case (charged r w c b rv)
  have "\<not> ledger_key_taken (charge_key rid) db"
    using charged(1,2) assms(2) by (rule charge_key_free)
  moreover have "l_IdempotencyKey (charge_entry now r c b) = Some (charge_key rid)"
    using tbl_find_SomeD[OF charged(1)] by (simp add: charge_entry_def)
  ultimately show ?thesis
    using settle_inv[OF assms(2) charged(1,2,3,6)] charged(7) by simp
qed

lemma topup_inv:
  assumes "topup_TopUp flt now newid i db = (Inr x, db')" "billing_inv db"
  shows "billing_inv db'"
  using assms(1)
proof (cases rule: topup_TopUp_commit)
  case repeated
  then show ?thesis using assms(2) by simp
next
  case (credited w b)
  let ?row = "new_topup now newid i"
  let ?d = "db\<lparr>topups := tbl_insert ?row (topups db)\<rparr>"
  let ?e = "topup_entry now newid i b"
  have "billing_inv ?d"
    using insert_topup_inv[OF assms(2), of ?row] credited(1) by (simp add: new_topup_def)
  then have "billing_inv (set_wallet now (ti_TenantID i) b None
      (create_wallet now (ti_TenantID i) (ti_Currency i) 0 ?d))"
    by (intro set_balance_inv create_wallet_inv)
  then show ?thesis
    unfolding credited(5) by (rule append_topup_entry_inv[where row="?row"])
      (simp_all add: tbl_insert_def topup_entry_def new_topup_def)
qed

lemma release_inv:
  "wallet_Release flt now rid db = (Inr x, db') \<Longrightarrow> billing_inv db \<Longrightarrow> billing_inv db'"
  by (erule wallet_Release_commit) (auto intro: unhold_inv)

lemma op_inv:
  assumes "billing_inv db"
  shows "billing_inv (snd (wallet_GetOrCreate flt now t c b db))"
    "billing_inv (snd (wallet_Reserve flt now i db))"
    "billing_inv (snd (wallet_Settle flt now rid pt ct db))"
    "billing_inv (snd (wallet_Release flt now rid db))"
    "picks_from pick \<Longrightarrow> billing_inv (snd (wallet_ReleaseExpired flt pick now limit db))"
    "billing_inv (snd (topup_TopUp flt now newid ti db))"
  subgoal using snd_GetOrCreate[of flt now t c b db] create_wallet_inv[OF assms] assms by metis
  subgoal by (rule by_outcome) (fact reserve_inv[OF _ assms] billing_rollback(1) assms)+
  subgoal by (rule by_outcome) (fact settle_commit_inv[OF _ assms] billing_rollback(2) assms)+
  subgoal by (rule by_outcome) (fact release_inv[OF _ assms] billing_rollback(3) assms)+
  subgoal by (rule by_outcome)
      (use wallet_ReleaseExpired_commit[OF _ assms] billing_rollback(4) assms in blast)+
  subgoal by (rule by_outcome) (fact topup_inv[OF _ assms] billing_rollback(5) assms)+
  done

lemma billing_step_inv: "billing_inv db \<Longrightarrow> picks_ok opn \<Longrightarrow> billing_inv (billing_step flt now opn db)"
  by (cases opn) (simp_all add: op_inv picks_ok_def)

lemma billing_run_inv:
  "billing_inv db \<Longrightarrow> \<forall>(flt, now, opn)\<in>set ops. picks_ok opn \<Longrightarrow> billing_inv (billing_run ops db)"
  by (induction ops db rule: billing_run.induct) (auto simp: billing_step_inv)

end
