(* ===== verification/BillingBooks.thy ===== *)
theory BillingBooks
  imports BillingProofs
begin

text \<open>
  The properties of the billing store: its invariant over runs, the audit of a wallet against its
  ledger, exactly-once charging and crediting, solvency under enforcement, and the rounding of costs.
\<close>

section \<open>The wallet is the replay of its ledger\<close>

definition entries :: "string \<Rightarrow> billing_db \<Rightarrow> ledgerRow list" where
  "entries tenant db = filter (\<lambda>e. l_TenantID e = tenant) (ledger db)"

text \<open>Every entry's \<open>balance_after\<close> is the balance before plus its amount.\<close>

fun chained :: "int \<Rightarrow> ledgerRow list \<Rightarrow> bool" where
  "chained b [] = True"
| "chained b (e # es) \<longleftrightarrow> l_BalanceAfter e = wrap64 (b + l_Amount e) \<and> chained (l_BalanceAfter e) es"

definition closing :: "int \<Rightarrow> ledgerRow list \<Rightarrow> int" where
  "closing b es = foldl (\<lambda>_ e. l_BalanceAfter e) b es"

definition books :: "string \<Rightarrow> int \<Rightarrow> billing_db \<Rightarrow> bool" where
  "books tenant opening db \<longleftrightarrow> (case tbl_find w_TenantID tenant (wallets db) of
      None \<Rightarrow> False
    | Some w \<Rightarrow> chained opening (entries tenant db) \<and> w_Balance w = closing opening (entries tenant db))"

lemma chained_append [simp]:
  "chained b (xs @ [e]) \<longleftrightarrow> chained b xs \<and> l_BalanceAfter e = wrap64 (closing b xs + l_Amount e)"
  by (induction b xs rule: chained.induct) (auto simp: closing_def)

lemma closing_append [simp]: "closing b (xs @ [e]) = l_BalanceAfter e"
  by (simp add: closing_def)

text \<open>The closing balance is the opening balance plus the sum of the amounts, as 64-bit integers.\<close>

lemma closing_sum: "chained b es \<Longrightarrow> wrap64 (closing b es) = wrap64 (b + sum_list (map l_Amount es))"
  by (induction es rule: rev_induct) (auto simp: closing_def add.assoc[symmetric] dest: arg_cong[of _ _ "\<lambda>x. wrap64 (x + _)"])

lemma entries_frames [simp]:
  "entries t (add_reserved now u d db) = entries t db"
  "entries t (set_reservation_status rid st x db) = entries t db"
  "entries t (set_wallet now u b y db) = entries t db"
  "entries t (create_wallet now u c b db) = entries t db"
  "entries t (db\<lparr>reservations := rs\<rparr>) = entries t db"
  "entries t (db\<lparr>topups := ts\<rparr>) = entries t db"
  "entries t (append_ledger e db) = entries t db @ (if l_TenantID e = t then [e\<lparr>l_ID := ledger_seq db\<rparr>] else [])"
  by (simp_all add: entries_def)

lemma books_same_ledger:
  assumes "books t b0 db" "entries t db' = entries t db"
    "map_option w_Balance (tbl_find w_TenantID t (wallets db')) =
     map_option w_Balance (tbl_find w_TenantID t (wallets db))"
  shows "books t b0 db'"
  using assms by (auto simp: books_def split: option.splits)

lemma books_entry:
  assumes b: "books t b0 db" and u: "tbl_unique w_TenantID (wallets db)"
    and w: "tbl_find w_TenantID (l_TenantID e) (wallets db) = Some w"
    and e: "l_BalanceAfter e = wrap64 (w_Balance w + l_Amount e)"
  shows "books t b0 (append_ledger e (set_wallet now (l_TenantID e) (l_BalanceAfter e) y db))"
  using b w e by (auto simp: books_def find_wallet u split: option.splits)

lemma books_create:
  assumes "books t b0 db" "tbl_unique w_TenantID (wallets db)"
  shows "books t b0 (create_wallet now u c b db)"
  using assms by (auto simp: books_def find_wallet split: option.splits)

lemma books_unhold:
  assumes "books t b0 db" "tbl_unique w_TenantID (wallets db)"
  shows "books t b0 (unhold now r db)"
  using assms by (intro books_same_ledger[OF assms(1)])
    (auto simp: unhold_def find_wallet option.map_comp comp_def intro: option.map_cong)

lemma unique_unhold:
  "tbl_unique w_TenantID (wallets (unhold now r db)) = tbl_unique w_TenantID (wallets db)"
  by (simp add: unhold_def)

lemma books_unhold_fold:
  "books t b0 db \<Longrightarrow> tbl_unique w_TenantID (wallets db) \<Longrightarrow> books t b0 (fold (unhold now) rows db)"
  by (induction rows arbitrary: db) (simp_all add: books_unhold unique_unhold)

lemma unique_create:
  "tbl_unique w_TenantID (wallets db) \<Longrightarrow> tbl_unique w_TenantID (wallets (create_wallet now t c b db))"
  by (simp add: create_wallet_def tbl_unique_insert_ignore)

lemma books_hold:
  assumes "books t b0 db" "tbl_unique w_TenantID (wallets db)"
  shows "books t b0 ((add_reserved now u d db)\<lparr>reservations := rs\<rparr>)"
  by (rule books_same_ledger[OF assms(1)])
    (auto simp: find_wallet assms(2) option.map_comp comp_def intro: option.map_cong)

lemma books_reserve:
  assumes "wallet_Reserve flt now i db = (Inr x, db')" "books t b0 db" "billing_inv db"
  shows "books t b0 db'"
  using assms(1)
proof (cases rule: wallet_Reserve_commit)
  case (1 w)
  have u: "tbl_unique w_TenantID (wallets db)" using assms(3) by (simp add: inv_defs)
  show ?thesis
    unfolding 1(5) by (rule books_hold[OF books_create[OF assms(2) u] unique_create[OF u]])
qed

lemma books_settle:
  assumes "wallet_Settle flt now rid pt ct db = (Inr x, db')" "books t b0 db" "billing_inv db"
  shows "books t b0 db'"
  using assms(1)
proof (cases rule: wallet_Settle_commit)
  case (charged r w c bal rv)
  let ?e = "charge_entry now r c bal"
  have u: "tbl_unique w_TenantID (wallets db)" using assms(3) by (simp add: inv_defs)
  have "books t b0 (append_ledger ?e (set_wallet now (l_TenantID ?e) (l_BalanceAfter ?e) (Some rv) db))"
    by (rule books_entry[OF assms(2) u, where w=w]) (simp_all add: charge_entry_def charged(3,5))
  then have "books t b0 (set_reservation_status rid ReservationSettled (Some now)
      (append_ledger ?e (set_wallet now (r_TenantID r) bal (Some rv) db)))"
    by (rule books_same_ledger) (simp_all add: charge_entry_def)
  then show ?thesis
    using charge_key_free[OF charged(1,2) assms(3)] charged(7) by simp
qed (simp add: assms)

lemma books_release:
  assumes "wallet_Release flt now rid db = (Inr x, db')" "books t b0 db" "billing_inv db"
  shows "books t b0 db'"
  using assms(1)
proof (cases rule: wallet_Release_commit)
  case (released r)
  then have "db' = unhold now r db" by (auto simp: unhold_def dest: tbl_find_SomeD)
  then show ?thesis using books_unhold[OF assms(2)] assms(3) by (simp add: inv_defs)
qed (simp add: assms)

lemma books_topup:
  assumes "topup_TopUp flt now newid i db = (Inr x, db')" "books t b0 db" "billing_inv db"
  shows "books t b0 db'"
  using assms(1)
proof (cases rule: topup_TopUp_commit)
  case (credited w bal)
  let ?d = "db\<lparr>topups := tbl_insert (new_topup now newid i) (topups db)\<rparr>"
  let ?c = "create_wallet now (ti_TenantID i) (ti_Currency i) 0 ?d"
  let ?e = "topup_entry now newid i bal"
  have u: "tbl_unique w_TenantID (wallets ?d)" using assms(3) by (simp add: inv_defs)
  have "books t b0 ?d" using assms(2) by (auto simp: books_def split: option.splits)
  then have "books t b0 (append_ledger ?e (set_wallet now (l_TenantID ?e) (l_BalanceAfter ?e) None ?c))"
    by (rule books_entry[OF books_create[OF _ u] unique_create[OF u], where w=w])
      (use credited(2,3) in \<open>simp_all add: topup_entry_def create_wallet_def\<close>)
  then show ?thesis unfolding credited(5) by (simp add: topup_entry_def)
qed (simp add: assms)

lemma books_reap:
  assumes "wallet_ReleaseExpired flt pick now limit db = (Inr n, db')" "books t b0 db" "billing_inv db"
    "picks_from pick"
  shows "books t b0 db'"
  using wallet_ReleaseExpired_commit[OF assms(1,3,4)] books_unhold_fold[OF assms(2)] assms(3)
  by (simp add: inv_defs)

lemma books_step:
  assumes b: "books t b0 db" and inv: "billing_inv db" and p: "picks_ok opn"
  shows "books t b0 (billing_step flt now opn db)"
proof (cases opn)
  case (OpGetOrCreate v c x)
  have u: "tbl_unique w_TenantID (wallets db)" using inv by (simp add: inv_defs)
  show ?thesis unfolding OpGetOrCreate billing_step.simps
    by (rule disjE[OF snd_GetOrCreate[of flt now v c x db]]) (simp_all add: b books_create u)
next
  case (OpReserve i)
  show ?thesis unfolding OpReserve billing_step.simps
    by (rule by_outcome) (fact books_reserve[OF _ b inv] billing_rollback b)+
next
  case (OpSettle rid pt ct)
  show ?thesis unfolding OpSettle billing_step.simps
    by (rule by_outcome) (fact books_settle[OF _ b inv] billing_rollback b)+
next
  case (OpRelease rid)
  show ?thesis unfolding OpRelease billing_step.simps
    by (rule by_outcome) (fact books_release[OF _ b inv] billing_rollback b)+
next
  case (OpReleaseExpired pick limit)
  then have pf: "picks_from pick" using p by (simp add: picks_ok_def)
  show ?thesis unfolding OpReleaseExpired billing_step.simps
    by (rule by_outcome) (fact books_reap[OF _ b inv pf] billing_rollback b)+
next
  case (OpTopUp newid i)
  show ?thesis unfolding OpTopUp billing_step.simps
    by (rule by_outcome) (fact books_topup[OF _ b inv] billing_rollback b)+
qed

lemma books_run:
  "books t b0 db \<Longrightarrow> billing_inv db \<Longrightarrow> \<forall>(flt, now, opn)\<in>set ops. picks_ok opn \<Longrightarrow>
   books t b0 (billing_run ops db)"
  by (induction ops db rule: billing_run.induct) (auto simp: books_step billing_step_inv)


section \<open>A concrete history\<close>

text \<open>
  One tenant with 1000 micro-credits; a held request of 300 that is settled for 120, a top-up, a hold
  the reaper takes back, and a settlement whose last statement fails.
\<close>

definition one_wallet :: "string \<Rightarrow> int \<Rightarrow> billing_db" where
  "one_wallet tenant bal =
    \<lparr>pricing = [], wallets = [\<lparr>w_TenantID = tenant, w_Currency = ''USD'', w_Balance = bal, w_Reserved = 0,
       w_UpdatedAt = 0\<rparr>], ledger = [], ledger_seq = 1, reservations = [], topups = []\<rparr>"

definition hold_input :: "string \<Rightarrow> string \<Rightarrow> int \<Rightarrow> bool \<Rightarrow> ReserveInput" where
  "hold_input tenant rid amount enf =
    \<lparr>ri_TenantID = tenant, ri_Currency = ''USD'', ri_InitialAllowance = 50, ri_Amount = amount,
     ri_InputPrice = 1000000, ri_OutputPrice = 2000000, ri_ReservationID = rid, ri_TTL = 10, ri_Enforce = enf\<rparr>"

definition topup_input :: "string \<Rightarrow> string \<Rightarrow> int \<Rightarrow> TopupInput" where
  "topup_input tenant key amount =
    \<lparr>ti_TenantID = tenant, ti_Currency = ''USD'', ti_Amount = amount, ti_Provider = ''mock'',
     ti_ProviderRef = ''mock:1'', ti_IdemKey = key\<rparr>"

definition history :: "(faults \<times> int \<times> billing_op) list" where
  "history =
    [(no_faults, 1, OpReserve (hold_input ''t'' ''r1'' 300 True)),
     (\<lambda>label k. label = ''settle: status'', 2, OpSettle ''r1'' 20 50),
     (no_faults, 3, OpSettle ''r1'' 20 50),
     (no_faults, 4, OpTopUp ''p1'' (topup_input ''t'' ''k'' 500)),
     (no_faults, 5, OpReserve (hold_input ''t'' ''r2'' 40 True)),
     (no_faults, 90, OpReleaseExpired (\<lambda>rows. rows) 500)]"

lemma history_picks: "\<forall>(flt, now, opn)\<in>set history. picks_ok opn"
  by (simp add: history_def picks_ok_def picks_from_def)

lemma one_wallet_inv: "in_int64 b \<Longrightarrow> billing_inv (one_wallet t b)"
  by (simp add: one_wallet_def inv_defs tbl_unique_def held_sum_def)

lemma one_wallet_books: "books t b (one_wallet t b)"
  by (simp add: one_wallet_def books_def entries_def closing_def tbl_find_def)

section \<open>Properties\<close>

text \<open>
  C1: Over any run of repository operations, with any statements failing, the aggregate invariant is
  kept: keys stay unique, every reservation keeps its wallet, the \<open>reserved\<close> column of every wallet
  is the (64-bit) sum of its held reservations, and no idempotency key of the ledger is without its
  settled reservation or recorded top-up.
\<close>

theorem billing_run_keeps_invariant:
  assumes "billing_inv db" "\<forall>(flt, now, opn)\<in>set ops. picks_ok opn"
  shows "billing_inv (billing_run ops db)"
  using assms by (rule billing_run_inv)

theorem billing_run_keeps_invariant_witness:
  "billing_inv (billing_run history (one_wallet ''t'' 1000))"
  by (rule billing_run_keeps_invariant[OF one_wallet_inv history_picks]) (simp add: in_int64_def)

text \<open>
  C2: The wallet can be audited against its ledger after any run: the entries of the tenant chain from
  the opening balance (each \<open>balance_after\<close> is the previous balance plus the amount), the wallet's
  balance is the last of them, and so it is the opening balance plus the sum of all charges and
  top-ups, as 64-bit integers. No operation moves money without an entry, and none enters it twice.
\<close>

theorem wallet_is_replay_of_ledger:
  assumes "billing_inv db" "books tenant opening db" "\<forall>(flt, now, opn)\<in>set ops. picks_ok opn"
  defines "db' \<equiv> billing_run ops db"
  shows "\<exists>w. tbl_find w_TenantID tenant (wallets db') = Some w \<and>
    chained opening (entries tenant db') \<and> w_Balance w = closing opening (entries tenant db') \<and>
    wrap64 (w_Balance w) = wrap64 (opening + sum_list (map l_Amount (entries tenant db')))"
  using books_run[OF assms(2,1,3)] closing_sum
  by (auto simp: books_def db'_def split: option.splits)

theorem wallet_is_replay_of_ledger_witness:
  "(\<exists>w. tbl_find w_TenantID ''t'' (wallets (billing_run history (one_wallet ''t'' 1000))) = Some w \<and>
    chained 1000 (entries ''t'' (billing_run history (one_wallet ''t'' 1000))) \<and>
    w_Balance w = closing 1000 (entries ''t'' (billing_run history (one_wallet ''t'' 1000))) \<and>
    wrap64 (w_Balance w) =
      wrap64 (1000 + sum_list (map l_Amount (entries ''t'' (billing_run history (one_wallet ''t'' 1000)))))) \<and>
   map l_Amount (entries ''t'' (billing_run history (one_wallet ''t'' 1000))) = [-120, 500]"
proof
  show "\<exists>w. tbl_find w_TenantID ''t'' (wallets (billing_run history (one_wallet ''t'' 1000))) = Some w \<and>
    chained 1000 (entries ''t'' (billing_run history (one_wallet ''t'' 1000))) \<and>
    w_Balance w = closing 1000 (entries ''t'' (billing_run history (one_wallet ''t'' 1000))) \<and>
    wrap64 (w_Balance w) =
      wrap64 (1000 + sum_list (map l_Amount (entries ''t'' (billing_run history (one_wallet ''t'' 1000)))))"
    by (rule wallet_is_replay_of_ledger[OF one_wallet_inv one_wallet_books history_picks])
      (simp add: in_int64_def)
  show "map l_Amount (entries ''t'' (billing_run history (one_wallet ''t'' 1000))) = [-120, 500]"
    by code_simp
qed


lemma settlement_charges_once_parts:
  assumes "billing_inv db" "tbl_find r_ID rid (reservations db) = Some r"
    "r_Status r = ReservationHeld" "tbl_find w_TenantID (r_TenantID r) (wallets db) = Some w"
    "wallet_Settle flt now rid pt ct db = (Inr (), db')"
  shows "map_option (\<lambda>v. (w_Balance v, w_Reserved v)) (tbl_find w_TenantID (r_TenantID r) (wallets db')) =
      Some (wrap64 (w_Balance w - reservation_charge r pt ct), wrap64 (w_Reserved w - r_Amount r))"
    "wallet_Settle no_faults now' rid pt' ct' db' = (Inr (), db')"
    "wallet_Release no_faults now' rid db' = (Inr (), db')"
proof -
  have u: "tbl_unique w_TenantID (wallets db)" "tbl_unique r_ID (reservations db)"
    using assms(1) by (simp_all add: inv_defs)
  from assms(5) have db': "db' = set_reservation_status rid ReservationSettled (Some now)
      (append_ledger (charge_entry now r (reservation_charge r pt ct)
          (wrap64 (w_Balance w - reservation_charge r pt ct)))
        (set_wallet now (r_TenantID r) (wrap64 (w_Balance w - reservation_charge r pt ct))
          (Some (wrap64 (w_Reserved w - r_Amount r))) db))"
    by (rule wallet_Settle_commit) (use assms(2-4) charge_key_free[OF assms(2) _ assms(1)] in auto)
  show "map_option (\<lambda>v. (w_Balance v, w_Reserved v)) (tbl_find w_TenantID (r_TenantID r) (wallets db')) =
      Some (wrap64 (w_Balance w - reservation_charge r pt ct), wrap64 (w_Reserved w - r_Amount r))"
    using assms(4) by (simp add: db' find_wallet u)
  have "tbl_find r_ID rid (reservations db') = Some (r\<lparr>r_Status := ReservationSettled, r_SettledAt := Some now\<rparr>)"
    unfolding db' by (subst find_set_status_same) (simp_all add: u assms(2))
  then show "wallet_Settle no_faults now' rid pt' ct' db' = (Inr (), db')"
    "wallet_Release no_faults now' rid db' = (Inr (), db')"
    by (simp_all add: wallet_Settle_def wallet_Release_def tx_simps)
qed

text \<open>
  C32: A reservation is charged once. A settlement that commits on a held reservation takes exactly the
  charge from the balance and exactly the hold from \<open>reserved\<close>; settling it again with any other token
  counts, or releasing it, commits and changes nothing.
\<close>

theorem settlement_charges_once:
  assumes "billing_inv db" "tbl_find r_ID rid (reservations db) = Some r"
    "r_Status r = ReservationHeld" "tbl_find w_TenantID (r_TenantID r) (wallets db) = Some w"
    "wallet_Settle flt now rid pt ct db = (Inr (), db')"
  shows "map_option (\<lambda>v. (w_Balance v, w_Reserved v)) (tbl_find w_TenantID (r_TenantID r) (wallets db')) =
      Some (wrap64 (w_Balance w - reservation_charge r pt ct), wrap64 (w_Reserved w - r_Amount r)) \<and>
    wallet_Settle no_faults now' rid pt' ct' db' = (Inr (), db') \<and>
    wallet_Release no_faults now' rid db' = (Inr (), db')"
  by (rule conjI, rule settlement_charges_once_parts(1)[OF assms], rule conjI,
      rule settlement_charges_once_parts(2)[OF assms], rule settlement_charges_once_parts(3)[OF assms])


definition held_db :: billing_db where
  "held_db = billing_run [(no_faults, 1, OpReserve (hold_input ''t'' ''r1'' 300 True))] (one_wallet ''t'' 1000)"

lemma held_db_inv: "billing_inv held_db"
  unfolding held_db_def by (rule billing_run_inv) (simp_all add: one_wallet_inv in_int64_def picks_ok_def)

definition held_row :: reservationRow where
  "held_row = new_reservation 1 (hold_input ''t'' ''r1'' 300 True)"

theorem settlement_charges_once_witness:
  "map_option (\<lambda>v. (w_Balance v, w_Reserved v)) (tbl_find w_TenantID ''t''
      (wallets (snd (wallet_Settle no_faults 2 ''r1'' 20 50 held_db)))) = Some (880, 0)"
proof -
  have "tbl_find r_ID ''r1'' (reservations held_db) = Some held_row" by code_simp
  moreover have "r_Status held_row = ReservationHeld" by code_simp
  moreover have "tbl_find w_TenantID (r_TenantID held_row) (wallets held_db) =
      Some \<lparr>w_TenantID = ''t'', w_Currency = ''USD'', w_Balance = 1000, w_Reserved = 300, w_UpdatedAt = 1\<rparr>"
    by code_simp
  moreover have "wallet_Settle no_faults 2 ''r1'' 20 50 held_db =
      (Inr (), snd (wallet_Settle no_faults 2 ''r1'' 20 50 held_db))"
    by code_simp
  moreover have "r_TenantID held_row = ''t''" by code_simp
  moreover have "wrap64 (1000 - reservation_charge held_row 20 50) = 880 \<and> wrap64 (300 - r_Amount held_row) = 0"
    by code_simp
  ultimately show ?thesis
    using settlement_charges_once[OF held_db_inv, THEN conjunct1, of "''r1''" held_row
      "\<lparr>w_TenantID = ''t'', w_Currency = ''USD'', w_Balance = 1000, w_Reserved = 300, w_UpdatedAt = 1\<rparr>"
      no_faults 2 20 50 "snd (wallet_Settle no_faults 2 ''r1'' 20 50 held_db)"]
    by simp
qed




section \<open>Cost\<close>

text \<open>
  Where nothing overflows the cost is the exact quotient rounded half up, so it is monotone in the
  number of tokens.
\<close>

definition cost_fits :: "int \<Rightarrow> int \<Rightarrow> bool" where
  "cost_fits n p \<longleftrightarrow> n * p + 500000 < 2 ^ 63"

lemma costMicro_exact:
  assumes "0 < n" "0 < p" "cost_fits n p"
  shows "costMicro n p = (n * p + 500000) div 1000000"
proof -
  have "0 < n * p" using assms by simp
  then show ?thesis
    using assms by (simp add: costMicro_def in_int64_nonneg go_div_nonneg cost_fits_def)
qed

lemma costMicro_zero: "\<not> (0 < n \<and> 0 < p) \<Longrightarrow> costMicro n p = 0"
  by (auto simp: costMicro_def)

lemma costMicro_nonneg: "cost_fits n p \<Longrightarrow> 0 \<le> costMicro n p"
  by (cases "0 < n \<and> 0 < p") (auto simp: costMicro_exact pos_imp_zdiv_nonneg_iff costMicro_zero)

lemma cost_fits_mono: "m \<le> n \<Longrightarrow> 0 \<le> p \<Longrightarrow> cost_fits n p \<Longrightarrow> cost_fits m p"
  using mult_right_mono[of m n p] by (simp add: cost_fits_def)

lemma costMicro_mono:
  assumes "m \<le> n" "cost_fits n p"
  shows "costMicro m p \<le> costMicro n p"
proof (cases "0 < m \<and> 0 < p")
  case True
  then have "m * p \<le> n * p" "0 < n" using assms(1) by simp_all
  moreover have "cost_fits m p" using True assms cost_fits_mono by simp
  ultimately show ?thesis
    using True assms by (simp add: costMicro_exact zdiv_mono1)
next
  case False
  then show ?thesis using costMicro_nonneg[OF assms(2)] by (simp add: costMicro_zero)
qed

lemma costMicro_rounds_half_up_parts:
  assumes "0 \<le> fewer" "fewer \<le> tokens" "0 \<le> price" "cost_fits tokens price"
  shows "2 * \<bar>1000000 * costMicro tokens price - tokens * price\<bar> \<le> 1000000"
    "costMicro fewer price \<le> costMicro tokens price"
    "costMicro (2 ^ 62) 4 = 0"
proof -
  show "2 * \<bar>1000000 * costMicro tokens price - tokens * price\<bar> \<le> 1000000"
  proof (cases "0 < tokens \<and> 0 < price")
    case True
    define x where "x = tokens * price + 500000"
    have "costMicro tokens price = x div 1000000"
      using costMicro_exact[of tokens price] True assms by (simp add: x_def)
    moreover have "1000000 * (x div 1000000) = x - x mod 1000000"
      by (simp add: minus_mod_eq_mult_div)
    moreover have "0 \<le> x mod 1000000" "x mod 1000000 < 1000000" by simp_all
    ultimately show ?thesis unfolding x_def by (simp add: abs_le_iff)
  next
    case False
    then have "tokens = 0 \<or> price = 0" using assms by linarith
    then show ?thesis by (auto simp: costMicro_def)
  qed
  show "costMicro fewer price \<le> costMicro tokens price"
    using costMicro_mono assms by blast
  show "costMicro (2 ^ 62) 4 = 0" by code_simp
qed

text \<open>
  The cost of a request is the exact price rounded half up to whole micro-credits: it differs from
  \<open>tokens * price / 1000000\<close> by at most half a micro-credit and never decreases with more tokens, as
  long as the 64-bit product does not overflow. Past that bound it wraps: \<open>2^62\<close> tokens at 4
  micro-credits per million cost nothing.
\<close>

theorem costMicro_rounds_half_up:
  assumes "0 \<le> fewer" "fewer \<le> tokens" "0 \<le> price" "cost_fits tokens price"
  shows "2 * \<bar>1000000 * costMicro tokens price - tokens * price\<bar> \<le> 1000000 \<and>
    costMicro fewer price \<le> costMicro tokens price \<and>
    costMicro (2 ^ 62) 4 = 0"
  by (rule conjI, rule costMicro_rounds_half_up_parts(1)[OF assms], rule conjI,
      rule costMicro_rounds_half_up_parts(2)[OF assms], rule costMicro_rounds_half_up_parts(3)[OF assms])


theorem costMicro_rounds_half_up_witness:
  "2 * \<bar>1000000 * costMicro 3 500000 - 3 * 500000\<bar> \<le> 1000000 \<and> costMicro 3 500000 = 2"
  using costMicro_rounds_half_up[of 3 3 500000] by (simp add: costMicro_exact cost_fits_def)

section \<open>Solvency\<close>

text \<open>
  What enforcement is for: no wallet is overdrawn. The operations are those of the service in enforce
  mode: holds are enforced and not negative, a settlement charges no more than its hold (or, once the
  reaper has taken the hold, no more than what is available), and credits do not overflow.
\<close>

definition solvent :: "billing_db \<Rightarrow> bool" where
  "solvent db \<longleftrightarrow> billing_inv db \<and>
    (\<forall>w\<in>set (wallets db). 0 \<le> w_Reserved w \<and> w_Reserved w \<le> w_Balance w \<and> w_Balance w < 2 ^ 63 \<and>
       w_Reserved w = held_sum (w_TenantID w) (reservations db)) \<and>
    (\<forall>r\<in>set (reservations db). 0 \<le> r_Amount r)"

definition charge_covered :: "billing_db \<Rightarrow> reservationRow \<Rightarrow> int \<Rightarrow> bool" where
  "charge_covered db r c \<longleftrightarrow> 0 \<le> c \<and>
    (if r_Status r = ReservationHeld then c \<le> r_Amount r
     else case tbl_find w_TenantID (r_TenantID r) (wallets db) of
        None \<Rightarrow> True | Some w \<Rightarrow> c \<le> w_Balance w - w_Reserved w)"

fun op_covered :: "billing_db \<Rightarrow> billing_op \<Rightarrow> bool" where
  "op_covered db (OpGetOrCreate tenant currency b) \<longleftrightarrow> 0 \<le> b \<and> b < 2 ^ 63"
| "op_covered db (OpReserve i) \<longleftrightarrow> ri_Enforce i \<and> 0 \<le> ri_Amount i \<and> 0 \<le> ri_InitialAllowance i \<and>
     ri_InitialAllowance i < 2 ^ 63"
| "op_covered db (OpSettle rid pt ct) \<longleftrightarrow> (case tbl_find r_ID rid (reservations db) of
     None \<Rightarrow> True
   | Some r \<Rightarrow> r_Status r = ReservationSettled \<or> charge_covered db r (reservation_charge r pt ct))"
| "op_covered db (OpRelease rid) \<longleftrightarrow> True"
| "op_covered db (OpReleaseExpired pick limit) \<longleftrightarrow> picks_from pick"
| "op_covered db (OpTopUp newid i) \<longleftrightarrow> 0 \<le> ti_Amount i \<and>
     (case tbl_find w_TenantID (ti_TenantID i) (wallets db) of
        None \<Rightarrow> ti_Amount i < 2 ^ 63 | Some w \<Rightarrow> w_Balance w + ti_Amount i < 2 ^ 63)"

text \<open>Solvency read through lookups.\<close>

definition covered :: "string \<Rightarrow> billing_db \<Rightarrow> walletRow \<Rightarrow> bool" where
  "covered t db w \<longleftrightarrow> 0 \<le> w_Reserved w \<and> w_Reserved w \<le> w_Balance w \<and> w_Balance w < 2 ^ 63 \<and>
     w_Reserved w = held_sum t (reservations db)"

lemma solvent_iff:
  "solvent db \<longleftrightarrow> billing_inv db \<and> (\<forall>r\<in>set (reservations db). 0 \<le> r_Amount r) \<and>
    (\<forall>t w. tbl_find w_TenantID t (wallets db) = Some w \<longrightarrow> covered t db w)"
proof (cases "billing_inv db")
  case True
  then have u: "tbl_unique w_TenantID (wallets db)" by (simp add: inv_defs)
  have "(\<forall>w\<in>set (wallets db). covered (w_TenantID w) db w) \<longleftrightarrow>
      (\<forall>t w. tbl_find w_TenantID t (wallets db) = Some w \<longrightarrow> covered t db w)"
    using tbl_find_unique[OF u] by (blast dest: tbl_find_SomeD)
  then show ?thesis by (auto simp: solvent_def covered_def)
qed (simp add: solvent_def)

lemma held_amount_le_sum:
  assumes "r \<in> set rs" "\<forall>r\<in>set rs. 0 \<le> r_Amount r"
  shows "held_amount t r \<le> held_sum t rs"
  unfolding held_sum_def
  using assms by (intro member_le_sum_list) (auto simp: held_amount_def)


lemma solventD:
  assumes "solvent db"
  shows "billing_inv db" "tbl_unique w_TenantID (wallets db)" "tbl_unique r_ID (reservations db)"
    "\<forall>r\<in>set (reservations db). 0 \<le> r_Amount r"
    "tbl_find w_TenantID t (wallets db) = Some w \<Longrightarrow> covered t db w"
  using assms by (simp_all add: solvent_iff inv_defs)

lemma covered_wrap [simp]: "covered t db w \<Longrightarrow> wrap64 (w_Balance w - w_Reserved w) = w_Balance w - w_Reserved w"
  by (simp add: covered_def in_int64_def)

lemma found_after_add_reserved:
  assumes "tbl_find w_TenantID t (wallets (add_reserved now u d db)) = Some v"
    "tbl_unique w_TenantID (wallets db)"
  obtains v0 where "tbl_find w_TenantID t (wallets db) = Some v0" "w_Balance v = w_Balance v0"
    "w_Reserved v = w_Reserved v0 + (if t = u then d else 0)"
  using assms by (auto simp: find_wallet split: if_splits)

lemma found_after_set_wallet:
  assumes "tbl_find w_TenantID t (wallets (set_wallet now u b (Some y) db)) = Some v"
    "tbl_unique w_TenantID (wallets db)"
  obtains v0 where "tbl_find w_TenantID t (wallets db) = Some v0"
    "w_Balance v = (if t = u then b else w_Balance v0)"
    "w_Reserved v = (if t = u then y else w_Reserved v0)"
  using assms by (auto simp: find_wallet split: if_splits)

lemma solvent_create:
  assumes "solvent db" "0 \<le> b" "b < 2 ^ 63"
  shows "solvent (create_wallet now t c b db)"
proof -
  note d = solventD[OF assms(1)]
  have "inv_owned db" using d(1) by (simp add: billing_inv_def)
  then have "covered u (create_wallet now t c b db) w"
    if "tbl_find w_TenantID u (wallets (create_wallet now t c b db)) = Some w" for u w
    using that d(5)[of u w] assms(2,3) held_sum_absent[of db u]
    by (auto simp: find_wallet_create[OF d(2)] covered_def split: if_splits)
  then show ?thesis using d(1,4) create_wallet_inv by (simp add: solvent_iff)
qed

lemma solvent_reserve:
  assumes "wallet_Reserve flt now i db = (Inr x, db')" "solvent db" "op_covered db (OpReserve i)"
  shows "solvent db'"
  using assms(1)
proof (cases rule: wallet_Reserve_commit)
  case (1 w)
  let ?d = "create_wallet now (ri_TenantID i) (ri_Currency i) (ri_InitialAllowance i) db"
  have s: "solvent ?d" using assms(2,3) by (intro solvent_create) simp_all
  note d = solventD[OF s]
  have w: "covered (ri_TenantID i) ?d w" using d(5) 1(1) .
  then have fits: "w_Reserved w + ri_Amount i \<le> w_Balance w"
    using 1(2) assms(3) covered_wrap[OF w] by (cases "0 < ri_Amount i") (auto simp: covered_def)
  have "billing_inv db'" by (rule reserve_inv[OF assms(1)]) (use assms(2) in \<open>simp add: solvent_iff\<close>)
  moreover have "\<forall>r\<in>set (reservations db'). 0 \<le> r_Amount r"
    using d(4) assms(3) by (auto simp: 1(5) tbl_insert_def new_reservation_def)
  moreover have "covered t db' v" if v: "tbl_find w_TenantID t (wallets db') = Some v" for t v
  proof -
    from v obtain v0 where v0: "tbl_find w_TenantID t (wallets ?d) = Some v0" "w_Balance v = w_Balance v0"
      "w_Reserved v = w_Reserved v0 + (if t = ri_TenantID i then ri_Amount i else 0)"
      by (auto simp: 1(5) elim!: found_after_add_reserved[OF _ d(2)])
    show ?thesis
      using d(5)[OF v0(1)] v0 fits 1(1) assms(3)
      by (auto simp: 1(5) covered_def tbl_insert_def new_reservation_def held_amount_def)
  qed
  ultimately show ?thesis by (simp add: solvent_iff)
qed

lemma solvent_settle:
  assumes "wallet_Settle flt now rid pt ct db = (Inr x, db')" "solvent db"
    "op_covered db (OpSettle rid pt ct)"
  shows "solvent db'"
  using assms(1)
proof (cases rule: wallet_Settle_commit)
  case (charged r w c b rv)
  note d = solventD[OF assms(2)]
  have w: "covered (r_TenantID r) db w" using d(5) charged(3) .
  have cc: "charge_covered db r c" using assms(3) charged by simp
  have "r \<in> set (reservations db)" using tbl_find_SomeD[OF charged(1)] by simp
  then have "r_Amount r \<le> w_Reserved w" if "r_Status r = ReservationHeld"
    using held_amount_le_sum[OF _ d(4), of r "r_TenantID r"] w that by (simp add: held_amount_def covered_def)
  moreover have "0 \<le> r_Amount r" using \<open>r \<in> _\<close> d(4) by blast
  ultimately have b: "b = w_Balance w - c"
    "rv = w_Reserved w - (if r_Status r = ReservationHeld then r_Amount r else 0)"
    and le: "0 \<le> rv" "rv \<le> b" "b < 2 ^ 63"
    using w cc charged(3,5,6)
    by (auto simp: covered_def charge_covered_def in_int64_def split: if_splits)
  have "billing_inv db'" by (rule settle_commit_inv[OF assms(1) d(1)])
  moreover have "\<forall>r\<in>set (reservations db'). 0 \<le> r_Amount r"
    using d(4) charged(7) by (auto simp: set_reservation_status_def tbl_update_def)
  moreover have "covered t db' v" if v: "tbl_find w_TenantID t (wallets db') = Some v" for t v
  proof -
    from v obtain v0 where v0: "tbl_find w_TenantID t (wallets db) = Some v0"
      "w_Balance v = (if t = r_TenantID r then b else w_Balance v0)"
      "w_Reserved v = (if t = r_TenantID r then rv else w_Reserved v0)"
      using charge_key_free[OF charged(1,2) d(1)]
      by (auto simp: charged(7) elim!: found_after_set_wallet[OF _ d(2)])
    show ?thesis
      using d(5)[OF v0(1)] v0 w le b charged(1,3,7) charge_key_free[OF charged(1,2) d(1)]
      by (auto simp: covered_def held_sum_set_status held_amount_def d(3) split: if_splits)
  qed
  ultimately show ?thesis by (simp add: solvent_iff)
qed (simp add: assms)

lemma solvent_unhold:
  assumes "solvent db" "tbl_find r_ID (r_ID r) (reservations db) = Some r" "r_Status r = ReservationHeld"
    "billing_inv (unhold now r db)"
  shows "solvent (unhold now r db)"
proof -
  note d = solventD[OF assms(1)]
  have r: "r \<in> set (reservations db)" using tbl_find_SomeD[OF assms(2)] by simp
  then have "0 \<le> r_Amount r" using d(4) by blast
  moreover have "r_Amount r \<le> held_sum (r_TenantID r) (reservations db)"
    using held_amount_le_sum[OF r d(4), of "r_TenantID r"] assms(3) by (simp add: held_amount_def)
  ultimately have amt: "0 \<le> r_Amount r" "r_Amount r \<le> held_sum (r_TenantID r) (reservations db)" .
  have "covered t (unhold now r db) v"
    if v: "tbl_find w_TenantID t (wallets (unhold now r db)) = Some v" for t v
  proof -
    from v obtain v0 where v0: "tbl_find w_TenantID t (wallets db) = Some v0" "w_Balance v = w_Balance v0"
      "w_Reserved v = w_Reserved v0 + (if t = r_TenantID r then - r_Amount r else 0)"
      by (auto simp: unhold_def elim!: found_after_add_reserved[OF _ d(2)])
    show ?thesis
      using d(5)[OF v0(1)] v0 amt assms(2,3)
      by (auto simp: unhold_def covered_def held_sum_set_status d held_amount_def)
  qed
  moreover have "\<forall>r'\<in>set (reservations (unhold now r db)). 0 \<le> r_Amount r'"
    using d(4) by (auto simp: unhold_def set_reservation_status_def tbl_update_def)
  ultimately show ?thesis using assms(4) by (simp add: solvent_iff)
qed


lemma solvent_reap:
  assumes "wallet_ReleaseExpired flt pick now limit db = (Inr n, db')" "solvent db" "picks_from pick"
  shows "solvent db'"
proof -
  have step: "reap_rows flt now rows db = (Inr n, db') \<Longrightarrow> releasable db rows \<Longrightarrow> solvent db \<Longrightarrow>
      solvent db'" for rows n and db
  proof (induction rows arbitrary: n db)
    case (Cons r rows)
    have inv: "billing_inv db" using Cons.prems(3) by (simp add: solvent_iff)
    from Cons.prems(1) obtain m where
      range: "reserved_in_range (r_TenantID r) (- r_Amount r) db"
      and rest: "reap_rows flt now rows (unhold now r db) = (Inr m, db')"
      by (auto simp: tx_ok sql_add_reserved_def unhold_def)
    have r: "tbl_find r_ID (r_ID r) (reservations db) = Some r" "r_Status r = ReservationHeld"
      using Cons.prems(2) by (simp_all add: releasable_def)
    have "solvent (unhold now r db)"
      using solvent_unhold[OF Cons.prems(3) r] unhold_inv[OF inv r range] by (simp add: unhold_def)
    then show ?case by (rule Cons.IH[OF rest releasable_step[OF Cons.prems(2) inv]])
  qed simp
  have "billing_inv db" using assms(2) by (simp add: solvent_iff)
  moreover have "reap_rows flt now (take (nat limit) (pick (expired_holds now db))) db = (Inr n, db')"
    using assms(1) by (simp add: wallet_ReleaseExpired_def tx_ok)
  ultimately show ?thesis
    using step releasable_picked[OF _ assms(3)] assms(2) by blast
qed

lemma solvent_topup:
  assumes "topup_TopUp flt now newid i db = (Inr x, db')" "solvent db" "op_covered db (OpTopUp newid i)"
  shows "solvent db'"
  using assms(1)
proof (cases rule: topup_TopUp_commit)
  case (credited w b)
  let ?d = "create_wallet now (ti_TenantID i) (ti_Currency i) 0 db"
  let ?r = "db\<lparr>topups := tbl_insert (new_topup now newid i) (topups db)\<rparr>"
  let ?c = "create_wallet now (ti_TenantID i) (ti_Currency i) 0 ?r"
  have wc: "wallets ?c = wallets ?d" by (simp add: create_wallet_def)
  have s: "solvent ?d" using assms(2) by (intro solvent_create) simp_all
  note d = solventD[OF s]
  have w: "covered (ti_TenantID i) ?d w" using d(5) credited(2) .
  have b: "b = w_Balance w + ti_Amount i" "b < 2 ^ 63" "0 \<le> ti_Amount i"
    using credited(2,3) assms(3) w solventD(2)[OF assms(2)]
    by (auto simp: find_wallet_create covered_def in_int64_def split: option.splits)
  have "covered t db' v" if v: "tbl_find w_TenantID t (wallets db') = Some v" for t v
  proof -
    have find: "tbl_find w_TenantID t (wallets db') =
        (if t = ti_TenantID i then map_option (\<lambda>v. v\<lparr>w_Balance := b, w_UpdatedAt := now\<rparr>)
           (tbl_find w_TenantID t (wallets ?d)) else tbl_find w_TenantID t (wallets ?d))"
      using d(2) unfolding wc[symmetric] by (simp add: credited(5) find_wallet_set_wallet option.map_comp)
    obtain v0 where v0: "tbl_find w_TenantID t (wallets ?d) = Some v0"
      "w_Balance v = (if t = ti_TenantID i then b else w_Balance v0)" "w_Reserved v = w_Reserved v0"
      using v unfolding find by (auto split: if_splits)
    show ?thesis
      using d(5)[OF v0(1)] v0 b w credited(2) by (auto simp: covered_def credited(5) split: if_splits)
  qed
  moreover have "billing_inv db'" by (rule topup_inv[OF assms(1) solventD(1)[OF assms(2)]])
  moreover have "\<forall>r\<in>set (reservations db'). 0 \<le> r_Amount r"
    using d(4) by (simp add: credited(5))
  ultimately show ?thesis by (simp add: solvent_iff)
qed (simp add: assms)

lemma solvent_release:
  assumes "wallet_Release flt now rid db = (Inr x, db')" "solvent db"
  shows "solvent db'"
  using assms(1)
proof (cases rule: wallet_Release_commit)
  case (released r)
  have eq: "db' = unhold now r db" using released by (auto simp: unhold_def dest: tbl_find_SomeD)
  have "billing_inv db'" by (rule release_inv[OF assms(1) solventD(1)[OF assms(2)]])
  then show ?thesis
    using solvent_unhold[OF assms(2), of r now] released(1,2) tbl_find_SomeD[OF released(1)] eq by simp
qed (simp add: assms)

lemma solvent_step:
  assumes s: "solvent db" and c: "op_covered db opn"
  shows "solvent (billing_step flt now opn db)"
proof (cases opn)
  case (OpGetOrCreate v cur x)
  then have x: "0 \<le> x" "x < 2 ^ 63" using c by simp_all
  show ?thesis unfolding OpGetOrCreate billing_step.simps
    by (rule disjE[OF snd_GetOrCreate[of flt now v cur x db]]) (simp_all only: s solvent_create[OF s x])
next
  case (OpReserve i)
  show ?thesis unfolding OpReserve billing_step.simps
    by (rule by_outcome) (fact solvent_reserve[OF _ s c[unfolded OpReserve]] billing_rollback s)+
next
  case (OpSettle rid pt ct)
  show ?thesis unfolding OpSettle billing_step.simps
    by (rule by_outcome) (fact solvent_settle[OF _ s c[unfolded OpSettle]] billing_rollback s)+
next
  case (OpRelease rid)
  show ?thesis unfolding OpRelease billing_step.simps
    by (rule by_outcome) (fact solvent_release[OF _ s] billing_rollback s)+
next
  case (OpReleaseExpired pick limit)
  then have pf: "picks_from pick" using c by simp
  show ?thesis unfolding OpReleaseExpired billing_step.simps
    by (rule by_outcome) (fact solvent_reap[OF _ s pf] billing_rollback s)+
next
  case (OpTopUp newid i)
  show ?thesis unfolding OpTopUp billing_step.simps
    by (rule by_outcome) (fact solvent_topup[OF _ s c[unfolded OpTopUp]] billing_rollback s)+
qed

fun run_covered :: "(faults \<times> int \<times> billing_op) list \<Rightarrow> billing_db \<Rightarrow> bool" where
  "run_covered [] db \<longleftrightarrow> True"
| "run_covered ((flt, now, opn) # rest) db \<longleftrightarrow>
     op_covered db opn \<and> run_covered rest (billing_step flt now opn db)"

text \<open>
  C34: Under enforcement no wallet is ever overdrawn. If every hold of a run is enforced and not
  negative, every settlement charges at most its hold (or, after the reaper took the hold, at most
  what is available) and no credit overflows, then after the run every wallet has
  \<open>0 <= reserved <= balance\<close>, and \<open>reserved\<close> is exactly the sum of its holds: the available amount is
  never negative, whatever statements failed in between.
\<close>

theorem enforced_wallets_stay_solvent:
  assumes "solvent db" "run_covered ops db"
  shows "solvent (billing_run ops db)"
  using assms by (induction ops db rule: run_covered.induct) (auto simp: solvent_step)

theorem enforced_wallets_stay_solvent_witness:
  "solvent (billing_run history (one_wallet ''t'' 1000))"
proof (rule enforced_wallets_stay_solvent)
  show "solvent (one_wallet ''t'' 1000)"
    using one_wallet_inv[of 1000 "''t''"]
    by (simp add: solvent_def in_int64_def) (simp add: one_wallet_def held_sum_def)
  have p: "picks_from (\<lambda>rows. rows)" by (simp add: picks_from_def)
  show "run_covered history (one_wallet ''t'' 1000)"
    unfolding history_def run_covered.simps op_covered.simps(1-4,6)
    by (intro conjI; (simp add: p; fail)?) code_simp+
qed

end
