(* ===== verification/Http.thy ===== *)
theory Http
  imports Prelude
begin

text \<open>
  What the HTTP handlers of all services share: the response envelopes of \<open>pkg/response\<close>, query
  parameters read with \<open>strconv.Atoi\<close>, and the status codes of \<open>net/http\<close> the code uses. A handler is
  a function to the response it writes; the body of a request, once bound from JSON, is an option
  (None when binding fails).
\<close>

datatype 'a response =
    WriteJSON int 'a
  | WriteAPIError int string string
  | WriteOpenAIError int string string

definition status_of :: "'a response \<Rightarrow> int" where
  "status_of r = (case r of WriteJSON s _ \<Rightarrow> s | WriteAPIError s _ _ \<Rightarrow> s | WriteOpenAIError s _ _ \<Rightarrow> s)"

abbreviation StatusOK :: int where "StatusOK \<equiv> 200"
abbreviation StatusCreated :: int where "StatusCreated \<equiv> 201"
abbreviation StatusAccepted :: int where "StatusAccepted \<equiv> 202"
abbreviation StatusNoContent :: int where "StatusNoContent \<equiv> 204"
abbreviation StatusBadRequest :: int where "StatusBadRequest \<equiv> 400"
abbreviation StatusUnauthorized :: int where "StatusUnauthorized \<equiv> 401"
abbreviation StatusPaymentRequired :: int where "StatusPaymentRequired \<equiv> 402"
abbreviation StatusForbidden :: int where "StatusForbidden \<equiv> 403"
abbreviation StatusNotFound :: int where "StatusNotFound \<equiv> 404"
abbreviation StatusConflict :: int where "StatusConflict \<equiv> 409"
abbreviation StatusTooManyRequests :: int where "StatusTooManyRequests \<equiv> 429"
abbreviation StatusInternalServerError :: int where "StatusInternalServerError \<equiv> 500"
abbreviation StatusNotImplemented :: int where "StatusNotImplemented \<equiv> 501"
abbreviation StatusBadGateway :: int where "StatusBadGateway \<equiv> 502"
abbreviation StatusServiceUnavailable :: int where "StatusServiceUnavailable \<equiv> 503"

text \<open>\<open>strconv.Atoi\<close>: an optional sign, at least one digit, in the range of \<open>int\<close>.\<close>

definition is_digit :: "char \<Rightarrow> bool" where
  "is_digit c \<longleftrightarrow> 48 \<le> (of_char c :: nat) \<and> (of_char c :: nat) \<le> 57"

fun digits_value :: "int \<Rightarrow> string \<Rightarrow> int option" where
  "digits_value acc [] = Some acc"
| "digits_value acc (c # cs) =
    (if is_digit c then digits_value (10 * acc + (of_char c - 48)) cs else None)"

definition in_range :: "int option \<Rightarrow> int option" where
  "in_range v = (case v of None \<Rightarrow> None | Some n \<Rightarrow> if in_int64 n then Some n else None)"

definition atoi :: "string \<Rightarrow> int option" where
  "atoi s = (case s of
      [] \<Rightarrow> None
    | c # cs \<Rightarrow>
        if c = CHR ''-'' then (if cs = [] then None else in_range (map_option uminus (digits_value 0 cs)))
        else if c = CHR ''+'' then (if cs = [] then None else in_range (digits_value 0 cs))
        else in_range (digits_value 0 s))"

lemma atoi_range: "atoi s = Some n \<Longrightarrow> in_int64 n"
  by (auto simp: atoi_def in_range_def split: list.splits option.splits if_splits)

text \<open>A list limit read from the query string: absent or malformed values keep the default.\<close>

definition query_limit :: "int \<Rightarrow> string \<Rightarrow> int" where
  "query_limit dflt v = (case atoi v of None \<Rightarrow> dflt | Some n \<Rightarrow> n)"

text \<open>The clamp of the list operations: a default for non-positive limits, and an upper bound.\<close>

definition clamp_limit :: "int \<Rightarrow> int \<Rightarrow> int \<Rightarrow> int" where
  "clamp_limit dflt maximum n =
    (let n' = (if n \<le> 0 then dflt else n) in if n' > maximum then maximum else n')"

lemma clamp_limit_bounds: "0 < dflt \<Longrightarrow> 0 < m \<Longrightarrow> 0 < clamp_limit dflt m n \<and> clamp_limit dflt m n \<le> m"
  by (simp add: clamp_limit_def Let_def)

text \<open>\<open>strconv.Atoi\<close> reads back what \<open>strconv.Itoa\<close> prints.\<close>

lemma digit_char [simp]: "d < 10 \<Longrightarrow> is_digit (char_of (48 + d :: nat))"
  by (simp add: is_digit_def)

lemma nat_digits_are_digits: "c \<in> set (nat_digits n) \<Longrightarrow> is_digit c"
proof (induction n rule: nat_digits.induct)
  case (1 n)
  show ?case
  proof (cases "n < 10")
    case True
    then show ?thesis using 1(2) by (simp add: nat_digits.simps[of n])
  next
    case False
    then have "c \<in> set (nat_digits (n div 10)) \<or> c = char_of (48 + n mod 10)"
      using 1(2) False by (subst (asm) nat_digits.simps) auto
    then show ?thesis using 1(1)[OF False] digit_char[of "n mod 10"] by auto
  qed
qed

lemma nat_digits_nonempty [simp]: "nat_digits n \<noteq> []"
  by (subst nat_digits.simps) simp

lemma digits_value_append:
  "digits_value acc (xs @ ys) = Option.bind (digits_value acc xs) (\<lambda>a. digits_value a ys)"
  by (induction xs arbitrary: acc) auto

lemma digits_value_digit: "d < 10 \<Longrightarrow> digits_value acc [char_of (48 + d)] = Some (10 * acc + int d)"
proof -
  assume d: "d < 10"
  have "(of_char (char_of (48 + d)) :: int) = int (of_char (char_of (48 + d)))" by (simp only: of_nat_of_char)
  also have "\<dots> = 48 + int d" using d by simp
  finally show ?thesis using d by simp
qed

lemma digits_value_nat_digits: "digits_value 0 (nat_digits n) = Some (int n)"
proof (induction n rule: nat_digits.induct)
  case (1 n)
  show ?case
  proof (cases "n < 10")
    case True
    then show ?thesis by (simp add: nat_digits.simps[of n] digits_value_digit del: digits_value.simps)
  next
    case False
    have "digits_value 0 (nat_digits n) = digits_value (int (n div 10)) [char_of (48 + n mod 10)]"
      using 1[OF False] False by (subst nat_digits.simps) (simp add: digits_value_append del: digits_value.simps)
    also have "\<dots> = Some (10 * int (n div 10) + int (n mod 10))" by (rule digits_value_digit) simp
    also have "10 * int (n div 10) + int (n mod 10) = int n"
      by (metis mult_div_mod_eq of_nat_add of_nat_mult of_nat_numeral)
    finally show ?thesis .
  qed
qed

lemma atoi_itoa:
  assumes "0 \<le> n" "in_int64 n" shows "atoi (itoa n) = Some n"
proof -
  obtain c cs where d: "nat_digits (nat n) = c # cs" by (meson list.exhaust nat_digits_nonempty)
  then have "is_digit c" using nat_digits_are_digits[of c "nat n"] by simp
  then have "c \<noteq> CHR ''-''" "c \<noteq> CHR ''+''" by (auto simp: is_digit_def)
  then have "atoi (nat_digits (nat n)) = in_range (digits_value 0 (nat_digits (nat n)))" by (simp add: atoi_def d)
  then show ?thesis using assms by (simp add: itoa_def digits_value_nat_digits in_range_def)
qed

end
