(* ===== verification/BillingService.thy ===== *)
theory BillingService
  imports BillingBooks Http
begin

text \<open>
  The billing use cases (\<open>service.go\<close>, \<open>pricing.go\<close>, \<open>wallet.go\<close>, \<open>topup.go\<close>, \<open>provider.go\<close>,
  \<open>reaper.go\<close>) and their HTTP handlers (\<open>handlers.go\<close>). The payment provider is a parameter: a
  function of tenant, amount and key to an error or a reference. Metrics and logs are left out.
\<close>

section \<open>The service\<close>

datatype billing_mode = ModeOff | ModeShadow | ModeEnforce | ModeOther string

text \<open>The configured mode is a string; any other text behaves as shadow does.\<close>

definition mode_of :: "string \<Rightarrow> billing_mode" where
  "mode_of s = (if s = ''off'' then ModeOff else if s = ''shadow'' then ModeShadow
     else if s = ''enforce'' then ModeEnforce else ModeOther s)"

record BillingConfig =
  bc_Mode :: string
  bc_Currency :: string
  bc_InitialAllowance :: int
  bc_ReservationTTL :: int

definition NewService_cfg :: "BillingConfig \<Rightarrow> BillingConfig" where
  "NewService_cfg cfg = cfg
    \<lparr>bc_Currency := (if bc_Currency cfg = [] then ''USD'' else bc_Currency cfg),
     bc_Mode := (if bc_Mode cfg = [] then ''shadow'' else bc_Mode cfg),
     bc_ReservationTTL := (if bc_ReservationTTL cfg \<le> 0 then 900000000000 else bc_ReservationTTL cfg)\<rparr>"

definition svc_UpsertPrice ::
  "BillingConfig \<Rightarrow> faults \<Rightarrow> int \<Rightarrow> string \<Rightarrow> Price \<Rightarrow> (billing_db, billing_error, Price) tx" where
  "svc_UpsertPrice cfg flt now newid p0 =
    (let p = p0\<lparr>Model := trim_space (Model p0),
                Currency := (if Currency p0 = [] then bc_Currency cfg else Currency p0)\<rparr> in
     if Model p = [] \<or> PricePerMillionInputTokens p < 0 \<or> PricePerMillionOutputTokens p < 0
     then tx_fail ErrInvalidPrice
     else tx_bind (pricing_Upsert flt now newid p) (\<lambda>_. pricing_Get flt (Model p) (Currency p)))"

definition priceFor :: "BillingConfig \<Rightarrow> faults \<Rightarrow> string \<Rightarrow> (billing_db, billing_error, Price) tx" where
  "priceFor cfg flt model = pricing_Get flt model (bc_Currency cfg)"

definition svc_ListLedger ::
  "faults \<Rightarrow> string \<Rightarrow> int \<Rightarrow> (billing_db, billing_error, LedgerEntry list) tx" where
  "svc_ListLedger flt tenant limit = wallet_ListLedger flt tenant (clamp_limit 50 200 limit)"

definition free_price :: "BillingConfig \<Rightarrow> Price" where
  "free_price cfg = \<lparr>Model = [], Currency = bc_Currency cfg, PricePerMillionInputTokens = 0,
     PricePerMillionOutputTokens = 0\<rparr>"

text \<open>\<open>Reserve\<close>: a model without a price is held for zero; any other failure of the lookup is returned.\<close>

definition price_or_free ::
  "BillingConfig \<Rightarrow> faults \<Rightarrow> string \<Rightarrow> (billing_db, billing_error, Price) tx" where
  "price_or_free cfg flt model db = (case priceFor cfg flt model db of
      (Inl ErrNoPrice, db') \<Rightarrow> (Inr (free_price cfg), db')
    | other \<Rightarrow> other)"

definition reserve_input ::
  "BillingConfig \<Rightarrow> string \<Rightarrow> string \<Rightarrow> Price \<Rightarrow> int \<Rightarrow> int \<Rightarrow> ReserveInput" where
  "reserve_input cfg tenant newid price estInput maxOutput =
    \<lparr>ri_TenantID = tenant,
     ri_Currency = (if Currency price = [] then bc_Currency cfg else Currency price),
     ri_InitialAllowance = bc_InitialAllowance cfg,
     ri_Amount = wrap64 (costMicro estInput (PricePerMillionInputTokens price) +
                         costMicro maxOutput (PricePerMillionOutputTokens price)),
     ri_InputPrice = PricePerMillionInputTokens price, ri_OutputPrice = PricePerMillionOutputTokens price,
     ri_ReservationID = newid, ri_TTL = bc_ReservationTTL cfg,
     ri_Enforce = (mode_of (bc_Mode cfg) = ModeEnforce)\<rparr>"

definition svc_Reserve ::
  "BillingConfig \<Rightarrow> faults \<Rightarrow> int \<Rightarrow> string \<Rightarrow> string \<Rightarrow> string \<Rightarrow> int \<Rightarrow> int \<Rightarrow> (billing_db, billing_error, string) tx" where
  "svc_Reserve cfg flt now newid tenant model estInput maxOutput =
    (if mode_of (bc_Mode cfg) = ModeOff then tx_return []
     else tx_bind (price_or_free cfg flt model) (\<lambda>price.
       tx_bind (wallet_Reserve flt now (reserve_input cfg tenant newid price estInput maxOutput))
         (\<lambda>_. tx_return newid)))"

definition svc_Settle ::
  "BillingConfig \<Rightarrow> faults \<Rightarrow> int \<Rightarrow> string \<Rightarrow> int \<Rightarrow> int \<Rightarrow> (billing_db, billing_error, unit) tx" where
  "svc_Settle cfg flt now rid promptTokens completionTokens =
    (if rid = [] \<or> mode_of (bc_Mode cfg) = ModeOff then tx_return ()
     else wallet_Settle flt now rid promptTokens completionTokens)"

definition svc_Release :: "BillingConfig \<Rightarrow> faults \<Rightarrow> int \<Rightarrow> string \<Rightarrow> (billing_db, billing_error, unit) tx" where
  "svc_Release cfg flt now rid =
    (if rid = [] \<or> mode_of (bc_Mode cfg) = ModeOff then tx_return () else wallet_Release flt now rid)"

definition svc_ReapExpired ::
  "BillingConfig \<Rightarrow> faults \<Rightarrow> (reservationRow list \<Rightarrow> reservationRow list) \<Rightarrow> int \<Rightarrow> int \<Rightarrow>
   (billing_db, billing_error, nat) tx" where
  "svc_ReapExpired cfg flt pick now limit =
    (if mode_of (bc_Mode cfg) = ModeOff then tx_return 0 else wallet_ReleaseExpired flt pick now limit)"

text \<open>\<open>TopUp\<close>: the provider is charged before the idempotency key is looked up.\<close>

definition svc_TopUp ::
  "BillingConfig \<Rightarrow> string \<Rightarrow> (string \<Rightarrow> int \<Rightarrow> string \<Rightarrow> billing_error + string) \<Rightarrow> faults \<Rightarrow> int \<Rightarrow> string \<Rightarrow>
   string \<Rightarrow> int \<Rightarrow> string \<Rightarrow> (billing_db, billing_error, TopupTransaction) tx" where
  "svc_TopUp cfg provider charge flt now newid tenant amountMicro idemKey =
    (if amountMicro \<le> 0 then tx_fail ErrInvalidAmount
     else if idemKey = [] then tx_fail billing_error.ErrInvalidRequest
     else case charge tenant amountMicro idemKey of
       Inl e \<Rightarrow> tx_fail e
     | Inr ref \<Rightarrow> topup_TopUp flt now newid
         \<lparr>ti_TenantID = tenant, ti_Currency = bc_Currency cfg, ti_Amount = amountMicro,
          ti_Provider = provider, ti_ProviderRef = ref, ti_IdemKey = idemKey\<rparr>)"

definition MockProvider_Charge :: "string \<Rightarrow> string \<Rightarrow> int \<Rightarrow> string \<Rightarrow> billing_error + string" where
  "MockProvider_Charge newid tenant amount idemKey = Inr (''mock:'' @ newid)"

section \<open>The reaper loop\<close>

definition reapBatch :: int where
  "reapBatch = 500"

text \<open>
  One sweep at once and one per tick until the context is cancelled: \<open>ticks\<close> are the sweeps that run,
  each with its clock, its failing statements and the rows it is given. An error is logged only.
\<close>

fun reaper_loop ::
  "BillingConfig \<Rightarrow> (faults \<times> (reservationRow list \<Rightarrow> reservationRow list) \<times> int) list \<Rightarrow> billing_db \<Rightarrow> billing_db" where
  "reaper_loop cfg [] db = db"
| "reaper_loop cfg ((flt, pick, now) # ticks) db =
     reaper_loop cfg ticks (snd (svc_ReapExpired cfg flt pick now reapBatch db))"

section \<open>Handlers\<close>

definition billing_message :: "billing_error \<Rightarrow> string" where
  "billing_message e = (case e of
      billing_error.ErrNotFound \<Rightarrow> ''not found'' | ErrInsufficientCredits \<Rightarrow> ''insufficient credits''
    | ErrNoPrice \<Rightarrow> ''no price for model'' | ErrIdempotencyConflict \<Rightarrow> ''idempotency key conflict''
    | ErrInvalidAmount \<Rightarrow> ''invalid amount'' | billing_error.ErrInvalidRequest \<Rightarrow> ''invalid request''
    | ErrInvalidPrice \<Rightarrow> ''invalid price'' | DBError t \<Rightarrow> t | ProviderError t \<Rightarrow> t)"

definition json_or_500 :: "billing_error + 'a \<Rightarrow> 'a response" where
  "json_or_500 r = (case r of
      Inl e \<Rightarrow> WriteAPIError StatusInternalServerError ''INTERNAL_ERROR'' (billing_message e)
    | Inr x \<Rightarrow> WriteJSON StatusOK x)"

definition billing_handleGetWallet :: "faults \<Rightarrow> string \<Rightarrow> billing_db \<Rightarrow> Wallet response" where
  "billing_handleGetWallet flt tenant db = json_or_500 (fst (wallet_Get flt tenant db))"

definition billing_handleListLedger :: "faults \<Rightarrow> string \<Rightarrow> string \<Rightarrow> billing_db \<Rightarrow> LedgerEntry list response" where
  "billing_handleListLedger flt tenant limit db =
    json_or_500 (fst (svc_ListLedger flt tenant (query_limit 50 limit) db))"

definition billing_handleListPrices ::
  "faults \<Rightarrow> (string \<Rightarrow> string \<Rightarrow> bool) \<Rightarrow> billing_db \<Rightarrow> Price list response" where
  "billing_handleListPrices flt le db = json_or_500 (fst (pricing_List flt le db))"

definition billing_handleUpsertPrice ::
  "BillingConfig \<Rightarrow> faults \<Rightarrow> int \<Rightarrow> string \<Rightarrow> Price option \<Rightarrow> billing_db \<Rightarrow> Price response \<times> billing_db" where
  "billing_handleUpsertPrice cfg flt now newid body db = (case body of
      None \<Rightarrow> (WriteAPIError StatusBadRequest ''INVALID_REQUEST'' ''invalid body'', db)
    | Some p \<Rightarrow> (case svc_UpsertPrice cfg flt now newid p db of
        (Inl ErrInvalidPrice, db') \<Rightarrow>
          (WriteAPIError StatusBadRequest ''INVALID_REQUEST'' (billing_message ErrInvalidPrice), db')
      | (out, db') \<Rightarrow> (json_or_500 out, db')))"

definition billing_handleTopUp ::
  "BillingConfig \<Rightarrow> string \<Rightarrow> (string \<Rightarrow> int \<Rightarrow> string \<Rightarrow> billing_error + string) \<Rightarrow> faults \<Rightarrow> int \<Rightarrow> string \<Rightarrow>
   string \<Rightarrow> int option \<Rightarrow> string \<Rightarrow> billing_db \<Rightarrow> TopupTransaction response \<times> billing_db" where
  "billing_handleTopUp cfg provider charge flt now newid tenant amount idemKey db = (case amount of
      None \<Rightarrow> (WriteAPIError StatusBadRequest ''INVALID_REQUEST'' ''invalid body'', db)
    | Some n \<Rightarrow> (case svc_TopUp cfg provider charge flt now newid tenant n idemKey db of
        (Inr t, db') \<Rightarrow> (WriteJSON StatusOK t, db')
      | (Inl e, db') \<Rightarrow>
          ((if e = ErrInvalidAmount \<or> e = billing_error.ErrInvalidRequest
            then WriteAPIError StatusBadRequest ''INVALID_REQUEST'' (billing_message e)
            else if e = ErrIdempotencyConflict
            then WriteAPIError StatusConflict ''IDEMPOTENCY_CONFLICT'' (billing_message e)
            else WriteAPIError StatusInternalServerError ''INTERNAL_ERROR'' (billing_message e)), db')))"


section \<open>Properties\<close>

text \<open>What a committed \<open>Reserve\<close> leaves behind: its reservation, found under the returned id.\<close>

lemma svc_Reserve_commit:
  assumes "svc_Reserve cfg flt now newid tenant model estInput maxOutput db = (Inr rid, db')"
    "mode_of (bc_Mode cfg) \<noteq> ModeOff"
  obtains price where "price_or_free cfg flt model db = (Inr price, db)" "rid = newid"
    "wallet_Reserve flt now (reserve_input cfg tenant newid price estInput maxOutput) db = (Inr (), db')"
proof -
  from assms obtain price d where p: "price_or_free cfg flt model db = (Inr price, d)" "rid = newid"
    "wallet_Reserve flt now (reserve_input cfg tenant newid price estInput maxOutput) d = (Inr (), db')"
    by (auto simp: svc_Reserve_def tx_bind_ok)
  moreover have "d = db"
    using p(1) by (auto simp: price_or_free_def priceFor_def pricing_Get_def tx_simps
        split: prod.splits sum.splits billing_error.splits if_splits option.splits)
  ultimately show thesis using that by blast
qed

lemma reserved_found:
  assumes "wallet_Reserve flt now i db = (Inr x, db')"
  shows "tbl_find r_ID (ri_ReservationID i) (reservations db') = Some (new_reservation now i)"
  using assms
proof (cases rule: wallet_Reserve_commit)
  case (1 w)
  then have "tbl_find r_ID (ri_ReservationID i) (reservations db) = None"
    by (simp add: tbl_find_None tbl_has_iff)
  then show ?thesis by (simp add: 1(5) tbl_find_insert new_reservation_def)
qed

text \<open>The estimates of a request are priced without overflow.\<close>

definition estimate_fits :: "Price \<Rightarrow> int \<Rightarrow> int \<Rightarrow> bool" where
  "estimate_fits p estInput maxOutput \<longleftrightarrow>
     0 \<le> PricePerMillionInputTokens p \<and> 0 \<le> PricePerMillionOutputTokens p \<and>
     cost_fits estInput (PricePerMillionInputTokens p) \<and> cost_fits maxOutput (PricePerMillionOutputTokens p) \<and>
     costMicro estInput (PricePerMillionInputTokens p) + costMicro maxOutput (PricePerMillionOutputTokens p) < 2 ^ 63"

lemma charge_within_estimate:
  fixes cfg :: BillingConfig and tenant newid :: string and now :: int
  assumes "estimate_fits p estInput maxOutput" "pt \<le> estInput" "ct \<le> maxOutput"
  defines "r \<equiv> new_reservation now (reserve_input cfg tenant newid p estInput maxOutput)"
  shows "0 \<le> r_Amount r" "0 \<le> reservation_charge r pt ct" "reservation_charge r pt ct \<le> r_Amount r"
proof -
  let ?ip = "PricePerMillionInputTokens p" and ?op = "PricePerMillionOutputTokens p"
  have fit: "cost_fits pt ?ip" "cost_fits ct ?op"
    using assms(1-3) cost_fits_mono by (auto simp: estimate_fits_def)
  have le: "costMicro pt ?ip \<le> costMicro estInput ?ip" "costMicro ct ?op \<le> costMicro maxOutput ?op"
    using assms(1-3) costMicro_mono by (auto simp: estimate_fits_def)
  have pos: "0 \<le> costMicro pt ?ip" "0 \<le> costMicro ct ?op"
    using fit costMicro_nonneg by simp_all
  have "r_Amount r = costMicro estInput ?ip + costMicro maxOutput ?op"
    "reservation_charge r pt ct = costMicro pt ?ip + costMicro ct ?op"
    using le pos assms(1)
    by (simp_all add: r_def new_reservation_def reserve_input_def reservation_charge_def estimate_fits_def
        in_int64_nonneg)
  then show "0 \<le> r_Amount r" "0 \<le> reservation_charge r pt ct" "reservation_charge r pt ct \<le> r_Amount r"
    using le pos by simp_all
qed

lemma accepted_request_is_covered_parts:
  assumes "solvent db" "mode_of (bc_Mode cfg) = ModeEnforce"
    "0 \<le> bc_InitialAllowance cfg" "bc_InitialAllowance cfg < 2 ^ 63"
    "price_or_free cfg flt model db = (Inr price, db)" "estimate_fits price estInput maxOutput"
    "svc_Reserve cfg flt now newid tenant model estInput maxOutput db = (Inr rid, db')"
    "pt \<le> estInput" "ct \<le> maxOutput"
  shows "solvent db'" "solvent (snd (svc_Settle cfg flt' now' rid pt ct db'))"
    "\<exists>r. tbl_find r_ID rid (reservations db') = Some r \<and> reservation_charge r pt ct \<le> r_Amount r"
proof -
  let ?i = "reserve_input cfg tenant newid price estInput maxOutput"
  have res: "wallet_Reserve flt now ?i db = (Inr (), db')" and rid: "rid = newid"
    using svc_Reserve_commit[OF assms(7)] assms(2,5) by fastforce+
  note c = charge_within_estimate[OF assms(6,8,9), of now cfg tenant newid]
  show s: "solvent db'"
    by (rule solvent_reserve[OF res assms(1)])
      (use assms(2-4) c(1) in \<open>simp add: reserve_input_def new_reservation_def\<close>)
  have found: "tbl_find r_ID rid (reservations db') = Some (new_reservation now ?i)"
    using reserved_found[OF res] by (simp add: rid reserve_input_def)
  then show "\<exists>r. tbl_find r_ID rid (reservations db') = Some r \<and> reservation_charge r pt ct \<le> r_Amount r"
    using c(3) by blast
  have "op_covered db' (OpSettle rid pt ct)"
    using found c by (simp add: charge_covered_def) (simp add: new_reservation_def)
  from solvent_step[OF s this, of flt' now']
  show "solvent (snd (svc_Settle cfg flt' now' rid pt ct db'))"
    using s by (simp add: svc_Settle_def tx_return_def)
qed

text \<open>
  A request that stays within what it reserved cannot overdraw its tenant. In enforce mode, when
  \<open>Reserve\<close> accepts a request (its estimates priced without overflow) and the request is later settled
  with at most the estimated input tokens and at most the maximum of output tokens, the books stay
  solvent through both calls and the charge is not above the hold.
\<close>

theorem accepted_request_is_covered:
  assumes "solvent db" "mode_of (bc_Mode cfg) = ModeEnforce"
    "0 \<le> bc_InitialAllowance cfg" "bc_InitialAllowance cfg < 2 ^ 63"
    "price_or_free cfg flt model db = (Inr price, db)" "estimate_fits price estInput maxOutput"
    "svc_Reserve cfg flt now newid tenant model estInput maxOutput db = (Inr rid, db')"
    "pt \<le> estInput" "ct \<le> maxOutput"
  shows "solvent db' \<and>
    solvent (snd (svc_Settle cfg flt' now' rid pt ct db')) \<and>
    (\<exists>r. tbl_find r_ID rid (reservations db') = Some r \<and> reservation_charge r pt ct \<le> r_Amount r)"
  by (rule conjI, rule accepted_request_is_covered_parts(1)[OF assms], rule conjI,
      rule accepted_request_is_covered_parts(2)[OF assms], rule accepted_request_is_covered_parts(3)[OF assms])


definition enforce_cfg :: BillingConfig where
  "enforce_cfg = NewService_cfg \<lparr>bc_Mode = ''enforce'', bc_Currency = [], bc_InitialAllowance = 1000, bc_ReservationTTL = 0\<rparr>"

definition priced_db :: billing_db where
  "priced_db = (one_wallet ''t'' 1000)\<lparr>pricing := [\<lparr>p_ID = ''1'', p_Model = ''m'', p_Currency = ''USD'',
     p_PricePerMillionInputTokens = 1000000, p_PricePerMillionOutputTokens = 2000000,
     p_CreatedAt = 0, p_UpdatedAt = 0\<rparr>]\<rparr>"

lemma priced_db_solvent: "solvent priced_db"
proof -
  have "billing_inv priced_db"
    using one_wallet_inv[of 1000 "''t''"]
    by (simp add: priced_db_def inv_defs key_accounted_def in_int64_def one_wallet_def)
  then show ?thesis by (simp add: solvent_def) (simp add: priced_db_def one_wallet_def held_sum_def)
qed

theorem accepted_request_is_covered_witness:
  "solvent (snd (svc_Settle enforce_cfg no_faults 2 ''r1'' 90 100
     (snd (svc_Reserve enforce_cfg no_faults 1 ''r1'' ''t'' ''m'' 100 200 priced_db))))"
proof (rule accepted_request_is_covered[OF priced_db_solvent, THEN conjunct2, THEN conjunct1])
  show "price_or_free enforce_cfg no_faults ''m'' priced_db =
    (Inr \<lparr>Model = ''m'', Currency = ''USD'', PricePerMillionInputTokens = 1000000,
      PricePerMillionOutputTokens = 2000000\<rparr>, priced_db)" by code_simp
  show "svc_Reserve enforce_cfg no_faults 1 ''r1'' ''t'' ''m'' 100 200 priced_db =
    (Inr ''r1'', snd (svc_Reserve enforce_cfg no_faults 1 ''r1'' ''t'' ''m'' 100 200 priced_db))" by code_simp
  show "estimate_fits \<lparr>Model = ''m'', Currency = ''USD'', PricePerMillionInputTokens = 1000000,
      PricePerMillionOutputTokens = 2000000\<rparr> 100 200" by code_simp
qed (code_simp | simp)+

lemma reserve_refused_iff_parts:
  fixes cfg :: BillingConfig and tenant newid :: string and estInput maxOutput :: int
  assumes "mode_of (bc_Mode cfg) \<noteq> ModeOff" "price_or_free cfg no_faults model db = (Inr price, db)"
    "tbl_unique w_TenantID (wallets db)" "tbl_find w_TenantID tenant (wallets db) = Some w"
  defines "hold \<equiv> ri_Amount (reserve_input cfg tenant newid price estInput maxOutput)"
  shows "fst (svc_Reserve cfg no_faults now newid tenant model estInput maxOutput db) = Inl ErrInsufficientCredits
    \<longleftrightarrow> mode_of (bc_Mode cfg) = ModeEnforce \<and> hold > 0 \<and> wrap64 (w_Balance w - w_Reserved w) < hold"
    "fst (svc_Reserve cfg no_faults now newid tenant model estInput maxOutput db) = Inl e \<Longrightarrow>
     snd (svc_Reserve cfg no_faults now newid tenant model estInput maxOutput db) = db"
    "price = free_price cfg \<Longrightarrow> hold = 0"
proof -
  let ?i = "reserve_input cfg tenant newid price estInput maxOutput"
  have w: "tbl_find w_TenantID tenant (wallets (create_wallet now tenant c b db)) = Some w" for c b
    using assms(3,4) by (simp add: find_wallet)
  have ten: "ri_TenantID ?i = tenant" by (simp add: reserve_input_def)
  show "fst (svc_Reserve cfg no_faults now newid tenant model estInput maxOutput db) = Inl ErrInsufficientCredits
    \<longleftrightarrow> mode_of (bc_Mode cfg) = ModeEnforce \<and> hold > 0 \<and> wrap64 (w_Balance w - w_Reserved w) < hold"
    using assms(1,2) w
    by (auto simp: svc_Reserve_def wallet_Reserve_def sql_add_reserved_def tx_simps ten hold_def
        split: prod.splits sum.splits) (auto simp: reserve_input_def)
  show "snd (svc_Reserve cfg no_faults now newid tenant model estInput maxOutput db) = db"
    if "fst (svc_Reserve cfg no_faults now newid tenant model estInput maxOutput db) = Inl e"
    using that assms(1,2) billing_rollback(1)[of no_faults now ?i db]
    by (auto simp: svc_Reserve_def tx_bind_def tx_return_def split: prod.splits sum.splits)
  show "price = free_price cfg \<Longrightarrow> hold = 0"
    by (simp add: hold_def reserve_input_def free_price_def costMicro_def)
qed

text \<open>
  When an admission is refused. With no failing statement, a priced model and an existing wallet,
  \<open>Reserve\<close> answers ErrInsufficientCredits exactly when the mode is enforce and the hold is positive and
  larger than the available amount; a refusal leaves the books as they were. In the other modes, and
  for a model without a price (held for zero), it is never refused for lack of credits.
\<close>

theorem reserve_refused_iff:
  fixes cfg :: BillingConfig and tenant newid :: string and estInput maxOutput :: int
  assumes "mode_of (bc_Mode cfg) \<noteq> ModeOff" "price_or_free cfg no_faults model db = (Inr price, db)"
    "tbl_unique w_TenantID (wallets db)" "tbl_find w_TenantID tenant (wallets db) = Some w"
  defines "hold \<equiv> ri_Amount (reserve_input cfg tenant newid price estInput maxOutput)"
  shows "(fst (svc_Reserve cfg no_faults now newid tenant model estInput maxOutput db) = Inl ErrInsufficientCredits
    \<longleftrightarrow> mode_of (bc_Mode cfg) = ModeEnforce \<and> hold > 0 \<and> wrap64 (w_Balance w - w_Reserved w) < hold) \<and>
    (fst (svc_Reserve cfg no_faults now newid tenant model estInput maxOutput db) = Inl e \<longrightarrow>
     snd (svc_Reserve cfg no_faults now newid tenant model estInput maxOutput db) = db) \<and>
    (price = free_price cfg \<longrightarrow> hold = 0)"
  unfolding hold_def
  by (rule conjI, rule reserve_refused_iff_parts(1)[OF assms(1-4)], rule conjI,
      (rule impI)+, rule reserve_refused_iff_parts(2)[OF assms(1-4)], assumption+,
      (rule impI)+, rule reserve_refused_iff_parts(3)[OF assms(1-4)], assumption+)


theorem reserve_refused_iff_witness:
  "fst (svc_Reserve enforce_cfg no_faults 1 ''r1'' ''t'' ''m'' 100 451 priced_db) = Inl ErrInsufficientCredits"
proof -
  let ?p = "\<lparr>Model = ''m'', Currency = ''USD'', PricePerMillionInputTokens = 1000000,
    PricePerMillionOutputTokens = 2000000\<rparr>"
  let ?w = "\<lparr>w_TenantID = ''t'', w_Currency = ''USD'', w_Balance = 1000, w_Reserved = 0, w_UpdatedAt = 0\<rparr>"
  have prem: "mode_of (bc_Mode enforce_cfg) \<noteq> ModeOff"
    "price_or_free enforce_cfg no_faults ''m'' priced_db = (Inr ?p, priced_db)"
    "tbl_unique w_TenantID (wallets priced_db)"
    "tbl_find w_TenantID ''t'' (wallets priced_db) = Some ?w" by code_simp+
  show ?thesis
    by (rule iffD2[OF reserve_refused_iff[OF prem, THEN conjunct1]]) code_simp
qed


lemma find_after_unholds:
  assumes "tbl_unique r_ID (reservations db)" "distinct (map r_ID rows)"
  shows "tbl_find r_ID rid (reservations (fold (unhold now) rows db)) =
    (if rid \<in> r_ID ` set rows
     then map_option (\<lambda>r. r\<lparr>r_Status := ReservationReleased\<rparr>) (tbl_find r_ID rid (reservations db))
     else tbl_find r_ID rid (reservations db))"
  using assms
proof (induction rows arbitrary: db)
  case (Cons r rows)
  have "tbl_find r_ID rid (reservations (unhold now r db)) =
      (if rid = r_ID r then map_option (\<lambda>r. r\<lparr>r_Status := ReservationReleased\<rparr>) (tbl_find r_ID rid (reservations db))
       else tbl_find r_ID rid (reservations db))"
    using Cons.prems(1) by (simp add: unhold_def set_reservation_status_def tbl.look_modify)
  moreover have "tbl_unique r_ID (reservations (unhold now r db))"
    using Cons.prems(1) by (simp add: unhold_def)
  ultimately show ?case using Cons by auto
qed simp

lemma fold_unhold_frames [simp]:
  "ledger (fold (unhold now) rows db) = ledger db"
  by (induction rows arbitrary: db) (simp_all add: unhold_def)

lemma reaper_releases_expired_only_parts:
  assumes "billing_inv db" "picks_from pick" "wallet_ReleaseExpired flt pick now limit db = (Inr n, db')"
    "tbl_find r_ID rid (reservations db) = Some r" "0 \<le> limit"
  shows "n \<le> nat limit" "ledger db' = ledger db"
    "tbl_find r_ID rid (reservations db') = Some r \<or>
     r_Status r = ReservationHeld \<and> r_ExpiresAt r < now \<and>
     tbl_find r_ID rid (reservations db') = Some (r\<lparr>r_Status := ReservationReleased\<rparr>)"
    "r_Status r = ReservationHeld \<and> r_ExpiresAt r < now \<and> length (expired_holds now db) \<le> nat limit \<and>
     set (pick (expired_holds now db)) = set (expired_holds now db) \<and>
     length (pick (expired_holds now db)) = length (expired_holds now db) \<longrightarrow>
     tbl_find r_ID rid (reservations db') = Some (r\<lparr>r_Status := ReservationReleased\<rparr>)"
proof -
  let ?rows = "take (nat limit) (pick (expired_holds now db))"
  note c = wallet_ReleaseExpired_commit[OF assms(3,1,2)]
  then show "n \<le> nat limit" "ledger db' = ledger db" by simp_all
  have rel: "releasable db ?rows" by (rule releasable_picked[OF assms(1,2)])
  have u: "tbl_unique r_ID (reservations db)" using assms(1) by (simp add: inv_defs)
  have find: "tbl_find r_ID rid (reservations db') =
      (if rid \<in> r_ID ` set ?rows then Some (r\<lparr>r_Status := ReservationReleased\<rparr>) else Some r)"
    using c rel find_after_unholds[OF u, of ?rows rid now] assms(4) by (simp add: releasable_def)
  have "r \<in> set ?rows" if "rid \<in> r_ID ` set ?rows"
    using that rel assms(4) by (auto simp: releasable_def)
  moreover have "set ?rows \<subseteq> set (expired_holds now db)"
    using assms(2) set_take_subset by (fastforce simp: picks_from_def)
  ultimately show "tbl_find r_ID rid (reservations db') = Some r \<or>
     r_Status r = ReservationHeld \<and> r_ExpiresAt r < now \<and>
     tbl_find r_ID rid (reservations db') = Some (r\<lparr>r_Status := ReservationReleased\<rparr>)"
    using find by (auto simp: expired_holds_def)
  show "r_Status r = ReservationHeld \<and> r_ExpiresAt r < now \<and> length (expired_holds now db) \<le> nat limit \<and>
     set (pick (expired_holds now db)) = set (expired_holds now db) \<and>
     length (pick (expired_holds now db)) = length (expired_holds now db) \<longrightarrow>
     tbl_find r_ID rid (reservations db') = Some (r\<lparr>r_Status := ReservationReleased\<rparr>)"
    using find tbl_find_SomeD[OF assms(4)] by (auto simp: expired_holds_def)
qed

text \<open>
  The reaper touches expired holds only. A committed sweep releases at most \<open>limit\<close> reservations;
  each one it releases was held and past its lease, every other reservation is as before, nothing is
  charged, and with a limit that covers them and no row skipped no expired hold is left.
\<close>

theorem reaper_releases_expired_only:
  assumes "billing_inv db" "picks_from pick" "wallet_ReleaseExpired flt pick now limit db = (Inr n, db')"
    "tbl_find r_ID rid (reservations db) = Some r" "0 \<le> limit"
  shows "n \<le> nat limit \<and>
    ledger db' = ledger db \<and>
    (tbl_find r_ID rid (reservations db') = Some r \<or>
     r_Status r = ReservationHeld \<and> r_ExpiresAt r < now \<and>
     tbl_find r_ID rid (reservations db') = Some (r\<lparr>r_Status := ReservationReleased\<rparr>)) \<and>
    (r_Status r = ReservationHeld \<and> r_ExpiresAt r < now \<and> length (expired_holds now db) \<le> nat limit \<and>
     set (pick (expired_holds now db)) = set (expired_holds now db) \<and>
     length (pick (expired_holds now db)) = length (expired_holds now db) \<longrightarrow>
     tbl_find r_ID rid (reservations db') = Some (r\<lparr>r_Status := ReservationReleased\<rparr>))"
  by (rule conjI, rule reaper_releases_expired_only_parts(1)[OF assms], rule conjI,
      rule reaper_releases_expired_only_parts(2)[OF assms], rule conjI, rule reaper_releases_expired_only_parts(3)[OF assms],
      rule reaper_releases_expired_only_parts(4)[OF assms])


theorem reaper_releases_expired_only_witness:
  "tbl_find r_ID ''r1'' (reservations (snd (wallet_ReleaseExpired no_faults (\<lambda>rows. rows) 50 500 held_db))) =
    Some (held_row\<lparr>r_Status := ReservationReleased\<rparr>)"
proof -
  have "picks_from (\<lambda>rows. rows)" by (simp add: picks_from_def)
  moreover have "wallet_ReleaseExpired no_faults (\<lambda>rows. rows) 50 500 held_db =
      (Inr 1, snd (wallet_ReleaseExpired no_faults (\<lambda>rows. rows) 50 500 held_db))" by code_simp
  moreover have "tbl_find r_ID ''r1'' (reservations held_db) = Some held_row" by code_simp
  ultimately have "r_Status held_row = ReservationHeld \<and> r_ExpiresAt held_row < 50 \<and>
     length (expired_holds 50 held_db) \<le> nat 500 \<and>
     set (expired_holds 50 held_db) = set (expired_holds 50 held_db) \<and>
     length (expired_holds 50 held_db) = length (expired_holds 50 held_db) \<longrightarrow>
     tbl_find r_ID ''r1'' (reservations (snd (wallet_ReleaseExpired no_faults (\<lambda>rows. rows) 50 500 held_db))) =
     Some (held_row\<lparr>r_Status := ReservationReleased\<rparr>)"
    by (rule reaper_releases_expired_only[OF held_db_inv, THEN conjunct2, THEN conjunct2, THEN conjunct2]) simp
  moreover have "r_Status held_row = ReservationHeld \<and> r_ExpiresAt held_row < 50 \<and>
     length (expired_holds 50 held_db) \<le> nat 500" by code_simp
  ultimately show ?thesis by simp
qed

end
