(* ===== verification/Usage.thy ===== *)
theory Usage
  imports Http
begin

text \<open>
  Usage metering and quotas (\<open>internal/services/usage\<close>). Events are appended to \<open>usage_events\<close>; the
  roller folds the events above its watermark into \<open>usage_daily\<close>, from which summaries, charts and the
  quota gate read. An event's id is drawn from a sequence when its INSERT runs and the row is visible
  from its commit, so the model keeps the rows that are inserted but not committed. Times are seconds
  since the epoch (UTC).
\<close>

section \<open>Rows\<close>

record quotaRow =
  q_ID :: string
  q_TenantID :: string
  q_QuotaType :: string
  q_LimitValue :: int
  q_Period :: string

record usageRow =
  u_ID :: int
  u_TenantID :: string
  u_Model :: string
  u_PromptTokens :: int
  u_CompletionTokens :: int
  u_CreatedAt :: int

record usageDailyRow =
  d_TenantID :: string
  d_Model :: string
  d_Day :: int
  d_PromptTokens :: int
  d_CompletionTokens :: int
  d_Requests :: int
  d_UpdatedAt :: int

record usage_db =
  quotas :: "quotaRow list"
  events :: "usageRow list"
  pending :: "usageRow list"
  event_seq :: int
  daily :: "usageDailyRow list"
  last_event_id :: int

datatype usage_error = UsageDB string | ErrQuotaExceeded string string int int

type_synonym 'a usage_tx = "(usage_db, usage_error, 'a) tx"

abbreviation usage_sql :: "faults \<Rightarrow> string \<Rightarrow> 'a usage_tx \<Rightarrow> 'a usage_tx" where
  "usage_sql flt label m \<equiv> stmt (flt label []) (UsageDB label) m"

section \<open>Quotas\<close>

record Quota =
  qt_ID :: string
  qt_TenantID :: string
  qt_QuotaType :: string
  qt_LimitValue :: int
  qt_Period :: string

definition toQuota :: "quotaRow \<Rightarrow> Quota" where
  "toQuota r = \<lparr>qt_ID = q_ID r, qt_TenantID = q_TenantID r, qt_QuotaType = q_QuotaType r,
     qt_LimitValue = q_LimitValue r, qt_Period = q_Period r\<rparr>"

definition quota_key :: "quotaRow \<Rightarrow> string \<times> string \<times> string" where
  "quota_key r = (q_TenantID r, q_QuotaType r, q_Period r)"

definition quota_upsert_row :: "Quota \<Rightarrow> quotaRow list \<Rightarrow> quotaRow list" where
  "quota_upsert_row q rows =
    (if tbl_has quota_key (qt_TenantID q, qt_QuotaType q, qt_Period q) rows
     then tbl_update quota_key (qt_TenantID q, qt_QuotaType q, qt_Period q)
       (\<lambda>r. r\<lparr>q_LimitValue := qt_LimitValue q\<rparr>) rows
     else tbl_insert \<lparr>q_ID = qt_ID q, q_TenantID = qt_TenantID q, q_QuotaType = qt_QuotaType q,
       q_LimitValue = qt_LimitValue q, q_Period = qt_Period q\<rparr> rows)"

text \<open>\<open>quotaRepo.Upsert\<close>: the id read back is the stored row's (empty when the row is gone).\<close>

definition quota_Upsert :: "faults \<Rightarrow> Quota \<Rightarrow> Quota usage_tx" where
  "quota_Upsert flt q =
    tx_bind (usage_sql flt ''upsert quota'' (tx_bind
      (require (\<lambda>db. tbl_has quota_key (qt_TenantID q, qt_QuotaType q, qt_Period q) (quotas db) \<or>
                      \<not> tbl_has q_ID (qt_ID q) (quotas db)) (UsageDB ''upsert quota''))
      (\<lambda>_. update (\<lambda>db. db\<lparr>quotas := quota_upsert_row q (quotas db)\<rparr>)))) (\<lambda>_.
    tx_bind (usage_sql flt ''upsert quota id'' (query (\<lambda>db.
      tbl_find quota_key (qt_TenantID q, qt_QuotaType q, qt_Period q) (quotas db)))) (\<lambda>row.
    tx_return (q\<lparr>qt_ID := (case row of None \<Rightarrow> [] | Some r \<Rightarrow> q_ID r)\<rparr>)))"

definition quota_List :: "faults \<Rightarrow> (string \<Rightarrow> string \<Rightarrow> bool) \<Rightarrow> string \<Rightarrow> Quota list usage_tx" where
  "quota_List flt le tenant =
    usage_sql flt ''list quotas'' (query (\<lambda>db. map toQuota
      (order_by (\<lambda>a b. le (q_QuotaType a) (q_QuotaType b))
        (filter (\<lambda>r. q_TenantID r = tenant) (quotas db)))))"

definition svc_UpsertQuota :: "faults \<Rightarrow> string \<Rightarrow> Quota \<Rightarrow> Quota usage_tx" where
  "svc_UpsertQuota flt newid q =
    quota_Upsert flt (if qt_ID q = [] then q\<lparr>qt_ID := newid\<rparr> else q)"

section \<open>Events\<close>

text \<open>
  \<open>usageRepo.Record\<close> in its two moments: the INSERT draws the id (its INT columns hold 32 bits), the
  commit makes the row visible.
\<close>

definition in_int32 :: "int \<Rightarrow> bool" where
  "in_int32 n \<longleftrightarrow> - (2 ^ 31) \<le> n \<and> n < 2 ^ 31"

definition usage_insert :: "int \<Rightarrow> string \<Rightarrow> string \<Rightarrow> int \<Rightarrow> int \<Rightarrow> usage_db \<Rightarrow> usage_db" where
  "usage_insert now tenant model pt ct db = db
    \<lparr>pending := pending db @ [\<lparr>u_ID = event_seq db, u_TenantID = tenant, u_Model = model,
       u_PromptTokens = pt, u_CompletionTokens = ct, u_CreatedAt = now\<rparr>],
     event_seq := event_seq db + 1\<rparr>"

definition usage_commit :: "int \<Rightarrow> usage_db \<Rightarrow> usage_db" where
  "usage_commit eid db = db
    \<lparr>events := events db @ filter (\<lambda>e. u_ID e = eid) (pending db),
     pending := filter (\<lambda>e. u_ID e \<noteq> eid) (pending db)\<rparr>"

definition usage_Record :: "faults \<Rightarrow> int \<Rightarrow> string \<Rightarrow> string \<Rightarrow> int \<Rightarrow> int \<Rightarrow> unit usage_tx" where
  "usage_Record flt now tenant model pt ct =
    usage_sql flt ''record usage'' (tx_bind
      (require (\<lambda>_. in_int32 pt \<and> in_int32 ct) (UsageDB ''record usage''))
      (\<lambda>_. update (\<lambda>db. usage_commit (event_seq db) (usage_insert now tenant model pt ct db))))"

section \<open>Rollup\<close>

definition day_of :: "int \<Rightarrow> int" where
  "day_of t = t div 86400"

type_synonym bucket = "string \<times> string \<times> int"

definition event_key :: "usageRow \<Rightarrow> bucket" where
  "event_key e = (u_TenantID e, u_Model e, day_of (u_CreatedAt e))"

definition daily_key :: "usageDailyRow \<Rightarrow> bucket" where
  "daily_key r = (d_TenantID r, d_Model r, d_Day r)"

definition max_event_id :: "usageRow list \<Rightarrow> int" where
  "max_event_id evs = fold max (map u_ID evs) 0"

definition aggregate_events :: "int \<Rightarrow> int \<Rightarrow> int \<Rightarrow> usage_db \<Rightarrow> usageDailyRow list" where
  "aggregate_events now lastID maxID db =
    group_by event_key (\<lambda>(tenant, model, dy) es.
      \<lparr>d_TenantID = tenant, d_Model = model, d_Day = dy, d_PromptTokens = sum_of u_PromptTokens es,
       d_CompletionTokens = sum_of u_CompletionTokens es, d_Requests = int (length es), d_UpdatedAt = now\<rparr>)
    (filter (\<lambda>e. lastID < u_ID e \<and> u_ID e \<le> maxID) (events db))"

definition add_daily :: "int \<Rightarrow> usageDailyRow \<Rightarrow> usageDailyRow \<Rightarrow> usageDailyRow" where
  "add_daily now a r = r\<lparr>d_PromptTokens := d_PromptTokens r + d_PromptTokens a,
     d_CompletionTokens := d_CompletionTokens r + d_CompletionTokens a,
     d_Requests := d_Requests r + d_Requests a, d_UpdatedAt := now\<rparr>"

definition upsert_daily :: "int \<Rightarrow> usageDailyRow \<Rightarrow> usageDailyRow list \<Rightarrow> usageDailyRow list" where
  "upsert_daily now a rows =
    (if tbl_has daily_key (daily_key a) rows then tbl_update daily_key (daily_key a) (add_daily now a) rows
     else tbl_insert a rows)"

definition daily_in_range :: "usageDailyRow \<Rightarrow> bool" where
  "daily_in_range r \<longleftrightarrow> in_int64 (d_PromptTokens r) \<and> in_int64 (d_CompletionTokens r) \<and> in_int64 (d_Requests r)"

fun upsert_all :: "faults \<Rightarrow> int \<Rightarrow> usageDailyRow list \<Rightarrow> unit usage_tx" where
  "upsert_all flt now [] = tx_return ()"
| "upsert_all flt now (a # rest) =
    tx_bind (usage_sql flt ''upsert usage daily'' (tx_bind
      (require (\<lambda>db. list_all daily_in_range (upsert_daily now a (daily db))) (UsageDB ''upsert usage daily''))
      (\<lambda>_. update (\<lambda>db. db\<lparr>daily := upsert_daily now a (daily db)\<rparr>))))
    (\<lambda>_. upsert_all flt now rest)"

definition usage_Rollup :: "faults \<Rightarrow> int \<Rightarrow> nat usage_tx" where
  "usage_Rollup flt now = transaction (
    tx_bind (usage_sql flt ''lock usage rollup state'' (query last_event_id)) (\<lambda>lastID.
    tx_bind (usage_sql flt ''max usage event id'' (query (\<lambda>db. max_event_id (events db)))) (\<lambda>maxID.
    if maxID \<le> lastID then tx_return 0
    else
    tx_bind (usage_sql flt ''aggregate usage events'' (query (aggregate_events now lastID maxID))) (\<lambda>rows.
    tx_bind (upsert_all flt now rows) (\<lambda>_.
    tx_bind (usage_sql flt ''advance usage rollup state'' (update (\<lambda>db. db\<lparr>last_event_id := maxID\<rparr>))) (\<lambda>_.
    tx_return (length rows)))))))"

section \<open>Reads\<close>

record UsageSummary =
  PromptTokens :: int
  CompletionTokens :: int
  TotalTokens :: int
  Requests :: int

record UsageDailyPoint =
  dp_Day :: int
  dp_PromptTokens :: int
  dp_CompletionTokens :: int
  dp_Requests :: int

record UsageByModel =
  bm_Model :: string
  bm_PromptTokens :: int
  bm_CompletionTokens :: int
  bm_TotalTokens :: int
  bm_Requests :: int

text \<open>The WHERE clause all reads share: both ends are dates, both inclusive.\<close>

definition window_rows :: "string \<Rightarrow> int \<Rightarrow> int \<Rightarrow> usage_db \<Rightarrow> usageDailyRow list" where
  "window_rows tenant from_t to_t db =
    filter (\<lambda>r. d_TenantID r = tenant \<and> day_of from_t \<le> d_Day r \<and> d_Day r \<le> day_of to_t) (daily db)"

definition total_tokens :: "usageDailyRow \<Rightarrow> int" where
  "total_tokens r = d_PromptTokens r + d_CompletionTokens r"

definition sums_fit :: "usageDailyRow list \<Rightarrow> bool" where
  "sums_fit rows \<longleftrightarrow> list_all (\<lambda>r. in_int64 (total_tokens r)) rows \<and>
     in_int64 (sum_of d_PromptTokens rows) \<and> in_int64 (sum_of d_CompletionTokens rows) \<and>
     in_int64 (sum_of total_tokens rows) \<and> in_int64 (sum_of d_Requests rows)"

definition summary_of :: "usageDailyRow list \<Rightarrow> UsageSummary" where
  "summary_of rows = \<lparr>PromptTokens = sum_of d_PromptTokens rows,
     CompletionTokens = sum_of d_CompletionTokens rows, TotalTokens = sum_of total_tokens rows,
     Requests = sum_of d_Requests rows\<rparr>"

definition usage_Summary :: "faults \<Rightarrow> string \<Rightarrow> int \<Rightarrow> int \<Rightarrow> UsageSummary usage_tx" where
  "usage_Summary flt tenant from_t to_t =
    usage_sql flt ''usage daily summary'' (tx_bind
      (require (\<lambda>db. sums_fit (window_rows tenant from_t to_t db)) (UsageDB ''usage daily summary''))
      (\<lambda>_. query (\<lambda>db. summary_of (window_rows tenant from_t to_t db))))"

definition daily_points :: "usageDailyRow list \<Rightarrow> UsageDailyPoint list" where
  "daily_points rows = order_by (\<lambda>a b. dp_Day a \<le> dp_Day b)
    (group_by d_Day (\<lambda>dy rs. \<lparr>dp_Day = dy, dp_PromptTokens = sum_of d_PromptTokens rs,
       dp_CompletionTokens = sum_of d_CompletionTokens rs, dp_Requests = sum_of d_Requests rs\<rparr>) rows)"

definition point_fits :: "UsageDailyPoint \<Rightarrow> bool" where
  "point_fits p \<longleftrightarrow> in_int64 (dp_PromptTokens p) \<and> in_int64 (dp_CompletionTokens p) \<and> in_int64 (dp_Requests p)"

definition usage_Daily :: "faults \<Rightarrow> string \<Rightarrow> int \<Rightarrow> int \<Rightarrow> UsageDailyPoint list usage_tx" where
  "usage_Daily flt tenant from_t to_t =
    usage_sql flt ''usage daily chart'' (tx_bind
      (require (\<lambda>db. list_all point_fits (daily_points (window_rows tenant from_t to_t db)))
        (UsageDB ''usage daily chart''))
      (\<lambda>_. query (\<lambda>db. daily_points (window_rows tenant from_t to_t db))))"

definition by_model :: "usageDailyRow list \<Rightarrow> UsageByModel list" where
  "by_model rows = order_by (\<lambda>a b. bm_TotalTokens a \<ge> bm_TotalTokens b)
    (group_by d_Model (\<lambda>m rs. \<lparr>bm_Model = m, bm_PromptTokens = sum_of d_PromptTokens rs,
       bm_CompletionTokens = sum_of d_CompletionTokens rs, bm_TotalTokens = sum_of total_tokens rs,
       bm_Requests = sum_of d_Requests rs\<rparr>) rows)"

definition model_fits :: "UsageByModel \<Rightarrow> bool" where
  "model_fits m \<longleftrightarrow> in_int64 (bm_PromptTokens m) \<and> in_int64 (bm_CompletionTokens m) \<and>
     in_int64 (bm_TotalTokens m) \<and> in_int64 (bm_Requests m)"

definition usage_ByModel :: "faults \<Rightarrow> string \<Rightarrow> int \<Rightarrow> int \<Rightarrow> UsageByModel list usage_tx" where
  "usage_ByModel flt tenant from_t to_t =
    usage_sql flt ''usage daily by model'' (tx_bind
      (require (\<lambda>db. list_all (\<lambda>r. in_int64 (total_tokens r)) (window_rows tenant from_t to_t db) \<and>
                      list_all model_fits (by_model (window_rows tenant from_t to_t db)))
        (UsageDB ''usage daily by model''))
      (\<lambda>_. query (\<lambda>db. by_model (window_rows tenant from_t to_t db))))"

section \<open>The quota gate\<close>

datatype quota_kind = KindTokens | KindRequests | KindNone

definition quotaKind :: "string \<Rightarrow> quota_kind" where
  "quotaKind qt =
    (if has_prefix (to_lower (trim_space qt)) ''tokens'' then KindTokens
     else if has_prefix (to_lower (trim_space qt)) ''requests'' then KindRequests
     else KindNone)"

text \<open>
  \<open>time.Time\<close>'s calendar: the day of the month of a day number (proleptic Gregorian, by 400-year eras
  of 146097 days counted from 1 March).
\<close>

definition day_in_month :: "int \<Rightarrow> int" where
  "day_in_month dy =
    (let doe = (dy + 719468) mod 146097;
         yoe = (doe - doe div 1460 + doe div 36524 - doe div 146096) div 365;
         doy = doe - (365 * yoe + yoe div 4 - yoe div 100);
         mp = (5 * doy + 2) div 153
     in doy - (153 * mp + 2) div 5 + 1)"

definition periodWindow :: "string \<Rightarrow> int \<Rightarrow> int \<times> int" where
  "periodWindow period now =
    (let p = to_lower (trim_space period) in
     if p = ''monthly'' \<or> p = ''month''
     then ((day_of now - (day_in_month (day_of now) - 1)) * 86400, now)
     else (day_of now * 86400, now))"

definition used_of :: "quota_kind \<Rightarrow> UsageSummary \<Rightarrow> int" where
  "used_of kind s = (case kind of KindTokens \<Rightarrow> TotalTokens s | KindRequests \<Rightarrow> Requests s | KindNone \<Rightarrow> 0)"

definition kind_name :: "quota_kind \<Rightarrow> string" where
  "kind_name k = (case k of KindTokens \<Rightarrow> ''tokens'' | KindRequests \<Rightarrow> ''requests'' | KindNone \<Rightarrow> [])"

fun check_quotas :: "faults \<Rightarrow> string \<Rightarrow> string \<Rightarrow> int \<Rightarrow> Quota list \<Rightarrow> unit usage_tx" where
  "check_quotas flt mode tenant now [] = tx_return ()"
| "check_quotas flt mode tenant now (q # rest) =
    (let kind = quotaKind (qt_QuotaType q) in
     if kind = KindNone \<or> qt_LimitValue q \<le> 0 then check_quotas flt mode tenant now rest
     else tx_bind (usage_Summary flt tenant (fst (periodWindow (qt_Period q) now)) (snd (periodWindow (qt_Period q) now)))
       (\<lambda>sum. if used_of kind sum < qt_LimitValue q then check_quotas flt mode tenant now rest
          else if mode = ''enforce''
          then tx_fail (ErrQuotaExceeded (kind_name kind) (qt_Period q) (qt_LimitValue q) (used_of kind sum))
          else check_quotas flt mode tenant now rest))"

definition quota_Check ::
  "faults \<Rightarrow> (string \<Rightarrow> string \<Rightarrow> bool) \<Rightarrow> string \<Rightarrow> string \<Rightarrow> int \<Rightarrow> unit usage_tx" where
  "quota_Check flt le mode tenant now =
    tx_bind (quota_List flt le tenant) (\<lambda>qs. check_quotas flt mode tenant now qs)"

section \<open>Handlers\<close>

definition usage_message :: "usage_error \<Rightarrow> string" where
  "usage_message e = (case e of UsageDB t \<Rightarrow> t | ErrQuotaExceeded _ _ _ _ \<Rightarrow> ''quota exceeded'')"

definition usage_json :: "usage_error + 'a \<Rightarrow> 'a response" where
  "usage_json r = (case r of
      Inl e \<Rightarrow> WriteAPIError StatusInternalServerError ''INTERNAL_ERROR'' (usage_message e)
    | Inr x \<Rightarrow> WriteJSON StatusOK x)"

definition usage_handleUpsertQuota ::
  "faults \<Rightarrow> string \<Rightarrow> string \<Rightarrow> Quota option \<Rightarrow> usage_db \<Rightarrow> Quota response \<times> usage_db" where
  "usage_handleUpsertQuota flt newid tenant body db = (case body of
      None \<Rightarrow> (WriteAPIError StatusBadRequest ''INVALID_REQUEST'' ''invalid body'', db)
    | Some q \<Rightarrow> (case svc_UpsertQuota flt newid (q\<lparr>qt_TenantID := tenant\<rparr>) db of
        (out, db') \<Rightarrow> (usage_json out, db')))"

definition usage_handleListQuotas ::
  "faults \<Rightarrow> (string \<Rightarrow> string \<Rightarrow> bool) \<Rightarrow> string \<Rightarrow> usage_db \<Rightarrow> Quota list response" where
  "usage_handleListQuotas flt le tenant db = usage_json (fst (quota_List flt le tenant db))"

definition usage_days :: "string \<Rightarrow> int" where
  "usage_days v = (case atoi v of None \<Rightarrow> 30 | Some n \<Rightarrow> if 1 \<le> n \<and> n \<le> 90 then n else 30)"

record UsageReport =
  rep_today :: UsageSummary
  rep_month :: UsageSummary
  rep_daily :: "UsageDailyPoint list"
  rep_by_model :: "UsageByModel list"

definition usage_handleGetUsage :: "faults \<Rightarrow> int \<Rightarrow> string \<Rightarrow> string \<Rightarrow> usage_db \<Rightarrow> UsageReport response" where
  "usage_handleGetUsage flt clock tenant daysParam db =
    (let days = usage_days daysParam;
         now = clock + 5;
         todayStart = day_of now * 86400;
         monthStart = now - 30 * 86400;
         dailyStart = now - (days - 1) * 86400
     in usage_json (fst (
       tx_bind (usage_Summary flt tenant todayStart now) (\<lambda>today.
       tx_bind (usage_Summary flt tenant monthStart now) (\<lambda>month.
       tx_bind (usage_Daily flt tenant dailyStart now) (\<lambda>dl.
       tx_bind (usage_ByModel flt tenant monthStart now) (\<lambda>bm.
       tx_return \<lparr>rep_today = today, rep_month = month, rep_daily = dl, rep_by_model = bm\<rparr>)))) db)))"

end
