(* ===== verification/UsageProofs.thy ===== *)
theory UsageProofs
  imports Usage
begin

text \<open>
  What the rollup and the reads of the usage service guarantee: below the watermark every event is
  counted exactly once, the three views agree, and the quota gate refuses exactly at the limit. The
  watermark is the largest visible id, so an event that commits late, under an id the watermark has
  passed, is never counted.
\<close>

section \<open>Buckets\<close>

type_synonym vals = "int \<times> int \<times> int"

fun add3 :: "vals \<Rightarrow> vals \<Rightarrow> vals" where
  "add3 (a, b, c) (x, y, z) = (a + x, b + y, c + z)"

lemma add3_zero [simp]: "add3 (0, 0, 0) v = v" "add3 v (0, 0, 0) = v"
  by (cases v; simp)+

definition row_vals :: "usageDailyRow \<Rightarrow> vals" where
  "row_vals r = (d_PromptTokens r, d_CompletionTokens r, d_Requests r)"

definition daily_of :: "bucket \<Rightarrow> usageDailyRow list \<Rightarrow> vals" where
  "daily_of k rows = (case tbl_find daily_key k rows of None \<Rightarrow> (0, 0, 0) | Some r \<Rightarrow> row_vals r)"

definition event_vals :: "bucket \<Rightarrow> usageRow list \<Rightarrow> vals" where
  "event_vals k evs = (let es = filter (\<lambda>e. event_key e = k) evs in
     (sum_of u_PromptTokens es, sum_of u_CompletionTokens es, int (length es)))"

text \<open>
  The rollup is exact up to the watermark: each bucket of \<open>usage_daily\<close> is the sum of the visible
  events of its tenant, model and day with an id the watermark has reached.
\<close>

definition counted :: "usage_db \<Rightarrow> usageRow list" where
  "counted db = filter (\<lambda>e. u_ID e \<le> last_event_id db) (events db)"

definition rolled :: "usage_db \<Rightarrow> bool" where
  "rolled db \<longleftrightarrow> tbl_unique daily_key (daily db) \<and>
    (\<forall>k\<in>set (map daily_key (daily db)) \<union> set (map event_key (events db)).
       daily_of k (daily db) = event_vals k (counted db))"

lemma event_vals_Nil [simp]: "event_vals k [] = (0, 0, 0)"
  by (simp add: event_vals_def)

lemma event_vals_append: "event_vals k (xs @ ys) = add3 (event_vals k xs) (event_vals k ys)"
  by (simp add: event_vals_def Let_def)

lemma event_vals_none: "k \<notin> event_key ` set evs \<Longrightarrow> event_vals k evs = (0, 0, 0)"
proof -
  assume "k \<notin> event_key ` set evs"
  then have "filter (\<lambda>e. event_key e = k) evs = []" by (auto simp: filter_empty_conv)
  then show ?thesis by (simp add: event_vals_def)
qed

lemma rolled_iff:
  "rolled db \<longleftrightarrow> tbl_unique daily_key (daily db) \<and> (\<forall>k. daily_of k (daily db) = event_vals k (counted db))"
proof -
  have "daily_of k (daily db) = event_vals k (counted db)"
    if "k \<notin> set (map daily_key (daily db)) \<union> set (map event_key (events db))" for k
  proof -
    have "event_vals k (counted db) = (0, 0, 0)"
      using that by (intro event_vals_none) (auto simp: counted_def)
    moreover have "tbl_find daily_key k (daily db) = None"
      using that by (simp add: tbl_find_None)
    ultimately show ?thesis by (simp add: daily_of_def)
  qed
  then show ?thesis unfolding rolled_def by blast
qed

lemma daily_key_add [simp]: "daily_key (add_daily now a r) = daily_key r"
  by (simp add: daily_key_def add_daily_def)

lemma upsert_daily_unique:
  "tbl_unique daily_key rows \<Longrightarrow> tbl_unique daily_key (upsert_daily now a rows)"
  by (simp add: upsert_daily_def tbl_unique_update tbl_unique_insert)

lemma daily_of_upsert:
  "daily_of k (upsert_daily now a rows) =
    (if daily_key a = k then add3 (daily_of k rows) (row_vals a) else daily_of k rows)"
proof (cases "tbl_has daily_key (daily_key a) rows")
  case True
  then obtain r where "tbl_find daily_key (daily_key a) rows = Some r"
    using tbl_find_None[of daily_key "daily_key a" rows] by (auto simp: tbl_has_iff)
  then show ?thesis
    using True
      tbl_find_update[of daily_key "add_daily now a" k "daily_key a" rows]
    by (auto simp: upsert_daily_def daily_of_def row_vals_def split: option.splits)
      (auto simp: add_daily_def)
next
  case False
  then have "tbl_find daily_key (daily_key a) rows = None" by (simp add: tbl_find_None tbl_has_iff)
  then show ?thesis
    using False by (auto simp: upsert_daily_def daily_of_def tbl_find_insert split: option.splits)
qed

definition only_daily :: "usage_db \<Rightarrow> usage_db \<Rightarrow> bool" where
  "only_daily db db' \<longleftrightarrow> quotas db' = quotas db \<and> events db' = events db \<and> pending db' = pending db \<and>
     event_seq db' = event_seq db \<and> last_event_id db' = last_event_id db"

lemma upsert_all_commit:
  assumes "upsert_all flt now rows db = (Inr x, db')" "tbl_unique daily_key (daily db)"
    "distinct (map daily_key rows)"
  shows "only_daily db db' \<and> tbl_unique daily_key (daily db') \<and>
    (\<forall>k. daily_of k (daily db') = add3 (daily_of k (daily db)) (daily_of k rows))"
  using assms
proof (induction rows arbitrary: db)
  case Nil
  then show ?case by (simp add: daily_of_def only_daily_def)
next
  case (Cons a rows)
  let ?d = "db\<lparr>daily := upsert_daily now a (daily db)\<rparr>"
  have rest: "upsert_all flt now rows ?d = (Inr x, db')"
    using Cons.prems(1) by (auto simp: tx_ok)
  have "tbl_find daily_key (daily_key a) rows = None"
    using Cons.prems(3) by (simp add: tbl_find_None)
  then have "daily_of k (a # rows) = (if daily_key a = k then row_vals a else daily_of k rows)"
    "daily_of (daily_key a) rows = (0, 0, 0)" for k
    by (simp_all add: daily_of_def tbl_find_Cons)
  then show ?case
    using Cons.IH[OF rest] Cons.prems(2,3) by (auto simp: upsert_daily_unique daily_of_upsert only_daily_def)
qed

lemma aggregate_keys: "distinct (map daily_key (aggregate_events now lo hi db))"
  by (simp add: aggregate_events_def group_by_def comp_def daily_key_def case_prod_unfold)

lemma find_group_by:
  assumes "\<And>k es. key' (agg k es) = k"
  shows "tbl_find key' k (group_by key agg rows) =
    (if k \<in> key ` set rows then Some (agg k (filter (\<lambda>r. key r = k) rows)) else None)"
proof -
  have "tbl_find key' k (map (\<lambda>k. agg k (f k)) ks) = (if k \<in> set ks then Some (agg k (f k)) else None)"
    for ks f by (induction ks) (auto simp: tbl_find_Cons assms)
  then show ?thesis by (simp add: group_by_def)
qed

lemma daily_of_aggregate:
  "daily_of k (aggregate_events now lo hi db) =
    event_vals k (filter (\<lambda>e. lo < u_ID e \<and> u_ID e \<le> hi) (events db))"
proof -
  let ?es = "filter (\<lambda>e. lo < u_ID e \<and> u_ID e \<le> hi) (events db)"
  have "tbl_find daily_key k (aggregate_events now lo hi db) =
    (if k \<in> event_key ` set ?es then
       Some (case k of (t, m, dy) \<Rightarrow> (let es = filter (\<lambda>e. event_key e = k) ?es in
       \<lparr>d_TenantID = t, d_Model = m, d_Day = dy, d_PromptTokens = sum_of u_PromptTokens es,
       d_CompletionTokens = sum_of u_CompletionTokens es, d_Requests = int (length es), d_UpdatedAt = now\<rparr>))
     else None)"
    unfolding aggregate_events_def
    by (subst find_group_by) (auto simp: daily_key_def Let_def split: prod.splits)
  then show ?thesis
    using event_vals_none[of k ?es]
    by (cases k) (auto simp: daily_of_def row_vals_def event_vals_def Let_def)
qed


section \<open>The rollup\<close>

lemma event_vals_split:
  "lo \<le> hi \<Longrightarrow> event_vals k (filter (\<lambda>e. u_ID e \<le> hi) evs) =
    add3 (event_vals k (filter (\<lambda>e. u_ID e \<le> lo) evs))
         (event_vals k (filter (\<lambda>e. lo < u_ID e \<and> u_ID e \<le> hi) evs))"
  by (induction evs) (auto simp: event_vals_def Let_def)

lemma fold_max_acc: "acc \<le> fold max xs (acc :: int)"
proof (induction xs arbitrary: acc)
  case (Cons a xs)
  from this[of "max a acc"] show ?case by simp
qed simp

lemma fold_max_ge: "x \<in> set xs \<Longrightarrow> x \<le> fold max xs (acc :: int)"
proof (induction xs arbitrary: acc)
  case (Cons y xs)
  then show ?case
    using fold_max_acc[of "max y acc" xs] by auto
qed simp

lemma max_event_id_ge: "e \<in> set evs \<Longrightarrow> u_ID e \<le> max_event_id evs"
  by (simp add: max_event_id_def fold_max_ge)

lemma usage_Rollup_commit:
  assumes "usage_Rollup flt now db = (Inr n, db')" "tbl_unique daily_key (daily db)"
  obtains (nothing_new) "max_event_id (events db) \<le> last_event_id db" "n = 0" "db' = db"
  | (folded) "last_event_id db < max_event_id (events db)"
      "only_daily (db\<lparr>last_event_id := max_event_id (events db)\<rparr>) db'"
      "tbl_unique daily_key (daily db')"
      "\<And>k. daily_of k (daily db') = add3 (daily_of k (daily db))
         (event_vals k (filter (\<lambda>e. last_event_id db < u_ID e \<and> u_ID e \<le> max_event_id (events db)) (events db)))"
proof (cases "max_event_id (events db) \<le> last_event_id db")
  case True
  then show ?thesis using assms(1) by (intro nothing_new) (auto simp: usage_Rollup_def tx_ok)
next
  case False
  let ?rows = "aggregate_events now (last_event_id db) (max_event_id (events db)) db"
  from False assms(1) obtain d where d: "upsert_all flt now ?rows db = (Inr (), d)"
    "db' = d\<lparr>last_event_id := max_event_id (events db)\<rparr>"
    by (auto simp: usage_Rollup_def tx_ok)
  have "only_daily db d" "tbl_unique daily_key (daily d)"
    "\<And>k. daily_of k (daily d) = add3 (daily_of k (daily db)) (daily_of k ?rows)"
    using upsert_all_commit[OF d(1) assms(2) aggregate_keys] by blast+
  then show ?thesis
    using False d(2) by (intro folded) (simp_all add: daily_of_aggregate only_daily_def)
qed

lemma rollup_error: "usage_Rollup flt now db = (Inl e, db') \<Longrightarrow> db' = db"
  unfolding usage_Rollup_def by (rule transaction_error)

lemma rolled_rollup: "rolled db \<Longrightarrow> rolled (snd (usage_Rollup flt now db))"
proof (cases "usage_Rollup flt now db")
  case (Pair r db')
  assume rolled: "rolled db"
  show ?thesis
  proof (cases r)
    case (Inl e)
    then have "db' = db" using Pair by (simp add: rollup_error)
    then show ?thesis using Pair rolled by simp
  next
    case (Inr n)
    then have c: "usage_Rollup flt now db = (Inr n, db')" using Pair by simp
    have u: "tbl_unique daily_key (daily db)" using rolled by (simp add: rolled_iff)
    from c u have "rolled db'"
    proof (cases rule: usage_Rollup_commit)
      case folded
      then have "last_event_id db' = max_event_id (events db)" "events db' = events db"
        by (simp_all add: only_daily_def)
      moreover have "event_vals k (filter (\<lambda>e. u_ID e \<le> max_event_id (events db)) (events db)) =
          add3 (event_vals k (counted db)) (event_vals k (filter (\<lambda>e. last_event_id db < u_ID e \<and>
            u_ID e \<le> max_event_id (events db)) (events db)))" for k
        unfolding counted_def using folded(1) by (intro event_vals_split) simp
      ultimately show ?thesis
        using folded(3,4) rolled by (simp add: rolled_iff counted_def)
    qed (use rolled in simp)
    then show ?thesis using Pair by simp
  qed
qed

text \<open>The steps of the recorders and of the roller, interleaved.\<close>

datatype usage_step =
    StepInsert int string string int int
  | StepCommit int
  | StepRollup faults int

fun run_step :: "usage_step \<Rightarrow> usage_db \<Rightarrow> usage_db" where
  "run_step (StepInsert now tenant model pt ct) db = usage_insert now tenant model pt ct db"
| "run_step (StepCommit eid) db = usage_commit eid db"
| "run_step (StepRollup flt now) db = snd (usage_Rollup flt now db)"

text \<open>No event commits under an id the watermark has passed.\<close>

fun commits_ahead :: "usage_step list \<Rightarrow> usage_db \<Rightarrow> bool" where
  "commits_ahead [] db \<longleftrightarrow> True"
| "commits_ahead (s # rest) db \<longleftrightarrow>
     (case s of StepCommit eid \<Rightarrow> last_event_id db < eid | _ \<Rightarrow> True) \<and> commits_ahead rest (run_step s db)"

lemma rolled_commit:
  assumes "rolled db" "last_event_id db < eid"
  shows "rolled (usage_commit eid db)"
proof -
  have "counted (usage_commit eid db) = counted db"
    using assms(2) by (auto simp: counted_def usage_commit_def filter_empty_conv)
  then show ?thesis using assms(1) by (simp add: rolled_iff) (simp add: usage_commit_def)
qed

lemma rolled_steps: "rolled db \<Longrightarrow> commits_ahead steps db \<Longrightarrow> rolled (fold run_step steps db)"
proof (induction steps arbitrary: db)
  case (Cons s steps)
  have "rolled (run_step s db)"
    using Cons.prems
    by (cases s) (auto simp: rolled_commit rolled_rollup, simp add: rolled_iff counted_def usage_insert_def)
  then show ?case using Cons by simp
qed simp


section \<open>Properties\<close>

lemma rollup_counts_every_event_once_parts:
  assumes "rolled db" "commits_ahead steps db"
  defines "db1 \<equiv> fold run_step steps db"
  shows "rolled db1"
    "usage_Rollup flt now db1 = (Inr n, db2) \<Longrightarrow> daily_of k (daily db2) = event_vals k (events db2)"
proof -
  show r: "rolled db1" unfolding db1_def by (rule rolled_steps[OF assms(1,2)])
  assume c: "usage_Rollup flt now db1 = (Inr n, db2)"
  have "rolled db2" using rolled_rollup[OF r, of flt now] c by simp
  moreover have "u_ID e \<le> last_event_id db2" if "e \<in> set (events db2)" for e
    using c r[unfolded rolled_iff, THEN conjunct1] that
    by (cases rule: usage_Rollup_commit) (auto simp: only_daily_def dest: max_event_id_ge)
  then have "counted db2 = events db2" by (simp add: counted_def)
  ultimately show "daily_of k (daily db2) = event_vals k (events db2)" using rolled_iff by metis
qed

text \<open>
  C18: Every event is counted exactly once. Over any interleaving of recorders and rollups, with
  rollups failing at any statement, in which events commit ahead of the watermark, each bucket of
  \<open>usage_daily\<close> is the sum of the visible events up to the watermark; and when a rollup has committed
  after it, each bucket is the sum of all visible events of its tenant, model and day.
\<close>

theorem rollup_counts_every_event_once:
  assumes "rolled db" "commits_ahead steps db"
  defines "db1 \<equiv> fold run_step steps db"
  shows "rolled db1 \<and>
    (usage_Rollup flt now db1 = (Inr n, db2) \<longrightarrow> daily_of k (daily db2) = event_vals k (events db2))"
  unfolding db1_def
  by (rule conjI, rule rollup_counts_every_event_once_parts(1)[OF assms(1-2)], (rule impI)+,
      rule rollup_counts_every_event_once_parts(2)[OF assms(1-2)], assumption+)


definition empty_usage :: usage_db where
  "empty_usage = \<lparr>quotas = [], events = [], pending = [], event_seq = 1, daily = [], last_event_id = 0\<rparr>"

definition two_recorders :: "usage_step list" where
  "two_recorders = [StepInsert 10 ''t'' ''m'' 3 4, StepInsert 11 ''t'' ''m'' 5 6, StepCommit 1,
     StepRollup no_faults 20, StepCommit 2, StepRollup (\<lambda>l k. l = ''upsert usage daily'') 30]"

theorem rollup_counts_every_event_once_witness:
  "daily_of (''t'', ''m'', 0) (daily (snd (usage_Rollup no_faults 40 (fold run_step two_recorders empty_usage)))) =
    (8, 10, 2)"
proof -
  have ev: "event_vals (''t'', ''m'', 0)
     (events (snd (usage_Rollup no_faults 40 (fold run_step two_recorders empty_usage)))) = (8, 10, 2)"
    by code_simp
  have "rolled empty_usage" by (simp add: rolled_def empty_usage_def tbl_unique_def)
  moreover have "commits_ahead two_recorders empty_usage" by code_simp
  moreover have "usage_Rollup no_faults 40 (fold run_step two_recorders empty_usage) =
     (Inr 1, snd (usage_Rollup no_faults 40 (fold run_step two_recorders empty_usage)))" by code_simp
  ultimately show ?thesis using ev rollup_counts_every_event_once by (metis (no_types, lifting))
qed

lemma upsert_all_events:
  "upsert_all flt now rows (db\<lparr>events := evs, pending := ps\<rparr>) =
    (case upsert_all flt now rows db of (r, d) \<Rightarrow> (r, d\<lparr>events := evs, pending := ps\<rparr>))"
proof (induction rows arbitrary: db)
  case (Cons a rows)
  have sw: "db\<lparr>events := evs, pending := ps, daily := x\<rparr> = db\<lparr>daily := x, events := evs, pending := ps\<rparr>" for x
    by simp
  show ?case
    using Cons[of "db\<lparr>daily := upsert_daily now a (daily db)\<rparr>"] by (simp add: tx_simps sw)
qed (simp add: tx_simps)

lemma fold_max_append: "fold max (xs @ ys) (acc::int) = max (fold max xs acc) (fold max ys acc)"
proof -
  have "fold max ys (max a b) = max a (fold max ys b)" for a b :: int
  proof (induction ys arbitrary: b)
    case (Cons y ys)
    from this[of "max y b"] show ?case by (simp add: max.left_commute[of y a b])
  qed simp
  moreover have "max (fold max xs acc) acc = fold max xs acc" using fold_max_acc[of acc xs] by simp
  ultimately show ?thesis by (metis fold_append comp_apply)
qed

lemma late_event_is_never_counted_parts:
  assumes "\<forall>e\<in>set (pending db). u_ID e = eid \<longrightarrow> 0 < eid" "eid \<le> last_event_id db"
  shows "fst (usage_Rollup flt now (usage_commit eid db)) = fst (usage_Rollup flt now db)"
    "daily (snd (usage_Rollup flt now (usage_commit eid db))) = daily (snd (usage_Rollup flt now db))"
    "last_event_id (snd (usage_Rollup flt now (usage_commit eid db))) =
       last_event_id (snd (usage_Rollup flt now db))"
    "events (usage_commit eid db) = events db @ filter (\<lambda>e. u_ID e = eid) (pending db)"
proof -
  let ?late = "filter (\<lambda>e. u_ID e = eid) (pending db)"
  let ?evs = "events db @ ?late" and ?ps = "filter (\<lambda>e. u_ID e \<noteq> eid) (pending db)"
  have c: "usage_commit eid db = db\<lparr>events := ?evs, pending := ?ps\<rparr>"
    by (simp add: usage_commit_def)
  have late: "fold max (map u_ID ?late) 0 \<le> last_event_id db \<or> ?late = []"
  proof -
    have le: "fold max xs a \<le> b" if "\<forall>x\<in>set xs. x \<le> b" "a \<le> b" for xs and a b :: int
      using that by (induction xs arbitrary: a) auto
    have pos: "0 < eid" if "?late \<noteq> []" using that assms(1) by (auto simp: filter_empty_conv)
    have "\<forall>x\<in>set (map u_ID ?late). x \<le> last_event_id db" using assms(2) by auto
    then show ?thesis using le[of "map u_ID ?late" "last_event_id db" 0] pos assms(2) by linarith
  qed
  have mx: "max_event_id ?evs = (if max_event_id (events db) \<le> last_event_id db then max_event_id ?evs
      else max_event_id (events db)) \<and>
      (max_event_id ?evs \<le> last_event_id db \<longleftrightarrow> max_event_id (events db) \<le> last_event_id db)"
    using late fold_max_acc[of 0 "map u_ID (events db)"]
    by (auto simp: max_event_id_def fold_max_append max_def simp del: fold_append)
  have agg: "aggregate_events now (last_event_id db) m (db\<lparr>events := ?evs, pending := ?ps\<rparr>) =
      aggregate_events now (last_event_id db) m db" for m
  proof -
    have "filter (\<lambda>e. last_event_id db < u_ID e \<and> u_ID e \<le> m) ?late = []"
      using assms(2) by (auto simp: filter_empty_conv)
    then show ?thesis by (simp add: aggregate_events_def del: filter_filter)
  qed
  have both: "fst (usage_Rollup flt now (usage_commit eid db)) = fst (usage_Rollup flt now db) \<and>
      daily (snd (usage_Rollup flt now (usage_commit eid db))) = daily (snd (usage_Rollup flt now db)) \<and>
      last_event_id (snd (usage_Rollup flt now (usage_commit eid db))) =
       last_event_id (snd (usage_Rollup flt now db))"
  proof (cases "max_event_id (events db) \<le> last_event_id db")
    case True
    then show ?thesis using mx unfolding c by (simp add: usage_Rollup_def tx_simps)
  next
    case False
    then have "max_event_id ?evs = max_event_id (events db)" using mx by simp
    then show ?thesis using False unfolding c
      by (simp add: usage_Rollup_def tx_simps agg upsert_all_events split: prod.splits sum.splits)
  qed
  then show "fst (usage_Rollup flt now (usage_commit eid db)) = fst (usage_Rollup flt now db)"
    "daily (snd (usage_Rollup flt now (usage_commit eid db))) = daily (snd (usage_Rollup flt now db))"
    "last_event_id (snd (usage_Rollup flt now (usage_commit eid db))) =
       last_event_id (snd (usage_Rollup flt now db))" by simp_all
  show "events (usage_commit eid db) = events db @ ?late" by (simp add: usage_commit_def)
qed

text \<open>
  An event that commits late is lost. If an event becomes visible under an id the watermark has
  already passed (its INSERT drew the id before, its commit came after another recorder's event was
  rolled up), then no rollup counts it: what the rollup computes, its watermark and its errors are the
  same as if the event had never been committed. The sequence order of ids is not the commit order.
\<close>

theorem late_event_is_never_counted:
  assumes "\<forall>e\<in>set (pending db). u_ID e = eid \<longrightarrow> 0 < eid" "eid \<le> last_event_id db"
  shows "fst (usage_Rollup flt now (usage_commit eid db)) = fst (usage_Rollup flt now db) \<and>
    daily (snd (usage_Rollup flt now (usage_commit eid db))) = daily (snd (usage_Rollup flt now db)) \<and>
    last_event_id (snd (usage_Rollup flt now (usage_commit eid db))) =
       last_event_id (snd (usage_Rollup flt now db)) \<and>
    events (usage_commit eid db) = events db @ filter (\<lambda>e. u_ID e = eid) (pending db)"
  by (rule conjI, rule late_event_is_never_counted_parts(1)[OF assms], rule conjI,
      rule late_event_is_never_counted_parts(2)[OF assms], rule conjI, rule late_event_is_never_counted_parts(3)[OF assms],
      rule late_event_is_never_counted_parts(4)[OF assms])


definition overtaken :: "usage_db" where
  "overtaken = fold run_step [StepInsert 10 ''t'' ''m'' 3 4, StepInsert 11 ''t'' ''m'' 5 6, StepCommit 2,
     StepRollup no_faults 20] empty_usage"

theorem late_event_is_never_counted_witness:
  "daily (snd (usage_Rollup no_faults 40 (usage_commit 1 overtaken))) = daily (snd (usage_Rollup no_faults 40 overtaken)) \<and>
   length (events (usage_commit 1 overtaken)) = 2 \<and> daily_of (''t'', ''m'', 0) (daily overtaken) = (5, 6, 1)"
proof -
  have "\<forall>e\<in>set (pending overtaken). u_ID e = 1 \<longrightarrow> (0::int) < 1" by simp
  moreover have "1 \<le> last_event_id overtaken" by code_simp
  moreover have "length (events (usage_commit 1 overtaken)) = 2 \<and>
      daily_of (''t'', ''m'', 0) (daily overtaken) = (5, 6, 1)" by code_simp
  ultimately show ?thesis using late_event_is_never_counted by blast
qed


lemma usage_views_agree_parts:
  assumes "usage_Summary flt tenant from_t to_t db = (Inr s, db1)"
    "usage_Daily flt tenant from_t to_t db = (Inr ps, db2)"
    "usage_ByModel flt tenant from_t to_t db = (Inr ms, db3)"
  shows "PromptTokens s = sum_of dp_PromptTokens ps" "PromptTokens s = sum_of bm_PromptTokens ms"
    "Requests s = sum_of dp_Requests ps" "Requests s = sum_of bm_Requests ms"
    "TotalTokens s = sum_of dp_PromptTokens ps + sum_of dp_CompletionTokens ps"
    "TotalTokens s = sum_of bm_TotalTokens ms"
    "set (map dp_Day ps) = {dy. \<exists>r\<in>set (daily db). d_TenantID r = tenant \<and> d_Day r = dy \<and>
       day_of from_t \<le> dy \<and> dy \<le> day_of to_t}"
proof -
  let ?w = "window_rows tenant from_t to_t db"
  have s: "s = summary_of ?w" and ps: "ps = daily_points ?w" and ms: "ms = by_model ?w"
    using assms by (auto simp: usage_Summary_def usage_Daily_def usage_ByModel_def tx_ok)
  note group = sum_group_by[of dp_PromptTokens] sum_group_by[of dp_CompletionTokens]
    sum_group_by[of dp_Requests] sum_group_by[of bm_PromptTokens] sum_group_by[of bm_TotalTokens]
    sum_group_by[of bm_Requests]
  have total: "sum_of total_tokens ?w = sum_of d_PromptTokens ?w + sum_of d_CompletionTokens ?w"
    by (simp add: sum_of_def total_tokens_def[abs_def] sum_list_addf)
  have reads: "sum_of dp_PromptTokens ps = sum_of d_PromptTokens ?w"
    "sum_of dp_CompletionTokens ps = sum_of d_CompletionTokens ?w"
    "sum_of dp_Requests ps = sum_of d_Requests ?w"
    "sum_of bm_PromptTokens ms = sum_of d_PromptTokens ?w"
    "sum_of bm_TotalTokens ms = sum_of total_tokens ?w" "sum_of bm_Requests ms = sum_of d_Requests ?w"
    unfolding ps ms sum_of_def[of dp_PromptTokens] sum_of_def[of dp_CompletionTokens]
      sum_of_def[of dp_Requests] sum_of_def[of bm_PromptTokens] sum_of_def[of bm_TotalTokens]
      sum_of_def[of bm_Requests] daily_points_def by_model_def
    by (simp_all add: group)
  show "PromptTokens s = sum_of dp_PromptTokens ps" "PromptTokens s = sum_of bm_PromptTokens ms"
    "Requests s = sum_of dp_Requests ps" "Requests s = sum_of bm_Requests ms"
    "TotalTokens s = sum_of dp_PromptTokens ps + sum_of dp_CompletionTokens ps"
    "TotalTokens s = sum_of bm_TotalTokens ms"
    by (simp_all add: s reads summary_of_def total)
  show "set (map dp_Day ps) = {dy. \<exists>r\<in>set (daily db). d_TenantID r = tenant \<and> d_Day r = dy \<and>
       day_of from_t \<le> dy \<and> dy \<le> day_of to_t}"
    by (auto simp: ps daily_points_def group_by_def window_rows_def image_iff)
qed

text \<open>
  The three reads of the usage page agree. When they succeed for the same tenant and window, the
  totals of the summary are the sums of the daily points and the sums of the per-model rows, and the
  daily points are one per day, inside the window, both of whose end days are included.
\<close>

theorem usage_views_agree:
  assumes "usage_Summary flt tenant from_t to_t db = (Inr s, db1)"
    "usage_Daily flt tenant from_t to_t db = (Inr ps, db2)"
    "usage_ByModel flt tenant from_t to_t db = (Inr ms, db3)"
  shows "PromptTokens s = sum_of dp_PromptTokens ps \<and>
    PromptTokens s = sum_of bm_PromptTokens ms \<and>
    Requests s = sum_of dp_Requests ps \<and>
    Requests s = sum_of bm_Requests ms \<and>
    TotalTokens s = sum_of dp_PromptTokens ps + sum_of dp_CompletionTokens ps \<and>
    TotalTokens s = sum_of bm_TotalTokens ms \<and>
    (set (map dp_Day ps) = {dy. \<exists>r\<in>set (daily db). d_TenantID r = tenant \<and> d_Day r = dy \<and>
       day_of from_t \<le> dy \<and> dy \<le> day_of to_t})"
  by (rule conjI, rule usage_views_agree_parts(1)[OF assms], rule conjI,
      rule usage_views_agree_parts(2)[OF assms], rule conjI, rule usage_views_agree_parts(3)[OF assms],
      rule conjI, rule usage_views_agree_parts(4)[OF assms], rule conjI,
      rule usage_views_agree_parts(5)[OF assms], rule conjI, rule usage_views_agree_parts(6)[OF assms],
      rule usage_views_agree_parts(7)[OF assms])


theorem usage_views_agree_witness:
  "Requests (summary_of (window_rows ''t'' 0 100 (snd (usage_Rollup no_faults 40 (fold run_step two_recorders empty_usage))))) =
   sum_of dp_Requests (daily_points (window_rows ''t'' 0 100 (snd (usage_Rollup no_faults 40 (fold run_step two_recorders empty_usage)))))"
proof -
  let ?db = "snd (usage_Rollup no_faults 40 (fold run_step two_recorders empty_usage))"
  have "usage_Summary no_faults ''t'' 0 100 ?db = (Inr (summary_of (window_rows ''t'' 0 100 ?db)), ?db)"
    by code_simp
  moreover have "usage_Daily no_faults ''t'' 0 100 ?db = (Inr (daily_points (window_rows ''t'' 0 100 ?db)), ?db)"
    by code_simp
  moreover have "usage_ByModel no_faults ''t'' 0 100 ?db = (Inr (by_model (window_rows ''t'' 0 100 ?db)), ?db)"
    by code_simp
  ultimately show ?thesis by (rule usage_views_agree[THEN conjunct2, THEN conjunct2, THEN conjunct1])
qed

section \<open>The quota gate\<close>

definition breached :: "string \<Rightarrow> int \<Rightarrow> usage_db \<Rightarrow> Quota \<Rightarrow> bool" where
  "breached tenant now db q \<longleftrightarrow> quotaKind (qt_QuotaType q) \<noteq> KindNone \<and> 0 < qt_LimitValue q \<and>
     qt_LimitValue q \<le> used_of (quotaKind (qt_QuotaType q)) (summary_of (window_rows tenant
       (fst (periodWindow (qt_Period q) now)) (snd (periodWindow (qt_Period q) now)) db))"

lemma usage_Summary_state: "snd (usage_Summary flt tenant f t db) = db"
  by (simp add: usage_Summary_def tx_simps)

lemma usage_Summary_result:
  "fst (usage_Summary flt tenant f t db) = Inr s \<Longrightarrow> s = summary_of (window_rows tenant f t db)"
  by (auto simp: usage_Summary_def tx_simps split: if_splits)

lemma check_quotas_refusal:
  "check_quotas flt mode tenant now qs db = (Inl (ErrQuotaExceeded k p l u), db') \<Longrightarrow>
   mode = ''enforce'' \<and> (\<exists>q\<in>set qs. breached tenant now db q \<and> l = qt_LimitValue q \<and> l \<le> u)"
proof (induction qs)
  case (Cons q qs)
  show ?case
  proof (cases "quotaKind (qt_QuotaType q) = KindNone \<or> qt_LimitValue q \<le> 0")
    case True
    then show ?thesis using Cons by auto
  next
    case False
    let ?r = "usage_Summary flt tenant (fst (periodWindow (qt_Period q) now)) (snd (periodWindow (qt_Period q) now)) db"
    from False Cons.prems obtain s where "fst ?r = Inr s"
      by (auto simp: Let_def tx_bind_def usage_Summary_def tx_simps split: if_splits)
    then have "?r = (Inr (summary_of (window_rows tenant (fst (periodWindow (qt_Period q) now))
        (snd (periodWindow (qt_Period q) now)) db)), db)"
      using usage_Summary_state[of flt tenant] usage_Summary_result[of flt tenant]
      by (metis prod.collapse)
    then show ?thesis
      using False Cons by (auto simp: tx_bind_def Let_def breached_def tx_fail_def split: if_splits)
  qed
qed (simp add: tx_simps)

lemma check_quotas_enforced:
  assumes "\<forall>q\<in>set qs. sums_fit (window_rows tenant (fst (periodWindow (qt_Period q) now))
      (snd (periodWindow (qt_Period q) now)) db)"
  shows "(\<exists>e. check_quotas no_faults ''enforce'' tenant now qs db = (Inl e, db)) \<longleftrightarrow>
    (\<exists>q\<in>set qs. breached tenant now db q)"
  using assms
  by (induction qs) (auto simp: tx_simps usage_Summary_def Let_def breached_def)

lemma quota_gate_refuses_at_limit_parts:
  assumes "\<forall>q\<in>set (quotas db). sums_fit (window_rows tenant (fst (periodWindow (q_Period q) now))
      (snd (periodWindow (q_Period q) now)) db)"
  shows "fst (quota_Check flt le mode tenant now db) = Inl (ErrQuotaExceeded k p l u) \<Longrightarrow>
      mode = ''enforce'' \<and> l \<le> u \<and> (\<exists>q\<in>set (quotas db). q_TenantID q = tenant \<and> q_LimitValue q = l \<and>
        breached tenant now db (toQuota q))"
    "fst (quota_Check no_faults le ''enforce'' tenant now db) \<noteq> Inr () \<longleftrightarrow>
      (\<exists>q\<in>set (quotas db). q_TenantID q = tenant \<and> breached tenant now db (toQuota q))"
proof -
  let ?qs = "map toQuota (order_by (\<lambda>a b. le (q_QuotaType a) (q_QuotaType b))
    (filter (\<lambda>r. q_TenantID r = tenant) (quotas db)))"
  show "mode = ''enforce'' \<and> l \<le> u \<and> (\<exists>q\<in>set (quotas db). q_TenantID q = tenant \<and> q_LimitValue q = l \<and>
        breached tenant now db (toQuota q))"
    if refused: "fst (quota_Check flt le mode tenant now db) = Inl (ErrQuotaExceeded k p l u)"
  proof -
    have "fst (check_quotas flt mode tenant now ?qs db) = Inl (ErrQuotaExceeded k p l u)"
      using refused by (auto simp: quota_Check_def quota_List_def tx_simps split: if_splits)
    then obtain db' where "check_quotas flt mode tenant now ?qs db = (Inl (ErrQuotaExceeded k p l u), db')"
      by (metis prod.collapse)
    from check_quotas_refusal[OF this] show ?thesis by (auto simp: toQuota_def)
  qed
  have fit: "\<forall>q\<in>set ?qs. sums_fit (window_rows tenant (fst (periodWindow (qt_Period q) now))
      (snd (periodWindow (qt_Period q) now)) db)"
    using assms by (auto simp: toQuota_def)
  have state: "snd (check_quotas flt' mode' tenant now qs db) = db" for flt' mode' qs
    by (induction qs) (auto simp: tx_simps usage_Summary_def Let_def)
  have "fst (quota_Check no_faults le ''enforce'' tenant now db) \<noteq> Inr () \<longleftrightarrow>
      (\<exists>e. check_quotas no_faults ''enforce'' tenant now ?qs db = (Inl e, db))"
    using state[of no_faults "''enforce''" ?qs]
    by (cases "check_quotas no_faults ''enforce'' tenant now ?qs db";
        cases "fst (check_quotas no_faults ''enforce'' tenant now ?qs db)")
      (auto simp: quota_Check_def quota_List_def tx_bind_def stmt_def query_def)
  then show "fst (quota_Check no_faults le ''enforce'' tenant now db) \<noteq> Inr () \<longleftrightarrow>
      (\<exists>q\<in>set (quotas db). q_TenantID q = tenant \<and> breached tenant now db (toQuota q))"
    unfolding check_quotas_enforced[OF fit] by auto
qed

text \<open>
  The quota gate refuses at the limit and only there. A refusal means that the mode is enforce and
  that some token or request quota of the tenant with a positive limit has been met or exceeded in its
  calendar window; a reading failure is a different error (the caller fails open). With no failure, in
  enforce mode, the gate refuses exactly when such a quota exists; otherwise it never refuses.
\<close>

theorem quota_gate_refuses_at_limit:
  assumes "\<forall>q\<in>set (quotas db). sums_fit (window_rows tenant (fst (periodWindow (q_Period q) now))
      (snd (periodWindow (q_Period q) now)) db)"
  shows "(fst (quota_Check flt le mode tenant now db) = Inl (ErrQuotaExceeded k p l u) \<longrightarrow>
      mode = ''enforce'' \<and> l \<le> u \<and> (\<exists>q\<in>set (quotas db). q_TenantID q = tenant \<and> q_LimitValue q = l \<and>
        breached tenant now db (toQuota q))) \<and>
    (fst (quota_Check no_faults le ''enforce'' tenant now db) \<noteq> Inr () \<longleftrightarrow>
      (\<exists>q\<in>set (quotas db). q_TenantID q = tenant \<and> breached tenant now db (toQuota q)))"
  by (rule conjI, (rule impI)+, rule quota_gate_refuses_at_limit_parts(1)[OF assms],
      assumption+, rule quota_gate_refuses_at_limit_parts(2)[OF assms])


definition limited_db :: "int \<Rightarrow> usage_db" where
  "limited_db lim = (snd (usage_Rollup no_faults 40 (fold run_step two_recorders empty_usage)))
    \<lparr>quotas := [\<lparr>q_ID = ''q'', q_TenantID = ''t'', q_QuotaType = ''Tokens_per_month'', q_LimitValue = lim,
      q_Period = ''monthly''\<rparr>]\<rparr>"

theorem quota_gate_refuses_at_limit_witness:
  "fst (quota_Check no_faults (\<lambda>a b. True) ''enforce'' ''t'' 90 (limited_db 18)) \<noteq> Inr () \<and>
   fst (quota_Check no_faults (\<lambda>a b. True) ''enforce'' ''t'' 90 (limited_db 19)) = Inr ()"
proof -
  have a: "\<forall>q\<in>set (quotas (limited_db 18)). sums_fit (window_rows ''t'' (fst (periodWindow (q_Period q) 90))
      (snd (periodWindow (q_Period q) 90)) (limited_db 18))" by code_simp
  have b: "\<forall>q\<in>set (quotas (limited_db 19)). sums_fit (window_rows ''t'' (fst (periodWindow (q_Period q) 90))
      (snd (periodWindow (q_Period q) 90)) (limited_db 19))" by code_simp
  have "\<exists>q\<in>set (quotas (limited_db 18)). q_TenantID q = ''t'' \<and> breached ''t'' 90 (limited_db 18) (toQuota q)"
    "\<not> (\<exists>q\<in>set (quotas (limited_db 19)). q_TenantID q = ''t'' \<and> breached ''t'' 90 (limited_db 19) (toQuota q))"
    by code_simp+
  then show ?thesis
    using quota_gate_refuses_at_limit[OF a, THEN conjunct2] quota_gate_refuses_at_limit[OF b, THEN conjunct2] by metis
qed

end
