(* ===== verification/Base64.thy ===== *)
theory Base64
  imports Prelude
begin

text \<open>
  The parts of Go's \<open>encoding/base64\<close> the code relies on: the standard alphabet, without padding
  (\<open>RawStdEncoding\<close>, stored passwords) and with it (\<open>StdEncoding\<close>, images).
  Bytes are numbers below 256. Both decoders skip CR and LF.
\<close>

definition is_bytes :: "nat list \<Rightarrow> bool" where
  "is_bytes bs \<longleftrightarrow> list_all (\<lambda>b. b < 256) bs"

definition b64_alphabet :: string where
  "b64_alphabet = ''ABCDEFGHIJKLMNOPQRSTUVWXYZabcdefghijklmnopqrstuvwxyz0123456789+/''"

definition enc6 :: "nat \<Rightarrow> char" where
  "enc6 n = b64_alphabet ! n"

fun index_from :: "nat \<Rightarrow> char \<Rightarrow> string \<Rightarrow> nat option" where
  "index_from i c [] = None"
| "index_from i c (x # xs) = (if x = c then Some i else index_from (Suc i) c xs)"

definition dec6 :: "char \<Rightarrow> nat option" where
  "dec6 c = index_from 0 c b64_alphabet"

fun b64_encode :: "nat list \<Rightarrow> string" where
  "b64_encode [] = []"
| "b64_encode [a] = [enc6 (a div 4), enc6 (a mod 4 * 16)]"
| "b64_encode [a, b] = [enc6 (a div 4), enc6 (a mod 4 * 16 + b div 16), enc6 (b mod 16 * 4)]"
| "b64_encode (a # b # c # rest) =
     enc6 (a div 4) # enc6 (a mod 4 * 16 + b div 16) # enc6 (b mod 16 * 4 + c div 64) # enc6 (c mod 64) #
     b64_encode rest"

definition b64_pad :: "nat list \<Rightarrow> string" where
  "b64_pad bs = (case length bs mod 3 of 0 \<Rightarrow> [] | Suc 0 \<Rightarrow> ''=='' | _ \<Rightarrow> ''='')"

definition b64_encode_std :: "nat list \<Rightarrow> string" where
  "b64_encode_std bs = b64_encode bs @ b64_pad bs"

text \<open>Quanta of four characters; a last quantum of two or three carries one or two bytes.\<close>

fun b64_quanta :: "nat list \<Rightarrow> nat list option" where
  "b64_quanta [] = Some []"
| "b64_quanta [w] = None"
| "b64_quanta [w, x] = Some [w * 4 + x div 16]"
| "b64_quanta [w, x, y] = Some [w * 4 + x div 16, x mod 16 * 16 + y div 4]"
| "b64_quanta (w # x # y # z # rest) =
     map_option (\<lambda>r. (w * 4 + x div 16) # (x mod 16 * 16 + y div 4) # (y mod 4 * 64 + z) # r) (b64_quanta rest)"

fun dec_all :: "string \<Rightarrow> nat list option" where
  "dec_all [] = Some []"
| "dec_all (c # cs) = (case dec6 c of None \<Rightarrow> None | Some v \<Rightarrow> map_option (Cons v) (dec_all cs))"

definition no_newlines :: "string \<Rightarrow> string" where
  "no_newlines s = filter (\<lambda>c. c \<noteq> CHR 0x0A \<and> c \<noteq> CHR 0x0D) s"

definition b64_decode :: "string \<Rightarrow> nat list option" where
  "b64_decode s = Option.bind (dec_all (no_newlines s)) b64_quanta"

text \<open>\<open>StdEncoding\<close>: the length is a multiple of four, the last quantum padded with one or two \<open>=\<close>.\<close>

definition b64_decode_std :: "string \<Rightarrow> nat list option" where
  "b64_decode_std s =
    (let t = no_newlines s; n = length t in
     if n mod 4 \<noteq> 0 then None
     else if has_suffix t ''=='' then b64_decode (take (n - 2) t)
     else if has_suffix t ''='' then b64_decode (take (n - 1) t)
     else b64_decode t)"

section \<open>Round trip\<close>

lemma all_below: "(\<forall>i<n. P i) \<longleftrightarrow> list_all P [0..<n]"
  by (auto simp: list_all_iff)

lemma dec6_enc6 [simp]: "n < 64 \<Longrightarrow> dec6 (enc6 n) = Some n"
proof -
  have "\<forall>i<64. dec6 (enc6 i) = Some i" unfolding all_below by code_simp
  then show "n < 64 \<Longrightarrow> dec6 (enc6 n) = Some n" by blast
qed

definition plain_char :: "char \<Rightarrow> bool" where
  "plain_char c \<longleftrightarrow> c \<notin> {CHR 0x0A, CHR 0x0D, CHR ''$'', CHR ''='', CHR '','', CHR '';''}"

lemma plain_enc6 [simp]: "n < 64 \<Longrightarrow> plain_char (enc6 n)"
proof -
  have "\<forall>i<64. plain_char (enc6 i)" unfolding all_below by code_simp
  then show "n < 64 \<Longrightarrow> plain_char (enc6 n)" by blast
qed

lemma quantum_bounds [simp]:
  "a < 256 \<Longrightarrow> a div 4 < (64::nat)" "a mod 4 * 16 < (64::nat)"
  "b < 256 \<Longrightarrow> a mod 4 * 16 + b div 16 < (64::nat)" "b mod 16 * 4 < (64::nat)"
  "c < 256 \<Longrightarrow> b mod 16 * 4 + c div 64 < (64::nat)"
proof -
  have m: "a mod 4 < 4" "b mod 16 < 16" by simp_all
  show "a < 256 \<Longrightarrow> a div 4 < 64" by (simp add: less_mult_imp_div_less)
  show "a mod 4 * 16 < 64" "b mod 16 * 4 < 64" using m by linarith+
  show "a mod 4 * 16 + b div 16 < 64" if "b < 256"
  proof -
    have "b div 16 < 16" using that by (simp add: less_mult_imp_div_less)
    then show ?thesis using m by linarith
  qed
  show "b mod 16 * 4 + c div 64 < 64" if "c < 256"
  proof -
    have "c div 64 < 4" using that by (simp add: less_mult_imp_div_less)
    then show ?thesis using m by linarith
  qed
qed

lemma plain_encode: "is_bytes bs \<Longrightarrow> list_all plain_char (b64_encode bs)"
  by (induction bs rule: b64_encode.induct) (simp_all add: is_bytes_def)

lemma no_newlines_plain: "list_all plain_char s \<Longrightarrow> no_newlines s = s"
  by (auto simp: no_newlines_def plain_char_def list_all_iff filter_id_conv)

lemma quantum_byte1: "b < 256 \<Longrightarrow> a div 4 * 4 + (a mod 4 * 16 + b div 16) div 16 = (a::nat)"
proof -
  assume "b < 256"
  then have "b div 16 < 16" by (simp add: less_mult_imp_div_less)
  then have "(a mod 4 * 16 + b div 16) div 16 = a mod 4" by simp
  then show ?thesis by simp
qed

lemma quantum_byte2:
  "b < 256 \<Longrightarrow> c < 256 \<Longrightarrow>
   (a mod 4 * 16 + b div 16) mod 16 * 16 + (b mod 16 * 4 + c div 64) div 4 = (b::nat)"
proof -
  assume "b < 256" "c < 256"
  then have "b div 16 < 16" "c div 64 < 4" by (simp_all add: less_mult_imp_div_less)
  then have "(a mod 4 * 16 + b div 16) mod 16 = b div 16" "(b mod 16 * 4 + c div 64) div 4 = b mod 16"
    by simp_all
  then show ?thesis by simp
qed

lemma quantum_byte3: "c < 256 \<Longrightarrow> (b mod 16 * 4 + c div 64) mod 4 * 64 + c mod 64 = (c::nat)"
proof -
  assume "c < 256"
  then have "c div 64 < 4" by (simp add: less_mult_imp_div_less)
  then have "(b mod 16 * 4 + c div 64) mod 4 = c div 64" by simp
  then show ?thesis by simp
qed

lemma b64_roundtrip: "is_bytes bs \<Longrightarrow> b64_decode (b64_encode bs) = Some bs"
proof -
  assume bytes: "is_bytes bs"
  then have "Option.bind (dec_all (b64_encode bs)) b64_quanta = Some bs"
  proof (induction bs rule: b64_encode.induct)
    case (2 a)
    then show ?case using quantum_byte1[of 0 a] by (simp add: is_bytes_def)
  next
    case (3 a b)
    then show ?case using quantum_byte1[of b a] quantum_byte2[of b 0 a] by (simp add: is_bytes_def)
  next
    case (4 a b c rest)
    then obtain vs where vs: "dec_all (b64_encode rest) = Some vs" "b64_quanta vs = Some rest"
      by (auto simp: is_bytes_def bind_eq_Some_conv)
    then show ?case
      using 4 quantum_byte1[of b a] quantum_byte2[of b c a] quantum_byte3[of c b]
      by (simp add: is_bytes_def)
  qed simp
  then show ?thesis using no_newlines_plain[OF plain_encode[OF bytes]] by (simp add: b64_decode_def)
qed

section \<open>The padded encoding\<close>

lemma b64_encode_length: "length (b64_encode bs) mod 4 = (case length bs mod 3 of 0 \<Rightarrow> 0 | Suc 0 \<Rightarrow> 2 | _ \<Rightarrow> 3)"
  by (induction bs rule: b64_encode.induct) (simp_all add: numeral_2_eq_2)

lemma plain_no_equals: "list_all plain_char s \<Longrightarrow> CHR ''='' \<notin> set s"
  by (auto simp: list_all_iff plain_char_def)

lemma no_suffix_equals:
  assumes "CHR ''='' \<notin> set s" "s \<noteq> []" shows "\<not> has_suffix s ''=''" "\<not> has_suffix s ''==''"
  using assms by (metis append_take_drop_id has_suffix_def in_set_conv_decomp append_Cons)+


lemma no_newlines_pad: "no_newlines (b64_encode_std bs) = no_newlines (b64_encode bs) @ b64_pad bs"
proof -
  have "no_newlines (b64_pad bs) = b64_pad bs" by (simp add: b64_pad_def no_newlines_def split: nat.split)
  then show ?thesis by (simp add: b64_encode_std_def no_newlines_def)
qed

lemma b64_std_roundtrip:
  assumes "is_bytes bs" shows "b64_decode_std (b64_encode_std bs) = Some bs"
proof -
  let ?e = "b64_encode bs"
  have plain: "list_all plain_char ?e" by (rule plain_encode[OF assms])
  have t: "no_newlines (b64_encode_std bs) = ?e @ b64_pad bs" using no_newlines_pad no_newlines_plain[OF plain] by simp
  have eq: "CHR ''='' \<notin> set ?e" by (rule plain_no_equals[OF plain])
  have decode: "b64_decode ?e = Some bs" by (rule b64_roundtrip[OF assms])
  consider "length bs mod 3 = 0" | "length bs mod 3 = 1" | "length bs mod 3 = 2" by linarith
  then show ?thesis
  proof cases
    case 1
    then have pad: "b64_pad bs = []" "length ?e mod 4 = 0" using b64_encode_length[of bs] by (simp_all add: b64_pad_def)
    have "\<not> has_suffix ?e ''==''" "\<not> has_suffix ?e ''=''"
      using no_suffix_equals[OF eq] by (cases "?e = []"; simp add: has_suffix_def)+
    then show ?thesis using pad decode by (simp add: b64_decode_std_def t)
  next
    case 2
    then have pad: "b64_pad bs = ''==''" "length ?e mod 4 = 2" using b64_encode_length[of bs] by (simp_all add: b64_pad_def)
    have "(length ?e + 2) mod 4 = 0" using pad(2) by presburger
    then show ?thesis using pad decode by (simp add: b64_decode_std_def t has_suffix_def)
  next
    case 3
    then have pad: "b64_pad bs = ''=''" "length ?e mod 4 = 3"
      using b64_encode_length[of bs] by (simp_all add: b64_pad_def numeral_2_eq_2)
    have len: "(length ?e + 1) mod 4 = 0" using pad(2) by presburger
    have "?e \<noteq> []" using pad(2) by auto
    then obtain xs x where e: "?e = xs @ [x]" by (metis rev_exhaust)
    then have "x \<noteq> CHR ''=''" using eq by auto
    then have "\<not> has_suffix (?e @ ''='') ''==''" by (simp add: has_suffix_def e)
    then show ?thesis using pad len decode by (simp add: b64_decode_std_def t has_suffix_def)
  qed
qed

end
