(* ===== verification/Iam.thy ===== *)
theory Iam
  imports Base64 Http
begin

text \<open>
  Identity and access (\<open>internal/services/iam\<close>) and the authentication middleware
  (\<open>internal/infrastructure/middleware/auth.go\<close>): tenants, users, API keys with a cache-aside lookup,
  password hashes, roles, and the gates in front of the routes. Parameters: argon2 (\<open>kdf\<close>), sha256
  (\<open>hash\<close>), the JWT library (\<open>issue\<close>, \<open>parse\<close>) and Redis (\<open>cget\<close>, \<open>cset\<close>, \<open>cdel\<close> on a cache \<open>'c\<close>).
\<close>

section \<open>Roles (rbac.go)\<close>

datatype action =
    ActionTenantManage | ActionTenantRead | ActionModelWrite | ActionModelRead
  | ActionTemplateWrite | ActionTemplateRead | ActionDeployWrite | ActionDeployRead
  | ActionKeyManage | ActionQuotaManage | ActionUsageRead
  | ActionBillingRead | ActionBillingManage | ActionBillingPricing

text \<open>Roles are strings (they travel in tokens); a string that is no role has no permission.\<close>

definition RolePlatformAdmin :: string where "RolePlatformAdmin = ''PLATFORM_ADMIN''"
definition RoleTenantAdmin :: string where "RoleTenantAdmin = ''TENANT_ADMIN''"
definition RoleTenantDeveloper :: string where "RoleTenantDeveloper = ''TENANT_DEVELOPER''"
definition RoleTenantViewer :: string where "RoleTenantViewer = ''TENANT_VIEWER''"

definition rolePermissions :: "string \<Rightarrow> action list" where
  "rolePermissions role =
    (if role = RolePlatformAdmin then
       [ActionTenantManage, ActionTenantRead, ActionModelWrite, ActionModelRead, ActionTemplateWrite,
        ActionTemplateRead, ActionDeployWrite, ActionDeployRead, ActionKeyManage, ActionQuotaManage,
        ActionUsageRead, ActionBillingRead, ActionBillingManage, ActionBillingPricing]
     else if role = RoleTenantAdmin then
       [ActionTenantRead, ActionModelRead, ActionTemplateRead, ActionDeployWrite, ActionDeployRead,
        ActionKeyManage, ActionQuotaManage, ActionUsageRead, ActionBillingRead, ActionBillingManage]
     else if role = RoleTenantDeveloper then
       [ActionModelRead, ActionTemplateRead, ActionDeployWrite, ActionDeployRead, ActionUsageRead,
        ActionBillingRead]
     else if role = RoleTenantViewer then
       [ActionModelRead, ActionTemplateRead, ActionDeployRead, ActionUsageRead, ActionBillingRead]
     else [])"

definition RoleAllows :: "string \<Rightarrow> action \<Rightarrow> bool" where
  "RoleAllows role act \<longleftrightarrow> List.member (rolePermissions role) act"

section \<open>Passwords (password.go)\<close>

definition phc_prefix :: string where
  "phc_prefix = ''$argon2id$v=19$m=65536,t=1,p=4$''"

definition HashPassword :: "(string \<Rightarrow> nat list \<Rightarrow> nat list) \<Rightarrow> nat list \<Rightarrow> string \<Rightarrow> string" where
  "HashPassword kdf salt plain = phc_prefix @ b64_encode salt @ ''$'' @ b64_encode (kdf plain salt)"

definition VerifyPassword :: "(string \<Rightarrow> nat list \<Rightarrow> nat list) \<Rightarrow> string \<Rightarrow> string \<Rightarrow> bool" where
  "VerifyPassword kdf encoded plain =
    (let parts = split_on (CHR ''$'') encoded in
     if length parts \<noteq> 6 then False
     else (case b64_decode (parts ! 4) of
        None \<Rightarrow> False
      | Some salt \<Rightarrow> (case b64_decode (parts ! 5) of
          None \<Rightarrow> False
        | Some expected \<Rightarrow> kdf plain salt = expected)))"

section \<open>Rows\<close>

record tenantRow =
  tn_ID :: string
  tn_Name :: string
  tn_Status :: string
  tn_CreatedAt :: int

record userRow =
  us_ID :: string
  us_Username :: string
  us_Email :: string
  us_PasswordHash :: string
  us_Status :: string
  us_CreatedAt :: int

record membershipRow =
  mb_UserID :: string
  mb_TenantID :: string
  mb_Role :: string

record apiKeyRow =
  k_ID :: string
  k_TenantID :: string
  k_Name :: string
  k_KeyHash :: string
  k_Status :: string
  k_ExpiresAt :: "int option"
  k_RevokedAt :: "int option"
  k_CreatedAt :: int

record iam_db =
  tenants :: "tenantRow list"
  users :: "userRow list"
  memberships :: "membershipRow list"
  api_keys :: "apiKeyRow list"

record User =
  u_ID :: string
  u_Username :: string
  u_Email :: string
  u_Role :: string
  u_TenantID :: string
  u_Status :: string

record APIKey =
  ak_ID :: string
  ak_TenantID :: string
  ak_Name :: string
  ak_Status :: string
  ak_ExpiresAt :: "int option"
  ak_RevokedAt :: "int option"
  ak_CreatedAt :: int

definition toAPIKey :: "apiKeyRow \<Rightarrow> APIKey" where
  "toAPIKey r = \<lparr>ak_ID = k_ID r, ak_TenantID = k_TenantID r, ak_Name = k_Name r, ak_Status = k_Status r,
     ak_ExpiresAt = k_ExpiresAt r, ak_RevokedAt = k_RevokedAt r, ak_CreatedAt = k_CreatedAt r\<rparr>"

datatype iam_error =
    ErrNotFound | ErrInvalidCredentials | ErrInvalidAPIKey | ErrKeyInactive | ErrToken string
  | IamDB string

type_synonym 'a iam_tx = "(iam_db, iam_error, 'a) tx"

abbreviation iam_sql :: "faults \<Rightarrow> string \<Rightarrow> 'a iam_tx \<Rightarrow> 'a iam_tx" where
  "iam_sql flt label m \<equiv> stmt (flt label []) (IamDB label) m"

section \<open>Repositories (repository\_iam.go)\<close>

definition tenant_Create :: "faults \<Rightarrow> tenantRow \<Rightarrow> tenantRow iam_tx" where
  "tenant_Create flt t = iam_sql flt ''create tenant'' (tx_bind
     (require (\<lambda>db. \<not> tbl_has tn_ID (tn_ID t) (tenants db) \<and> \<not> tbl_has tn_Name (tn_Name t) (tenants db))
       (IamDB ''create tenant''))
     (\<lambda>_. tx_bind (update (\<lambda>db. db\<lparr>tenants := tbl_insert t (tenants db)\<rparr>)) (\<lambda>_. tx_return t)))"

definition tenant_List :: "faults \<Rightarrow> (string \<Rightarrow> string \<Rightarrow> bool) \<Rightarrow> tenantRow list iam_tx" where
  "tenant_List flt le = iam_sql flt ''list tenants'' (query (\<lambda>db.
     order_by (\<lambda>a b. le (tn_Name a) (tn_Name b)) (tenants db)))"

definition user_Create :: "faults \<Rightarrow> int \<Rightarrow> User \<Rightarrow> string \<Rightarrow> unit iam_tx" where
  "user_Create flt now u passwordHash = transaction (
    tx_bind (iam_sql flt ''insert user'' (tx_bind
      (require (\<lambda>db. \<not> tbl_has us_ID (u_ID u) (users db) \<and> \<not> tbl_has us_Username (u_Username u) (users db) \<and>
                     \<not> tbl_has us_Email (u_Email u) (users db)) (IamDB ''insert user''))
      (\<lambda>_. update (\<lambda>db. db\<lparr>users := tbl_insert \<lparr>us_ID = u_ID u, us_Username = u_Username u,
         us_Email = u_Email u, us_PasswordHash = passwordHash, us_Status = u_Status u, us_CreatedAt = now\<rparr>
         (users db)\<rparr>)))) (\<lambda>_.
    iam_sql flt ''insert membership'' (tx_bind
      (require (\<lambda>db. tbl_has tn_ID (u_TenantID u) (tenants db) \<and>
                     \<not> tbl_has (\<lambda>m. (mb_UserID m, mb_TenantID m)) (u_ID u, u_TenantID u) (memberships db))
        (IamDB ''insert membership''))
      (\<lambda>_. update (\<lambda>db. db\<lparr>memberships := tbl_insert \<lparr>mb_UserID = u_ID u, mb_TenantID = u_TenantID u,
         mb_Role = u_Role u\<rparr> (memberships db)\<rparr>)))))"

text \<open>The join of users and memberships, in table order; \<open>Take\<close> returns one row, chosen by \<open>pick\<close>.\<close>

definition accounts :: "iam_db \<Rightarrow> (userRow \<times> membershipRow) list" where
  "accounts db = concat (map (\<lambda>u. map (Pair u) (filter (\<lambda>m. mb_UserID m = us_ID u) (memberships db))) (users db))"

definition account_user :: "userRow \<times> membershipRow \<Rightarrow> User" where
  "account_user = (\<lambda>(u, m). \<lparr>u_ID = us_ID u, u_Username = us_Username u, u_Email = us_Email u,
     u_Role = mb_Role m, u_TenantID = mb_TenantID m, u_Status = us_Status u\<rparr>)"

definition user_GetByUsername ::
  "faults \<Rightarrow> ((userRow \<times> membershipRow) list \<Rightarrow> (userRow \<times> membershipRow)) \<Rightarrow> string \<Rightarrow> (User \<times> string) iam_tx" where
  "user_GetByUsername flt pick login = iam_sql flt ''get user'' (fetch (\<lambda>db.
     let found = filter (\<lambda>(u, m). us_Username u = login \<or> us_Email u = login) (accounts db) in
     if found = [] then None
     else Some (account_user (pick found), us_PasswordHash (fst (pick found)))) ErrNotFound)"

definition user_ListByTenant :: "faults \<Rightarrow> string \<Rightarrow> User list iam_tx" where
  "user_ListByTenant flt tenant = iam_sql flt ''list users'' (query (\<lambda>db.
     map account_user (order_by (\<lambda>a b. us_CreatedAt (fst a) \<le> us_CreatedAt (fst b))
       (filter (\<lambda>(u, m). mb_TenantID m = tenant) (accounts db)))))"

definition apikey_Create :: "faults \<Rightarrow> apiKeyRow \<Rightarrow> APIKey iam_tx" where
  "apikey_Create flt row = iam_sql flt ''create api key'' (tx_bind
     (require (\<lambda>db. \<not> tbl_has k_ID (k_ID row) (api_keys db) \<and> \<not> tbl_has k_KeyHash (k_KeyHash row) (api_keys db))
       (IamDB ''create api key''))
     (\<lambda>_. tx_bind (update (\<lambda>db. db\<lparr>api_keys := tbl_insert row (api_keys db)\<rparr>))
       (\<lambda>_. tx_return (toAPIKey row))))"

definition apikey_GetByHash :: "faults \<Rightarrow> string \<Rightarrow> APIKey iam_tx" where
  "apikey_GetByHash flt keyHash = iam_sql flt ''get api key'' (tx_bind
     (fetch (\<lambda>db. tbl_find k_KeyHash keyHash (api_keys db)) ErrNotFound) (\<lambda>row. tx_return (toAPIKey row)))"

definition apikey_ListByTenant :: "faults \<Rightarrow> string \<Rightarrow> APIKey list iam_tx" where
  "apikey_ListByTenant flt tenant = iam_sql flt ''list api keys'' (query (\<lambda>db.
     map toAPIKey (order_by (\<lambda>a b. k_CreatedAt a \<ge> k_CreatedAt b)
       (filter (\<lambda>r. k_TenantID r = tenant) (api_keys db)))))"

definition revocable :: "string \<Rightarrow> string \<Rightarrow> apiKeyRow \<Rightarrow> bool" where
  "revocable kid tenant r \<longleftrightarrow> k_ID r = kid \<and> k_TenantID r = tenant \<and> k_Status r = ''ACTIVE''"

definition apikey_Revoke :: "faults \<Rightarrow> int \<Rightarrow> string \<Rightarrow> string \<Rightarrow> string iam_tx" where
  "apikey_Revoke flt now kid tenant = iam_sql flt ''revoke api key'' (tx_bind
     (fetch (\<lambda>db. find (revocable kid tenant) (api_keys db)) ErrNotFound) (\<lambda>row.
     tx_bind (update (\<lambda>db. db\<lparr>api_keys := map (\<lambda>r. if revocable kid tenant r
         then r\<lparr>k_Status := ''REVOKED'', k_RevokedAt := Some now\<rparr> else r) (api_keys db)\<rparr>)) (\<lambda>_.
     tx_return (k_KeyHash row))))"

section \<open>The service (users.go, apikey.go)\<close>

definition svc_CreateTenant :: "faults \<Rightarrow> int \<Rightarrow> string \<Rightarrow> string \<Rightarrow> tenantRow iam_tx" where
  "svc_CreateTenant flt now newid name =
    tenant_Create flt \<lparr>tn_ID = newid, tn_Name = name, tn_Status = ''ACTIVE'', tn_CreatedAt = now\<rparr>"

definition svc_CreateUser ::
  "faults \<Rightarrow> int \<Rightarrow> string \<Rightarrow> string \<Rightarrow> string \<Rightarrow> string \<Rightarrow> string \<Rightarrow> string \<Rightarrow> User iam_tx" where
  "svc_CreateUser flt now newid username email passwordHash role tenant =
    (let u = \<lparr>u_ID = newid, u_Username = username, u_Email = email, u_Role = role, u_TenantID = tenant,
              u_Status = ''ACTIVE''\<rparr>
     in tx_bind (user_Create flt now u passwordHash) (\<lambda>_. tx_return u))"

text \<open>\<open>salt\<close> is None when \<open>rand.Read\<close> fails.\<close>

definition svc_CreateUserWithPassword ::
  "(string \<Rightarrow> nat list \<Rightarrow> nat list) \<Rightarrow> nat list option \<Rightarrow> faults \<Rightarrow> int \<Rightarrow> string \<Rightarrow> string \<Rightarrow> string \<Rightarrow> string \<Rightarrow>
   string \<Rightarrow> string \<Rightarrow> User iam_tx" where
  "svc_CreateUserWithPassword kdf salt flt now newid username email password role tenant = (case salt of
      None \<Rightarrow> tx_fail (IamDB ''salt'')
    | Some s \<Rightarrow> svc_CreateUser flt now newid username email (HashPassword kdf s password) role tenant)"

definition keyPrefix :: string where "keyPrefix = ''sk-''"

definition GenerateAPIKey :: "(string \<Rightarrow> string) \<Rightarrow> string \<Rightarrow> string \<Rightarrow> string \<times> string" where
  "GenerateAPIKey hash uuid1 uuid2 = (let raw = keyPrefix @ uuid1 @ uuid2 in (raw, hash raw))"

definition svc_CreateAPIKey ::
  "faults \<Rightarrow> int \<Rightarrow> string \<Rightarrow> string \<Rightarrow> string \<Rightarrow> string \<Rightarrow> int option \<Rightarrow> APIKey iam_tx" where
  "svc_CreateAPIKey flt now newid tenant name keyHash expiresAt =
    apikey_Create flt \<lparr>k_ID = newid, k_TenantID = tenant, k_Name = name, k_KeyHash = keyHash,
      k_Status = ''ACTIVE'', k_ExpiresAt = expiresAt, k_RevokedAt = None, k_CreatedAt = now\<rparr>"

section \<open>Authentication (auth.go)\<close>

record 'c ByteCache =
  cget :: "int \<Rightarrow> string \<Rightarrow> 'c \<Rightarrow> APIKey option"
  cset :: "int \<Rightarrow> string \<Rightarrow> APIKey \<Rightarrow> int \<Rightarrow> 'c \<Rightarrow> 'c"
  cdel :: "int \<Rightarrow> string \<Rightarrow> 'c \<Rightarrow> 'c"

definition apiKeyCacheTTL :: int where "apiKeyCacheTTL = 300"

definition apiKeyCacheKey :: "string \<Rightarrow> string" where
  "apiKeyCacheKey h = ''apikey:'' @ h"

definition svc_Login ::
  "(string \<Rightarrow> nat list \<Rightarrow> nat list) \<Rightarrow> (User \<Rightarrow> iam_error + string) \<Rightarrow> faults \<Rightarrow>
   ((userRow \<times> membershipRow) list \<Rightarrow> (userRow \<times> membershipRow)) \<Rightarrow> string \<Rightarrow> string \<Rightarrow> iam_db \<Rightarrow> iam_error + string" where
  "svc_Login kdf issue flt pick username password db =
    (case fst (user_GetByUsername flt pick username db) of
       Inl e \<Rightarrow> Inl ErrInvalidCredentials
     | Inr (user, hsh) \<Rightarrow>
         if u_Status user \<noteq> ''ACTIVE'' then Inl ErrInvalidCredentials
         else if \<not> VerifyPassword kdf hsh password then Inl ErrInvalidCredentials
         else issue user)"

definition validateAPIKey :: "int \<Rightarrow> APIKey \<Rightarrow> iam_error + APIKey" where
  "validateAPIKey now key =
    (if ak_Status key \<noteq> ''ACTIVE'' then Inl ErrKeyInactive
     else case ak_ExpiresAt key of
        None \<Rightarrow> Inr key
      | Some t \<Rightarrow> if now > t then Inl ErrKeyInactive else Inr key)"

text \<open>
  A nil cache is None. A cache error, and a value that does not decode, is a miss (\<open>cget\<close> is None); a
  failed store leaves the cache as it was.
\<close>

definition cachedAPIKey :: "'c ByteCache option \<Rightarrow> int \<Rightarrow> string \<Rightarrow> 'c \<Rightarrow> APIKey option" where
  "cachedAPIKey bc now h c = (case bc of None \<Rightarrow> None | Some b \<Rightarrow> cget b now (apiKeyCacheKey h) c)"

definition cacheAPIKey :: "'c ByteCache option \<Rightarrow> int \<Rightarrow> string \<Rightarrow> APIKey \<Rightarrow> 'c \<Rightarrow> 'c" where
  "cacheAPIKey bc now h key c =
    (case bc of None \<Rightarrow> c | Some b \<Rightarrow> cset b now (apiKeyCacheKey h) key apiKeyCacheTTL c)"

definition InvalidateAPIKey :: "'c ByteCache option \<Rightarrow> int \<Rightarrow> string \<Rightarrow> 'c \<Rightarrow> 'c" where
  "InvalidateAPIKey bc now h c = (case bc of None \<Rightarrow> c | Some b \<Rightarrow> cdel b now (apiKeyCacheKey h) c)"

definition AuthenticateAPIKey ::
  "(string \<Rightarrow> string) \<Rightarrow> 'c ByteCache option \<Rightarrow> faults \<Rightarrow> int \<Rightarrow> string \<Rightarrow> iam_db \<Rightarrow> 'c \<Rightarrow> (iam_error + APIKey) \<times> 'c" where
  "AuthenticateAPIKey hash bc flt now rawKey db c =
    (let h = hash rawKey in
     case cachedAPIKey bc now h c of
       Some key \<Rightarrow> (validateAPIKey now key, c)
     | None \<Rightarrow> (case fst (apikey_GetByHash flt h db) of
         Inl e \<Rightarrow> (Inl ErrInvalidAPIKey, c)
       | Inr key \<Rightarrow> (case validateAPIKey now key of
           Inl e \<Rightarrow> (Inl e, c)
         | Inr _ \<Rightarrow> (Inr key, cacheAPIKey bc now h key c))))"

section \<open>The middleware port (authenticator.go, auth.go)\<close>

record Principal =
  pr_TenantID :: string
  pr_UserID :: string
  pr_Role :: string

datatype port_error = PortInvalidToken | PortKeyInactive

definition auth_ParseToken :: "(string \<Rightarrow> iam_error + Principal) \<Rightarrow> string \<Rightarrow> port_error + Principal" where
  "auth_ParseToken parse token = (case parse token of Inl e \<Rightarrow> Inl PortInvalidToken | Inr p \<Rightarrow> Inr p)"

definition auth_AuthenticateAPIKey ::
  "(string \<Rightarrow> string) \<Rightarrow> 'c ByteCache option \<Rightarrow> faults \<Rightarrow> int \<Rightarrow> string \<Rightarrow> iam_db \<Rightarrow> 'c \<Rightarrow>
   (port_error + Principal) \<times> 'c" where
  "auth_AuthenticateAPIKey hash bc flt now rawKey db c =
    (case AuthenticateAPIKey hash bc flt now rawKey db c of
       (Inl e, c') \<Rightarrow> (Inl (if e = ErrKeyInactive then PortKeyInactive else PortInvalidToken), c')
     | (Inr key, c') \<Rightarrow> (Inr \<lparr>pr_TenantID = ak_TenantID key, pr_UserID = [], pr_Role = []\<rparr>, c'))"

text \<open>A gate either lets the request through with its principal or aborts with an error response.\<close>

datatype gate = Next Principal | Abort int string string

definition bearer :: string where "bearer = ''Bearer ''"

definition mw_authenticate :: "(string \<Rightarrow> port_error + Principal) \<Rightarrow> string \<Rightarrow> gate" where
  "mw_authenticate parse header =
    (if \<not> has_prefix header bearer then Abort StatusUnauthorized ''UNAUTHORIZED'' ''missing bearer token''
     else case parse (trim_prefix header bearer) of
       Inl e \<Rightarrow> Abort StatusUnauthorized ''UNAUTHORIZED'' ''invalid token''
     | Inr p \<Rightarrow> Next p)"

definition RequirePermission ::
  "(string \<Rightarrow> port_error + Principal) \<Rightarrow> (string \<Rightarrow> action \<Rightarrow> bool) \<Rightarrow> action \<Rightarrow> string \<Rightarrow> gate" where
  "RequirePermission parse allows act header = (case mw_authenticate parse header of
      Abort s k m \<Rightarrow> Abort s k m
    | Next p \<Rightarrow> if \<not> allows (pr_Role p) act then Abort StatusForbidden ''FORBIDDEN'' ''permission denied''
        else Next p)"

definition InferenceAuth ::
  "(string \<Rightarrow> port_error + Principal) \<Rightarrow> (string \<Rightarrow> 'c \<Rightarrow> (port_error + Principal) \<times> 'c) \<Rightarrow> string \<Rightarrow> 'c \<Rightarrow> gate \<times> 'c" where
  "InferenceAuth parse authKey header c =
    (if \<not> has_prefix header bearer then (Abort StatusUnauthorized ''UNAUTHORIZED'' ''missing bearer token'', c)
     else let tok = trim_prefix header bearer in
       case parse tok of
         Inr p \<Rightarrow> (Next p, c)
       | Inl _ \<Rightarrow> (case authKey tok c of
           (Inr p, c') \<Rightarrow> (Next p, c')
         | (Inl PortKeyInactive, c') \<Rightarrow> (Abort StatusForbidden ''FORBIDDEN'' ''API key inactive or expired'', c')
         | (Inl PortInvalidToken, c') \<Rightarrow> (Abort StatusUnauthorized ''UNAUTHORIZED'' ''invalid credentials'', c')))"

section \<open>Handlers (handlers.go)\<close>

definition iam_message :: "iam_error \<Rightarrow> string" where
  "iam_message e = (case e of
      ErrNotFound \<Rightarrow> ''not found'' | ErrInvalidCredentials \<Rightarrow> ''invalid credentials''
    | ErrInvalidAPIKey \<Rightarrow> ''invalid API key'' | ErrKeyInactive \<Rightarrow> ''API key inactive''
    | ErrToken t \<Rightarrow> t | IamDB t \<Rightarrow> t)"

definition iam_json :: "int \<Rightarrow> iam_error + 'a \<Rightarrow> 'a response" where
  "iam_json status r = (case r of
      Inl e \<Rightarrow> WriteAPIError StatusInternalServerError ''INTERNAL_ERROR'' (iam_message e)
    | Inr x \<Rightarrow> WriteJSON status x)"

definition iam_handleLogin :: "(string \<times> string \<Rightarrow> iam_error + string) \<Rightarrow> (string \<times> string) option \<Rightarrow> string response" where
  "iam_handleLogin login body = (case body of
      None \<Rightarrow> WriteAPIError StatusBadRequest ''INVALID_REQUEST'' ''invalid body''
    | Some cred \<Rightarrow> (case login cred of
        Inl e \<Rightarrow> WriteAPIError StatusUnauthorized ''UNAUTHORIZED'' ''invalid credentials''
      | Inr token \<Rightarrow> WriteJSON StatusOK token))"

definition iam_handleCreateAPIKey ::
  "(string \<Rightarrow> string) \<Rightarrow> string \<Rightarrow> string \<Rightarrow> faults \<Rightarrow> int \<Rightarrow> string \<Rightarrow> string \<Rightarrow> (string \<times> int option) option \<Rightarrow>
   iam_db \<Rightarrow> (APIKey \<times> string) response \<times> iam_db" where
  "iam_handleCreateAPIKey hash uuid1 uuid2 flt now newid tenant body db = (case body of
      None \<Rightarrow> (WriteAPIError StatusBadRequest ''INVALID_REQUEST'' ''invalid body'', db)
    | Some (name, expiresAt) \<Rightarrow>
        (case GenerateAPIKey hash uuid1 uuid2 of (raw, h) \<Rightarrow>
          (case svc_CreateAPIKey flt now newid tenant name h expiresAt db of
             (out, db') \<Rightarrow> (iam_json StatusCreated (map_sum id (\<lambda>k. (k, raw)) out), db'))))"

definition iam_handleListAPIKeys :: "faults \<Rightarrow> string \<Rightarrow> iam_db \<Rightarrow> APIKey list response" where
  "iam_handleListAPIKeys flt tenant db = iam_json StatusOK (fst (apikey_ListByTenant flt tenant db))"

text \<open>The invalidation is best effort: its failure is logged and the answer is 204 all the same.\<close>

definition iam_handleRevokeAPIKey ::
  "'c ByteCache option \<Rightarrow> faults \<Rightarrow> int \<Rightarrow> string \<Rightarrow> string \<Rightarrow> iam_db \<Rightarrow> 'c \<Rightarrow> unit response \<times> iam_db \<times> 'c" where
  "iam_handleRevokeAPIKey bc flt now tenant kid db c = (case apikey_Revoke flt now kid tenant db of
      (Inl e, db') \<Rightarrow>
        ((if e = ErrNotFound then WriteAPIError StatusNotFound ''NOT_FOUND'' ''api key not found or already revoked''
          else WriteAPIError StatusInternalServerError ''INTERNAL_ERROR'' (iam_message e)), db', c)
    | (Inr h, db') \<Rightarrow> (WriteJSON StatusNoContent (), db', InvalidateAPIKey bc now h c))"

definition iam_handleCreateTenant ::
  "faults \<Rightarrow> int \<Rightarrow> string \<Rightarrow> string option \<Rightarrow> iam_db \<Rightarrow> tenantRow response \<times> iam_db" where
  "iam_handleCreateTenant flt now newid body db =
    (if body = None \<or> body = Some [] then (WriteAPIError StatusBadRequest ''INVALID_REQUEST'' ''name required'', db)
     else case svc_CreateTenant flt now newid (the body) db of (out, db') \<Rightarrow> (iam_json StatusCreated out, db'))"

definition iam_handleListTenants ::
  "faults \<Rightarrow> (string \<Rightarrow> string \<Rightarrow> bool) \<Rightarrow> iam_db \<Rightarrow> tenantRow list response" where
  "iam_handleListTenants flt le db = iam_json StatusOK (fst (tenant_List flt le db))"

record createUserReq =
  cu_username :: string
  cu_email :: string
  cu_password :: string
  cu_role :: string
  cu_tenant_id :: string

definition iam_handleCreateUser ::
  "(string \<Rightarrow> nat list \<Rightarrow> nat list) \<Rightarrow> nat list option \<Rightarrow> faults \<Rightarrow> int \<Rightarrow> string \<Rightarrow> createUserReq option \<Rightarrow> iam_db \<Rightarrow>
   User response \<times> iam_db" where
  "iam_handleCreateUser kdf salt flt now newid body db = (case body of
      None \<Rightarrow> (WriteAPIError StatusBadRequest ''INVALID_REQUEST'' ''username, password and tenant_id required'', db)
    | Some r \<Rightarrow>
        if cu_username r = [] \<or> cu_password r = [] \<or> cu_tenant_id r = []
        then (WriteAPIError StatusBadRequest ''INVALID_REQUEST'' ''username, password and tenant_id required'', db)
        else (case svc_CreateUserWithPassword kdf salt flt now newid (cu_username r) (cu_email r) (cu_password r)
                (if cu_role r = [] then RoleTenantViewer else cu_role r) (cu_tenant_id r) db of
          (out, db') \<Rightarrow> (iam_json StatusCreated out, db')))"

definition iam_handleListUsers :: "faults \<Rightarrow> string \<Rightarrow> iam_db \<Rightarrow> User list response" where
  "iam_handleListUsers flt tenant db =
    (if tenant = [] then WriteAPIError StatusBadRequest ''INVALID_REQUEST'' ''tenant_id required''
     else iam_json StatusOK (fst (user_ListByTenant flt tenant db)))"

end
