(* ===== verification/IamProofs.thy ===== *)
theory IamProofs
  imports Iam
begin

text \<open>
  Properties of identity and access: stored passwords verify exactly the passwords that hash alike,
  roles are nested, the gates let through only who they should, and a revoked API key stops working,
  at once when the cached copy is dropped and after the cache lifetime in any case.
\<close>

section \<open>Passwords\<close>

lemma plain_no_dollar: "list_all plain_char s \<Longrightarrow> CHR ''$'' \<notin> set s"
  by (auto simp: list_all_iff plain_char_def)

text \<open>
  A stored password verifies against exactly the passwords that derive the same bytes: for every
  key derivation and salt, the string that \<open>HashPassword\<close> builds is taken apart again by
  \<open>VerifyPassword\<close> into the same salt and bytes (the base64 and the separators round-trip).
\<close>

theorem password_roundtrip:
  assumes "is_bytes salt" "is_bytes (kdf plain salt)"
  shows "VerifyPassword kdf (HashPassword kdf salt plain) attempt \<longleftrightarrow> kdf attempt salt = kdf plain salt"
proof -
  let ?s = "b64_encode salt" and ?h = "b64_encode (kdf plain salt)"
  have no: "CHR ''$'' \<notin> set ?s" "CHR ''$'' \<notin> set ?h"
    using assms plain_encode plain_no_dollar by blast+
  have "split_on (CHR ''$'') (HashPassword kdf salt plain) =
      [] # ''argon2id'' # ''v=19'' # ''m=65536,t=1,p=4'' # split_on (CHR ''$'') (?s @ CHR ''$'' # ?h)"
    by (simp add: HashPassword_def phc_prefix_def)
  also have "\<dots> = [[], ''argon2id'', ''v=19'', ''m=65536,t=1,p=4'', ?s, ?h]"
    using no by (simp add: split_on_append split_on_none)
  finally show ?thesis
    using assms b64_roundtrip by (simp add: VerifyPassword_def eval_nat_numeral)
qed

theorem password_roundtrip_witness:
  "VerifyPassword (\<lambda>p s. map of_char p @ s) (HashPassword (\<lambda>p s. map of_char p @ s) [1, 255] ''pw'') ''pw'' \<and>
   \<not> VerifyPassword (\<lambda>p s. map of_char p @ s) (HashPassword (\<lambda>p s. map of_char p @ s) [1, 255] ''pw'') ''px''"
proof -
  have "is_bytes [1, 255]" "is_bytes ((\<lambda>p s. map of_char p @ s) ''pw'' [1, 255])" by code_simp+
  note r = password_roundtrip[of "[1, 255]" "\<lambda>p s. map of_char p @ s" "''pw''", OF this]
  show ?thesis unfolding r by code_simp
qed

section \<open>Roles and gates\<close>

lemma roles_are_nested_parts:
  shows "RoleAllows RoleTenantViewer act \<Longrightarrow> RoleAllows RoleTenantDeveloper act"
    "RoleAllows RoleTenantDeveloper act \<Longrightarrow> RoleAllows RoleTenantAdmin act"
    "RoleAllows RolePlatformAdmin act"
    "role \<noteq> RolePlatformAdmin \<Longrightarrow> act \<in> {ActionTenantManage, ActionModelWrite, ActionTemplateWrite,
       ActionBillingPricing} \<Longrightarrow> \<not> RoleAllows role act"
    "role \<notin> {RolePlatformAdmin, RoleTenantAdmin, RoleTenantDeveloper, RoleTenantViewer} \<Longrightarrow>
       \<not> RoleAllows role act"
  by (auto simp: RoleAllows_def rolePermissions_def RolePlatformAdmin_def RoleTenantAdmin_def
      RoleTenantDeveloper_def RoleTenantViewer_def split: if_splits) (cases act; simp)

text \<open>
  The roles are nested: what a viewer may do a developer may, what a developer may do a tenant
  administrator may, and the platform administrator may do everything; managing tenants, writing models
  and templates and setting prices is the platform administrator's alone; a string that is none of the
  four roles (the empty role of an API key among them) may do nothing.
\<close>

theorem roles_are_nested:
  shows "(RoleAllows RoleTenantViewer act \<longrightarrow> RoleAllows RoleTenantDeveloper act) \<and>
    (RoleAllows RoleTenantDeveloper act \<longrightarrow> RoleAllows RoleTenantAdmin act) \<and>
    RoleAllows RolePlatformAdmin act \<and>
    (role \<noteq> RolePlatformAdmin \<longrightarrow> act \<in> {ActionTenantManage, ActionModelWrite, ActionTemplateWrite,
       ActionBillingPricing} \<longrightarrow> \<not> RoleAllows role act) \<and>
    (role \<notin> {RolePlatformAdmin, RoleTenantAdmin, RoleTenantDeveloper, RoleTenantViewer} \<longrightarrow>
       \<not> RoleAllows role act)"
  by (rule conjI, (rule impI)+, rule roles_are_nested_parts(1),
      assumption+, rule conjI, (rule impI)+,
      rule roles_are_nested_parts(2), assumption+, rule conjI,
      rule roles_are_nested_parts(3), rule conjI, (rule impI)+,
      rule roles_are_nested_parts(4), assumption+, (rule impI)+,
      rule roles_are_nested_parts(5), assumption+)


theorem roles_are_nested_witness: "\<not> RoleAllows RoleTenantAdmin ActionBillingPricing"
  using roles_are_nested[of ActionBillingPricing RoleTenantAdmin] by (simp add: RoleTenantAdmin_def RolePlatformAdmin_def)

text \<open>
  The port the route gates are written against: a token parser and a permission check that denies the
  empty role, which is the role of API-key callers.
\<close>

locale authenticator =
  fixes parse :: "string \<Rightarrow> port_error + Principal"
    and allows :: "string \<Rightarrow> action \<Rightarrow> bool"
  assumes no_role: "\<not> allows [] act"
begin

lemma passes_iff:
  "RequirePermission parse allows act header = Next p \<longleftrightarrow>
   (\<exists>tok. header = bearer @ tok \<and> parse tok = Inr p \<and> allows (pr_Role p) act)"
proof (cases "has_prefix header bearer")
  case True
  then obtain tok where tok: "header = bearer @ tok" by (auto simp: has_prefix_iff)
  then show ?thesis
    by (auto simp: RequirePermission_def mw_authenticate_def split: sum.splits gate.splits)
next
  case False
  then show ?thesis by (auto simp: RequirePermission_def mw_authenticate_def has_prefix_iff)
qed

lemma role_needed: "RequirePermission parse allows act header = Next p \<Longrightarrow> pr_Role p \<noteq> []"
  using no_role by (auto simp: passes_iff)

lemma aborts:
  "RequirePermission parse allows act header = Abort s k m \<Longrightarrow> s = StatusUnauthorized \<or> s = StatusForbidden"
  by (auto simp: RequirePermission_def mw_authenticate_def split: if_splits sum.splits)

end

lemma parse_token_iff: "auth_ParseToken jwt tok = Inr p \<longleftrightarrow> jwt tok = Inr p"
  by (auto simp: auth_ParseToken_def split: sum.splits)

interpretation iam_auth: authenticator "auth_ParseToken jwt" RoleAllows for jwt
  by unfold_locales (simp add: RoleAllows_def rolePermissions_def RolePlatformAdmin_def
      RoleTenantAdmin_def RoleTenantDeveloper_def RoleTenantViewer_def)

lemma permission_gate_parts:
  shows "RequirePermission (auth_ParseToken jwt) RoleAllows act header = Next p \<longleftrightarrow>
      (\<exists>tok. header = bearer @ tok \<and> jwt tok = Inr p \<and> RoleAllows (pr_Role p) act)"
    "RequirePermission (auth_ParseToken jwt) RoleAllows act header = Next p \<Longrightarrow> pr_Role p \<noteq> []"
    "RequirePermission (auth_ParseToken jwt) RoleAllows act header = Abort s k m \<Longrightarrow> s \<in> {401, 403}"
proof -
  show "RequirePermission (auth_ParseToken jwt) RoleAllows act header = Next p \<longleftrightarrow>
      (\<exists>tok. header = bearer @ tok \<and> jwt tok = Inr p \<and> RoleAllows (pr_Role p) act)"
    unfolding iam_auth.passes_iff parse_token_iff ..
  show "RequirePermission (auth_ParseToken jwt) RoleAllows act header = Next p \<Longrightarrow> pr_Role p \<noteq> []"
    by (rule iam_auth.role_needed)
  show "RequirePermission (auth_ParseToken jwt) RoleAllows act header = Abort s k m \<Longrightarrow> s \<in> {401, 403}"
    using iam_auth.aborts by auto
qed

text \<open>
  A control-plane route is entered exactly by a valid bearer token whose role has the permission of
  the route; every other request gets 401 or 403 and does not reach the handler. An API key never
  opens a control-plane route, since its principal has no role.
\<close>

theorem permission_gate:
  shows "(RequirePermission (auth_ParseToken jwt) RoleAllows act header = Next p \<longleftrightarrow>
      (\<exists>tok. header = bearer @ tok \<and> jwt tok = Inr p \<and> RoleAllows (pr_Role p) act)) \<and>
    (RequirePermission (auth_ParseToken jwt) RoleAllows act header = Next p \<longrightarrow> pr_Role p \<noteq> []) \<and>
    (RequirePermission (auth_ParseToken jwt) RoleAllows act header = Abort s k m \<longrightarrow> s \<in> {401, 403})"
  by (rule conjI, rule permission_gate_parts(1), rule conjI,
      (rule impI)+, rule permission_gate_parts(2), assumption+,
      (rule impI)+, rule permission_gate_parts(3), assumption+)


theorem permission_gate_witness:
  "RequirePermission (auth_ParseToken (\<lambda>t. if t = ''tok'' then Inr \<lparr>pr_TenantID = ''t'', pr_UserID = ''u'',
      pr_Role = RoleTenantViewer\<rparr> else Inl (ErrToken ''bad''))) RoleAllows ActionUsageRead ''Bearer tok'' =
    Next \<lparr>pr_TenantID = ''t'', pr_UserID = ''u'', pr_Role = RoleTenantViewer\<rparr> \<and>
   pr_Role \<lparr>pr_TenantID = ''t'', pr_UserID = ''u'', pr_Role = RoleTenantViewer\<rparr> \<noteq> []"
  (is "?gate = Next ?p \<and> _")
proof
  show g: "?gate = Next ?p" by code_simp
  show "pr_Role ?p \<noteq> []" using permission_gate[THEN conjunct2, THEN conjunct1, rule_format, OF g] .
qed

section \<open>Login\<close>

lemma login_sound_parts:
  assumes "\<And>xs. xs \<noteq> [] \<Longrightarrow> pick xs \<in> set xs"
  shows "svc_Login kdf issue flt pick username password db = Inr tok \<Longrightarrow>
     \<exists>u m. u \<in> set (users db) \<and> m \<in> set (memberships db) \<and> mb_UserID m = us_ID u \<and>
       (us_Username u = username \<or> us_Email u = username) \<and> us_Status u = ''ACTIVE'' \<and>
       VerifyPassword kdf (us_PasswordHash u) password \<and> issue (account_user (u, m)) = Inr tok"
    "svc_Login kdf (\<lambda>u. Inr (sign u)) flt pick username password db = Inl e \<Longrightarrow> e = ErrInvalidCredentials"
proof -
  let ?found = "filter (\<lambda>(u, m). us_Username u = username \<or> us_Email u = username) (accounts db)"
  show "\<exists>u m. u \<in> set (users db) \<and> m \<in> set (memberships db) \<and> mb_UserID m = us_ID u \<and>
       (us_Username u = username \<or> us_Email u = username) \<and> us_Status u = ''ACTIVE'' \<and>
       VerifyPassword kdf (us_PasswordHash u) password \<and> issue (account_user (u, m)) = Inr tok"
    if login: "svc_Login kdf issue flt pick username password db = Inr tok"
  proof -
    from login have found: "?found \<noteq> []"
      and ok: "us_Status (fst (pick ?found)) = ''ACTIVE''"
        "VerifyPassword kdf (us_PasswordHash (fst (pick ?found))) password"
        "issue (account_user (pick ?found)) = Inr tok"
      by (auto simp: svc_Login_def user_GetByUsername_def tx_simps Let_def account_user_def case_prod_unfold
          split: if_splits option.splits)
    obtain u m where um: "pick ?found = (u, m)" by (cases "pick ?found")
    have "(u, m) \<in> set ?found" using assms[OF found] um by simp
    then have "u \<in> set (users db)" "m \<in> set (memberships db)" "mb_UserID m = us_ID u"
      "us_Username u = username \<or> us_Email u = username"
      by (auto simp: accounts_def)
    then show ?thesis using ok um by auto
  qed
  show "svc_Login kdf (\<lambda>u. Inr (sign u)) flt pick username password db = Inl e \<Longrightarrow> e = ErrInvalidCredentials"
    by (auto simp: svc_Login_def split: sum.splits prod.splits if_splits)
qed

text \<open>
  A login succeeds only for an active account that is stored under the given user name or email
  with a hash the password verifies; the token is issued for that account, and every failure (no such
  account, suspended, wrong password, database error) is the same "invalid credentials".
\<close>

theorem login_sound:
  assumes "\<And>xs. xs \<noteq> [] \<Longrightarrow> pick xs \<in> set xs"
  shows "(svc_Login kdf issue flt pick username password db = Inr tok \<longrightarrow>
     (\<exists>u m. u \<in> set (users db) \<and> m \<in> set (memberships db) \<and> mb_UserID m = us_ID u \<and>
       (us_Username u = username \<or> us_Email u = username) \<and> us_Status u = ''ACTIVE'' \<and>
       VerifyPassword kdf (us_PasswordHash u) password \<and> issue (account_user (u, m)) = Inr tok)) \<and>
    (svc_Login kdf (\<lambda>u. Inr (sign u)) flt pick username password db = Inl e \<longrightarrow> e = ErrInvalidCredentials)"
  by (rule conjI, (rule impI)+, rule login_sound_parts(1)[OF assms],
      assumption+, (rule impI)+, rule login_sound_parts(2)[OF assms],
      assumption+)



definition demo_kdf :: "string \<Rightarrow> nat list \<Rightarrow> nat list" where
  "demo_kdf p s = map of_char p @ s"

definition demo_iam :: iam_db where
  "demo_iam = \<lparr>tenants = [\<lparr>tn_ID = ''t'', tn_Name = ''acme'', tn_Status = ''ACTIVE'', tn_CreatedAt = 0\<rparr>],
     users = [\<lparr>us_ID = ''u'', us_Username = ''ann'', us_Email = ''a@x'',
       us_PasswordHash = HashPassword demo_kdf [7] ''pw'', us_Status = ''ACTIVE'', us_CreatedAt = 0\<rparr>],
     memberships = [\<lparr>mb_UserID = ''u'', mb_TenantID = ''t'', mb_Role = RoleTenantViewer\<rparr>],
     api_keys = [\<lparr>k_ID = ''k'', k_TenantID = ''t'', k_Name = ''ci'', k_KeyHash = ''h'', k_Status = ''ACTIVE'',
       k_ExpiresAt = None, k_RevokedAt = None, k_CreatedAt = 0\<rparr>]\<rparr>"

theorem login_sound_witness:
  "\<exists>u m. u \<in> set (users demo_iam) \<and> m \<in> set (memberships demo_iam) \<and> mb_UserID m = us_ID u \<and>
     (us_Username u = ''a@x'' \<or> us_Email u = ''a@x'') \<and> us_Status u = ''ACTIVE'' \<and>
     VerifyPassword demo_kdf (us_PasswordHash u) ''pw'' \<and> Inr (mb_Role m) = (Inr ''TENANT_VIEWER'' :: iam_error + string)"
proof -
  have "svc_Login demo_kdf (\<lambda>u. Inr (u_Role u)) no_faults hd ''a@x'' ''pw'' demo_iam = Inr ''TENANT_VIEWER''"
    by code_simp
  from login_sound[of hd, THEN conjunct1, rule_format, OF _ this] show ?thesis by (simp add: account_user_def)
qed

section \<open>Revocation\<close>

text \<open>
  What is documented of the cache (Redis GET, SET with a lifetime, DEL): a value that is found was set
  less than its lifetime ago under that key, and deleting adds nothing. A failed command changes
  nothing, so these laws hold of it too.
\<close>

definition cache_laws :: "'c ByteCache \<Rightarrow> bool" where
  "cache_laws b \<longleftrightarrow>
    (\<forall>t k s k' v ttl c w. cget b t k (cset b s k' v ttl c) = Some w \<longrightarrow>
       (k = k' \<and> w = v \<and> t < s + ttl) \<or> cget b t k c = Some w) \<and>
    (\<forall>t k s k' c w. cget b t k (cdel b s k' c) = Some w \<longrightarrow> cget b t k c = Some w)"

record 'c iam_state =
  clock :: int
  db_of :: iam_db
  cache_of :: 'c

text \<open>Keys are created, used and revoked in any order, at times that do not go back.\<close>

inductive iam_step :: "(string \<Rightarrow> string) \<Rightarrow> 'c ByteCache \<Rightarrow> 'c iam_state \<Rightarrow> 'c iam_state \<Rightarrow> bool"
  for hash b where
  use_key: "clock s \<le> now \<Longrightarrow>
    AuthenticateAPIKey hash (Some b) flt now raw (db_of s) (cache_of s) = (out, c') \<Longrightarrow>
    iam_step hash b s (s\<lparr>clock := now, cache_of := c'\<rparr>)"
| create_key: "clock s \<le> now \<Longrightarrow>
    svc_CreateAPIKey flt now newid tenant name h expires (db_of s) = (out, db') \<Longrightarrow>
    iam_step hash b s (s\<lparr>clock := now, db_of := db'\<rparr>)"
| revoke_key: "clock s \<le> now \<Longrightarrow>
    iam_handleRevokeAPIKey (Some b) flt now tenant kid (db_of s) (cache_of s) = (out, db', c') \<Longrightarrow>
    iam_step hash b s (s\<lparr>clock := now, db_of := db', cache_of := c'\<rparr>)"

inductive_cases iam_stepE: "iam_step hash b s s'"

inductive iam_reach :: "(string \<Rightarrow> string) \<Rightarrow> 'c ByteCache \<Rightarrow> 'c iam_state \<Rightarrow> 'c iam_state \<Rightarrow> bool"
  for hash b where
  reach_refl: "iam_reach hash b s s"
| reach_step: "iam_reach hash b s s' \<Longrightarrow> iam_step hash b s' s'' \<Longrightarrow> iam_reach hash b s s''"

text \<open>
  Every cached copy belongs to a stored key that is active, or was revoked less than the cache
  lifetime before the copy ends.
\<close>

definition fresh_copy :: "int \<Rightarrow> int \<Rightarrow> apiKeyRow \<Rightarrow> bool" where
  "fresh_copy now t row \<longleftrightarrow>
    (k_Status row = ''ACTIVE'' \<and> t < now + apiKeyCacheTTL) \<or>
    (\<exists>r. k_Status row = ''REVOKED'' \<and> k_RevokedAt row = Some r \<and> t < r + apiKeyCacheTTL)"

definition cache_fresh :: "'c ByteCache \<Rightarrow> 'c iam_state \<Rightarrow> bool" where
  "cache_fresh b s \<longleftrightarrow> tbl_unique k_KeyHash (api_keys (db_of s)) \<and>
    (\<forall>t h w. cget b t (apiKeyCacheKey h) (cache_of s) = Some w \<longrightarrow>
      (\<exists>row\<in>set (api_keys (db_of s)). k_KeyHash row = h \<and> fresh_copy (clock s) t row))"

lemma apiKeyCacheKey_inject [simp]: "apiKeyCacheKey a = apiKeyCacheKey b \<longleftrightarrow> a = b"
  by (simp add: apiKeyCacheKey_def)

lemma fresh_copy_later: "fresh_copy now t row \<Longrightarrow> now \<le> now' \<Longrightarrow> fresh_copy now' t row"
  by (auto simp: fresh_copy_def)

lemma authenticate_cache:
  assumes "AuthenticateAPIKey hash (Some b) flt now raw db c = (out, c')"
  shows "c' = c \<or> (\<exists>row\<in>set (api_keys db). k_KeyHash row = hash raw \<and> k_Status row = ''ACTIVE'' \<and>
    c' = cset b now (apiKeyCacheKey (hash raw)) (toAPIKey row) apiKeyCacheTTL c)"
proof -
  have "\<exists>row\<in>set (api_keys db). k_KeyHash row = hash raw \<and> key = toAPIKey row"
    if "fst (apikey_GetByHash flt (hash raw) db) = Inr key" for key
    using that by (auto simp: apikey_GetByHash_def tx_simps split: if_splits option.splits dest!: tbl_find_SomeD)
  then show ?thesis
    using assms
    by (auto simp: AuthenticateAPIKey_def Let_def cachedAPIKey_def cacheAPIKey_def validateAPIKey_def
        toAPIKey_def split: option.splits sum.splits if_splits)
qed


lemma create_key_db:
  assumes "svc_CreateAPIKey flt now newid tenant name h expires db = (out, db')"
    "tbl_unique k_KeyHash (api_keys db)"
  shows "tbl_unique k_KeyHash (api_keys db') \<and> set (api_keys db) \<subseteq> set (api_keys db')"
  using assms tbl_unique_insert
  by (fastforce simp: svc_CreateAPIKey_def apikey_Create_def tx_simps tbl_insert_def tbl_unique_def tbl_has_iff
      split: if_splits)

lemma revoke_db:
  assumes "iam_handleRevokeAPIKey (Some b) flt now tenant kid db c = (out, db', c')"
  shows "(db' = db \<and> c' = c) \<or> (\<exists>h. c' = cdel b now (apiKeyCacheKey h) c \<and>
    db' = db\<lparr>api_keys := map (\<lambda>r. if revocable kid tenant r
      then r\<lparr>k_Status := ''REVOKED'', k_RevokedAt := Some now\<rparr> else r) (api_keys db)\<rparr>)"
  using assms
  by (auto simp: iam_handleRevokeAPIKey_def apikey_Revoke_def tx_simps InvalidateAPIKey_def
      split: if_splits option.splits)

lemma unique_hash_revoke:
  "tbl_unique k_KeyHash (map (\<lambda>r. if revocable kid tenant r
     then r\<lparr>k_Status := ''REVOKED'', k_RevokedAt := Some now\<rparr> else r) rows) = tbl_unique k_KeyHash rows"
  unfolding tbl_unique_def by (rule arg_cong[of _ _ distinct]) simp

lemma cache_fresh_step:
  assumes laws: "cache_laws b" and fresh: "cache_fresh b s" and step: "iam_step hash b s s'"
  shows "cache_fresh b s'"
  using step
proof cases
  case (use_key now flt raw out c')
  have old: "\<exists>row\<in>set (api_keys (db_of s)). k_KeyHash row = h \<and> fresh_copy now t row"
    if "cget b t (apiKeyCacheKey h) (cache_of s) = Some w" for t h w
    using fresh that use_key(2) fresh_copy_later unfolding cache_fresh_def by blast
  have "\<exists>row\<in>set (api_keys (db_of s)). k_KeyHash row = h \<and> fresh_copy now t row"
    if w: "cget b t (apiKeyCacheKey h) c' = Some w" for t h w
    using authenticate_cache[OF use_key(3)]
  proof
    assume "c' = cache_of s"
    then show ?thesis using old w by simp
  next
    assume "\<exists>row\<in>set (api_keys (db_of s)). k_KeyHash row = hash raw \<and> k_Status row = ''ACTIVE'' \<and>
      c' = cset b now (apiKeyCacheKey (hash raw)) (toAPIKey row) apiKeyCacheTTL (cache_of s)"
    then obtain row where row: "row \<in> set (api_keys (db_of s))" "k_KeyHash row = hash raw"
      "k_Status row = ''ACTIVE''"
      "c' = cset b now (apiKeyCacheKey (hash raw)) (toAPIKey row) apiKeyCacheTTL (cache_of s)" by blast
    then have "(h = hash raw \<and> t < now + apiKeyCacheTTL) \<or>
        cget b t (apiKeyCacheKey h) (cache_of s) = Some w"
      using laws w unfolding cache_laws_def by (metis apiKeyCacheKey_inject)
    then show ?thesis using row old by (auto simp: fresh_copy_def)
  qed
  then show ?thesis using fresh use_key(1) by (simp add: cache_fresh_def)
next
  case (create_key now flt newid tenant name h expires out db')
  have "tbl_unique k_KeyHash (api_keys (db_of s))" using fresh by (simp add: cache_fresh_def)
  note db' = create_key_db[OF create_key(3) this]
  show ?thesis
    using fresh create_key(1,2) db' fresh_copy_later unfolding cache_fresh_def
    by (simp, blast)
next
  case (revoke_key now flt tenant kid out db' c')
  from revoke_db[OF revoke_key(3)] show ?thesis
  proof
    assume same: "db' = db_of s \<and> c' = cache_of s"
    then show ?thesis
      using fresh revoke_key(1,2) fresh_copy_later unfolding cache_fresh_def by (simp, blast)
  next
    assume "\<exists>h. c' = cdel b now (apiKeyCacheKey h) (cache_of s) \<and>
      db' = (db_of s)\<lparr>api_keys := map (\<lambda>r. if revocable kid tenant r
        then r\<lparr>k_Status := ''REVOKED'', k_RevokedAt := Some now\<rparr> else r) (api_keys (db_of s))\<rparr>"
    then obtain h0 where c': "c' = cdel b now (apiKeyCacheKey h0) (cache_of s)"
      and db': "db' = (db_of s)\<lparr>api_keys := map (\<lambda>r. if revocable kid tenant r
        then r\<lparr>k_Status := ''REVOKED'', k_RevokedAt := Some now\<rparr> else r) (api_keys (db_of s))\<rparr>" by blast
    have "\<exists>row\<in>set (api_keys db'). k_KeyHash row = h \<and> fresh_copy now t row"
      if w: "cget b t (apiKeyCacheKey h) c' = Some w" for t h w
    proof -
      have "cget b t (apiKeyCacheKey h) (cache_of s) = Some w"
        using laws w c' unfolding cache_laws_def by blast
      then obtain row where row: "row \<in> set (api_keys (db_of s))" "k_KeyHash row = h"
        "fresh_copy (clock s) t row"
        using fresh unfolding cache_fresh_def by blast
      let ?row = "if revocable kid tenant row
        then row\<lparr>k_Status := ''REVOKED'', k_RevokedAt := Some now\<rparr> else row"
      have "?row \<in> set (api_keys db')" using row(1) by (auto simp: db')
      moreover have "k_KeyHash ?row = h" using row(2) by simp
      moreover have "fresh_copy now t ?row"
        using row(3) revoke_key(2) by (auto simp: fresh_copy_def revocable_def)
      ultimately show ?thesis by blast
    qed
    then show ?thesis
      using fresh revoke_key(1) unique_hash_revoke by (simp add: cache_fresh_def db')
  qed
qed

lemma cache_fresh_reach: "iam_reach hash b s s' \<Longrightarrow> cache_laws b \<Longrightarrow> cache_fresh b s \<Longrightarrow> cache_fresh b s'"
  by (induction rule: iam_reach.induct) (auto intro: cache_fresh_step)

lemma revoked_in_db:
  assumes "tbl_unique k_KeyHash (api_keys db)" "row \<in> set (api_keys db)" "k_Status row \<noteq> ''ACTIVE''"
    "cachedAPIKey bc now (k_KeyHash row) c = None" "hash raw = k_KeyHash row"
  shows "\<exists>e. AuthenticateAPIKey hash bc flt now raw db c = (Inl e, c)"
  using assms tbl_find_unique[OF assms(1,2) refl]
  by (auto simp: AuthenticateAPIKey_def apikey_GetByHash_def tx_simps validateAPIKey_def toAPIKey_def Let_def)


text \<open>A cache with lifetimes: the entries with their ends, newest first.\<close>

definition live_entry :: "string \<Rightarrow> int \<Rightarrow> string \<times> APIKey \<times> int \<Rightarrow> bool" where
  "live_entry k t e \<longleftrightarrow> fst e = k \<and> t < snd (snd e)"

definition list_cache :: "(string \<times> APIKey \<times> int) list ByteCache" where
  "list_cache = \<lparr>cget = (\<lambda>t k c. map_option (\<lambda>e. fst (snd e)) (find (live_entry k t) c)),
     cset = (\<lambda>s k v ttl c. (k, v, s + ttl) # c), cdel = (\<lambda>s k c. filter (\<lambda>e. fst e \<noteq> k) c)\<rparr>"

lemma find_after_delete:
  "find (live_entry k t) (filter (\<lambda>e. fst e \<noteq> k0) c) = (if k = k0 then None else find (live_entry k t) c)"
proof (induction c)
  case (Cons e c)
  then show ?case by (cases "live_entry k t e") (auto simp: live_entry_def[of _ t e])
qed simp

lemma list_cache_laws: "cache_laws list_cache"
  by (auto simp: cache_laws_def list_cache_def find_after_delete live_entry_def split: if_splits)


definition used_then_revoked :: "(string \<times> APIKey \<times> int) list iam_state" where
  "used_then_revoked =
    (let c1 = snd (AuthenticateAPIKey id (Some list_cache) no_faults 10 ''h'' demo_iam []);
         (out, db2, c2) = iam_handleRevokeAPIKey (Some list_cache) no_faults 20 ''t'' ''k'' demo_iam c1
     in \<lparr>clock = 20, db_of = db2, cache_of = c2\<rparr>)"


lemma revocation_is_immediate_if_cache_obeys_parts:
  assumes "tbl_unique k_KeyHash (api_keys db)" "tbl_unique k_ID (api_keys db)"
    "row \<in> set (api_keys db)" "hash raw = k_KeyHash row"
    "\<And>t. cget b t (apiKeyCacheKey (k_KeyHash row)) (cdel b now (apiKeyCacheKey (k_KeyHash row)) c) = None"
    "iam_handleRevokeAPIKey (Some b) flt now (k_TenantID row) (k_ID row) db c = (WriteJSON StatusNoContent (), db', c')"
  shows "\<exists>e. fst (AuthenticateAPIKey hash (Some b) flt' now' raw db' c') = Inl e"
    "let stuck = list_cache\<lparr>cdel := \<lambda>s k c. c\<rparr>;
         c1 = snd (AuthenticateAPIKey id (Some stuck) no_faults 10 ''h'' demo_iam []);
         (out, db2, c2) = iam_handleRevokeAPIKey (Some stuck) no_faults 20 ''t'' ''k'' demo_iam c1
     in out = WriteJSON StatusNoContent () \<and>
        isl (fst (AuthenticateAPIKey id (Some stuck) no_faults 309 ''h'' db2 c2)) = False \<and>
        isl (fst (AuthenticateAPIKey id (Some stuck) no_faults 310 ''h'' db2 c2))"
proof -
  have sel: "revocable (k_ID row) (k_TenantID row) r \<Longrightarrow> r \<in> set (api_keys db) \<Longrightarrow> r = row" for r
    using tbl_find_unique[OF assms(2)] assms(3) by (metis option.inject revocable_def)
  from assms(6) obtain r where r: "find (revocable (k_ID row) (k_TenantID row)) (api_keys db) = Some r"
    and out: "db' = db\<lparr>api_keys := map (\<lambda>r. if revocable (k_ID row) (k_TenantID row) r
        then r\<lparr>k_Status := ''REVOKED'', k_RevokedAt := Some now\<rparr> else r) (api_keys db)\<rparr>"
      "c' = cdel b now (apiKeyCacheKey (k_KeyHash r)) c"
    by (auto simp: iam_handleRevokeAPIKey_def apikey_Revoke_def tx_simps InvalidateAPIKey_def
        split: if_splits option.splits)
  have "revocable (k_ID row) (k_TenantID row) r" "r \<in> set (api_keys db)"
    using r by (auto simp: find_Some_iff)
  then have [simp]: "r = row" and rev: "revocable (k_ID row) (k_TenantID row) row" using sel by auto
  let ?row = "row\<lparr>k_Status := ''REVOKED'', k_RevokedAt := Some now\<rparr>"
  have "?row \<in> set (api_keys db')" using assms(3) rev by (auto simp: out)
  moreover have "tbl_unique k_KeyHash (api_keys db')" using assms(1) unique_hash_revoke by (simp add: out)
  ultimately have "\<exists>e. AuthenticateAPIKey hash (Some b) flt' now' raw db' c' = (Inl e, c')"
    using assms(4,5) by (intro revoked_in_db[where row="?row"]) (simp_all add: out cachedAPIKey_def)
  then show "\<exists>e. fst (AuthenticateAPIKey hash (Some b) flt' now' raw db' c') = Inl e" by auto
  show "let stuck = list_cache\<lparr>cdel := \<lambda>s k c. c\<rparr>;
         c1 = snd (AuthenticateAPIKey id (Some stuck) no_faults 10 ''h'' demo_iam []);
         (out, db2, c2) = iam_handleRevokeAPIKey (Some stuck) no_faults 20 ''t'' ''k'' demo_iam c1
     in out = WriteJSON StatusNoContent () \<and>
        isl (fst (AuthenticateAPIKey id (Some stuck) no_faults 309 ''h'' db2 c2)) = False \<and>
        isl (fst (AuthenticateAPIKey id (Some stuck) no_faults 310 ''h'' db2 c2))"
    by code_simp
qed

text \<open>
  How fast revocation takes effect. When the revocation answers 204 and the cache accepted the
  deletion, the key is refused from the next request on; when the deletion failed, the answer is 204 as
  well and the cached copy keeps opening the inference routes (the example: revoked at 20, still
  accepted at 309, refused at 310).
\<close>

theorem revocation_is_immediate_if_cache_obeys:
  assumes "tbl_unique k_KeyHash (api_keys db)" "tbl_unique k_ID (api_keys db)"
    "row \<in> set (api_keys db)" "hash raw = k_KeyHash row"
    "\<And>t. cget b t (apiKeyCacheKey (k_KeyHash row)) (cdel b now (apiKeyCacheKey (k_KeyHash row)) c) = None"
    "iam_handleRevokeAPIKey (Some b) flt now (k_TenantID row) (k_ID row) db c = (WriteJSON StatusNoContent (), db', c')"
  shows "(\<exists>e. fst (AuthenticateAPIKey hash (Some b) flt' now' raw db' c') = Inl e) \<and>
    (let stuck = list_cache\<lparr>cdel := \<lambda>s k c. c\<rparr>;
         c1 = snd (AuthenticateAPIKey id (Some stuck) no_faults 10 ''h'' demo_iam []);
         (out, db2, c2) = iam_handleRevokeAPIKey (Some stuck) no_faults 20 ''t'' ''k'' demo_iam c1
     in out = WriteJSON StatusNoContent () \<and>
        isl (fst (AuthenticateAPIKey id (Some stuck) no_faults 309 ''h'' db2 c2)) = False \<and>
        isl (fst (AuthenticateAPIKey id (Some stuck) no_faults 310 ''h'' db2 c2)))"
  by (rule conjI, rule revocation_is_immediate_if_cache_obeys_parts(1)[where row=row and b=b and c=c]; (rule assms)?)
    code_simp


theorem revocation_is_immediate_if_cache_obeys_witness:
  "\<exists>e. fst (AuthenticateAPIKey id (Some list_cache) no_faults 21 ''h''
     (fst (snd (iam_handleRevokeAPIKey (Some list_cache) no_faults 20 ''t'' ''k'' demo_iam [])))
     (snd (snd (iam_handleRevokeAPIKey (Some list_cache) no_faults 20 ''t'' ''k'' demo_iam [])))) = Inl e"
proof -
  let ?row = "\<lparr>k_ID = ''k'', k_TenantID = ''t'', k_Name = ''ci'', k_KeyHash = ''h'', k_Status = ''ACTIVE'',
     k_ExpiresAt = None, k_RevokedAt = None, k_CreatedAt = 0\<rparr>"
  let ?rev = "iam_handleRevokeAPIKey (Some list_cache) no_faults 20 (k_TenantID ?row) (k_ID ?row) demo_iam []"
  have "\<exists>e. fst (AuthenticateAPIKey id (Some list_cache) no_faults 21 ''h'' (fst (snd ?rev)) (snd (snd ?rev))) = Inl e"
  proof (rule revocation_is_immediate_if_cache_obeys[where row="?row" and b=list_cache and c="[]", THEN conjunct1])
    show "tbl_unique k_KeyHash (api_keys demo_iam)" "tbl_unique k_ID (api_keys demo_iam)"
      "?row \<in> set (api_keys demo_iam)" by code_simp+
    show "?rev = (WriteJSON StatusNoContent (), fst (snd ?rev), snd (snd ?rev))" by code_simp
  qed (simp_all add: list_cache_def)
  then show ?thesis by simp
qed

end
