(* ===== verification/Messaging.thy ===== *)
theory Messaging
  imports Prelude
begin

text \<open>
  The event bus (\<open>internal/infrastructure/message\<close>): the envelope, its topics and types, and the
  in-process bus. A JSON value of Go type \<open>any\<close> is a \<open>json\<close>. The Kafka bus is a client of a broker
  that is not modelled; its consume loop is, over the sequence of messages the reader returns.
\<close>

datatype json = JNull | JBool bool | JNum int | JStr string | JArr "json list" | JObj "(string \<times> json) list"

abbreviation TopicDeploymentEvents :: string where "TopicDeploymentEvents \<equiv> ''serving.deployment.events''"

abbreviation TypeDeploymentCreated :: string where "TypeDeploymentCreated \<equiv> ''deployment_created''"
abbreviation TypeDeploymentReady :: string where "TypeDeploymentReady \<equiv> ''deployment_ready''"
abbreviation TypeDeploymentFailed :: string where "TypeDeploymentFailed \<equiv> ''deployment_failed''"
abbreviation TypeDeploymentStopRequested :: string where "TypeDeploymentStopRequested \<equiv> ''deployment_stop_requested''"
abbreviation TypeDeploymentStopped :: string where "TypeDeploymentStopped \<equiv> ''deployment_stopped''"

record Event =
  ev_ID :: string
  ev_Type :: string
  ev_Version :: int
  ev_Timestamp :: int
  ev_TenantID :: string
  ev_ResourceID :: string
  ev_TraceID :: string
  ev_Payload :: "(string \<times> json) list"

definition NewEvent :: "string \<Rightarrow> string \<Rightarrow> int \<Rightarrow> string \<Rightarrow> string \<Rightarrow> string \<Rightarrow> (string \<times> json) list \<Rightarrow> Event" where
  "NewEvent evid traceid now etype tenant resource payload =
    \<lparr>ev_ID = evid, ev_Type = etype, ev_Version = 1, ev_Timestamp = now, ev_TenantID = tenant,
     ev_ResourceID = resource, ev_TraceID = traceid, ev_Payload = payload\<rparr>"

text \<open>\<open>s, _ := payload[key].(string)\<close>\<close>

definition payload_string :: "string \<Rightarrow> (string \<times> json) list \<Rightarrow> string" where
  "payload_string key p = (case map_of p key of Some (JStr s) \<Rightarrow> s | _ \<Rightarrow> [])"

section \<open>MemoryEventBus\<close>

text \<open>A handler runs on the state \<open>'s\<close> of the process and returns an error text or None.\<close>

type_synonym 's handler = "Event \<Rightarrow> 's \<Rightarrow> string option \<times> 's"

type_synonym 's memory_bus = "(string \<times> 's handler) list"

definition bus_Subscribe :: "string \<Rightarrow> 's handler \<Rightarrow> 's memory_bus \<Rightarrow> 's memory_bus" where
  "bus_Subscribe topic h bus = bus @ [(topic, h)]"

fun run_handlers :: "Event \<Rightarrow> 's handler list \<Rightarrow> 's \<Rightarrow> string option \<times> 's" where
  "run_handlers ev [] s = (None, s)"
| "run_handlers ev (h # hs) s = (case h ev s of
      (Some e, s') \<Rightarrow> (Some (''memory event handler for '' @ ev_Type ev @ '': '' @ e), s')
    | (None, s') \<Rightarrow> run_handlers ev hs s')"

definition bus_Publish :: "'s memory_bus \<Rightarrow> string \<Rightarrow> Event \<Rightarrow> 's \<Rightarrow> string option \<times> 's" where
  "bus_Publish bus topic ev s = run_handlers ev (map snd (filter (\<lambda>(t, h). t = topic) bus)) s"

lemma bus_Publish_single:
  "bus_Publish (bus_Subscribe topic h []) topic ev s =
    (case h ev s of (Some e, s') \<Rightarrow> (Some (''memory event handler for '' @ ev_Type ev @ '': '' @ e), s')
     | (None, s') \<Rightarrow> (None, s'))"
  by (simp add: bus_Publish_def bus_Subscribe_def split: prod.splits option.splits)

section \<open>The Kafka consume loop\<close>

text \<open>
  One delivery is what \<open>ReadMessage\<close> returns: None for an error while the context lives (the loop goes
  on), Some None for a message that is no envelope (committed and skipped), or an event. The loop
  returns the number of messages it committed, whether it still runs, and the state.
\<close>

fun kafka_consume :: "'s handler \<Rightarrow> Event option option list \<Rightarrow> 's \<Rightarrow> nat \<times> bool \<times> 's" where
  "kafka_consume h [] s = (0, True, s)"
| "kafka_consume h (None # ms) s = kafka_consume h ms s"
| "kafka_consume h (Some None # ms) s =
    (case kafka_consume h ms s of (n, r, s') \<Rightarrow> (Suc n, r, s'))"
| "kafka_consume h (Some (Some ev) # ms) s = (case h ev s of
      (Some e, s') \<Rightarrow> (0, False, s')
    | (None, s') \<Rightarrow> (case kafka_consume h ms s' of (n, r, s'') \<Rightarrow> (Suc n, r, s'')))"

end
