(* ===== verification/Outbox.thy ===== *)
theory Outbox
  imports Messaging
begin

text \<open>
  The transactional outbox (\<open>internal/infrastructure/outbox\<close>): events are rows written in the
  transaction of the domain change, and a publisher drains them to the bus. The \<open>event\<close> column is the
  encoded envelope; it is kept as the event it decodes to (None if it does not decode). The state is a
  record with an outbox table that the databases of the services extend.
\<close>

record Record =
  o_ID :: string
  o_Topic :: string
  o_EventID :: string
  o_EventType :: string
  o_TenantID :: string
  o_ResourceID :: string
  o_Event :: "Event option"
  o_CreatedAt :: int
  o_PublishedAt :: "int option"
  o_Attempts :: int
  o_LastError :: string

record outbox_db =
  outbox :: "Record list"

section \<open>The store\<close>

text \<open>\<open>mk\<close> builds the caller's error from the text that wraps the database error.\<close>

definition outbox_record :: "string \<Rightarrow> int \<Rightarrow> string \<Rightarrow> Event \<Rightarrow> Record" where
  "outbox_record newid now topic ev =
    \<lparr>o_ID = newid, o_Topic = topic, o_EventID = ev_ID ev, o_EventType = ev_Type ev,
     o_TenantID = ev_TenantID ev, o_ResourceID = ev_ResourceID ev, o_Event = Some ev, o_CreatedAt = now,
     o_PublishedAt = None, o_Attempts = 0, o_LastError = []\<rparr>"

definition EnqueueTx ::
  "(string \<Rightarrow> 'e) \<Rightarrow> faults \<Rightarrow> string \<Rightarrow> int \<Rightarrow> string \<Rightarrow> Event \<Rightarrow> ('a outbox_db_scheme, 'e, unit) tx" where
  "EnqueueTx mk flt newid now topic ev =
    stmt (flt ''insert outbox'' newid) (mk ''insert outbox'') (tx_bind
      (require (\<lambda>db. \<not> tbl_has o_ID newid (outbox db)) (mk ''insert outbox''))
      (\<lambda>_. update (\<lambda>db. db\<lparr>outbox := tbl_insert (outbox_record newid now topic ev) (outbox db)\<rparr>)))"

definition unpublished :: "Record list \<Rightarrow> Record list" where
  "unpublished rows = order_by (\<lambda>a b. o_CreatedAt a \<le> o_CreatedAt b) (filter (\<lambda>r. o_PublishedAt r = None) rows)"

definition FetchBatch :: "faults \<Rightarrow> nat \<Rightarrow> ('a outbox_db_scheme, string, Record list) tx" where
  "FetchBatch flt limit = stmt (flt ''fetch outbox'' []) ''fetch outbox''
     (query (\<lambda>db. take limit (unpublished (outbox db))))"

definition MarkPublished :: "faults \<Rightarrow> int \<Rightarrow> string \<Rightarrow> ('a outbox_db_scheme, string, unit) tx" where
  "MarkPublished flt now rid = stmt (flt ''mark outbox published'' rid) ''mark outbox published''
     (update (\<lambda>db. db\<lparr>outbox := tbl_update o_ID rid
       (\<lambda>r. r\<lparr>o_PublishedAt := Some now, o_LastError := []\<rparr>) (outbox db)\<rparr>))"

definition MarkFailed :: "faults \<Rightarrow> string \<Rightarrow> string \<Rightarrow> ('a outbox_db_scheme, string, unit) tx" where
  "MarkFailed flt rid cause = stmt (flt ''mark outbox failed'' rid) ''mark outbox failed''
     (update (\<lambda>db. db\<lparr>outbox := tbl_update o_ID rid
       (\<lambda>r. r\<lparr>o_Attempts := o_Attempts r + 1, o_LastError := cause\<rparr>) (outbox db)\<rparr>))"

section \<open>The publisher\<close>

definition defaultBatch :: nat where
  "defaultBatch = 100"

text \<open>
  The loop of \<open>DrainOnce\<close> over the rows of a batch. \<open>publish\<close> may change the state: on the in-process
  bus it runs the consumers. The result also carries the rows whose publication returned nil, in order.
\<close>

fun drain_rows ::
  "(string \<Rightarrow> Event \<Rightarrow> 'a outbox_db_scheme \<Rightarrow> string option \<times> 'a outbox_db_scheme) \<Rightarrow> faults \<Rightarrow> int \<Rightarrow>
   Record list \<Rightarrow> nat \<Rightarrow> 'a outbox_db_scheme \<Rightarrow> (nat \<times> string option) \<times> Record list \<times> 'a outbox_db_scheme" where
  "drain_rows publish flt now [] n db = ((n, None), [], db)"
| "drain_rows publish flt now (r # rows) n db = (case o_Event r of
      None \<Rightarrow> (case MarkFailed flt (o_ID r) ''decode'' db of
          (Inl e, db') \<Rightarrow> ((n, Some e), [], db')
        | (Inr _, db') \<Rightarrow> drain_rows publish flt now rows n db')
    | Some ev \<Rightarrow> (case publish (o_Topic r) ev db of
          (Some cause, db') \<Rightarrow> (case MarkFailed flt (o_ID r) cause db' of
              (Inl e, db'') \<Rightarrow> ((n, Some e), [], db'')
            | (Inr _, db'') \<Rightarrow> drain_rows publish flt now rows n db'')
        | (None, db') \<Rightarrow> (case MarkPublished flt now (o_ID r) db' of
              (Inl e, db'') \<Rightarrow> ((n, Some e), [r], db'')
            | (Inr _, db'') \<Rightarrow> (case drain_rows publish flt now rows (Suc n) db'' of
                (res, sent, out) \<Rightarrow> (res, r # sent, out)))))"

definition DrainOnce ::
  "(string \<Rightarrow> Event \<Rightarrow> 'a outbox_db_scheme \<Rightarrow> string option \<times> 'a outbox_db_scheme) \<Rightarrow> faults \<Rightarrow> int \<Rightarrow> nat \<Rightarrow>
   'a outbox_db_scheme \<Rightarrow> (nat \<times> string option) \<times> Record list \<times> 'a outbox_db_scheme" where
  "DrainOnce publish flt now batch db = (case FetchBatch flt batch db of
      (Inl e, db') \<Rightarrow> ((0, Some e), [], db')
    | (Inr rows, db') \<Rightarrow> drain_rows publish flt now rows 0 db')"

section \<open>What a drain does to the rows\<close>

text \<open>A producer that leaves the outbox alone (what it does to the rest of the state is its own).\<close>

definition keeps_outbox :: "(string \<Rightarrow> Event \<Rightarrow> 'a outbox_db_scheme \<Rightarrow> string option \<times> 'a outbox_db_scheme) \<Rightarrow> bool" where
  "keeps_outbox publish \<longleftrightarrow> (\<forall>t e s. outbox (snd (publish t e s)) = outbox s)"

text \<open>How one row may change: it stays, its failures are counted, or it is stamped after a delivery.\<close>

definition row_step :: "Record list \<Rightarrow> Record \<Rightarrow> Record \<Rightarrow> bool" where
  "row_step sent r r' \<longleftrightarrow>
    r'\<lparr>o_PublishedAt := o_PublishedAt r, o_Attempts := o_Attempts r, o_LastError := o_LastError r\<rparr> = r \<and>
    o_Attempts r \<le> o_Attempts r' \<and>
    (o_PublishedAt r' = o_PublishedAt r \<or> (\<exists>s\<in>set sent. o_ID s = o_ID r))"

definition rows_step :: "Record list \<Rightarrow> Record list \<Rightarrow> Record list \<Rightarrow> bool" where
  "rows_step sent rows rows' \<longleftrightarrow> list_all2 (row_step sent) rows rows'"

lemma row_step_refl: "row_step sent r r"
  by (simp add: row_step_def)

lemma row_step_trans: "row_step sent r r' \<Longrightarrow> row_step sent r' r'' \<Longrightarrow> row_step sent r r''"
  unfolding row_step_def by (cases r, cases r', cases r'') auto

lemma row_step_mono: "row_step sent r r' \<Longrightarrow> set sent \<subseteq> set sent' \<Longrightarrow> row_step sent' r r'"
  by (auto simp: row_step_def)

lemma rows_step_refl: "rows_step sent rows rows"
  by (simp add: rows_step_def list_all2_refl row_step_refl)

lemma rows_step_trans: "rows_step sent a b \<Longrightarrow> rows_step sent b c \<Longrightarrow> rows_step sent a c"
  unfolding rows_step_def by (rule list_all2_trans[OF row_step_trans])

lemma rows_step_mono: "rows_step sent a b \<Longrightarrow> set sent \<subseteq> set sent' \<Longrightarrow> rows_step sent' a b"
  unfolding rows_step_def by (erule list_all2_mono) (simp add: row_step_mono)

lemma rows_step_update:
  assumes "\<And>r. o_ID r = rid \<Longrightarrow> row_step sent r (f r)"
  shows "rows_step sent rows (tbl_update o_ID rid f rows)"
  using assms by (induction rows) (auto simp: rows_step_def tbl_update_def row_step_refl)

lemma MarkFailed_rows: "rows_step sent (outbox db) (outbox (snd (MarkFailed flt rid cause db)))"
  by (auto simp: MarkFailed_def stmt_def update_def rows_step_refl row_step_def intro!: rows_step_update)

lemma MarkPublished_rows:
  "\<exists>s\<in>set sent. o_ID s = rid \<Longrightarrow> rows_step sent (outbox db) (outbox (snd (MarkPublished flt now rid db)))"
  by (auto simp: MarkPublished_def stmt_def update_def rows_step_refl row_step_def intro!: rows_step_update)

lemma drain_rows_step:
  assumes "keeps_outbox publish" "drain_rows publish flt now rows n db = (res, sent, db')"
  shows "rows_step sent (outbox db) (outbox db') \<and> set sent \<subseteq> set rows"
  using assms(2)
proof (induction rows arbitrary: n db sent)
  case Nil
  then show ?case by (simp add: rows_step_refl)
next
  case (Cons r rows)
  have keep: "outbox (snd (publish (o_Topic r) ev db)) = outbox db" for ev
    using assms(1) by (simp add: keeps_outbox_def)
  have failed: "rows_step s' (outbox d) (outbox d')" if "MarkFailed flt rid c d = (x, d')" for s' rid c d x d'
    using MarkFailed_rows[of s' d flt rid c] that by simp
  show ?case
  proof (cases "o_Event r")
    case None
    then show ?thesis
      using Cons.prems
      by (auto split: prod.splits sum.splits
          dest!: Cons.IH intro: rows_step_trans[OF failed] failed)
  next
    case (Some ev)
    obtain c d1 where p: "publish (o_Topic r) ev db = (c, d1)" by (cases "publish (o_Topic r) ev db")
    have d1: "outbox d1 = outbox db" using keep[of ev] p by simp
    show ?thesis
    proof (cases c)
      case (Some cause)
      then show ?thesis
        using Cons.prems \<open>o_Event r = Some ev\<close> p
        by (auto split: prod.splits sum.splits dest!: Cons.IH
            intro: rows_step_trans[OF failed, unfolded d1] failed[unfolded d1] simp: d1[symmetric])
    next
      case None
      obtain m d2 where m: "MarkPublished flt now (o_ID r) d1 = (m, d2)"
        by (cases "MarkPublished flt now (o_ID r) d1")
      have pub: "r \<in> set s' \<Longrightarrow> rows_step s' (outbox db) (outbox d2)" for s'
        using MarkPublished_rows[of s' "o_ID r" d1 flt now] m d1 by auto
      show ?thesis
      proof (cases m)
        case (Inl e)
        then show ?thesis using Cons.prems \<open>o_Event r = Some ev\<close> p None m pub by auto
      next
        case (Inr u)
        obtain res' sent' out where rest: "drain_rows publish flt now rows (Suc n) d2 = (res', sent', out)"
          by (cases "drain_rows publish flt now rows (Suc n) d2")
        then have out: "sent = r # sent'" "db' = out"
          using Cons.prems \<open>o_Event r = Some ev\<close> p None m Inr by auto
        have "rows_step sent' (outbox d2) (outbox out) \<and> set sent' \<subseteq> set rows"
          using Cons.IH[of "Suc n" d2 sent'] rest out Cons.prems \<open>o_Event r = Some ev\<close> p None m Inr by simp
        then show ?thesis
          using rows_step_trans[OF pub[of sent]] rows_step_mono[of sent' "outbox d2" "outbox out" sent] out by auto
      qed
    qed
  qed
qed


lemma drain_rows_sent:
  "drain_rows publish flt now rows n db = ((m, err), sent, db') \<Longrightarrow> s \<in> set sent \<Longrightarrow>
   \<exists>ev d d'. o_Event s = Some ev \<and> publish (o_Topic s) ev d = (None, d')"
  by (induction rows arbitrary: n db sent) (fastforce split: option.splits prod.splits sum.splits)+

section \<open>Properties\<close>

text \<open>
  C12: No event is lost (at-least-once delivery). Whatever statements and publications fail, a drain
  deletes no row and alters no event; a row that was unpublished is stamped published only if its event
  was handed to the producer and the producer returned nil, so every other row is fetched again by a
  later drain.
\<close>

theorem outbox_is_at_least_once:
  assumes "keeps_outbox publish" "tbl_unique o_ID (outbox db)"
    "DrainOnce publish flt now batch db = ((n, err), sent, db')"
    "tbl_find o_ID rid (outbox db) = Some r"
  shows "\<exists>r'. tbl_find o_ID rid (outbox db') = Some r' \<and> o_Event r' = o_Event r \<and> o_Topic r' = o_Topic r \<and>
    (o_PublishedAt r = None \<and> o_PublishedAt r' \<noteq> None \<longrightarrow>
      (\<exists>ev d d'. o_Event r = Some ev \<and> publish (o_Topic r) ev d = (None, d')))"
proof -
  have step: "rows_step sent (outbox db) (outbox db') \<and> set sent \<subseteq> set (outbox db) \<and>
      (\<forall>s\<in>set sent. \<exists>ev d d'. o_Event s = Some ev \<and> publish (o_Topic s) ev d = (None, d'))"
  proof (cases "flt ''fetch outbox'' []")
    case True
    then have "db' = db" "sent = []" using assms(3) by (auto simp: DrainOnce_def FetchBatch_def stmt_def)
    then show ?thesis by (simp add: rows_step_refl)
  next
    case False
    then have d: "drain_rows publish flt now (take batch (unpublished (outbox db))) 0 db = ((n, err), sent, db')"
      using assms(3) by (simp add: DrainOnce_def FetchBatch_def stmt_def query_def)
    have "set (take batch (unpublished (outbox db))) \<subseteq> set (outbox db)"
      using set_take_subset by (fastforce simp: unpublished_def)
    then show ?thesis
      using drain_rows_step[OF assms(1) d] drain_rows_sent[OF d] by blast
  qed
  have find: "list_all2 (row_step sent) xs ys \<Longrightarrow> tbl_find o_ID rid xs = Some r \<Longrightarrow>
      \<exists>r'. tbl_find o_ID rid ys = Some r' \<and> row_step sent r r'" for xs ys
  proof (induction rule: list_all2_induct)
    case (Cons x xs y ys)
    have "o_ID y = o_ID x"
      using Cons(1) unfolding row_step_def by (metis Record.select_convs(1) Record.surjective Record.update_convs(9,10,11))
    then show ?case using Cons by (auto simp: tbl_find_Cons split: if_splits)
  qed simp
  have "list_all2 (row_step sent) (outbox db) (outbox db')" using step by (simp add: rows_step_def)
  from find[OF this assms(4)] obtain r' where
    r': "tbl_find o_ID rid (outbox db') = Some r'" "row_step sent r r'" by blast
  have "o_Event r' = o_Event r" "o_Topic r' = o_Topic r"
    using r'(2) unfolding row_step_def by (cases r, cases r', simp)+
  moreover have "\<exists>ev d d'. o_Event r = Some ev \<and> publish (o_Topic r) ev d = (None, d')"
    if "o_PublishedAt r = None" "o_PublishedAt r' \<noteq> None"
  proof -
    have "o_PublishedAt r' \<noteq> o_PublishedAt r" using that by simp
    then obtain s where s: "s \<in> set sent" "o_ID s = o_ID r"
      using r'(2) unfolding row_step_def by blast
    have "r \<in> set (outbox db)" using tbl_find_SomeD[OF assms(4)] by simp
    then have "s = r" using s step assms(2) tbl_find_unique[OF assms(2)] by (metis option.inject subsetD)
    then show ?thesis using s step by blast
  qed
  ultimately show ?thesis using r'(1) by auto
qed

definition deaf :: "string \<Rightarrow> Event \<Rightarrow> outbox_db \<Rightarrow> string option \<times> outbox_db" where
  "deaf topic ev db = (if ev_ResourceID ev = ''bad'' then Some ''down'' else None, db)"

definition some_event :: "string \<Rightarrow> Event" where
  "some_event res = NewEvent ''e'' ''x'' 0 TypeDeploymentCreated ''t'' res []"

definition two_rows :: outbox_db where
  "two_rows = \<lparr>outbox = [outbox_record ''1'' 5 TopicDeploymentEvents (some_event ''bad''),
     outbox_record ''2'' 6 TopicDeploymentEvents (some_event ''d'')]\<rparr>"

lemma deaf_keeps: "keeps_outbox deaf"
  by (simp add: keeps_outbox_def deaf_def)

theorem outbox_is_at_least_once_witness:
  "\<exists>r'. tbl_find o_ID ''2'' (outbox (snd (snd (DrainOnce deaf no_faults 9 100 two_rows)))) = Some r' \<and>
     o_Event r' = Some (some_event ''d'')"
proof -
  let ?out = "DrainOnce deaf no_faults 9 100 two_rows"
  have "tbl_unique o_ID (outbox two_rows)" by code_simp
  moreover have "?out = ((fst (fst ?out), snd (fst ?out)), fst (snd ?out), snd (snd ?out))" by simp
  moreover have "tbl_find o_ID ''2'' (outbox two_rows) =
    Some (outbox_record ''2'' 6 TopicDeploymentEvents (some_event ''d''))" by code_simp
  ultimately show ?thesis
    using outbox_is_at_least_once[OF deaf_keeps, of two_rows no_faults 9 100 _ _ _ _ "''2''"]
    by (fastforce simp: outbox_record_def)
qed

section \<open>Starvation\<close>

definition poison :: "(string \<Rightarrow> Event \<Rightarrow> 'a outbox_db_scheme \<Rightarrow> string option \<times> 'a outbox_db_scheme) \<Rightarrow> Record \<Rightarrow> bool" where
  "poison publish r \<longleftrightarrow> (case o_Event r of None \<Rightarrow> True | Some ev \<Rightarrow> (\<forall>d. fst (publish (o_Topic r) ev d) \<noteq> None))"

text \<open>Rows that agree but for their failure counts.\<close>

definition same_but_failures :: "Record \<Rightarrow> Record \<Rightarrow> bool" where
  "same_but_failures r r' \<longleftrightarrow> r'\<lparr>o_Attempts := o_Attempts r, o_LastError := o_LastError r\<rparr> = r"

lemma same_but_failures_fields:
  "same_but_failures r r' \<Longrightarrow> o_ID r' = o_ID r \<and> o_PublishedAt r' = o_PublishedAt r \<and>
     o_CreatedAt r' = o_CreatedAt r \<and> o_Event r' = o_Event r \<and> o_Topic r' = o_Topic r"
  by (cases r; cases r') (simp add: same_but_failures_def)

lemma same_but_failures_trans:
  "same_but_failures a b \<Longrightarrow> same_but_failures b c \<Longrightarrow> same_but_failures a c"
  by (cases a; cases b; cases c) (simp add: same_but_failures_def)

lemma same_but_failures_refl: "same_but_failures r r"
  by (simp add: same_but_failures_def)

lemma all_same_trans:
  "list_all2 same_but_failures a b \<Longrightarrow> list_all2 same_but_failures b c \<Longrightarrow> list_all2 same_but_failures a c"
  by (rule list_all2_trans[OF same_but_failures_trans])

lemma drain_poison:
  assumes "keeps_outbox publish" "\<forall>r\<in>set rows. poison publish r"
  shows "\<exists>db'. drain_rows publish no_faults now rows n db = ((n, None), [], db') \<and>
    list_all2 same_but_failures (outbox db) (outbox db')"
  using assms(2)
proof (induction rows arbitrary: db)
  case Nil
  then show ?case by (simp add: list_all2_refl same_but_failures_refl)
next
  case (Cons r rows)
  have mark: "list_all2 same_but_failures rs (tbl_update o_ID rid
      (\<lambda>r. r\<lparr>o_Attempts := o_Attempts r + 1, o_LastError := c\<rparr>) rs)" for rs rid c
    by (induction rs) (auto simp: tbl_update_def same_but_failures_def)
  have go: "\<exists>db'. drain_rows publish no_faults now (r # rows) n db = ((n, None), [], db') \<and>
      list_all2 same_but_failures (outbox db) (outbox db')"
    if "drain_rows publish no_faults now (r # rows) n db = drain_rows publish no_faults now rows n
        (snd (MarkFailed no_faults (o_ID r) c d))" "outbox d = outbox db" for c d
  proof -
    let ?d = "snd (MarkFailed no_faults (o_ID r) c d)"
    obtain db' where db': "drain_rows publish no_faults now rows n ?d = ((n, None), [], db')"
      "list_all2 same_but_failures (outbox ?d) (outbox db')"
      using Cons.IH[of ?d] Cons.prems by auto
    have "list_all2 same_but_failures (outbox db) (outbox ?d)"
      using mark that(2) by (simp add: MarkFailed_def stmt_def update_def)
    then have "list_all2 same_but_failures (outbox db) (outbox db')"
      by (rule all_same_trans[OF _ db'(2)])
    then show ?thesis using db'(1) that(1) by simp
  qed
  show ?case
  proof (cases "o_Event r")
    case None
    then show ?thesis by (intro go[where c="''decode''" and d=db]) (simp_all add: MarkFailed_def stmt_def update_def)
  next
    case (Some ev)
    then obtain c d where p: "publish (o_Topic r) ev db = (Some c, d)"
      using Cons.prems by (cases "publish (o_Topic r) ev db"; cases "fst (publish (o_Topic r) ev db)")
        (auto simp: poison_def dest: spec[of _ db])
    have "outbox d = outbox db" using assms(1) p by (metis keeps_outbox_def snd_conv)
    then show ?thesis
      using Some p by (intro go[where c=c and d=d]) (simp_all add: MarkFailed_def stmt_def update_def)
  qed
qed

lemma unpublished_same:
  assumes "list_all2 same_but_failures rows rows'"
  shows "list_all2 same_but_failures (unpublished rows) (unpublished rows')"
proof -
  have ins: "list_all2 same_but_failures xs ys \<Longrightarrow> same_but_failures x y \<Longrightarrow>
      list_all2 same_but_failures (insert_by (\<lambda>a b. o_CreatedAt a \<le> o_CreatedAt b) x xs)
        (insert_by (\<lambda>a b. o_CreatedAt a \<le> o_CreatedAt b) y ys)" for xs ys x y
  proof (induction rule: list_all2_induct)
    case (Cons a xs b ys)
    have "o_CreatedAt b = o_CreatedAt a" "o_CreatedAt y = o_CreatedAt x"
      using Cons(1,4) same_but_failures_fields by blast+
    then show ?case using Cons by (auto simp: insert_by_def)
  qed (simp add: insert_by_def)
  have "list_all2 same_but_failures xs ys \<Longrightarrow> list_all2 same_but_failures us vs \<Longrightarrow>
      list_all2 same_but_failures (fold (insert_by (\<lambda>a b. o_CreatedAt a \<le> o_CreatedAt b)) xs us)
        (fold (insert_by (\<lambda>a b. o_CreatedAt a \<le> o_CreatedAt b)) ys vs)" for xs ys us vs
    by (induction arbitrary: us vs rule: list_all2_induct) (auto simp: ins)
  moreover have "list_all2 same_but_failures (filter (\<lambda>r. o_PublishedAt r = None) rows)
      (filter (\<lambda>r. o_PublishedAt r = None) rows')"
    using assms by (induction rule: list_all2_induct) (auto dest: same_but_failures_fields)
  ultimately show ?thesis by (simp add: unpublished_def order_by_def)
qed

fun drain_times ::
  "(string \<Rightarrow> Event \<Rightarrow> 'a outbox_db_scheme \<Rightarrow> string option \<times> 'a outbox_db_scheme) \<Rightarrow> nat \<Rightarrow> int list \<Rightarrow>
   'a outbox_db_scheme \<Rightarrow> Record list" where
  "drain_times publish batch [] db = []"
| "drain_times publish batch (now # ticks) db = (case DrainOnce publish no_faults now batch db of
      (_, sent, db') \<Rightarrow> sent @ drain_times publish batch ticks db')"

text \<open>
  A full batch of events that cannot be delivered stops the outbox. If the oldest \<open>batch\<close> unpublished
  rows are undeliverable, then no drain, however often it is repeated and although no statement fails,
  delivers anything: failed rows keep their place at the head, attempts are counted but never limited,
  and the rows behind them are never fetched.
\<close>

theorem poison_batch_starves_outbox:
  assumes "keeps_outbox publish" "batch \<le> length (unpublished (outbox db))"
    "\<forall>r\<in>set (take batch (unpublished (outbox db))). poison publish r"
  shows "drain_times publish batch ticks db = []"
  using assms(2,3)
proof (induction ticks arbitrary: db)
  case (Cons now ticks)
  obtain db' where d: "drain_rows publish no_faults now (take batch (unpublished (outbox db))) 0 db =
      ((0, None), [], db')" "list_all2 same_but_failures (outbox db) (outbox db')"
    using drain_poison[OF assms(1) Cons.prems(2)] by blast
  have same: "list_all2 same_but_failures (unpublished (outbox db)) (unpublished (outbox db'))"
    by (rule unpublished_same[OF d(2)])
  have poisoned: "poison publish r'" if "same_but_failures r r'" "poison publish r" for r r'
    using that same_but_failures_fields[OF that(1)] by (simp add: poison_def split: option.splits)
  have spread: "\<forall>r\<in>set ys. poison publish r"
    if "list_all2 same_but_failures xs ys" "\<forall>r\<in>set xs. poison publish r" for xs ys
    using that by (induction rule: list_all2_induct) (auto intro: poisoned)
  have "\<forall>r\<in>set (take batch (unpublished (outbox db'))). poison publish r"
    by (rule spread[OF list_all2_takeI[OF same] Cons.prems(2)])
  moreover have "batch \<le> length (unpublished (outbox db'))"
    using Cons.prems(1) list_all2_lengthD[OF same] by simp
  ultimately have "drain_times publish batch ticks db' = []" by (rule Cons.IH[rotated])
  then show ?case using d(1) by (simp add: DrainOnce_def FetchBatch_def stmt_def query_def)
qed simp

theorem poison_batch_starves_outbox_witness:
  "drain_times deaf 1 [10, 20, 30] two_rows = []"
proof (rule poison_batch_starves_outbox[OF deaf_keeps])
  show "1 \<le> length (unpublished (outbox two_rows))" by code_simp
  have "take 1 (unpublished (outbox two_rows)) = [outbox_record ''1'' 5 TopicDeploymentEvents (some_event ''bad'')]"
    by code_simp
  then show "\<forall>r\<in>set (take 1 (unpublished (outbox two_rows))). poison deaf r"
    by (simp add: poison_def outbox_record_def deaf_def some_event_def NewEvent_def)
qed

end
