(* ===== verification/Serving.thy ===== *)
theory Serving
  imports Outbox Http
begin

text \<open>
  The serving catalog and deployments (\<open>internal/services/serving\<close>): rows, repositories, the service
  and its HTTP handlers. The database extends the outbox table, since a deployment and its event are
  written in one transaction. JSONB columns are association lists; None is a nil map or slice.
\<close>

section \<open>The state machine (state.go)\<close>

datatype deployment_status =
    DeploymentPending | DeploymentProvisioning | DeploymentStarting | DeploymentReady
  | DeploymentDegraded | DeploymentStopping | DeploymentStopped | DeploymentFailed

fun validTransitions :: "deployment_status \<Rightarrow> deployment_status list" where
  "validTransitions DeploymentPending = [DeploymentProvisioning, DeploymentFailed]"
| "validTransitions DeploymentProvisioning = [DeploymentStarting, DeploymentFailed]"
| "validTransitions DeploymentStarting = [DeploymentReady, DeploymentDegraded, DeploymentFailed]"
| "validTransitions DeploymentReady = [DeploymentDegraded, DeploymentStopping, DeploymentFailed]"
| "validTransitions DeploymentDegraded = [DeploymentReady, DeploymentStopping, DeploymentFailed]"
| "validTransitions DeploymentStopping = [DeploymentStopped, DeploymentFailed]"
| "validTransitions DeploymentStopped = [DeploymentPending]"
| "validTransitions DeploymentFailed = []"

definition CanTransition :: "deployment_status \<Rightarrow> deployment_status \<Rightarrow> bool" where
  "CanTransition current nxt \<longleftrightarrow> List.member (validTransitions current) nxt"

section \<open>Rows and domain types (models.go, model.go)\<close>

record Model =
  m_ID :: string
  m_Name :: string
  m_Description :: string
  m_Task :: string
  m_Framework :: string
  m_Status :: string
  m_CreatedAt :: int

record ModelVersion =
  mv_ID :: string
  mv_ModelID :: string
  mv_Version :: string
  mv_ArtifactURI :: string
  mv_Metadata :: "(string \<times> json) list option"
  mv_Status :: string
  mv_CreatedAt :: int

record ServingTemplate =
  st_ID :: string
  st_Name :: string
  st_Description :: string
  st_Runtime :: string
  st_Status :: string
  st_CreatedAt :: int

record TemplateVersion =
  tv_ID :: string
  tv_TemplateID :: string
  tv_Version :: string
  tv_Image :: string
  tv_Command :: "string list option"
  tv_Environment :: "(string \<times> string) list option"
  tv_ConfigSchema :: "(string \<times> json) list option"
  tv_CreatedAt :: int

record Deployment =
  d_ID :: string
  d_TenantID :: string
  d_ModelVersionID :: string
  d_TemplateVersionID :: string
  d_Name :: string
  d_Region :: string
  d_DesiredReplicas :: int
  d_Status :: deployment_status
  d_WorkloadRef :: string
  d_CreatedAt :: int
  d_UpdatedAt :: int

record revisionRow =
  rv_ID :: string
  rv_DeploymentID :: string
  rv_Revision :: int
  rv_Spec :: "(string \<times> json) list"
  rv_CreatedAt :: int
  rv_CreatedBy :: "string option"

record Endpoint =
  ep_ID :: string
  ep_DeploymentID :: string
  ep_Path :: string
  ep_Protocol :: string
  ep_Status :: string
  ep_CreatedAt :: int

record idempotencyRow =
  ik_ID :: string
  ik_TenantID :: string
  ik_Key :: string
  ik_ResourceType :: string
  ik_ResourceID :: string

record serving_db = outbox_db +
  models :: "Model list"
  model_versions :: "ModelVersion list"
  templates :: "ServingTemplate list"
  template_versions :: "TemplateVersion list"
  deployments :: "Deployment list"
  revisions :: "revisionRow list"
  endpoints :: "Endpoint list"
  idempotency_keys :: "idempotencyRow list"

datatype serving_error =
    ErrNotFound string | ErrInvalidTransition deployment_status deployment_status | ServingDB string

type_synonym 'a serving_tx = "(serving_db, serving_error, 'a) tx"

abbreviation srv_sql :: "faults \<Rightarrow> string \<Rightarrow> string \<Rightarrow> 'a serving_tx \<Rightarrow> 'a serving_tx" where
  "srv_sql flt label k m \<equiv> stmt (flt label k) (ServingDB label) m"

text \<open>An INSERT whose primary key or unique columns are taken fails with the statement's error.\<close>

abbreviation srv_insert ::
  "faults \<Rightarrow> string \<Rightarrow> string \<Rightarrow> (serving_db \<Rightarrow> bool) \<Rightarrow> (serving_db \<Rightarrow> serving_db) \<Rightarrow> unit serving_tx" where
  "srv_insert flt label k free ins \<equiv> srv_sql flt label k
     (tx_bind (require free (ServingDB label)) (\<lambda>_. update ins))"

section \<open>Repositories (repository\_serving.go)\<close>

definition model_Create :: "faults \<Rightarrow> Model \<Rightarrow> unit serving_tx" where
  "model_Create flt m = srv_insert flt ''create model'' []
     (\<lambda>db. \<not> tbl_has m_ID (m_ID m) (models db) \<and>
           \<not> tbl_has (\<lambda>r. (m_Name r, m_Framework r)) (m_Name m, m_Framework m) (models db))
     (\<lambda>db. db\<lparr>models := tbl_insert m (models db)\<rparr>)"

definition model_List :: "faults \<Rightarrow> (string \<Rightarrow> string \<Rightarrow> bool) \<Rightarrow> Model list serving_tx" where
  "model_List flt le = srv_sql flt ''list models'' []
     (query (\<lambda>db. order_by (\<lambda>a b. le (m_Name a) (m_Name b)) (models db)))"

definition model_Get :: "faults \<Rightarrow> string \<Rightarrow> Model serving_tx" where
  "model_Get flt mid = srv_sql flt ''get model'' [] (fetch (\<lambda>db. tbl_find m_ID mid (models db)) (ErrNotFound ''get model''))"

definition model_CreateVersion :: "faults \<Rightarrow> ModelVersion \<Rightarrow> unit serving_tx" where
  "model_CreateVersion flt mv = srv_insert flt ''create model version'' []
     (\<lambda>db. \<not> tbl_has mv_ID (mv_ID mv) (model_versions db) \<and> tbl_has m_ID (mv_ModelID mv) (models db) \<and>
           \<not> tbl_has (\<lambda>r. (mv_ModelID r, mv_Version r)) (mv_ModelID mv, mv_Version mv) (model_versions db))
     (\<lambda>db. db\<lparr>model_versions := tbl_insert mv (model_versions db)\<rparr>)"

definition model_GetVersion :: "faults \<Rightarrow> string \<Rightarrow> string \<Rightarrow> ModelVersion serving_tx" where
  "model_GetVersion flt mid version = srv_sql flt ''get model version'' []
     (fetch (\<lambda>db. tbl_find (\<lambda>r. (mv_ModelID r, mv_Version r)) (mid, version) (model_versions db))
        (ErrNotFound ''get model version''))"

definition model_ListVersions :: "faults \<Rightarrow> string \<Rightarrow> ModelVersion list serving_tx" where
  "model_ListVersions flt mid = srv_sql flt ''list model versions'' [] (query (\<lambda>db.
     order_by (\<lambda>a b. mv_CreatedAt a \<ge> mv_CreatedAt b) (filter (\<lambda>r. mv_ModelID r = mid) (model_versions db))))"

definition template_Create :: "faults \<Rightarrow> ServingTemplate \<Rightarrow> unit serving_tx" where
  "template_Create flt t = srv_insert flt ''create template'' []
     (\<lambda>db. \<not> tbl_has st_ID (st_ID t) (templates db) \<and> \<not> tbl_has st_Name (st_Name t) (templates db))
     (\<lambda>db. db\<lparr>templates := tbl_insert t (templates db)\<rparr>)"

definition template_List :: "faults \<Rightarrow> (string \<Rightarrow> string \<Rightarrow> bool) \<Rightarrow> ServingTemplate list serving_tx" where
  "template_List flt le = srv_sql flt ''list templates'' []
     (query (\<lambda>db. order_by (\<lambda>a b. le (st_Name a) (st_Name b)) (templates db)))"

definition template_Get :: "faults \<Rightarrow> string \<Rightarrow> ServingTemplate serving_tx" where
  "template_Get flt tid = srv_sql flt ''get template'' []
     (fetch (\<lambda>db. tbl_find st_ID tid (templates db)) (ErrNotFound ''get template''))"

definition template_CreateVersion :: "faults \<Rightarrow> TemplateVersion \<Rightarrow> unit serving_tx" where
  "template_CreateVersion flt tv = srv_insert flt ''create template version'' []
     (\<lambda>db. \<not> tbl_has tv_ID (tv_ID tv) (template_versions db) \<and> tbl_has st_ID (tv_TemplateID tv) (templates db) \<and>
           \<not> tbl_has (\<lambda>r. (tv_TemplateID r, tv_Version r)) (tv_TemplateID tv, tv_Version tv) (template_versions db))
     (\<lambda>db. db\<lparr>template_versions := tbl_insert tv (template_versions db)\<rparr>)"

definition template_GetVersion :: "faults \<Rightarrow> string \<Rightarrow> string \<Rightarrow> TemplateVersion serving_tx" where
  "template_GetVersion flt tid version = srv_sql flt ''get template version'' []
     (fetch (\<lambda>db. tbl_find (\<lambda>r. (tv_TemplateID r, tv_Version r)) (tid, version) (template_versions db))
        (ErrNotFound ''get template version''))"

definition template_ListVersions :: "faults \<Rightarrow> string \<Rightarrow> TemplateVersion list serving_tx" where
  "template_ListVersions flt tid = srv_sql flt ''list template versions'' [] (query (\<lambda>db.
     order_by (\<lambda>a b. tv_CreatedAt a \<ge> tv_CreatedAt b) (filter (\<lambda>r. tv_TemplateID r = tid) (template_versions db))))"

text \<open>The INSERT of a deployment: the workload reference of the domain object is not written.\<close>

definition deployment_row :: "int \<Rightarrow> Deployment \<Rightarrow> Deployment" where
  "deployment_row now d = d\<lparr>d_WorkloadRef := [], d_CreatedAt := now, d_UpdatedAt := now\<rparr>"

definition insert_deployment :: "faults \<Rightarrow> int \<Rightarrow> Deployment \<Rightarrow> unit serving_tx" where
  "insert_deployment flt now d = srv_insert flt ''create deployment'' []
     (\<lambda>db. \<not> tbl_has d_ID (d_ID d) (deployments db) \<and>
           tbl_has mv_ID (d_ModelVersionID d) (model_versions db) \<and>
           tbl_has tv_ID (d_TemplateVersionID d) (template_versions db))
     (\<lambda>db. db\<lparr>deployments := tbl_insert (deployment_row now d) (deployments db)\<rparr>)"

definition deployment_Create :: "faults \<Rightarrow> int \<Rightarrow> Deployment \<Rightarrow> Deployment serving_tx" where
  "deployment_Create flt now d = tx_bind (insert_deployment flt now d)
     (\<lambda>_. tx_return (d\<lparr>d_CreatedAt := now, d_UpdatedAt := now\<rparr>))"

definition deployment_CreateWithEvent ::
  "faults \<Rightarrow> int \<Rightarrow> string \<Rightarrow> Deployment \<Rightarrow> string \<Rightarrow> Event \<Rightarrow> Deployment serving_tx" where
  "deployment_CreateWithEvent flt now outid d topic ev = transaction (
     tx_bind (insert_deployment flt now d) (\<lambda>_.
     tx_bind (EnqueueTx ServingDB flt outid now topic ev) (\<lambda>_.
     tx_return (d\<lparr>d_CreatedAt := now, d_UpdatedAt := now\<rparr>))))"

definition deployment_Get :: "faults \<Rightarrow> string \<Rightarrow> string \<Rightarrow> Deployment serving_tx" where
  "deployment_Get flt k did = srv_sql flt ''get deployment'' k
     (fetch (\<lambda>db. tbl_find d_ID did (deployments db)) (ErrNotFound ''get deployment''))"

definition deployment_List :: "faults \<Rightarrow> string \<Rightarrow> Deployment list serving_tx" where
  "deployment_List flt tenant = srv_sql flt ''list deployments'' [] (query (\<lambda>db.
     order_by (\<lambda>a b. d_CreatedAt a \<le> d_CreatedAt b) (filter (\<lambda>r. d_TenantID r = tenant) (deployments db))))"

text \<open>The joins of a deployment with its model version and its model.\<close>

definition model_names_of :: "serving_db \<Rightarrow> Deployment \<Rightarrow> string list" where
  "model_names_of db d = map m_Name (concat (map (\<lambda>mv. filter (\<lambda>m. m_ID m = mv_ModelID mv) (models db))
     (filter (\<lambda>mv. mv_ID mv = d_ModelVersionID d) (model_versions db))))"

definition deployment_Resolve :: "faults \<Rightarrow> string \<Rightarrow> string \<Rightarrow> Deployment serving_tx" where
  "deployment_Resolve flt tenant modelName = srv_sql flt ''resolve deployment'' [] (fetch (\<lambda>db.
     case order_by (\<lambda>a b. d_CreatedAt a \<ge> d_CreatedAt b)
       (filter (\<lambda>d. List.member (model_names_of db d) modelName \<and> d_TenantID d = tenant \<and>
          d_Status d = DeploymentReady) (deployments db)) of
       [] \<Rightarrow> None | d # _ \<Rightarrow> Some d) (ErrNotFound ''resolve deployment''))"

definition deployment_ListReadyModelNames ::
  "faults \<Rightarrow> (string \<Rightarrow> string \<Rightarrow> bool) \<Rightarrow> string \<Rightarrow> string list serving_tx" where
  "deployment_ListReadyModelNames flt le tenant = srv_sql flt ''list ready model names'' [] (query (\<lambda>db.
     order_by le (remdups (concat (map (model_names_of db)
       (filter (\<lambda>d. d_TenantID d = tenant \<and> d_Status d = DeploymentReady) (deployments db)))))))"

definition set_deployment :: "string \<Rightarrow> (Deployment \<Rightarrow> Deployment) \<Rightarrow> serving_db \<Rightarrow> serving_db" where
  "set_deployment did f db = db\<lparr>deployments := tbl_update d_ID did f (deployments db)\<rparr>"

definition deployment_UpdateStatus :: "faults \<Rightarrow> string \<Rightarrow> int \<Rightarrow> string \<Rightarrow> deployment_status \<Rightarrow> unit serving_tx" where
  "deployment_UpdateStatus flt k now did to_st = srv_sql flt ''update deployment'' k
     (update (set_deployment did (\<lambda>d. d\<lparr>d_Status := to_st, d_UpdatedAt := now\<rparr>)))"

definition max_revision :: "string \<Rightarrow> serving_db \<Rightarrow> int" where
  "max_revision did db = fold max (map rv_Revision (filter (\<lambda>r. rv_DeploymentID r = did) (revisions db))) 0"

definition nullableUUID :: "string \<Rightarrow> string option" where
  "nullableUUID s = (if s = [] then None else Some s)"

definition deployment_CreateRevision ::
  "faults \<Rightarrow> int \<Rightarrow> string \<Rightarrow> string \<Rightarrow> (string \<times> json) list \<Rightarrow> string \<Rightarrow> revisionRow serving_tx" where
  "deployment_CreateRevision flt now newid did spec createdBy = transaction (
     tx_bind (srv_sql flt ''next revision'' [] (query (max_revision did))) (\<lambda>maxRev.
     let row = \<lparr>rv_ID = newid, rv_DeploymentID = did, rv_Revision = maxRev + 1, rv_Spec = spec,
                rv_CreatedAt = now, rv_CreatedBy = nullableUUID createdBy\<rparr> in
     tx_bind (srv_insert flt ''insert revision'' []
       (\<lambda>db. \<not> tbl_has rv_ID newid (revisions db) \<and> tbl_has d_ID did (deployments db))
       (\<lambda>db. db\<lparr>revisions := tbl_insert row (revisions db)\<rparr>)) (\<lambda>_.
     tx_return row)))"

definition deployment_ListRevisions :: "faults \<Rightarrow> string \<Rightarrow> revisionRow list serving_tx" where
  "deployment_ListRevisions flt did = srv_sql flt ''list revisions'' [] (query (\<lambda>db.
     order_by (\<lambda>a b. rv_Revision a \<le> rv_Revision b) (filter (\<lambda>r. rv_DeploymentID r = did) (revisions db))))"

definition deployment_SetWorkloadRef :: "faults \<Rightarrow> int \<Rightarrow> string \<Rightarrow> string \<Rightarrow> unit serving_tx" where
  "deployment_SetWorkloadRef flt now did ref = srv_sql flt ''set workload ref'' []
     (update (set_deployment did (\<lambda>d. d\<lparr>d_WorkloadRef := ref, d_UpdatedAt := now\<rparr>)))"

definition deployment_CreateEndpoint :: "faults \<Rightarrow> Endpoint \<Rightarrow> unit serving_tx" where
  "deployment_CreateEndpoint flt e = srv_insert flt ''create endpoint'' []
     (\<lambda>db. \<not> tbl_has ep_ID (ep_ID e) (endpoints db) \<and> tbl_has d_ID (ep_DeploymentID e) (deployments db))
     (\<lambda>db. db\<lparr>endpoints := tbl_insert e (endpoints db)\<rparr>)"

text \<open>\<open>repository_idempotency.go\<close>: UNIQUE (tenant\_id, key); the type is not part of the constraint.\<close>

definition idem_key :: "idempotencyRow \<Rightarrow> string \<times> string" where
  "idem_key r = (ik_TenantID r, ik_Key r)"

definition idempotency_Save ::
  "faults \<Rightarrow> string \<Rightarrow> string \<Rightarrow> string \<Rightarrow> string \<Rightarrow> string \<Rightarrow> unit serving_tx" where
  "idempotency_Save flt newid tenant key rtype rid = srv_sql flt ''save idempotency key'' [] (update (\<lambda>db.
     db\<lparr>idempotency_keys := tbl_insert_ignore idem_key
       \<lparr>ik_ID = newid, ik_TenantID = tenant, ik_Key = key, ik_ResourceType = rtype, ik_ResourceID = rid\<rparr>
       (idempotency_keys db)\<rparr>))"

definition idempotency_Resolve :: "faults \<Rightarrow> string \<Rightarrow> string \<Rightarrow> string \<Rightarrow> string serving_tx" where
  "idempotency_Resolve flt tenant key rtype = srv_sql flt ''resolve idempotency key'' [] (fetch (\<lambda>db.
     map_option ik_ResourceID (tbl_find (\<lambda>r. (ik_TenantID r, ik_Key r, ik_ResourceType r)) (tenant, key, rtype)
       (idempotency_keys db))) (ErrNotFound ''resolve idempotency key''))"

section \<open>The service (catalog.go, deployment.go)\<close>

definition svc_CreateModel :: "faults \<Rightarrow> int \<Rightarrow> string \<Rightarrow> Model \<Rightarrow> Model serving_tx" where
  "svc_CreateModel flt now newid m0 =
    (let m = m0\<lparr>m_ID := newid, m_Status := ''ACTIVE'', m_CreatedAt := now\<rparr>
     in tx_bind (model_Create flt m) (\<lambda>_. tx_return m))"

definition svc_ListModelsReady :: "faults \<Rightarrow> (string \<Rightarrow> string \<Rightarrow> bool) \<Rightarrow> string \<Rightarrow> Model list serving_tx" where
  "svc_ListModelsReady flt le tenant =
     tx_bind (deployment_ListReadyModelNames flt le tenant) (\<lambda>names.
     tx_bind (model_List flt le) (\<lambda>ms.
     tx_return (filter (\<lambda>m. List.member names (m_Name m)) ms)))"

definition svc_CreateModelVersion :: "faults \<Rightarrow> int \<Rightarrow> string \<Rightarrow> ModelVersion \<Rightarrow> ModelVersion serving_tx" where
  "svc_CreateModelVersion flt now newid mv0 =
    (let mv = mv0\<lparr>mv_ID := newid, mv_Status := ''ACTIVE'', mv_CreatedAt := now,
       mv_Metadata := Some (case mv_Metadata mv0 of None \<Rightarrow> [] | Some x \<Rightarrow> x)\<rparr>
     in tx_bind (model_CreateVersion flt mv) (\<lambda>_. tx_return mv))"

definition svc_CreateTemplate :: "faults \<Rightarrow> int \<Rightarrow> string \<Rightarrow> ServingTemplate \<Rightarrow> ServingTemplate serving_tx" where
  "svc_CreateTemplate flt now newid t0 =
    (let t = t0\<lparr>st_ID := newid, st_Status := ''ACTIVE'', st_CreatedAt := now\<rparr>
     in tx_bind (template_Create flt t) (\<lambda>_. tx_return t))"

definition svc_CreateTemplateVersion :: "faults \<Rightarrow> int \<Rightarrow> string \<Rightarrow> TemplateVersion \<Rightarrow> TemplateVersion serving_tx" where
  "svc_CreateTemplateVersion flt now newid tv0 =
    (let tv = tv0\<lparr>tv_ID := newid, tv_CreatedAt := now,
       tv_Command := Some (case tv_Command tv0 of None \<Rightarrow> [] | Some x \<Rightarrow> x),
       tv_Environment := Some (case tv_Environment tv0 of None \<Rightarrow> [] | Some x \<Rightarrow> x),
       tv_ConfigSchema := Some (case tv_ConfigSchema tv0 of None \<Rightarrow> [] | Some x \<Rightarrow> x)\<rparr>
     in tx_bind (template_CreateVersion flt tv) (\<lambda>_. tx_return tv))"

definition svc_CreateDeployment :: "faults \<Rightarrow> int \<Rightarrow> string \<Rightarrow> Deployment \<Rightarrow> Deployment serving_tx" where
  "svc_CreateDeployment flt now newid d =
     deployment_Create flt now (d\<lparr>d_ID := newid, d_Status := DeploymentPending\<rparr>)"

definition deployment_payload :: "Deployment \<Rightarrow> string \<Rightarrow> (string \<times> json) list" where
  "deployment_payload d createdBy =
    [(''name'', JStr (d_Name d)), (''region'', JStr (d_Region d)),
     (''desired_replicas'', JNum (d_DesiredReplicas d)), (''model_version_id'', JStr (d_ModelVersionID d)),
     (''template_version_id'', JStr (d_TemplateVersionID d)), (''created_by'', JStr createdBy)]"

text \<open>The fresh ids of one request: deployment, event, trace, outbox row, idempotency row.\<close>

record fresh_ids =
  f_dep :: string
  f_ev :: string
  f_trace :: string
  f_out :: string
  f_idem :: string

definition svc_CreateDeploymentWithEvent ::
  "faults \<Rightarrow> int \<Rightarrow> fresh_ids \<Rightarrow> Deployment \<Rightarrow> string \<Rightarrow> Deployment serving_tx" where
  "svc_CreateDeploymentWithEvent flt now ids d0 createdBy =
    (let d = d0\<lparr>d_ID := f_dep ids, d_Status := DeploymentPending\<rparr>;
         ev = NewEvent (f_ev ids) (f_trace ids) now TypeDeploymentCreated (d_TenantID d) (d_ID d)
                (deployment_payload d createdBy)
     in deployment_CreateWithEvent flt now (f_out ids) d TopicDeploymentEvents ev)"

text \<open>\<open>TransitionDeployment\<close>: read, check, write; three separate moments without a lock.\<close>

definition svc_TransitionDeployment ::
  "faults \<Rightarrow> int \<Rightarrow> string \<Rightarrow> string \<Rightarrow> deployment_status \<Rightarrow> Deployment serving_tx" where
  "svc_TransitionDeployment flt now k did to_st =
     tx_bind (deployment_Get flt k did) (\<lambda>d.
     if \<not> CanTransition (d_Status d) to_st then tx_fail (ErrInvalidTransition (d_Status d) to_st)
     else tx_bind (deployment_UpdateStatus flt k now did to_st) (\<lambda>_.
       tx_return (d\<lparr>d_Status := to_st, d_UpdatedAt := now\<rparr>)))"

definition svc_CreateEndpoint :: "faults \<Rightarrow> int \<Rightarrow> string \<Rightarrow> string \<Rightarrow> string \<Rightarrow> string \<Rightarrow> Endpoint serving_tx" where
  "svc_CreateEndpoint flt now newid did path protocol =
    (let e = \<lparr>ep_ID = newid, ep_DeploymentID = did, ep_Path = path, ep_Protocol = protocol,
              ep_Status = ''ACTIVE'', ep_CreatedAt = now\<rparr>
     in tx_bind (deployment_CreateEndpoint flt e) (\<lambda>_. tx_return e))"

section \<open>Handlers (handlers.go)\<close>

fun status_text :: "deployment_status \<Rightarrow> string" where
  "status_text DeploymentPending = ''PENDING''"
| "status_text DeploymentProvisioning = ''PROVISIONING''"
| "status_text DeploymentStarting = ''STARTING''"
| "status_text DeploymentReady = ''READY''"
| "status_text DeploymentDegraded = ''DEGRADED''"
| "status_text DeploymentStopping = ''STOPPING''"
| "status_text DeploymentStopped = ''STOPPED''"
| "status_text DeploymentFailed = ''FAILED''"

definition serving_message :: "serving_error \<Rightarrow> string" where
  "serving_message e = (case e of ErrNotFound t \<Rightarrow> t
    | ErrInvalidTransition a b \<Rightarrow>
        ''invalid deployment state transition: '' @ status_text a @ '' -> '' @ status_text b
    | ServingDB t \<Rightarrow> t)"

definition serving_json :: "int \<Rightarrow> serving_error + 'a \<Rightarrow> 'a response" where
  "serving_json status r = (case r of
      Inl e \<Rightarrow> WriteAPIError StatusInternalServerError ''INTERNAL_ERROR'' (serving_message e)
    | Inr x \<Rightarrow> WriteJSON status x)"

text \<open>The four creations share their shape: bind, create, answer 201.\<close>

definition create_handler ::
  "('b \<Rightarrow> 'a serving_tx) \<Rightarrow> 'b option \<Rightarrow> serving_db \<Rightarrow> 'a response \<times> serving_db" where
  "create_handler create body db = (case body of
      None \<Rightarrow> (WriteAPIError StatusBadRequest ''INVALID_REQUEST'' ''invalid body'', db)
    | Some x \<Rightarrow> (case create x db of (out, db') \<Rightarrow> (serving_json StatusCreated out, db')))"

definition handleCreateModel where
  "handleCreateModel flt now newid = create_handler (svc_CreateModel flt now newid)"

definition handleCreateModelVersion where
  "handleCreateModelVersion flt now newid mid =
     create_handler (\<lambda>mv. svc_CreateModelVersion flt now newid (mv\<lparr>mv_ModelID := mid\<rparr>))"

definition handleCreateTemplate where
  "handleCreateTemplate flt now newid = create_handler (svc_CreateTemplate flt now newid)"

definition handleCreateTemplateVersion where
  "handleCreateTemplateVersion flt now newid tid =
     create_handler (\<lambda>tv. svc_CreateTemplateVersion flt now newid (tv\<lparr>tv_TemplateID := tid\<rparr>))"

definition handleListModels ::
  "faults \<Rightarrow> (string \<Rightarrow> string \<Rightarrow> bool) \<Rightarrow> string \<Rightarrow> string \<Rightarrow> serving_db \<Rightarrow> Model list response" where
  "handleListModels flt le tenant ready db =
    serving_json StatusOK (fst ((if ready = ''true'' then svc_ListModelsReady flt le tenant else model_List flt le) db))"

definition handleGetModel :: "faults \<Rightarrow> string \<Rightarrow> serving_db \<Rightarrow> Model response" where
  "handleGetModel flt mid db =
    (if mid = [] then WriteAPIError StatusBadRequest ''INVALID_REQUEST'' ''id required''
     else case fst (model_Get flt mid db) of
       Inl e \<Rightarrow> WriteAPIError StatusNotFound ''RESOURCE_NOT_FOUND'' ''model not found''
     | Inr m \<Rightarrow> WriteJSON StatusOK m)"

definition handleListModelVersions :: "faults \<Rightarrow> string \<Rightarrow> serving_db \<Rightarrow> ModelVersion list response" where
  "handleListModelVersions flt mid db = serving_json StatusOK (fst (model_ListVersions flt mid db))"

definition handleListTemplates :: "faults \<Rightarrow> (string \<Rightarrow> string \<Rightarrow> bool) \<Rightarrow> serving_db \<Rightarrow> ServingTemplate list response" where
  "handleListTemplates flt le db = serving_json StatusOK (fst (template_List flt le db))"

definition handleGetTemplate :: "faults \<Rightarrow> string \<Rightarrow> serving_db \<Rightarrow> ServingTemplate response" where
  "handleGetTemplate flt tid db = (case fst (template_Get flt tid db) of
      Inl e \<Rightarrow> WriteAPIError StatusNotFound ''RESOURCE_NOT_FOUND'' ''template not found''
    | Inr t \<Rightarrow> WriteJSON StatusOK t)"

definition handleListTemplateVersions :: "faults \<Rightarrow> string \<Rightarrow> serving_db \<Rightarrow> TemplateVersion list response" where
  "handleListTemplateVersions flt tid db = serving_json StatusOK (fst (template_ListVersions flt tid db))"

text \<open>The deployment a key stands for, if both lookups succeed (any failure means: create).\<close>

definition replayed :: "faults \<Rightarrow> string \<Rightarrow> string \<Rightarrow> serving_db \<Rightarrow> Deployment option" where
  "replayed flt tenant key db =
    (if key = [] then None
     else case fst (idempotency_Resolve flt tenant key ''deployment'' db) of
       Inl _ \<Rightarrow> None
     | Inr did \<Rightarrow> (case fst (deployment_Get flt ''replay'' did db) of Inl _ \<Rightarrow> None | Inr d \<Rightarrow> Some d))"

definition handleCreateDeployment ::
  "faults \<Rightarrow> int \<Rightarrow> fresh_ids \<Rightarrow> string \<Rightarrow> string \<Rightarrow> Deployment option \<Rightarrow> string \<Rightarrow> serving_db \<Rightarrow>
   Deployment response \<times> serving_db" where
  "handleCreateDeployment flt now ids tenant user body key db = (case body of
      None \<Rightarrow> (WriteAPIError StatusBadRequest ''INVALID_REQUEST'' ''invalid body'', db)
    | Some d \<Rightarrow> (case replayed flt tenant key db of
        Some existing \<Rightarrow> (WriteJSON StatusOK existing, db)
      | None \<Rightarrow> (case svc_CreateDeploymentWithEvent flt now ids (d\<lparr>d_TenantID := tenant\<rparr>) user db of
          (Inl e, db') \<Rightarrow> (WriteAPIError StatusInternalServerError ''INTERNAL_ERROR'' (serving_message e), db')
        | (Inr created, db') \<Rightarrow>
            (WriteJSON StatusAccepted created,
             if key = [] then db' else snd (idempotency_Save flt (f_idem ids) tenant key ''deployment'' (d_ID created) db')))))"

definition handleListDeployments :: "faults \<Rightarrow> string \<Rightarrow> serving_db \<Rightarrow> Deployment list response" where
  "handleListDeployments flt tenant db = serving_json StatusOK (fst (deployment_List flt tenant db))"

text \<open>The three routes below a deployment id answer 404 for another tenant's deployment.\<close>

definition own_deployment :: "faults \<Rightarrow> string \<Rightarrow> string \<Rightarrow> serving_db \<Rightarrow> Deployment option" where
  "own_deployment flt tenant did db = (case fst (deployment_Get flt [] did db) of
      Inl _ \<Rightarrow> None | Inr d \<Rightarrow> if d_TenantID d \<noteq> tenant then None else Some d)"

definition no_deployment :: "'a response" where
  "no_deployment = WriteAPIError StatusNotFound ''RESOURCE_NOT_FOUND'' ''deployment not found''"

definition handleDeploymentByID :: "faults \<Rightarrow> string \<Rightarrow> string \<Rightarrow> serving_db \<Rightarrow> Deployment response" where
  "handleDeploymentByID flt tenant did db = (case own_deployment flt tenant did db of
      None \<Rightarrow> no_deployment | Some d \<Rightarrow> WriteJSON StatusOK d)"

definition handleDeploymentRevisions :: "faults \<Rightarrow> string \<Rightarrow> string \<Rightarrow> serving_db \<Rightarrow> revisionRow list response" where
  "handleDeploymentRevisions flt tenant did db = (case own_deployment flt tenant did db of
      None \<Rightarrow> no_deployment | Some d \<Rightarrow> serving_json StatusOK (fst (deployment_ListRevisions flt did db)))"

definition handleDeploymentAction ::
  "faults \<Rightarrow> int \<Rightarrow> fresh_ids \<Rightarrow> string \<Rightarrow> string \<Rightarrow> string \<Rightarrow> string \<Rightarrow> serving_db \<Rightarrow> Deployment response \<times> serving_db" where
  "handleDeploymentAction flt now ids tenant user did action db = (case own_deployment flt tenant did db of
      None \<Rightarrow> (no_deployment, db)
    | Some d \<Rightarrow>
        (let enqueue = (\<lambda>etype payload.
           case EnqueueTx ServingDB flt (f_out ids) now TopicDeploymentEvents
                  (NewEvent (f_ev ids) (f_trace ids) now etype tenant did payload) db of
             (Inl e, db') \<Rightarrow> (WriteAPIError StatusServiceUnavailable ''EVENT_PUBLISH_FAILED'' (serving_message e), db')
           | (Inr _, db') \<Rightarrow> (WriteJSON StatusAccepted d, db')) in
         if action = ''start'' then enqueue TypeDeploymentCreated (deployment_payload d user)
         else if action = ''stop'' then enqueue TypeDeploymentStopRequested []
         else (WriteAPIError StatusBadRequest ''INVALID_REQUEST'' (''unknown action '' @ action), db)))"

end
