(* ===== verification/ServingWorker.thy ===== *)
theory ServingWorker
  imports Serving CircuitBreaker Retry
begin

text \<open>
  The deployment worker (\<open>serving/worker.go\<close>) over its two runtime interfaces (\<open>runtime.go\<close>): the
  event handlers, one definition per block of \<open>onCreated\<close>, each a computation that either goes on or
  returns from the handler with an error text or nil; and the two implementations the server is
  composed with, \<open>WorkerAdapter\<close> and \<open>MockComputeProvider\<close>, as instances of the interfaces.
\<close>

section \<open>The runtime interfaces\<close>

text \<open>
  The methods the worker calls. The state \<open>'c\<close> of the runtime is threaded through; an outcome that is
  retried is an \<open>attempt\<close>. \<open>RequestCapacity\<close> returns a reference beside its error.
\<close>

record 'c runtime =
  rt_Start :: "Deployment \<Rightarrow> 'c \<Rightarrow> string attempt \<times> 'c"
  rt_Stop :: "Deployment \<Rightarrow> 'c \<Rightarrow> string option \<times> 'c"
  rt_RequestCapacity :: "Deployment \<Rightarrow> 'c \<Rightarrow> (string \<times> string attempt) \<times> 'c"
  rt_ReleaseCapacity :: "Deployment \<Rightarrow> 'c \<Rightarrow> string option \<times> 'c"

text \<open>\<open>WorkerAdapter\<close>: the lifecycle calls validate the specification (\<open>worker\_adapter.go\<close>).\<close>

definition adapter_validate :: "Deployment \<Rightarrow> string option" where
  "adapter_validate d =
    (if d_ModelVersionID d = [] \<or> d_TemplateVersionID d = [] \<or> d_DesiredReplicas d < 1
     then Some ''invalid deployment spec: model_version_id, template_version_id, desired_replicas>=1 required''
     else None)"

definition adapter_Create :: "Deployment \<Rightarrow> string option" where "adapter_Create d = adapter_validate d"
definition adapter_Start :: "Deployment \<Rightarrow> string option" where "adapter_Start d = adapter_validate d"
definition adapter_Stop :: "Deployment \<Rightarrow> string option" where "adapter_Stop d = adapter_validate d"
definition adapter_Restart :: "Deployment \<Rightarrow> string option" where "adapter_Restart d = adapter_validate d"
definition adapter_Delete :: "Deployment \<Rightarrow> string option" where "adapter_Delete d = None"
definition adapter_GetStatus :: "Deployment \<Rightarrow> deployment_status" where "adapter_GetStatus d = d_Status d"

text \<open>\<open>HealthCheck\<close> over the error of the TCP dial.\<close>

definition adapter_HealthCheck :: "string option \<Rightarrow> string \<Rightarrow> string option" where
  "adapter_HealthCheck dial workerAddr = (case dial of
      None \<Rightarrow> None | Some err \<Rightarrow> Some (''worker unreachable at '' @ workerAddr @ '': '' @ err))"

text \<open>\<open>MockComputeProvider\<close>: a workload reference per deployment in memory (\<open>mock.go\<close>).\<close>

type_synonym workloads = "string \<rightharpoonup> string"

definition workload_ref :: "string \<Rightarrow> string" where
  "workload_ref did = ''mock-wl-'' @ did"

definition mock_RequestCapacity :: "Deployment \<Rightarrow> workloads \<Rightarrow> string \<times> workloads" where
  "mock_RequestCapacity d m = (workload_ref (d_ID d), m(d_ID d \<mapsto> workload_ref (d_ID d)))"

definition mock_ReleaseCapacity :: "Deployment \<Rightarrow> workloads \<Rightarrow> string option \<times> workloads" where
  "mock_ReleaseCapacity d m = (None, m(d_ID d := None))"

definition mock_GetWorkloadStatus :: "Deployment \<Rightarrow> workloads \<Rightarrow> string + string" where
  "mock_GetWorkloadStatus d m = (case m (d_ID d) of
      None \<Rightarrow> Inl (''no workload for deployment '' @ d_ID d) | Some _ \<Rightarrow> Inr ''RUNNING'')"

definition mock_UpdateWorkload :: "Deployment \<Rightarrow> string option" where
  "mock_UpdateWorkload d = None"

definition to_attempt :: "'e option \<Rightarrow> 'e attempt" where
  "to_attempt r = (case r of None \<Rightarrow> AttemptOk | Some e \<Rightarrow> AttemptErr e)"

text \<open>The runtime of the composition root.\<close>

definition mock_runtime :: "workloads runtime" where
  "mock_runtime =
    \<lparr>rt_Start = (\<lambda>d m. (to_attempt (adapter_Start d), m)),
     rt_Stop = (\<lambda>d m. (adapter_Stop d, m)),
     rt_RequestCapacity = (\<lambda>d m. case mock_RequestCapacity d m of (ref, m') \<Rightarrow> ((ref, AttemptOk), m')),
     rt_ReleaseCapacity = mock_ReleaseCapacity\<rparr>"

section \<open>The worker\<close>

text \<open>
  What one run of a handler meets: failing statements, the time, the clock of the breaker and the
  context at each probe (by the probe's name), the retry's random draws and sleeps, fresh identifiers,
  and the outcome of the publication.
\<close>

record worker_env =
  e_flt :: faults
  e_now :: int
  e_t0 :: "string \<Rightarrow> int"
  e_t1 :: "string \<Rightarrow> int"
  e_ctx :: "string \<Rightarrow> string option"
  e_rnd :: "string \<Rightarrow> int \<Rightarrow> int \<Rightarrow> int"
  e_slept :: "string \<Rightarrow> int \<Rightarrow> bool"
  e_rev :: string
  e_ep :: string
  e_evid :: string
  e_trace :: string
  e_publish :: "string option"

record 'c world =
  w_db :: serving_db
  w_cb :: CircuitBreaker
  w_runtime :: 'c
  w_pub :: "Event list"

type_synonym ('c, 'a) worker = "('c world, string option, 'a) tx"

abbreviation second :: int where "second \<equiv> 1000000000"

definition worker_breaker :: CircuitBreaker where
  "worker_breaker = cb_New 3 (30 * second)"

definition retry_options :: RetryOptions where
  "retry_options = \<lparr>ro_Attempts = 3, ro_InitialDelay = 50000000\<rparr>"

text \<open>A store operation on the database of the world.\<close>

definition on_db :: "'a serving_tx \<Rightarrow> 'c world \<Rightarrow> (serving_error + 'a) \<times> 'c world" where
  "on_db m w = (case m (w_db w) of (r, db) \<Rightarrow> (r, w\<lparr>w_db := db\<rparr>))"

text \<open>\<open>if err != nil { return fmt.Errorf(text, err) }\<close>\<close>

definition or_return :: "string \<Rightarrow> 'a serving_tx \<Rightarrow> ('c, 'a) worker" where
  "or_return pre m w = (case on_db m w of
      (Inl e, w') \<Rightarrow> (Inl (Some (pre @ serving_message e)), w') | (Inr x, w') \<Rightarrow> (Inr x, w'))"

definition worker_publish :: "worker_env \<Rightarrow> Event \<Rightarrow> 'c world \<Rightarrow> string option \<times> 'c world" where
  "worker_publish e ev w = (case e_publish e of
      Some err \<Rightarrow> (Some err, w) | None \<Rightarrow> (None, w\<lparr>w_pub := w_pub w @ [ev]\<rparr>))"

definition worker_event :: "worker_env \<Rightarrow> string \<Rightarrow> Deployment \<Rightarrow> (string \<times> json) list \<Rightarrow> Event" where
  "worker_event e etype d payload =
    NewEvent (e_evid e) (e_trace e) (e_now e) etype (d_TenantID d) (d_ID d) payload"

definition transition ::
  "worker_env \<Rightarrow> string \<Rightarrow> deployment_status \<Rightarrow> Deployment serving_tx" where
  "transition e did to_st = svc_TransitionDeployment (e_flt e) (e_now e) (status_text to_st) did to_st"

text \<open>\<open>fail\<close>: release, mark FAILED (a transition that is not allowed is ignored), publish.\<close>

definition worker_fail ::
  "'c runtime \<Rightarrow> worker_env \<Rightarrow> Deployment \<Rightarrow> string \<Rightarrow> 'c world \<Rightarrow> string option \<times> 'c world" where
  "worker_fail rt e d cause w =
    (let w1 = w\<lparr>w_runtime := snd (rt_ReleaseCapacity rt d (w_runtime w))\<rparr>;
         ev = worker_event e TypeDeploymentFailed d [(''error'', JStr cause)]
     in case on_db (transition e (d_ID d) DeploymentFailed) w1 of
          (Inl (ErrInvalidTransition a b), w2) \<Rightarrow> worker_publish e ev w2
        | (Inl err, w2) \<Rightarrow> (Some (''mark failed: '' @ serving_message err), w2)
        | (Inr _, w2) \<Rightarrow> worker_publish e ev w2)"

text \<open>\<open>if err != nil { return w.fail(ctx, d, err) }\<close>\<close>

definition return_fail ::
  "'c runtime \<Rightarrow> worker_env \<Rightarrow> Deployment \<Rightarrow> string \<Rightarrow> ('c, 'a) worker" where
  "return_fail rt e d cause w = (case worker_fail rt e d cause w of (r, w') \<Rightarrow> (Inl r, w'))"

definition or_fail ::
  "'c runtime \<Rightarrow> worker_env \<Rightarrow> Deployment \<Rightarrow> string \<Rightarrow> 'a serving_tx \<Rightarrow> ('c, 'a) worker" where
  "or_fail rt e d pre m w = (case on_db m w of
      (Inl err, w') \<Rightarrow> return_fail rt e d (pre @ serving_message err) w' | (Inr x, w') \<Rightarrow> (Inr x, w'))"

text \<open>
  \<open>cbProbe\<close>: the retried function inside the breaker. It runs on the runtime state and the variable
  \<open>ref\<close> it assigns. The panic of the retry's random draw cannot occur with these options
  (\<open>probe\_never\_panics\<close>).
\<close>

definition runProvision ::
  "worker_env \<Rightarrow> string \<Rightarrow> ('v \<Rightarrow> string attempt \<times> 'v) \<Rightarrow> 'v \<Rightarrow> string option \<times> 'v" where
  "runProvision e name fn v = (case retry_Do retry_options (e_rnd e name) (e_slept e name) fn v of
      (RetryOk, _, v') \<Rightarrow> (None, v')
    | (RetryErr err, _, v') \<Rightarrow> (Some err, v')
    | (RetryCtxErr, _, v') \<Rightarrow> (Some ''context canceled'', v')
    | (RetryPanic, _, v') \<Rightarrow> (Some ''panic'', v'))"

definition call_text :: "string call_error \<Rightarrow> string" where
  "call_text err = (case err of ErrOpen \<Rightarrow> ''circuit breaker open'' | CtxErr t \<Rightarrow> t | FnErr t \<Rightarrow> t)"

definition cbProbe ::
  "worker_env \<Rightarrow> string \<Rightarrow> ('c \<times> string \<Rightarrow> string attempt \<times> 'c \<times> string) \<Rightarrow> string \<Rightarrow> 'c world \<Rightarrow>
   string option \<times> string \<times> 'c world" where
  "cbProbe e name fn ref w =
    (case cb_Call (e_t0 e name) (e_t1 e name) (e_ctx e name) (runProvision e name fn) (w_cb w) (w_runtime w, ref) of
       (err, cb, c, ref') \<Rightarrow> (map_option call_text err, ref', w\<lparr>w_cb := cb, w_runtime := c\<rparr>))"

definition or_fail_probe ::
  "'c runtime \<Rightarrow> worker_env \<Rightarrow> Deployment \<Rightarrow> string \<Rightarrow> string \<Rightarrow>
   ('c \<times> string \<Rightarrow> string attempt \<times> 'c \<times> string) \<Rightarrow> string \<Rightarrow> ('c, string) worker" where
  "or_fail_probe rt e d name pre fn ref w = (case cbProbe e name fn ref w of
      (Some err, _, w') \<Rightarrow> return_fail rt e d (pre @ err) w' | (None, ref', w') \<Rightarrow> (Inr ref', w'))"

definition call_RequestCapacity :: "'c runtime \<Rightarrow> Deployment \<Rightarrow> 'c \<times> string \<Rightarrow> string attempt \<times> 'c \<times> string" where
  "call_RequestCapacity rt d v = (case rt_RequestCapacity rt d (fst v) of ((ref, a), c) \<Rightarrow> (a, c, ref))"

definition call_Start :: "'c runtime \<Rightarrow> Deployment \<Rightarrow> 'c \<times> string \<Rightarrow> string attempt \<times> 'c \<times> string" where
  "call_Start rt d v = (case rt_Start rt d (fst v) of (a, c) \<Rightarrow> (a, c, snd v))"

definition specMap :: "Deployment \<Rightarrow> (string \<times> json) list" where
  "specMap d = [(''name'', JStr (d_Name d)), (''region'', JStr (d_Region d)),
    (''desired_replicas'', JNum (d_DesiredReplicas d)), (''model_version_id'', JStr (d_ModelVersionID d)),
    (''template_version_id'', JStr (d_TemplateVersionID d))]"

definition endpointPath :: "string \<Rightarrow> string" where
  "endpointPath did = ''/v1/chat/completions/'' @ did"

text \<open>The blocks of \<open>onCreated\<close>, on the deployment as the handler holds it.\<close>

definition restart_block :: "worker_env \<Rightarrow> Deployment \<Rightarrow> ('c, Deployment) worker" where
  "restart_block e d =
    (if d_Status d = DeploymentStopped
     then tx_bind (or_return ''restart to pending: '' (transition e (d_ID d) DeploymentPending))
            (\<lambda>_. tx_return (d\<lparr>d_Status := DeploymentPending\<rparr>))
     else tx_return d)"

definition pending_block :: "'c runtime \<Rightarrow> worker_env \<Rightarrow> string \<Rightarrow> Deployment \<Rightarrow> ('c, Deployment) worker" where
  "pending_block rt e createdBy d =
    (if d_Status d = DeploymentPending
     then tx_bind (or_return ''create revision: ''
            (deployment_CreateRevision (e_flt e) (e_now e) (e_rev e) (d_ID d) (specMap d) createdBy)) (\<lambda>_.
          tx_bind (or_fail rt e d [] (transition e (d_ID d) DeploymentProvisioning)) (\<lambda>_.
          tx_return (d\<lparr>d_Status := DeploymentProvisioning\<rparr>)))
     else tx_return d)"

definition provisioning_block ::
  "'c runtime \<Rightarrow> worker_env \<Rightarrow> string \<Rightarrow> Deployment \<Rightarrow> ('c, string \<times> Deployment) worker" where
  "provisioning_block rt e ref d =
    (if d_Status d = DeploymentProvisioning
     then tx_bind (or_fail_probe rt e d ''capacity'' ''request capacity: '' (call_RequestCapacity rt d) ref) (\<lambda>ref'.
          tx_bind (or_fail rt e d ''set workload ref: ''
            (deployment_SetWorkloadRef (e_flt e) (e_now e) (d_ID d) ref')) (\<lambda>_.
          tx_bind (or_fail rt e d [] (transition e (d_ID d) DeploymentStarting)) (\<lambda>_.
          tx_return (ref', d\<lparr>d_Status := DeploymentStarting\<rparr>))))
     else tx_return (ref, d))"

text \<open>The two last blocks: the handler's copy keeps its status, so at most one of them runs.\<close>

definition starting_block :: "'c runtime \<Rightarrow> worker_env \<Rightarrow> Deployment \<Rightarrow> ('c, unit) worker" where
  "starting_block rt e d =
    (if d_Status d = DeploymentStarting
     then tx_bind (or_fail_probe rt e d ''start'' ''adapter start: '' (call_Start rt d) []) (\<lambda>_.
          tx_bind (or_fail rt e d [] (transition e (d_ID d) DeploymentReady)) (\<lambda>_.
          tx_return ()))
     else tx_return ())"

definition degraded_block :: "'c runtime \<Rightarrow> worker_env \<Rightarrow> Deployment \<Rightarrow> ('c, unit) worker" where
  "degraded_block rt e d =
    (if d_Status d = DeploymentDegraded
     then tx_bind (or_fail rt e d [] (transition e (d_ID d) DeploymentReady)) (\<lambda>_. tx_return ())
     else tx_return ())"

definition announce_ready :: "worker_env \<Rightarrow> Deployment \<Rightarrow> string \<Rightarrow> 'c world \<Rightarrow> string option \<times> 'c world" where
  "announce_ready e d ref w =
    worker_publish e (worker_event e TypeDeploymentReady d [(''workload_ref'', JStr ref)])
      (snd (on_db (svc_CreateEndpoint (e_flt e) (e_now e) (e_ep e) (d_ID d) (endpointPath (d_ID d)) ''openai'') w))"

definition created_blocks ::
  "'c runtime \<Rightarrow> worker_env \<Rightarrow> string \<Rightarrow> Deployment \<Rightarrow> ('c, string \<times> Deployment) worker" where
  "created_blocks rt e createdBy d =
     tx_bind (restart_block e d) (\<lambda>d1.
     tx_bind (pending_block rt e createdBy d1) (\<lambda>d2.
     tx_bind (provisioning_block rt e (d_WorkloadRef d) d2) (\<lambda>(ref, d3).
     tx_bind (starting_block rt e d3) (\<lambda>_.
     tx_bind (degraded_block rt e d3) (\<lambda>_.
     tx_return (ref, d3))))))"

definition onCreated :: "'c runtime \<Rightarrow> worker_env \<Rightarrow> Event \<Rightarrow> 'c world \<Rightarrow> string option \<times> 'c world" where
  "onCreated rt e ev w =
    (case on_db (deployment_Get (e_flt e) ''load'' (ev_ResourceID ev)) w of
       (Inl err, w') \<Rightarrow> (Some (''get deployment '' @ ev_ResourceID ev @ '': '' @ serving_message err), w')
     | (Inr d, w') \<Rightarrow>
         if d_Status d \<in> {DeploymentReady, DeploymentFailed, DeploymentStopping} then (None, w')
         else (case created_blocks rt e (payload_string ''created_by'' (ev_Payload ev)) d w' of
            (Inl r, w'') \<Rightarrow> (r, w'')
          | (Inr (ref, d3), w'') \<Rightarrow> announce_ready e d3 ref w''))"

definition onStop :: "'c runtime \<Rightarrow> worker_env \<Rightarrow> Event \<Rightarrow> 'c world \<Rightarrow> string option \<times> 'c world" where
  "onStop rt e ev w =
    (case on_db (deployment_Get (e_flt e) ''load'' (ev_ResourceID ev)) w of
       (Inl err, w1) \<Rightarrow> (Some (''get deployment '' @ ev_ResourceID ev @ '': '' @ serving_message err), w1)
     | (Inr d, w1) \<Rightarrow>
         if d_Status d = DeploymentStopped \<or> d_Status d = DeploymentStopping then (None, w1)
         else (case on_db (transition e (d_ID d) DeploymentStopping) w1 of
            (Inl (ErrInvalidTransition a b), w2) \<Rightarrow> (None, w2)
          | (Inl err, w2) \<Rightarrow> (Some (''transition to stopping: '' @ serving_message err), w2)
          | (Inr _, w2) \<Rightarrow> (case rt_Stop rt d (w_runtime w2) of
                (Some err, c) \<Rightarrow> worker_fail rt e d (''adapter stop: '' @ err) (w2\<lparr>w_runtime := c\<rparr>)
              | (None, c) \<Rightarrow> (case on_db (transition e (d_ID d) DeploymentStopped) (w2\<lparr>w_runtime := c\<rparr>) of
                    (Inl err, w3) \<Rightarrow> worker_fail rt e d (serving_message err) w3
                  | (Inr _, w3) \<Rightarrow>
                      worker_publish e (worker_event e TypeDeploymentStopped d [])
                        (w3\<lparr>w_runtime := snd (rt_ReleaseCapacity rt d (w_runtime w3))\<rparr>)))))"

definition worker_handle :: "'c runtime \<Rightarrow> worker_env \<Rightarrow> Event \<Rightarrow> 'c world \<Rightarrow> string option \<times> 'c world" where
  "worker_handle rt e ev w =
    (if ev_Type ev = TypeDeploymentCreated then onCreated rt e ev w
     else if ev_Type ev = TypeDeploymentStopRequested then onStop rt e ev w
     else (None, w))"

text \<open>A sequence of deliveries, each in its own environment (redeliveries are repeated events).\<close>

definition worker_run :: "'c runtime \<Rightarrow> (worker_env \<times> Event) list \<Rightarrow> 'c world \<Rightarrow> 'c world" where
  "worker_run rt evs w = fold (\<lambda>(e, ev) s. snd (worker_handle rt e ev s)) evs w"

end
