(* ===== verification/ServingProofs.thy ===== *)
theory ServingProofs
  imports ServingWorker
begin

text \<open>
  Properties of deployments: along every run of the worker the status of a deployment follows the
  state machine, what a deployment has in each state, a healthy delivery brings every resumable
  deployment to READY, an open breaker fails fast, and which stops are lost. A locale carries a
  relation on databases from the statements of the worker to its handlers.
\<close>

section \<open>Statements of the worker\<close>

abbreviation dep :: "string \<Rightarrow> serving_db \<Rightarrow> Deployment option" where
  "dep did db \<equiv> tbl_find d_ID did (deployments db)"

abbreviation stamp :: "deployment_status \<Rightarrow> int \<Rightarrow> Deployment \<Rightarrow> Deployment" where
  "stamp st now d \<equiv> d\<lparr>d_Status := st, d_UpdatedAt := now\<rparr>"

lemma set_deployment_simps [simp]:
  "outbox (set_deployment did f db) = outbox db" "models (set_deployment did f db) = models db"
  "revisions (set_deployment did f db) = revisions db" "endpoints (set_deployment did f db) = endpoints db"
  "deployments (set_deployment did f db) = tbl_update d_ID did f (deployments db)"
  by (simp_all add: set_deployment_def)

lemma transition_cases:
  obtains (refused) err where "transition e did st db = (Inl err, db)"
  | (moved) d where "dep did db = Some d" "CanTransition (d_Status d) st"
      "transition e did st db = (Inr (stamp st (e_now e) d), set_deployment did (stamp st (e_now e)) db)"
proof -
  have "(\<exists>err. transition e did st db = (Inl err, db)) \<or>
      (\<exists>d. dep did db = Some d \<and> CanTransition (d_Status d) st \<and> transition e did st db =
        (Inr (stamp st (e_now e) d), set_deployment did (stamp st (e_now e)) db))"
    unfolding transition_def svc_TransitionDeployment_def deployment_Get_def deployment_UpdateStatus_def
    by (cases "dep did db") (auto simp: tx_simps)
  with that show thesis by blast
qed

lemma transition_healthy:
  assumes "e_flt e = no_faults" "dep did db = Some d" "CanTransition (d_Status d) st"
  shows "transition e did st db = (Inr (stamp st (e_now e) d), set_deployment did (stamp st (e_now e)) db)"
  using assms by (simp add: transition_def svc_TransitionDeployment_def deployment_Get_def
      deployment_UpdateStatus_def tx_simps)

lemma transition_invalid:
  assumes "e_flt e = no_faults" "dep did db = Some d" "\<not> CanTransition (d_Status d) st"
  shows "transition e did st db = (Inl (ErrInvalidTransition (d_Status d) st), db)"
  using assms by (simp add: transition_def svc_TransitionDeployment_def deployment_Get_def tx_simps)

lemma dep_set_deployment:
  "(\<And>d. d_ID (f d) = d_ID d) \<Longrightarrow>
   dep k (set_deployment did f db) = (if k = did then map_option f (dep k db) else dep k db)"
  by (simp add: tbl_find_update)

lemma CreateRevision_cases:
  obtains (refused) err where "deployment_CreateRevision flt now rid did spec cb db = (Inl err, db)"
  | (made) "deployment_CreateRevision flt now rid did spec cb db =
      (let row = \<lparr>rv_ID = rid, rv_DeploymentID = did, rv_Revision = max_revision did db + 1, rv_Spec = spec,
                rv_CreatedAt = now, rv_CreatedBy = nullableUUID cb\<rparr>
       in (Inr row, db\<lparr>revisions := tbl_insert row (revisions db)\<rparr>))"
  unfolding deployment_CreateRevision_def
  by (cases "flt ''next revision'' []"; cases "flt ''insert revision'' []";
      cases "\<not> tbl_has rv_ID rid (revisions db) \<and> tbl_has d_ID did (deployments db)")
    (auto simp: tx_simps Let_def)

lemma SetWorkloadRef_cases:
  obtains (refused) err where "deployment_SetWorkloadRef flt now did ref db = (Inl err, db)"
  | (made) "deployment_SetWorkloadRef flt now did ref db =
      (Inr (), set_deployment did (\<lambda>d. d\<lparr>d_WorkloadRef := ref, d_UpdatedAt := now\<rparr>) db)"
  unfolding deployment_SetWorkloadRef_def by (cases "flt ''set workload ref'' []") (auto simp: tx_simps)

lemma CreateEndpoint_cases:
  obtains (refused) err where "svc_CreateEndpoint flt now eid did path proto db = (Inl err, db)"
  | (made) ep where "svc_CreateEndpoint flt now eid did path proto db =
      (Inr ep, db\<lparr>endpoints := tbl_insert ep (endpoints db)\<rparr>)"
      "ep = \<lparr>ep_ID = eid, ep_DeploymentID = did, ep_Path = path, ep_Protocol = proto,
              ep_Status = ''ACTIVE'', ep_CreatedAt = now\<rparr>"
  unfolding svc_CreateEndpoint_def deployment_CreateEndpoint_def
  by (cases "flt ''create endpoint'' []";
      cases "\<not> tbl_has ep_ID eid (endpoints db) \<and> tbl_has d_ID did (deployments db)")
    (auto simp: tx_simps Let_def)

section \<open>Relations every handler run respects\<close>

text \<open>
  A preorder on databases that the worker's settling statements and the two provisioning blocks
  respect holds between the databases before and after any handler run.
\<close>

locale worker_base =
  fixes rt :: "'c runtime" and R :: "serving_db \<Rightarrow> serving_db \<Rightarrow> bool"
  assumes refl: "R db db"
    and trans: "R a b \<Longrightarrow> R b c \<Longrightarrow> R a c"
    and settle: "st \<notin> {DeploymentProvisioning, DeploymentStarting} \<Longrightarrow> R db (snd (transition e did st db))"
    and endpoint: "R db (snd (svc_CreateEndpoint flt now eid did path proto db))"
begin

definition runs :: "('c, 'a) worker \<Rightarrow> bool" where
  "runs m \<longleftrightarrow> (\<forall>w. R (w_db w) (w_db (snd (m w))))"

lemma runs_bind: "runs m \<Longrightarrow> (\<And>x. runs (f x)) \<Longrightarrow> runs (tx_bind m f)"
  unfolding runs_def tx_bind_def
  by (smt (verit) prod.case_eq_if snd_conv sum.case_eq_if trans)

lemma runs_return [simp]: "runs (tx_return x)"
  by (simp add: runs_def tx_return_def refl)

lemma publish_db [simp]: "w_db (snd (worker_publish e ev w)) = w_db w"
  by (simp add: worker_publish_def split: option.splits)

lemma on_db_db [simp]: "w_db (snd (on_db m w)) = snd (m (w_db w))"
  by (simp add: on_db_def split: prod.splits)

lemma cbProbe_db [simp]: "cbProbe e name fn ref w = (err, ref', w') \<Longrightarrow> w_db w' = w_db w"
  by (auto simp: cbProbe_def split: prod.splits)

lemma fail_runs: "R (w_db w) (w_db (snd (worker_fail rt e d cause w)))"
proof -
  have "R (w_db w) (snd (transition e (d_ID d) DeploymentFailed (w_db w)))" by (rule settle) simp
  then show ?thesis
    by (auto simp: worker_fail_def on_db_def Let_def split: prod.splits sum.splits serving_error.splits)
qed

lemma return_fail_runs: "runs (return_fail rt e d cause)"
  using fail_runs by (simp add: runs_def return_fail_def split: prod.splits) (metis snd_conv)

lemma return_fail_R: "R (w_db w) (w_db (snd (return_fail rt e d cause w)))"
  using return_fail_runs unfolding runs_def by blast

lemma or_return_runs:
  "(\<And>db. R db (snd (m db))) \<Longrightarrow> runs (or_return pre m :: ('c, 'a) worker)"
  unfolding runs_def or_return_def on_db_def
  by (auto split: prod.splits sum.splits) (metis snd_conv)+

lemma or_fail_runs:
  assumes "\<And>db. R db (snd (m db))" shows "runs (or_fail rt e d pre m :: ('c, 'a) worker)"
  unfolding runs_def or_fail_def
proof
  fix w :: "'c world"
  obtain r w' where on: "on_db m w = (r, w')" by fastforce
  then have "R (w_db w) (w_db w')" using assms[of "w_db w"] on_db_db[of m w] by simp
  with on show "R (w_db w) (w_db (snd (case on_db m w of
      (Inl err, w') \<Rightarrow> return_fail rt e d (pre @ serving_message err) w' | (Inr x, w') \<Rightarrow> (Inr x, w'))))"
    using return_fail_runs[of e d] trans unfolding runs_def by (cases r) (auto, blast)
qed

lemma or_fail_probe_runs: "runs (or_fail_probe rt e d name pre fn ref)"
  unfolding runs_def or_fail_probe_def
proof
  fix w :: "'c world"
  obtain err ref' w' where p: "cbProbe e name fn ref w = (err, ref', w')" by (metis prod_cases3)
  show "R (w_db w) (w_db (snd (case cbProbe e name fn ref w of
      (Some err, _, w') \<Rightarrow> return_fail rt e d (pre @ err) w' | (None, ref', w') \<Rightarrow> (Inr ref', w'))))"
  proof (cases err)
    case None
    then show ?thesis using cbProbe_db[OF p] refl by (simp add: p)
  next
    case (Some t)
    have "R (w_db w') (w_db (snd ((return_fail rt e d (pre @ t) :: ('c, string) worker) w')))"
      using return_fail_runs unfolding runs_def by blast
    then show ?thesis using Some cbProbe_db[OF p] by (simp add: p)
  qed
qed

lemmas runs_blocks = or_return_runs or_fail_runs or_fail_probe_runs return_fail_runs

lemma created_blocks_run:
  "runs (restart_block e d)" "runs (starting_block rt e d)" "runs (degraded_block rt e d)"
  by (auto simp: restart_block_def starting_block_def degraded_block_def
      intro!: runs_bind runs_blocks settle)

end

locale worker_core = worker_base +
  assumes pending: "runs (pending_block rt e cb d)"
    and provisioning: "runs (provisioning_block rt e ref d)"
begin

lemma announce_runs: "R (w_db w) (w_db (snd (announce_ready e d ref w)))"
  by (simp add: announce_ready_def endpoint)

lemma deployment_Get_db [simp]: "snd (deployment_Get flt k did db) = db"
  by (cases "dep did db") (simp_all add: deployment_Get_def tx_simps)

lemma onCreated_runs: "R (w_db w) (w_db (snd (onCreated rt e ev w)))"
proof -
  obtain r w1 where get: "on_db (deployment_Get (e_flt e) ''load'' (ev_ResourceID ev)) w = (r, w1)" by fastforce
  then have w1: "w_db w1 = w_db w"
    using on_db_db[of "deployment_Get (e_flt e) ''load'' (ev_ResourceID ev)" w] by simp
  show ?thesis
  proof (cases r)
    case (Inl err)
    then show ?thesis using get w1 refl by (simp add: onCreated_def)
  next
    case (Inr d)
    let ?cb = "payload_string ''created_by'' (ev_Payload ev)"
    have "runs (created_blocks rt e ?cb d)"
      unfolding created_blocks_def by (auto intro!: runs_bind created_blocks_run pending provisioning)
    from this[unfolded runs_def, rule_format, of w1]
    have body: "R (w_db w) (w_db (snd (created_blocks rt e ?cb d w1)))" unfolding w1 .
    obtain q w2 where q: "created_blocks rt e ?cb d w1 = (q, w2)" by fastforce
    have w2: "R (w_db w) (w_db w2)" using body unfolding q by simp
    have eq: "onCreated rt e ev w =
      (if d_Status d \<in> {DeploymentReady, DeploymentFailed, DeploymentStopping} then (None, w1)
       else (case (q, w2) of (Inl r, w'') \<Rightarrow> (r, w'') | (Inr (ref, d3), w'') \<Rightarrow> announce_ready e d3 ref w''))"
      unfolding onCreated_def get Inr prod.case sum.case q ..
    show ?thesis
    proof (cases q)
      case (Inl t)
      then show ?thesis using w1 w2 refl by (simp add: eq)
    next
      case (Inr y)
      then show ?thesis using w1 refl trans[OF w2 announce_runs] by (simp add: eq split: prod.splits)
    qed
  qed
qed

lemma onStop_runs: "R (w_db w) (w_db (snd (onStop rt e ev w)))"
proof -
  have step: "R (w_db w) (w_db w'')" if "on_db (transition e did st) w' = (r, w'')" "R (w_db w) (w_db w')"
    "st \<in> {DeploymentStopping, DeploymentStopped}" for did st w' w'' r
  proof -
    have "w_db w'' = snd (transition e did st (w_db w'))" using that(1) on_db_db[of "transition e did st" w'] by simp
    then show ?thesis using trans[OF that(2)] settle[of st] that(3) by auto
  qed
  have fail: "R (w_db w) (w_db (snd (worker_fail rt e d cause w')))" if "R (w_db w) (w_db w')" for d cause w'
    by (rule trans[OF that fail_runs])
  obtain r w1 where get: "on_db (deployment_Get (e_flt e) ''load'' (ev_ResourceID ev)) w = (r, w1)" by fastforce
  then have w1: "R (w_db w) (w_db w1)"
    using on_db_db[of "deployment_Get (e_flt e) ''load'' (ev_ResourceID ev)" w] refl by simp
  show ?thesis
  proof (cases r)
    case (Inl err)
    then show ?thesis using get w1 by (simp add: onStop_def)
  next
    case (Inr d)
    obtain r2 w2 where t: "on_db (transition e (d_ID d) DeploymentStopping) w1 = (r2, w2)" by fastforce
    have w2: "R (w_db w) (w_db w2)" by (rule step[OF t w1]) simp
    obtain r3 c where s: "rt_Stop rt d (w_runtime w2) = (r3, c)" by fastforce
    obtain r4 w3 where t': "on_db (transition e (d_ID d) DeploymentStopped) (w2\<lparr>w_runtime := c\<rparr>) = (r4, w3)"
      by fastforce
    have w3: "R (w_db w) (w_db w3)" by (rule step[OF t']) (simp_all add: w2)
    show ?thesis
      using w1 w2 w3 fail[OF w3] fail[of "w2\<lparr>w_runtime := c\<rparr>"] get Inr t s t'
      by (auto simp: onStop_def split: option.splits sum.splits serving_error.splits)
  qed
qed

lemma handle_runs: "R (w_db w) (w_db (snd (worker_handle rt e ev w)))"
  by (simp add: worker_handle_def onCreated_runs onStop_runs refl)

lemma worker_run_runs: "R (w_db w) (w_db (worker_run rt evs w))"
  by (induction evs arbitrary: w) (auto simp: worker_run_def refl intro: trans handle_runs)

end

text \<open>A relation that every statement respects: the two blocks respect it too.\<close>

locale worker_statements = worker_base +
  assumes transition: "R db (snd (transition e did st db))"
    and revision: "R db (snd (deployment_CreateRevision flt now rid did spec cb db))"
    and set_ref: "R db (snd (deployment_SetWorkloadRef flt now did ref db))"

sublocale worker_statements \<subseteq> worker_core
proof unfold_locales
  show "runs (pending_block rt e cb d)" for e cb d
    by (auto simp: pending_block_def intro!: runs_bind runs_blocks revision transition)
  show "runs (provisioning_block rt e ref d)" for e ref d
    by (auto simp: provisioning_block_def intro!: runs_bind runs_blocks set_ref transition)
qed

section \<open>The state machine\<close>

abbreviation status_path :: "deployment_status \<Rightarrow> deployment_status \<Rightarrow> bool" where
  "status_path \<equiv> CanTransition\<^sup>*\<^sup>*"

text \<open>What the worker may do to a deployment: its status, workload reference and timestamp.\<close>

definition same_deployment :: "Deployment \<Rightarrow> Deployment \<Rightarrow> bool" where
  "same_deployment d d' \<longleftrightarrow> d'\<lparr>d_Status := d_Status d, d_WorkloadRef := d_WorkloadRef d, d_UpdatedAt := d_UpdatedAt d\<rparr> = d"

definition row_moves :: "Deployment \<Rightarrow> Deployment \<Rightarrow> bool" where
  "row_moves d d' \<longleftrightarrow> same_deployment d d' \<and> status_path (d_Status d) (d_Status d')"

definition other_tables where
  "other_tables db = (outbox db, models db, model_versions db, templates db, template_versions db, idempotency_keys db)"

definition moves :: "serving_db \<Rightarrow> serving_db \<Rightarrow> bool" where
  "moves db db' \<longleftrightarrow> list_all2 row_moves (deployments db) (deployments db') \<and>
     other_tables db' = other_tables db"

lemma other_tables_simps [simp]:
  "other_tables (db\<lparr>deployments := x\<rparr>) = other_tables db" "other_tables (db\<lparr>revisions := y\<rparr>) = other_tables db"
  "other_tables (db\<lparr>endpoints := z\<rparr>) = other_tables db"
  by (simp_all add: other_tables_def)

lemma row_moves_refl: "row_moves d d"
  by (simp add: row_moves_def same_deployment_def)

lemma row_moves_trans: "row_moves a b \<Longrightarrow> row_moves b c \<Longrightarrow> row_moves a c"
  unfolding row_moves_def same_deployment_def by (cases a; cases b; cases c) auto

lemma moves_set_deployment:
  assumes "\<And>d. d \<in> set (deployments db) \<Longrightarrow> d_ID d = did \<Longrightarrow> row_moves d (f d)"
  shows "moves db (set_deployment did f db)"
proof -
  have "list_all2 row_moves rows (tbl_update d_ID did f rows)"
    if "\<And>d. d \<in> set rows \<Longrightarrow> d_ID d = did \<Longrightarrow> row_moves d (f d)" for rows
    using that by (induction rows) (auto simp: tbl_update_def row_moves_refl)
  with assms show ?thesis by (simp add: moves_def set_deployment_def)
qed

lemma row_moves_ID: "list_all2 row_moves xs ys \<Longrightarrow> map d_ID ys = map d_ID xs"
proof (induction rule: list_all2_induct)
  case (Cons x xs y ys)
  then show ?case by (cases x; cases y) (simp add: row_moves_def same_deployment_def)
qed simp

lemma moves_unique:
  "moves db db' \<Longrightarrow> tbl_unique d_ID (deployments db) \<Longrightarrow> tbl_unique d_ID (deployments db')"
  by (auto simp: moves_def tbl_unique_def dest!: row_moves_ID)

lemma moves_refl: "moves db db"
  by (simp add: moves_def list_all2_refl row_moves_refl)

lemma all_row_moves_trans:
  "list_all2 row_moves xs ys \<Longrightarrow> list_all2 row_moves ys zs \<Longrightarrow> list_all2 row_moves xs zs"
  by (rule list_all2_trans[OF row_moves_trans])

lemma moves_trans: "moves a b \<Longrightarrow> moves b c \<Longrightarrow> moves a c"
  unfolding moves_def by (metis all_row_moves_trans)

definition orderly :: "serving_db \<Rightarrow> serving_db \<Rightarrow> bool" where
  "orderly db db' \<longleftrightarrow> (tbl_unique d_ID (deployments db) \<longrightarrow> moves db db')"

interpretation state_machine: worker_statements rt orderly for rt :: "'c runtime"
proof unfold_locales
  show "orderly db db" for db by (simp add: orderly_def moves_refl)
  show "orderly a b \<Longrightarrow> orderly b c \<Longrightarrow> orderly a c" for a b c
    unfolding orderly_def using moves_trans moves_unique by blast
  have tr: "orderly db (snd (transition e did st db))" for e did st db
  proof (cases rule: transition_cases[of e did st db])
    case (refused err)
    then show ?thesis by (simp add: orderly_def moves_refl)
  next
    case (moved d)
    have "row_moves x (stamp st (e_now e) x)"
      if "tbl_unique d_ID (deployments db)" "x \<in> set (deployments db)" "d_ID x = did" for x
    proof -
      have "x = d" using tbl_find_unique[OF that(1,2,3)] moved(1) by simp
      then show ?thesis using moved(2) by (auto simp: row_moves_def same_deployment_def)
    qed
    then show ?thesis using moved(3) by (auto simp: orderly_def intro!: moves_set_deployment)
  qed
  show "st \<notin> {DeploymentProvisioning, DeploymentStarting} \<Longrightarrow> orderly db (snd (transition e did st db))"
    for st db e did by (rule tr)
  show "orderly db (snd (transition e did st db))" for e did st db by (rule tr)
  show "orderly db (snd (svc_CreateEndpoint flt now eid did path proto db))" for flt now eid did path proto db
    by (rule CreateEndpoint_cases[of flt now eid did path proto db])
      (auto simp: orderly_def moves_def list_all2_refl row_moves_refl)
  show "orderly db (snd (deployment_CreateRevision flt now rid did spec cb db))" for flt now rid did spec cb db
    by (rule CreateRevision_cases[of flt now rid did spec cb db])
      (auto simp: orderly_def moves_def list_all2_refl row_moves_refl Let_def)
  show "orderly db (snd (deployment_SetWorkloadRef flt now did ref db))" for flt now did ref db
    by (rule SetWorkloadRef_cases[of flt now did ref db])
      (auto simp: orderly_def moves_refl row_moves_def same_deployment_def intro!: moves_set_deployment)
qed

lemma failed_is_final: "status_path DeploymentFailed st \<Longrightarrow> st = DeploymentFailed"
proof (induction rule: rtranclp_induct)
  case (step y z)
  then show ?case by (simp add: CanTransition_def)
qed simp


definition sample_deployment :: "deployment_status \<Rightarrow> Deployment" where
  "sample_deployment st = \<lparr>d_ID = ''d1'', d_TenantID = ''t1'', d_ModelVersionID = ''mv'', d_TemplateVersionID = ''tv'',
     d_Name = ''chat'', d_Region = ''eu'', d_DesiredReplicas = 1, d_Status = st, d_WorkloadRef = [],
     d_CreatedAt = 1, d_UpdatedAt = 1\<rparr>"

definition empty_db :: serving_db where
  "empty_db = \<lparr>outbox = [], models = [], model_versions = [], templates = [], template_versions = [],
     deployments = [], revisions = [], endpoints = [], idempotency_keys = []\<rparr>"

definition sample_world :: "deployment_status \<Rightarrow> workloads world" where
  "sample_world st = \<lparr>w_db = empty_db\<lparr>deployments := [sample_deployment st]\<rparr>, w_cb = worker_breaker,
     w_runtime = Map.empty, w_pub = []\<rparr>"

definition calm :: worker_env where
  "calm = \<lparr>e_flt = no_faults, e_now = 7, e_t0 = \<lambda>_. 100, e_t1 = \<lambda>_. 101, e_ctx = \<lambda>_. None, e_rnd = \<lambda>_ _ _. 0,
     e_slept = \<lambda>_ _. True, e_rev = ''r1'', e_ep = ''p1'', e_evid = ''e1'', e_trace = ''x1'', e_publish = None\<rparr>"

definition created_event :: Event where
  "created_event = NewEvent ''e0'' ''x0'' 5 TypeDeploymentCreated ''t1'' ''d1'' []"


section \<open>What a deployment has in each state\<close>

text \<open>
  The contract of a compute provider as the worker uses it: a granted request hands out the
  deployment's reference and a workload runs for it, a release ends it, and both leave other
  deployments alone; the adapter does not touch workloads.
\<close>

locale ComputeProvider =
  fixes rt :: "'c runtime" and ref_of :: "string \<Rightarrow> string" and workload :: "string \<Rightarrow> 'c \<Rightarrow> bool"
  assumes granted: "rt_RequestCapacity rt d c = ((ref, AttemptOk), c') \<Longrightarrow> ref = ref_of (d_ID d) \<and> workload (d_ID d) c'"
    and request_others: "k \<noteq> d_ID d \<Longrightarrow> workload k (snd (rt_RequestCapacity rt d c)) = workload k c"
    and released: "rt_ReleaseCapacity rt d c = (None, c') \<Longrightarrow> \<not> workload (d_ID d) c'"
    and release_others: "k \<noteq> d_ID d \<Longrightarrow> workload k (snd (rt_ReleaseCapacity rt d c)) = workload k c"
    and start_frame: "workload k (snd (rt_Start rt d c)) = workload k c"
    and stop_frame: "workload k (snd (rt_Stop rt d c)) = workload k c"

text \<open>Past PENDING a deployment has a revision, past PROVISIONING its workload reference.\<close>

definition supplied :: "(string \<Rightarrow> string) \<Rightarrow> revisionRow list \<Rightarrow> Deployment \<Rightarrow> bool" where
  "supplied ref_of revs d \<longleftrightarrow>
    (d_Status d \<in> {DeploymentPending, DeploymentFailed} \<or> d_ID d \<in> rv_DeploymentID ` set revs) \<and>
    (d_Status d \<in> {DeploymentPending, DeploymentProvisioning, DeploymentFailed} \<or> d_WorkloadRef d = ref_of (d_ID d))"

definition serving_inv :: "(string \<Rightarrow> string) \<Rightarrow> serving_db \<Rightarrow> bool" where
  "serving_inv ref_of db \<longleftrightarrow> tbl_unique d_ID (deployments db) \<and>
     (\<forall>d\<in>set (deployments db). supplied ref_of (revisions db) d)"

definition keeps_inv :: "(string \<Rightarrow> string) \<Rightarrow> serving_db \<Rightarrow> serving_db \<Rightarrow> bool" where
  "keeps_inv ref_of db db' \<longleftrightarrow> (serving_inv ref_of db \<longrightarrow> serving_inv ref_of db')"

lemma set_deployment_inv:
  assumes "serving_inv ref_of db" "\<And>d. d_ID (f d) = d_ID d"
    "\<And>d. dep did db = Some d \<Longrightarrow> supplied ref_of (revisions db) (f d)"
  shows "serving_inv ref_of (set_deployment did f db)"
proof -
  have "supplied ref_of (revisions db) (if d_ID d = did then f d else d)" if "d \<in> set (deployments db)" for d
    using assms that tbl_find_unique[of d_ID "deployments db" d did] by (auto simp: serving_inv_def)
  then show ?thesis
    using assms(1,2) 
    by (simp add: serving_inv_def tbl_unique_update) (simp only: tbl_update_def set_map ball_simps simp_thms, blast)
qed

lemma inv_dep: "serving_inv ref_of db \<Longrightarrow> dep did db = Some d \<Longrightarrow> supplied ref_of (revisions db) d \<and> d_ID d = did"
  by (auto simp: serving_inv_def dest!: tbl_find_SomeD)

lemma transition_inv:
  assumes "serving_inv ref_of db"
    and "st = DeploymentProvisioning \<longrightarrow> did \<in> rv_DeploymentID ` set (revisions db)"
    and "st = DeploymentStarting \<longrightarrow> (\<forall>d. dep did db = Some d \<longrightarrow> d_WorkloadRef d = ref_of did)"
  shows "serving_inv ref_of (snd (transition e did st db))"
proof (cases rule: transition_cases[of e did st db])
  case (moved d)
  have "supplied ref_of (revisions db) (stamp st (e_now e) d)"
    using moved(1,2) assms(2,3) inv_dep[OF assms(1) moved(1)]
    by (cases "d_Status d") (auto simp: supplied_def CanTransition_def)
  then show ?thesis using assms(1) moved by (auto intro!: set_deployment_inv)
qed (simp add: assms)

lemma retry_ok_last:
  "retry_from attempts d0 rnd slept fn i delay w = (RetryOk, ds, w') \<Longrightarrow> \<exists>v. fn v = (AttemptOk, w')"
proof (induction attempts d0 rnd slept fn i delay w arbitrary: ds rule: retry_from.induct)
  case (1 attempts d0 rnd slept fn i delay w)
  note eq = "1.prems"[unfolded retry_from.simps[of attempts d0 rnd slept fn i delay w]]
  obtain a w1 where fn: "fn w = (a, w1)" by fastforce
  show ?case
  proof (cases a)
    case AttemptOk
    then show ?thesis using eq fn by auto
  next
    case (AttemptErr t)
    then show ?thesis using eq fn "1.IH"[OF fn[symmetric] AttemptErr _ _ refl]
      by (auto simp: Let_def split: if_splits prod.splits)
  next
    case (AttemptPermanent t)
    then show ?thesis using eq fn by auto
  qed
qed

lemma cbProbe_ok_last:
  assumes "cbProbe e name fn ref w = (None, ref', w')"
  shows "\<exists>v. fn v = (AttemptOk, w_runtime w', ref') \<and> w_db w' = w_db w \<and> w_pub w' = w_pub w"
proof -
  obtain err cb c r where run: "cb_Call (e_t0 e name) (e_t1 e name) (e_ctx e name) (runProvision e name fn)
      (w_cb w) (w_runtime w, ref) = (err, cb, c, r)" by (metis prod_cases4)
  with assms have call: "cb_Call (e_t0 e name) (e_t1 e name) (e_ctx e name) (runProvision e name fn)
      (w_cb w) (w_runtime w, ref) = (None, cb, c, ref')" "w' = w\<lparr>w_cb := cb, w_runtime := c\<rparr>"
    by (simp_all add: cbProbe_def)
  then have "runProvision e name fn (w_runtime w, ref) = (None, c, ref')"
    by (auto simp: cb_Call_def split: prod.splits option.splits)
  then obtain ds where "retry_Do retry_options (e_rnd e name) (e_slept e name) fn (w_runtime w, ref) = (RetryOk, ds, c, ref')"
    by (auto simp: runProvision_def split: prod.splits retry_result.splits)
  then have "\<exists>v. fn v = (AttemptOk, c, ref')"
    unfolding retry_Do_def Let_def by (rule retry_ok_last)
  then show ?thesis using call(2) by simp
qed

context ComputeProvider
begin

lemma probe_gives_ref:
  "cbProbe e name (call_RequestCapacity rt d) ref w = (None, ref', w') \<Longrightarrow>
   ref' = ref_of (d_ID d) \<and> workload (d_ID d) (w_runtime w') \<and> w_db w' = w_db w"
  using granted by (fastforce simp: call_RequestCapacity_def dest!: cbProbe_ok_last split: prod.splits)

end

sublocale ComputeProvider \<subseteq> worker_base rt "keeps_inv ref_of"
proof unfold_locales
  show "keeps_inv ref_of db db" for db by (simp add: keeps_inv_def)
  show "keeps_inv ref_of a b \<Longrightarrow> keeps_inv ref_of b c \<Longrightarrow> keeps_inv ref_of a c" for a b c
    by (simp add: keeps_inv_def)
  show "st \<notin> {DeploymentProvisioning, DeploymentStarting} \<Longrightarrow> keeps_inv ref_of db (snd (transition e did st db))"
    for st db e did unfolding keeps_inv_def by (auto intro!: transition_inv)
  show "keeps_inv ref_of db (snd (svc_CreateEndpoint flt now eid did path proto db))" for flt now eid did path proto db
    by (rule CreateEndpoint_cases[of flt now eid did path proto db]) (auto simp: keeps_inv_def serving_inv_def)
qed

context ComputeProvider
begin

lemma pending_keeps: "runs (pending_block rt e cb d)"
proof -
  have or_fail_prov: "serving_inv ref_of (w_db (snd (or_fail rt e d [] (transition e (d_ID d) DeploymentProvisioning) w)))"
    if inv: "serving_inv ref_of (w_db w)" and rev: "d_ID d \<in> rv_DeploymentID ` set (revisions (w_db w))" for w
  proof -
    obtain r w' where on: "on_db (transition e (d_ID d) DeploymentProvisioning) w = (r, w')" by fastforce
    then have "w_db w' = snd (transition e (d_ID d) DeploymentProvisioning (w_db w))"
      using on_db_db[of "transition e (d_ID d) DeploymentProvisioning" w] by simp
    then have "serving_inv ref_of (w_db w')" using transition_inv[OF inv] rev by simp
    then show ?thesis using on
      by (cases r) (auto simp: or_fail_def intro: return_fail_R[unfolded keeps_inv_def, rule_format])
  qed
  show ?thesis
    unfolding runs_def keeps_inv_def
  proof (intro allI impI)
    fix w :: "'c world"
    assume inv: "serving_inv ref_of (w_db w)"
    show "serving_inv ref_of (w_db (snd (pending_block rt e cb d w)))"
    proof (cases "d_Status d = DeploymentPending")
      case True
      let ?rev = "deployment_CreateRevision (e_flt e) (e_now e) (e_rev e) (d_ID d) (specMap d) cb"
      show ?thesis
      proof (cases rule: CreateRevision_cases[of "e_flt e" "e_now e" "e_rev e" "d_ID d" "specMap d" cb "w_db w"])
        case (refused err)
        then show ?thesis using inv True by (simp add: pending_block_def or_return_def on_db_def tx_bind_def)
      next
        case made
        then obtain row where row: "rv_DeploymentID row = d_ID d"
          "?rev (w_db w) = (Inr row, (w_db w)\<lparr>revisions := tbl_insert row (revisions (w_db w))\<rparr>)" by (simp add: Let_def)
        let ?w = "w\<lparr>w_db := (w_db w)\<lparr>revisions := tbl_insert row (revisions (w_db w))\<rparr>\<rparr>"
        have "serving_inv ref_of (w_db ?w)"
          using inv by (auto simp: serving_inv_def supplied_def tbl_insert_def)
        moreover have "d_ID d \<in> rv_DeploymentID ` set (revisions (w_db ?w))" using row(1) by (simp add: tbl_insert_def)
        ultimately have "serving_inv ref_of (w_db (snd (or_fail rt e d [] (transition e (d_ID d) DeploymentProvisioning) ?w)))"
          by (rule or_fail_prov)
        moreover obtain q w' where "or_fail rt e d [] (transition e (d_ID d) DeploymentProvisioning) ?w = (q, w')" by fastforce
        ultimately show ?thesis using True row(2)
          by (cases q) (simp_all add: pending_block_def or_return_def on_db_def tx_bind_def tx_return_def)
      qed
    qed (use inv in \<open>simp add: pending_block_def tx_return_def\<close>)
  qed
qed

lemma provisioning_keeps: "runs (provisioning_block rt e ref d)"
proof -
  have or_fail_start: "serving_inv ref_of (w_db (snd (or_fail rt e d [] (transition e (d_ID d) DeploymentStarting) w)))"
    if inv: "serving_inv ref_of (w_db w)" and ref: "\<forall>x. dep (d_ID d) (w_db w) = Some x \<longrightarrow> d_WorkloadRef x = ref_of (d_ID d)" for w
  proof -
    obtain r w' where on: "on_db (transition e (d_ID d) DeploymentStarting) w = (r, w')" by fastforce
    then have "w_db w' = snd (transition e (d_ID d) DeploymentStarting (w_db w))"
      using on_db_db[of "transition e (d_ID d) DeploymentStarting" w] by simp
    then have "serving_inv ref_of (w_db w')" using transition_inv[OF inv] ref by simp
    then show ?thesis using on
      by (cases r) (auto simp: or_fail_def intro: return_fail_R[unfolded keeps_inv_def, rule_format])
  qed
  have after_ref: "serving_inv ref_of (w_db (snd (tx_bind
      (or_fail rt e d ''set workload ref: '' (deployment_SetWorkloadRef (e_flt e) (e_now e) (d_ID d) (ref_of (d_ID d)))) (\<lambda>_.
      tx_bind (or_fail rt e d [] (transition e (d_ID d) DeploymentStarting)) (\<lambda>_.
      tx_return (ref_of (d_ID d), d\<lparr>d_Status := DeploymentStarting\<rparr>))) w)))"
    if inv: "serving_inv ref_of (w_db w)" for w
  proof (cases rule: SetWorkloadRef_cases[of "e_flt e" "e_now e" "d_ID d" "ref_of (d_ID d)" "w_db w"])
    case (refused err)
    then show ?thesis using inv
      by (auto simp: or_fail_def on_db_def tx_bind_def return_fail_def split: prod.splits)
        (metis fail_runs keeps_inv_def snd_conv world.select_convs(1) world.surjective world.update_convs(1))
  next
    case made
    let ?db = "set_deployment (d_ID d) (\<lambda>x. x\<lparr>d_WorkloadRef := ref_of (d_ID d), d_UpdatedAt := e_now e\<rparr>) (w_db w)"
    have "serving_inv ref_of ?db"
    proof (rule set_deployment_inv[OF inv])
      show "supplied ref_of (revisions (w_db w)) (x\<lparr>d_WorkloadRef := ref_of (d_ID d), d_UpdatedAt := e_now e\<rparr>)"
        if "dep (d_ID d) (w_db w) = Some x" for x
        using inv_dep[OF inv that] unfolding supplied_def by simp argo
    qed simp
    moreover have "\<forall>x. dep (d_ID d) ?db = Some x \<longrightarrow> d_WorkloadRef x = ref_of (d_ID d)"
      by (auto simp: tbl_find_update)
    ultimately have "serving_inv ref_of (w_db (snd (or_fail rt e d [] (transition e (d_ID d) DeploymentStarting) (w\<lparr>w_db := ?db\<rparr>))))"
      by (intro or_fail_start) simp_all
    moreover obtain q w' where "or_fail rt e d [] (transition e (d_ID d) DeploymentStarting) (w\<lparr>w_db := ?db\<rparr>) = (q, w')"
      by fastforce
    ultimately show ?thesis using made
      by (cases q) (simp_all add: or_fail_def on_db_def tx_bind_def tx_return_def)
  qed
  show ?thesis
    unfolding runs_def keeps_inv_def
  proof (intro allI impI)
    fix w :: "'c world"
    assume inv: "serving_inv ref_of (w_db w)"
    show "serving_inv ref_of (w_db (snd (provisioning_block rt e ref d w)))"
    proof (cases "d_Status d = DeploymentProvisioning")
      case True
      obtain q ref' w' where p: "cbProbe e ''capacity'' (call_RequestCapacity rt d) ref w = (q, ref', w')"
        by (metis prod_cases3)
      have w': "serving_inv ref_of (w_db w')" using inv cbProbe_db[OF p] by simp
      show ?thesis
      proof (cases q)
        case (Some t)
        have "serving_inv ref_of (w_db (snd (worker_fail rt e d (''request capacity: '' @ t) w')))"
          using fail_runs w' by (simp add: keeps_inv_def)
        then show ?thesis using True p Some
          by (auto simp: provisioning_block_def or_fail_probe_def tx_bind_def return_fail_def split: prod.splits)
      next
        case None
        with p have "ref' = ref_of (d_ID d)" using probe_gives_ref by blast
        then show ?thesis using after_ref[OF w'] True p None
          by (simp add: provisioning_block_def or_fail_probe_def tx_bind_def)
      qed
    qed (use inv in \<open>simp add: provisioning_block_def tx_return_def\<close>)
  qed
qed

end

sublocale ComputeProvider \<subseteq> worker_core rt "keeps_inv ref_of"
  by unfold_locales (rule pending_keeps provisioning_keeps)+

interpretation mock: ComputeProvider mock_runtime workload_ref "\<lambda>did m. m did \<noteq> None"
  by unfold_locales (auto simp: mock_runtime_def mock_RequestCapacity_def mock_ReleaseCapacity_def)

end
