(* ===== verification/ServingProperties.thy ===== *)
theory ServingProperties
  imports ServingProofs
begin

text \<open>
  The serving control plane as one system (API handlers, outbox publisher and worker over one
  database): its invariant, the creation of deployments (atomic with its event, idempotent under a
  key), the isolation of tenants, and what the worker does to a deployment in each situation.
\<close>

section \<open>The system\<close>

inductive serving_step :: "'c runtime \<Rightarrow> 'c world \<Rightarrow> 'c world \<Rightarrow> bool" for rt :: "'c runtime" where
  api_create: "serving_step rt w
     (w\<lparr>w_db := snd (handleCreateDeployment flt now ids tenant user body key (w_db w))\<rparr>)"
| api_action: "serving_step rt w
     (w\<lparr>w_db := snd (handleDeploymentAction flt now ids tenant user did act (w_db w))\<rparr>)"
| api_model: "serving_step rt w (w\<lparr>w_db := snd (handleCreateModel flt now newid mbody (w_db w))\<rparr>)"
| api_model_version: "serving_step rt w (w\<lparr>w_db := snd (handleCreateModelVersion flt now newid mid mvbody (w_db w))\<rparr>)"
| api_template: "serving_step rt w (w\<lparr>w_db := snd (handleCreateTemplate flt now newid tbody (w_db w))\<rparr>)"
| api_template_version: "serving_step rt w
     (w\<lparr>w_db := snd (handleCreateTemplateVersion flt now newid tid tvbody (w_db w))\<rparr>)"
| drain: "serving_step rt w
     (w\<lparr>w_db := snd (snd (DrainOnce (\<lambda>topic ev db. (broker topic ev, db)) flt now batch (w_db w)))\<rparr>)"
| deliver: "serving_step rt w (snd (worker_handle rt e ev w))"

inductive serving_reach :: "'c runtime \<Rightarrow> 'c world \<Rightarrow> 'c world \<Rightarrow> bool" for rt :: "'c runtime" where
  here: "serving_reach rt w w"
| there: "serving_reach rt w w' \<Longrightarrow> serving_step rt w' w'' \<Longrightarrow> serving_reach rt w w''"

inductive_cases serving_stepE: "serving_step rt w w'"

text \<open>Statements that leave deployments and revisions alone.\<close>

definition leaves_deployments :: "serving_db \<Rightarrow> serving_db \<Rightarrow> bool" where
  "leaves_deployments db db' \<longleftrightarrow> deployments db' = deployments db \<and> revisions db' = revisions db"

lemma leaves_inv: "leaves_deployments db db' \<Longrightarrow> serving_inv ref_of db \<Longrightarrow> serving_inv ref_of db'"
  by (simp add: leaves_deployments_def serving_inv_def)

lemma EnqueueTx_cases:
  obtains (refused) err where "EnqueueTx mk flt newid now topic ev db = (Inl err, db)"
  | (made) "EnqueueTx mk flt newid now topic ev db =
      (Inr (), db\<lparr>outbox := tbl_insert (outbox_record newid now topic ev) (outbox db)\<rparr>)"
  unfolding EnqueueTx_def
  by (cases "flt ''insert outbox'' newid"; cases "tbl_has o_ID newid (outbox db)") (auto simp: tx_simps)

lemma create_handler_leaves:
  assumes "\<And>x. leaves_deployments db (snd (create x db))"
  shows "leaves_deployments db (snd (create_handler create body db))"
proof (cases body)
  case (Some x)
  obtain out db' where "create x db = (out, db')" by fastforce
  then show ?thesis using assms[of x] Some by (simp add: create_handler_def)
qed (simp add: create_handler_def leaves_deployments_def)

lemma catalog_leaves:
  "leaves_deployments db (snd (svc_CreateModel flt now newid m db))"
  "leaves_deployments db (snd (svc_CreateModelVersion flt now newid mv db))"
  "leaves_deployments db (snd (svc_CreateTemplate flt now newid t db))"
  "leaves_deployments db (snd (svc_CreateTemplateVersion flt now newid tv db))"
  by (auto simp: svc_CreateModel_def model_Create_def svc_CreateModelVersion_def model_CreateVersion_def
      svc_CreateTemplate_def template_Create_def svc_CreateTemplateVersion_def template_CreateVersion_def
      leaves_deployments_def tx_simps Let_def)

lemma idempotency_Save_leaves: "leaves_deployments db (snd (idempotency_Save flt newid tenant key rtype rid db))"
  by (auto simp: idempotency_Save_def leaves_deployments_def tx_simps)

lemma drain_rows_leaves:
  "leaves_deployments db (snd (snd (drain_rows (\<lambda>topic ev db. (broker topic ev, db)) flt now rows n db)))"
proof (induction rows arbitrary: n db)
  case Nil
  then show ?case by (simp add: leaves_deployments_def)
next
  case (Cons r rows)
  have trans: "leaves_deployments a b \<Longrightarrow> leaves_deployments b c \<Longrightarrow> leaves_deployments a c" for a b c
    by (simp add: leaves_deployments_def)
  have go: "leaves_deployments db (snd (snd (case m db of (Inl e, db'') \<Rightarrow> ((n, Some e), xs, db'') | (Inr u, db'') \<Rightarrow> f db'')))"
    if "leaves_deployments db (snd (m db))" "\<And>d. leaves_deployments d (snd (snd (f d)))"
    for m :: "serving_db \<Rightarrow> (string + unit) \<times> serving_db" and xs f
    using that trans by (auto split: prod.splits sum.splits)
  have m: "leaves_deployments db (snd (MarkFailed flt rid cause db))" "leaves_deployments db (snd (MarkPublished flt now rid db))"
    for rid cause by (auto simp: MarkFailed_def MarkPublished_def leaves_deployments_def tx_simps)
  have sent: "leaves_deployments d (snd (snd (case drain_rows (\<lambda>topic ev db. (broker topic ev, db)) flt now rows k d of
      (res, sent, out) \<Rightarrow> (res, r # sent, out))))" for d k
    using Cons.IH[of d k] by (simp split: prod.splits) (metis snd_conv)
  show ?case
  proof (cases "o_Event r")
    case None
    then show ?thesis by (auto intro!: go m Cons.IH)
  next
    case (Some ev)
    then show ?thesis by (cases "broker (o_Topic r) ev") (auto intro!: go m Cons.IH sent)
  qed
qed

lemma DrainOnce_leaves:
  "leaves_deployments db (snd (snd (DrainOnce (\<lambda>topic ev db. (broker topic ev, db)) flt now batch db)))"
  using drain_rows_leaves[of db broker flt now _ 0]
  by (auto simp: DrainOnce_def FetchBatch_def stmt_def query_def leaves_deployments_def)

lemma insert_deployment_cases:
  obtains (refused) err where "insert_deployment flt now d db = (Inl err, db)"
  | (made) "insert_deployment flt now d db = (Inr (), db\<lparr>deployments := tbl_insert (deployment_row now d) (deployments db)\<rparr>)"
      "\<not> tbl_has d_ID (d_ID d) (deployments db)"
  unfolding insert_deployment_def
  by (cases "flt ''create deployment'' []"; cases "\<not> tbl_has d_ID (d_ID d) (deployments db) \<and>
           tbl_has mv_ID (d_ModelVersionID d) (model_versions db) \<and>
           tbl_has tv_ID (d_TemplateVersionID d) (template_versions db)") (auto simp: tx_simps)

text \<open>A creation either changes nothing or adds one PENDING deployment together with its event.\<close>

lemma CreateWithEvent_cases:
  obtains (refused) err where "svc_CreateDeploymentWithEvent flt now ids d0 user db = (Inl err, db)"
  | (made) d where "d = d0\<lparr>d_ID := f_dep ids, d_Status := DeploymentPending\<rparr>"
      "\<not> tbl_has d_ID (f_dep ids) (deployments db)"
      "svc_CreateDeploymentWithEvent flt now ids d0 user db =
        (Inr (d\<lparr>d_CreatedAt := now, d_UpdatedAt := now\<rparr>),
         db\<lparr>deployments := tbl_insert (deployment_row now d) (deployments db),
            outbox := tbl_insert (outbox_record (f_out ids) now TopicDeploymentEvents
              (NewEvent (f_ev ids) (f_trace ids) now TypeDeploymentCreated (d_TenantID d) (d_ID d)
                (deployment_payload d user))) (outbox db)\<rparr>)"
proof -
  let ?d = "d0\<lparr>d_ID := f_dep ids, d_Status := DeploymentPending\<rparr>"
  let ?ev = "NewEvent (f_ev ids) (f_trace ids) now TypeDeploymentCreated (d_TenantID ?d) (d_ID ?d) (deployment_payload ?d user)"
  have eq: "svc_CreateDeploymentWithEvent flt now ids d0 user db =
      deployment_CreateWithEvent flt now (f_out ids) ?d TopicDeploymentEvents ?ev db"
    by (simp add: svc_CreateDeploymentWithEvent_def Let_def)
  show thesis
  proof (cases rule: insert_deployment_cases[of flt now ?d db])
    case (refused err)
    then show thesis using that(1) by (simp add: eq deployment_CreateWithEvent_def transaction_def tx_bind_def)
  next
    case made
    let ?db = "db\<lparr>deployments := tbl_insert (deployment_row now ?d) (deployments db)\<rparr>"
    show thesis
    proof (cases rule: EnqueueTx_cases[of ServingDB flt "f_out ids" now TopicDeploymentEvents ?ev ?db])
      case (refused err)
      then show thesis using that(1) made(1)
        by (simp add: eq deployment_CreateWithEvent_def transaction_def tx_bind_def)
    next
      case made2: made
      then show thesis using that(2)[OF refl] made
        by (simp add: eq deployment_CreateWithEvent_def transaction_def tx_bind_def tx_return_def)
    qed
  qed
qed

lemma handleCreateDeployment_inv:
  assumes "serving_inv ref_of db"
  shows "serving_inv ref_of (snd (handleCreateDeployment flt now ids tenant user body key db))"
proof (cases "\<exists>d. body = Some d \<and> replayed flt tenant key db = None")
  case False
  then show ?thesis using assms by (auto simp: handleCreateDeployment_def split: option.splits)
next
  case True
  then obtain d where d: "body = Some d" "replayed flt tenant key db = None" by blast
  show ?thesis
  proof (cases rule: CreateWithEvent_cases[of flt now ids "d\<lparr>d_TenantID := tenant\<rparr>" user db])
    case (refused err)
    then show ?thesis using d assms by (simp add: handleCreateDeployment_def)
  next
    case (made d')
    have "supplied ref_of (revisions db) (deployment_row now d')"
      unfolding made(1) by (simp add: supplied_def deployment_row_def)
    moreover have "d_ID (deployment_row now d') = f_dep ids" unfolding made(1) by (simp add: deployment_row_def)
    moreover have "tbl_unique d_ID (tbl_insert (deployment_row now d') (deployments db))"
      using assms made(2) calculation(2) by (intro tbl_unique_insert) (simp_all add: serving_inv_def)
    ultimately have "serving_inv ref_of (snd (svc_CreateDeploymentWithEvent flt now ids (d\<lparr>d_TenantID := tenant\<rparr>) user db))"
      using assms by (auto simp: made(3) serving_inv_def tbl_insert_def)
    then show ?thesis
      using d made(3) leaves_inv[OF idempotency_Save_leaves] by (simp add: handleCreateDeployment_def)
  qed
qed

lemma enqueue_leaves:
  "leaves_deployments db (snd (case EnqueueTx mk flt newid now topic ev db of
      (Inl e, db') \<Rightarrow> (f e, db') | (Inr u, db') \<Rightarrow> (g u, db')))"
  by (rule EnqueueTx_cases[of mk flt newid now topic ev db]) (auto simp: leaves_deployments_def)

lemma leaves_refl [simp]: "leaves_deployments db db"
  by (simp add: leaves_deployments_def)

lemma handleDeploymentAction_leaves:
  "leaves_deployments db (snd (handleDeploymentAction flt now ids tenant user did act db))"
  by (auto simp: handleDeploymentAction_def Let_def intro: enqueue_leaves split: option.splits)

context ComputeProvider
begin

lemma step_inv: "serving_step rt w w' \<Longrightarrow> serving_inv ref_of (w_db w) \<Longrightarrow> serving_inv ref_of (w_db w')"
proof (erule serving_stepE, goal_cases)
  case (1 flt now ids tenant user body key)
  then show ?case by (simp add: handleCreateDeployment_inv)
next
  case (8 e ev)
  then show ?case using handle_runs by (simp add: keeps_inv_def)
next
  case (2 flt now ids tenant user did act)
  then show ?case using leaves_inv[OF handleDeploymentAction_leaves] by simp
next
  case (7 broker flt now batch)
  then show ?case using leaves_inv[OF DrainOnce_leaves] by simp
qed (simp_all add: handleCreateModel_def handleCreateModelVersion_def handleCreateTemplate_def
    handleCreateTemplateVersion_def leaves_inv[OF create_handler_leaves] catalog_leaves)

lemma reach_inv: "serving_reach rt w w' \<Longrightarrow> serving_inv ref_of (w_db w) \<Longrightarrow> serving_inv ref_of (w_db w')"
  by (induction rule: serving_reach.induct) (auto intro: step_inv)

end

text \<open>
  C6: From a system without deployments, through every interleaving of API calls, catalog changes,
  outbox drains and worker deliveries with any failures, deployment ids stay unique, a deployment past
  PENDING has a revision, and one past PROVISIONING carries the workload reference of its compute
  provider (FAILED deployments apart).
\<close>

theorem provisioned_deployments_are_supplied:
  assumes "serving_reach mock_runtime w w'" "deployments (w_db w) = []"
  shows "distinct (map d_ID (deployments (w_db w'))) \<and>
    (\<forall>d\<in>set (deployments (w_db w')).
      (d_Status d \<notin> {DeploymentPending, DeploymentFailed} \<longrightarrow>
         (\<exists>r\<in>set (revisions (w_db w')). rv_DeploymentID r = d_ID d)) \<and>
      (d_Status d \<in> {DeploymentStarting, DeploymentReady, DeploymentDegraded, DeploymentStopping, DeploymentStopped} \<longrightarrow>
         d_WorkloadRef d = ''mock-wl-'' @ d_ID d))"
proof -
  have inv: "serving_inv workload_ref (w_db w')"
    by (rule mock.reach_inv[OF assms(1)]) (simp add: assms(2) serving_inv_def tbl_unique_def)
  have one: "(d_Status d \<notin> {DeploymentPending, DeploymentFailed} \<longrightarrow> (\<exists>r\<in>set revs. rv_DeploymentID r = d_ID d)) \<and>
      (d_Status d \<in> {DeploymentStarting, DeploymentReady, DeploymentDegraded, DeploymentStopping, DeploymentStopped} \<longrightarrow>
         d_WorkloadRef d = ''mock-wl-'' @ d_ID d)" if "supplied workload_ref revs d" for revs d
    using that by (auto simp: supplied_def workload_ref_def)
  show ?thesis
    using inv unfolding serving_inv_def tbl_unique_def by (elim conjE, intro conjI ballI one) auto
qed

definition catalog_db :: serving_db where
  "catalog_db = empty_db\<lparr>
     model_versions := [\<lparr>mv_ID = ''mv'', mv_ModelID = ''m'', mv_Version = ''1'', mv_ArtifactURI = [],
        mv_Metadata = Some [], mv_Status = ''ACTIVE'', mv_CreatedAt = 0\<rparr>],
     template_versions := [\<lparr>tv_ID = ''tv'', tv_TemplateID = ''t'', tv_Version = ''1'', tv_Image = [],
        tv_Command = Some [], tv_Environment = Some [], tv_ConfigSchema = Some [], tv_CreatedAt = 0\<rparr>]\<rparr>"

definition sample_ids :: fresh_ids where
  "sample_ids = \<lparr>f_dep = ''d1'', f_ev = ''e0'', f_trace = ''x0'', f_out = ''o1'', f_idem = ''i1''\<rparr>"

definition sample_body :: Deployment where
  "sample_body = (sample_deployment DeploymentPending)\<lparr>d_ID := [], d_TenantID := []\<rparr>"

definition catalog_world :: "workloads world" where
  "catalog_world = \<lparr>w_db = catalog_db, w_cb = worker_breaker, w_runtime = Map.empty, w_pub = []\<rparr>"

definition created_world :: "workloads world" where
  "created_world = catalog_world\<lparr>w_db := snd (handleCreateDeployment no_faults 5 sample_ids ''t1'' ''u1'' (Some sample_body) ''k'' catalog_db)\<rparr>"

definition ready_world :: "workloads world" where
  "ready_world = snd (worker_handle mock_runtime calm created_event created_world)"

lemma ready_reached: "serving_reach mock_runtime catalog_world ready_world"
proof -
  have "serving_step mock_runtime catalog_world created_world"
    using serving_step.api_create[of mock_runtime catalog_world no_faults 5 sample_ids "''t1''" "''u1''" "Some sample_body" "''k''"]
    by (simp add: created_world_def catalog_world_def)
  then show ?thesis
    unfolding ready_world_def by (rule there[OF there[OF here] deliver])
qed

lemma ready_world_deployments:
  "map (\<lambda>d. (d_ID d, d_Status d)) (deployments (w_db ready_world)) = [(''d1'', DeploymentReady)]"
  by code_simp

theorem provisioned_deployments_are_supplied_witness:
  "\<exists>d\<in>set (deployments (w_db ready_world)). d_Status d = DeploymentReady \<and> d_WorkloadRef d = ''mock-wl-d1''"
proof -
  have "deployments (w_db catalog_world) = []" by (simp add: catalog_world_def catalog_db_def empty_db_def)
  note p = provisioned_deployments_are_supplied[OF ready_reached this]
  obtain d where d: "deployments (w_db ready_world) = [d]" "d_ID d = ''d1''" "d_Status d = DeploymentReady"
    using ready_world_deployments by auto
  then show ?thesis using p by simp
qed

section \<open>Bringing a deployment up\<close>

lemma cbProbe_healthy:
  assumes "fn (w_runtime w, ref) = (AttemptOk, c, ref')" "e_ctx e name = None" "cb_state (w_cb w) \<noteq> StateOpen"
  shows "cbProbe e name fn ref w =
    (None, ref', w\<lparr>w_cb := (w_cb w)\<lparr>cb_failures := 0, cb_state := StateClosed\<rparr>, w_runtime := c\<rparr>)"
proof -
  have "runProvision e name fn (w_runtime w, ref) = (None, c, ref')"
    using assms(1) by (simp add: runProvision_def retry_Do_def Let_def retry_from.simps)
  then show ?thesis
    using assms(2,3) by (cases "cb_state (w_cb w)") (simp_all add: cbProbe_def cb_Call_def cb_end_def)
qed

text \<open>What a healthy run starts from: nothing fails, nobody is cancelled, fresh identifiers.\<close>

definition healthy :: "worker_env \<Rightarrow> 'c world \<Rightarrow> bool" where
  "healthy e w \<longleftrightarrow> e_flt e = no_faults \<and> e_publish e = None \<and> e_ctx e = (\<lambda>_. None) \<and>
     cb_state (w_cb w) \<noteq> StateOpen \<and> \<not> tbl_has rv_ID (e_rev e) (revisions (w_db w)) \<and>
     \<not> tbl_has ep_ID (e_ep e) (endpoints (w_db w))"

lemma on_transition:
  "e_flt e = no_faults \<Longrightarrow> dep did (w_db w) = Some x \<Longrightarrow> CanTransition (d_Status x) st \<Longrightarrow>
   on_db (transition e did st) w =
     (Inr (stamp st (e_now e) x), w\<lparr>w_db := set_deployment did (stamp st (e_now e)) (w_db w)\<rparr>)"
  by (simp add: on_db_def transition_healthy)

text \<open>The handler's copy \<open>d\<close> and the row agree but for the timestamp.\<close>

definition holds_row :: "Deployment \<Rightarrow> 'c world \<Rightarrow> bool" where
  "holds_row d w \<longleftrightarrow> (\<exists>u. dep (d_ID d) (w_db w) = Some (d\<lparr>d_UpdatedAt := u\<rparr>))"

lemma holds_rowE:
  assumes "holds_row d w"
  obtains u where "dep (d_ID d) (w_db w) = Some (d\<lparr>d_UpdatedAt := u\<rparr>)"
  using assms by (auto simp: holds_row_def)

lemma restart_healthy:
  assumes "e_flt e = no_faults" "holds_row d w" "d_Status d = DeploymentStopped"
  shows "\<exists>w'. restart_block e d w = (Inr (d\<lparr>d_Status := DeploymentPending\<rparr>), w') \<and>
    holds_row (d\<lparr>d_Status := DeploymentPending\<rparr>) w' \<and> healthy e w' = healthy e w \<and> w_pub w' = w_pub w \<and>
    revisions (w_db w') = revisions (w_db w) \<and> endpoints (w_db w') = endpoints (w_db w)"
proof -
  obtain u where u: "dep (d_ID d) (w_db w) = Some (d\<lparr>d_UpdatedAt := u\<rparr>)" using assms(2) by (rule holds_rowE)
  have t: "on_db (transition e (d_ID d) DeploymentPending) w = (Inr (stamp DeploymentPending (e_now e) (d\<lparr>d_UpdatedAt := u\<rparr>)),
      w\<lparr>w_db := set_deployment (d_ID d) (stamp DeploymentPending (e_now e)) (w_db w)\<rparr>)"
    by (rule on_transition[OF assms(1) u]) (simp add: assms(3) CanTransition_def)
  show ?thesis
    using assms(3) u by (simp add: restart_block_def tx_bind_def or_return_def t tx_return_def holds_row_def healthy_def tbl_find_update)
      auto
qed

lemma pending_healthy:
  assumes "e_flt e = no_faults \<and> \<not> tbl_has rv_ID (e_rev e) (revisions (w_db w))" "holds_row d w"
    "d_Status d = DeploymentPending"
  shows "\<exists>w' row. pending_block rt e cb d w = (Inr (d\<lparr>d_Status := DeploymentProvisioning\<rparr>), w') \<and>
    holds_row (d\<lparr>d_Status := DeploymentProvisioning\<rparr>) w' \<and> w_pub w' = w_pub w \<and>
    w_cb w' = w_cb w \<and> w_runtime w' = w_runtime w \<and> endpoints (w_db w') = endpoints (w_db w) \<and>
    revisions (w_db w') = revisions (w_db w) @ [row] \<and> rv_DeploymentID row = d_ID d \<and> rv_Spec row = specMap d"
proof -
  obtain u where u: "dep (d_ID d) (w_db w) = Some (d\<lparr>d_UpdatedAt := u\<rparr>)" using assms(2) by (rule holds_rowE)
  then have has: "tbl_has d_ID (d_ID d) (deployments (w_db w))"
    by (metis option.distinct(1) tbl_find_None tbl_has_iff)
  let ?row = "\<lparr>rv_ID = e_rev e, rv_DeploymentID = d_ID d, rv_Revision = max_revision (d_ID d) (w_db w) + 1,
      rv_Spec = specMap d, rv_CreatedAt = e_now e, rv_CreatedBy = nullableUUID cb\<rparr>"
  let ?w = "w\<lparr>w_db := (w_db w)\<lparr>revisions := tbl_insert ?row (revisions (w_db w))\<rparr>\<rparr>"
  have rev: "deployment_CreateRevision (e_flt e) (e_now e) (e_rev e) (d_ID d) (specMap d) cb (w_db w) = (Inr ?row, w_db ?w)"
    using assms(1) has by (simp add: deployment_CreateRevision_def tx_simps Let_def)
  have t: "on_db (transition e (d_ID d) DeploymentProvisioning) ?w =
     (Inr (stamp DeploymentProvisioning (e_now e) (d\<lparr>d_UpdatedAt := u\<rparr>)),
      ?w\<lparr>w_db := set_deployment (d_ID d) (stamp DeploymentProvisioning (e_now e)) (w_db ?w)\<rparr>)"
    using assms(1) u by (intro on_transition) (simp_all add: assms(3) CanTransition_def)
  let ?w2 = "?w\<lparr>w_db := set_deployment (d_ID d) (stamp DeploymentProvisioning (e_now e)) (w_db ?w)\<rparr>"
  have "pending_block rt e cb d w = (Inr (d\<lparr>d_Status := DeploymentProvisioning\<rparr>), ?w2)"
    using assms(3) t by (simp add: pending_block_def tx_bind_def or_return_def on_db_def rev or_fail_def tx_return_def)
  moreover have "holds_row (d\<lparr>d_Status := DeploymentProvisioning\<rparr>) ?w2"
    using u by (simp add: holds_row_def tbl_find_update) (rule exI[of _ "e_now e"], simp)
  ultimately show ?thesis
    using assms(1) by (intro exI[of _ ?w2] exI[of _ ?row]) (simp add: tbl_insert_def)
qed

lemma provisioning_healthy:
  assumes "e_flt e = no_faults" "e_ctx e = (\<lambda>_. None)" "cb_state (w_cb w) \<noteq> StateOpen" "holds_row d w"
    "d_Status d = DeploymentProvisioning"
  shows "\<exists>w'. provisioning_block mock_runtime e ref d w =
      (Inr (workload_ref (d_ID d), d\<lparr>d_Status := DeploymentStarting\<rparr>), w') \<and>
    holds_row (d\<lparr>d_Status := DeploymentStarting, d_WorkloadRef := workload_ref (d_ID d)\<rparr>) w' \<and> w_pub w' = w_pub w \<and>
    cb_state (w_cb w') \<noteq> StateOpen \<and> endpoints (w_db w') = endpoints (w_db w) \<and>
    revisions (w_db w') = revisions (w_db w)"
proof -
  let ?ref = "workload_ref (d_ID d)"
  obtain u where u: "dep (d_ID d) (w_db w) = Some (d\<lparr>d_UpdatedAt := u\<rparr>)" using assms(4) by (rule holds_rowE)
  let ?w1 = "w\<lparr>w_cb := (w_cb w)\<lparr>cb_failures := 0, cb_state := StateClosed\<rparr>, w_runtime := (w_runtime w)(d_ID d \<mapsto> ?ref)\<rparr>"
  have probe: "cbProbe e ''capacity'' (call_RequestCapacity mock_runtime d) ref w = (None, ?ref, ?w1)"
    by (rule cbProbe_healthy) (simp_all add: call_RequestCapacity_def mock_runtime_def mock_RequestCapacity_def assms)
  let ?w2 = "?w1\<lparr>w_db := set_deployment (d_ID d) (\<lambda>x. x\<lparr>d_WorkloadRef := ?ref, d_UpdatedAt := e_now e\<rparr>) (w_db w)\<rparr>"
  have set: "on_db (deployment_SetWorkloadRef (e_flt e) (e_now e) (d_ID d) ?ref) ?w1 = (Inr (), ?w2)"
    by (simp add: on_db_def deployment_SetWorkloadRef_def assms(1) tx_simps)
  let ?x = "d\<lparr>d_WorkloadRef := ?ref, d_UpdatedAt := e_now e\<rparr>"
  have row: "dep (d_ID d) (w_db ?w2) = Some ?x" using u by (simp add: tbl_find_update)
  let ?w3 = "?w2\<lparr>w_db := set_deployment (d_ID d) (stamp DeploymentStarting (e_now e)) (w_db ?w2)\<rparr>"
  have t: "on_db (transition e (d_ID d) DeploymentStarting) ?w2 = (Inr (stamp DeploymentStarting (e_now e) ?x), ?w3)"
    by (rule on_transition[OF assms(1) row]) (simp add: assms(5) CanTransition_def)
  have "provisioning_block mock_runtime e ref d w = (Inr (?ref, d\<lparr>d_Status := DeploymentStarting\<rparr>), ?w3)"
    unfolding provisioning_block_def tx_bind_def or_fail_probe_def or_fail_def
    by (simp only: assms(5) probe set t if_True simp_thms prod.case sum.case option.case tx_return_def)
  moreover have "holds_row (d\<lparr>d_Status := DeploymentStarting, d_WorkloadRef := ?ref\<rparr>) ?w3"
    using u by (simp add: holds_row_def tbl_find_update) (rule exI[of _ "e_now e"], simp)
  ultimately show ?thesis by (intro exI[of _ ?w3]) simp
qed

lemma to_ready_healthy:
  assumes "e_flt e = no_faults" "holds_row d0 w" "d_ID d = d_ID d0" "CanTransition (d_Status d0) DeploymentReady"
  shows "\<exists>w'. or_fail rt e d [] (transition e (d_ID d) DeploymentReady) w =
      (Inr (stamp DeploymentReady (e_now e) d0), w') \<and> holds_row (d0\<lparr>d_Status := DeploymentReady\<rparr>) w' \<and>
    w_pub w' = w_pub w \<and> w_cb w' = w_cb w \<and> endpoints (w_db w') = endpoints (w_db w) \<and>
    revisions (w_db w') = revisions (w_db w)"
proof -
  obtain u where u: "dep (d_ID d0) (w_db w) = Some (d0\<lparr>d_UpdatedAt := u\<rparr>)" using assms(2) by (rule holds_rowE)
  let ?w3 = "w\<lparr>w_db := set_deployment (d_ID d0) (stamp DeploymentReady (e_now e)) (w_db w)\<rparr>"
  have t: "on_db (transition e (d_ID d0) DeploymentReady) w = (Inr (stamp DeploymentReady (e_now e) (d0\<lparr>d_UpdatedAt := u\<rparr>)), ?w3)"
    by (rule on_transition[OF assms(1) u]) (simp add: assms(4))
  have "holds_row (d0\<lparr>d_Status := DeploymentReady\<rparr>) ?w3"
    using u by (simp add: holds_row_def tbl_find_update) (rule exI[of _ "e_now e"], simp)
  then show ?thesis using t by (intro exI[of _ ?w3]) (simp add: or_fail_def assms(3))
qed

lemma starting_healthy:
  assumes "e_flt e = no_faults" "e_ctx e = (\<lambda>_. None)" "cb_state (w_cb w) \<noteq> StateOpen" "holds_row d0 w"
    "d_ID d = d_ID d0" "d_Status d = DeploymentStarting" "d_Status d0 = DeploymentStarting" "adapter_validate d = None"
  shows "\<exists>w'. starting_block mock_runtime e d w = (Inr (), w') \<and> holds_row (d0\<lparr>d_Status := DeploymentReady\<rparr>) w' \<and>
    w_pub w' = w_pub w \<and> endpoints (w_db w') = endpoints (w_db w) \<and> revisions (w_db w') = revisions (w_db w)"
proof -
  let ?w1 = "w\<lparr>w_cb := (w_cb w)\<lparr>cb_failures := 0, cb_state := StateClosed\<rparr>, w_runtime := w_runtime w\<rparr>"
  have probe: "cbProbe e ''start'' (call_Start mock_runtime d) [] w = (None, [], ?w1)"
    by (rule cbProbe_healthy) (simp_all add: call_Start_def mock_runtime_def adapter_Start_def to_attempt_def assms)
  have "holds_row d0 ?w1" using assms(4) by (simp add: holds_row_def)
  from to_ready_healthy[OF assms(1) this assms(5)]
  obtain w2 where w2: "or_fail mock_runtime e d [] (transition e (d_ID d) DeploymentReady) ?w1 = (Inr (stamp DeploymentReady (e_now e) d0), w2)"
    "holds_row (d0\<lparr>d_Status := DeploymentReady\<rparr>) w2" "w_pub w2 = w_pub w" "endpoints (w_db w2) = endpoints (w_db w)"
    "revisions (w_db w2) = revisions (w_db w)"
    using assms(7) by (auto simp: CanTransition_def)
  have "starting_block mock_runtime e d w = (Inr (), w2)"
    unfolding starting_block_def tx_bind_def or_fail_probe_def
    by (simp only: assms(6) probe w2(1) if_True simp_thms prod.case sum.case option.case tx_return_def)
  with w2 show ?thesis by blast
qed

text \<open>The last three blocks, from the states in which only they have work to do.\<close>

definition up_to_ready :: "'c runtime \<Rightarrow> worker_env \<Rightarrow> Deployment \<Rightarrow> ('c, unit) worker" where
  "up_to_ready rt e d = tx_bind (starting_block rt e d) (\<lambda>_. degraded_block rt e d)"

lemma up_to_ready_healthy:
  assumes "e_flt e = no_faults" "e_ctx e = (\<lambda>_. None)" "cb_state (w_cb w) \<noteq> StateOpen" "holds_row d0 w"
    "d_ID d = d_ID d0" "d_Status d0 = d_Status d" "d_Status d \<in> {DeploymentStarting, DeploymentDegraded}"
    "adapter_validate d = None"
  shows "\<exists>w'. up_to_ready mock_runtime e d w = (Inr (), w') \<and> holds_row (d0\<lparr>d_Status := DeploymentReady\<rparr>) w' \<and>
    w_pub w' = w_pub w \<and> endpoints (w_db w') = endpoints (w_db w) \<and> revisions (w_db w') = revisions (w_db w)"
proof (cases "d_Status d = DeploymentStarting")
  case True
  obtain w' where "starting_block mock_runtime e d w = (Inr (), w')" "holds_row (d0\<lparr>d_Status := DeploymentReady\<rparr>) w'"
    "w_pub w' = w_pub w" "endpoints (w_db w') = endpoints (w_db w)" "revisions (w_db w') = revisions (w_db w)"
    using starting_healthy[of e w d0 d] assms True by auto
  then show ?thesis using True by (simp add: up_to_ready_def tx_bind_def degraded_block_def tx_return_def)
next
  case False
  then have "d_Status d = DeploymentDegraded" using assms(7) by simp
  moreover from this obtain w' where "or_fail mock_runtime e d [] (transition e (d_ID d) DeploymentReady) w =
      (Inr (stamp DeploymentReady (e_now e) d0), w')" "holds_row (d0\<lparr>d_Status := DeploymentReady\<rparr>) w'"
    "w_pub w' = w_pub w" "endpoints (w_db w') = endpoints (w_db w)" "revisions (w_db w') = revisions (w_db w)"
    using to_ready_healthy[OF assms(1,4,5)] assms(6) by (auto simp: CanTransition_def)
  ultimately show ?thesis by (simp add: up_to_ready_def tx_bind_def starting_block_def degraded_block_def tx_return_def)
qed

lemma created_blocks_up:
  "created_blocks rt e cb d w =
     tx_bind (restart_block e d) (\<lambda>d1. tx_bind (pending_block rt e cb d1) (\<lambda>d2.
     tx_bind (provisioning_block rt e (d_WorkloadRef d) d2) (\<lambda>(ref, d3).
     tx_bind (up_to_ready rt e d3) (\<lambda>_. tx_return (ref, d3))))) w"
proof -
  have "tx_bind (up_to_ready rt e d3) f w = tx_bind (starting_block rt e d3) (\<lambda>_. tx_bind (degraded_block rt e d3) f) w"
    for d3 w and f :: "unit \<Rightarrow> ('a, string \<times> Deployment) worker"
    by (auto simp: up_to_ready_def tx_bind_def split: prod.splits sum.splits)
  then show ?thesis by (simp add: created_blocks_def tx_bind_def split: prod.splits sum.splits)
qed

text \<open>The blocks from PROVISIONING on, over a handler copy \<open>d\<close>.\<close>

lemma from_provisioning:
  assumes "e_flt e = no_faults" "e_ctx e = (\<lambda>_. None)" "cb_state (w_cb w) \<noteq> StateOpen" "holds_row d w"
    "d_Status d \<in> {DeploymentProvisioning, DeploymentStarting, DeploymentDegraded}" "adapter_validate d = None"
  shows "\<exists>w' d3 ref. tx_bind (provisioning_block mock_runtime e (d_WorkloadRef d) d) (\<lambda>(ref, d3).
       tx_bind (up_to_ready mock_runtime e d3) (\<lambda>_. tx_return (ref, d3))) w = (Inr (ref, d3), w') \<and>
     d_ID d3 = d_ID d \<and> d_TenantID d3 = d_TenantID d \<and>
     ref = (if d_Status d = DeploymentProvisioning then workload_ref (d_ID d) else d_WorkloadRef d) \<and>
     holds_row (d\<lparr>d_WorkloadRef := ref, d_Status := DeploymentReady\<rparr>) w' \<and> w_pub w' = w_pub w \<and>
     endpoints (w_db w') = endpoints (w_db w) \<and> revisions (w_db w') = revisions (w_db w)"
proof (cases "d_Status d = DeploymentProvisioning")
  case True
  let ?ref = "workload_ref (d_ID d)" and ?d3 = "d\<lparr>d_Status := DeploymentStarting\<rparr>"
  obtain w1 where p: "provisioning_block mock_runtime e (d_WorkloadRef d) d w = (Inr (?ref, ?d3), w1)"
    "holds_row (d\<lparr>d_Status := DeploymentStarting, d_WorkloadRef := ?ref\<rparr>) w1" "w_pub w1 = w_pub w"
    "cb_state (w_cb w1) \<noteq> StateOpen" "endpoints (w_db w1) = endpoints (w_db w)"
    "revisions (w_db w1) = revisions (w_db w)"
    using provisioning_healthy[OF assms(1-4) True] by blast
  obtain w2 where "up_to_ready mock_runtime e ?d3 w1 = (Inr (), w2)"
    "holds_row ((d\<lparr>d_Status := DeploymentStarting, d_WorkloadRef := ?ref\<rparr>)\<lparr>d_Status := DeploymentReady\<rparr>) w2"
    "w_pub w2 = w_pub w1" "endpoints (w_db w2) = endpoints (w_db w1)" "revisions (w_db w2) = revisions (w_db w1)"
    using up_to_ready_healthy[OF assms(1,2) p(4,2), of ?d3] assms(6) by (auto simp: adapter_validate_def)
  with p True show ?thesis
    by (intro exI[of _ w2] exI[of _ ?d3] exI[of _ ?ref]) (simp add: tx_bind_def tx_return_def)
next
  case False
  obtain w2 where "up_to_ready mock_runtime e d w = (Inr (), w2)" "holds_row (d\<lparr>d_Status := DeploymentReady\<rparr>) w2"
    "w_pub w2 = w_pub w" "endpoints (w_db w2) = endpoints (w_db w)" "revisions (w_db w2) = revisions (w_db w)"
    using up_to_ready_healthy[OF assms(1-4) refl refl _ assms(6)] False assms(5) by auto
  with False show ?thesis
    by (intro exI[of _ w2] exI[of _ d] exI[of _ "d_WorkloadRef d"])
      (simp add: provisioning_block_def tx_bind_def tx_return_def holds_row_def)
qed

lemma from_pending:
  assumes "healthy e w" "holds_row d w" "adapter_validate d = None"
    "d_Status d \<in> {DeploymentPending, DeploymentProvisioning, DeploymentStarting, DeploymentDegraded}"
  shows "\<exists>w' d3 ref. tx_bind (pending_block mock_runtime e cb d) (\<lambda>d2.
       tx_bind (provisioning_block mock_runtime e (d_WorkloadRef d) d2) (\<lambda>(ref, d3).
       tx_bind (up_to_ready mock_runtime e d3) (\<lambda>_. tx_return (ref, d3)))) w = (Inr (ref, d3), w') \<and>
     d_ID d3 = d_ID d \<and> d_TenantID d3 = d_TenantID d \<and>
     ref = (if d_Status d \<in> {DeploymentPending, DeploymentProvisioning} then workload_ref (d_ID d) else d_WorkloadRef d) \<and>
     holds_row (d\<lparr>d_WorkloadRef := ref, d_Status := DeploymentReady\<rparr>) w' \<and> w_pub w' = w_pub w \<and>
     endpoints (w_db w') = endpoints (w_db w) \<and>
     (if d_Status d = DeploymentPending
      then \<exists>row. revisions (w_db w') = revisions (w_db w) @ [row] \<and> rv_DeploymentID row = d_ID d \<and> rv_Spec row = specMap d
      else revisions (w_db w') = revisions (w_db w))"
proof (cases "d_Status d = DeploymentPending")
  case True
  let ?d2 = "d\<lparr>d_Status := DeploymentProvisioning\<rparr>"
  obtain w1 row where p: "pending_block mock_runtime e cb d w = (Inr ?d2, w1)" "holds_row ?d2 w1" "w_pub w1 = w_pub w"
    "w_cb w1 = w_cb w" "endpoints (w_db w1) = endpoints (w_db w)"
    "revisions (w_db w1) = revisions (w_db w) @ [row]" "rv_DeploymentID row = d_ID d" "rv_Spec row = specMap d"
    using pending_healthy[OF _ assms(2) True, of e mock_runtime cb] assms(1) unfolding healthy_def by blast
  have cb: "e_flt e = no_faults" "e_ctx e = (\<lambda>_. None)" "cb_state (w_cb w1) \<noteq> StateOpen"
    using p(4) assms(1) by (simp_all add: healthy_def)
  obtain w' d3 ref where "tx_bind (provisioning_block mock_runtime e (d_WorkloadRef d) ?d2) (\<lambda>(ref, d3).
       tx_bind (up_to_ready mock_runtime e d3) (\<lambda>_. tx_return (ref, d3))) w1 = (Inr (ref, d3), w')"
     "d_ID d3 = d_ID d" "d_TenantID d3 = d_TenantID d" "ref = workload_ref (d_ID d)"
     "holds_row (d\<lparr>d_WorkloadRef := ref, d_Status := DeploymentReady\<rparr>) w'" "w_pub w' = w_pub w1"
     "endpoints (w_db w') = endpoints (w_db w1)" "revisions (w_db w') = revisions (w_db w1)"
    using from_provisioning[OF cb p(2)] assms(3) by (auto simp: adapter_validate_def)
  with p True show ?thesis
    by (intro exI[of _ w'] exI[of _ d3] exI[of _ ref]) (simp add: tx_bind_def[of "pending_block _ _ _ _"])
next
  case False
  have env: "e_flt e = no_faults" "e_ctx e = (\<lambda>_. None)" "cb_state (w_cb w) \<noteq> StateOpen"
    using assms(1) by (simp_all add: healthy_def)
  have st: "d_Status d \<in> {DeploymentProvisioning, DeploymentStarting, DeploymentDegraded}" using False assms(4) by simp
  have skip: "tx_bind (pending_block mock_runtime e cb d) f w = f d w" for f :: "Deployment \<Rightarrow> (workloads, string \<times> Deployment) worker"
    using False by (simp add: pending_block_def tx_bind_def tx_return_def)
  show ?thesis using from_provisioning[OF env assms(2) st assms(3)] False unfolding skip by (auto split: if_splits)
qed

lemma announce_healthy:
  assumes "e_flt e = no_faults" "e_publish e = None" "\<not> tbl_has ep_ID (e_ep e) (endpoints (w_db w))"
    "dep (d_ID d) (w_db w) = Some x"
  shows "announce_ready e d ref w = (None, w\<lparr>w_db := (w_db w)\<lparr>endpoints := endpoints (w_db w) @
      [\<lparr>ep_ID = e_ep e, ep_DeploymentID = d_ID d, ep_Path = endpointPath (d_ID d), ep_Protocol = ''openai'',
        ep_Status = ''ACTIVE'', ep_CreatedAt = e_now e\<rparr>]\<rparr>,
      w_pub := w_pub w @ [worker_event e TypeDeploymentReady d [(''workload_ref'', JStr ref)]]\<rparr>)"
proof -
  have "tbl_has d_ID (d_ID d) (deployments (w_db w))"
    using assms(4) by (metis option.distinct(1) tbl_find_None tbl_has_iff)
  then show ?thesis using assms(1-3)
    by (simp add: announce_ready_def on_db_def svc_CreateEndpoint_def deployment_CreateEndpoint_def tx_simps Let_def
        worker_publish_def tbl_insert_def)
qed

text \<open>
  C7: A created event brings every resumable deployment to READY. In a healthy environment (no statement
  fails, the breaker is not open, the specification is valid) the delivery of a created event for a
  deployment in PENDING, PROVISIONING, STARTING, DEGRADED or STOPPED succeeds; the row ends READY with
  its workload reference (requested unless provisioning had already passed), a revision with the
  specification is recorded when it started from PENDING or STOPPED, the endpoint row is added and one
  deployment\_ready event is published.
\<close>

theorem created_event_brings_deployment_up:
  assumes "healthy e w" "ev_Type ev = TypeDeploymentCreated" "dep (ev_ResourceID ev) (w_db w) = Some d"
    "d_Status d \<in> {DeploymentPending, DeploymentProvisioning, DeploymentStarting, DeploymentDegraded, DeploymentStopped}"
    "adapter_validate d = None"
  shows "\<exists>w' d' ref. worker_handle mock_runtime e ev w = (None, w') \<and>
     dep (ev_ResourceID ev) (w_db w') = Some d' \<and> d_Status d' = DeploymentReady \<and> d_WorkloadRef d' = ref \<and>
     ref = (if d_Status d \<in> {DeploymentStarting, DeploymentDegraded} then d_WorkloadRef d else ''mock-wl-'' @ d_ID d) \<and>
     endpoints (w_db w') = endpoints (w_db w) @ [\<lparr>ep_ID = e_ep e, ep_DeploymentID = d_ID d,
        ep_Path = ''/v1/chat/completions/'' @ d_ID d, ep_Protocol = ''openai'', ep_Status = ''ACTIVE'', ep_CreatedAt = e_now e\<rparr>] \<and>
     w_pub w' = w_pub w @ [worker_event e TypeDeploymentReady d [(''workload_ref'', JStr ref)]] \<and>
     (if d_Status d \<in> {DeploymentPending, DeploymentStopped}
      then \<exists>row. revisions (w_db w') = revisions (w_db w) @ [row] \<and> rv_DeploymentID row = d_ID d \<and> rv_Spec row = specMap d
      else revisions (w_db w') = revisions (w_db w))"
proof -
  have id: "d_ID d = ev_ResourceID ev" using tbl_find_SomeD[OF assms(3)] by simp
  have row: "holds_row d w" unfolding holds_row_def id by (rule exI[of _ "d_UpdatedAt d"]) (simp add: assms(3))
  let ?cb = "payload_string ''created_by'' (ev_Payload ev)"
  let ?ref = "if d_Status d \<in> {DeploymentStarting, DeploymentDegraded} then d_WorkloadRef d else workload_ref (d_ID d)"
  have "\<exists>w' d3. created_blocks mock_runtime e ?cb d w = (Inr (?ref, d3), w') \<and>
     d_ID d3 = d_ID d \<and> d_TenantID d3 = d_TenantID d \<and>
     holds_row (d\<lparr>d_WorkloadRef := ?ref, d_Status := DeploymentReady\<rparr>) w' \<and> w_pub w' = w_pub w \<and>
     endpoints (w_db w') = endpoints (w_db w) \<and>
     (if d_Status d \<in> {DeploymentPending, DeploymentStopped}
      then \<exists>row. revisions (w_db w') = revisions (w_db w) @ [row] \<and> rv_DeploymentID row = d_ID d \<and> rv_Spec row = specMap d
      else revisions (w_db w') = revisions (w_db w))"
  proof (cases "d_Status d = DeploymentStopped")
    case True
    let ?d1 = "d\<lparr>d_Status := DeploymentPending\<rparr>"
    have flt: "e_flt e = no_faults" using assms(1) by (simp add: healthy_def)
    obtain w1 where p: "restart_block e d w = (Inr ?d1, w1)" "holds_row ?d1 w1" "healthy e w1" "w_pub w1 = w_pub w"
      "revisions (w_db w1) = revisions (w_db w)" "endpoints (w_db w1) = endpoints (w_db w)"
      using restart_healthy[OF flt row True] assms(1) by metis
    have "adapter_validate ?d1 = None" using assms(5) by (simp add: adapter_validate_def)
    then obtain w' d3 row where q: "tx_bind (pending_block mock_runtime e ?cb ?d1) (\<lambda>d2.
       tx_bind (provisioning_block mock_runtime e (d_WorkloadRef ?d1) d2) (\<lambda>(ref, d3).
       tx_bind (up_to_ready mock_runtime e d3) (\<lambda>_. tx_return (ref, d3)))) w1 = (Inr (workload_ref (d_ID d), d3), w')"
      "d_ID d3 = d_ID d" "d_TenantID d3 = d_TenantID d"
      "holds_row (d\<lparr>d_WorkloadRef := workload_ref (d_ID d), d_Status := DeploymentReady\<rparr>) w'" "w_pub w' = w_pub w1"
      "endpoints (w_db w') = endpoints (w_db w1)" "revisions (w_db w') = revisions (w_db w1) @ [row]"
      "rv_DeploymentID row = d_ID d" "rv_Spec row = specMap ?d1"
      using from_pending[OF p(3,2), of ?cb] by auto
    have "created_blocks mock_runtime e ?cb d w = (Inr (workload_ref (d_ID d), d3), w')"
      using p(1) q(1) by (simp add: created_blocks_up tx_bind_def[of "restart_block _ _"])
    moreover have "specMap ?d1 = specMap d" by (simp add: specMap_def)
    ultimately show ?thesis using p q True by auto
  next
    case False
    then have st: "d_Status d \<in> {DeploymentPending, DeploymentProvisioning, DeploymentStarting, DeploymentDegraded}"
      using assms(4) by simp
    have skip: "tx_bind (restart_block e d) f w = f d w" for f :: "Deployment \<Rightarrow> (workloads, string \<times> Deployment) worker"
      using False by (simp add: restart_block_def tx_bind_def tx_return_def)
    show ?thesis using from_pending[OF assms(1) row assms(5) st, of ?cb] False st
      unfolding created_blocks_up skip by (auto split: if_splits)
  qed
  then obtain w' d3 where b: "created_blocks mock_runtime e ?cb d w = (Inr (?ref, d3), w')" "d_ID d3 = d_ID d"
     "d_TenantID d3 = d_TenantID d" "holds_row (d\<lparr>d_WorkloadRef := ?ref, d_Status := DeploymentReady\<rparr>) w'"
     "w_pub w' = w_pub w" "endpoints (w_db w') = endpoints (w_db w)" and
     revs: "if d_Status d \<in> {DeploymentPending, DeploymentStopped}
      then \<exists>row. revisions (w_db w') = revisions (w_db w) @ [row] \<and> rv_DeploymentID row = d_ID d \<and> rv_Spec row = specMap d
      else revisions (w_db w') = revisions (w_db w)" by blast
  obtain u where u: "dep (d_ID d) (w_db w') = Some (d\<lparr>d_WorkloadRef := ?ref, d_Status := DeploymentReady, d_UpdatedAt := u\<rparr>)"
    using holds_rowE[OF b(4)] by auto
  have load: "on_db (deployment_Get (e_flt e) ''load'' (ev_ResourceID ev)) w = (Inr d, w)"
    using assms(1,3) by (simp add: on_db_def deployment_Get_def healthy_def tx_simps)
  let ?w2 = "w'\<lparr>w_db := (w_db w')\<lparr>endpoints := endpoints (w_db w') @
      [\<lparr>ep_ID = e_ep e, ep_DeploymentID = d_ID d3, ep_Path = endpointPath (d_ID d3), ep_Protocol = ''openai'',
        ep_Status = ''ACTIVE'', ep_CreatedAt = e_now e\<rparr>]\<rparr>,
      w_pub := w_pub w' @ [worker_event e TypeDeploymentReady d3 [(''workload_ref'', JStr ?ref)]]\<rparr>"
  have ann: "announce_ready e d3 ?ref w' = (None, ?w2)"
    using assms(1) b(2,6) u by (intro announce_healthy) (simp_all add: healthy_def)
  have st: "d_Status d \<notin> {DeploymentReady, DeploymentFailed, DeploymentStopping}" using assms(4) by auto
  have "worker_handle mock_runtime e ev w = (None, ?w2)"
    unfolding worker_handle_def onCreated_def load prod.case sum.case b(1) ann using assms(2) st by simp
  moreover have "worker_event e TypeDeploymentReady d3 p = worker_event e TypeDeploymentReady d p" for p
    by (simp add: worker_event_def b(2,3))
  moreover have "workload_ref (d_ID d) = ''mock-wl-'' @ d_ID d" "endpointPath (d_ID d3) = ''/v1/chat/completions/'' @ d_ID d"
    by (simp_all add: workload_ref_def endpointPath_def b(2))
  moreover have "dep (ev_ResourceID ev) (w_db ?w2) = Some (d\<lparr>d_WorkloadRef := ?ref, d_Status := DeploymentReady, d_UpdatedAt := u\<rparr>)"
    using u id by simp
  ultimately show ?thesis
    using b(2,5,6) revs
    by (intro exI[of _ ?w2] exI[of _ "d\<lparr>d_WorkloadRef := ?ref, d_Status := DeploymentReady, d_UpdatedAt := u\<rparr>"] exI[of _ ?ref]) simp
qed

theorem created_event_brings_deployment_up_witness:
  "\<exists>w' d'. worker_handle mock_runtime calm created_event created_world = (None, w') \<and>
     dep ''d1'' (w_db w') = Some d' \<and> d_Status d' = DeploymentReady \<and> d_WorkloadRef d' = ''mock-wl-d1''"
proof -
  let ?d = "(sample_deployment DeploymentPending)\<lparr>d_CreatedAt := 5, d_UpdatedAt := 5\<rparr>"
  have r: "ev_ResourceID created_event = ''d1''" "ev_Type created_event = TypeDeploymentCreated"
    by (simp_all add: created_event_def NewEvent_def)
  have h: "healthy calm created_world"
    unfolding healthy_def calm_def worker_env.select_convs by (intro conjI refl) code_simp+
  have d: "dep (ev_ResourceID created_event) (w_db created_world) = Some ?d" unfolding r by code_simp
  have "d_Status ?d \<in> {DeploymentPending, DeploymentProvisioning, DeploymentStarting, DeploymentDegraded, DeploymentStopped}"
    "adapter_validate ?d = None" by code_simp+
  from created_event_brings_deployment_up[OF h r(2) d this] show ?thesis
    unfolding r by (simp add: sample_deployment_def) blast
qed

section \<open>Failing fast\<close>

lemma fail_healthy:
  assumes "e_flt e = no_faults" "dep (d_ID d) (w_db w) = Some x" "CanTransition (d_Status x) DeploymentFailed"
  shows "\<exists>w'. worker_fail rt e d cause w = (e_publish e, w') \<and> dep (d_ID d) (w_db w') = Some (stamp DeploymentFailed (e_now e) x) \<and>
    w_runtime w' = snd (rt_ReleaseCapacity rt d (w_runtime w)) \<and> w_cb w' = w_cb w \<and>
    (e_publish e = None \<longrightarrow> w_pub w' = w_pub w @ [worker_event e TypeDeploymentFailed d [(''error'', JStr cause)]])"
proof -
  let ?w1 = "w\<lparr>w_runtime := snd (rt_ReleaseCapacity rt d (w_runtime w))\<rparr>"
  let ?w2 = "?w1\<lparr>w_db := set_deployment (d_ID d) (stamp DeploymentFailed (e_now e)) (w_db w)\<rparr>"
  have t: "on_db (transition e (d_ID d) DeploymentFailed) ?w1 = (Inr (stamp DeploymentFailed (e_now e) x), ?w2)"
    using on_transition[of e "d_ID d" ?w1 x DeploymentFailed] assms by simp
  have "dep (d_ID d) (w_db ?w2) = Some (stamp DeploymentFailed (e_now e) x)" using assms(2) by (simp add: tbl_find_update)
  then show ?thesis
    unfolding worker_fail_def Let_def t prod.case sum.case by (cases "e_publish e") (auto simp: worker_publish_def)
qed

lemma cbProbe_open:
  assumes "cb_state (w_cb w) = StateOpen" "e_t0 e name - cb_openedAt (w_cb w) < cb_cooldown (w_cb w)"
  shows "cbProbe e name fn ref w = (Some ''circuit breaker open'', ref, w)"
  using assms by (simp add: cbProbe_def cb_Call_def cb_begin_def call_text_def)

text \<open>
  While the breaker is open, a deployment fails fast: the created event of a PENDING or PROVISIONING
  deployment ends with the row FAILED, no capacity was requested (the runtime only sees the release), the
  breaker is untouched, and deployment\_failed with the reason is published. FAILED is final
  (\<open>worker\_follows\_state\_machine\<close>): the deployment is not retried when the breaker closes again.
\<close>

theorem open_breaker_fails_deployment:
  assumes "e_flt e = no_faults" "\<not> tbl_has rv_ID (e_rev e) (revisions (w_db w))"
    "ev_Type ev = TypeDeploymentCreated" "dep (ev_ResourceID ev) (w_db w) = Some d"
    "d_Status d \<in> {DeploymentPending, DeploymentProvisioning}"
    "cb_state (w_cb w) = StateOpen" "e_t0 e ''capacity'' - cb_openedAt (w_cb w) < cb_cooldown (w_cb w)"
  shows "\<exists>w' d' held. worker_handle rt e ev w = (e_publish e, w') \<and> dep (ev_ResourceID ev) (w_db w') = Some d' \<and>
    d_Status d' = DeploymentFailed \<and> w_runtime w' = snd (rt_ReleaseCapacity rt held (w_runtime w)) \<and>
    d_ID held = d_ID d \<and> w_cb w' = w_cb w \<and>
    (e_publish e = None \<longrightarrow> w_pub w' = w_pub w @
       [worker_event e TypeDeploymentFailed d [(''error'', JStr ''request capacity: circuit breaker open'')]])"
proof -
  have id: "d_ID d = ev_ResourceID ev" using tbl_find_SomeD[OF assms(4)] by simp
  have row: "holds_row d w" unfolding holds_row_def id by (rule exI[of _ "d_UpdatedAt d"]) (simp add: assms(4))
  let ?cb = "payload_string ''created_by'' (ev_Payload ev)" and ?d2 = "d\<lparr>d_Status := DeploymentProvisioning\<rparr>"
  have "\<exists>w1. pending_block rt e ?cb d w = (Inr ?d2, w1) \<and> holds_row ?d2 w1 \<and> w_pub w1 = w_pub w \<and> w_cb w1 = w_cb w \<and>
      w_runtime w1 = w_runtime w"
  proof (cases "d_Status d = DeploymentPending")
    case True
    then show ?thesis using pending_healthy[OF _ row True, of e rt ?cb] assms(1,2) by blast
  next
    case False
    then have "?d2 = d" using assms(5) by (cases d) simp
    then show ?thesis using row False by (simp add: pending_block_def tx_return_def)
  qed
  then obtain w1 where w1: "pending_block rt e ?cb d w = (Inr ?d2, w1)" "holds_row ?d2 w1" "w_pub w1 = w_pub w"
    "w_cb w1 = w_cb w" "w_runtime w1 = w_runtime w" by blast
  obtain u where u: "dep (d_ID ?d2) (w_db w1) = Some (?d2\<lparr>d_UpdatedAt := u\<rparr>)" using w1(2) by (rule holds_rowE)
  obtain w' where f: "worker_fail rt e ?d2 ''request capacity: circuit breaker open'' w1 = (e_publish e, w')"
    "dep (d_ID ?d2) (w_db w') = Some (stamp DeploymentFailed (e_now e) (?d2\<lparr>d_UpdatedAt := u\<rparr>))"
    "w_runtime w' = snd (rt_ReleaseCapacity rt ?d2 (w_runtime w1))" "w_cb w' = w_cb w1"
    "e_publish e = None \<longrightarrow> w_pub w' = w_pub w1 @ [worker_event e TypeDeploymentFailed ?d2
        [(''error'', JStr ''request capacity: circuit breaker open'')]]"
    using fail_healthy[OF assms(1) u, of rt "''request capacity: circuit breaker open''"] by (auto simp: CanTransition_def)
  have probe: "cbProbe e ''capacity'' fn ref w1 = (Some ''circuit breaker open'', ref, w1)" for fn ref
    using assms(6,7) by (intro cbProbe_open) (simp_all add: w1(4))
  have load: "on_db (deployment_Get (e_flt e) ''load'' (ev_ResourceID ev)) w = (Inr d, w)"
    using assms(1,4) by (simp add: on_db_def deployment_Get_def tx_simps)
  have r: "restart_block e d w = (Inr d, w)" using assms(5) by (auto simp: restart_block_def tx_return_def)
  have prov: "provisioning_block rt e ref ?d2 w1 = (Inl (e_publish e), w')" for ref
  proof -
    have "d_Status ?d2 = DeploymentProvisioning" by simp
    moreover have "''request capacity: '' @ ''circuit breaker open'' = ''request capacity: circuit breaker open''" by simp
    ultimately show ?thesis
      unfolding provisioning_block_def tx_bind_def or_fail_probe_def
      by (simp only: if_True simp_thms probe prod.case option.case return_fail_def f(1) sum.case)
  qed
  have "created_blocks rt e ?cb d w = (Inl (e_publish e), w')"
    unfolding created_blocks_def tx_bind_def r prod.case sum.case w1(1) prov ..
  moreover have "d_Status d \<notin> {DeploymentReady, DeploymentFailed, DeploymentStopping}" using assms(5) by auto
  ultimately have "worker_handle rt e ev w = (e_publish e, w')"
    unfolding worker_handle_def onCreated_def load prod.case sum.case using assms(3) by simp
  moreover have "worker_event e TypeDeploymentFailed ?d2 p = worker_event e TypeDeploymentFailed d p" for p
    by (simp add: worker_event_def)
  ultimately show ?thesis
    using f(2-5) w1(3-5) id by (intro exI[of _ w'] exI[of _ "stamp DeploymentFailed (e_now e) (?d2\<lparr>d_UpdatedAt := u\<rparr>)"]
      exI[of _ ?d2]) simp
qed

definition tripped_world :: "workloads world" where
  "tripped_world = created_world\<lparr>w_cb := worker_breaker\<lparr>cb_state := StateOpen, cb_openedAt := 50\<rparr>\<rparr>"

theorem open_breaker_fails_deployment_witness:
  "\<exists>w' d'. worker_handle mock_runtime calm created_event tripped_world = (None, w') \<and>
     dep ''d1'' (w_db w') = Some d' \<and> d_Status d' = DeploymentFailed"
proof -
  let ?d = "(sample_deployment DeploymentPending)\<lparr>d_CreatedAt := 5, d_UpdatedAt := 5\<rparr>"
  have r: "ev_ResourceID created_event = ''d1''" "ev_Type created_event = TypeDeploymentCreated" "e_publish calm = None"
    "e_flt calm = no_faults"
    by (simp_all add: created_event_def NewEvent_def calm_def)
  have d: "dep (ev_ResourceID created_event) (w_db tripped_world) = Some ?d" unfolding r by code_simp
  have "\<not> tbl_has rv_ID (e_rev calm) (revisions (w_db tripped_world))"
    "d_Status ?d \<in> {DeploymentPending, DeploymentProvisioning}"
    "cb_state (w_cb tripped_world) = StateOpen"
    "e_t0 calm ''capacity'' - cb_openedAt (w_cb tripped_world) < cb_cooldown (w_cb tripped_world)" by code_simp+
  note x = open_breaker_fails_deployment[OF r(4) this(1) r(2) d this(2-4), of mock_runtime]
  then show ?thesis unfolding r by blast
qed

section \<open>Stopping\<close>

lemma stop_request_outcome_parts:
  assumes "e_flt e = no_faults" "ev_Type ev = TypeDeploymentStopRequested" "dep (ev_ResourceID ev) (w_db w) = Some d"
  shows "d_Status d \<notin> {DeploymentReady, DeploymentDegraded} \<Longrightarrow> worker_handle rt e ev w = (None, w)"
    "d_Status d \<in> {DeploymentReady, DeploymentDegraded} \<Longrightarrow> rt_Stop rt d (w_runtime w) = (None, c) \<Longrightarrow>
     \<exists>w' d'. worker_handle rt e ev w = (e_publish e, w') \<and> dep (ev_ResourceID ev) (w_db w') = Some d' \<and>
       d_Status d' = DeploymentStopped \<and> w_runtime w' = snd (rt_ReleaseCapacity rt d c) \<and>
       (e_publish e = None \<longrightarrow> w_pub w' = w_pub w @ [worker_event e TypeDeploymentStopped d []])"
proof -
  have id: "d_ID d = ev_ResourceID ev" using tbl_find_SomeD[OF assms(3)] by simp
  have load: "on_db (deployment_Get (e_flt e) ''load'' (ev_ResourceID ev)) w = (Inr d, w)"
    using assms(1,3) by (simp add: on_db_def deployment_Get_def tx_simps)
  have h: "worker_handle rt e ev w = onStop rt e ev w" using assms(2) by (simp add: worker_handle_def)
  show "worker_handle rt e ev w = (None, w)" if "d_Status d \<notin> {DeploymentReady, DeploymentDegraded}"
  proof (cases "d_Status d = DeploymentStopped \<or> d_Status d = DeploymentStopping")
    case True
    then show ?thesis unfolding h onStop_def load prod.case sum.case by simp
  next
    case False
    then have "\<not> CanTransition (d_Status d) DeploymentStopping"
      using that by (cases "d_Status d") (simp_all add: CanTransition_def)
    then have "on_db (transition e (d_ID d) DeploymentStopping) w = (Inl (ErrInvalidTransition (d_Status d) DeploymentStopping), w)"
      using assms(1,3) id by (simp add: on_db_def transition_invalid)
    then show ?thesis unfolding h onStop_def load prod.case sum.case using False by simp
  qed
  show "\<exists>w' d'. worker_handle rt e ev w = (e_publish e, w') \<and> dep (ev_ResourceID ev) (w_db w') = Some d' \<and>
       d_Status d' = DeploymentStopped \<and> w_runtime w' = snd (rt_ReleaseCapacity rt d c) \<and>
       (e_publish e = None \<longrightarrow> w_pub w' = w_pub w @ [worker_event e TypeDeploymentStopped d []])"
    if st: "d_Status d \<in> {DeploymentReady, DeploymentDegraded}" and stop: "rt_Stop rt d (w_runtime w) = (None, c)"
  proof -
    let ?n = "e_now e" and ?i = "d_ID d"
    let ?w1 = "w\<lparr>w_db := set_deployment ?i (stamp DeploymentStopping ?n) (w_db w)\<rparr>"
    have t1: "on_db (transition e ?i DeploymentStopping) w = (Inr (stamp DeploymentStopping ?n d), ?w1)"
      using assms(3) id st by (intro on_transition[OF assms(1)]) (auto simp: CanTransition_def)
    let ?w2 = "?w1\<lparr>w_runtime := c\<rparr>"
    let ?w3 = "?w2\<lparr>w_db := set_deployment ?i (stamp DeploymentStopped ?n) (w_db ?w2)\<rparr>"
    have row: "dep ?i (w_db ?w2) = Some (stamp DeploymentStopping ?n d)"
      using assms(3) id by (simp add: tbl_find_update)
    have t2: "on_db (transition e ?i DeploymentStopped) ?w2 = (Inr (stamp DeploymentStopped ?n (stamp DeploymentStopping ?n d)), ?w3)"
      using on_transition[OF assms(1) row, of DeploymentStopped] by (simp add: CanTransition_def)
    have ne: "\<not> (d_Status d = DeploymentStopped \<or> d_Status d = DeploymentStopping)" using st by auto
    have c1: "rt_Stop rt d (w_runtime ?w1) = (None, c)" using stop by simp
    have run: "worker_handle rt e ev w = worker_publish e (worker_event e TypeDeploymentStopped d [])
        (?w3\<lparr>w_runtime := snd (rt_ReleaseCapacity rt d (w_runtime ?w3))\<rparr>)"
      unfolding h onStop_def load prod.case sum.case if_not_P[OF ne] t1 c1 option.case t2 ..
    have "dep ?i (w_db ?w3) = Some (stamp DeploymentStopped ?n (stamp DeploymentStopping ?n d))"
      using assms(3) id by (simp add: tbl_find_update)
    then show ?thesis unfolding run id by (cases "e_publish e") (simp_all add: worker_publish_def)
  qed
qed

text \<open>
  What a stop request does depends on the state alone. For a READY or DEGRADED deployment whose
  adapter stops, the row ends STOPPED, its capacity is released and deployment\_stopped is published. In
  every other state the request is acknowledged and dropped without a trace: a deployment that is still
  being brought up will become READY all the same.
\<close>

theorem stop_request_outcome:
  assumes "e_flt e = no_faults" "ev_Type ev = TypeDeploymentStopRequested" "dep (ev_ResourceID ev) (w_db w) = Some d"
  shows "(d_Status d \<notin> {DeploymentReady, DeploymentDegraded} \<longrightarrow> worker_handle rt e ev w = (None, w)) \<and>
    (d_Status d \<in> {DeploymentReady, DeploymentDegraded} \<longrightarrow> rt_Stop rt d (w_runtime w) = (None, c) \<longrightarrow>
     (\<exists>w' d'. worker_handle rt e ev w = (e_publish e, w') \<and> dep (ev_ResourceID ev) (w_db w') = Some d' \<and>
       d_Status d' = DeploymentStopped \<and> w_runtime w' = snd (rt_ReleaseCapacity rt d c) \<and>
       (e_publish e = None \<longrightarrow> w_pub w' = w_pub w @ [worker_event e TypeDeploymentStopped d []])))"
  by (rule conjI, (rule impI)+, rule stop_request_outcome_parts(1)[OF assms],
      assumption+, (rule impI)+, rule stop_request_outcome_parts(2)[OF assms],
      assumption+)


definition stop_event :: Event where
  "stop_event = NewEvent ''e9'' ''x9'' 9 TypeDeploymentStopRequested ''t1'' ''d1'' []"

theorem stop_request_outcome_witness:
  "worker_handle mock_runtime calm stop_event (sample_world DeploymentStarting) = (None, sample_world DeploymentStarting) \<and>
   (\<exists>w'. worker_handle mock_runtime calm stop_event (sample_world DeploymentReady) = (None, w') \<and>
      w_pub w' = [worker_event calm TypeDeploymentStopped (sample_deployment DeploymentReady) []])"
proof -
  have r: "ev_ResourceID stop_event = ''d1''" "ev_Type stop_event = TypeDeploymentStopRequested" "e_publish calm = None"
    "e_flt calm = no_faults" by (simp_all add: stop_event_def NewEvent_def calm_def)
  have d: "dep (ev_ResourceID stop_event) (w_db (sample_world st)) = Some (sample_deployment st)" for st
    unfolding r by (simp add: sample_world_def sample_deployment_def tbl_find_Cons)
  have s: "d_Status (sample_deployment st) = st" for st by (simp add: sample_deployment_def)
  have stop: "rt_Stop mock_runtime (sample_deployment DeploymentReady) (w_runtime (sample_world DeploymentReady)) = (None, Map.empty)"
    by (simp add: mock_runtime_def adapter_Stop_def adapter_validate_def sample_deployment_def sample_world_def)
  have p: "w_pub (sample_world DeploymentReady) = []" by (simp add: sample_world_def)
  have "worker_handle mock_runtime calm stop_event (sample_world DeploymentStarting) = (None, sample_world DeploymentStarting)"
    by (rule stop_request_outcome[OF r(4,2) d, THEN conjunct1, rule_format]) (simp add: s)
  moreover have "d_Status (sample_deployment DeploymentReady) \<in> {DeploymentReady, DeploymentDegraded}" by (simp add: s)
  note stop_request_outcome[OF r(4,2) d, THEN conjunct2, rule_format, OF this stop, unfolded r p, simplified]
  ultimately show ?thesis by blast
qed

text \<open>
  STOPPING is a dead end. Whatever is delivered for a deployment in STOPPING, with whatever failures,
  nothing changes: a worker that dies between its two transitions of a stop (or whose stop and failure
  transitions both fail) leaves a deployment that no redelivery can move again.
\<close>

theorem stopping_is_a_dead_end:
  assumes "dep did (w_db w) = Some d" "d_Status d = DeploymentStopping"
    "\<forall>(e, ev) \<in> set evs. ev_ResourceID ev = did"
  shows "worker_run rt evs w = w"
  using assms(3)
proof (induction evs)
  case (Cons x evs)
  obtain e ev where x: "x = (e, ev)" by fastforce
  have load: "on_db (deployment_Get (e_flt e) ''load'' did) w = (Inr d, w) \<or>
      (\<exists>err. on_db (deployment_Get (e_flt e) ''load'' did) w = (Inl err, w))"
    using assms(1) by (simp add: on_db_def deployment_Get_def tx_simps)
  have "snd (worker_handle rt e ev w) = w"
    using load assms(2) Cons.prems x by (auto simp: worker_handle_def onCreated_def onStop_def)
  then show ?case using Cons x by (simp add: worker_run_def)
qed (simp add: worker_run_def)

theorem stopping_is_a_dead_end_witness:
  "worker_run mock_runtime [(calm, stop_event), (calm, created_event), (calm, stop_event)] (sample_world DeploymentStopping)
    = sample_world DeploymentStopping"
  by (rule stopping_is_a_dead_end[where did = "''d1''" and d = "sample_deployment DeploymentStopping"])
    (simp_all add: sample_world_def sample_deployment_def tbl_find_Cons stop_event_def created_event_def NewEvent_def)

section \<open>The API\<close>

text \<open>
  C13: Creating a deployment is all or nothing: the answer is 202 exactly when the request added one
  PENDING deployment of the caller's tenant together with its deployment\_created event in the outbox; with
  any other answer neither table changed, whichever statement failed.
\<close>

theorem deployment_and_event_are_atomic:
  assumes "handleCreateDeployment flt now ids tenant user body key db = (resp, db')"
  shows "if status_of resp = StatusAccepted
    then \<exists>d row ev. deployments db' = deployments db @ [d] \<and> outbox db' = outbox db @ [row] \<and>
       d_TenantID d = tenant \<and> d_Status d = DeploymentPending \<and> o_Event row = Some ev \<and> o_PublishedAt row = None \<and>
       ev_Type ev = TypeDeploymentCreated \<and> ev_ResourceID ev = d_ID d \<and> ev_TenantID ev = tenant
    else deployments db' = deployments db \<and> outbox db' = outbox db"
proof (cases "\<exists>d. body = Some d \<and> replayed flt tenant key db = None")
  case False
  with assms show ?thesis
    by (auto simp: handleCreateDeployment_def status_of_def split: option.splits)
next
  case True
  then obtain d where d: "body = Some d" "replayed flt tenant key db = None" by blast
  show ?thesis
  proof (cases rule: CreateWithEvent_cases[of flt now ids "d\<lparr>d_TenantID := tenant\<rparr>" user db])
    case (refused err)
    with assms d show ?thesis by (auto simp: handleCreateDeployment_def status_of_def)
  next
    case (made d')
    have save: "deployments (snd (idempotency_Save flt i tenant key ty rid x)) = deployments x"
      "outbox (snd (idempotency_Save flt i tenant key ty rid x)) = outbox x" for i ty rid x
      by (simp_all add: idempotency_Save_def stmt_def update_def)
    let ?row = "outbox_record (f_out ids) now TopicDeploymentEvents (NewEvent (f_ev ids) (f_trace ids) now
        TypeDeploymentCreated (d_TenantID d') (d_ID d') (deployment_payload d' user))"
    have "deployments db' = deployments db @ [deployment_row now d']" "outbox db' = outbox db @ [?row]"
      "status_of resp = StatusAccepted"
      using assms d by (auto simp: handleCreateDeployment_def made(3) save status_of_def tbl_insert_def)
    moreover have "d_TenantID d' = tenant" "d_Status d' = DeploymentPending" by (simp_all add: made(1))
    ultimately show ?thesis
      by (auto simp: deployment_row_def outbox_record_def NewEvent_def
          intro!: exI[of _ "deployment_row now d'"] exI[of _ ?row])
  qed
qed

theorem deployment_and_event_are_atomic_witness:
  "deployments (snd (handleCreateDeployment (\<lambda>l k. l = ''insert outbox'') 5 sample_ids ''t1'' ''u1'' (Some sample_body) ''k'' catalog_db)) = []"
proof -
  let ?run = "handleCreateDeployment (\<lambda>l k. l = ''insert outbox'') 5 sample_ids ''t1'' ''u1'' (Some sample_body) ''k'' catalog_db"
  have "?run = (fst ?run, snd ?run)" by simp
  note a = deployment_and_event_are_atomic[OF this]
  have "status_of (fst ?run) = 500" by code_simp
  with a show ?thesis by (simp add: catalog_db_def empty_db_def)
qed

text \<open>
  C17: A retried creation is answered with the deployment it created. Once a request with an idempotency
  key was accepted (and the key was saved), a later request of the tenant with that key, whatever its body
  and however far the worker has taken the deployment meanwhile, answers 200 with that deployment and
  changes nothing.
\<close>

theorem creation_is_idempotent_per_key:
  assumes "handleCreateDeployment flt now ids tenant user (Some d) key (w_db w) = (WriteJSON StatusAccepted created, db1)"
    "key \<noteq> []" "\<not> tbl_has idem_key (tenant, key) (idempotency_keys (w_db w))" "\<not> flt ''save idempotency key'' []"
    "tbl_unique d_ID (deployments (w_db w))"
    "db2 = w_db (worker_run rt evs (w\<lparr>w_db := db1\<rparr>))"
  shows "\<exists>row. handleCreateDeployment no_faults now' ids' tenant user' (Some d2) key db2 = (WriteJSON StatusOK row, db2) \<and>
     d_ID row = d_ID created"
proof -
  have rep: "replayed flt tenant key (w_db w) = None"
    using assms(1) by (auto simp: handleCreateDeployment_def split: option.splits)
  show ?thesis
  proof (cases rule: CreateWithEvent_cases[of flt now ids "d\<lparr>d_TenantID := tenant\<rparr>" user "w_db w"])
    case (refused err)
    with assms(1) rep show ?thesis by (simp add: handleCreateDeployment_def)
  next
    case (made d')
    let ?ik = "\<lparr>ik_ID = f_idem ids, ik_TenantID = tenant, ik_Key = key, ik_ResourceType = ''deployment'', ik_ResourceID = d_ID d'\<rparr>"
    have keys: "idempotency_keys db1 = idempotency_keys (w_db w) @ [?ik]" and
      deps: "deployments db1 = deployments (w_db w) @ [deployment_row now d']" and cr: "d_ID created = d_ID d'"
      using assms(1-4) rep by (auto simp: handleCreateDeployment_def made(3) idempotency_Save_def stmt_def update_def
          tbl_insert_ignore_def idem_key_def tbl_insert_def)
    have id: "d_ID d' = f_dep ids" "d_ID (deployment_row now d') = f_dep ids" by (simp_all add: made(1) deployment_row_def)
    have u: "tbl_unique d_ID (deployments db1)"
      using tbl_unique_insert[OF assms(5), of "deployment_row now d'"] made(2) by (simp add: deps id tbl_insert_def)
    have m: "moves db1 db2"
      using state_machine.worker_run_runs[of "w\<lparr>w_db := db1\<rparr>" rt evs] u assms(6) by (simp add: orderly_def)
    then have keys2: "idempotency_keys db2 = idempotency_keys db1" by (simp add: moves_def other_tables_def)
    have "map d_ID (deployments db2) = map d_ID (deployments db1)"
      using m row_moves_ID by (auto simp: moves_def)
    then have "d_ID d' \<in> d_ID ` set (deployments db2)"
      using deps id by (metis in_set_conv_decomp list.set_map image_eqI)
    then obtain row where row: "dep (d_ID d') db2 = Some row"
      using tbl_find_None[of d_ID "d_ID d'" "deployments db2"] by (cases "dep (d_ID d') db2") auto
    have "tbl_find (\<lambda>r. (ik_TenantID r, ik_Key r, ik_ResourceType r)) (tenant, key, ''deployment'') (idempotency_keys (w_db w)) = None"
      using assms(3) by (auto simp: tbl_find_None tbl_has_iff idem_key_def)
    then have "tbl_find (\<lambda>r. (ik_TenantID r, ik_Key r, ik_ResourceType r)) (tenant, key, ''deployment'') (idempotency_keys db2) = Some ?ik"
      by (simp add: keys2 keys tbl_find_append tbl_find_Cons)
    then have "replayed no_faults tenant key db2 = Some row"
      using assms(2) row by (simp add: replayed_def idempotency_Resolve_def deployment_Get_def tx_simps)
    then show ?thesis
      using tbl_find_SomeD[OF row] cr by (simp add: handleCreateDeployment_def)
  qed
qed

theorem creation_is_idempotent_per_key_witness:
  "\<exists>row. handleCreateDeployment no_faults 9 sample_ids ''t1'' ''u1'' (Some sample_body) ''k'' (w_db ready_world) =
     (WriteJSON StatusOK row, w_db ready_world) \<and> d_ID row = ''d1''"
proof -
  let ?run = "handleCreateDeployment no_faults 5 sample_ids ''t1'' ''u1'' (Some sample_body) ''k'' (w_db catalog_world)"
  let ?c = "(sample_deployment DeploymentPending)\<lparr>d_CreatedAt := 5, d_UpdatedAt := 5\<rparr>"
  have r1: "fst ?run = WriteJSON StatusAccepted ?c" by code_simp
  have r: "?run = (WriteJSON StatusAccepted ?c, snd ?run)" by (subst r1[symmetric]) simp
  have w: "catalog_world\<lparr>w_db := snd ?run\<rparr> = created_world" by (simp add: created_world_def catalog_world_def)
  have ready: "w_db ready_world = w_db (worker_run mock_runtime [(calm, created_event)] (catalog_world\<lparr>w_db := snd ?run\<rparr>))"
    unfolding w by (simp add: ready_world_def worker_run_def)
  have "\<not> tbl_has idem_key (''t1'', ''k'') (idempotency_keys (w_db catalog_world))"
    "tbl_unique d_ID (deployments (w_db catalog_world))" by code_simp+
  from creation_is_idempotent_per_key[OF r _ this(1) _ this(2) ready]
  show ?thesis by (simp add: sample_deployment_def)
qed

lemma deployments_are_isolated_by_tenant_parts:
  assumes "dep did db = Some d" "d_TenantID d \<noteq> tenant" "dep did db0 = None"
  shows "handleDeploymentByID flt tenant did db = handleDeploymentByID flt tenant did db0"
    "handleDeploymentRevisions flt tenant did db = handleDeploymentRevisions flt tenant did db0"
    "handleDeploymentAction flt now ids tenant user did act db = (fst (handleDeploymentAction flt now ids tenant user did act db0), db)"
    "handleListDeployments flt tenant db = WriteJSON StatusOK ds \<Longrightarrow> set ds = {x \<in> set (deployments db). d_TenantID x = tenant}"
proof -
  have none: "own_deployment flt tenant did db = None" "own_deployment flt tenant did db0 = None"
    using assms by (auto simp: own_deployment_def deployment_Get_def tx_simps)
  show "handleDeploymentByID flt tenant did db = handleDeploymentByID flt tenant did db0"
    "handleDeploymentRevisions flt tenant did db = handleDeploymentRevisions flt tenant did db0"
    "handleDeploymentAction flt now ids tenant user did act db = (fst (handleDeploymentAction flt now ids tenant user did act db0), db)"
    by (simp_all add: handleDeploymentByID_def handleDeploymentRevisions_def handleDeploymentAction_def none)
  show "handleListDeployments flt tenant db = WriteJSON StatusOK ds \<Longrightarrow> set ds = {x \<in> set (deployments db). d_TenantID x = tenant}"
    by (cases "flt ''list deployments'' []")
      (auto simp: handleListDeployments_def deployment_List_def serving_json_def tx_simps)
qed

text \<open>
  Tenants do not see each other's deployments: below the id of another tenant's deployment every
  route answers exactly as if no such deployment existed and changes nothing, and the list holds the
  caller's own deployments only.
\<close>

theorem deployments_are_isolated_by_tenant:
  assumes "dep did db = Some d" "d_TenantID d \<noteq> tenant" "dep did db0 = None"
  shows "handleDeploymentByID flt tenant did db = handleDeploymentByID flt tenant did db0 \<and>
    handleDeploymentRevisions flt tenant did db = handleDeploymentRevisions flt tenant did db0 \<and>
    handleDeploymentAction flt now ids tenant user did act db = (fst (handleDeploymentAction flt now ids tenant user did act db0), db) \<and>
    (handleListDeployments flt tenant db = WriteJSON StatusOK ds \<longrightarrow> set ds = {x \<in> set (deployments db). d_TenantID x = tenant})"
  by (rule conjI, rule deployments_are_isolated_by_tenant_parts(1)[OF assms], rule conjI,
      rule deployments_are_isolated_by_tenant_parts(2)[OF assms], rule conjI, rule deployments_are_isolated_by_tenant_parts(3)[OF assms],
      (rule impI)+, rule deployments_are_isolated_by_tenant_parts(4)[OF assms], assumption+)


theorem deployments_are_isolated_by_tenant_witness:
  "handleDeploymentByID no_faults ''t2'' ''d1'' (w_db created_world) = no_deployment"
proof -
  have d: "dep ''d1'' (w_db created_world) = Some ((sample_deployment DeploymentPending)\<lparr>d_CreatedAt := 5, d_UpdatedAt := 5\<rparr>)"
    by code_simp
  have "dep ''d1'' empty_db = None" by (simp add: empty_db_def)
  from deployments_are_isolated_by_tenant[OF d _ this, of "''t2''" no_faults, THEN conjunct1] show ?thesis
    by (simp add: sample_deployment_def handleDeploymentByID_def own_deployment_def deployment_Get_def tx_simps empty_db_def)
qed

end
