(* ===== verification/InferenceWire.thy ===== *)
theory InferenceWire
  imports Prelude
begin

text \<open>
  \<open>internal/infrastructure/inference/types.go\<close> and \<open>client.go\<close>: the requests and events of the
  inference worker, their proto messages (fields as the generated code declares them), the
  conversions between the two, and the goroutine of \<open>GenerateStream\<close> that turns the worker's
  responses into events. A \<open>float32\<close> is its bit pattern: the code only copies it.
\<close>

type_synonym bytes = "8 word list"
type_synonym float32 = "32 word"

section \<open>Wire types\<close>

record MessageImage =
  mi_ID :: string
  mi_MimeType :: string
  mi_Data :: bytes

record ToolCall =
  tc_ID :: string
  tc_Name :: string
  tc_Arguments :: string

record ToolDefinition =
  td_Name :: string
  td_Description :: string
  td_Parameters :: string

record Message =
  wm_Role :: string
  wm_Content :: string
  wm_ToolCalls :: "ToolCall list"
  wm_ToolCallID :: string
  wm_ToolResult :: string
  wm_IsError :: bool
  wm_Images :: "MessageImage list"

record SamplingParams =
  sp_MaxTokens :: int
  sp_Temperature :: float32
  sp_TopP :: float32
  sp_TopK :: int
  sp_StopSequences :: "string list"

definition DefaultSamplingParams :: SamplingParams where
  "DefaultSamplingParams = \<lparr>sp_MaxTokens = 1024, sp_Temperature = 0x3F333333,
     sp_TopP = 0x3F666666, sp_TopK = 50, sp_StopSequences = []\<rparr>"

record GenerateRequest =
  gr_RequestID :: string
  gr_SessionID :: string
  gr_Messages :: "Message list"
  gr_SystemPrompt :: string
  gr_SamplingParams :: SamplingParams
  gr_Tools :: "ToolDefinition list"

record ToolUseEvent =
  tu_ID :: string
  tu_Name :: string
  tu_Arguments :: string

record Usage =
  us_PromptTokens :: int
  us_CompletionTokens :: int
  us_TotalTokens :: int

record GenerateEvent =
  ge_Type :: string
  ge_Token :: string
  ge_ToolUse :: "ToolUseEvent option"
  ge_StopReason :: string
  ge_FinishReason :: string
  ge_Usage :: "Usage option"
  ge_Error :: string

definition zero_event :: GenerateEvent where
  "zero_event = \<lparr>ge_Type = [], ge_Token = [], ge_ToolUse = None, ge_StopReason = [],
     ge_FinishReason = [], ge_Usage = None, ge_Error = []\<rparr>"

section \<open>Proto messages\<close>

datatype GenerateEventType =
  EVENT_UNSPECIFIED | EVENT_TOKEN | EVENT_TOOL_USE | EVENT_FINAL | EVENT_REASONING | EVENT_OTHER int

datatype StopReason =
  STOP_UNSPECIFIED | STOP_END_TURN | STOP_MAX_TOKENS | STOP_TOOL_USE | STOP_CANCELLED | STOP_ERROR | STOP_OTHER int

text \<open>\<open>StopReason.String()\<close>: the name, or the number of a value the enumeration does not know.\<close>

fun StopReason_String :: "StopReason \<Rightarrow> string" where
  "StopReason_String STOP_UNSPECIFIED = ''STOP_UNSPECIFIED''"
| "StopReason_String STOP_END_TURN = ''STOP_END_TURN''"
| "StopReason_String STOP_MAX_TOKENS = ''STOP_MAX_TOKENS''"
| "StopReason_String STOP_TOOL_USE = ''STOP_TOOL_USE''"
| "StopReason_String STOP_CANCELLED = ''STOP_CANCELLED''"
| "StopReason_String STOP_ERROR = ''STOP_ERROR''"
| "StopReason_String (STOP_OTHER n) = itoa n"

record pbImage =
  pbi_MimeType :: string
  pbi_Data :: bytes

record pbMessage =
  pbm_Role :: string
  pbm_Content :: string
  pbm_ToolCalls :: "ToolCall list"
  pbm_ToolCallId :: string
  pbm_ToolResult :: string
  pbm_IsError :: bool
  pbm_Images :: "pbImage list"

record pbGenerateRequest =
  pbr_RequestId :: string
  pbr_SessionId :: string
  pbr_Messages :: "pbMessage list"
  pbr_SystemPrompt :: string
  pbr_SamplingParams :: SamplingParams
  pbr_Tools :: "ToolDefinition list"

record GenerateResponse =
  re_EventType :: GenerateEventType
  re_Token :: string
  re_ToolUse :: "ToolUseEvent option"
  re_StopReason :: StopReason
  re_FinishReason :: string
  re_Usage :: "Usage option"
  re_ReasoningToken :: string

text \<open>A response of the batch RPC is the same message, keyed by the request it belongs to.\<close>

record BatchGenerateResponse = GenerateResponse +
  re_RequestId :: string

record BatchGenerateRequest =
  pbb_BatchId :: string
  pbb_Requests :: "pbGenerateRequest list"

section \<open>Requests\<close>

definition messageToProto :: "Message \<Rightarrow> pbMessage" where
  "messageToProto m = \<lparr>
     pbm_Role = wm_Role m,
     pbm_Content = wm_Content m,
     pbm_ToolCalls = map (\<lambda>tc. \<lparr>tc_ID = tc_ID tc, tc_Name = tc_Name tc, tc_Arguments = tc_Arguments tc\<rparr>) (wm_ToolCalls m),
     pbm_ToolCallId = wm_ToolCallID m,
     pbm_ToolResult = wm_ToolResult m,
     pbm_IsError = wm_IsError m,
     pbm_Images = map (\<lambda>img. \<lparr>pbi_MimeType = mi_MimeType img, pbi_Data = mi_Data img\<rparr>) (wm_Images m)\<rparr>"

definition proto_sampling :: "SamplingParams \<Rightarrow> SamplingParams" where
  "proto_sampling sp = \<lparr>sp_MaxTokens = sp_MaxTokens sp, sp_Temperature = sp_Temperature sp,
     sp_TopP = sp_TopP sp, sp_TopK = sp_TopK sp, sp_StopSequences = sp_StopSequences sp\<rparr>"

definition proto_tool :: "ToolDefinition \<Rightarrow> ToolDefinition" where
  "proto_tool t = \<lparr>td_Name = td_Name t, td_Description = td_Description t, td_Parameters = td_Parameters t\<rparr>"

text \<open>The request of \<open>GenerateStream\<close>; the batch scheduler builds its own copy.\<close>

definition stream_request :: "GenerateRequest \<Rightarrow> pbGenerateRequest" where
  "stream_request req = \<lparr>
     pbr_RequestId = gr_RequestID req,
     pbr_SessionId = gr_SessionID req,
     pbr_Messages = map messageToProto (gr_Messages req),
     pbr_SystemPrompt = gr_SystemPrompt req,
     pbr_SamplingParams = proto_sampling (gr_SamplingParams req),
     pbr_Tools = (if length (gr_Tools req) > 0 then map proto_tool (gr_Tools req) else [])\<rparr>"

section \<open>The event stream of one request\<close>

text \<open>What \<open>stream.Recv\<close> returns: a response, the end of the stream, or an error.\<close>

datatype 'r recv = Recv 'r | RecvEOF | RecvErr string

text \<open>The body of the goroutine's switch.\<close>

definition stream_event :: "GenerateResponse \<Rightarrow> GenerateEvent" where
  "stream_event r = (case re_EventType r of
      EVENT_TOKEN \<Rightarrow> zero_event\<lparr>ge_Type := ''token'', ge_Token := re_Token r\<rparr>
    | EVENT_REASONING \<Rightarrow> zero_event\<lparr>ge_Type := ''reasoning'', ge_Token := re_ReasoningToken r\<rparr>
    | EVENT_TOOL_USE \<Rightarrow> zero_event\<lparr>ge_Type := ''tool_use'', ge_ToolUse := re_ToolUse r\<rparr>
    | EVENT_FINAL \<Rightarrow> zero_event\<lparr>ge_Type := ''final'',
        ge_Token := re_Token r,
        ge_StopReason := StopReason_String (re_StopReason r),
        ge_FinishReason := re_FinishReason r,
        ge_Usage := re_Usage r,
        ge_Error := (if re_StopReason r = STOP_ERROR then re_Token r else [])\<rparr>
    | _ \<Rightarrow> zero_event)"

definition final_event :: "string \<Rightarrow> string \<Rightarrow> string \<Rightarrow> GenerateEvent" where
  "final_event stopReason finishReason errMsg =
    zero_event\<lparr>ge_Type := ''final'', ge_StopReason := stopReason, ge_FinishReason := finishReason,
      ge_Error := errMsg\<rparr>"

text \<open>
  The goroutine over the outcomes of \<open>Recv\<close>: it returns the events it sent and whether it closed
  the channel. An outcome comes with \<open>gone\<close>, whether the context is cancelled when it is handled; on
  a cancelled context the \<open>select\<close> may take either branch, \<open>pick\<close> says which (True: the send).
  An empty list of outcomes means that \<open>Recv\<close> has not returned yet.
\<close>

fun stream_loop :: "(bool \<times> bool \<times> GenerateResponse recv) list \<Rightarrow> GenerateEvent list \<times> bool" where
  "stream_loop [] = ([], False)"
| "stream_loop ((gone, pick, RecvEOF) # rs) = ([], True)"
| "stream_loop ((gone, pick, RecvErr e) # rs) =
    ([if gone then final_event ''STOP_CANCELLED'' ''cancelled'' []
      else final_event ''STOP_ERROR'' ''error'' e], True)"
| "stream_loop ((gone, pick, Recv r) # rs) =
    (if gone \<and> \<not> pick then ([], True)
     else case stream_loop rs of (evs, closed) \<Rightarrow> (stream_event r # evs, closed))"

text \<open>\<open>GenerateStream\<close>: an RPC that cannot start is an error, otherwise the loop runs.\<close>

definition GenerateStream ::
  "(pbGenerateRequest \<Rightarrow> string + (bool \<times> bool \<times> GenerateResponse recv) list) \<Rightarrow> GenerateRequest \<Rightarrow>
   string + GenerateEvent list \<times> bool" where
  "GenerateStream rpc req = (case rpc (stream_request req) of
      Inl e \<Rightarrow> Inl (''failed to start generation: '' @ e)
    | Inr rs \<Rightarrow> Inr (stream_loop rs))"

section \<open>What the conversions keep\<close>

lemma proto_sampling_id [simp]: "proto_sampling sp = sp"
  by (simp add: proto_sampling_def)

lemma proto_tool_id [simp]: "proto_tool t = t"
  by (simp add: proto_tool_def)

lemma ge_Type_stream_event: "ge_Type (stream_event r) = ''final'' \<longleftrightarrow> re_EventType r = EVENT_FINAL"
  by (simp add: stream_event_def zero_event_def split: GenerateEventType.split)

lemma ge_Type_final_event [simp]: "ge_Type (final_event a b c) = ''final''"
  by (simp add: final_event_def)

end
