(* ===== verification/BatchScheduler.thy ===== *)
theory BatchScheduler
  imports InferenceWire
begin

text \<open>
  \<open>internal/infrastructure/inference/batch_scheduler.go\<close>. The scheduler is a set of goroutines over
  channels: submitters, one collector, one dispatcher per batch in flight, and the consumers of the
  events. Its state holds the channels with their histories, the program counter of the collector
  and the dispatchers; an operation of a goroutine between two blocking points is one definition.
  \<open>select\<close> between ready cases is free in Go, so an operation takes the chosen case as an argument.
\<close>

section \<open>Conversions\<close>

definition buildProtoRequest :: "GenerateRequest \<Rightarrow> pbGenerateRequest" where
  "buildProtoRequest req = \<lparr>
     pbr_RequestId = gr_RequestID req,
     pbr_SessionId = gr_SessionID req,
     pbr_Messages = map messageToProto (gr_Messages req),
     pbr_SystemPrompt = gr_SystemPrompt req,
     pbr_SamplingParams = proto_sampling (gr_SamplingParams req),
     pbr_Tools = (if length (gr_Tools req) > 0 then map proto_tool (gr_Tools req) else [])\<rparr>"

definition pbToGenerateEvent :: "BatchGenerateResponse \<Rightarrow> GenerateEvent" where
  "pbToGenerateEvent resp = (case re_EventType resp of
      EVENT_TOKEN \<Rightarrow> zero_event\<lparr>ge_Type := ''token'', ge_Token := re_Token resp\<rparr>
    | EVENT_REASONING \<Rightarrow> zero_event\<lparr>ge_Type := ''reasoning'', ge_Token := re_ReasoningToken resp\<rparr>
    | EVENT_TOOL_USE \<Rightarrow> zero_event\<lparr>ge_Type := ''tool_use'',
        ge_ToolUse := map_option (\<lambda>t. \<lparr>tu_ID = tu_ID t, tu_Name = tu_Name t, tu_Arguments = tu_Arguments t\<rparr>) (re_ToolUse resp)\<rparr>
    | EVENT_FINAL \<Rightarrow> zero_event\<lparr>ge_Type := ''final'',
        ge_Token := re_Token resp,
        ge_StopReason := StopReason_String (re_StopReason resp),
        ge_FinishReason := re_FinishReason resp,
        ge_Usage := map_option (\<lambda>u. \<lparr>us_PromptTokens = us_PromptTokens u, us_CompletionTokens = us_CompletionTokens u,
                                   us_TotalTokens = us_TotalTokens u\<rparr>) (re_Usage resp),
        ge_Error := (if re_StopReason resp = STOP_ERROR then re_Token resp else [])\<rparr>
    | _ \<Rightarrow> zero_event)"

section \<open>Channels of events\<close>

text \<open>
  A channel made by \<open>TrySubmit\<close> with capacity 100: what waits in its buffer, what its consumer has
  taken, and two counters that Go's runtime keeps implicitly: \<open>ch_closes\<close> counts the calls of
  \<open>close\<close> (the second one panics, \<open>closeItem\<close> recovers it), \<open>ch_late\<close> the sends on a closed
  channel (each of them panics). \<open>ch_req\<close> names the request the channel was made for.
\<close>

record event_chan =
  ch_req :: string
  ch_recvd :: "GenerateEvent list"
  ch_buf :: "GenerateEvent list"
  ch_closes :: nat
  ch_late :: nat

definition events_capacity :: nat where "events_capacity = 100"
definition submitChCapacity :: nat where "submitChCapacity = 100"

definition make_chan :: "string \<Rightarrow> event_chan" where
  "make_chan rid = \<lparr>ch_req = rid, ch_recvd = [], ch_buf = [], ch_closes = 0, ch_late = 0\<rparr>"

definition ch_history :: "event_chan \<Rightarrow> GenerateEvent list" where
  "ch_history ch = ch_recvd ch @ ch_buf ch"

definition ch_room :: "event_chan \<Rightarrow> bool" where
  "ch_room ch \<longleftrightarrow> length (ch_buf ch) < events_capacity"

definition chan_send :: "GenerateEvent \<Rightarrow> event_chan \<Rightarrow> event_chan" where
  "chan_send e ch =
    (if ch_closes ch > 0 then ch\<lparr>ch_late := ch_late ch + 1\<rparr> else ch\<lparr>ch_buf := ch_buf ch @ [e]\<rparr>)"

text \<open>\<open>select { case ch <- e: default: }\<close>\<close>

definition chan_try_send :: "GenerateEvent \<Rightarrow> event_chan \<Rightarrow> event_chan" where
  "chan_try_send e ch = (if ch_closes ch > 0 \<or> ch_room ch then chan_send e ch else ch)"

definition closeItem :: "event_chan \<Rightarrow> event_chan" where
  "closeItem ch = ch\<lparr>ch_closes := ch_closes ch + 1\<rparr>"

definition chan_take :: "event_chan \<Rightarrow> event_chan" where
  "chan_take ch = (case ch_buf ch of [] \<Rightarrow> ch
    | e # es \<Rightarrow> ch\<lparr>ch_recvd := ch_recvd ch @ [e], ch_buf := es\<rparr>)"

section \<open>The scheduler's state\<close>

text \<open>The context of a request is a number; \<open>None\<close> is the background context, which never ends.\<close>

record batchItem =
  it_ctx :: "nat option"
  it_req :: GenerateRequest
  it_events :: nat

abbreviation item_id :: "batchItem \<Rightarrow> string" where
  "item_id it \<equiv> gr_RequestID (it_req it)"

text \<open>Where the collector stands; it has exited once \<open>Exited\<close>.\<close>

datatype collector =
    Idle
  | Collecting "batchItem list"
  | Waiting "batchItem list"
  | Exited

text \<open>
  A dispatcher either still has to open the stream of its batch, or reads it with the index of the
  requests that have not had their final event. The Go map \<open>index\<close> is an association list with
  distinct keys.
\<close>

datatype flight =
    Starting "batchItem list"
  | Streaming "batchItem list" "(string \<times> batchItem) list"

record BatchScheduler =
  bs_maxBatchSize :: int
  bs_maxInFlight :: nat
  bs_submitCh :: "batchItem list"
  bs_chans :: "event_chan list"
  bs_done :: "nat list"
  bs_collector :: collector
  bs_slots :: nat
  bs_flights :: "flight list"
  bs_stopped :: bool

definition DefaultMaxBatchSize :: int where "DefaultMaxBatchSize = 4"
definition DefaultMaxInFlightBatches :: nat where "DefaultMaxInFlightBatches = 1"

definition NewBatchScheduler :: BatchScheduler where
  "NewBatchScheduler = \<lparr>bs_maxBatchSize = DefaultMaxBatchSize,
     bs_maxInFlight = DefaultMaxInFlightBatches, bs_submitCh = [], bs_chans = [], bs_done = [],
     bs_collector = Idle, bs_slots = 0, bs_flights = [], bs_stopped = False\<rparr>"

definition SetMaxBatchSize :: "int \<Rightarrow> BatchScheduler \<Rightarrow> BatchScheduler" where
  "SetMaxBatchSize n bs = bs\<lparr>bs_maxBatchSize := n\<rparr>"

definition SetMaxInFlight :: "int \<Rightarrow> BatchScheduler \<Rightarrow> BatchScheduler" where
  "SetMaxInFlight n bs =
    (let n' = (if n < 1 then 1 else n) in bs\<lparr>bs_maxInFlight := nat n', bs_slots := 0\<rparr>)"

definition ctx_done :: "BatchScheduler \<Rightarrow> batchItem \<Rightarrow> bool" where
  "ctx_done bs it = (case it_ctx it of None \<Rightarrow> False | Some c \<Rightarrow> c \<in> set (bs_done bs))"

definition on_chan :: "nat \<Rightarrow> (event_chan \<Rightarrow> event_chan) \<Rightarrow> BatchScheduler \<Rightarrow> BatchScheduler" where
  "on_chan c f bs = bs\<lparr>bs_chans := (bs_chans bs)[c := f (bs_chans bs ! c)]\<rparr>"

section \<open>Submission and shutdown\<close>

datatype sched_error = ErrOverloaded | ErrSchedulerClosed

text \<open>
  \<open>TrySubmit\<close>: \<open>entry\<close> is what the first \<open>select\<close> saw of the stop channel; when the scheduler is
  stopped in between, the second one is free to choose (\<open>pick\<close>: the send). It returns the number
  of the new channel.
\<close>

definition TrySubmit ::
  "bool \<Rightarrow> bool \<Rightarrow> nat option \<Rightarrow> GenerateRequest \<Rightarrow> BatchScheduler \<Rightarrow> (sched_error + nat) \<times> BatchScheduler" where
  "TrySubmit entry pick ctx req bs =
    (if entry then (Inl ErrSchedulerClosed, bs)
     else if length (bs_submitCh bs) < submitChCapacity \<and> (bs_stopped bs \<longrightarrow> pick) then
       let c = length (bs_chans bs);
           it = \<lparr>it_ctx = ctx, it_req = req, it_events = c\<rparr>
       in (Inr c, bs\<lparr>bs_submitCh := bs_submitCh bs @ [it],
                     bs_chans := bs_chans bs @ [make_chan (gr_RequestID req)]\<rparr>)
     else if bs_stopped bs then (Inl ErrSchedulerClosed, bs)
     else (Inl ErrOverloaded, bs))"

text \<open>\<open>Submit\<close> drops the error: None is the nil channel.\<close>

definition Submit ::
  "bool \<Rightarrow> bool \<Rightarrow> nat option \<Rightarrow> GenerateRequest \<Rightarrow> BatchScheduler \<Rightarrow> nat option \<times> BatchScheduler" where
  "Submit entry pick ctx req bs = (case TrySubmit entry pick ctx req bs of
      (Inl _, bs') \<Rightarrow> (None, bs') | (Inr c, bs') \<Rightarrow> (Some c, bs'))"

text \<open>\<open>Shutdown\<close> closes the stop channel once, and returns when \<open>wg_zero\<close> holds.\<close>

definition Shutdown :: "BatchScheduler \<Rightarrow> BatchScheduler" where
  "Shutdown bs = bs\<lparr>bs_stopped := True\<rparr>"

definition wg_zero :: "BatchScheduler \<Rightarrow> bool" where
  "wg_zero bs \<longleftrightarrow> bs_collector bs = Exited \<and> bs_flights bs = []"

section \<open>Ending requests\<close>

definition fail_reason :: "string option \<Rightarrow> string \<times> string \<times> string" where
  "fail_reason err = (case err of
      None \<Rightarrow> (''STOP_CANCELLED'', ''cancelled'', [])
    | Some msg \<Rightarrow> (''STOP_ERROR'', ''error'', msg))"

text \<open>Send a final event if the buffer has room, and close: what both loops do with an item.\<close>

definition end_item :: "string \<times> string \<times> string \<Rightarrow> batchItem \<Rightarrow> BatchScheduler \<Rightarrow> BatchScheduler" where
  "end_item reason it bs = (case reason of (sr, fr, msg) \<Rightarrow>
     on_chan (it_events it) (\<lambda>ch. closeItem (chan_try_send (final_event sr fr msg) ch)) bs)"

text \<open>\<open>failAll\<close>; the error \<open>None\<close> is \<open>errSchedulerClosed\<close>.\<close>

definition failAll :: "batchItem list \<Rightarrow> string option \<Rightarrow> BatchScheduler \<Rightarrow> BatchScheduler" where
  "failAll batch err bs = fold (end_item (fail_reason err)) batch bs"

text \<open>\<open>finishAll\<close> over what is left in the index (emptied with the dispatcher that owns it).\<close>

definition finishAll :: "(string \<times> batchItem) list \<Rightarrow> string \<times> string \<times> string \<Rightarrow> BatchScheduler \<Rightarrow> BatchScheduler" where
  "finishAll index reason bs = fold (end_item reason) (map snd index) bs"

section \<open>The collector\<close>

text \<open>One definition per case of a \<open>select\<close>; None when the case is not ready.\<close>

definition collect_first :: "BatchScheduler \<Rightarrow> BatchScheduler option" where
  "collect_first bs = (case (bs_collector bs, bs_submitCh bs) of
      (Idle, it # q) \<Rightarrow> Some (bs\<lparr>bs_submitCh := q, bs_collector := Collecting [it]\<rparr>)
    | _ \<Rightarrow> None)"

definition collect_stop :: "BatchScheduler \<Rightarrow> BatchScheduler option" where
  "collect_stop bs = (if bs_collector bs = Idle \<and> bs_stopped bs
     then Some (bs\<lparr>bs_collector := Exited\<rparr>) else None)"

definition collect_more :: "BatchScheduler \<Rightarrow> BatchScheduler option" where
  "collect_more bs = (case (bs_collector bs, bs_submitCh bs) of
      (Collecting batch, it # q) \<Rightarrow>
        if int (length batch) < bs_maxBatchSize bs
        then Some (bs\<lparr>bs_submitCh := q, bs_collector := Collecting (batch @ [it])\<rparr>) else None
    | _ \<Rightarrow> None)"

text \<open>The batch is full, or the timer of the window fired: the timer may fire at any time.\<close>

definition collect_end :: "BatchScheduler \<Rightarrow> BatchScheduler option" where
  "collect_end bs = (case bs_collector bs of
      Collecting batch \<Rightarrow> Some (bs\<lparr>bs_collector := Waiting batch\<rparr>)
    | _ \<Rightarrow> None)"

definition acquire_slot :: "BatchScheduler \<Rightarrow> BatchScheduler option" where
  "acquire_slot bs = (case bs_collector bs of
      Waiting batch \<Rightarrow>
        if bs_slots bs < bs_maxInFlight bs
        then Some (bs\<lparr>bs_collector := Idle, bs_slots := bs_slots bs + 1,
                      bs_flights := bs_flights bs @ [Starting batch]\<rparr>) else None
    | _ \<Rightarrow> None)"

definition stop_waiting :: "BatchScheduler \<Rightarrow> BatchScheduler option" where
  "stop_waiting bs = (case bs_collector bs of
      Waiting batch \<Rightarrow>
        if bs_stopped bs
        then Some ((failAll batch None bs)\<lparr>bs_collector := Exited\<rparr>) else None
    | _ \<Rightarrow> None)"

section \<open>Dispatchers\<close>

text \<open>A dispatcher that returns releases its slot and leaves the wait group.\<close>

definition leave :: "nat \<Rightarrow> BatchScheduler \<Rightarrow> BatchScheduler" where
  "leave i bs = bs\<lparr>bs_slots := bs_slots bs - 1,
     bs_flights := take i (bs_flights bs) @ drop (Suc i) (bs_flights bs)\<rparr>"

definition index_put :: "string \<Rightarrow> batchItem \<Rightarrow> (string \<times> batchItem) list \<Rightarrow> (string \<times> batchItem) list" where
  "index_put k it index = filter (\<lambda>(k', _). k' \<noteq> k) index @ [(k, it)]"

definition build_index :: "batchItem list \<Rightarrow> (string \<times> batchItem) list" where
  "build_index batch = fold (\<lambda>it index. index_put (item_id it) it index) batch []"

definition batch_request :: "string \<Rightarrow> batchItem list \<Rightarrow> BatchGenerateRequest" where
  "batch_request batchID batch =
    \<lparr>pbb_BatchId = batchID, pbb_Requests = map (\<lambda>it. buildProtoRequest (it_req it)) batch\<rparr>"

text \<open>The first part of \<open>dispatchBatch\<close>; \<open>rpcErr\<close> is the error of opening the stream.\<close>

definition dispatch_open :: "nat \<Rightarrow> string option \<Rightarrow> BatchScheduler \<Rightarrow> BatchScheduler option" where
  "dispatch_open i rpcErr bs = (if i < length (bs_flights bs) then (case bs_flights bs ! i of
      Starting batch \<Rightarrow> Some (
        if batch = [] then leave i bs
        else (case rpcErr of
            Some e \<Rightarrow> leave i (failAll batch (Some (''batch generate failed: '' @ e)) bs)
          | None \<Rightarrow> bs\<lparr>bs_flights := (bs_flights bs)[i := Streaming batch (build_index batch)]\<rparr>))
    | _ \<Rightarrow> None) else None)"

text \<open>
  One response. The \<open>select\<close> sends when there is room, and may skip the delivery when the request
  is cancelled or the scheduler stopped; otherwise the dispatcher blocks (None).
\<close>

datatype send_case = SendEvent | SkipCtx | SkipStop

definition case_ready :: "send_case \<Rightarrow> batchItem \<Rightarrow> BatchScheduler \<Rightarrow> bool" where
  "case_ready cs it bs = (case cs of
      SendEvent \<Rightarrow> ch_closes (bs_chans bs ! it_events it) > 0 \<or> ch_room (bs_chans bs ! it_events it)
    | SkipCtx \<Rightarrow> ctx_done bs it
    | SkipStop \<Rightarrow> bs_stopped bs)"

definition deliver :: "send_case \<Rightarrow> GenerateEvent \<Rightarrow> event_chan \<Rightarrow> event_chan" where
  "deliver cs event ch =
    (let ch' = (if cs = SendEvent then chan_send event ch else ch)
     in if ge_Type event = ''final'' then closeItem ch' else ch')"

definition index_del :: "string \<Rightarrow> (string \<times> batchItem) list \<Rightarrow> (string \<times> batchItem) list" where
  "index_del k index = filter (\<lambda>(k', _). k' \<noteq> k) index"

definition route :: "nat \<Rightarrow> send_case \<Rightarrow> BatchGenerateResponse \<Rightarrow> BatchScheduler \<Rightarrow> BatchScheduler option" where
  "route i cs resp bs = (if i < length (bs_flights bs) then (case bs_flights bs ! i of
      Streaming batch index \<Rightarrow>
        (case map_of index (re_RequestId resp) of
            None \<Rightarrow> Some bs
          | Some it \<Rightarrow>
              let event = pbToGenerateEvent resp in
              if case_ready cs it bs then
                let bs' = on_chan (it_events it) (deliver cs event) bs;
                    index' = (if ge_Type event = ''final'' then index_del (re_RequestId resp) index else index)
                in Some (bs'\<lparr>bs_flights := (bs_flights bs)[i := Streaming batch index']\<rparr>)
              else None)
    | _ \<Rightarrow> None) else None)"

text \<open>
  \<open>watchBatchCancelled\<close> cancels the RPC once every request is cancelled or the scheduler stops.
\<close>

definition may_cancel :: "batchItem list \<Rightarrow> BatchScheduler \<Rightarrow> bool" where
  "may_cancel batch bs \<longleftrightarrow> bs_stopped bs \<or> list_all (ctx_done bs) batch"

text \<open>\<open>Recv\<close> returned an error: the end of the stream, after a cancellation, or another one.\<close>

datatype stream_end = EndEOF | EndCancelled | EndError string

fun end_reason :: "stream_end \<Rightarrow> string \<times> string \<times> string" where
  "end_reason EndEOF = (''STOP_ERROR'', ''error'', ''inference stream ended without final'')"
| "end_reason EndCancelled = (''STOP_CANCELLED'', ''cancelled'', [])"
| "end_reason (EndError e) = (''STOP_ERROR'', ''error'', e)"

definition dispatch_end :: "nat \<Rightarrow> stream_end \<Rightarrow> BatchScheduler \<Rightarrow> BatchScheduler option" where
  "dispatch_end i why bs = (if i < length (bs_flights bs) then (case bs_flights bs ! i of
      Streaming batch index \<Rightarrow>
        if why = EndCancelled \<and> \<not> may_cancel batch bs then None
        else Some (leave i (finishAll index (end_reason why) bs))
    | _ \<Rightarrow> None) else None)"

section \<open>The goroutines together\<close>

text \<open>
  Every interleaving: submitters, cancellations, consumers, \<open>Shutdown\<close>, the collector and the
  dispatchers, in any order. Whether the worker answers, and what, is free.
\<close>

inductive bs_step :: "BatchScheduler \<Rightarrow> BatchScheduler \<Rightarrow> bool" where
  submit: "(entry \<longrightarrow> bs_stopped bs) \<Longrightarrow> bs_step bs (snd (TrySubmit entry pick ctx req bs))"
| cancel: "bs_step bs (bs\<lparr>bs_done := c # bs_done bs\<rparr>)"
| consume: "c < length (bs_chans bs) \<Longrightarrow> bs_step bs (on_chan c chan_take bs)"
| shutdown: "bs_step bs (Shutdown bs)"
| first: "collect_first bs = Some bs' \<Longrightarrow> bs_step bs bs'"
| stop: "collect_stop bs = Some bs' \<Longrightarrow> bs_step bs bs'"
| more: "collect_more bs = Some bs' \<Longrightarrow> bs_step bs bs'"
| finish: "collect_end bs = Some bs' \<Longrightarrow> bs_step bs bs'"
| acquire: "acquire_slot bs = Some bs' \<Longrightarrow> bs_step bs bs'"
| stop_wait: "stop_waiting bs = Some bs' \<Longrightarrow> bs_step bs bs'"
| open_stream: "dispatch_open i rpcErr bs = Some bs' \<Longrightarrow> bs_step bs bs'"
| response: "route i cs resp bs = Some bs' \<Longrightarrow> bs_step bs bs'"
| end_stream: "dispatch_end i why bs = Some bs' \<Longrightarrow> bs_step bs bs'"

inductive bs_steps :: "BatchScheduler \<Rightarrow> BatchScheduler \<Rightarrow> bool" where
  none: "bs_steps bs bs"
| snoc: "bs_steps bs bs' \<Longrightarrow> bs_step bs' bs'' \<Longrightarrow> bs_steps bs bs''"

text \<open>Configured before the first \<open>Submit\<close>, as the setters require.\<close>

definition configured :: "int \<Rightarrow> int \<Rightarrow> BatchScheduler" where
  "configured maxBatch maxSlots = SetMaxInFlight maxSlots (SetMaxBatchSize maxBatch NewBatchScheduler)"

definition bs_reach :: "int \<Rightarrow> int \<Rightarrow> BatchScheduler \<Rightarrow> bool" where
  "bs_reach maxBatch maxSlots bs \<longleftrightarrow> bs_steps (configured maxBatch maxSlots) bs"

text \<open>One dispatcher reading responses while every consumer takes what it is sent.\<close>

definition consume_all :: "BatchScheduler \<Rightarrow> BatchScheduler" where
  "consume_all bs = bs\<lparr>bs_chans := map (\<lambda>ch. ch\<lparr>ch_recvd := ch_history ch, ch_buf := []\<rparr>) (bs_chans bs)\<rparr>"

fun serve :: "nat \<Rightarrow> BatchGenerateResponse list \<Rightarrow> BatchScheduler \<Rightarrow> BatchScheduler option" where
  "serve i [] bs = Some bs"
| "serve i (resp # rs) bs = (case route i SendEvent resp bs of
      None \<Rightarrow> None
    | Some bs' \<Rightarrow> serve i rs (consume_all bs'))"

end
