(* ===== verification/BatchSchedulerProofs.thy ===== *)
theory BatchSchedulerProofs
  imports BatchScheduler "HOL-Library.Multiset"
begin

text \<open>
  The scheduler's invariant: every open event channel that a goroutine may still write to has
  exactly one holder (the queue, the collector's batch, or the index of one dispatcher), so a channel
  is closed at most once and never written to afterwards; slots count the dispatchers. The case
  rules name the outcomes of each operation; the invariant is proved per rule of \<open>bs_step\<close>.
\<close>

named_theorems bs_defs "operations of the scheduler"

lemmas [bs_defs] = TrySubmit_def Shutdown_def collect_first_def collect_stop_def collect_more_def
  collect_end_def acquire_slot_def stop_waiting_def dispatch_open_def route_def dispatch_end_def

section \<open>Holders\<close>

fun collector_items :: "collector \<Rightarrow> batchItem list" where
  "collector_items (Collecting b) = b"
| "collector_items (Waiting b) = b"
| "collector_items _ = []"

fun flight_items :: "flight \<Rightarrow> batchItem list" where
  "flight_items (Starting b) = b"
| "flight_items (Streaming b index) = map snd index"

definition in_flight :: "flight list \<Rightarrow> batchItem list" where
  "in_flight fs = concat (map flight_items fs)"

definition held :: "BatchScheduler \<Rightarrow> batchItem list" where
  "held bs = bs_submitCh bs @ collector_items (bs_collector bs) @ in_flight (bs_flights bs)"

text \<open>Distinct, open channels, made for the request of the item that holds them.\<close>

definition owns :: "batchItem list \<Rightarrow> event_chan list \<Rightarrow> bool" where
  "owns its chans \<longleftrightarrow> distinct (map it_events its) \<and>
    (\<forall>it \<in> set its. it_events it < length chans \<and> ch_closes (chans ! it_events it) = 0 \<and>
      ch_req (chans ! it_events it) = item_id it)"

definition chan_ok :: "event_chan \<Rightarrow> bool" where
  "chan_ok ch \<longleftrightarrow> ch_closes ch \<le> 1 \<and> ch_late ch = 0 \<and>
    (\<forall>e \<in> set (butlast (ch_history ch)). ge_Type e \<noteq> ''final'') \<and>
    (ch_closes ch = 0 \<longrightarrow> (\<forall>e \<in> set (ch_history ch). ge_Type e \<noteq> ''final''))"

definition batch_size_ok :: "int \<Rightarrow> collector \<Rightarrow> bool" where
  "batch_size_ok n col = (case col of
      Collecting b \<Rightarrow> b \<noteq> [] \<and> int (length b) \<le> max 1 n
    | Waiting b \<Rightarrow> b \<noteq> [] \<and> int (length b) \<le> max 1 n
    | _ \<Rightarrow> True)"

fun flight_ok :: "int \<Rightarrow> flight \<Rightarrow> bool" where
  "flight_ok n (Starting b) \<longleftrightarrow> b \<noteq> [] \<and> int (length b) \<le> max 1 n"
| "flight_ok n (Streaming b index) \<longleftrightarrow> b \<noteq> [] \<and> int (length b) \<le> max 1 n \<and>
     distinct (map fst index) \<and> (\<forall>(k, it) \<in> set index. it \<in> set b \<and> item_id it = k)"

definition bs_ok :: "BatchScheduler \<Rightarrow> bool" where
  "bs_ok bs \<longleftrightarrow> owns (held bs) (bs_chans bs) \<and> list_all chan_ok (bs_chans bs) \<and>
    length (bs_submitCh bs) \<le> submitChCapacity \<and>
    bs_slots bs = length (bs_flights bs) \<and> bs_slots bs \<le> bs_maxInFlight bs \<and>
    batch_size_ok (bs_maxBatchSize bs) (bs_collector bs) \<and>
    list_all (flight_ok (bs_maxBatchSize bs)) (bs_flights bs)"

lemma distinct_submset:
  assumes "mset xs \<subseteq># mset ys" "distinct ys"
  shows "distinct xs"
proof -
  have "count (mset xs) a = (if a \<in> set xs then 1 else 0)" for a
  proof -
    have "count (mset xs) a \<le> count (mset ys) a"
      using assms(1) by (rule mset_subset_eq_count)
    also have "\<dots> \<le> 1"
      using assms(2) distinct_count_atmost_1[of ys] by simp
    finally show ?thesis
      by (cases "a \<in> set xs") (simp_all add: le_Suc_eq count_eq_zero_iff)
  qed
  then show ?thesis by (simp add: distinct_count_atmost_1)
qed

lemma owns_mset:
  assumes "owns its chans" "mset its' \<subseteq># mset its"
  shows "owns its' chans"
proof -
  have "set its' \<subseteq> set its"
    using assms(2) by (metis set_mset_mono set_mset_mset)
  moreover have "distinct (map it_events its')"
  proof -
    have "mset (map it_events its') \<subseteq># mset (map it_events its)"
      using assms(2) by (simp add: image_mset_subseteq_mono)
    moreover have "distinct (map it_events its)"
      using assms(1) by (simp add: owns_def)
    ultimately show ?thesis
      by (rule distinct_submset)
  qed
  ultimately show ?thesis
    using assms(1) by (auto simp: owns_def)
qed

lemma in_flight_simps [simp]:
  "in_flight [] = []" "in_flight (f # fs) = flight_items f @ in_flight fs"
  "in_flight (fs @ gs) = in_flight fs @ in_flight gs"
  by (simp_all add: in_flight_def)

lemma mset_in_flight_split:
  "i < length fs \<Longrightarrow>
    mset (in_flight fs) = mset (flight_items (fs ! i)) + mset (in_flight (take i fs @ drop (Suc i) fs))"
proof -
  assume "i < length fs"
  then have "fs = take i fs @ fs ! i # drop (Suc i) fs"
    by (rule id_take_nth_drop)
  then have "in_flight fs = in_flight (take i fs @ fs ! i # drop (Suc i) fs)"
    by simp
  then show ?thesis by simp
qed

lemma mset_in_flight_update:
  "i < length fs \<Longrightarrow>
    mset (in_flight (fs[i := f])) = mset (flight_items f) + mset (in_flight (take i fs @ drop (Suc i) fs))"
  using mset_in_flight_split[of i "fs[i := f]"] by simp

section \<open>Channels\<close>

lemma chan_ok_make [simp]: "chan_ok (make_chan r)"
  by (simp add: chan_ok_def make_chan_def ch_history_def)

lemma ch_history_take [simp]: "ch_history (chan_take ch) = ch_history ch"
  by (simp add: ch_history_def chan_take_def split: list.split)

lemma chan_take_fields [simp]:
  "ch_closes (chan_take ch) = ch_closes ch" "ch_late (chan_take ch) = ch_late ch"
  "ch_req (chan_take ch) = ch_req ch"
  by (simp_all add: chan_take_def split: list.split)

lemma chan_ok_take [simp]: "chan_ok (chan_take ch) = chan_ok ch"
  by (simp add: chan_ok_def)

lemma chan_ok_end:
  assumes "chan_ok ch" "ch_closes ch = 0"
  shows "chan_ok (closeItem (chan_try_send (final_event a b c) ch))"
  using assms
  by (auto simp: chan_ok_def closeItem_def chan_try_send_def chan_send_def ch_history_def butlast_append
      dest: in_set_butlastD)

lemma chan_ok_deliver:
  assumes "chan_ok ch" "ch_closes ch = 0"
  shows "chan_ok (deliver cs ev ch)"
  using assms
  by (auto simp: chan_ok_def closeItem_def deliver_def Let_def chan_send_def ch_history_def butlast_append
      dest: in_set_butlastD)

lemma deliver_fields [simp]:
  "ch_closes (deliver cs ev ch) = ch_closes ch + (if ge_Type ev = ''final'' then 1 else 0)"
  "ch_req (deliver cs ev ch) = ch_req ch"
  by (simp_all add: deliver_def Let_def chan_send_def closeItem_def)

lemma end_fields [simp]:
  "ch_closes (closeItem ch) = Suc (ch_closes ch)" "ch_req (closeItem ch) = ch_req ch"
  "ch_req (chan_try_send ev ch) = ch_req ch" "ch_closes (chan_try_send ev ch) = ch_closes ch"
  by (simp_all add: closeItem_def chan_try_send_def chan_send_def)

lemma on_chan_fields [simp]:
  "bs_submitCh (on_chan c f bs) = bs_submitCh bs" "bs_collector (on_chan c f bs) = bs_collector bs"
  "bs_flights (on_chan c f bs) = bs_flights bs" "bs_slots (on_chan c f bs) = bs_slots bs"
  "bs_maxInFlight (on_chan c f bs) = bs_maxInFlight bs" "bs_stopped (on_chan c f bs) = bs_stopped bs"
  "bs_maxBatchSize (on_chan c f bs) = bs_maxBatchSize bs" "bs_done (on_chan c f bs) = bs_done bs"
  "bs_chans (on_chan c f bs) = (bs_chans bs)[c := f (bs_chans bs ! c)]"
  by (simp_all add: on_chan_def)

text \<open>Ending a list of items: each of their channels is ended, the others are as before.\<close>

definition end_all :: "string \<times> string \<times> string \<Rightarrow> batchItem list \<Rightarrow> BatchScheduler \<Rightarrow> BatchScheduler" where
  "end_all reason its bs = fold (end_item reason) its bs"

lemma failAll_end_all: "failAll b err bs = end_all (fail_reason err) b bs"
  by (simp add: failAll_def end_all_def)

lemma finishAll_end_all: "finishAll index reason bs = end_all reason (map snd index) bs"
  by (simp add: finishAll_def end_all_def)

lemma end_all_simps [simp]:
  "end_all r [] bs = bs" "end_all r (it # its) bs = end_all r its (end_item r it bs)"
  by (simp_all add: end_all_def)

lemma end_all_fields [simp]:
  "bs_submitCh (end_all r its bs) = bs_submitCh bs" "bs_collector (end_all r its bs) = bs_collector bs"
  "bs_flights (end_all r its bs) = bs_flights bs" "bs_slots (end_all r its bs) = bs_slots bs"
  "bs_maxInFlight (end_all r its bs) = bs_maxInFlight bs" "bs_stopped (end_all r its bs) = bs_stopped bs"
  "bs_maxBatchSize (end_all r its bs) = bs_maxBatchSize bs" "bs_done (end_all r its bs) = bs_done bs"
  "length (bs_chans (end_all r its bs)) = length (bs_chans bs)"
  by (induction its arbitrary: bs) (simp_all add: end_item_def split: prod.split)

definition ended :: "string \<times> string \<times> string \<Rightarrow> event_chan \<Rightarrow> event_chan" where
  "ended r ch = (case r of (sr, fr, msg) \<Rightarrow> closeItem (chan_try_send (final_event sr fr msg) ch))"

lemma end_all_nth:
  assumes "distinct (map it_events its)" "\<And>it. it \<in> set its \<Longrightarrow> it_events it < length (bs_chans bs)"
    and "c < length (bs_chans bs)"
  shows "bs_chans (end_all r its bs) ! c =
    (if c \<in> it_events ` set its then ended r (bs_chans bs ! c) else bs_chans bs ! c)"
  using assms
proof (induction its arbitrary: bs)
  case (Cons it its)
  have step: "bs_chans (end_item r it bs) = (bs_chans bs)[it_events it := ended r (bs_chans bs ! it_events it)]"
    by (simp add: end_item_def ended_def split: prod.split)
  show ?case
    using Cons.prems Cons.IH[of "end_item r it bs"] by (auto simp: step nth_list_update)
qed simp

lemma end_all_owns:
  assumes "owns (its @ rest) (bs_chans bs)"
  shows "owns rest (bs_chans (end_all r its bs))"
proof -
  have "distinct (map it_events its)" "\<And>it. it \<in> set its \<Longrightarrow> it_events it < length (bs_chans bs)"
    using assms by (auto simp: owns_def)
  note nth = end_all_nth[OF this]
  show ?thesis
    using assms by (auto simp: owns_def nth)
qed

lemma end_all_chan_ok:
  assumes "owns its (bs_chans bs)" "list_all chan_ok (bs_chans bs)"
  shows "list_all chan_ok (bs_chans (end_all r its bs))"
proof -
  have "distinct (map it_events its)" "\<And>it. it \<in> set its \<Longrightarrow> it_events it < length (bs_chans bs)"
    using assms(1) by (auto simp: owns_def)
  note nth = end_all_nth[OF this]
  have "chan_ok (bs_chans (end_all r its bs) ! c)" if "c < length (bs_chans bs)" for c
    using that assms by (auto simp: nth owns_def list_all_length ended_def chan_ok_end split: prod.split)
  then show ?thesis by (simp add: list_all_length)
qed

section \<open>The index of a batch\<close>

lemma index_put_keys:
  "distinct (map fst index) \<Longrightarrow> distinct (map fst (index_put k it index))"
  by (auto simp: index_put_def distinct_map inj_on_def)

lemma set_index_put: "set (index_put k it index) = {p \<in> set index. fst p \<noteq> k} \<union> {(k, it)}"
  by (auto simp: index_put_def)

lemma build_index_gen:
  assumes "distinct (map fst index)" "\<forall>(k, it) \<in> set index. it \<in> set done \<and> item_id it = k"
  shows "distinct (map fst (fold (\<lambda>it index. index_put (item_id it) it index) batch index)) \<and>
    (\<forall>(k, it) \<in> set (fold (\<lambda>it index. index_put (item_id it) it index) batch index).
       it \<in> set (done @ batch) \<and> item_id it = k)"
  using assms
proof (induction batch arbitrary: "done" index)
  case (Cons x batch)
  have "distinct (map fst (index_put (item_id x) x index))"
    using Cons.prems(1) by (rule index_put_keys)
  moreover have "\<forall>(k, it) \<in> set (index_put (item_id x) x index). it \<in> set (done @ [x]) \<and> item_id it = k"
    using Cons.prems(2) by (auto simp: set_index_put)
  ultimately show ?case
    using Cons.IH[of "index_put (item_id x) x index" "done @ [x]"] by simp
qed simp

lemma build_index_ok:
  "distinct (map fst (build_index batch))"
  "(k, it) \<in> set (build_index batch) \<Longrightarrow> it \<in> set batch \<and> item_id it = k"
  using build_index_gen[of "[]" "[]" batch] by (auto simp: build_index_def)

text \<open>With distinct request ids nothing is overwritten.\<close>

lemma build_index_distinct_gen:
  assumes "distinct (map item_id batch)" "\<forall>it \<in> set batch. item_id it \<notin> fst ` set index"
  shows "fold (\<lambda>it index. index_put (item_id it) it index) batch index =
    index @ map (\<lambda>it. (item_id it, it)) batch"
  using assms
proof (induction batch arbitrary: index)
  case (Cons x batch)
  have "index_put (item_id x) x index = index @ [(item_id x, x)]"
    using Cons.prems(2) by (force simp: index_put_def filter_id_conv)
  moreover have "\<forall>it \<in> set batch. item_id it \<noteq> item_id x"
    using Cons.prems(1) by (force simp: image_iff)
  ultimately show ?case
    using Cons.prems Cons.IH[of "index @ [(item_id x, x)]"] by auto
qed simp

lemma build_index_distinct:
  "distinct (map item_id batch) \<Longrightarrow> build_index batch = map (\<lambda>it. (item_id it, it)) batch"
  by (simp add: build_index_def build_index_distinct_gen)

lemma mset_build_index_gen:
  "mset (map snd (fold (\<lambda>it index. index_put (item_id it) it index) batch index))
    \<subseteq># mset (map snd index) + mset batch"
proof (induction batch arbitrary: index)
  case (Cons x batch)
  have "mset (map snd (index_put (item_id x) x index)) \<subseteq># mset (map snd index) + {#x#}"
    by (simp add: index_put_def image_mset_subseteq_mono)
  then have "mset (map snd (index_put (item_id x) x index)) + mset batch
      \<subseteq># mset (map snd index) + {#x#} + mset batch"
    by (rule subset_mset.add_right_mono)
  with Cons.IH[of "index_put (item_id x) x index"] show ?case
    by (auto intro: subset_mset.order_trans)
qed simp

lemma mset_build_index: "mset (map snd (build_index batch)) \<subseteq># mset batch"
  using mset_build_index_gen[of batch "[]"] by (simp add: build_index_def)

section \<open>The invariant is kept\<close>

lemma bs_okI:
  assumes "owns (held bs) (bs_chans bs)" "list_all chan_ok (bs_chans bs)"
    and "length (bs_submitCh bs) \<le> submitChCapacity"
    and "bs_slots bs = length (bs_flights bs)" "bs_slots bs \<le> bs_maxInFlight bs"
    and "batch_size_ok (bs_maxBatchSize bs) (bs_collector bs)"
    and "list_all (flight_ok (bs_maxBatchSize bs)) (bs_flights bs)"
  shows "bs_ok bs"
  using assms by (simp add: bs_ok_def)

lemma bs_okD:
  assumes "bs_ok bs"
  shows "owns (held bs) (bs_chans bs)" "list_all chan_ok (bs_chans bs)"
    and "length (bs_submitCh bs) \<le> submitChCapacity"
    and "bs_slots bs = length (bs_flights bs)" "bs_slots bs \<le> bs_maxInFlight bs"
    and "batch_size_ok (bs_maxBatchSize bs) (bs_collector bs)"
    and "list_all (flight_ok (bs_maxBatchSize bs)) (bs_flights bs)"
  using assms by (simp_all add: bs_ok_def)

text \<open>Steps that only move items between holders.\<close>

lemma bs_ok_move:
  assumes "bs_ok bs" "bs_chans bs' = bs_chans bs" "mset (held bs') \<subseteq># mset (held bs)"
    and "length (bs_submitCh bs') \<le> submitChCapacity"
    and "bs_slots bs' = length (bs_flights bs')" "bs_slots bs' \<le> bs_maxInFlight bs'"
    and "batch_size_ok (bs_maxBatchSize bs') (bs_collector bs')"
    and "list_all (flight_ok (bs_maxBatchSize bs')) (bs_flights bs')"
  shows "bs_ok bs'"
  using assms owns_mset[OF bs_okD(1)[OF assms(1)] assms(3)] bs_okD(2)[OF assms(1)]
  by (intro bs_okI) simp_all

lemma bs_ok_submit:
  assumes "bs_ok bs"
  shows "bs_ok (snd (TrySubmit entry pick ctx req bs))"
proof (cases "\<not> entry \<and> length (bs_submitCh bs) < submitChCapacity \<and> (bs_stopped bs \<longrightarrow> pick)")
  case True
  define c where "c = length (bs_chans bs)"
  define it where "it = \<lparr>it_ctx = ctx, it_req = req, it_events = c\<rparr>"
  define bs' where "bs' = snd (TrySubmit entry pick ctx req bs)"
  have bs': "bs' = bs\<lparr>bs_submitCh := bs_submitCh bs @ [it],
      bs_chans := bs_chans bs @ [make_chan (gr_RequestID req)]\<rparr>"
    using True by (simp add: bs'_def TrySubmit_def it_def c_def Let_def)
  have "owns (it # held bs) (bs_chans bs @ [make_chan (gr_RequestID req)])"
    using bs_okD(1)[OF assms]
    by (auto simp: owns_def nth_append it_def c_def make_chan_def)
  moreover have "mset (held bs') = mset (it # held bs)"
    by (simp add: bs' held_def)
  ultimately have "owns (held bs') (bs_chans bs')"
    using owns_mset[of "it # held bs" _ "held bs'"] by (simp add: bs')
  then have "bs_ok bs'"
    using bs_okD[OF assms] True by (intro bs_okI) (simp_all add: bs')
  then show ?thesis by (simp add: bs'_def)
next
  case False
  then show ?thesis using assms by (auto simp: TrySubmit_def)
qed

lemma bs_ok_consume:
  assumes "bs_ok bs" "c < length (bs_chans bs)"
  shows "bs_ok (on_chan c chan_take bs)"
proof -
  have "owns (held bs) ((bs_chans bs)[c := chan_take (bs_chans bs ! c)])"
    using bs_okD(1)[OF assms(1)] assms(2) by (auto simp: owns_def nth_list_update)
  moreover have "list_all chan_ok ((bs_chans bs)[c := chan_take (bs_chans bs ! c)])"
    using bs_okD(2)[OF assms(1)] assms(2) by (simp add: list_all_length nth_list_update)
  ultimately show ?thesis
    using bs_okD[OF assms(1)] by (intro bs_okI) (simp_all add: held_def)
qed

text \<open>The outcome of each operation of the collector and the dispatchers.\<close>

lemma collect_first_cases:
  assumes "collect_first bs = Some bs'"
  obtains it q where "bs_collector bs = Idle" "bs_submitCh bs = it # q"
    "bs' = bs\<lparr>bs_submitCh := q, bs_collector := Collecting [it]\<rparr>"
  using assms by (auto simp: collect_first_def split: collector.splits list.splits)

lemma collect_stop_cases:
  assumes "collect_stop bs = Some bs'"
  obtains "bs_collector bs = Idle" "bs_stopped bs" "bs' = bs\<lparr>bs_collector := Exited\<rparr>"
  using assms by (auto simp: collect_stop_def split: if_splits)

lemma collect_more_cases:
  assumes "collect_more bs = Some bs'"
  obtains batch it q where "bs_collector bs = Collecting batch" "bs_submitCh bs = it # q"
    "int (length batch) < bs_maxBatchSize bs"
    "bs' = bs\<lparr>bs_submitCh := q, bs_collector := Collecting (batch @ [it])\<rparr>"
  using assms by (auto simp: collect_more_def split: collector.splits list.splits if_splits)

lemma collect_end_cases:
  assumes "collect_end bs = Some bs'"
  obtains batch where "bs_collector bs = Collecting batch" "bs' = bs\<lparr>bs_collector := Waiting batch\<rparr>"
  using assms by (auto simp: collect_end_def split: collector.splits)

lemma acquire_slot_cases:
  assumes "acquire_slot bs = Some bs'"
  obtains batch where "bs_collector bs = Waiting batch" "bs_slots bs < bs_maxInFlight bs"
    "bs' = bs\<lparr>bs_collector := Idle, bs_slots := bs_slots bs + 1,
       bs_flights := bs_flights bs @ [Starting batch]\<rparr>"
  using assms by (auto simp: acquire_slot_def split: collector.splits if_splits)

lemma stop_waiting_cases:
  assumes "stop_waiting bs = Some bs'"
  obtains batch where "bs_collector bs = Waiting batch" "bs_stopped bs"
    "bs' = (end_all (fail_reason None) batch bs)\<lparr>bs_collector := Exited\<rparr>"
  using assms
  by (auto simp: stop_waiting_def failAll_end_all split: collector.splits if_splits)

lemma dispatch_open_cases:
  assumes "dispatch_open i rpcErr bs = Some bs'"
  obtains (empty) "i < length (bs_flights bs)" "bs_flights bs ! i = Starting []" "bs' = leave i bs"
  | (failed) batch e where "i < length (bs_flights bs)" "bs_flights bs ! i = Starting batch" "batch \<noteq> []"
      "rpcErr = Some e"
      "bs' = leave i (end_all (fail_reason (Some (''batch generate failed: '' @ e))) batch bs)"
  | (opened) batch where "i < length (bs_flights bs)" "bs_flights bs ! i = Starting batch" "batch \<noteq> []"
      "rpcErr = None"
      "bs' = bs\<lparr>bs_flights := (bs_flights bs)[i := Streaming batch (build_index batch)]\<rparr>"
  using assms
  by (auto simp: dispatch_open_def failAll_end_all split: if_splits flight.splits option.splits)

lemma route_cases:
  assumes "route i cs resp bs = Some bs'"
  obtains (unknown) batch index where "i < length (bs_flights bs)" "bs_flights bs ! i = Streaming batch index"
      "map_of index (re_RequestId resp) = None" "bs' = bs"
  | (known) batch index it where "i < length (bs_flights bs)" "bs_flights bs ! i = Streaming batch index"
      "map_of index (re_RequestId resp) = Some it" "case_ready cs it bs"
      "bs' = (on_chan (it_events it) (deliver cs (pbToGenerateEvent resp)) bs)\<lparr>bs_flights :=
        (bs_flights bs)[i := Streaming batch
          (if ge_Type (pbToGenerateEvent resp) = ''final'' then index_del (re_RequestId resp) index else index)]\<rparr>"
  using assms
  by (auto simp: route_def Let_def split: if_splits flight.splits option.splits)

lemma dispatch_end_cases:
  assumes "dispatch_end i why bs = Some bs'"
  obtains batch index where "i < length (bs_flights bs)" "bs_flights bs ! i = Streaming batch index"
    "why = EndCancelled \<longrightarrow> may_cancel batch bs"
    "bs' = leave i (end_all (end_reason why) (map snd index) bs)"
  using assms
  by (auto simp: dispatch_end_def finishAll_end_all split: if_splits flight.splits)

text \<open>The collector.\<close>

lemma bs_ok_first: "bs_ok bs \<Longrightarrow> collect_first bs = Some bs' \<Longrightarrow> bs_ok bs'"
  by (erule collect_first_cases, rule bs_ok_move[of bs])
    (auto dest: bs_okD(3-7) simp: held_def batch_size_ok_def)

lemma bs_ok_stop: "bs_ok bs \<Longrightarrow> collect_stop bs = Some bs' \<Longrightarrow> bs_ok bs'"
  by (erule collect_stop_cases, rule bs_ok_move[of bs])
    (auto dest: bs_okD(3-7) simp: held_def batch_size_ok_def)

lemma bs_ok_more: "bs_ok bs \<Longrightarrow> collect_more bs = Some bs' \<Longrightarrow> bs_ok bs'"
  by (erule collect_more_cases, rule bs_ok_move[of bs])
    (auto dest: bs_okD(3-7) simp: held_def batch_size_ok_def)

lemma bs_ok_end: "bs_ok bs \<Longrightarrow> collect_end bs = Some bs' \<Longrightarrow> bs_ok bs'"
  by (erule collect_end_cases, rule bs_ok_move[of bs])
    (auto dest: bs_okD(3-7) simp: held_def batch_size_ok_def)

lemma bs_ok_acquire: "bs_ok bs \<Longrightarrow> acquire_slot bs = Some bs' \<Longrightarrow> bs_ok bs'"
  by (erule acquire_slot_cases, rule bs_ok_move[of bs])
    (auto dest: bs_okD(3-7) simp: held_def batch_size_ok_def)

text \<open>Steps that end items: the rest of the holders keep their channels.\<close>

lemma bs_ok_end_all:
  assumes "bs_ok bs" "mset (its @ held bs') = mset (held bs)"
    and "bs_chans bs' = bs_chans (end_all r its bs)"
    and "length (bs_submitCh bs') \<le> submitChCapacity"
    and "bs_slots bs' = length (bs_flights bs')" "bs_slots bs' \<le> bs_maxInFlight bs'"
    and "batch_size_ok (bs_maxBatchSize bs') (bs_collector bs')"
    and "list_all (flight_ok (bs_maxBatchSize bs')) (bs_flights bs')"
  shows "bs_ok bs'"
proof -
  have own: "owns (its @ held bs') (bs_chans bs)"
    using owns_mset[OF bs_okD(1)[OF assms(1)]] assms(2) by (metis subset_mset.order_refl)
  then have "owns its (bs_chans bs)"
    by (auto simp: owns_def)
  then show ?thesis
    using assms end_all_owns[OF own] end_all_chan_ok bs_okD(2)[OF assms(1)] by (intro bs_okI) simp_all
qed

lemma bs_ok_stop_wait: "bs_ok bs \<Longrightarrow> stop_waiting bs = Some bs' \<Longrightarrow> bs_ok bs'"
  by (erule stop_waiting_cases, rule bs_ok_end_all[of bs _ _ "fail_reason None"])
    (auto dest: bs_okD(3-7) simp: held_def batch_size_ok_def)

lemma leave_fields [simp]:
  "bs_submitCh (leave i bs) = bs_submitCh bs" "bs_collector (leave i bs) = bs_collector bs"
  "bs_chans (leave i bs) = bs_chans bs" "bs_maxInFlight (leave i bs) = bs_maxInFlight bs"
  "bs_maxBatchSize (leave i bs) = bs_maxBatchSize bs" "bs_stopped (leave i bs) = bs_stopped bs"
  "bs_flights (leave i bs) = take i (bs_flights bs) @ drop (Suc i) (bs_flights bs)"
  "bs_slots (leave i bs) = bs_slots bs - 1" "bs_done (leave i bs) = bs_done bs"
  by (simp_all add: leave_def)

lemma list_all_take_drop: "list_all P xs \<Longrightarrow> list_all P (take i xs @ drop (Suc i) xs)"
  by (auto simp: list_all_iff dest: in_set_takeD in_set_dropD)

lemma bs_ok_leave:
  assumes "bs_ok bs" "i < length (bs_flights bs)" "flight_items (bs_flights bs ! i) = its"
  shows "bs_ok (leave i (end_all r its bs))"
proof (rule bs_ok_end_all[of bs its _ r])
  show "mset (its @ held (leave i (end_all r its bs))) = mset (held bs)"
    using mset_in_flight_split[OF assms(2)] assms(3) by (simp add: held_def)
qed (use bs_okD[OF assms(1)] assms in \<open>auto simp: list_all_take_drop simp del: list_all_append\<close>)

text \<open>The dispatchers.\<close>

lemma bs_ok_flight:
  "bs_ok bs \<Longrightarrow> i < length (bs_flights bs) \<Longrightarrow> flight_ok (bs_maxBatchSize bs) (bs_flights bs ! i)"
  using bs_okD(7)[of bs] by (simp add: list_all_length)

lemma list_all_update: "list_all P xs \<Longrightarrow> P x \<Longrightarrow> list_all P (xs[i := x])"
  by (cases "i < length xs") (simp_all add: list_all_length nth_list_update)

lemma bs_ok_open:
  assumes "bs_ok bs" "dispatch_open i rpcErr bs = Some bs'"
  shows "bs_ok bs'"
  using assms(2)
proof (cases rule: dispatch_open_cases)
  case empty
  with bs_ok_leave[OF assms(1), where i = i and its = "[]"] show ?thesis by simp
next
  case (failed batch e)
  with bs_ok_leave[OF assms(1), where i = i and its = batch] show ?thesis by simp
next
  case (opened batch)
  have split: "mset (held bs) = mset batch + mset (bs_submitCh bs) + mset (collector_items (bs_collector bs)) +
      mset (in_flight (take i (bs_flights bs) @ drop (Suc i) (bs_flights bs)))"
    using mset_in_flight_split[OF opened(1)] opened(2) by (simp add: held_def)
  have held': "mset (held bs') = mset (map snd (build_index batch)) + mset (bs_submitCh bs) +
      mset (collector_items (bs_collector bs)) +
      mset (in_flight (take i (bs_flights bs) @ drop (Suc i) (bs_flights bs)))"
    using mset_in_flight_update[OF opened(1)] by (simp add: held_def opened(5))
  have sub: "mset (held bs') \<subseteq># mset (held bs)"
    unfolding split held' by (intro subset_mset.add_mono mset_build_index) simp_all
  have "flight_ok (bs_maxBatchSize bs) (Starting batch)"
    using bs_ok_flight[OF assms(1) opened(1)] by (simp only: opened(2))
  then have "flight_ok (bs_maxBatchSize bs) (Streaming batch (build_index batch))"
    using build_index_ok(1)[of batch] by (auto dest: build_index_ok(2))
  then have "list_all (flight_ok (bs_maxBatchSize bs)) (bs_flights bs')"
    using bs_okD(7)[OF assms(1)] opened(1)
    by (simp add: opened(5) list_all_length nth_list_update)
  with sub show ?thesis
    using bs_okD[OF assms(1)] by (intro bs_ok_move[OF assms(1)]) (simp_all add: opened(5))
qed

lemma owns_on_chan:
  assumes "owns its chans" "c < length chans"
    and "ch_closes x = ch_closes (chans ! c)" "ch_req x = ch_req (chans ! c)"
  shows "owns its (chans[c := x])"
  using assms by (auto simp: owns_def nth_list_update)

lemma owns_drop: "owns (it # its) chans \<Longrightarrow> owns its (chans[it_events it := x])"
  by (auto simp: owns_def nth_list_update)


lemma mset_index_del:
  "map_of index k = Some it \<Longrightarrow> distinct (map fst index) \<Longrightarrow>
    mset (map snd index) = mset (it # map snd (index_del k index))"
proof (induction index)
  case (Cons p index)
  show ?case
  proof (cases "fst p = k")
    case True
    then have "\<forall>q \<in> set index. fst q \<noteq> k"
      using Cons.prems(2) by (auto simp: image_iff)
    then have "index_del k index = index"
      by (auto simp: index_del_def filter_id_conv)
    with True Cons.prems show ?thesis by (cases p) (simp add: index_del_def)
  next
    case False
    with Cons show ?thesis by (cases p) (simp add: index_del_def)
  qed
qed simp

lemma flight_ok_index_del:
  "flight_ok n (Streaming b index) \<Longrightarrow> flight_ok n (Streaming b (index_del k index))"
  by (auto simp: index_del_def distinct_map inj_on_def)

lemma bs_ok_route:
  assumes "bs_ok bs" "route i cs resp bs = Some bs'"
  shows "bs_ok bs'"
  using assms(2)
proof (cases rule: route_cases)
  case (unknown batch index)
  with assms(1) show ?thesis by simp
next
  case (known batch index it)
  define ev where "ev = pbToGenerateEvent resp"
  define index' where "index' = (if ge_Type ev = ''final'' then index_del (re_RequestId resp) index else index)"
  define x where "x = deliver cs ev (bs_chans bs ! it_events it)"
  define rest where "rest = bs_submitCh bs @ collector_items (bs_collector bs) @
    in_flight (take i (bs_flights bs) @ drop (Suc i) (bs_flights bs))"
  have fok: "flight_ok (bs_maxBatchSize bs) (Streaming batch index)"
    using bs_ok_flight[OF assms(1) known(1)] by (simp only: known(2))
  have chans: "bs_chans bs' = (bs_chans bs)[it_events it := x]"
    by (simp add: known(5) x_def ev_def)
  have held: "mset (held bs) = mset (map snd index @ rest)"
    using mset_in_flight_split[OF known(1)] known(2) by (simp add: held_def rest_def)
  have held': "mset (held bs') = mset (map snd index' @ rest)"
    using mset_in_flight_update[OF known(1)]
    by (simp add: held_def rest_def known(5) index'_def ev_def)
  have it: "it \<in> set (held bs)"
  proof -
    have "(re_RequestId resp, it) \<in> set index"
      using known(3) by (rule map_of_SomeD)
    then have "it \<in> set (map snd index @ rest)" by force
    then show ?thesis
      using held by (metis set_mset_mset)
  qed
  have open0: "it_events it < length (bs_chans bs)" "ch_closes (bs_chans bs ! it_events it) = 0"
    using bs_okD(1)[OF assms(1)] it by (auto simp: owns_def)
  have "owns (held bs') (bs_chans bs')"
  proof (cases "ge_Type ev = ''final''")
    case True
    have "mset (it # held bs') = mset (held bs)"
      using mset_index_del[OF known(3)] fok held held' True by (simp add: index'_def)
    then have "owns (it # held bs') (bs_chans bs)"
      using owns_mset[OF bs_okD(1)[OF assms(1)]] by (metis subset_mset.order_refl)
    then show ?thesis
      unfolding chans by (rule owns_drop)
  next
    case False
    then have "owns (held bs') (bs_chans bs)"
      using owns_mset[OF bs_okD(1)[OF assms(1)]] held held' by (simp add: index'_def)
    then show ?thesis
      unfolding chans by (rule owns_on_chan) (use False open0 in \<open>simp_all add: x_def\<close>)
  qed
  moreover have "list_all chan_ok (bs_chans bs')"
    unfolding chans using bs_okD(2)[OF assms(1)] open0
    by (intro list_all_update) (simp_all add: x_def chan_ok_deliver list_all_length)
  moreover have "flight_ok (bs_maxBatchSize bs) (Streaming batch index')"
    by (cases "ge_Type ev = ''final''") (use fok flight_ok_index_del[OF fok] in \<open>simp_all only: index'_def simp_thms if_True if_False\<close>)
  then have "list_all (flight_ok (bs_maxBatchSize bs)) (bs_flights bs')"
    using list_all_update[OF bs_okD(7)[OF assms(1)]]
    by (simp add: known(5) index'_def ev_def del: flight_ok.simps)
  ultimately show ?thesis
    using bs_okD[OF assms(1)] by (intro bs_okI) (simp_all add: known(5))
qed

lemma bs_ok_dispatch_end:
  assumes "bs_ok bs" "dispatch_end i why bs = Some bs'"
  shows "bs_ok bs'"
  using assms(2)
proof (cases rule: dispatch_end_cases)
  case (1 batch index)
  with bs_ok_leave[OF assms(1), where i = i and its = "map snd index"] show ?thesis by simp
qed

lemma bs_ok_step: "bs_step bs bs' \<Longrightarrow> bs_ok bs \<Longrightarrow> bs_ok bs'"
proof (induction rule: bs_step.induct)
  case (cancel bs c)
  then show ?case by (simp add: bs_ok_def held_def)
next
  case (shutdown bs)
  then show ?case by (simp add: bs_ok_def held_def Shutdown_def)
next
  case (submit entry bs pick ctx req)
  then show ?case by (simp add: bs_ok_submit)
next
  case (consume c bs)
  then show ?case by (intro bs_ok_consume)
qed (rule bs_ok_first bs_ok_stop bs_ok_more bs_ok_end bs_ok_acquire bs_ok_stop_wait bs_ok_open
  bs_ok_route bs_ok_dispatch_end, assumption, assumption)+

lemma bs_ok_steps: "bs_steps bs bs' \<Longrightarrow> bs_ok bs \<Longrightarrow> bs_ok bs'"
  by (induction rule: bs_steps.induct) (simp_all add: bs_ok_step)

lemma bs_ok_configured: "bs_ok (configured maxBatch maxSlots)"
  by (simp add: bs_ok_def held_def configured_def SetMaxInFlight_def SetMaxBatchSize_def Let_def
      NewBatchScheduler_def owns_def batch_size_ok_def)

lemma bs_ok_reach: "bs_reach maxBatch maxSlots bs \<Longrightarrow> bs_ok bs"
  unfolding bs_reach_def by (rule bs_ok_steps[OF _ bs_ok_configured])

end
