(* ===== verification/BatchSchedulerProperties.thy ===== *)
theory BatchSchedulerProperties
  imports BatchSchedulerProofs
begin

text \<open>
  What the batch scheduler promises its callers, for every interleaving of its goroutines: channels
  are closed once, no request is lost between the queue and its final event, the bounds of queue,
  batches and slots, and the events of a request in a batch are those it would get alone.
\<close>

section \<open>No request is lost\<close>

definition open_chans :: "event_chan list \<Rightarrow> nat set" where
  "open_chans chans = {c. c < length chans \<and> ch_closes (chans ! c) = 0}"

definition covered :: "BatchScheduler \<Rightarrow> bool" where
  "covered bs \<longleftrightarrow> (distinct (map ch_req (bs_chans bs)) \<longrightarrow>
    open_chans (bs_chans bs) \<subseteq> it_events ` set (held bs))"

lemma covered_move:
  assumes "covered bs" "bs_chans bs' = bs_chans bs"
    and "distinct (map ch_req (bs_chans bs)) \<Longrightarrow> set (held bs) \<subseteq> set (held bs')"
  shows "covered bs'"
  unfolding covered_def assms(2)
  by (intro impI) (use assms(1,3) in \<open>unfold covered_def, blast\<close>)

lemma covered_end_all:
  assumes "covered bs" "bs_ok bs" "mset (its @ held bs') = mset (held bs)"
    and "bs_chans bs' = bs_chans (end_all r its bs)"
  shows "covered bs'"
proof -
  have "owns (its @ held bs') (bs_chans bs)"
    using owns_mset[OF bs_okD(1)[OF assms(2)]] assms(3) by (metis subset_mset.order_refl)
  then have its: "distinct (map it_events its)" "\<And>it. it \<in> set its \<Longrightarrow> it_events it < length (bs_chans bs)"
    by (auto simp: owns_def)
  note nth = end_all_nth[OF its]
  have "ch_req (bs_chans (end_all r its bs) ! c) = ch_req (bs_chans bs ! c)" if "c < length (bs_chans bs)" for c
    using that by (simp add: nth ended_def split: prod.split)
  then have reqs: "map ch_req (bs_chans bs') = map ch_req (bs_chans bs)"
    by (simp add: assms(4) list_eq_iff_nth_eq)
  have opened: "open_chans (bs_chans bs') \<subseteq> open_chans (bs_chans bs) - it_events ` set its"
    by (auto simp: open_chans_def assms(4) nth ended_def split: prod.splits if_splits)
  have held: "set (held bs) = set its \<union> set (held bs')"
    using assms(3) by (metis set_append set_mset_mset)
  show ?thesis
    using assms(1) opened unfolding covered_def reqs held by blast
qed

lemma covered_update:
  assumes "covered bs" "bs_chans bs' = (bs_chans bs)[c := x]" "ch_req x = ch_req (bs_chans bs ! c)"
    and "c < length (bs_chans bs)"
    and "ch_closes x = 0 \<Longrightarrow> ch_closes (bs_chans bs ! c) = 0"
    and "it_events ` set (held bs) \<subseteq> it_events ` set (held bs') \<union> (if ch_closes x = 0 then {} else {c})"
  shows "covered bs'"
proof -
  have reqs: "map ch_req (bs_chans bs') = map ch_req (bs_chans bs)"
    using assms(2,3,4) by (simp add: list_eq_iff_nth_eq nth_list_update)
  have "open_chans (bs_chans bs') \<subseteq> open_chans (bs_chans bs) - (if ch_closes x = 0 then {} else {c})"
    using assms(4,5) by (auto simp: open_chans_def assms(2) nth_list_update split: if_splits)
  then show ?thesis
    using assms(1,6) unfolding covered_def reqs by blast
qed

lemma covered_submit:
  assumes "covered bs"
  shows "covered (snd (TrySubmit entry pick ctx req bs))"
proof (cases "\<not> entry \<and> length (bs_submitCh bs) < submitChCapacity \<and> (bs_stopped bs \<longrightarrow> pick)")
  case True
  then show ?thesis
    using assms by (auto simp: TrySubmit_def Let_def covered_def open_chans_def held_def nth_append less_Suc_eq)
next
  case False
  then show ?thesis using assms by (auto simp: TrySubmit_def)
qed

lemma covered_leave:
  assumes "covered bs" "bs_ok bs" "i < length (bs_flights bs)" "flight_items (bs_flights bs ! i) = its"
  shows "covered (leave i (end_all r its bs))"
proof (rule covered_end_all[OF assms(1,2), of its _ r])
  show "mset (its @ held (leave i (end_all r its bs))) = mset (held bs)"
    using mset_in_flight_split[OF assms(3)] assms(4) by (simp add: held_def)
qed simp_all

text \<open>Distinct request names of the channels make the ids of a batch distinct.\<close>

lemma owns_distinct_ids:
  assumes "owns its chans" "distinct (map ch_req chans)"
  shows "distinct (map item_id its)"
proof -
  have "inj_on item_id (set its)"
  proof (rule inj_onI)
    fix a b assume ab: "a \<in> set its" "b \<in> set its" "item_id a = item_id b"
    with assms(1) have "ch_req (chans ! it_events a) = ch_req (chans ! it_events b)"
      "it_events a < length chans" "it_events b < length chans"
      by (auto simp: owns_def)
    with assms(2) have "it_events a = it_events b"
      by (auto simp: distinct_conv_nth)
    with assms(1) ab show "a = b"
      by (auto simp: owns_def distinct_map inj_on_def)
  qed
  moreover have "distinct its"
    using assms(1) by (simp add: owns_def distinct_map)
  ultimately show ?thesis by (simp add: distinct_map)
qed

lemma covered_open:
  assumes "covered bs" "bs_ok bs" "dispatch_open i rpcErr bs = Some bs'"
  shows "covered bs'"
  using assms(3)
proof (cases rule: dispatch_open_cases)
  case empty
  with covered_leave[OF assms(1,2), where i = i and its = "[]"] show ?thesis by simp
next
  case (failed batch e)
  with covered_leave[OF assms(1,2), where i = i and its = batch] show ?thesis by simp
next
  case (opened batch)
  show ?thesis
  proof (rule covered_move[OF assms(1)])
    assume dist: "distinct (map ch_req (bs_chans bs))"
    have "mset batch \<subseteq># mset (held bs)"
      using mset_in_flight_split[OF opened(1)] opened(2) by (simp add: held_def)
    then have "distinct (map item_id batch)"
      using owns_distinct_ids[OF owns_mset[OF bs_okD(1)[OF assms(2)]] dist] by simp
    then have items: "map snd (build_index batch) = batch"
      by (simp add: build_index_distinct comp_def)
    have "mset (held bs') = mset (held bs)"
      using mset_in_flight_split[OF opened(1)] mset_in_flight_update[OF opened(1)] opened(2) items
      by (simp add: held_def opened(5))
    then show "set (held bs) \<subseteq> set (held bs')"
      by (metis set_mset_mset order_refl)
  qed (simp add: opened(5))
qed

lemma covered_route:
  assumes "covered bs" "bs_ok bs" "route i cs resp bs = Some bs'"
  shows "covered bs'"
  using assms(3)
proof (cases rule: route_cases)
  case (unknown batch index)
  with assms(1) show ?thesis by simp
next
  case (known batch index it)
  define index' where "index' = (if ge_Type (pbToGenerateEvent resp) = ''final''
    then index_del (re_RequestId resp) index else index)"
  define rest where "rest = bs_submitCh bs @ collector_items (bs_collector bs) @
    in_flight (take i (bs_flights bs) @ drop (Suc i) (bs_flights bs))"
  have dist: "distinct (map fst index)"
    using bs_ok_flight[OF assms(2) known(1)] known(2) by simp
  have held: "mset (held bs) = mset (map snd index @ rest)"
    using mset_in_flight_split[OF known(1)] known(2) by (simp add: held_def rest_def)
  have held': "mset (held bs') = mset (map snd index' @ rest)"
    using mset_in_flight_update[OF known(1)]
    by (simp add: held_def rest_def known(5) index'_def)
  have idx: "mset (map snd index) = mset (it # map snd (index_del (re_RequestId resp) index))"
    using mset_index_del[OF known(3) dist] .
  have "it \<in> set (held bs)"
    using held idx by (metis list.set_intros(1) set_mset_mset set_append UnI1)
  then have len: "it_events it < length (bs_chans bs)"
    using bs_okD(1)[OF assms(2)] by (auto simp: owns_def)
  have "set (held bs) \<subseteq> set (held bs') \<union> (if ge_Type (pbToGenerateEvent resp) = ''final'' then {it} else {})"
  proof -
    have "set (held bs) = set (map snd index) \<union> set rest" "set (held bs') = set (map snd index') \<union> set rest"
      using held held' by (metis set_append set_mset_mset)+
    moreover have "set (map snd index) = insert it (set (map snd (index_del (re_RequestId resp) index)))"
      using idx by (metis list.simps(15) set_mset_mset)
    ultimately show ?thesis by (auto simp: index'_def)
  qed
  then have sub: "it_events ` set (held bs) \<subseteq> it_events ` set (held bs') \<union>
      (if ge_Type (pbToGenerateEvent resp) = ''final'' then {it_events it} else {})"
    by (auto split: if_splits)
  define x where "x = deliver cs (pbToGenerateEvent resp) (bs_chans bs ! it_events it)"
  have chans: "bs_chans bs' = (bs_chans bs)[it_events it := x]"
    by (simp add: known(5) x_def)
  show ?thesis
    by (rule covered_update[OF assms(1) chans _ len]) (use sub in \<open>auto simp: x_def split: if_splits\<close>)
qed

lemma covered_step: "bs_step bs bs' \<Longrightarrow> bs_ok bs \<Longrightarrow> covered bs \<Longrightarrow> covered bs'"
proof (induction rule: bs_step.induct)
  case (submit entry bs pick ctx req)
  then show ?case by (simp add: covered_submit)
next
  case (consume c bs)
  then show ?case
    using covered_update[of bs "on_chan c chan_take bs" c "chan_take (bs_chans bs ! c)"]
    by (simp add: held_def)
next
  case (stop_wait bs bs')
  from stop_wait(1) show ?case
  proof (cases rule: stop_waiting_cases)
    case (1 batch)
    then show ?thesis
      using stop_wait by (intro covered_end_all[of bs batch bs' "fail_reason None"]) (simp_all add: held_def)
  qed
next
  case (open_stream i rpcErr bs bs')
  then show ?case using covered_open[OF _ _ open_stream(1)] by blast
next
  case (response i cs resp bs bs')
  then show ?case using covered_route[OF _ _ response(1)] by blast
next
  case (end_stream i why bs bs')
  from end_stream(1) show ?case
  proof (cases rule: dispatch_end_cases)
    case (1 batch index)
    with covered_leave[of bs i "map snd index" "end_reason why"] end_stream show ?thesis by simp
  qed
next
  case (cancel bs c)
  then show ?case by (simp add: covered_def held_def)
next
  case (shutdown bs)
  then show ?case by (simp add: covered_def held_def Shutdown_def)
qed (erule collect_first_cases collect_stop_cases collect_more_cases collect_end_cases acquire_slot_cases,
  erule covered_move, auto simp: held_def)+

lemma covered_reach: "bs_reach maxBatch maxSlots bs \<Longrightarrow> covered bs"
proof -
  have "bs_steps bs bs' \<Longrightarrow> bs_ok bs \<and> covered bs \<Longrightarrow> bs_ok bs' \<and> covered bs'" for bs bs'
    by (induction rule: bs_steps.induct) (auto intro: bs_ok_step covered_step)
  moreover have "covered (configured maxBatch maxSlots)"
    by (simp add: covered_def configured_def SetMaxInFlight_def SetMaxBatchSize_def Let_def
        NewBatchScheduler_def open_chans_def)
  ultimately show "bs_reach maxBatch maxSlots bs \<Longrightarrow> covered bs"
    using bs_ok_configured unfolding bs_reach_def by blast
qed

section \<open>The configuration does not change\<close>

lemma step_config:
  "bs_step bs bs' \<Longrightarrow> bs_maxBatchSize bs' = bs_maxBatchSize bs \<and> bs_maxInFlight bs' = bs_maxInFlight bs"
proof (induction rule: bs_step.induct)
  case (submit entry bs pick ctx req)
  then show ?case by (simp add: TrySubmit_def Let_def)
next
  case (open_stream i rpcErr bs bs')
  from open_stream show ?case by (cases rule: dispatch_open_cases) simp_all
next
  case (response i cs resp bs bs')
  from response show ?case by (cases rule: route_cases) simp_all
qed (auto simp: Shutdown_def elim!: collect_first_cases collect_stop_cases collect_more_cases
  collect_end_cases acquire_slot_cases stop_waiting_cases dispatch_end_cases)

lemma steps_config:
  "bs_steps bs bs' \<Longrightarrow> bs_maxBatchSize bs' = bs_maxBatchSize bs \<and> bs_maxInFlight bs' = bs_maxInFlight bs"
  by (induction rule: bs_steps.induct) (auto dest: step_config)

lemma reach_config:
  assumes "bs_reach maxBatch maxSlots bs"
  shows "bs_maxBatchSize bs = maxBatch" "int (bs_maxInFlight bs) = max 1 maxSlots"
  using steps_config[OF assms[unfolded bs_reach_def]]
  by (simp_all add: configured_def SetMaxInFlight_def SetMaxBatchSize_def Let_def max_def)

section \<open>The events of one request\<close>

text \<open>The responses up to the first final one.\<close>

fun upto_final :: "'z GenerateResponse_scheme list \<Rightarrow> 'z GenerateResponse_scheme list" where
  "upto_final [] = []"
| "upto_final (r # rs) = (if re_EventType r = EVENT_FINAL then [r] else r # upto_final rs)"

abbreviation for_id :: "string \<Rightarrow> BatchGenerateResponse list \<Rightarrow> BatchGenerateResponse list" where
  "for_id rid rs \<equiv> filter (\<lambda>r. re_RequestId r = rid) rs"

abbreviation single :: "BatchGenerateResponse \<Rightarrow> GenerateResponse" where
  "single r \<equiv> GenerateResponse.truncate r"

text \<open>The two copies of the conversion agree.\<close>

lemma single_fields [simp]:
  "re_EventType (single r) = re_EventType r" "re_Token (single r) = re_Token r"
  "re_ToolUse (single r) = re_ToolUse r" "re_StopReason (single r) = re_StopReason r"
  "re_FinishReason (single r) = re_FinishReason r" "re_Usage (single r) = re_Usage r"
  "re_ReasoningToken (single r) = re_ReasoningToken r"
  by (simp_all add: GenerateResponse.truncate_def)

lemma pbToGenerateEvent_single: "pbToGenerateEvent r = stream_event (single r)"
  by (cases "re_ToolUse r"; cases "re_Usage r")
    (simp_all add: pbToGenerateEvent_def stream_event_def split: GenerateEventType.split)

lemma final_iff: "ge_Type (pbToGenerateEvent r) = ''final'' \<longleftrightarrow> re_EventType r = EVENT_FINAL"
  by (simp add: pbToGenerateEvent_single ge_Type_stream_event)

text \<open>The alternative reading of the stream, one request at a time.\<close>

lemma stream_loop_upto_final:
  "stream_loop (map (\<lambda>r. (False, True, Recv (single r))) rs @ [(False, True, RecvEOF)]) =
    (map (stream_event \<circ> single) rs, True)"
  by (induction rs) simp_all

definition serving_index :: "nat \<Rightarrow> (string \<times> batchItem) list \<Rightarrow> BatchScheduler \<Rightarrow> bool" where
  "serving_index i index bs \<longleftrightarrow> i < length (bs_flights bs) \<and> (\<exists>b. bs_flights bs ! i = Streaming b index) \<and>
    distinct (map fst index) \<and> distinct (map (it_events \<circ> snd) index) \<and>
    (\<forall>p \<in> set index. it_events (snd p) < length (bs_chans bs) \<and>
       ch_closes (bs_chans bs ! it_events (snd p)) = 0) \<and>
    (\<forall>ch \<in> set (bs_chans bs). ch_buf ch = [])"

lemma consume_all_nth:
  "c < length (bs_chans bs) \<Longrightarrow> ch_history (bs_chans (consume_all bs) ! c) = ch_history (bs_chans bs ! c)"
  "c < length (bs_chans bs) \<Longrightarrow> ch_closes (bs_chans (consume_all bs) ! c) = ch_closes (bs_chans bs ! c)"
  "length (bs_chans (consume_all bs)) = length (bs_chans bs)"
  "bs_flights (consume_all bs) = bs_flights bs"
  by (simp_all add: consume_all_def ch_history_def)

lemma consume_all_empty: "ch \<in> set (bs_chans (consume_all bs)) \<Longrightarrow> ch_buf ch = []"
  by (auto simp: consume_all_def)

lemma route_unknown:
  assumes "serving_index i index bs" "map_of index (re_RequestId resp) = None"
  shows "route i SendEvent resp bs = Some bs"
  using assms by (auto simp: serving_index_def route_def)

text \<open>What one response of a known request does: its event is sent, a final one closes and leaves.\<close>

lemma route_known:
  assumes "serving_index i index bs" "map_of index (re_RequestId resp) = Some it"
  obtains bs' where "route i SendEvent resp bs = Some bs'"
    "length (bs_chans bs') = length (bs_chans bs)"
    "\<And>c. c < length (bs_chans bs) \<Longrightarrow> ch_history (bs_chans bs' ! c) =
      ch_history (bs_chans bs ! c) @ (if c = it_events it then [pbToGenerateEvent resp] else [])"
    "serving_index i (if re_EventType resp = EVENT_FINAL then index_del (re_RequestId resp) index else index)
      (consume_all bs')"
proof -
  obtain b where b: "i < length (bs_flights bs)" "bs_flights bs ! i = Streaming b index"
    using assms(1) by (auto simp: serving_index_def)
  have mem: "(re_RequestId resp, it) \<in> set index"
    using assms(2) by (rule map_of_SomeD)
  then have c: "it_events it < length (bs_chans bs)" "ch_closes (bs_chans bs ! it_events it) = 0"
    using assms(1) by (force simp: serving_index_def)+
  then have "ch_buf (bs_chans bs ! it_events it) = []"
    using assms(1) by (simp add: serving_index_def)
  then have ready: "case_ready SendEvent it bs"
    by (simp add: case_ready_def ch_room_def events_capacity_def)
  define ev where "ev = pbToGenerateEvent resp"
  define index' where "index' = (if re_EventType resp = EVENT_FINAL then index_del (re_RequestId resp) index else index)"
  define x where "x = deliver SendEvent ev (bs_chans bs ! it_events it)"
  define bs' where "bs' = (on_chan (it_events it) (deliver SendEvent ev) bs)\<lparr>bs_flights :=
      (bs_flights bs)[i := Streaming b index']\<rparr>"
  have chans: "bs_chans bs' = (bs_chans bs)[it_events it := x]"
    by (simp add: bs'_def x_def)
  have fl: "bs_flights bs' = (bs_flights bs)[i := Streaming b index']" "length (bs_chans bs') = length (bs_chans bs)"
    by (simp_all add: bs'_def)
  have hist: "ch_history x = ch_history (bs_chans bs ! it_events it) @ [ev]"
    using c(2) by (simp add: x_def deliver_def Let_def chan_send_def closeItem_def ch_history_def)
  have clos: "ch_closes x = (if re_EventType resp = EVENT_FINAL then 1 else 0)"
    using c(2) by (simp add: x_def ev_def final_iff)
  show ?thesis
  proof (rule that)
    show "route i SendEvent resp bs = Some bs'"
      using b ready assms(2) by (simp add: route_def Let_def bs'_def index'_def ev_def final_iff)
    show "length (bs_chans bs') = length (bs_chans bs)"
      by (rule fl)
    show "ch_history (bs_chans bs' ! c) = ch_history (bs_chans bs ! c) @
        (if c = it_events it then [pbToGenerateEvent resp] else [])" if "c < length (bs_chans bs)" for c
      using that hist by (simp add: chans ev_def nth_list_update)
    have others: "it_events (snd p) \<noteq> it_events it" if "p \<in> set (index_del (re_RequestId resp) index)" for p
    proof
      assume "it_events (snd p) = it_events it"
      moreover have "p \<in> set index" "fst p \<noteq> re_RequestId resp"
        using that by (auto simp: index_del_def)
      ultimately have "p = (re_RequestId resp, it)"
        using mem assms(1) by (auto simp: serving_index_def distinct_map inj_on_def)
      then show False using \<open>fst p \<noteq> re_RequestId resp\<close> by simp
    qed
    have sub: "set index' \<subseteq> set index" "distinct (map fst index')" "distinct (map (it_events \<circ> snd) index')"
      using assms(1) by (auto simp: index'_def index_del_def serving_index_def distinct_map_filter)
    have "it_events (snd p) < length (bs_chans bs) \<and> ch_closes (bs_chans bs' ! it_events (snd p)) = 0"
      if "p \<in> set index'" for p
      using that sub(1) others[of p] assms(1) clos c(1)
      by (auto simp: chans nth_list_update serving_index_def index'_def split: if_splits)
    then show "serving_index i (if re_EventType resp = EVENT_FINAL then index_del (re_RequestId resp) index else index)
      (consume_all bs')"
      using sub assms(1) b
      unfolding index'_def[symmetric] serving_index_def
      by (auto simp: consume_all_nth fl dest: consume_all_empty)
  qed
qed

lemma serving_indexD:
  assumes "serving_index i index bs" "(k, a) \<in> set index"
  shows "map_of index k = Some a" "it_events a < length (bs_chans bs)"
    "(k', b) \<in> set index \<Longrightarrow> it_events b = it_events a \<Longrightarrow> k' = k \<and> b = a"
proof -
  have "inj_on (it_events \<circ> snd) (set index)"
    using assms(1) by (simp add: serving_index_def distinct_map)
  from inj_onD[OF this, of "(k', b)" "(k, a)"] assms(2)
  show "(k', b) \<in> set index \<Longrightarrow> it_events b = it_events a \<Longrightarrow> k' = k \<and> b = a" by simp
qed (use assms in \<open>auto simp: serving_index_def\<close>)

lemma serve_histories:
  assumes "serving_index i index bs"
  shows "\<exists>bs'. serve i rs bs = Some bs' \<and> length (bs_chans bs') = length (bs_chans bs) \<and>
    (\<forall>k it. (k, it) \<in> set index \<longrightarrow> ch_history (bs_chans bs' ! it_events it) =
       ch_history (bs_chans bs ! it_events it) @ map pbToGenerateEvent (upto_final (for_id k rs))) \<and>
    (\<forall>c < length (bs_chans bs). c \<notin> (it_events \<circ> snd) ` set index \<longrightarrow>
       ch_history (bs_chans bs' ! c) = ch_history (bs_chans bs ! c))"
  using assms
proof (induction rs arbitrary: index bs)
  case Nil
  then show ?case by auto
next
  case (Cons resp rs)
  note si = Cons.prems
  show ?case
  proof (cases "map_of index (re_RequestId resp)")
    case None
    have "serving_index i index (consume_all bs)"
      using si by (auto simp: serving_index_def consume_all_nth dest: consume_all_empty)
    from Cons.IH[OF this] obtain bs' where bs': "serve i rs (consume_all bs) = Some bs'"
      "length (bs_chans bs') = length (bs_chans bs)"
      "\<And>k it. (k, it) \<in> set index \<Longrightarrow> ch_history (bs_chans bs' ! it_events it) =
        ch_history (bs_chans bs ! it_events it) @ map pbToGenerateEvent (upto_final (for_id k rs))"
      "\<And>c. c < length (bs_chans bs) \<Longrightarrow> c \<notin> (it_events \<circ> snd) ` set index \<Longrightarrow>
        ch_history (bs_chans bs' ! c) = ch_history (bs_chans bs ! c)"
      using serving_indexD(2)[OF si] by (auto simp: consume_all_nth)
    have "re_RequestId resp \<noteq> k" if "(k, it) \<in> set index" for k it
      using serving_indexD(1)[OF si that] None by auto
    with bs' show ?thesis
      by (auto simp: route_unknown[OF si None])
  next
    case (Some it)
    note mem = map_of_SomeD[OF Some]
    define index' where "index' = (if re_EventType resp = EVENT_FINAL
      then index_del (re_RequestId resp) index else index)"
    from route_known[OF si Some] obtain bs1 where bs1: "route i SendEvent resp bs = Some bs1"
      "length (bs_chans bs1) = length (bs_chans bs)"
      "\<And>c. c < length (bs_chans bs) \<Longrightarrow> ch_history (bs_chans bs1 ! c) =
        ch_history (bs_chans bs ! c) @ (if c = it_events it then [pbToGenerateEvent resp] else [])"
      "serving_index i index' (consume_all bs1)"
      unfolding index'_def by metis
    from Cons.IH[OF bs1(4)] obtain bs' where bs': "serve i rs (consume_all bs1) = Some bs'"
      "length (bs_chans bs') = length (bs_chans bs)"
      "\<And>k a. (k, a) \<in> set index' \<Longrightarrow> ch_history (bs_chans bs' ! it_events a) =
        ch_history (bs_chans (consume_all bs1) ! it_events a) @ map pbToGenerateEvent (upto_final (for_id k rs))"
      "\<And>c. c < length (bs_chans bs) \<Longrightarrow> c \<notin> (it_events \<circ> snd) ` set index' \<Longrightarrow>
        ch_history (bs_chans bs' ! c) = ch_history (bs_chans (consume_all bs1) ! c)"
      by (auto simp: consume_all_nth bs1(2))
    have before: "ch_history (bs_chans (consume_all bs1) ! c) =
        ch_history (bs_chans bs ! c) @ (if c = it_events it then [pbToGenerateEvent resp] else [])"
      if "c < length (bs_chans bs)" for c
      using that by (simp add: consume_all_nth bs1(2,3))
    have known: "ch_history (bs_chans bs' ! it_events a) =
        ch_history (bs_chans bs ! it_events a) @ map pbToGenerateEvent (upto_final (for_id k (resp # rs)))"
      if ka: "(k, a) \<in> set index" for k a
    proof (cases "k = re_RequestId resp")
      case True
      then have a: "a = it" using serving_indexD(1)[OF si ka] Some by simp
      show ?thesis
      proof (cases "re_EventType resp = EVENT_FINAL")
        case final: True
        then have "it_events it \<notin> (it_events \<circ> snd) ` set index'"
          using serving_indexD(3)[OF si mem] by (auto simp: index'_def index_del_def)
        then show ?thesis
          using bs'(4) before serving_indexD(2)[OF si mem] True final a by simp
      next
        case False
        then have "(k, a) \<in> set index'" using ka by (simp add: index'_def)
        then show ?thesis
          using bs'(3) before serving_indexD(2)[OF si mem] True False a by simp
      qed
    next
      case False
      then have "(k, a) \<in> set index'" using ka by (simp add: index'_def index_del_def)
      moreover have "it_events a \<noteq> it_events it"
        using serving_indexD(3)[OF si mem ka] False by auto
      ultimately show ?thesis
        using bs'(3) before serving_indexD(2)[OF si ka] False by simp
    qed
    have other: "ch_history (bs_chans bs' ! c) = ch_history (bs_chans bs ! c)"
      if c: "c < length (bs_chans bs)" "c \<notin> (it_events \<circ> snd) ` set index" for c
    proof -
      have "c \<noteq> it_events it" using c(2) mem by force
      moreover have "c \<notin> (it_events \<circ> snd) ` set index'"
        using c(2) by (auto simp: index'_def index_del_def)
      ultimately show ?thesis using bs'(4) before c(1) by simp
    qed
    show ?thesis
      using bs1(1) bs'(1,2) known other by auto
  qed
qed

section \<open>Concrete runs\<close>

fun run_ops :: "(BatchScheduler \<Rightarrow> BatchScheduler option) list \<Rightarrow> BatchScheduler \<Rightarrow> BatchScheduler option" where
  "run_ops [] bs = Some bs"
| "run_ops (f # fs) bs = (case f bs of None \<Rightarrow> None | Some bs' \<Rightarrow> run_ops fs bs')"

definition is_step :: "(BatchScheduler \<Rightarrow> BatchScheduler option) \<Rightarrow> bool" where
  "is_step f \<longleftrightarrow> (\<forall>bs bs'. f bs = Some bs' \<longrightarrow> bs_step bs bs')"

lemma is_step_intros [intro, simp]:
  "is_step (\<lambda>bs. Some (snd (TrySubmit False pick ctx req bs)))"
  "is_step (\<lambda>bs. Some (Shutdown bs))"
  "is_step collect_first" "is_step collect_stop" "is_step collect_more" "is_step collect_end"
  "is_step acquire_slot" "is_step stop_waiting" "is_step (dispatch_open i e)" "is_step (route i cs r)"
  "is_step (dispatch_end i why)"
  by (auto simp: is_step_def intro: bs_step.intros)

lemma steps_trans: "bs_steps bs' bs'' \<Longrightarrow> bs_steps bs bs' \<Longrightarrow> bs_steps bs bs''"
  by (induction rule: bs_steps.induct) (auto intro: bs_steps.snoc)

lemma run_ops_steps:
  "list_all is_step fs \<Longrightarrow> run_ops fs bs = Some bs' \<Longrightarrow> bs_steps bs bs'"
proof (induction fs arbitrary: bs)
  case Nil
  then show ?case by (simp add: bs_steps.none)
next
  case (Cons f fs)
  then obtain b where b: "f bs = Some b" "run_ops fs b = Some bs'"
    by (auto split: option.splits)
  with Cons.prems have "bs_step bs b" by (simp add: is_step_def)
  then have "bs_steps bs b" by (rule bs_steps.snoc[OF bs_steps.none])
  with Cons b show ?case by (auto intro: steps_trans)
qed

definition demo_request :: "string \<Rightarrow> GenerateRequest" where
  "demo_request rid = \<lparr>gr_RequestID = rid, gr_SessionID = ''s'', gr_Messages = [],
     gr_SystemPrompt = [], gr_SamplingParams = DefaultSamplingParams, gr_Tools = []\<rparr>"

definition demo_response :: "string \<Rightarrow> GenerateEventType \<Rightarrow> string \<Rightarrow> BatchGenerateResponse" where
  "demo_response rid et tok = \<lparr>re_EventType = et, re_Token = tok, re_ToolUse = None,
     re_StopReason = STOP_END_TURN, re_FinishReason = ''stop'', re_Usage = None, re_ReasoningToken = [],
     re_RequestId = rid\<rparr>"

text \<open>Two requests in one batch, up to the point where the dispatcher starts.\<close>

definition demo_start :: "(BatchScheduler \<Rightarrow> BatchScheduler option) list" where
  "demo_start = [\<lambda>bs. Some (snd (TrySubmit False True None (demo_request ''a'') bs)),
     \<lambda>bs. Some (snd (TrySubmit False True None (demo_request ''b'') bs)),
     collect_first, collect_more, collect_end, acquire_slot]"

text \<open>The first request gets its final event, the stream ends without the second's; then a shutdown.\<close>

definition demo_rest :: "(BatchScheduler \<Rightarrow> BatchScheduler option) list" where
  "demo_rest = [dispatch_open 0 None,
     route 0 SendEvent (demo_response ''a'' EVENT_TOKEN ''hi''),
     route 0 SendEvent (demo_response ''a'' EVENT_FINAL []),
     dispatch_end 0 EndEOF, \<lambda>bs. Some (Shutdown bs), collect_stop]"

definition demo_state :: BatchScheduler where
  "demo_state = the (run_ops demo_start (configured 4 1))"

definition demo_end :: BatchScheduler where
  "demo_end = the (run_ops demo_rest demo_state)"

lemma demo_reach: "bs_reach 4 1 demo_state"
proof -
  have "run_ops demo_start (configured 4 1) \<noteq> None" by code_simp
  then have "run_ops demo_start (configured 4 1) = Some demo_state"
    by (auto simp: demo_state_def)
  then show ?thesis
    unfolding bs_reach_def by (rule run_ops_steps[rotated]) (simp add: demo_start_def)
qed

lemma demo_end_reach: "bs_reach 4 1 demo_end"
proof -
  have "run_ops demo_rest demo_state \<noteq> None" by code_simp
  then have "run_ops demo_rest demo_state = Some demo_end"
    by (auto simp: demo_end_def)
  then have "bs_steps demo_state demo_end"
    by (rule run_ops_steps[rotated]) (simp add: demo_rest_def)
  then show ?thesis
    using demo_reach unfolding bs_reach_def by (rule steps_trans)
qed

section \<open>The promises\<close>

text \<open>
  C8: In every interleaving of submitters, collector, dispatchers, consumers, cancellations and
  \<open>Shutdown\<close>, an event channel is closed at most once, nothing is ever sent on a closed channel
  (it would panic the process), and a final event is the last one of its channel.
\<close>

theorem channels_are_closed_once:
  assumes "bs_reach maxBatch maxSlots bs" "ch \<in> set (bs_chans bs)"
  shows "ch_closes ch \<le> 1 \<and> ch_late ch = 0 \<and>
    (\<forall>e \<in> set (butlast (ch_history ch)). ge_Type e \<noteq> ''final'') \<and>
    (ch_closes ch = 0 \<longrightarrow> (\<forall>e \<in> set (ch_history ch). ge_Type e \<noteq> ''final''))"
  using bs_okD(2)[OF bs_ok_reach[OF assms(1)]] assms(2) by (simp add: list_all_iff chan_ok_def)

theorem channels_are_closed_once_witness:
  "map ch_closes (bs_chans demo_end) = [1, 1] \<and> ch_late (bs_chans demo_end ! 0) = 0"
proof -
  have "bs_chans demo_end ! 0 \<in> set (bs_chans demo_end)" by code_simp
  from channels_are_closed_once[OF demo_end_reach this] have "ch_late (bs_chans demo_end ! 0) = 0" by simp
  moreover have "map ch_closes (bs_chans demo_end) = [1, 1]" by code_simp
  ultimately show ?thesis by simp
qed

text \<open>
  C9: No request is lost: when the requests carry distinct ids, a channel that is still open belongs
  to an item that is queued, in the collector's hands, or in the index of a running dispatcher. So
  when \<open>Shutdown\<close> returns, every channel has been closed except those of items left in the queue.
\<close>

theorem no_request_is_lost:
  assumes "bs_reach maxBatch maxSlots bs" "distinct (map ch_req (bs_chans bs))"
    and "wg_zero bs" "c < length (bs_chans bs)"
  shows "ch_closes (bs_chans bs ! c) = 1 \<or> c \<in> it_events ` set (bs_submitCh bs)"
proof (cases "ch_closes (bs_chans bs ! c) = 0")
  case True
  then have "c \<in> it_events ` set (held bs)"
    using covered_reach[OF assms(1)] assms(2,4) by (auto simp: covered_def open_chans_def)
  then show ?thesis
    using assms(3) by (simp add: held_def wg_zero_def)
next
  case False
  then show ?thesis
    using bs_okD(2)[OF bs_ok_reach[OF assms(1)]] assms(4) by (auto simp: list_all_length chan_ok_def le_Suc_eq)
qed

theorem no_request_is_lost_witness:
  "ch_closes (bs_chans demo_end ! 1) = 1 \<or> 1 \<in> it_events ` set (bs_submitCh demo_end)"
proof -
  have "distinct (map ch_req (bs_chans demo_end))" "wg_zero demo_end" "1 < length (bs_chans demo_end)"
    by code_simp+
  then show ?thesis by (rule no_request_is_lost[OF demo_end_reach])
qed

text \<open>
  C10: The bounds of the backpressure: at most 100 requests wait in the queue, at most the configured
  number of batches is in flight, each holding one slot, and every batch in flight has between one
  and the configured number of requests (one, when the configuration is not positive).
\<close>

theorem scheduler_bounds:
  assumes "bs_reach maxBatch maxSlots bs" "f \<in> set (bs_flights bs)"
  shows "length (bs_submitCh bs) \<le> 100 \<and> bs_slots bs = length (bs_flights bs) \<and>
    int (length (bs_flights bs)) \<le> max 1 maxSlots \<and>
    (case f of Starting b \<Rightarrow> b \<noteq> [] \<and> int (length b) \<le> max 1 maxBatch
     | Streaming b index \<Rightarrow> b \<noteq> [] \<and> int (length b) \<le> max 1 maxBatch \<and> snd ` set index \<subseteq> set b)"
proof -
  note ok = bs_ok_reach[OF assms(1)] and cfg = reach_config[OF assms(1)]
  have "flight_ok maxBatch f"
    using bs_okD(7)[OF ok] assms(2) by (simp add: list_all_iff cfg(1))
  then have "case f of Starting b \<Rightarrow> b \<noteq> [] \<and> int (length b) \<le> max 1 maxBatch
     | Streaming b index \<Rightarrow> b \<noteq> [] \<and> int (length b) \<le> max 1 maxBatch \<and> snd ` set index \<subseteq> set b"
    by (cases f) auto
  then show ?thesis
    using bs_okD(3-5)[OF ok] cfg(2) by (simp add: submitChCapacity_def)
qed

theorem scheduler_bounds_witness:
  "int (length (bs_flights demo_state)) \<le> max 1 1 \<and> bs_slots demo_state = length (bs_flights demo_state)"
proof -
  have "hd (bs_flights demo_state) \<in> set (bs_flights demo_state)" by code_simp
  from scheduler_bounds[OF demo_reach this] show ?thesis by simp
qed

text \<open>
  C11: A request in a batch gets the events it would get alone: whatever responses the worker
  interleaves, a request of a batch with distinct ids receives exactly the events of its own responses,
  in order and up to its first final one, as \<open>GenerateStream\<close> would send them for a stream of just
  those responses; and the dispatcher never blocks while the consumers keep reading.
\<close>

theorem batched_request_sees_its_own_stream:
  assumes "bs_reach maxBatch maxSlots bs" "i < length (bs_flights bs)" "bs_flights bs ! i = Starting batch"
    and "distinct (map item_id batch)" "it \<in> set batch"
    and "dispatch_open i None bs = Some bs1"
  shows "\<exists>bs2. serve i rs (consume_all bs1) = Some bs2 \<and>
    ch_history (bs_chans bs2 ! it_events it) = ch_history (bs_chans bs ! it_events it) @
      fst (stream_loop (map (\<lambda>r. (False, True, Recv (single r))) (upto_final (for_id (item_id it) rs)) @
        [(False, True, RecvEOF)]))"
proof -
  have "flight_ok (bs_maxBatchSize bs) (Starting batch)"
    using bs_ok_flight[OF bs_ok_reach[OF assms(1)] assms(2)] by (simp only: assms(3))
  then have ne: "batch \<noteq> []" by simp
  have bs1: "bs1 = bs\<lparr>bs_flights := (bs_flights bs)[i := Streaming batch (build_index batch)]\<rparr>"
    using assms(2,3,6) ne by (simp add: dispatch_open_def)
  define index where "index = map (\<lambda>it. (item_id it, it)) batch"
  have index: "build_index batch = index"
    using assms(4) by (simp add: build_index_distinct index_def)
  have "mset batch \<subseteq># mset (held bs)"
    using mset_in_flight_split[OF assms(2)] assms(3) by (simp add: held_def)
  then have own: "owns batch (bs_chans bs)"
    by (rule owns_mset[OF bs_okD(1)[OF bs_ok_reach[OF assms(1)]]])
  have "serving_index i index (consume_all bs1)"
    using own assms(2,4)
    by (auto simp: serving_index_def consume_all_nth bs1 index owns_def index_def comp_def
        dest: consume_all_empty)
  from serve_histories[OF this, of rs] obtain bs2 where bs2: "serve i rs (consume_all bs1) = Some bs2"
    "ch_history (bs_chans bs2 ! it_events it) = ch_history (bs_chans (consume_all bs1) ! it_events it) @
      map pbToGenerateEvent (upto_final (for_id (item_id it) rs))"
    using assms(5) by (auto simp: index_def)
  moreover have "ch_history (bs_chans (consume_all bs1) ! it_events it) = ch_history (bs_chans bs ! it_events it)"
    using own assms(5) by (simp add: consume_all_nth bs1 owns_def)
  moreover have "map pbToGenerateEvent xs = map (stream_event \<circ> single) xs" for xs
    by (simp add: pbToGenerateEvent_single comp_def)
  ultimately show ?thesis
    by (simp add: stream_loop_upto_final)
qed

theorem batched_request_sees_its_own_stream_witness:
  "\<exists>bs2. serve 0 [demo_response ''b'' EVENT_TOKEN ''x'', demo_response ''a'' EVENT_TOKEN ''y'',
        demo_response ''a'' EVENT_FINAL []] (consume_all (the (dispatch_open 0 None demo_state))) = Some bs2 \<and>
    map ge_Token (ch_history (bs_chans bs2 ! 0)) = [''y'', []]"
proof -
  define batch where "batch = flight_items (bs_flights demo_state ! 0)"
  define bs1 where "bs1 = the (dispatch_open 0 None demo_state)"
  have f: "0 < length (bs_flights demo_state)" by code_simp
  have s: "bs_flights demo_state ! 0 = Starting batch" unfolding batch_def by code_simp
  have d: "distinct (map item_id batch)" unfolding batch_def by code_simp
  have m: "hd batch \<in> set batch" unfolding batch_def by code_simp
  have "dispatch_open 0 None demo_state \<noteq> None" by code_simp
  then have opened: "dispatch_open 0 None demo_state = Some bs1" by (auto simp: bs1_def)
  have ev: "it_events (hd batch) = 0" "item_id (hd batch) = ''a''" "ch_history (bs_chans demo_state ! 0) = []"
    unfolding batch_def by code_simp+
  show ?thesis
    using batched_request_sees_its_own_stream[OF demo_reach f s d m opened,
        of "[demo_response ''b'' EVENT_TOKEN ''x'', demo_response ''a'' EVENT_TOKEN ''y'',
        demo_response ''a'' EVENT_FINAL []]"]
    by (auto simp: ev bs1_def[symmetric] demo_response_def GenerateResponse.truncate_def stream_event_def
        zero_event_def)
qed

text \<open>Both paths to the worker send the same request, images and tool calls included.\<close>

lemma both_paths_send_the_same_request: "buildProtoRequest req = stream_request req"
  by (simp add: buildProtoRequest_def stream_request_def)

section \<open>Shutdown\<close>

lemma exited_step:
  assumes "bs_step bs bs'" "bs_ok bs" "bs_collector bs = Exited" "it \<in> set (bs_submitCh bs)"
  shows "bs_collector bs' = Exited \<and> it \<in> set (bs_submitCh bs')"
  using assms
proof (cases rule: bs_step.cases)
  case (submit entry pick ctx req)
  then show ?thesis using assms by (simp add: TrySubmit_def Let_def)
next
  case (open_stream i rpcErr)
  from open_stream show ?thesis using assms(3,4) by (cases rule: dispatch_open_cases) simp_all
next
  case (response i cs resp)
  from response show ?thesis using assms(3,4) by (cases rule: route_cases) simp_all
qed (use assms(3,4) in \<open>auto simp: Shutdown_def elim!: collect_first_cases collect_stop_cases
  collect_more_cases collect_end_cases acquire_slot_cases stop_waiting_cases dispatch_end_cases\<close>)

text \<open>
  A request that is still queued when the collector stops is stranded: in every continuation its
  channel stays open and it stays in the queue, so a consumer that waits for the channel to close
  waits for ever (\<open>Shutdown\<close> fails only the batch the collector holds).
\<close>

theorem shutdown_strands_queued_requests:
  assumes "bs_reach maxBatch maxSlots bs" "bs_collector bs = Exited" "it \<in> set (bs_submitCh bs)"
    and "bs_steps bs bs'"
  shows "it \<in> set (bs_submitCh bs') \<and> ch_closes (bs_chans bs' ! it_events it) = 0"
proof -
  have "bs_steps bs bs' \<Longrightarrow> bs_ok bs \<and> bs_collector bs = Exited \<and> it \<in> set (bs_submitCh bs) \<Longrightarrow>
      bs_ok bs' \<and> bs_collector bs' = Exited \<and> it \<in> set (bs_submitCh bs')" for bs bs'
    by (induction rule: bs_steps.induct) (auto dest: bs_ok_step exited_step)
  then have "bs_ok bs'" "it \<in> set (bs_submitCh bs')"
    using assms bs_ok_reach[OF assms(1)] by auto
  moreover from this(2) have "it \<in> set (held bs')" by (simp add: held_def)
  ultimately show ?thesis
    using bs_okD(1)[of bs'] by (auto simp: owns_def)
qed

definition demo_stranded :: BatchScheduler where
  "demo_stranded = the (run_ops [\<lambda>bs. Some (Shutdown bs), collect_stop]
     (the (run_ops [\<lambda>bs. Some (snd (TrySubmit False True None (demo_request ''a'') bs))] (configured 4 1))))"

lemma demo_stranded_reach: "bs_reach 4 1 demo_stranded"
proof -
  define ops where "ops = [\<lambda>bs. Some (snd (TrySubmit False True None (demo_request ''a'') bs)),
    \<lambda>bs. Some (Shutdown bs), collect_stop]"
  have "run_ops ops (configured 4 1) \<noteq> None" unfolding ops_def by code_simp
  then have "run_ops ops (configured 4 1) = Some demo_stranded"
    by (auto simp: demo_stranded_def ops_def split: option.splits)
  then show ?thesis
    unfolding bs_reach_def by (rule run_ops_steps[rotated]) (simp add: ops_def)
qed

theorem shutdown_strands_queued_requests_witness:
  "ch_closes (bs_chans (Shutdown demo_stranded) ! 0) = 0"
proof -
  have e: "bs_collector demo_stranded = Exited" by code_simp
  have q: "hd (bs_submitCh demo_stranded) \<in> set (bs_submitCh demo_stranded)" by code_simp
  have "bs_steps demo_stranded (Shutdown demo_stranded)"
    by (rule bs_steps.snoc[OF bs_steps.none bs_step.shutdown])
  moreover have "it_events (hd (bs_submitCh demo_stranded)) = 0" by code_simp
  ultimately show ?thesis
    using shutdown_strands_queued_requests[OF demo_stranded_reach e q] by auto
qed

end
