(* ===== verification/Session.thy ===== *)
theory Session
  imports InferenceWire Http
begin

text \<open>
  Chat sessions (\<open>internal/services/inference\<close>): \<open>session.go\<close> with the messages in the internal
  format, the budget and truncation of \<open>manager.go\<close>, and the GORM store (\<open>store_gorm.go\<close>,
  \<open>models.go\<close>) over the tables \<open>sessions\<close> and \<open>messages\<close> with the constraints of migration 0004.
  Titles are cut at runes of valid UTF-8 (their words at ASCII spaces, \<open>strings.Fields\<close> also knows a few
  other ones); lengths are in bytes as Go's \<open>len\<close>.
\<close>

section \<open>Messages and sessions\<close>

abbreviation RoleUser :: string where "RoleUser \<equiv> ''user''"
abbreviation RoleAssistant :: string where "RoleAssistant \<equiv> ''assistant''"
abbreviation RoleSystem :: string where "RoleSystem \<equiv> ''system''"
abbreviation RoleTool :: string where "RoleTool \<equiv> ''tool''"

definition imageTokenEstimate :: int where "imageTokenEstimate = 1500"
definition DefaultMaxTokens :: int where "DefaultMaxTokens = 32768"

record ChatImage =
  im_ID :: string
  im_MimeType :: string
  im_Size :: int
  im_Data :: bytes

record ChatMessage =
  m_Role :: string
  m_Content :: string
  m_ToolCalls :: "ToolCall list"
  m_ToolCallID :: string
  m_ToolResult :: string
  m_IsError :: bool
  m_Images :: "ChatImage list"

definition zero_message :: ChatMessage where
  "zero_message = \<lparr>m_Role = [], m_Content = [], m_ToolCalls = [], m_ToolCallID = [], m_ToolResult = [],
     m_IsError = False, m_Images = []\<rparr>"

text \<open>\<open>ss_store\<close> says whether a store is attached.\<close>

record Session =
  ss_ID :: string
  ss_Messages :: "ChatMessage list"
  ss_TenantID :: string
  ss_UserID :: string
  ss_Model :: string
  ss_CreatedAt :: int
  ss_UpdatedAt :: int
  ss_MaxTokens :: int
  ss_SystemPrompt :: string
  ss_Title :: string
  ss_store :: bool
  ss_seq :: int
  ss_persisted :: bool

definition NewSession :: "int \<Rightarrow> string \<Rightarrow> int \<Rightarrow> Session" where
  "NewSession now sid maxTokens = \<lparr>ss_ID = sid, ss_Messages = [], ss_TenantID = [], ss_UserID = [],
     ss_Model = [], ss_CreatedAt = now, ss_UpdatedAt = now, ss_MaxTokens = maxTokens,
     ss_SystemPrompt = [], ss_Title = [], ss_store = False, ss_seq = 0, ss_persisted = False\<rparr>"

text \<open>\<open>strings.Fields\<close>\<close>

fun fields_acc :: "string \<Rightarrow> string \<Rightarrow> string list" where
  "fields_acc w [] = (if w = [] then [] else [rev w])"
| "fields_acc w (c # cs) =
    (if is_space c then (if w = [] then fields_acc [] cs else rev w # fields_acc [] cs)
     else fields_acc (c # w) cs)"

fun join_space :: "string list \<Rightarrow> string" where
  "join_space [] = []"
| "join_space [w] = w"
| "join_space (w # ws) = w @ CHR '' '' # join_space ws"

definition ellipsis :: string where
  "ellipsis = [CHR 0xE2, CHR 0x80, CHR 0xA6]"

text \<open>Runes of valid UTF-8: a byte \<open>10xxxxxx\<close> continues the rune before it.\<close>

definition continues_rune :: "char \<Rightarrow> bool" where
  "continues_rune c \<longleftrightarrow> of_char c div (64 :: nat) = 2"

definition rune_count :: "string \<Rightarrow> nat" where
  "rune_count s = length (filter (\<lambda>c. \<not> continues_rune c) s)"

fun take_runes :: "nat \<Rightarrow> string \<Rightarrow> string" where
  "take_runes n [] = []"
| "take_runes n (c # cs) =
    (if continues_rune c then c # take_runes n cs
     else case n of 0 \<Rightarrow> [] | Suc k \<Rightarrow> c # take_runes k cs)"

definition truncateTitle :: "string \<Rightarrow> string" where
  "truncateTitle s = (let t = join_space (fields_acc [] s) in
     if rune_count t > 40 then take_runes 40 t @ ellipsis else t)"

lemma rune_count_take_runes: "rune_count (take_runes n s) \<le> n"
  by (induction n s rule: take_runes.induct) (auto simp: rune_count_def split: nat.splits)

lemma truncateTitle_bound: "rune_count (truncateTitle s) \<le> 41"
proof -
  have "rune_count ellipsis = 1"
    by (simp add: rune_count_def ellipsis_def continues_rune_def)
  moreover have "rune_count (a @ b) = rune_count a + rune_count b" for a b
    by (simp add: rune_count_def)
  ultimately show ?thesis
    using rune_count_take_runes [of 40 "join_space (fields_acc [] s)"]
    by (simp add: truncateTitle_def Let_def)
qed

section \<open>The store\<close>

record sessionRow =
  sr_ID :: string
  sr_TenantID :: string
  sr_UserID :: "string option"
  sr_Model :: string
  sr_SystemPrompt :: string
  sr_MaxTokens :: int
  sr_Title :: string
  sr_CreatedAt :: int
  sr_UpdatedAt :: int

record messageRow =
  mr_SessionID :: string
  mr_Seq :: int
  mr_Role :: string
  mr_Content :: string
  mr_ToolCalls :: "ToolCall list"
  mr_ToolCallID :: string
  mr_ToolResult :: string
  mr_IsError :: bool
  mr_Images :: "ChatImage list"

record chat_db =
  session_rows :: "sessionRow list"
  message_rows :: "messageRow list"

datatype chat_error = ErrSessionNotFound | ErrSessionForbidden | NoStore | ChatDB string

type_synonym 'a chat_tx = "(chat_db, chat_error, 'a) tx"

abbreviation chat_sql :: "faults \<Rightarrow> string \<Rightarrow> 'a chat_tx \<Rightarrow> 'a chat_tx" where
  "chat_sql flt label m \<equiv> stmt (flt label []) (ChatDB label) m"

definition nullableString :: "string \<Rightarrow> string option" where
  "nullableString s = (if s = [] then None else Some s)"

text \<open>
  \<open>INSERT ... ON CONFLICT (id) DO UPDATE ... WHERE sessions.tenant_id = ?\<close>: a row of another tenant is
  left alone, which shows as no affected row.
\<close>

definition upsert_row :: "int \<Rightarrow> Session \<Rightarrow> sessionRow list \<Rightarrow> sessionRow list" where
  "upsert_row now s rows = (if tbl_has sr_ID (ss_ID s) rows
     then tbl_update sr_ID (ss_ID s) (\<lambda>r. r\<lparr>sr_Model := ss_Model s, sr_SystemPrompt := ss_SystemPrompt s,
            sr_MaxTokens := ss_MaxTokens s, sr_Title := ss_Title s, sr_UpdatedAt := now\<rparr>) rows
     else rows @ [\<lparr>sr_ID = ss_ID s, sr_TenantID = ss_TenantID s, sr_UserID = nullableString (ss_UserID s),
            sr_Model = ss_Model s, sr_SystemPrompt = ss_SystemPrompt s, sr_MaxTokens = ss_MaxTokens s,
            sr_Title = ss_Title s, sr_CreatedAt = now, sr_UpdatedAt = now\<rparr>])"

definition other_tenant :: "Session \<Rightarrow> chat_db \<Rightarrow> bool" where
  "other_tenant s db = (case tbl_find sr_ID (ss_ID s) (session_rows db) of
      None \<Rightarrow> False | Some r \<Rightarrow> sr_TenantID r \<noteq> ss_TenantID s)"

definition UpsertSession :: "faults \<Rightarrow> int \<Rightarrow> Session \<Rightarrow> unit chat_tx" where
  "UpsertSession flt now s = chat_sql flt ''upsert session''
     (tx_bind (require (\<lambda>db. \<not> other_tenant s db) ErrSessionForbidden)
       (\<lambda>_. update (\<lambda>db. db\<lparr>session_rows := upsert_row now s (session_rows db)\<rparr>)))"

definition SessionExists :: "faults \<Rightarrow> string \<Rightarrow> bool chat_tx" where
  "SessionExists flt sid = chat_sql flt ''session exists'' (query (\<lambda>db. tbl_has sr_ID sid (session_rows db)))"

text \<open>\<open>id = ? AND tenant_id = ? AND user_id IS NOT DISTINCT FROM NULLIF(?, '')\<close>\<close>

definition owned_by :: "string \<Rightarrow> string \<Rightarrow> string \<Rightarrow> sessionRow \<Rightarrow> bool" where
  "owned_by sid tenant user r \<longleftrightarrow> sr_ID r = sid \<and> sr_TenantID r = tenant \<and> sr_UserID r = nullableString user"

definition to_message :: "messageRow \<Rightarrow> ChatMessage" where
  "to_message r = \<lparr>m_Role = mr_Role r, m_Content = mr_Content r, m_ToolCalls = mr_ToolCalls r,
     m_ToolCallID = mr_ToolCallID r, m_ToolResult = mr_ToolResult r, m_IsError = mr_IsError r,
     m_Images = mr_Images r\<rparr>"

definition session_messages :: "string \<Rightarrow> chat_db \<Rightarrow> messageRow list" where
  "session_messages sid db =
    order_by (\<lambda>a b. mr_Seq a \<le> mr_Seq b) (filter (\<lambda>r. mr_SessionID r = sid) (message_rows db))"

definition session_of_row :: "sessionRow \<Rightarrow> string \<Rightarrow> messageRow list \<Rightarrow> Session" where
  "session_of_row row sid msgs = \<lparr>ss_ID = sid, ss_Messages = map to_message msgs,
     ss_TenantID = sr_TenantID row,
     ss_UserID = (case sr_UserID row of None \<Rightarrow> [] | Some u \<Rightarrow> u),
     ss_Model = sr_Model row, ss_CreatedAt = sr_CreatedAt row, ss_UpdatedAt = sr_UpdatedAt row,
     ss_MaxTokens = sr_MaxTokens row, ss_SystemPrompt = sr_SystemPrompt row, ss_Title = sr_Title row,
     ss_store = False, ss_seq = int (length msgs), ss_persisted = True\<rparr>"

definition LoadSession :: "faults \<Rightarrow> string \<Rightarrow> string \<Rightarrow> string \<Rightarrow> Session chat_tx" where
  "LoadSession flt sid tenant user =
    tx_bind (chat_sql flt ''load session''
      (fetch (\<lambda>db. find (owned_by sid tenant user) (session_rows db)) ErrSessionNotFound))
    (\<lambda>row. tx_bind (chat_sql flt ''load messages'' (query (session_messages sid)))
    (\<lambda>msgs. tx_return (session_of_row row sid msgs)))"

text \<open>Only the reference of an image is stored: \<open>Data\<close> is not part of its JSON.\<close>

definition stored_image :: "ChatImage \<Rightarrow> ChatImage" where
  "stored_image img = img\<lparr>im_Data := []\<rparr>"

definition message_row :: "string \<Rightarrow> int \<Rightarrow> ChatMessage \<Rightarrow> messageRow" where
  "message_row sid sq m = \<lparr>mr_SessionID = sid, mr_Seq = sq, mr_Role = m_Role m, mr_Content = m_Content m,
     mr_ToolCalls = m_ToolCalls m, mr_ToolCallID = m_ToolCallID m, mr_ToolResult = m_ToolResult m,
     mr_IsError = m_IsError m, mr_Images = map stored_image (m_Images m)\<rparr>"

text \<open>The table has a foreign key to \<open>sessions\<close> and \<open>UNIQUE (session_id, seq)\<close>.\<close>

definition AppendMessage :: "faults \<Rightarrow> string \<Rightarrow> int \<Rightarrow> ChatMessage \<Rightarrow> unit chat_tx" where
  "AppendMessage flt sid sq m = chat_sql flt ''append message''
     (tx_bind (require (\<lambda>db. tbl_has sr_ID sid (session_rows db) \<and>
         \<not> tbl_has (\<lambda>r. (mr_SessionID r, mr_Seq r)) (sid, sq) (message_rows db)) (ChatDB ''append message''))
       (\<lambda>_. update (\<lambda>db. db\<lparr>message_rows := message_rows db @ [message_row sid sq m]\<rparr>)))"

record SessionSummary =
  sum_ID :: string
  sum_Title :: string
  sum_Model :: string
  sum_CreatedAt :: int
  sum_UpdatedAt :: int
  sum_MessageCount :: nat

definition title_of :: "chat_db \<Rightarrow> sessionRow \<Rightarrow> string" where
  "title_of db r = (if sr_Title r \<noteq> [] then sr_Title r
     else case filter (\<lambda>m. mr_Role m = RoleUser) (session_messages (sr_ID r) db) of
         [] \<Rightarrow> [] | m # _ \<Rightarrow> mr_Content m)"

definition summary_of_row :: "chat_db \<Rightarrow> sessionRow \<Rightarrow> SessionSummary" where
  "summary_of_row db r = \<lparr>sum_ID = sr_ID r, sum_Title = title_of db r, sum_Model = sr_Model r,
     sum_CreatedAt = sr_CreatedAt r, sum_UpdatedAt = sr_UpdatedAt r,
     sum_MessageCount = length (session_messages (sr_ID r) db)\<rparr>"

definition store_ListSessions :: "faults \<Rightarrow> string \<Rightarrow> string \<Rightarrow> SessionSummary list chat_tx" where
  "store_ListSessions flt tenant user = chat_sql flt ''list sessions'' (query (\<lambda>db.
     map (summary_of_row db) (order_by (\<lambda>a b. sr_UpdatedAt b \<le> sr_UpdatedAt a)
       (filter (\<lambda>r. sr_TenantID r = tenant \<and> sr_UserID r = nullableString user) (session_rows db)))))"

definition store_RenameSession :: "faults \<Rightarrow> int \<Rightarrow> string \<Rightarrow> string \<Rightarrow> string \<Rightarrow> string \<Rightarrow> unit chat_tx" where
  "store_RenameSession flt now sid tenant user title = chat_sql flt ''rename session''
     (tx_bind (require (\<lambda>db. list_ex (owned_by sid tenant user) (session_rows db)) ErrSessionNotFound)
       (\<lambda>_. update (\<lambda>db. db\<lparr>session_rows := map (\<lambda>r. if owned_by sid tenant user r
          then r\<lparr>sr_Title := title, sr_UpdatedAt := now\<rparr> else r) (session_rows db)\<rparr>)))"

text \<open>The messages go with their session (\<open>ON DELETE CASCADE\<close>).\<close>

definition store_DeleteSession :: "faults \<Rightarrow> string \<Rightarrow> string \<Rightarrow> string \<Rightarrow> unit chat_tx" where
  "store_DeleteSession flt sid tenant user = chat_sql flt ''delete session''
     (tx_bind (require (\<lambda>db. list_ex (owned_by sid tenant user) (session_rows db)) ErrSessionNotFound)
       (\<lambda>_. update (\<lambda>db. db\<lparr>session_rows := filter (\<lambda>r. \<not> owned_by sid tenant user r) (session_rows db),
          message_rows := filter (\<lambda>m. mr_SessionID m \<noteq> sid) (message_rows db)\<rparr>)))"

section \<open>Adding messages\<close>

definition title_after :: "ChatMessage \<Rightarrow> string \<Rightarrow> string" where
  "title_after msg title = (if title = [] \<and> m_Role msg = RoleUser then
     (let t = truncateTitle (m_Content msg) in if t = [] \<and> m_Images msg \<noteq> [] then ''Image'' else t)
     else title)"

text \<open>\<open>AddMessage\<close>: a failed statement is logged and the turn goes on.\<close>

definition AddMessage :: "faults \<Rightarrow> int \<Rightarrow> ChatMessage \<Rightarrow> Session \<Rightarrow> chat_db \<Rightarrow> Session \<times> chat_db" where
  "AddMessage flt now msg s0 db =
    (let s = s0\<lparr>ss_Messages := ss_Messages s0 @ [msg], ss_UpdatedAt := now,
                ss_Title := title_after msg (ss_Title s0), ss_seq := ss_seq s0 + 1\<rparr> in
     if \<not> ss_store s then (s, db)
     else (case (if ss_persisted s then (Inr (), db) else UpsertSession flt now s db) of
         (Inl _, db') \<Rightarrow> (s, db')
       | (Inr _, db') \<Rightarrow>
           let s' = s\<lparr>ss_persisted := True\<rparr>
           in (s', snd (AppendMessage flt (ss_ID s') (ss_seq s') msg db'))))"

definition SetSystemPrompt :: "string \<Rightarrow> Session \<Rightarrow> Session" where
  "SetSystemPrompt prompt s = s\<lparr>ss_SystemPrompt := prompt\<rparr>"

section \<open>The token budget\<close>

definition quarter :: "string \<Rightarrow> int" where
  "quarter s = int (length s div 4)"

definition EstimatedTokens :: "Session \<Rightarrow> int" where
  "EstimatedTokens s = sum_list (map (\<lambda>m.
      quarter (m_Content m) + quarter (m_ToolResult m) + imageTokenEstimate * int (length (m_Images m)) +
      sum_list (map (\<lambda>tc. quarter (tc_Arguments tc) + 10) (m_ToolCalls m)) + 4) (ss_Messages s))"

definition estimateMessageTokens :: "ChatMessage \<Rightarrow> int" where
  "estimateMessageTokens m = 4 + quarter (m_Content m) + quarter (m_ToolResult m) +
     imageTokenEstimate * int (length (m_Images m)) +
     sum_list (map (\<lambda>tc. quarter (tc_Name tc) + quarter (tc_Arguments tc) + 10) (m_ToolCalls m))"

text \<open>
  \<open>TruncateMessages\<close>. The first loop walks backwards from index \<open>i - 1\<close>; \<open>n\<close> is the number of
  messages, \<open>estimated\<close> what is kept so far.
\<close>

fun keep_from :: "int \<Rightarrow> ChatMessage list \<Rightarrow> int \<Rightarrow> nat \<Rightarrow> nat" where
  "keep_from maxTokens msgs estimated 0 = 0"
| "keep_from maxTokens msgs estimated (Suc i) =
    (let t = estimateMessageTokens (msgs ! i) in
     if estimated + t > maxTokens \<and> i < length msgs - 1 then i + 1
     else keep_from maxTokens msgs (estimated + t) i)"

text \<open>
  The second loop looks for the call of a leading tool result, from \<open>j - 1\<close> down to 0. A match moves
  \<open>keepFrom\<close> and leaves the inner loop only: the outer one goes on with the message now kept first.
\<close>

fun pull_call :: "ChatMessage list \<Rightarrow> nat \<Rightarrow> nat \<Rightarrow> nat" where
  "pull_call msgs keep 0 = keep"
| "pull_call msgs keep (Suc j) =
    pull_call msgs
      (if list_ex (\<lambda>tc. tc_ID tc = m_ToolCallID (msgs ! keep)) (m_ToolCalls (msgs ! j)) then j else keep) j"

definition keep_pairs :: "ChatMessage list \<Rightarrow> nat \<Rightarrow> nat" where
  "keep_pairs msgs keep =
    (if keep < length msgs \<and> keep > 0 \<and> m_Role (msgs ! keep) = RoleTool \<and> m_ToolCallID (msgs ! keep) \<noteq> []
     then pull_call msgs keep keep else keep)"

text \<open>The last message is dropped when its last call has no result among the kept ones.\<close>

definition drop_orphan :: "nat \<Rightarrow> ChatMessage list \<Rightarrow> ChatMessage list" where
  "drop_orphan keep msgs =
    (if keep < length msgs \<and> m_ToolCalls (last msgs) \<noteq> [] \<and>
        \<not> list_ex (\<lambda>m. m_Role m = RoleTool \<and> m_ToolCallID m = tc_ID (last (m_ToolCalls (last msgs)))) (drop keep msgs)
     then butlast msgs else msgs)"

definition TruncateMessages :: "ChatMessage list \<Rightarrow> int \<Rightarrow> ChatMessage list" where
  "TruncateMessages msgs maxTokens =
    (if msgs = [] then msgs
     else let keep = keep_pairs msgs (keep_from maxTokens msgs 0 (length msgs))
          in drop keep (drop_orphan keep msgs))"

text \<open>\<open>int(float64(MaxTokens) * 0.90)\<close>, exact for the values of an INT column.\<close>

definition danger_zone :: "int \<Rightarrow> int" where
  "danger_zone maxTokens = go_div (9 * maxTokens) 10"

section \<open>Small checks\<close>

definition ValidateSessionID :: "string \<Rightarrow> string option" where
  "ValidateSessionID sid = (if sid = [] then Some ''session_id is required''
     else if length sid > 128 then Some ''session_id too long (max 128)'' else None)"

text \<open>The history before the last user message, and that message.\<close>

fun last_user_from :: "ChatMessage list \<Rightarrow> nat \<Rightarrow> (ChatMessage list \<times> ChatMessage) option" where
  "last_user_from msgs 0 = None"
| "last_user_from msgs (Suc i) =
    (if m_Role (msgs ! i) = RoleUser then Some (take i msgs, msgs ! i) else last_user_from msgs i)"

definition lastUserTurn :: "ChatMessage list \<Rightarrow> (ChatMessage list \<times> ChatMessage) option" where
  "lastUserTurn msgs = last_user_from msgs (length msgs)"

end
