(* ===== verification/SessionProofs.thy ===== *)
theory SessionProofs
  imports Session
begin

text \<open>
  What the session code guarantees: truncation keeps a window of the conversation within the budget
  and does not cut a leading tool result from its call; a persisted session reads back as it was
  written; and a lost insert makes a later message disappear after a reload.
\<close>

section \<open>Truncation\<close>

lemma keep_from_le: "keep_from maxT msgs est n \<le> n"
  by (induction n arbitrary: est) (auto simp: Let_def le_SucI)

text \<open>What is kept fits the budget, unless it is the last message alone.\<close>

definition tokens_of :: "ChatMessage list \<Rightarrow> int" where
  "tokens_of msgs = sum_list (map estimateMessageTokens msgs)"

lemma estimate_pos: "0 < estimateMessageTokens m"
proof -
  have "0 \<le> sum_list (map (\<lambda>tc. quarter (tc_Name tc) + quarter (tc_Arguments tc) + 10) tcs)" for tcs
    by (induction tcs) (auto simp: quarter_def)
  from this[of "m_ToolCalls m"] show ?thesis
    by (simp add: estimateMessageTokens_def quarter_def imageTokenEstimate_def)
qed

lemma keep_from_budget:
  assumes "n \<le> length msgs" "est = tokens_of (drop n msgs)"
    and "n < length msgs \<Longrightarrow> est \<le> max maxT (estimateMessageTokens (last msgs))"
    and "msgs \<noteq> []"
  shows "tokens_of (drop (keep_from maxT msgs est n) msgs) \<le> max maxT (estimateMessageTokens (last msgs))"
  using assms
proof (induction n arbitrary: est)
  case 0
  then show ?case by simp
next
  case (Suc i)
  define t where "t = estimateMessageTokens (msgs ! i)"
  have i: "i < length msgs" using Suc.prems(1) by simp
  have step: "tokens_of (drop i msgs) = t + tokens_of (drop (Suc i) msgs)"
    using i by (simp add: tokens_of_def t_def Cons_nth_drop_Suc[symmetric])
  show ?case
  proof (cases "est + t > maxT \<and> i < length msgs - 1")
    case True
    then show ?thesis
      using Suc.prems by (auto simp: t_def[symmetric])
  next
    case False
    have "est + t \<le> max maxT (estimateMessageTokens (last msgs))"
    proof (cases "i < length msgs - 1")
      case True
      with False show ?thesis by simp
    next
      case last: False
      then have "i = length msgs - 1" using i by simp
      then have "est = 0" "t = estimateMessageTokens (last msgs)"
        using Suc.prems(2,4) by (simp_all add: tokens_of_def t_def last_conv_nth)
      then show ?thesis by simp
    qed
    then have "tokens_of (drop (keep_from maxT msgs (est + t) i) msgs) \<le> max maxT (estimateMessageTokens (last msgs))"
      using Suc.prems step by (intro Suc.IH) simp_all
    moreover have "keep_from maxT msgs est (Suc i) = keep_from maxT msgs (est + t) i"
      using False by (auto simp: t_def[symmetric] Let_def)
    ultimately show ?thesis by simp
  qed
qed

lemma pull_call_le_keep: "j \<le> keep \<Longrightarrow> pull_call msgs keep j \<le> keep"
proof (induction j arbitrary: keep)
  case (Suc j)
  have "pull_call msgs j j \<le> j" by (rule Suc.IH) simp
  then show ?case
    using Suc.prems Suc.IH[of keep] by auto
qed simp

text \<open>A call of the leading result is kept: the nearest one is found first, later moves only add.\<close>

lemma pull_call_keeps:
  assumes "k < j" "list_ex (\<lambda>tc. tc_ID tc = m_ToolCallID (msgs ! keep)) (m_ToolCalls (msgs ! k))" "j \<le> keep"
  shows "\<exists>i. pull_call msgs keep j \<le> i \<and> i < keep \<and>
    list_ex (\<lambda>tc. tc_ID tc = m_ToolCallID (msgs ! keep)) (m_ToolCalls (msgs ! i))"
  using assms
proof (induction j)
  case (Suc j)
  let ?hit = "list_ex (\<lambda>tc. tc_ID tc = m_ToolCallID (msgs ! keep)) (m_ToolCalls (msgs ! j))"
  show ?case
  proof (cases ?hit)
    case True
    then have "pull_call msgs keep (Suc j) \<le> j"
      using pull_call_le_keep[of j j msgs] by simp
    then show ?thesis
      using True Suc.prems(3) by (intro exI[of _ j]) simp
  next
    case False
    then have "k < j"
      using Suc.prems(1,2) by (metis less_SucE)
    with Suc False show ?thesis by simp
  qed
qed simp

lemma drop_orphan_cases:
  "drop_orphan keep msgs = msgs \<or> (drop_orphan keep msgs = butlast msgs \<and> keep < length msgs)"
  by (simp add: drop_orphan_def)

lemma keep_pairs_le: "keep_pairs msgs keep \<le> keep"
  by (simp add: keep_pairs_def pull_call_le_keep)


definition sample_turns :: "ChatMessage list" where
  "sample_turns =
    [zero_message\<lparr>m_Role := ''user'', m_Content := replicate 400 CHR ''x''\<rparr>,
     zero_message\<lparr>m_Role := ''assistant'', m_ToolCalls := [\<lparr>tc_ID = ''c1'', tc_Name = ''f'', tc_Arguments = ''{}''\<rparr>]\<rparr>,
     zero_message\<lparr>m_Role := ''tool'', m_ToolCallID := ''c1'', m_ToolResult := ''r''\<rparr>,
     zero_message\<lparr>m_Role := ''user'', m_Content := ''next''\<rparr>]"


text \<open>
  A tool result that leads the window after the budget cut keeps its call: when the conversation has
  a message that made the call, one such message is inside the truncated window or is the dropped last one.
\<close>

theorem truncate_keeps_call_of_leading_result:
  assumes "start = keep_from maxT msgs 0 (length msgs)" "0 < start" "start < length msgs"
    and "m_Role (msgs ! start) = RoleTool" "m_ToolCallID (msgs ! start) \<noteq> []"
    and "k < start" "tc \<in> set (m_ToolCalls (msgs ! k))" "tc_ID tc = m_ToolCallID (msgs ! start)"
  shows "\<exists>i < start. \<exists>tc' \<in> set (m_ToolCalls (msgs ! i)). tc_ID tc' = m_ToolCallID (msgs ! start) \<and>
    (\<exists>n. TruncateMessages msgs maxT ! n = msgs ! i \<and> n < length (TruncateMessages msgs maxT))"
proof -
  define keep where "keep = keep_pairs msgs start"
  have keep: "keep = pull_call msgs start start"
    using assms(2-5) by (simp add: keep_def keep_pairs_def)
  have "list_ex (\<lambda>tc. tc_ID tc = m_ToolCallID (msgs ! start)) (m_ToolCalls (msgs ! k))"
    using assms(7,8) by (auto simp: list_ex_iff)
  from pull_call_keeps[OF assms(6) this order_refl] obtain i where i: "keep \<le> i" "i < start"
    "list_ex (\<lambda>tc. tc_ID tc = m_ToolCallID (msgs ! start)) (m_ToolCalls (msgs ! i))"
    unfolding keep by blast
  define window where "window = TruncateMessages msgs maxT"
  have window: "window = drop keep (drop_orphan keep msgs)"
    using assms(1,3) by (auto simp: window_def TruncateMessages_def Let_def keep_def)
  have len: "length (drop_orphan keep msgs) \<ge> length msgs - 1" "i < length (drop_orphan keep msgs)"
    "drop_orphan keep msgs ! i = msgs ! i"
    using i(2) assms(3) by (auto simp: drop_orphan_def nth_butlast)
  then have "window ! (i - keep) = msgs ! i" "i - keep < length window"
    using i(1) by (simp_all add: window)
  with i show ?thesis
    unfolding window_def[symmetric] by (auto simp: list_ex_iff)
qed

theorem truncate_keeps_call_of_leading_result_witness:
  "\<exists>i < 2. \<exists>tc' \<in> set (m_ToolCalls (sample_turns ! i)). tc_ID tc' = ''c1'' \<and>
    (\<exists>n. TruncateMessages sample_turns 12 ! n = sample_turns ! i \<and> n < length (TruncateMessages sample_turns 12))"
proof -
  define tc where "tc = \<lparr>tc_ID = ''c1'', tc_Name = ''f'', tc_Arguments = ''{}''\<rparr>"
  have "2 = keep_from 12 sample_turns 0 (length sample_turns)" by code_simp
  moreover have "m_ToolCallID (sample_turns ! 2) = ''c1''" "m_Role (sample_turns ! 2) = RoleTool"
    "length sample_turns = 4" by code_simp+
  moreover have "tc \<in> set (m_ToolCalls (sample_turns ! 1))" unfolding tc_def by code_simp
  ultimately show ?thesis
    using truncate_keeps_call_of_leading_result[of 2 12 sample_turns 1 tc] by (simp add: tc_def)
qed

text \<open>A lone call without a result leaves nothing to send.\<close>

lemma truncate_can_be_empty: "TruncateMessages [sample_turns ! 1] 100 = []"
  by code_simp

section \<open>What is stored\<close>

lemma order_by_snoc: "order_by le (xs @ [x]) = insert_by le x (order_by le xs)"
  by (simp add: order_by_def)

lemma insert_by_last: "\<forall>y \<in> set xs. le y x \<Longrightarrow> insert_by le x xs = xs @ [x]"
  by (simp add: insert_by_def takeWhile_eq_all_conv dropWhile_eq_Nil_conv)

lemma session_messages_append:
  assumes "\<forall>r \<in> set (message_rows db). mr_SessionID r = sid \<longrightarrow> mr_Seq r \<le> mr_Seq row"
    and "mr_SessionID row = sid"
  shows "session_messages sid (db\<lparr>message_rows := message_rows db @ [row]\<rparr>) = session_messages sid db @ [row]"
  using assms by (simp add: session_messages_def order_by_snoc insert_by_last)

lemma session_messages_other:
  "mr_SessionID row \<noteq> sid \<Longrightarrow>
    session_messages sid (db\<lparr>message_rows := message_rows db @ [row]\<rparr>) = session_messages sid db"
  by (simp add: session_messages_def)

fun rows_from :: "string \<Rightarrow> int \<Rightarrow> ChatMessage list \<Rightarrow> messageRow list" where
  "rows_from sid n [] = []"
| "rows_from sid n (m # ms) = message_row sid n m # rows_from sid (n + 1) ms"

lemma rows_from_snoc:
  "rows_from sid n (ms @ [m]) = rows_from sid n ms @ [message_row sid (int (length ms) + n) m]"
  by (induction ms arbitrary: n) (simp_all add: algebra_simps)

lemma set_rows_from: "r \<in> set (rows_from sid n ms) \<Longrightarrow> mr_SessionID r = sid \<and> n \<le> mr_Seq r \<and> mr_Seq r < n + int (length ms)"
  by (induction ms arbitrary: n) (force simp: message_row_def)+

text \<open>A message as it comes back: the bytes of its images stay on disk.\<close>

definition stored_message :: "ChatMessage \<Rightarrow> ChatMessage" where
  "stored_message m = m\<lparr>m_Images := map stored_image (m_Images m)\<rparr>"

lemma to_message_row [simp]: "to_message (message_row sid n m) = stored_message m"
  by (simp add: to_message_def message_row_def stored_message_def)

lemma map_to_message_rows [simp]: "map to_message (rows_from sid n ms) = map stored_message ms"
  by (induction ms arbitrary: n) simp_all

lemma length_rows_from [simp]: "length (rows_from sid n ms) = length ms"
  by (induction ms arbitrary: n) simp_all

text \<open>The session and its rows agree: everything written so far is stored under consecutive numbers.\<close>

definition in_sync :: "Session \<Rightarrow> chat_db \<Rightarrow> bool" where
  "in_sync s db \<longleftrightarrow> ss_store s \<and> ss_seq s = int (length (ss_Messages s)) \<and>
    session_messages (ss_ID s) db = rows_from (ss_ID s) 1 (ss_Messages s) \<and>
    (if ss_persisted s
     then find (owned_by (ss_ID s) (ss_TenantID s) (ss_UserID s)) (session_rows db) \<noteq> None
     else \<not> tbl_has sr_ID (ss_ID s) (session_rows db))"

lemma set_session_messages: "set (session_messages sid db) = {r \<in> set (message_rows db). mr_SessionID r = sid}"
  by (auto simp: session_messages_def)

lemma in_sync_numbers:
  assumes "in_sync s db" "r \<in> set (message_rows db)" "mr_SessionID r = ss_ID s"
  shows "mr_Seq r \<le> ss_seq s"
proof -
  have "r \<in> set (rows_from (ss_ID s) 1 (ss_Messages s))"
    using assms set_session_messages[of "ss_ID s" db] by (auto simp: in_sync_def)
  from set_rows_from[OF this] show ?thesis
    using assms(1) by (simp add: in_sync_def)
qed

lemma append_in_sync:
  assumes "tbl_has sr_ID sid (session_rows db)"
    and "\<And>r. r \<in> set (message_rows db) \<Longrightarrow> mr_SessionID r = sid \<Longrightarrow> mr_Seq r < n"
  shows "AppendMessage no_faults sid n m db = (Inr (), db\<lparr>message_rows := message_rows db @ [message_row sid n m]\<rparr>)"
proof -
  have "\<not> tbl_has (\<lambda>r. (mr_SessionID r, mr_Seq r)) (sid, n) (message_rows db)"
    using assms(2) by (force simp: tbl_has_iff)
  with assms(1) show ?thesis
    by (simp add: AppendMessage_def tx_simps)
qed

lemma find_list_ex: "find P xs \<noteq> None \<longleftrightarrow> list_ex P xs"
  by (induction xs) auto

lemma find_owned_has: "find (owned_by sid tenant user) rows \<noteq> None \<Longrightarrow> tbl_has sr_ID sid rows"
  by (auto simp: find_None_iff tbl_has_iff owned_by_def)

lemma upsert_fresh:
  assumes "\<not> tbl_has sr_ID (ss_ID s) (session_rows db)"
  shows "UpsertSession no_faults now s db =
    (Inr (), db\<lparr>session_rows := upsert_row now s (session_rows db)\<rparr>)"
    "find (owned_by (ss_ID s) (ss_TenantID s) (ss_UserID s)) (upsert_row now s (session_rows db)) \<noteq> None"
    "tbl_has sr_ID (ss_ID s) (upsert_row now s (session_rows db))"
proof -
  have "tbl_find sr_ID (ss_ID s) (session_rows db) = None"
    using assms by (simp add: tbl_find_None tbl_has_iff)
  then show "UpsertSession no_faults now s db =
    (Inr (), db\<lparr>session_rows := upsert_row now s (session_rows db)\<rparr>)"
    by (simp add: UpsertSession_def other_tenant_def tx_simps)
  show "find (owned_by (ss_ID s) (ss_TenantID s) (ss_UserID s)) (upsert_row now s (session_rows db)) \<noteq> None"
    "tbl_has sr_ID (ss_ID s) (upsert_row now s (session_rows db))"
    unfolding find_list_ex using assms by (simp_all add: upsert_row_def owned_by_def tbl_has_def)
qed

lemma AddMessage_in_sync:
  assumes "in_sync s db" "AddMessage no_faults now msg s db = (s', db')"
  shows "in_sync s' db' \<and> ss_Messages s' = ss_Messages s @ [msg] \<and> ss_persisted s' \<and>
    ss_ID s' = ss_ID s \<and> ss_TenantID s' = ss_TenantID s \<and> ss_UserID s' = ss_UserID s"
proof -
  define s1 where "s1 = s\<lparr>ss_Messages := ss_Messages s @ [msg], ss_UpdatedAt := now,
    ss_Title := title_after msg (ss_Title s), ss_seq := ss_seq s + 1\<rparr>"
  have s1: "ss_ID s1 = ss_ID s" "ss_TenantID s1 = ss_TenantID s" "ss_UserID s1 = ss_UserID s"
    "ss_seq s1 = ss_seq s + 1" "ss_persisted s1 = ss_persisted s" "ss_store s1"
    using assms(1) by (simp_all add: s1_def in_sync_def)
  define db1 where "db1 = (if ss_persisted s then db else db\<lparr>session_rows := upsert_row now s1 (session_rows db)\<rparr>)"
  have pers: "(if ss_persisted s1 then (Inr (), db) else UpsertSession no_faults now s1 db) = (Inr (), db1)"
    "find (owned_by (ss_ID s) (ss_TenantID s) (ss_UserID s)) (session_rows db1) \<noteq> None"
    using assms(1) upsert_fresh[of s1 db now] by (auto simp: db1_def s1 in_sync_def split: if_splits)
  have msgs: "message_rows db1 = message_rows db" "session_messages sid db1 = session_messages sid db" for sid
    by (simp_all add: db1_def session_messages_def)
  have below: "mr_Seq r < ss_seq s + 1" if "r \<in> set (message_rows db1)" "mr_SessionID r = ss_ID s" for r
    using in_sync_numbers[OF assms(1)] that by (simp add: msgs)
  define row where "row = message_row (ss_ID s) (ss_seq s + 1) msg"
  have app: "AppendMessage no_faults (ss_ID s) (ss_seq s + 1) msg db1 =
      (Inr (), db1\<lparr>message_rows := message_rows db1 @ [row]\<rparr>)"
    unfolding row_def by (rule append_in_sync[OF find_owned_has[OF pers(2)] below])
  have res: "s' = s1\<lparr>ss_persisted := True\<rparr>" "db' = db1\<lparr>message_rows := message_rows db1 @ [row]\<rparr>"
    using assms(2) pers(1) app s1 unfolding AddMessage_def Let_def s1_def[symmetric] by simp_all
  have "session_messages (ss_ID s) db' = session_messages (ss_ID s) db @ [row]"
    using session_messages_append[of db1 "ss_ID s" row] below
    by (force simp: res msgs row_def message_row_def)
  then show ?thesis
    using assms(1) pers(2)
    by (auto simp: in_sync_def res s1 s1_def rows_from_snoc row_def)
qed

fun add_all :: "(int \<times> ChatMessage) list \<Rightarrow> Session \<Rightarrow> chat_db \<Rightarrow> Session \<times> chat_db" where
  "add_all [] s db = (s, db)"
| "add_all ((now, m) # ms) s db = (case AddMessage no_faults now m s db of (s', db') \<Rightarrow> add_all ms s' db')"

lemma add_all_in_sync:
  assumes "in_sync s db" "add_all ms s db = (s', db')"
  shows "in_sync s' db' \<and> ss_Messages s' = ss_Messages s @ map snd ms \<and> (ms \<noteq> [] \<longrightarrow> ss_persisted s') \<and>
    ss_ID s' = ss_ID s \<and> ss_TenantID s' = ss_TenantID s \<and> ss_UserID s' = ss_UserID s"
  using assms
proof (induction ms arbitrary: s db)
  case (Cons p ms)
  obtain now m where p: "p = (now, m)" by (cases p)
  obtain s1 db1 where one: "AddMessage no_faults now m s db = (s1, db1)" by force
  note AddMessage_in_sync[OF Cons.prems(1) one]
  moreover have "add_all ms s1 db1 = (s', db')"
    using Cons.prems(2) by (simp add: p one)
  moreover from this have "ms = [] \<Longrightarrow> s' = s1" by auto
  ultimately show ?case
    using Cons.IH[of s1 db1] by (cases "ms = []") (auto simp: p)
qed simp

text \<open>
  C28: A conversation reads back as it was written: after the messages of a fresh session have been added
  with a store that answers, loading the session for its owner returns the same messages in the same
  order (without the bytes of images, which stay on disk) and continues the numbering.
\<close>

theorem reload_roundtrip:
  assumes "ss_store s" "ss_Messages s = []" "ss_seq s = 0" "\<not> ss_persisted s"
    and "\<not> tbl_has sr_ID (ss_ID s) (session_rows db)" "session_messages (ss_ID s) db = []"
    and "ms \<noteq> []" "add_all ms s db = (s', db')"
  shows "\<exists>r. fst (LoadSession no_faults (ss_ID s) (ss_TenantID s) (ss_UserID s) db') = Inr r \<and>
    ss_Messages r = map (stored_message \<circ> snd) ms \<and> ss_seq r = ss_seq s' \<and> ss_persisted r"
proof -
  have "in_sync s db"
    using assms(1-6) by (simp add: in_sync_def)
  from add_all_in_sync[OF this assms(8)] assms(2,7) have fin: "in_sync s' db'" "ss_Messages s' = map snd ms"
    "ss_persisted s'" "ss_ID s' = ss_ID s" "ss_TenantID s' = ss_TenantID s" "ss_UserID s' = ss_UserID s"
    by auto
  then obtain row where "find (owned_by (ss_ID s) (ss_TenantID s) (ss_UserID s)) (session_rows db') = Some row"
    by (auto simp: in_sync_def)
  then show ?thesis
    using fin by (simp add: LoadSession_def tx_simps session_of_row_def in_sync_def)
qed

definition empty_chat_db :: chat_db where
  "empty_chat_db = \<lparr>session_rows = [], message_rows = []\<rparr>"

definition sample_session :: Session where
  "sample_session = (NewSession 0 ''s1'' DefaultMaxTokens)\<lparr>ss_TenantID := ''t'', ss_store := True\<rparr>"

theorem reload_roundtrip_witness:
  "\<exists>r. fst (LoadSession no_faults ''s1'' ''t'' []
      (snd (add_all [(1, sample_turns ! 0), (2, sample_turns ! 1)] sample_session empty_chat_db))) = Inr r \<and>
    length (ss_Messages r) = 2"
proof -
  have "ss_store sample_session" "ss_Messages sample_session = []" "ss_seq sample_session = 0"
    "\<not> ss_persisted sample_session" "\<not> tbl_has sr_ID (ss_ID sample_session) (session_rows empty_chat_db)"
    "session_messages (ss_ID sample_session) empty_chat_db = []"
    by (simp_all add: sample_session_def NewSession_def empty_chat_db_def tbl_has_def session_messages_def order_by_def)
  note run = reload_roundtrip[OF this, of "[(1, sample_turns ! 0), (2, sample_turns ! 1)]"]
  obtain s' db' where add: "add_all [(1, sample_turns ! 0), (2, sample_turns ! 1)] sample_session empty_chat_db = (s', db')"
    by force
  have ids: "ss_ID sample_session = ''s1''" "ss_TenantID sample_session = ''t''" "ss_UserID sample_session = []"
    by (simp_all add: sample_session_def NewSession_def)
  from run[OF _ add] obtain r where "fst (LoadSession no_faults ''s1'' ''t'' [] db') = Inr r"
    "ss_Messages r = map (stored_message \<circ> snd) [(1::int, sample_turns ! 0), (2, sample_turns ! 1)]"
    unfolding ids by blast
  then show ?thesis
    unfolding add by simp
qed

text \<open>
  A lost insert costs a second message: a session that is loaded while the table already holds
  the number after its count (an insert before it had failed) numbers its next message with a
  number that is taken, so the insert is refused and the message is not stored, without an error.
\<close>

theorem reload_after_lost_insert_loses_next:
  assumes "fst (LoadSession no_faults sid tenant user db) = Inr s"
    and "tbl_has (\<lambda>r. (mr_SessionID r, mr_Seq r)) (sid, int (length (session_messages sid db)) + 1) (message_rows db)"
    and "AddMessage flt now msg (s\<lparr>ss_store := True\<rparr>) db = (s', db')"
  shows "message_rows db' = message_rows db \<and> last (ss_Messages s') = msg"
proof -
  have s: "ss_ID s = sid" "ss_seq s = int (length (session_messages sid db))" "ss_persisted s"
    using assms(1) by (auto simp: LoadSession_def tx_simps session_of_row_def split: option.splits)
  have "snd (AppendMessage flt sid (int (length (session_messages sid db)) + 1) msg db) = db"
    using assms(2) by (simp add: AppendMessage_def tx_simps)
  then show ?thesis
    using assms(3) s by (auto simp: AddMessage_def Let_def)
qed

theorem reload_after_lost_insert_loses_next_witness:
  "\<exists>s db' s'. AddMessage no_faults 9 (sample_turns ! 3) s
     \<lparr>session_rows = upsert_row 0 sample_session [],
      message_rows = [message_row ''s1'' 1 (sample_turns ! 0), message_row ''s1'' 3 (sample_turns ! 2)]\<rparr> = (s', db') \<and>
     length (message_rows db') = 2 \<and> last (ss_Messages s') = sample_turns ! 3"
proof -
  define db where "db = \<lparr>session_rows = upsert_row 0 sample_session [],
      message_rows = [message_row ''s1'' 1 (sample_turns ! 0), message_row ''s1'' 3 (sample_turns ! 2)]\<rparr>"
  define s where "s = session_of_row (hd (session_rows db)) ''s1'' (session_messages ''s1'' db)"
  have load: "fst (LoadSession no_faults ''s1'' ''t'' [] db) = Inr s"
    unfolding s_def db_def by code_simp
  have taken: "tbl_has (\<lambda>r. (mr_SessionID r, mr_Seq r)) (''s1'', int (length (session_messages ''s1'' db)) + 1) (message_rows db)"
    unfolding db_def by code_simp
  obtain s' db' where add: "AddMessage no_faults 9 (sample_turns ! 3) (s\<lparr>ss_store := True\<rparr>) db = (s', db')"
    by force
  from reload_after_lost_insert_loses_next[OF load taken add] have "length (message_rows db') = 2"
    "last (ss_Messages s') = sample_turns ! 3" by (simp_all add: db_def)
  with add show ?thesis unfolding db_def by blast
qed

end
