(* ===== verification/ChatLoop.thy ===== *)
theory ChatLoop
  imports Session BatchScheduler
begin

text \<open>
  The agentic loop (\<open>loop.go\<close>): user message, model, tools, model, until a turn ends or ten rounds have
  passed. The worker's answers, the tool executor, the image store, the request ids and the
  cancellation of the context are the environment; the session and its store are the state. The loop
  runs in a goroutine and its events are the list it returns.
\<close>

definition MaxToolIterations :: nat where "MaxToolIterations = 10"

datatype image_error = ErrImageNotFound | ImageFailure string

datatype loop_error =
    ImageLoadErr string
  | SubmitErr sched_error
  | InferenceErr string
  | MaxIterationsErr

datatype loop_event =
    LoopEventToken string
  | LoopEventReasoning string
  | LoopEventToolUse ToolCall
  | LoopEventToolResult string bool
  | LoopEventFinal string string "Usage option"
  | LoopEventError loop_error

text \<open>
  \<open>le_gone i\<close>: the context is done when round \<open>i\<close> starts. \<open>le_submit i req\<close>: what \<open>TrySubmit\<close> answers,
  and the events read from the channel until it is closed. \<open>le_exec i name args\<close>: what a tool run in
  round \<open>i\<close> returns, an error text or the result (None: a nil message).
\<close>

record loop_env =
  le_chat_faults :: faults
  le_now :: int
  le_gone :: "nat \<Rightarrow> bool"
  le_request_id :: "nat \<Rightarrow> string"
  le_submit :: "nat \<Rightarrow> GenerateRequest \<Rightarrow> sched_error + GenerateEvent list"
  le_exec :: "nat \<Rightarrow> string \<Rightarrow> string \<Rightarrow> string + string option"
  le_can_execute :: "string \<Rightarrow> bool"
  le_list_tools :: "ToolDefinition list"
  le_images :: "(ChatImage \<Rightarrow> image_error + bytes) option"

type_synonym sess_state = "Session \<times> chat_db"

definition loop_add :: "loop_env \<Rightarrow> ChatMessage \<Rightarrow> sess_state \<Rightarrow> sess_state" where
  "loop_add env m st = AddMessage (le_chat_faults env) (le_now env) m (fst st) (snd st)"

section \<open>Requests\<close>

fun dedup_tools :: "string list \<Rightarrow> ToolDefinition list \<Rightarrow> ToolDefinition list" where
  "dedup_tools seen [] = []"
| "dedup_tools seen (td # tds) =
    (if td_Name td = [] \<or> td_Name td \<in> set seen then dedup_tools seen tds
     else td # dedup_tools (td_Name td # seen) tds)"

definition toolDefinitionsFor :: "loop_env \<Rightarrow> ToolDefinition list \<Rightarrow> ToolDefinition list" where
  "toolDefinitionsFor env client =
    (if length client > 0 then dedup_tools [] client
     else map (\<lambda>td. \<lparr>td_Name = td_Name td, td_Description = td_Description td, td_Parameters = td_Parameters td\<rparr>)
       (le_list_tools env))"

definition allExecutable :: "loop_env \<Rightarrow> ToolCall list \<Rightarrow> bool" where
  "allExecutable env calls = list_all (\<lambda>tc. le_can_execute env (tc_Name tc)) calls"

text \<open>An image whose file is gone is left out; any other failure fails the turn.\<close>

fun wire_images :: "loop_env \<Rightarrow> ChatImage list \<Rightarrow> loop_error + MessageImage list" where
  "wire_images env [] = Inr []"
| "wire_images env (img # imgs) =
    (let rest = wire_images env imgs;
         keep = (\<lambda>data. case rest of Inl e \<Rightarrow> Inl e
           | Inr ws \<Rightarrow> Inr (\<lparr>mi_ID = im_ID img, mi_MimeType = im_MimeType img, mi_Data = data\<rparr> # ws))
     in if im_Data img \<noteq> [] then keep (im_Data img)
        else (case le_images env of
            None \<Rightarrow> Inl (ImageLoadErr ''image store not configured'')
          | Some load \<Rightarrow> (case load img of
                Inl ErrImageNotFound \<Rightarrow> rest
              | Inl (ImageFailure e) \<Rightarrow> Inl (ImageLoadErr (''load image '' @ im_ID img @ '': '' @ e))
              | Inr data \<Rightarrow> keep data)))"

fun toInferenceMessages :: "loop_env \<Rightarrow> ChatMessage list \<Rightarrow> loop_error + Message list" where
  "toInferenceMessages env [] = Inr []"
| "toInferenceMessages env (m # ms) = (case wire_images env (m_Images m) of
      Inl e \<Rightarrow> Inl e
    | Inr imgs \<Rightarrow> (case toInferenceMessages env ms of
          Inl e \<Rightarrow> Inl e
        | Inr rest \<Rightarrow> Inr (\<lparr>wm_Role = m_Role m, wm_Content = m_Content m,
            wm_ToolCalls = map (\<lambda>tc. \<lparr>tc_ID = tc_ID tc, tc_Name = tc_Name tc, tc_Arguments = tc_Arguments tc\<rparr>) (m_ToolCalls m),
            wm_ToolCallID = m_ToolCallID m, wm_ToolResult = m_ToolResult m, wm_IsError = m_IsError m,
            wm_Images = imgs\<rparr> # rest)))"

text \<open>The messages sent: the conversation, truncated in the danger zone.\<close>

definition round_messages :: "Session \<Rightarrow> ChatMessage list" where
  "round_messages s = (if EstimatedTokens s > danger_zone (ss_MaxTokens s)
     then TruncateMessages (ss_Messages s) (ss_MaxTokens s) else ss_Messages s)"

definition round_request ::
  "loop_env \<Rightarrow> SamplingParams \<Rightarrow> ToolDefinition list \<Rightarrow> nat \<Rightarrow> Session \<Rightarrow> Message list \<Rightarrow> GenerateRequest" where
  "round_request env params clientTools i s wire = \<lparr>gr_RequestID = le_request_id env i,
     gr_SessionID = ss_ID s, gr_Messages = wire, gr_SystemPrompt = ss_SystemPrompt s,
     gr_SamplingParams = params, gr_Tools = toolDefinitionsFor env clientTools\<rparr>"

section \<open>Reading one answer\<close>

record answer =
  an_content :: string
  an_calls :: "ToolCall list"
  an_stop :: string
  an_finish :: string
  an_usage :: "Usage option"

definition no_answer :: answer where
  "no_answer = \<lparr>an_content = [], an_calls = [], an_stop = [], an_finish = [], an_usage = None\<rparr>"

definition call_of :: "ToolUseEvent \<Rightarrow> ToolCall" where
  "call_of t = \<lparr>tc_ID = tu_ID t, tc_Name = tu_Name t, tc_Arguments = tu_Arguments t\<rparr>"

text \<open>The events forwarded, and the answer or the error that ends the turn at once.\<close>

fun collect :: "GenerateEvent list \<Rightarrow> answer \<Rightarrow> loop_event list \<times> (string + answer)" where
  "collect [] a = ([], Inr a)"
| "collect (e # es) a =
    (if ge_Type e = ''token'' then
       (case collect es (a\<lparr>an_content := an_content a @ ge_Token e\<rparr>) of
          (out, r) \<Rightarrow> (LoopEventToken (ge_Token e) # out, r))
     else if ge_Type e = ''reasoning'' then
       (case collect es a of (out, r) \<Rightarrow> (LoopEventReasoning (ge_Token e) # out, r))
     else if ge_Type e = ''tool_use'' then
       collect es (case ge_ToolUse e of None \<Rightarrow> a | Some t \<Rightarrow> a\<lparr>an_calls := an_calls a @ [call_of t]\<rparr>)
     else if ge_Type e = ''final'' then
       (if ge_StopReason e = ''STOP_ERROR'' then ([LoopEventError (InferenceErr (ge_Error e))], Inl (ge_Error e))
        else collect es (a\<lparr>an_stop := ge_StopReason e, an_finish := ge_FinishReason e, an_usage := ge_Usage e\<rparr>))
     else collect es a)"

definition assistant_message :: "answer \<Rightarrow> ChatMessage" where
  "assistant_message a = zero_message\<lparr>m_Role := RoleAssistant, m_Content := an_content a, m_ToolCalls := an_calls a\<rparr>"

definition tool_message :: "loop_env \<Rightarrow> nat \<Rightarrow> ToolCall \<Rightarrow> ChatMessage" where
  "tool_message env i tc = (case le_exec env i (tc_Name tc) (tc_Arguments tc) of
      Inl e \<Rightarrow> zero_message\<lparr>m_Role := RoleTool, m_ToolCallID := tc_ID tc, m_ToolResult := e, m_IsError := True\<rparr>
    | Inr None \<Rightarrow> zero_message\<lparr>m_Role := RoleTool, m_ToolCallID := tc_ID tc, m_ToolResult := [], m_IsError := False\<rparr>
    | Inr (Some r) \<Rightarrow> zero_message\<lparr>m_Role := RoleTool, m_ToolCallID := tc_ID tc, m_ToolResult := r, m_IsError := False\<rparr>)"

fun run_tools :: "loop_env \<Rightarrow> nat \<Rightarrow> ToolCall list \<Rightarrow> sess_state \<Rightarrow> loop_event list \<times> sess_state" where
  "run_tools env i [] st = ([], st)"
| "run_tools env i (tc # tcs) st =
    (let m = tool_message env i tc in
     case run_tools env i tcs (loop_add env m st) of
       (out, st') \<Rightarrow> (LoopEventToolResult (m_ToolResult m) (m_IsError m) # out, st'))"

section \<open>The loop\<close>

definition final_of :: "answer \<Rightarrow> loop_event" where
  "final_of a = LoopEventFinal (an_stop a) (an_finish a) (an_usage a)"

text \<open>\<open>n\<close> rounds are left; the round's number is what has been used of \<open>MaxToolIterations\<close>.\<close>

fun rounds ::
  "loop_env \<Rightarrow> SamplingParams \<Rightarrow> ToolDefinition list \<Rightarrow> nat \<Rightarrow> sess_state \<Rightarrow> loop_event list \<times> sess_state" where
  "rounds env params clientTools 0 st = ([LoopEventError MaxIterationsErr], st)"
| "rounds env params clientTools (Suc n) st =
    (let i = MaxToolIterations - Suc n in
     if le_gone env i then ([LoopEventFinal ''STOP_CANCELLED'' ''cancelled'' None], st)
     else (case toInferenceMessages env (round_messages (fst st)) of
         Inl e \<Rightarrow> ([LoopEventError e], st)
       | Inr wire \<Rightarrow>
           (case le_submit env i (round_request env params clientTools i (fst st) wire) of
               Inl e \<Rightarrow> ([LoopEventError (SubmitErr e)], st)
             | Inr evs \<Rightarrow> (case collect evs no_answer of
                   (out, Inl _) \<Rightarrow> (out, st)
                 | (out, Inr a) \<Rightarrow>
                     let st1 = loop_add env (assistant_message a) st in
                     if an_stop a = ''STOP_TOOL_USE'' \<and> length (an_calls a) > 0 then
                       if length clientTools > 0 \<or> \<not> allExecutable env (an_calls a)
                       then (out @ map LoopEventToolUse (an_calls a) @ [final_of a], st1)
                       else (case run_tools env i (an_calls a) st1 of
                           (results, st2) \<Rightarrow> (case rounds env params clientTools n st2 of
                               (rest, st3) \<Rightarrow> (out @ results @ rest, st3)))
                     else (out @ [final_of a], st1)))))"

definition RunStreaming ::
  "loop_env \<Rightarrow> SamplingParams \<Rightarrow> ToolDefinition list \<Rightarrow> ChatMessage \<Rightarrow> sess_state \<Rightarrow>
   loop_event list \<times> sess_state" where
  "RunStreaming env params clientTools userMessage st =
    rounds env params clientTools MaxToolIterations (loop_add env userMessage st)"

section \<open>How a turn ends\<close>

fun terminal :: "loop_event \<Rightarrow> bool" where
  "terminal (LoopEventFinal _ _ _) = True"
| "terminal (LoopEventError _) = True"
| "terminal _ = False"

definition ends_once :: "loop_event list \<Rightarrow> bool" where
  "ends_once evs \<longleftrightarrow> (\<exists>pre t. evs = pre @ [t] \<and> terminal t \<and> (\<forall>e \<in> set pre. \<not> terminal e))"

lemma ends_once_Cons: "\<not> terminal e \<Longrightarrow> ends_once evs \<Longrightarrow> ends_once (e # evs)"
  unfolding ends_once_def by (metis append_Cons set_ConsD)

lemma ends_once_single [simp]: "terminal t \<Longrightarrow> ends_once [t]"
  by (simp add: ends_once_def)

lemma collect_error_events: "collect es a = (out, Inl msg) \<Longrightarrow> ends_once out"
  by (induction es a arbitrary: out rule: collect.induct)
    (auto split: if_splits prod.splits intro: ends_once_Cons)

lemma collect_ok_events: "collect es a = (out, Inr b) \<Longrightarrow> \<forall>e \<in> set out. \<not> terminal e"
  by (induction es a arbitrary: out rule: collect.induct) (auto split: if_splits prod.splits)

lemma run_tools_events: "run_tools env i tcs st = (out, st') \<Longrightarrow> \<forall>e \<in> set out. \<not> terminal e"
  by (induction env i tcs st arbitrary: out rule: run_tools.induct) (auto simp: Let_def split: prod.splits)

lemma ends_onceI: "evs = pre @ [t] \<Longrightarrow> terminal t \<Longrightarrow> \<forall>e \<in> set pre. \<not> terminal e \<Longrightarrow> ends_once evs"
  by (auto simp: ends_once_def)

lemma ends_once_append: "\<forall>e \<in> set pre. \<not> terminal e \<Longrightarrow> ends_once evs \<Longrightarrow> ends_once (pre @ evs)"
  unfolding ends_once_def by (metis Un_iff append.assoc set_append)

text \<open>The outcomes of a round.\<close>

abbreviation round_no :: "nat \<Rightarrow> nat" where
  "round_no n \<equiv> MaxToolIterations - Suc n"

lemma rounds_cases:
  assumes "rounds env params clientTools (Suc n) st = (out, st')"
  obtains (cancelled) "le_gone env (round_no n)" "out = [LoopEventFinal ''STOP_CANCELLED'' ''cancelled'' None]" "st' = st"
  | (images) e where "\<not> le_gone env (round_no n)" "toInferenceMessages env (round_messages (fst st)) = Inl e"
      "out = [LoopEventError e]" "st' = st"
  | (refused) wire e where "\<not> le_gone env (round_no n)" "toInferenceMessages env (round_messages (fst st)) = Inr wire"
      "le_submit env (round_no n) (round_request env params clientTools (round_no n) (fst st) wire) = Inl e"
      "out = [LoopEventError (SubmitErr e)]" "st' = st"
  | (failed) wire evs msg where "\<not> le_gone env (round_no n)" "toInferenceMessages env (round_messages (fst st)) = Inr wire"
      "le_submit env (round_no n) (round_request env params clientTools (round_no n) (fst st) wire) = Inr evs"
      "collect evs no_answer = (out, Inl msg)" "st' = st"
  | (handed) wire evs toks a where "\<not> le_gone env (round_no n)" "toInferenceMessages env (round_messages (fst st)) = Inr wire"
      "le_submit env (round_no n) (round_request env params clientTools (round_no n) (fst st) wire) = Inr evs"
      "collect evs no_answer = (toks, Inr a)" "an_stop a = ''STOP_TOOL_USE''" "an_calls a \<noteq> []"
      "clientTools \<noteq> [] \<or> \<not> allExecutable env (an_calls a)"
      "out = toks @ map LoopEventToolUse (an_calls a) @ [final_of a]"
      "st' = loop_add env (assistant_message a) st"
  | (tools) wire evs toks a results st2 rest where "\<not> le_gone env (round_no n)"
      "toInferenceMessages env (round_messages (fst st)) = Inr wire"
      "le_submit env (round_no n) (round_request env params clientTools (round_no n) (fst st) wire) = Inr evs"
      "collect evs no_answer = (toks, Inr a)" "an_stop a = ''STOP_TOOL_USE''" "an_calls a \<noteq> []"
      "clientTools = []" "allExecutable env (an_calls a)"
      "run_tools env (round_no n) (an_calls a) (loop_add env (assistant_message a) st) = (results, st2)"
      "rounds env params clientTools n st2 = (rest, st')" "out = toks @ results @ rest"
  | (answered) wire evs toks a where "\<not> le_gone env (round_no n)" "toInferenceMessages env (round_messages (fst st)) = Inr wire"
      "le_submit env (round_no n) (round_request env params clientTools (round_no n) (fst st) wire) = Inr evs"
      "collect evs no_answer = (toks, Inr a)" "an_stop a \<noteq> ''STOP_TOOL_USE'' \<or> an_calls a = []"
      "out = toks @ [final_of a]" "st' = loop_add env (assistant_message a) st"
proof -
  note run = assms[unfolded rounds.simps Let_def]
  show thesis
  proof (cases "le_gone env (round_no n)")
    case True
    with run show thesis by (intro cancelled) auto
  next
    case here: False
    show thesis
    proof (cases "toInferenceMessages env (round_messages (fst st))")
      case (Inl e)
      with run here show thesis by (intro images) auto
    next
      case wire: (Inr wire)
      show thesis
      proof (cases "le_submit env (round_no n) (round_request env params clientTools (round_no n) (fst st) wire)")
        case (Inl e)
        with run here wire show thesis by (intro refused) auto
      next
        case evs: (Inr evs)
        obtain toks r where col: "collect evs no_answer = (toks, r)" by force
        show thesis
        proof (cases r)
          case (Inl msg)
          with run here wire evs col show thesis by (intro failed) auto
        next
          case a: (Inr a)
          note run' = run[unfolded wire evs col a, simplified here, simplified]
          show thesis
          proof (cases "an_stop a = ''STOP_TOOL_USE'' \<and> an_calls a \<noteq> []")
            case False
            with run' here wire evs col a show thesis by (intro answered) auto
          next
            case use: True
            show thesis
            proof (cases "clientTools \<noteq> [] \<or> \<not> allExecutable env (an_calls a)")
              case True
              with run' here wire evs col a use show thesis by (intro handed) auto
            next
              case False
              obtain results st2 where tl: "run_tools env (round_no n) (an_calls a)
                  (loop_add env (assistant_message a) st) = (results, st2)" by (rule prod.exhaust)
              obtain rest st3 where rest: "rounds env params clientTools n st2 = (rest, st3)" by (rule prod.exhaust)
              from False run' here wire evs col a use tl rest show thesis by (intro tools) auto
            qed
          qed
        qed
      qed
    qed
  qed
qed

lemma rounds_end_once: "rounds env params ct n st = (out, st') \<Longrightarrow> ends_once out"
proof (induction n arbitrary: st out)
  case 0
  then show ?case by auto
next
  case (Suc n)
  from Suc.prems show ?case
  proof (cases rule: rounds_cases)
    case (failed wire evs msg)
    then show ?thesis by (intro collect_error_events)
  next
    case (handed wire evs toks a)
    then show ?thesis
      using collect_ok_events[OF handed(4)]
      by (intro ends_onceI[of _ "toks @ map LoopEventToolUse (an_calls a)" "final_of a"]) (auto simp: final_of_def)
  next
    case (tools wire evs toks a results st2 rest)
    then show ?thesis
      using collect_ok_events[OF tools(4)] run_tools_events[OF tools(9)] Suc.IH[OF tools(10)]
      by (auto intro!: ends_once_append)
  next
    case (answered wire evs toks a)
    then show ?thesis
      using collect_ok_events[OF answered(4)] by (intro ends_onceI) (auto simp: final_of_def)
  qed simp_all
qed

text \<open>
  C19: A turn always ends, with exactly one final or error event, and that event is the last one of its
  channel: whatever the worker answers, the tools return and the store does.
\<close>

theorem turn_ends_exactly_once:
  "\<exists>pre t. fst (RunStreaming env params clientTools userMessage st) = pre @ [t] \<and> terminal t \<and>
    (\<forall>e \<in> set pre. \<not> terminal e)"
  using rounds_end_once[of env params clientTools MaxToolIterations "loop_add env userMessage st"]
  by (cases "rounds env params clientTools MaxToolIterations (loop_add env userMessage st)")
    (simp add: RunStreaming_def ends_once_def)

section \<open>Whose tools run\<close>

lemma wire_images_exec: "wire_images (env\<lparr>le_exec := f\<rparr>) imgs = wire_images env imgs"
  by (induction imgs) (auto simp: Let_def split: option.split sum.split image_error.split)

lemma messages_exec: "toInferenceMessages (env\<lparr>le_exec := f\<rparr>) ms = toInferenceMessages env ms"
  by (induction ms) (auto simp: wire_images_exec split: sum.split)

lemma loop_exec [simp]:
  "round_request (env\<lparr>le_exec := f\<rparr>) = round_request env" "loop_add (env\<lparr>le_exec := f\<rparr>) = loop_add env"
  "allExecutable (env\<lparr>le_exec := f\<rparr>) = allExecutable env"
  by (auto simp: round_request_def loop_add_def allExecutable_def toolDefinitionsFor_def fun_eq_iff)

text \<open>
  C22: Tools that the caller declares are never executed by the server: when a request declares tools,
  the events and the session are the same whatever the server's executor would do, and every call of
  the model is handed back in the order the model made them.
\<close>

theorem client_tools_are_never_executed:
  assumes "clientTools \<noteq> []"
  shows "RunStreaming (env\<lparr>le_exec := f\<rparr>) params clientTools um st = RunStreaming env params clientTools um st \<and>
    (\<forall>e \<in> set (fst (RunStreaming env params clientTools um st)). case e of LoopEventToolResult _ _ \<Rightarrow> False | _ \<Rightarrow> True)"
proof
  obtain n where n: "MaxToolIterations = Suc n" by (simp add: MaxToolIterations_def)
  show "RunStreaming (env\<lparr>le_exec := f\<rparr>) params clientTools um st = RunStreaming env params clientTools um st"
    using assms by (simp add: RunStreaming_def n messages_exec Let_def split: sum.split prod.split)
  have toks: "case e of LoopEventToolResult _ _ \<Rightarrow> False | _ \<Rightarrow> True"
    if "collect evs a = (out, r)" "e \<in> set out" for evs a out r e
    using that by (induction evs a arbitrary: out rule: collect.induct) (auto split: if_splits prod.splits)
  obtain out st' where run: "rounds env params clientTools (Suc n) (loop_add env um st) = (out, st')"
    by (rule prod.exhaust)
  have "\<forall>e \<in> set out. case e of LoopEventToolResult _ _ \<Rightarrow> False | _ \<Rightarrow> True"
    using run
  proof (cases rule: rounds_cases)
    case (failed wire evs msg)
    then show ?thesis using toks by blast
  next
    case (handed wire evs t a)
    then show ?thesis using toks[OF handed(4)] by (auto simp: final_of_def)
  next
    case (tools wire evs t a results st2 rest)
    with assms show ?thesis by simp
  next
    case (answered wire evs t a)
    then show ?thesis using toks[OF answered(4)] by (auto simp: final_of_def)
  qed simp_all
  with run show "\<forall>e \<in> set (fst (RunStreaming env params clientTools um st)).
      case e of LoopEventToolResult _ _ \<Rightarrow> False | _ \<Rightarrow> True"
    by (simp add: RunStreaming_def n)
qed

section \<open>The transcript\<close>

text \<open>
  What a turn adds after the user message: answers, where one whose calls were run is followed by one
  result per call, in order. Only the last answer may have calls without results (handed back).
\<close>

inductive exchange :: "ChatMessage list \<Rightarrow> bool" where
  none: "exchange []"
| answer: "m_Role a = RoleAssistant \<Longrightarrow> exchange [a]"
| round: "m_Role a = RoleAssistant \<Longrightarrow> m_ToolCalls a \<noteq> [] \<Longrightarrow>
    list_all2 (\<lambda>tc r. m_Role r = RoleTool \<and> m_ToolCallID r = tc_ID tc) (m_ToolCalls a) rs \<Longrightarrow>
    exchange rest \<Longrightarrow> exchange (a # rs @ rest)"

lemma loop_add_messages: "ss_Messages (fst (loop_add env m st)) = ss_Messages (fst st) @ [m]"
  by (auto simp: loop_add_def AddMessage_def Let_def split: prod.split sum.split)

lemma tool_message_fields: "m_Role (tool_message env i tc) = RoleTool" "m_ToolCallID (tool_message env i tc) = tc_ID tc"
  by (auto simp: tool_message_def split: sum.split option.split)

lemma run_tools_messages:
  "run_tools env i tcs st = (out, st') \<Longrightarrow>
    ss_Messages (fst st') = ss_Messages (fst st) @ map (tool_message env i) tcs"
  by (induction env i tcs st arbitrary: out rule: run_tools.induct)
    (auto simp: Let_def loop_add_messages split: prod.splits)

lemma assistant_message_fields:
  "m_Role (assistant_message a) = RoleAssistant" "m_ToolCalls (assistant_message a) = an_calls a"
  "m_Content (assistant_message a) = an_content a"
  by (simp_all add: assistant_message_def)

lemma rounds_exchange:
  "rounds env params ct n st = (out, st') \<Longrightarrow> \<exists>ms. ss_Messages (fst st') = ss_Messages (fst st) @ ms \<and> exchange ms"
proof (induction n arbitrary: st out)
  case 0
  then show ?case by (auto intro!: exI[of _ "[]"] exchange.none)
next
  case (Suc n)
  have same: ?case if "st' = st" using that by (auto intro!: exI[of _ "[]"] exchange.none)
  have one: ?case if "st' = loop_add env (assistant_message a) st" for a
    using that by (auto simp: loop_add_messages intro!: exI[of _ "[assistant_message a]"] exchange.answer assistant_message_fields)
  from Suc.prems show ?case
  proof (cases rule: rounds_cases)
    case (tools wire evs toks a results st2 rest)
    from Suc.IH[OF tools(10)] obtain ms where ms: "ss_Messages (fst st') = ss_Messages (fst st2) @ ms" "exchange ms"
      by blast
    have "list_all2 (\<lambda>tc r. m_Role r = RoleTool \<and> m_ToolCallID r = tc_ID tc) (an_calls a)
        (map (tool_message env (round_no n)) (an_calls a))"
      by (simp add: list_all2_map2 tool_message_fields list.rel_refl)
    then have "exchange (assistant_message a # map (tool_message env (round_no n)) (an_calls a) @ ms)"
      using tools(6) ms(2) by (intro exchange.round) (simp_all add: assistant_message_fields)
    moreover have "ss_Messages (fst st') = ss_Messages (fst st) @
        (assistant_message a # map (tool_message env (round_no n)) (an_calls a) @ ms)"
      using ms(1) run_tools_messages[OF tools(9)] by (simp add: loop_add_messages)
    ultimately show ?thesis by blast
  next
    case cancelled
    show ?thesis by (rule same) (rule cancelled(3))
  next
    case (images e)
    show ?thesis by (rule same) (rule images(4))
  next
    case (refused wire e)
    show ?thesis by (rule same) (rule refused(5))
  next
    case (failed wire evs msg)
    show ?thesis by (rule same) (rule failed(5))
  next
    case (handed wire evs toks a)
    show ?thesis by (rule one) (rule handed(9))
  next
    case (answered wire evs toks a)
    show ?thesis by (rule one) (rule answered(7))
  qed
qed

text \<open>
  C20: The session's transcript stays well formed: a turn only appends, first the user message, then
  answers, and every answer whose calls the server ran is followed by exactly one result per
  call, in the order of the calls and under their ids.
\<close>

theorem transcript_is_well_formed:
  "\<exists>ms. ss_Messages (fst (snd (RunStreaming env params clientTools um st))) = ss_Messages (fst st) @ um # ms \<and>
    exchange ms"
  using rounds_exchange[of env params clientTools MaxToolIterations "loop_add env um st"]
  by (cases "rounds env params clientTools MaxToolIterations (loop_add env um st)")
    (auto simp: RunStreaming_def loop_add_messages)

text \<open>Usage: only the last answer's usage reaches the events.\<close>

definition usages :: "loop_event list \<Rightarrow> Usage list" where
  "usages evs = concat (map (\<lambda>e. case e of LoopEventFinal _ _ (Some u) \<Rightarrow> [u] | _ \<Rightarrow> []) evs)"

lemma usages_append [simp]: "usages (xs @ ys) = usages xs @ usages ys" "usages [] = []"
  by (simp_all add: usages_def)

lemma usages_silent: "\<forall>e \<in> set evs. \<not> terminal e \<Longrightarrow> usages evs = []"
  by (induction evs) (auto simp: usages_def split: loop_event.split option.split)

lemma usages_at_most_one: "ends_once evs \<Longrightarrow> length (usages evs) \<le> 1"
  by (auto simp: ends_once_def usages_silent) (auto simp: usages_def split: loop_event.split option.split)

text \<open>
  The tokens of intermediate rounds are not metered: when the server runs tools, the turn's usage is
  whatever the later rounds report, and when the rounds run out there is none at all, whatever usage
  the worker reported for the rounds before.
\<close>

theorem intermediate_usage_is_dropped:
  assumes "rounds env params [] (Suc n) st = (out, st')" "\<not> le_gone env (round_no n)"
    and "toInferenceMessages env (round_messages (fst st)) = Inr wire"
    and "le_submit env (round_no n) (round_request env params [] (round_no n) (fst st) wire) = Inr evs"
    and "collect evs no_answer = (toks, Inr a)" "an_stop a = ''STOP_TOOL_USE''" "an_calls a \<noteq> []"
    and "allExecutable env (an_calls a)"
  shows "\<exists>st2. usages out = usages (fst (rounds env params [] n st2)) \<and> (n = 0 \<longrightarrow> usages out = [])"
  using assms(1)
proof (cases rule: rounds_cases)
  case (tools wire' evs' toks' a' results st2 rest)
  have "usages toks' = []" "usages results = []"
    using collect_ok_events[OF tools(4)] run_tools_events[OF tools(9)] by (auto intro: usages_silent)
  then have u: "usages out = usages (fst (rounds env params [] n st2))"
    using tools(10,11) by simp
  moreover have "usages out = []" if "n = 0"
    using u by (simp add: that usages_def)
  ultimately show ?thesis by blast
qed (use assms in auto)

definition demo_event :: "string \<Rightarrow> GenerateEvent" where
  "demo_event ty = zero_event\<lparr>ge_Type := ty\<rparr>"

text \<open>A worker that asks for a tool in the first round and answers in the second.\<close>

definition demo_loop_env :: loop_env where
  "demo_loop_env = \<lparr>le_chat_faults = no_faults, le_now = 0, le_gone = (\<lambda>_. False), le_request_id = (\<lambda>_. ''r''),
     le_submit = (\<lambda>i _. Inr (if i = 0
       then [(demo_event ''tool_use'')\<lparr>ge_ToolUse := Some \<lparr>tu_ID = ''c'', tu_Name = ''ls'', tu_Arguments = ''{}''\<rparr>\<rparr>,
             (demo_event ''final'')\<lparr>ge_StopReason := ''STOP_TOOL_USE'',
                ge_Usage := Some \<lparr>us_PromptTokens = 900, us_CompletionTokens = 50, us_TotalTokens = 950\<rparr>\<rparr>]
       else [(demo_event ''token'')\<lparr>ge_Token := ''ok''\<rparr>,
             (demo_event ''final'')\<lparr>ge_StopReason := ''STOP_END_TURN'',
                ge_Usage := Some \<lparr>us_PromptTokens = 10, us_CompletionTokens = 1, us_TotalTokens = 11\<rparr>\<rparr>])),
     le_exec = (\<lambda>_ _ _. Inr (Some ''out'')), le_can_execute = (\<lambda>_. True), le_list_tools = [], le_images = None\<rparr>"

definition demo_sess :: sess_state where
  "demo_sess = (NewSession 0 ''s'' DefaultMaxTokens, \<lparr>session_rows = [], message_rows = []\<rparr>)"

theorem turn_ends_exactly_once_witness:
  "\<exists>pre t. fst (RunStreaming demo_loop_env DefaultSamplingParams [] zero_message demo_sess) = pre @ [t] \<and>
     t = LoopEventFinal ''STOP_END_TURN'' [] (Some \<lparr>us_PromptTokens = 10, us_CompletionTokens = 1, us_TotalTokens = 11\<rparr>) \<and>
     (\<forall>e \<in> set pre. \<not> terminal e)"
proof -
  have "last (fst (RunStreaming demo_loop_env DefaultSamplingParams [] zero_message demo_sess)) =
     LoopEventFinal ''STOP_END_TURN'' [] (Some \<lparr>us_PromptTokens = 10, us_CompletionTokens = 1, us_TotalTokens = 11\<rparr>)"
    by code_simp
  then show ?thesis
    using turn_ends_exactly_once[of demo_loop_env DefaultSamplingParams "[]" zero_message demo_sess] by auto
qed

theorem client_tools_are_never_executed_witness:
  "RunStreaming (demo_loop_env\<lparr>le_exec := (\<lambda>_ _ _. Inl ''crash'')\<rparr>) DefaultSamplingParams
      [\<lparr>td_Name = ''t'', td_Description = [], td_Parameters = []\<rparr>] zero_message demo_sess =
   RunStreaming demo_loop_env DefaultSamplingParams
      [\<lparr>td_Name = ''t'', td_Description = [], td_Parameters = []\<rparr>] zero_message demo_sess"
  using client_tools_are_never_executed[of "[\<lparr>td_Name = ''t'', td_Description = [], td_Parameters = []\<rparr>]"] by blast

definition demo_calls :: "GenerateEvent list" where
  "demo_calls = (case le_submit demo_loop_env 0 (round_request demo_loop_env DefaultSamplingParams [] 0 (fst demo_sess) [])
     of Inr evs \<Rightarrow> evs | Inl _ \<Rightarrow> [])"

theorem intermediate_usage_is_dropped_witness:
  "usages (fst (rounds demo_loop_env DefaultSamplingParams [] 10 demo_sess)) =
     [\<lparr>us_PromptTokens = 10, us_CompletionTokens = 1, us_TotalTokens = 11\<rparr>] \<and>
   (\<exists>st2. usages (fst (rounds demo_loop_env DefaultSamplingParams [] 10 demo_sess)) =
      usages (fst (rounds demo_loop_env DefaultSamplingParams [] 9 st2)))"
proof
  show "usages (fst (rounds demo_loop_env DefaultSamplingParams [] 10 demo_sess)) =
     [\<lparr>us_PromptTokens = 10, us_CompletionTokens = 1, us_TotalTokens = 11\<rparr>]" by code_simp
  obtain out st' where run: "rounds demo_loop_env DefaultSamplingParams [] (Suc 9) demo_sess = (out, st')"
    by (rule prod.exhaust)
  obtain toks r where c: "collect demo_calls no_answer = (toks, r)" by force
  have gone: "\<not> le_gone demo_loop_env (round_no 9)" by code_simp
  have wire: "toInferenceMessages demo_loop_env (round_messages (fst demo_sess)) = Inr []" by code_simp
  have sub: "le_submit demo_loop_env (round_no 9)
      (round_request demo_loop_env DefaultSamplingParams [] (round_no 9) (fst demo_sess) []) = Inr demo_calls"
    by (simp add: demo_calls_def demo_loop_env_def MaxToolIterations_def)
  define a where "a = projr (snd (collect demo_calls no_answer))"
  have "snd (collect demo_calls no_answer) = Inr a" unfolding a_def by code_simp
  then have ca: "collect demo_calls no_answer = (toks, Inr a)" using c by simp
  have a: "an_stop a = ''STOP_TOOL_USE''" "an_calls a \<noteq> []" "allExecutable demo_loop_env (an_calls a)"
    unfolding a_def by code_simp+
  from intermediate_usage_is_dropped[OF run gone wire sub ca a]
  show "\<exists>st2. usages (fst (rounds demo_loop_env DefaultSamplingParams [] 10 demo_sess)) =
      usages (fst (rounds demo_loop_env DefaultSamplingParams [] 9 st2))"
    using run by (auto simp: numeral_eq_Suc)
qed

end
