(* ===== verification/SessionManager.thy ===== *)
theory SessionManager
  imports SessionProofs
begin

text \<open>
  \<open>manager.go\<close>: the bounded in-memory cache of sessions. Go keeps a map from ids to the elements of a
  doubly linked list, most recently used first; the model keeps the map, the list of element
  pointers and the heap of elements. A session is a pointer too (a number into \<open>ch_heap\<close>), because
  requests go on using a session that has been evicted. The abstract cache is one list of pairs.
\<close>

section \<open>The pointer structure\<close>

record manager =
  sm_sessions :: "string \<rightharpoonup> nat"
  sm_order :: "nat list"
  sm_elems :: "(string \<times> nat) list"
  sm_max :: nat

definition defaultMaxSessions :: int where "defaultMaxSessions = 10000"

definition newManager :: "int \<Rightarrow> manager" where
  "newManager n = \<lparr>sm_sessions = Map.empty, sm_order = [], sm_elems = [],
     sm_max = nat (if n < 1 then defaultMaxSessions else n)\<rparr>"

definition MoveToFront :: "nat \<Rightarrow> manager \<Rightarrow> manager" where
  "MoveToFront el m = m\<lparr>sm_order := el # remove1 el (sm_order m)\<rparr>"

definition lookup :: "string \<Rightarrow> manager \<Rightarrow> nat option \<times> manager" where
  "lookup sid m = (case sm_sessions m sid of
      None \<Rightarrow> (None, m)
    | Some el \<Rightarrow> (Some (snd (sm_elems m ! el)), MoveToFront el m))"

text \<open>The eviction loop runs until the list is no longer than the bound.\<close>

fun evict :: "nat \<Rightarrow> (string \<times> nat) list \<Rightarrow> (string \<rightharpoonup> nat) \<Rightarrow> nat list \<Rightarrow> (string \<rightharpoonup> nat) \<times> nat list" where
  "evict mx elems sessions order =
    (if length order > mx
     then evict mx elems (sessions(fst (elems ! last order) := None)) (butlast order)
     else (sessions, order))"

declare evict.simps [simp del]

definition cache :: "string \<Rightarrow> nat \<Rightarrow> manager \<Rightarrow> nat \<times> manager" where
  "cache sid ref m = (case sm_sessions m sid of
      Some el \<Rightarrow> (snd (sm_elems m ! el), MoveToFront el m)
    | None \<Rightarrow>
        let el = length (sm_elems m);
            elems = sm_elems m @ [(sid, ref)];
            (sessions, order) = evict (sm_max m) elems ((sm_sessions m)(sid \<mapsto> el)) (el # sm_order m)
        in (ref, m\<lparr>sm_sessions := sessions, sm_order := order, sm_elems := elems\<rparr>))"

definition mgr_Delete :: "string \<Rightarrow> manager \<Rightarrow> manager" where
  "mgr_Delete sid m = (case sm_sessions m sid of
      None \<Rightarrow> m
    | Some el \<Rightarrow> m\<lparr>sm_sessions := (sm_sessions m)(sid := None), sm_order := remove1 el (sm_order m)\<rparr>)"

definition mgr_List :: "manager \<Rightarrow> string set" where
  "mgr_List m = dom (sm_sessions m)"

section \<open>The abstract cache\<close>

type_synonym recency = "(string \<times> nat) list"

definition lru_drop :: "string \<Rightarrow> recency \<Rightarrow> recency" where
  "lru_drop sid l = filter (\<lambda>p. fst p \<noteq> sid) l"

definition lru_lookup :: "string \<Rightarrow> recency \<Rightarrow> nat option \<times> recency" where
  "lru_lookup sid l = (case map_of l sid of
      None \<Rightarrow> (None, l) | Some ref \<Rightarrow> (Some ref, (sid, ref) # lru_drop sid l))"

definition lru_cache :: "nat \<Rightarrow> string \<Rightarrow> nat \<Rightarrow> recency \<Rightarrow> nat \<times> recency" where
  "lru_cache mx sid ref l = (case map_of l sid of
      Some r \<Rightarrow> (r, (sid, r) # lru_drop sid l)
    | None \<Rightarrow> (ref, take mx ((sid, ref) # l)))"

definition recency_of :: "manager \<Rightarrow> recency" where
  "recency_of m = map (\<lambda>el. sm_elems m ! el) (sm_order m)"

text \<open>Map and list hold the same elements, one per id, and no more than the bound.\<close>

definition mgr_ok :: "manager \<Rightarrow> bool" where
  "mgr_ok m \<longleftrightarrow> distinct (map fst (recency_of m)) \<and> (\<forall>el \<in> set (sm_order m). el < length (sm_elems m)) \<and>
    (\<forall>sid el. sm_sessions m sid = Some el \<longleftrightarrow> el \<in> set (sm_order m) \<and> fst (sm_elems m ! el) = sid) \<and>
    length (sm_order m) \<le> sm_max m \<and> 0 < sm_max m"

lemma mgr_ok_distinct: "mgr_ok m \<Longrightarrow> distinct (sm_order m)"
  by (auto simp: mgr_ok_def recency_of_def distinct_map)

lemma mgr_ok_mem:
  "mgr_ok m \<Longrightarrow> sm_sessions m sid = Some el \<longleftrightarrow> el \<in> set (sm_order m) \<and> fst (sm_elems m ! el) = sid"
  by (simp add: mgr_ok_def)

lemma mgr_ok_find:
  assumes "mgr_ok m"
  shows "map_of (recency_of m) sid = map_option (\<lambda>el. snd (sm_elems m ! el)) (sm_sessions m sid)"
proof (cases "sm_sessions m sid")
  case None
  then have "\<forall>el \<in> set (sm_order m). sid \<noteq> fst (sm_elems m ! el)"
    using mgr_ok_mem[OF assms, of sid] by auto
  moreover have "fst ` set (recency_of m) = (\<lambda>el. fst (sm_elems m ! el)) ` set (sm_order m)"
    by (simp add: recency_of_def image_image)
  ultimately have "sid \<notin> fst ` set (recency_of m)"
    by (simp only: image_iff) blast
  then have "map_of (recency_of m) sid = None" by (simp add: map_of_eq_None_iff)
  with None show ?thesis by simp
next
  case (Some el)
  then have "el \<in> set (sm_order m)" "fst (sm_elems m ! el) = sid"
    using assms by (simp_all add: mgr_ok_def)
  then have "(sid, snd (sm_elems m ! el)) \<in> set (recency_of m)"
    by (force simp: recency_of_def)
  then have "map_of (recency_of m) sid = Some (snd (sm_elems m ! el))"
    using assms by (intro map_of_is_SomeI) (simp_all add: mgr_ok_def)
  with Some show ?thesis by simp
qed

lemma recency_remove:
  assumes "mgr_ok m" "sm_sessions m sid = Some el"
  shows "map (\<lambda>el. sm_elems m ! el) (remove1 el (sm_order m)) = lru_drop sid (recency_of m)"
proof -
  have el: "el \<in> set (sm_order m)" "fst (sm_elems m ! el) = sid"
    using assms by (simp_all add: mgr_ok_def)
  have "(fst (sm_elems m ! x) \<noteq> sid) = (el \<noteq> x)" if "x \<in> set (sm_order m)" for x
  proof -
    have "sm_sessions m (fst (sm_elems m ! x)) = Some x"
      using mgr_ok_mem[OF assms(1)] that by simp
    then show ?thesis by (metis el(2) assms(2) option.inject)
  qed
  then have "filter (\<lambda>x. fst (sm_elems m ! x) \<noteq> sid) (sm_order m) = filter (\<lambda>x. el \<noteq> x) (sm_order m)"
    by (intro filter_cong) auto
  also have "\<dots> = remove1 el (sm_order m)"
    using mgr_ok_distinct[OF assms(1)] by (simp add: distinct_remove1_removeAll removeAll_filter_not_eq)
  finally show ?thesis
    by (simp add: lru_drop_def recency_of_def filter_map comp_def)
qed

text \<open>\<open>MoveToFront\<close> refines taking a pair to the front.\<close>

lemma move_to_front:
  assumes "mgr_ok m" "sm_sessions m sid = Some el"
  shows "recency_of (MoveToFront el m) = (sid, snd (sm_elems m ! el)) # lru_drop sid (recency_of m)"
    "mgr_ok (MoveToFront el m)"
proof -
  have el: "el \<in> set (sm_order m)" "fst (sm_elems m ! el) = sid"
    using assms by (simp_all add: mgr_ok_def)
  have "sm_elems m ! el = (sid, snd (sm_elems m ! el))"
    using el(2) by (simp add: prod_eq_iff)
  then show rec: "recency_of (MoveToFront el m) = (sid, snd (sm_elems m ! el)) # lru_drop sid (recency_of m)"
    using recency_remove[OF assms] by (simp add: MoveToFront_def recency_of_def)
  have set: "set (sm_order (MoveToFront el m)) = set (sm_order m)"
    using el mgr_ok_distinct[OF assms(1)] by (auto simp: MoveToFront_def set_remove1_eq)
  have "length (sm_order (MoveToFront el m)) = length (sm_order m)"
    using el(1) by (simp add: MoveToFront_def length_remove1) (metis Suc_pred length_pos_if_in_set)
  moreover have "distinct (map fst (recency_of (MoveToFront el m)))"
    unfolding rec using assms(1) by (auto simp: lru_drop_def mgr_ok_def distinct_map_filter)
  ultimately show "mgr_ok (MoveToFront el m)"
    using assms(1) set by (simp add: mgr_ok_def) (simp add: MoveToFront_def)
qed

lemma lookup_refines:
  assumes "mgr_ok m"
  shows "lru_lookup sid (recency_of m) = (fst (lookup sid m), recency_of (snd (lookup sid m)))"
    "mgr_ok (snd (lookup sid m))"
  using assms move_to_front[OF assms]
  by (auto simp: lookup_def lru_lookup_def mgr_ok_find split: option.split)

lemma delete_refines:
  assumes "mgr_ok m"
  shows "lru_drop sid (recency_of m) = recency_of (mgr_Delete sid m)" "mgr_ok (mgr_Delete sid m)"
proof -
  show rec: "lru_drop sid (recency_of m) = recency_of (mgr_Delete sid m)"
  proof (cases "sm_sessions m sid")
    case None
    then have "sid \<notin> fst ` set (recency_of m)"
      using mgr_ok_find[OF assms, of sid] by (simp add: map_of_eq_None_iff)
    then show ?thesis
      using None by (auto simp: mgr_Delete_def lru_drop_def filter_id_conv)
  next
    case (Some el)
    then show ?thesis
      using recency_remove[OF assms Some] by (simp add: mgr_Delete_def recency_of_def)
  qed
  show "mgr_ok (mgr_Delete sid m)"
  proof (cases "sm_sessions m sid")
    case None
    then show ?thesis using assms by (simp add: mgr_Delete_def)
  next
    case (Some el)
    have "distinct (map fst (recency_of (mgr_Delete sid m)))"
      unfolding rec[symmetric] using assms by (simp add: lru_drop_def mgr_ok_def distinct_map_filter)
    moreover have "set (remove1 el (sm_order m)) = set (sm_order m) - {el}"
      using mgr_ok_distinct[OF assms] by (rule set_remove1_eq)
    moreover have "length (remove1 el (sm_order m)) \<le> length (sm_order m)"
      by (simp add: length_remove1)
    moreover have "(if k = sid then None else sm_sessions m k) = Some x \<longleftrightarrow>
        x \<in> set (sm_order m) \<and> x \<noteq> el \<and> fst (sm_elems m ! x) = k" for k x
      using mgr_ok_mem[OF assms, of k x] mgr_ok_mem[OF assms, of sid x] Some by auto
    moreover have "mgr_Delete sid m = m\<lparr>sm_sessions := (sm_sessions m)(sid := None), sm_order := remove1 el (sm_order m)\<rparr>"
      using Some by (simp add: mgr_Delete_def)
    ultimately show ?thesis
      using assms unfolding mgr_ok_def by (auto dest: le_trans)
  qed
qed

text \<open>The eviction loop: what remains is the front of the list, and the map follows.\<close>

lemma evict_take:
  "evict mx elems sessions order = (foldl (\<lambda>s el. s(fst (elems ! el) := None)) sessions (rev (drop mx order)), take mx order)"
proof (induction mx elems sessions order rule: evict.induct)
  case (1 mx elems sessions order)
  show ?case
  proof (cases "length order > mx")
    case True
    then have "drop mx order = butlast (drop mx order) @ [last (drop mx order)]"
      by (intro append_butlast_last_id[symmetric]) simp
    then have "drop mx order = drop mx (butlast order) @ [last order]"
      using True by (simp only: drop_butlast last_drop)
    moreover have "take mx (butlast order) = take mx order"
      using True by (simp add: take_butlast)
    moreover have "evict mx elems sessions order =
        evict mx elems (sessions(fst (elems ! last order) := None)) (butlast order)"
      using True by (subst evict.simps) (rule if_P)
    ultimately show ?thesis
      using 1[OF True] by (simp only: rev.simps rev_append append.simps foldl_Cons)
  next
    case False
    then show ?thesis by (subst evict.simps) simp
  qed
qed

lemma foldl_del:
  "foldl (\<lambda>s el. s(f el := None)) s xs k = (if k \<in> f ` set xs then None else s k)"
  by (induction xs arbitrary: s) auto

lemma in_take_iff:
  assumes "distinct (map f xs)" "x \<in> set xs"
  shows "x \<in> set (take n xs) \<longleftrightarrow> f x \<notin> f ` set (drop n xs)"
proof -
  have "f ` set (take n xs) \<inter> f ` set (drop n xs) = {}"
  proof -
    have "distinct (map f (take n xs) @ map f (drop n xs))"
      using assms(1) by (metis append_take_drop_id map_append)
    then show ?thesis by (simp only: distinct_append set_map)
  qed
  moreover have "x \<in> set (take n xs) \<or> x \<in> set (drop n xs)"
    using assms(2) by (metis Un_iff append_take_drop_id set_append)
  ultimately show ?thesis by blast
qed

lemma cache_refines:
  assumes "mgr_ok m"
  shows "lru_cache (sm_max m) sid ref (recency_of m) = (fst (cache sid ref m), recency_of (snd (cache sid ref m)))"
    "mgr_ok (snd (cache sid ref m))"
proof -
  have both: "lru_cache (sm_max m) sid ref (recency_of m) = (fst (cache sid ref m), recency_of (snd (cache sid ref m)))
    \<and> mgr_ok (snd (cache sid ref m))"
  proof (cases "sm_sessions m sid")
    case (Some el)
    then show ?thesis
      using move_to_front[OF assms Some] by (simp add: cache_def lru_cache_def mgr_ok_find[OF assms])
  next
    case None
    define el where "el = length (sm_elems m)"
    define elems where "elems = sm_elems m @ [(sid, ref)]"
    define order where "order = el # sm_order m"
    define m' where "m' = m\<lparr>sm_sessions := foldl (\<lambda>s el. s(fst (elems ! el) := None)) ((sm_sessions m)(sid \<mapsto> el))
        (rev (drop (sm_max m) order)), sm_order := take (sm_max m) order, sm_elems := elems\<rparr>"
    have cache: "cache sid ref m = (ref, m')"
      using None by (simp add: cache_def Let_def evict_take el_def elems_def order_def m'_def)
    have old: "elems ! x = sm_elems m ! x" if "x \<in> set (sm_order m)" for x
      using assms that by (simp add: mgr_ok_def elems_def nth_append)
    have new: "elems ! el = (sid, ref)" by (simp add: elems_def el_def)
    have absent: "map_of (recency_of m) sid = None"
      using mgr_ok_find[OF assms] None by simp
    have rec0: "map (\<lambda>x. elems ! x) order = (sid, ref) # recency_of m"
      using old by (simp add: order_def new recency_of_def)
    then have rec: "recency_of m' = take (sm_max m) ((sid, ref) # recency_of m)"
      by (simp add: m'_def recency_of_def flip: take_map)
    have dist: "distinct (map fst ((sid, ref) # recency_of m))"
      using assms absent by (simp add: mgr_ok_def map_of_eq_None_iff)
    then have dist0: "distinct (map (\<lambda>x. fst (elems ! x)) order)"
      unfolding rec0[symmetric] by (simp add: comp_def)
    have mem0: "((sm_sessions m)(sid \<mapsto> el)) k = Some x \<longleftrightarrow> x \<in> set order \<and> fst (elems ! x) = k" for k x
      using mgr_ok_mem[OF assms, of k x] mgr_ok_mem[OF assms, of sid x] None old[of x] new
        assms[unfolded mgr_ok_def] by (auto simp: order_def el_def)
    have "sm_sessions m' k = Some x \<longleftrightarrow> x \<in> set (sm_order m') \<and> fst (sm_elems m' ! x) = k" for k x
      using mem0[of k x] in_take_iff[OF dist0, of x "sm_max m"]
      by (auto simp: m'_def foldl_del dest: in_set_takeD)
    moreover have "x < length elems" if "x \<in> set order" for x
      using that assms by (auto simp: order_def elems_def el_def mgr_ok_def less_Suc_eq)
    ultimately have "mgr_ok m'"
      using dist rec assms unfolding mgr_ok_def
      by (auto simp: m'_def take_map[symmetric] distinct_take dest: in_set_takeD)
    then show ?thesis
      using absent rec by (simp add: cache lru_cache_def)
  qed
  then show "lru_cache (sm_max m) sid ref (recency_of m) = (fst (cache sid ref m), recency_of (snd (cache sid ref m)))"
    "mgr_ok (snd (cache sid ref m))" by auto
qed

section \<open>The cache as an interface\<close>

text \<open>
  What the clients of the cache use, with the laws that tie it to the recency list: \<open>view\<close> is the
  abstraction, \<open>bound\<close> the capacity, \<open>ok\<close> the invariant.
\<close>

datatype cache_op = OpLookup string | OpCache string nat | OpDelete string

fun cache_run ::
  "(string \<Rightarrow> 'm \<Rightarrow> nat option \<times> 'm) \<Rightarrow> (string \<Rightarrow> nat \<Rightarrow> 'm \<Rightarrow> nat \<times> 'm) \<Rightarrow> (string \<Rightarrow> 'm \<Rightarrow> 'm) \<Rightarrow>
   cache_op list \<Rightarrow> 'm \<Rightarrow> nat option list \<times> 'm" where
  "cache_run look put del [] m = ([], m)"
| "cache_run look put del (OpLookup k # os) m =
    (case look k m of (r, m') \<Rightarrow> (case cache_run look put del os m' of (rs, m'') \<Rightarrow> (r # rs, m'')))"
| "cache_run look put del (OpCache k v # os) m =
    (case put k v m of (r, m') \<Rightarrow> (case cache_run look put del os m' of (rs, m'') \<Rightarrow> (Some r # rs, m'')))"
| "cache_run look put del (OpDelete k # os) m =
    (case cache_run look put del os (del k m) of (rs, m'') \<Rightarrow> (None # rs, m''))"

locale session_cache =
  fixes look :: "string \<Rightarrow> 'm \<Rightarrow> nat option \<times> 'm"
    and put :: "string \<Rightarrow> nat \<Rightarrow> 'm \<Rightarrow> nat \<times> 'm"
    and del :: "string \<Rightarrow> 'm \<Rightarrow> 'm"
    and ok :: "'m \<Rightarrow> bool"
    and view :: "'m \<Rightarrow> recency"
    and bound :: "'m \<Rightarrow> nat"
  assumes look_view: "ok m \<Longrightarrow> lru_lookup k (view m) = (fst (look k m), view (snd (look k m)))"
    and put_view: "ok m \<Longrightarrow> lru_cache (bound m) k r (view m) = (fst (put k r m), view (snd (put k r m)))"
    and del_view: "ok m \<Longrightarrow> lru_drop k (view m) = view (del k m)"
    and look_ok: "ok m \<Longrightarrow> ok (snd (look k m))"
    and put_ok: "ok m \<Longrightarrow> ok (snd (put k r m))"
    and del_ok: "ok m \<Longrightarrow> ok (del k m)"
    and look_bound: "bound (snd (look k m)) = bound m"
    and put_bound: "bound (snd (put k r m)) = bound m"
    and del_bound: "bound (del k m) = bound m"
    and view_bound: "ok m \<Longrightarrow> length (view m) \<le> bound m"
    and bound_pos: "ok m \<Longrightarrow> 0 < bound m"
begin

lemma look_value: "ok m \<Longrightarrow> fst (look k m) = map_of (view m) k"
  using look_view[of m k] by (auto simp: lru_lookup_def split: option.splits)

lemma look_after_put: "ok m \<Longrightarrow> fst (look k (snd (put k r m))) = Some (fst (put k r m))"
  using put_view[of m k r] bound_pos[of m]
  by (auto simp: look_value put_ok lru_cache_def take_Cons' split: option.splits)
    (metis map_of_Cons_code(2) snd_conv)+

lemma put_keeps_cached: "ok m \<Longrightarrow> map_of (view m) k = Some r' \<Longrightarrow> fst (put k r m) = r'"
  using put_view[of m k r] by (simp add: lru_cache_def)

lemma look_after_del: "ok m \<Longrightarrow> fst (look k (del k m)) = None"
  by (auto simp: look_value del_ok del_view[symmetric] lru_drop_def map_of_eq_None_iff)

text \<open>Any sequence of operations gives the results of the recency list.\<close>

lemma run_view:
  "ok m \<Longrightarrow> bound m = n \<Longrightarrow>
    cache_run lru_lookup (lru_cache n) lru_drop os (view m) =
      (fst (cache_run look put del os m), view (snd (cache_run look put del os m))) \<and>
    ok (snd (cache_run look put del os m)) \<and> bound (snd (cache_run look put del os m)) = n"
proof (induction os arbitrary: m)
  case (Cons x os)
  show ?case
  proof (cases x)
    case (OpLookup k)
    then show ?thesis
      using Cons.IH[of "snd (look k m)"] Cons.prems look_view[of m k]
      by (simp add: look_ok look_bound split_beta)
  next
    case (OpCache k r)
    then show ?thesis
      using Cons.IH[of "snd (put k r m)"] Cons.prems put_view[of m k r]
      by (simp add: put_ok put_bound split_beta)
  next
    case (OpDelete k)
    then show ?thesis
      using Cons.IH[of "del k m"] Cons.prems del_view[of m k]
      by (simp add: del_ok del_bound split_beta)
  qed
qed simp

end

lemma mgr_fields:
  "sm_max (MoveToFront el m) = sm_max m" "sm_max (snd (lookup sid m)) = sm_max m"
  "sm_max (snd (cache sid ref m)) = sm_max m" "sm_max (mgr_Delete sid m) = sm_max m"
  by (simp_all add: MoveToFront_def lookup_def cache_def mgr_Delete_def Let_def split: option.split prod.split)

interpretation mgr: session_cache lookup cache mgr_Delete mgr_ok recency_of sm_max
  by unfold_locales
    (simp_all add: lookup_refines cache_refines delete_refines mgr_fields, auto simp: mgr_ok_def recency_of_def)

lemma mgr_ok_new: "mgr_ok (newManager n)"
  by (auto simp: mgr_ok_def newManager_def recency_of_def defaultMaxSessions_def)

text \<open>
  C23: The pointer structure is a least-recently-used cache: for every sequence of lookups, insertions and
  deletions, the map and the linked list give the results of the recency list, and the cache never
  holds more sessions than its bound.
\<close>

theorem manager_refines_lru:
  "fst (cache_run lookup cache mgr_Delete os (newManager n)) =
     fst (cache_run lru_lookup (lru_cache (nat (if n < 1 then 10000 else n))) lru_drop os []) \<and>
   int (length (sm_order (snd (cache_run lookup cache mgr_Delete os (newManager n))))) \<le> (if n < 1 then 10000 else n)"
proof -
  define b where "b = nat (if n < 1 then 10000 else n)"
  note ok = mgr_ok_new[of n]
  have b: "sm_max (newManager n) = b" and v: "recency_of (newManager n) = []"
    by (auto simp: newManager_def recency_of_def b_def defaultMaxSessions_def)
  note run = mgr.run_view[OF ok b, of os, unfolded v]
  then have "length (sm_order (snd (cache_run lookup cache mgr_Delete os (newManager n)))) \<le> b"
    by (auto simp: mgr_ok_def)
  with run show ?thesis
    by (simp add: b_def split: if_splits)
qed

end
