(* ===== verification/ChatSessions.thy ===== *)
theory ChatSessions
  imports SessionManager
begin

text \<open>
  The session operations of \<open>manager.go\<close> over the cache, the heap of session objects and the store:
  \<open>GetOrCreate\<close> with its two reads of the cache around the store, and the store-backed operations of
  the sidebar. Database work happens outside the manager's lock, so the steps of other requests may
  run in between: they are arbitrary functions on the state.
\<close>

record chat_state =
  ct_mgr :: manager
  ct_heap :: "Session list"
  ct_db :: chat_db

text \<open>The parameters of a call: whether a store is configured, its faults, and the clock.\<close>

record chat_env =
  ce_store :: bool
  ce_faults :: faults
  ce_now :: int

definition sessionAccessError :: "Session \<Rightarrow> string \<Rightarrow> string \<Rightarrow> chat_error option" where
  "sessionAccessError s tenant user =
    (if ss_TenantID s \<noteq> [] \<and> ss_TenantID s \<noteq> tenant then Some ErrSessionForbidden
     else if ss_UserID s \<noteq> [] \<and> ss_UserID s \<noteq> user then Some ErrSessionForbidden
     else None)"

definition checked :: "string \<Rightarrow> string \<Rightarrow> nat \<Rightarrow> chat_state \<Rightarrow> (chat_error + nat) \<times> chat_state" where
  "checked tenant user ref st = (case sessionAccessError (ct_heap st ! ref) tenant user of
      Some e \<Rightarrow> (Inl e, st) | None \<Rightarrow> (Inr ref, st))"

text \<open>\<open>m.cache(s)\<close> of a session object made by this call, after \<open>between\<close>.\<close>

definition cache_new :: "(chat_state \<Rightarrow> chat_state) \<Rightarrow> Session \<Rightarrow> chat_state \<Rightarrow> (chat_error + nat) \<times> chat_state" where
  "cache_new between s st0 =
    (let st1 = between st0;
         ref = length (ct_heap st1);
         st = st1\<lparr>ct_heap := ct_heap st1 @ [s]\<rparr>
     in case cache (ss_ID s) ref (ct_mgr st) of (r, m') \<Rightarrow> (Inr r, st\<lparr>ct_mgr := m'\<rparr>))"

definition fresh_session :: "chat_env \<Rightarrow> string \<Rightarrow> string \<Rightarrow> string \<Rightarrow> Session" where
  "fresh_session env sid tenant user =
    (NewSession (ce_now env) sid DefaultMaxTokens)\<lparr>ss_TenantID := tenant, ss_UserID := user, ss_store := ce_store env\<rparr>"

definition loadOrCreate ::
  "chat_env \<Rightarrow> (chat_state \<Rightarrow> chat_state) \<Rightarrow> string \<Rightarrow> string \<Rightarrow> string \<Rightarrow> chat_state \<Rightarrow>
   (chat_error + nat) \<times> chat_state" where
  "loadOrCreate env between sid tenant user st =
    (let fresh = cache_new between (fresh_session env sid tenant user) st in
     if ce_store env then (case fst (LoadSession (ce_faults env) sid tenant user (ct_db st)) of
         Inr s \<Rightarrow> cache_new between (s\<lparr>ss_store := True\<rparr>) st
       | Inl e \<Rightarrow>
           if e = ErrSessionNotFound then
             (case fst (SessionExists (ce_faults env) sid (ct_db st)) of
                 Inr True \<Rightarrow> (Inl ErrSessionForbidden, st)
               | _ \<Rightarrow> fresh)
           else fresh)
     else fresh)"

text \<open>
  \<open>GetOrCreate\<close>: \<open>queued\<close> runs while the call waits in the singleflight group, \<open>between\<close> while it
  talks to the store.
\<close>

definition GetOrCreate ::
  "chat_env \<Rightarrow> (chat_state \<Rightarrow> chat_state) \<Rightarrow> (chat_state \<Rightarrow> chat_state) \<Rightarrow> string \<Rightarrow> string \<Rightarrow> string \<Rightarrow>
   chat_state \<Rightarrow> (chat_error + nat) \<times> chat_state" where
  "GetOrCreate env queued between sid tenant user st =
    (case lookup sid (ct_mgr st) of
        (Some ref, m') \<Rightarrow> checked tenant user ref (st\<lparr>ct_mgr := m'\<rparr>)
      | (None, _) \<Rightarrow>
          let st1 = queued st in
          (case lookup sid (ct_mgr st1) of
              (Some ref, m') \<Rightarrow> checked tenant user ref (st1\<lparr>ct_mgr := m'\<rparr>)
            | (None, _) \<Rightarrow> (case loadOrCreate env between sid tenant user st1 of
                  (Inl e, st2) \<Rightarrow> (Inl e, st2)
                | (Inr ref, st2) \<Rightarrow> checked tenant user ref st2)))"

definition mgr_Get :: "string \<Rightarrow> chat_state \<Rightarrow> nat option \<times> chat_state" where
  "mgr_Get sid st = (case lookup sid (ct_mgr st) of (r, m') \<Rightarrow> (r, st\<lparr>ct_mgr := m'\<rparr>))"

section \<open>The store-backed operations\<close>

definition with_store :: "chat_env \<Rightarrow> 'a chat_tx \<Rightarrow> 'a chat_tx" where
  "with_store env op = (if ce_store env then op else tx_fail NoStore)"

definition mgr_ListSessions :: "chat_env \<Rightarrow> string \<Rightarrow> string \<Rightarrow> SessionSummary list chat_tx" where
  "mgr_ListSessions env tenant user = with_store env (store_ListSessions (ce_faults env) tenant user)"

definition GetPersisted :: "chat_env \<Rightarrow> string \<Rightarrow> string \<Rightarrow> string \<Rightarrow> Session chat_tx" where
  "GetPersisted env sid tenant user = with_store env
     (tx_bind (LoadSession (ce_faults env) sid tenant user) (\<lambda>s. tx_return (s\<lparr>ss_store := True\<rparr>)))"

definition mgr_RenameSession :: "chat_env \<Rightarrow> string \<Rightarrow> string \<Rightarrow> string \<Rightarrow> string \<Rightarrow> unit chat_tx" where
  "mgr_RenameSession env sid tenant user title =
     with_store env (store_RenameSession (ce_faults env) (ce_now env) sid tenant user title)"

definition mgr_DeleteSession ::
  "chat_env \<Rightarrow> string \<Rightarrow> string \<Rightarrow> string \<Rightarrow> chat_state \<Rightarrow> (chat_error + unit) \<times> chat_state" where
  "mgr_DeleteSession env sid tenant user st =
    (case with_store env (store_DeleteSession (ce_faults env) sid tenant user) (ct_db st) of
        (Inl e, db') \<Rightarrow> (Inl e, st\<lparr>ct_db := db'\<rparr>)
      | (Inr _, db') \<Rightarrow> (Inr (), st\<lparr>ct_db := db', ct_mgr := mgr_Delete sid (ct_mgr st)\<rparr>))"

text \<open>A request adds messages through the pointer it holds.\<close>

definition session_add :: "chat_env \<Rightarrow> nat \<Rightarrow> ChatMessage \<Rightarrow> chat_state \<Rightarrow> chat_state" where
  "session_add env ref msg st =
    (case AddMessage (ce_faults env) (ce_now env) msg (ct_heap st ! ref) (ct_db st) of
        (s', db') \<Rightarrow> st\<lparr>ct_heap := (ct_heap st)[ref := s'], ct_db := db'\<rparr>)"

section \<open>Who gets which session\<close>

lemma checked_ok:
  "checked tenant user ref st = (Inr r, st') \<longleftrightarrow>
    r = ref \<and> st' = st \<and> sessionAccessError (ct_heap st ! ref) tenant user = None"
  by (auto simp: checked_def split: option.splits)

lemma checked_state [simp]: "snd (checked tenant user ref st) = st"
  by (simp add: checked_def split: option.split)

text \<open>A cached session carries the tenant of its row.\<close>

definition consistent :: "chat_state \<Rightarrow> bool" where
  "consistent st \<longleftrightarrow> mgr_ok (ct_mgr st) \<and>
    (\<forall>sid ref r. map_of (recency_of (ct_mgr st)) sid = Some ref \<longrightarrow>
      tbl_find sr_ID sid (session_rows (ct_db st)) = Some r \<longrightarrow> ss_TenantID (ct_heap st ! ref) = sr_TenantID r)"

definition belongs_to_other :: "string \<Rightarrow> string \<Rightarrow> chat_state \<Rightarrow> bool" where
  "belongs_to_other sid tenant st \<longleftrightarrow> consistent st \<and> tbl_unique sr_ID (session_rows (ct_db st)) \<and>
    (\<exists>r. tbl_find sr_ID sid (session_rows (ct_db st)) = Some r \<and> sr_TenantID r \<noteq> [] \<and> sr_TenantID r \<noteq> tenant)"

lemma cached_foreign:
  assumes "belongs_to_other sid tenant st" "fst (lookup sid (ct_mgr st)) = Some ref"
    and "ct_heap st' = ct_heap st"
  shows "checked tenant user ref st' = (Inl ErrSessionForbidden, st')"
proof -
  have "map_of (recency_of (ct_mgr st)) sid = Some ref"
    using assms mgr.look_value[of "ct_mgr st" sid] by (simp add: belongs_to_other_def consistent_def)
  then have "ss_TenantID (ct_heap st ! ref) \<noteq> []" "ss_TenantID (ct_heap st ! ref) \<noteq> tenant"
    using assms(1) unfolding belongs_to_other_def consistent_def by metis+
  then show ?thesis
    using assms(3) by (simp add: checked_def sessionAccessError_def)
qed

lemma load_foreign:
  assumes "belongs_to_other sid tenant st" "ce_store env" "ce_faults env = no_faults"
  shows "loadOrCreate env between sid tenant user st = (Inl ErrSessionForbidden, st)"
proof -
  obtain r where r: "tbl_find sr_ID sid (session_rows (ct_db st)) = Some r" "sr_TenantID r \<noteq> tenant"
    using assms(1) by (auto simp: belongs_to_other_def)
  have "find (owned_by sid tenant user) (session_rows (ct_db st)) = None"
  proof (rule ccontr)
    assume "find (owned_by sid tenant user) (session_rows (ct_db st)) \<noteq> None"
    then obtain x where x: "x \<in> set (session_rows (ct_db st))" "owned_by sid tenant user x"
      by (auto simp: find_None_iff)
    then have "tbl_find sr_ID sid (session_rows (ct_db st)) = Some x"
      using assms(1) by (intro tbl_find_unique) (auto simp: belongs_to_other_def owned_by_def)
    with r x(2) show False by (simp add: owned_by_def)
  qed
  then have "fst (LoadSession no_faults sid tenant user (ct_db st)) = Inl ErrSessionNotFound"
    by (simp add: LoadSession_def tx_simps)
  moreover have "fst (SessionExists no_faults sid (ct_db st)) = Inr True"
    using tbl_find_SomeD[OF r(1)] by (auto simp: SessionExists_def tx_simps tbl_has_iff)
  ultimately show ?thesis
    using assms(2,3) by (simp add: loadOrCreate_def Let_def)
qed


definition sample_state :: chat_state where
  "sample_state = \<lparr>ct_mgr = newManager 0, ct_heap = [],
     ct_db = \<lparr>session_rows = upsert_row 0 sample_session [], message_rows = []\<rparr>\<rparr>"

definition sample_env :: chat_env where
  "sample_env = \<lparr>ce_store = True, ce_faults = no_faults, ce_now = 5\<rparr>"


text \<open>
  For a session without a user (made with an API key), the answer to another principal of its tenant
  depends on the cache: while the session is cached any user of the tenant gets it, and once it is only
  in the table the same user is refused.
\<close>

theorem userless_session_depends_on_cache:
  assumes "ce_store env" "ce_faults env = no_faults" "user \<noteq> []"
    and "tbl_unique sr_ID (session_rows (ct_db cold))"
    and "tbl_find sr_ID sid (session_rows (ct_db cold)) = Some r" "sr_UserID r = None"
    and "sm_sessions (ct_mgr cold) sid = None"
    and "mgr_ok (ct_mgr warm)" "map_of (recency_of (ct_mgr warm)) sid = Some ref"
    and "ss_TenantID (ct_heap warm ! ref) = tenant" "ss_UserID (ct_heap warm ! ref) = []"
  shows "fst (GetOrCreate env id id sid tenant user cold) = Inl ErrSessionForbidden \<and>
    fst (GetOrCreate env id id sid tenant user warm) = Inr ref"
proof
  have "find (owned_by sid tenant user) (session_rows (ct_db cold)) = None"
  proof (rule ccontr)
    assume "find (owned_by sid tenant user) (session_rows (ct_db cold)) \<noteq> None"
    then obtain x where x: "x \<in> set (session_rows (ct_db cold))" "owned_by sid tenant user x"
      by (auto simp: find_None_iff)
    then have "tbl_find sr_ID sid (session_rows (ct_db cold)) = Some x"
      using assms(4) by (intro tbl_find_unique) (auto simp: owned_by_def)
    with assms(3,5,6) x(2) show False by (simp add: owned_by_def nullableString_def)
  qed
  moreover have "tbl_has sr_ID sid (session_rows (ct_db cold))"
    using tbl_find_SomeD[OF assms(5)] by (auto simp: tbl_has_iff)
  ultimately have "loadOrCreate env id sid tenant user cold = (Inl ErrSessionForbidden, cold)"
    using assms(1,2) by (simp add: loadOrCreate_def Let_def LoadSession_def SessionExists_def tx_simps)
  then show "fst (GetOrCreate env id id sid tenant user cold) = Inl ErrSessionForbidden"
    using assms(7) by (simp add: GetOrCreate_def lookup_def Let_def)
  have "fst (lookup sid (ct_mgr warm)) = Some ref"
    using mgr.look_value[OF assms(8)] assms(9) by simp
  then show "fst (GetOrCreate env id id sid tenant user warm) = Inr ref"
    using assms(10,11)
    by (cases "lookup sid (ct_mgr warm)") (simp add: GetOrCreate_def checked_def sessionAccessError_def)
qed

theorem userless_session_depends_on_cache_witness:
  "fst (GetOrCreate sample_env id id ''s1'' ''t'' ''u'' sample_state) = Inl ErrSessionForbidden \<and>
   fst (GetOrCreate sample_env id id ''s1'' ''t'' ''u''
     (sample_state\<lparr>ct_heap := [sample_session], ct_mgr := snd (cache ''s1'' 0 (newManager 0))\<rparr>)) = Inr 0"
proof (rule userless_session_depends_on_cache)
  show "tbl_find sr_ID ''s1'' (session_rows (ct_db sample_state)) = Some (hd (session_rows (ct_db sample_state)))"
    by code_simp
  show "mgr_ok (ct_mgr (sample_state\<lparr>ct_heap := [sample_session], ct_mgr := snd (cache ''s1'' 0 (newManager 0))\<rparr>))"
    by (simp add: mgr.put_ok mgr_ok_new)
  show "map_of (recency_of (ct_mgr (sample_state\<lparr>ct_heap := [sample_session],
      ct_mgr := snd (cache ''s1'' 0 (newManager 0))\<rparr>))) ''s1'' = Some 0"
    by (simp add: cache_def newManager_def recency_of_def evict.simps Let_def defaultMaxSessions_def)
qed (simp_all add: sample_env_def sample_state_def newManager_def upsert_row_def tbl_has_def tbl_unique_def
  sample_session_def NewSession_def nullableString_def)

text \<open>
  A request that still holds an evicted session loses a message to its twin: when the session is
  loaded again meanwhile, both copies give their next message the same number, and the one that
  is written second is refused by the table without an error.
\<close>

theorem evicted_twin_loses_message:
  assumes "in_sync s db" "ss_persisted s"
    and "fst (LoadSession no_faults (ss_ID s) (ss_TenantID s) (ss_UserID s) db) = Inr twin"
    and "AddMessage no_faults now msg s db = (s1, db1)"
    and "AddMessage flt now' msg' (twin\<lparr>ss_store := True\<rparr>) db1 = (twin1, db2)"
  shows "length (message_rows db1) = length (message_rows db) + 1 \<and> message_rows db2 = message_rows db1"
proof -
  define row where "row = message_row (ss_ID s) (ss_seq s + 1) msg"
  have has: "tbl_has sr_ID (ss_ID s) (session_rows db)"
    using assms(1,2) by (intro find_owned_has[of _ "ss_TenantID s" "ss_UserID s"]) (simp add: in_sync_def)
  have "AppendMessage no_faults (ss_ID s) (ss_seq s + 1) msg db = (Inr (), db\<lparr>message_rows := message_rows db @ [row]\<rparr>)"
    unfolding row_def
  proof (rule append_in_sync[OF has])
    show "mr_Seq r < ss_seq s + 1" if "r \<in> set (message_rows db)" "mr_SessionID r = ss_ID s" for r
      using in_sync_numbers[OF assms(1) that] by simp
  qed
  then have db1: "db1 = db\<lparr>message_rows := message_rows db @ [row]\<rparr>"
    using assms(1,2,4) by (simp add: AddMessage_def Let_def in_sync_def)
  have twin: "ss_ID twin = ss_ID s" "ss_seq twin = ss_seq s" "ss_persisted twin"
    using assms(1,3) by (auto simp: LoadSession_def tx_simps session_of_row_def in_sync_def split: option.splits)
  have "tbl_has (\<lambda>r. (mr_SessionID r, mr_Seq r)) (ss_ID s, ss_seq s + 1) (message_rows db1)"
    by (auto simp: db1 row_def tbl_has_iff message_row_def)
  then have "snd (AppendMessage flt (ss_ID s) (ss_seq s + 1) msg' db1) = db1"
    by (simp add: AppendMessage_def tx_simps)
  then have "db2 = db1"
    using assms(5) twin by (auto simp: AddMessage_def Let_def)
  then show ?thesis by (simp add: db1)
qed

theorem evicted_twin_loses_message_witness:
  "\<exists>s db twin. length (message_rows (snd (AddMessage no_faults 8 (sample_turns ! 3) twin
      (snd (AddMessage no_faults 7 (sample_turns ! 2) s db))))) = length (message_rows db) + 1"
proof -
  define s where "s = fst (AddMessage no_faults 1 (sample_turns ! 0) sample_session empty_chat_db)"
  define db where "db = snd (AddMessage no_faults 1 (sample_turns ! 0) sample_session empty_chat_db)"
  have "in_sync sample_session empty_chat_db"
    by (simp add: in_sync_def sample_session_def NewSession_def empty_chat_db_def tbl_has_def session_messages_def order_by_def)
  from AddMessage_in_sync[OF this, of 1 "sample_turns ! 0" s db] have sync: "in_sync s db" "ss_persisted s"
    by (auto simp: s_def db_def)
  then obtain row where "find (owned_by (ss_ID s) (ss_TenantID s) (ss_UserID s)) (session_rows db) = Some row"
    by (auto simp: in_sync_def)
  then obtain twin where load: "fst (LoadSession no_faults (ss_ID s) (ss_TenantID s) (ss_UserID s) db) = Inr twin"
    by (simp add: LoadSession_def tx_simps)
  obtain s1 db1 where one: "AddMessage no_faults 7 (sample_turns ! 2) s db = (s1, db1)" by force
  obtain t1 db2 where two: "AddMessage no_faults 8 (sample_turns ! 3) (twin\<lparr>ss_store := True\<rparr>) db1 = (t1, db2)" by force
  from evicted_twin_loses_message[OF sync load one two]
  show ?thesis by (metis one two snd_conv)
qed

end
