(* ===== verification/ChatUploads.thy ===== *)
theory ChatUploads
  imports Session Base64
begin

text \<open>
  Uploads of the chat (\<open>images.go\<close>): the disk store, content addressed by SHA-256, and the OpenAI
  request format with its inline images (\<open>adapters.go\<close>). SHA-256 and the image decoder are
  parameters; the directory is a map from file names to contents. JSON is bound before the model
  starts, but the content parts of a message are decoded here.
\<close>

section \<open>The disk store\<close>

type_synonym files = "string \<rightharpoonup> bytes"

record upload_env =
  ue_maxBytes :: int
  ue_sha256 :: "bytes \<Rightarrow> string"
  ue_decodable :: "bytes \<Rightarrow> bool"
  ue_faults :: faults

datatype upload_error = EmptyImage | UnsupportedType string | ErrImageTooLarge | InvalidImage
  | InvalidImageID | UploadNotFound | UploadIO string

definition imageExtensions :: "string \<Rightarrow> string option" where
  "imageExtensions mime = (if mime = ''image/png'' then Some ''.png''
     else if mime = ''image/jpeg'' then Some ''.jpg'' else None)"

text \<open>\<open>hex.DecodeString\<close> accepts digits of both cases.\<close>

definition is_hex :: "char \<Rightarrow> bool" where
  "is_hex c \<longleftrightarrow> is_digit c \<or> (let n = of_char c :: nat in (97 \<le> n \<and> n \<le> 102) \<or> (65 \<le> n \<and> n \<le> 70))"

definition validImageID :: "string \<Rightarrow> bool" where
  "validImageID iid \<longleftrightarrow> length iid = 64 \<and> list_all is_hex iid"

text \<open>
  \<open>Save\<close>. The content is written to a temporary file and renamed; a rename that fails while the target
  exists (another request stored the same content) still succeeds.
\<close>

definition upload_Save :: "upload_env \<Rightarrow> bytes \<Rightarrow> string \<Rightarrow> files \<Rightarrow> (upload_error + ChatImage) \<times> files" where
  "upload_Save env data mime fs =
    (if data = [] then (Inl EmptyImage, fs)
     else case imageExtensions mime of
       None \<Rightarrow> (Inl (UnsupportedType mime), fs)
     | Some ext \<Rightarrow>
         if ue_maxBytes env > 0 \<and> int (length data) > ue_maxBytes env then (Inl ErrImageTooLarge, fs)
         else if \<not> ue_decodable env data then (Inl InvalidImage, fs)
         else
           let iid = ue_sha256 env data;
               ref = \<lparr>im_ID = iid, im_MimeType = mime, im_Size = int (length data), im_Data = []\<rparr>;
               path = iid @ ext
           in if ue_faults env ''create upload dir'' [] then (Inl (UploadIO ''create upload dir''), fs)
              else if fs path \<noteq> None then (Inr ref, fs)
              else if ue_faults env ''write upload'' path then (Inl (UploadIO ''write upload''), fs)
              else if ue_faults env ''commit upload'' path then (Inl (UploadIO ''commit upload''), fs)
              else (Inr ref, fs(path \<mapsto> data)))"

definition read_file :: "upload_env \<Rightarrow> string \<Rightarrow> files \<Rightarrow> upload_error + bytes" where
  "read_file env path fs = (if ue_faults env ''read upload'' path then Inl (UploadIO ''read upload'')
     else case fs path of None \<Rightarrow> Inl UploadNotFound | Some d \<Rightarrow> Inr d)"

definition upload_Load :: "upload_env \<Rightarrow> ChatImage \<Rightarrow> files \<Rightarrow> upload_error + bytes" where
  "upload_Load env img fs =
    (if \<not> validImageID (im_ID img) then Inl InvalidImageID
     else case imageExtensions (im_MimeType img) of
       None \<Rightarrow> Inl (UnsupportedType (im_MimeType img))
     | Some ext \<Rightarrow> read_file env (im_ID img @ ext) fs)"

text \<open>The two types are tried in the order of Go's map iteration, which is not fixed.\<close>

fun load_first :: "upload_env \<Rightarrow> string \<Rightarrow> (string \<times> string) list \<Rightarrow> files \<Rightarrow> upload_error + bytes \<times> string" where
  "load_first env iid [] fs = Inl UploadNotFound"
| "load_first env iid ((mime, ext) # rest) fs = (case read_file env (iid @ ext) fs of
      Inr d \<Rightarrow> Inr (d, mime)
    | Inl e \<Rightarrow> if e = UploadNotFound then load_first env iid rest fs else Inl e)"

definition upload_LoadByID ::
  "upload_env \<Rightarrow> (string \<times> string) list \<Rightarrow> string \<Rightarrow> files \<Rightarrow> upload_error + bytes \<times> string" where
  "upload_LoadByID env order iid fs =
    (if \<not> validImageID iid then Inl UploadNotFound else load_first env iid order fs)"

section \<open>The OpenAI request\<close>

record OpenAIToolCall =
  oc_ID :: string
  oc_Name :: string
  oc_Arguments :: string

text \<open>An element of a content array; the URL is None when \<open>image_url\<close> is missing.\<close>

record OpenAIContentPart =
  cp_Type :: string
  cp_Text :: string
  cp_URL :: "string option"

datatype OpenAIRawContent = ContentText string | ContentParts "OpenAIContentPart list" | ContentOther

record OpenAIContent =
  oct_Text :: string
  oct_Images :: "ChatImage list"

record OpenAIMessage =
  om_Role :: string
  om_Content :: OpenAIContent
  om_ToolCalls :: "OpenAIToolCall list"
  om_ToolCallID :: string

record OpenAITool =
  ot_Name :: string
  ot_Description :: string
  ot_Parameters :: string

record OpenAIRequest =
  oq_Model :: string
  oq_Messages :: "OpenAIMessage list"
  oq_Stream :: bool
  oq_MaxTokens :: int
  oq_Tools :: "OpenAITool list"

text \<open>\<open>strings.Cut(s, sep)\<close> for one character\<close>

fun cut_at :: "char \<Rightarrow> string \<Rightarrow> (string \<times> string) option" where
  "cut_at c [] = None"
| "cut_at c (x # xs) = (if x = c then Some ([], xs)
     else map_option (\<lambda>(a, b). (x # a, b)) (cut_at c xs))"

definition trim_suffix :: "string \<Rightarrow> string \<Rightarrow> string" where
  "trim_suffix s p = (if has_suffix s p then take (length s - length p) s else s)"

definition parseImageDataURL :: "string \<Rightarrow> string + string \<times> bytes" where
  "parseImageDataURL url =
    (if \<not> has_prefix url ''data:'' then
       Inl ''image_url must be an inline data: URL (base64); remote URLs are not fetched''
     else case cut_at (CHR '','') (trim_prefix url ''data:'') of
       None \<Rightarrow> Inl ''malformed image data URL''
     | Some (meta, payload) \<Rightarrow>
         if \<not> has_suffix meta '';base64'' then Inl ''image data URL must be base64-encoded''
         else let mime = trim_suffix meta '';base64'' in
           if mime \<noteq> ''image/png'' \<and> mime \<noteq> ''image/jpeg'' then Inl ''unsupported image type''
           else case b64_decode_std payload of
             None \<Rightarrow> Inl ''decode image base64''
           | Some raw \<Rightarrow> if raw = [] then Inl ''image is empty'' else Inr (mime, map of_nat raw))"

definition inline_image :: "string \<Rightarrow> bytes \<Rightarrow> ChatImage" where
  "inline_image mime raw = \<lparr>im_ID = [], im_MimeType = mime, im_Size = 0, im_Data = raw\<rparr>"

fun decode_parts :: "OpenAIContentPart list \<Rightarrow> OpenAIContent \<Rightarrow> string + OpenAIContent" where
  "decode_parts [] c = Inr c"
| "decode_parts (p # ps) c =
    (if cp_Type p = ''text'' then decode_parts ps (c\<lparr>oct_Text := oct_Text c @ cp_Text p\<rparr>)
     else if cp_Type p = ''image_url'' then (case cp_URL p of
         None \<Rightarrow> Inl ''image_url.url is required''
       | Some url \<Rightarrow> if url = [] then Inl ''image_url.url is required''
           else (case parseImageDataURL url of
               Inl e \<Rightarrow> Inl e
             | Inr (mime, raw) \<Rightarrow> decode_parts ps (c\<lparr>oct_Images := oct_Images c @ [inline_image mime raw]\<rparr>)))
     else Inl ''unsupported content part type'')"

definition UnmarshalContent :: "OpenAIRawContent \<Rightarrow> string + OpenAIContent" where
  "UnmarshalContent raw = (case raw of
      ContentText t \<Rightarrow> Inr \<lparr>oct_Text = t, oct_Images = []\<rparr>
    | ContentParts ps \<Rightarrow> decode_parts ps \<lparr>oct_Text = [], oct_Images = []\<rparr>
    | ContentOther \<Rightarrow> Inl ''content must be a string or an array of content parts'')"

definition message_of :: "OpenAIMessage \<Rightarrow> ChatMessage" where
  "message_of om = zero_message\<lparr>m_Role := om_Role om, m_Content := oct_Text (om_Content om),
     m_ToolCalls := map (\<lambda>tc. \<lparr>tc_ID = oc_ID tc, tc_Name = oc_Name tc, tc_Arguments = oc_Arguments tc\<rparr>) (om_ToolCalls om),
     m_ToolCallID := (if om_Role om = RoleTool then om_ToolCallID om else []),
     m_ToolResult := (if om_Role om = RoleTool then oct_Text (om_Content om) else []),
     m_Images := oct_Images (om_Content om)\<rparr>"

definition is_system :: "OpenAIMessage \<Rightarrow> bool" where
  "is_system om \<longleftrightarrow> om_Role om = RoleSystem \<and> oct_Text (om_Content om) \<noteq> []"

text \<open>The last system message wins; system messages are not part of the history.\<close>

fun OpenAIToInternal :: "OpenAIMessage list \<Rightarrow> ChatMessage list \<times> string \<Rightarrow> ChatMessage list \<times> string" where
  "OpenAIToInternal [] acc = acc"
| "OpenAIToInternal (om # oms) (msgs, prompt) =
    (if is_system om then OpenAIToInternal oms (msgs, oct_Text (om_Content om))
     else OpenAIToInternal oms (msgs @ [message_of om], prompt))"

definition OpenAIToolsToInternal :: "OpenAITool list \<Rightarrow> ToolDefinition list" where
  "OpenAIToolsToInternal tools =
    map (\<lambda>t. \<lparr>td_Name = ot_Name t, td_Description = ot_Description t, td_Parameters = ot_Parameters t\<rparr>)
      (filter (\<lambda>t. ot_Name t \<noteq> []) tools)"

definition ValidateOpenAIRequest :: "OpenAIRequest \<Rightarrow> string option" where
  "ValidateOpenAIRequest req = (if oq_Messages req = [] then Some ''messages is required'' else None)"

section \<open>Round trips\<close>

text \<open>Every file holds the content its name promises.\<close>

definition content_addressed :: "upload_env \<Rightarrow> files \<Rightarrow> bool" where
  "content_addressed env fs \<longleftrightarrow> (\<forall>path d. fs path = Some d \<longrightarrow>
    (\<exists>mime ext. imageExtensions mime = Some ext \<and> path = ue_sha256 env d @ ext))"

lemma extension_length: "imageExtensions mime = Some ext \<Longrightarrow> length ext = 4"
  by (auto simp: imageExtensions_def split: if_splits)

lemma Save_keeps_content_addressed:
  "content_addressed env fs \<Longrightarrow> content_addressed env (snd (upload_Save env data mime fs))"
  by (auto simp: upload_Save_def Let_def content_addressed_def split: option.splits)

text \<open>
  Uploads read back as they were stored: in a directory whose files hold the content their names
  promise, saving an image keeps that so, and loading the returned reference gives the saved bytes,
  also when the same content had been stored before. The digest is assumed to be 64 hex digits and
  not to collide with that of another stored file.
\<close>

theorem upload_roundtrip:
  assumes "content_addressed env fs" "validImageID (ue_sha256 env data)"
    and "\<And>d. d \<in> ran fs \<Longrightarrow> ue_sha256 env d = ue_sha256 env data \<Longrightarrow> d = data"
    and "upload_Save env data mime fs = (Inr img, fs')"
    and "\<And>path. \<not> ue_faults env ''read upload'' path"
  shows "upload_Load env img fs' = Inr data \<and> content_addressed env fs' \<and> im_Data img = []"
proof -
  obtain ext where ext: "imageExtensions mime = Some ext" and
    img: "img = \<lparr>im_ID = ue_sha256 env data, im_MimeType = mime, im_Size = int (length data), im_Data = []\<rparr>"
    and fs': "fs' = (if fs (ue_sha256 env data @ ext) \<noteq> None then fs else fs(ue_sha256 env data @ ext \<mapsto> data))"
    using assms(4) by (auto simp: upload_Save_def Let_def split: option.splits if_splits)
  have "fs' (ue_sha256 env data @ ext) = Some data"
  proof (cases "fs (ue_sha256 env data @ ext)")
    case None
    then show ?thesis by (simp add: fs')
  next
    case (Some d)
    then obtain mime' ext' where "imageExtensions mime' = Some ext'"
      "ue_sha256 env data @ ext = ue_sha256 env d @ ext'"
      using assms(1) unfolding content_addressed_def by blast
    then have "ue_sha256 env data = ue_sha256 env d"
      using ext extension_length by (metis append_eq_append_conv)
    then have "d = data" using assms(3)[of d] Some by (auto simp: ran_def)
    with Some show ?thesis by (simp add: fs')
  qed
  then have "upload_Load env img fs' = Inr data"
    using assms(2,5) ext by (simp add: upload_Load_def img read_file_def)
  moreover have "content_addressed env fs'"
    using Save_keeps_content_addressed[OF assms(1), of data mime] assms(4) by simp
  ultimately show ?thesis by (simp add: img)
qed

definition demo_uploads :: upload_env where
  "demo_uploads = \<lparr>ue_maxBytes = 10, ue_sha256 = (\<lambda>d. replicate 64 CHR ''0''), ue_decodable = (\<lambda>_. True),
     ue_faults = no_faults\<rparr>"

theorem upload_roundtrip_witness:
  "upload_Load demo_uploads (projr (fst (upload_Save demo_uploads [1, 2] ''image/png'' Map.empty)))
     (snd (upload_Save demo_uploads [1, 2] ''image/png'' Map.empty)) = Inr [1, 2]"
proof -
  have "content_addressed demo_uploads Map.empty" by (simp add: content_addressed_def)
  moreover have "validImageID (ue_sha256 demo_uploads [1, 2])"
    by (simp add: demo_uploads_def validImageID_def list_all_iff is_hex_def is_digit_def)
  moreover obtain img fs' where save: "upload_Save demo_uploads [1, 2] ''image/png'' Map.empty = (Inr img, fs')"
    by (simp add: upload_Save_def demo_uploads_def imageExtensions_def Let_def)
  ultimately have "upload_Load demo_uploads img fs' = Inr [1, 2]"
    using upload_roundtrip[of demo_uploads Map.empty "[1, 2]" "''image/png''" img fs'] by (simp add: demo_uploads_def)
  then show ?thesis by (simp add: save)
qed

text \<open>No name of a stored image leaves the directory.\<close>

lemma hex_chars: "is_hex c \<Longrightarrow> c \<noteq> CHR ''/'' \<and> c \<noteq> CHR ''.''"
  by (auto simp: is_hex_def is_digit_def Let_def)

lemma valid_id_chars: "validImageID iid \<Longrightarrow> CHR ''/'' \<notin> set iid \<and> CHR ''.'' \<notin> set iid"
  using hex_chars by (auto simp: validImageID_def list_all_iff)

lemma upper_case_id_is_valid: "validImageID (replicate 64 CHR ''A'')"
  by (simp add: validImageID_def list_all_iff is_hex_def)

end
