(* ===== verification/ChatHandler.thy ===== *)
theory ChatHandler
  imports ChatLoop ChatSessions ChatUploads BillingService Usage Serving Iam
begin

text \<open>
  The chat completions handler (\<open>handler.go\<close>) over the services it calls: the deployment resolver, the
  rate limiter, the quota gate, the session manager, the upload store, the billing gate, the loop and
  the usage recorder, wired as \<open>app/adapters.go\<close> does. Redis is a parameter: what \<open>Allow\<close> and
  \<open>Acquire\<close> answer, and the keys that are released. A response is a JSON body, an error, or the
  frames of the event stream. Logs are left out; the counters are in Meters.
\<close>

section \<open>State and environment\<close>

record gateway =
  gw_serving :: serving_db
  gw_usage :: usage_db
  gw_billing :: billing_db
  gw_chat :: chat_state
  gw_files :: files
  gw_released :: "string list"

text \<open>
  \<open>he_billing\<close>, \<open>he_quota_mode\<close> and \<open>he_uploads\<close> are None for a nil gate. \<open>he_queued\<close> and
  \<open>he_between\<close> are the steps of other requests during the session lookup.
\<close>

record handler_env =
  he_faults :: faults
  he_now :: int
  he_le :: "string \<Rightarrow> string \<Rightarrow> bool"
  he_billing :: "BillingConfig option"
  he_quota_mode :: "string option"
  he_usage :: bool
  he_allow :: "string \<Rightarrow> int \<Rightarrow> string + bool"
  he_acquire :: "string \<Rightarrow> int \<Rightarrow> string + bool"
  he_rpmLimit :: int
  he_concLimit :: int
  he_uploads :: "upload_env option"
  he_maxImages :: int
  he_chat :: chat_env
  he_queued :: "chat_state \<Rightarrow> chat_state"
  he_between :: "chat_state \<Rightarrow> chat_state"
  he_new_session :: string
  he_new_reservation :: string
  he_flusher :: bool
  he_loop :: loop_env

datatype sse_frame =
    SSEToken string
  | SSEReasoning string
  | SSEToolCall ToolCall
  | SSEFinish string
  | SSEError string
  | SSEDone

record completion =
  co_Model :: string
  co_Content :: string
  co_ToolCalls :: "ToolCall list"
  co_FinishReason :: string
  co_Usage :: "Usage option"

datatype chat_reply = ReplyError int string string | ReplyJSON completion | ReplyStream "sse_frame list"

section \<open>Adapters (app/adapters.go)\<close>

record ResolvedDeployment =
  rd_ID :: string
  rd_TenantID :: string
  rd_Region :: string

definition ResolveDeployment :: "faults \<Rightarrow> string \<Rightarrow> string \<Rightarrow> serving_db \<Rightarrow> serving_error + ResolvedDeployment" where
  "ResolveDeployment flt tenant model db = (case fst (deployment_Resolve flt tenant model db) of
      Inl e \<Rightarrow> Inl e
    | Inr d \<Rightarrow> Inr \<lparr>rd_ID = d_ID d, rd_TenantID = d_TenantID d, rd_Region = d_Region d\<rparr>)"

datatype gate_error = GateInsufficientCredits | GateOther billing_error

definition gate_Reserve ::
  "BillingConfig \<Rightarrow> faults \<Rightarrow> int \<Rightarrow> string \<Rightarrow> string \<Rightarrow> string \<Rightarrow> int \<Rightarrow> int \<Rightarrow> billing_db \<Rightarrow>
   (gate_error + string) \<times> billing_db" where
  "gate_Reserve cfg flt now newid tenant model estInput maxOutput db =
    (case svc_Reserve cfg flt now newid tenant model estInput maxOutput db of
        (Inl e, db') \<Rightarrow> (Inl (if e = ErrInsufficientCredits then GateInsufficientCredits else GateOther e), db')
      | (Inr rid, db') \<Rightarrow> (Inr rid, db'))"

datatype quota_gate_error = GateQuotaExceeded | GateQuotaOther

definition gate_Check :: "faults \<Rightarrow> (string \<Rightarrow> string \<Rightarrow> bool) \<Rightarrow> string \<Rightarrow> string \<Rightarrow> int \<Rightarrow> usage_db \<Rightarrow> quota_gate_error option" where
  "gate_Check flt le mode tenant now db = (case fst (quota_Check flt le mode tenant now db) of
      Inr _ \<Rightarrow> None
    | Inl (ErrQuotaExceeded _ _ _ _) \<Rightarrow> Some GateQuotaExceeded
    | Inl (UsageDB _) \<Rightarrow> Some GateQuotaOther)"

section \<open>Gates\<close>

text \<open>The limiter fails open.\<close>

definition handler_allow :: "handler_env \<Rightarrow> string \<Rightarrow> bool" where
  "handler_allow env key = (case he_allow env key (he_rpmLimit env) of Inl _ \<Rightarrow> True | Inr ok \<Rightarrow> ok)"

definition handler_acquire :: "handler_env \<Rightarrow> string \<Rightarrow> bool" where
  "handler_acquire env key = (case he_acquire env key (he_concLimit env) of Inl _ \<Rightarrow> True | Inr ok \<Rightarrow> ok)"

definition rpm_key :: "string \<Rightarrow> string" where
  "rpm_key tenant = ''tenant:'' @ tenant @ '':rpm''"

definition concurrency_key :: "ResolvedDeployment \<Rightarrow> string" where
  "concurrency_key d = ''deployment:'' @ rd_ID d @ '':concurrency''"

definition resolveForTenant :: "handler_env \<Rightarrow> string \<Rightarrow> string \<Rightarrow> gateway \<Rightarrow> chat_reply + ResolvedDeployment" where
  "resolveForTenant env tenant model gw =
    (case ResolveDeployment (he_faults env) tenant model (gw_serving gw) of
        Inl _ \<Rightarrow> Inl (ReplyError StatusNotFound ''RESOURCE_NOT_FOUND'' ''no READY deployment for model'')
      | Inr d \<Rightarrow>
          if \<not> handler_allow env (rpm_key tenant)
          then Inl (ReplyError StatusTooManyRequests ''RATE_LIMIT_EXCEEDED'' ''rate limit exceeded'')
          else if \<not> handler_acquire env (concurrency_key d)
          then Inl (ReplyError StatusTooManyRequests ''RATE_LIMIT_EXCEEDED'' ''concurrency limit exceeded'')
          else Inr d)"

definition checkQuota :: "handler_env \<Rightarrow> string \<Rightarrow> gateway \<Rightarrow> chat_reply option" where
  "checkQuota env tenant gw = (case he_quota_mode env of
      None \<Rightarrow> None
    | Some mode \<Rightarrow> (case gate_Check (he_faults env) (he_le env) mode tenant (he_now env) (gw_usage gw) of
          Some GateQuotaExceeded \<Rightarrow> Some (ReplyError StatusTooManyRequests ''QUOTA_EXCEEDED'' ''tenant quota exceeded'')
        | _ \<Rightarrow> None))"

definition reserveBilling ::
  "handler_env \<Rightarrow> string \<Rightarrow> string \<Rightarrow> ChatMessage list \<Rightarrow> SamplingParams \<Rightarrow> billing_db \<Rightarrow>
   (chat_reply + string) \<times> billing_db" where
  "reserveBilling env tenant model msgs params db = (case he_billing env of
      None \<Rightarrow> (Inr [], db)
    | Some cfg \<Rightarrow>
        (case gate_Reserve cfg (he_faults env) (he_now env) (he_new_reservation env) tenant model
                (sum_list (map estimateMessageTokens msgs)) (sp_MaxTokens params) db of
            (Inl GateInsufficientCredits, db') \<Rightarrow>
              (Inl (ReplyError StatusPaymentRequired ''INSUFFICIENT_CREDITS'' ''insufficient credits''), db')
          | (Inl (GateOther _), db') \<Rightarrow> (Inl (ReplyError StatusInternalServerError ''internal_error'' ''billing error''), db')
          | (Inr rid, db') \<Rightarrow> (Inr rid, db')))"

definition settleBilling :: "handler_env \<Rightarrow> string \<Rightarrow> int \<Rightarrow> int \<Rightarrow> billing_db \<Rightarrow> billing_db" where
  "settleBilling env rid promptTokens completionTokens db = (case he_billing env of
      None \<Rightarrow> db
    | Some cfg \<Rightarrow> if rid = [] then db
        else snd (svc_Settle cfg (he_faults env) (he_now env) rid promptTokens completionTokens db))"

definition releaseBilling :: "handler_env \<Rightarrow> string \<Rightarrow> billing_db \<Rightarrow> billing_db" where
  "releaseBilling env rid db = (case he_billing env of
      None \<Rightarrow> db
    | Some cfg \<Rightarrow> if rid = [] then db else snd (svc_Release cfg (he_faults env) (he_now env) rid db))"

text \<open>The deferred function of both answer paths.\<close>

definition close_hold :: "handler_env \<Rightarrow> string \<Rightarrow> int \<times> int \<Rightarrow> billing_db \<Rightarrow> billing_db" where
  "close_hold env rid totals db =
    (if fst totals = 0 \<and> snd totals = 0 then releaseBilling env rid db
     else settleBilling env rid (fst totals) (snd totals) db)"

section \<open>Uploads of a request\<close>

fun persist_each :: "upload_env \<Rightarrow> ChatImage list \<Rightarrow> files \<Rightarrow> (upload_error + ChatImage list) \<times> files" where
  "persist_each env [] fs = (Inr [], fs)"
| "persist_each env (img # imgs) fs =
    (case (if im_ID img \<noteq> [] then (Inr img, fs) else upload_Save env (im_Data img) (im_MimeType img) fs) of
        (Inl e, fs') \<Rightarrow> (Inl e, fs')
      | (Inr ref, fs') \<Rightarrow> (case persist_each env imgs fs' of
            (Inl e, fs'') \<Rightarrow> (Inl e, fs'')
          | (Inr refs, fs'') \<Rightarrow> (Inr (ref # refs), fs'')))"

fun persistImages :: "handler_env \<Rightarrow> ChatMessage list \<Rightarrow> files \<Rightarrow> (unit + ChatMessage list) \<times> files" where
  "persistImages env [] fs = (Inr [], fs)"
| "persistImages env (m # ms) fs =
    (case (if m_Images m = [] then (Inr [], fs)
           else case he_uploads env of
             None \<Rightarrow> (Inl (), fs)
           | Some ue \<Rightarrow>
               if he_maxImages env > 0 \<and> int (length (m_Images m)) > he_maxImages env then (Inl (), fs)
               else (case persist_each ue (m_Images m) fs of (Inl _, fs') \<Rightarrow> (Inl (), fs') | (Inr r, fs') \<Rightarrow> (Inr r, fs'))) of
        (Inl _, fs') \<Rightarrow> (Inl (), fs')
      | (Inr imgs, fs') \<Rightarrow> (case persistImages env ms fs' of
            (Inl _, fs'') \<Rightarrow> (Inl (), fs'')
          | (Inr rest, fs'') \<Rightarrow> (Inr (m\<lparr>m_Images := imgs\<rparr> # rest), fs'')))"

text \<open>\<open>handleGetUpload\<close>: status, or type and content.\<close>

definition handleGetUpload ::
  "handler_env \<Rightarrow> (string \<times> string) list \<Rightarrow> string \<Rightarrow> gateway \<Rightarrow> (bytes \<times> string) response" where
  "handleGetUpload env order iid gw = (case he_uploads env of
      None \<Rightarrow> WriteAPIError StatusNotFound [] []
    | Some ue \<Rightarrow> (case upload_LoadByID ue order iid (gw_files gw) of
          Inr x \<Rightarrow> WriteJSON StatusOK x
        | Inl UploadNotFound \<Rightarrow> WriteAPIError StatusNotFound [] []
        | Inl _ \<Rightarrow> WriteAPIError StatusInternalServerError ''INTERNAL_ERROR'' ''read upload''))"

section \<open>Answering\<close>

definition add_usage :: "Usage \<Rightarrow> int \<times> int \<Rightarrow> int \<times> int" where
  "add_usage u t = (fst t + us_PromptTokens u, snd t + us_CompletionTokens u)"

definition record_usage :: "handler_env \<Rightarrow> string \<Rightarrow> string \<Rightarrow> Usage \<Rightarrow> usage_db \<Rightarrow> usage_db" where
  "record_usage env tenant model u db = (if he_usage env
     then snd (usage_Record (he_faults env) (he_now env) tenant model (us_PromptTokens u) (us_CompletionTokens u) db)
     else db)"

definition loop_error_text :: "loop_error \<Rightarrow> string" where
  "loop_error_text e = (case e of
      ImageLoadErr t \<Rightarrow> t
    | SubmitErr ErrOverloaded \<Rightarrow> ''submit inference: batch scheduler overloaded''
    | SubmitErr ErrSchedulerClosed \<Rightarrow> ''submit inference: batch scheduler closed''
    | InferenceErr t \<Rightarrow> t
    | MaxIterationsErr \<Rightarrow> ''reached max tool iterations (10)'')"

definition is_overloaded :: "loop_error \<Rightarrow> bool" where
  "is_overloaded e \<longleftrightarrow> e = SubmitErr ErrOverloaded"

text \<open>The frames of the stream, the tokens to bill, and the usage table.\<close>

fun stream_events ::
  "handler_env \<Rightarrow> string \<Rightarrow> string \<Rightarrow> loop_event list \<Rightarrow> int \<times> int \<Rightarrow> usage_db \<Rightarrow>
   sse_frame list \<times> (int \<times> int) \<times> usage_db" where
  "stream_events env tenant model [] t db = ([SSEDone], t, db)"
| "stream_events env tenant model (e # es) t db = (case e of
      LoopEventToken tok \<Rightarrow> (case stream_events env tenant model es t db of (fs, r) \<Rightarrow> (SSEToken tok # fs, r))
    | LoopEventReasoning tok \<Rightarrow> (case stream_events env tenant model es t db of (fs, r) \<Rightarrow> (SSEReasoning tok # fs, r))
    | LoopEventToolUse tc \<Rightarrow> (case stream_events env tenant model es t db of (fs, r) \<Rightarrow> (SSEToolCall tc # fs, r))
    | LoopEventToolResult _ _ \<Rightarrow> stream_events env tenant model es t db
    | LoopEventFinal _ finish u \<Rightarrow>
        (case stream_events env tenant model es
           (case u of None \<Rightarrow> t | Some u \<Rightarrow> add_usage u t)
           (case u of None \<Rightarrow> db | Some u \<Rightarrow> record_usage env tenant model u db)
         of (fs, r) \<Rightarrow> (SSEFinish finish # fs, r))
    | LoopEventError err \<Rightarrow>
        ([SSEError ((if is_overloaded err then ''OVERLOADED: '' else []) @ loop_error_text err), SSEDone], t, db))"

definition handleOpenAIStream ::
  "handler_env \<Rightarrow> string \<Rightarrow> string \<Rightarrow> string \<Rightarrow> loop_event list \<Rightarrow> usage_db \<Rightarrow> billing_db \<Rightarrow>
   chat_reply \<times> usage_db \<times> billing_db" where
  "handleOpenAIStream env tenant model rid evs udb bdb =
    (case stream_events env tenant model evs (0, 0) udb of
        (frames, totals, udb') \<Rightarrow> (ReplyStream frames, udb', close_hold env rid totals bdb))"

record json_acc =
  ja_content :: string
  ja_usage :: "Usage option"
  ja_calls :: "ToolCall list"
  ja_finish :: string

fun json_events ::
  "handler_env \<Rightarrow> string \<Rightarrow> string \<Rightarrow> loop_event list \<Rightarrow> json_acc \<Rightarrow> int \<times> int \<Rightarrow> usage_db \<Rightarrow>
   chat_reply \<times> (int \<times> int) \<times> usage_db" where
  "json_events env tenant model [] a t db = (ReplyJSON \<lparr>co_Model = model, co_Content = ja_content a,
      co_ToolCalls = ja_calls a, co_FinishReason = ja_finish a, co_Usage = ja_usage a\<rparr>, t, db)"
| "json_events env tenant model (e # es) a t db = (case e of
      LoopEventToken tok \<Rightarrow> json_events env tenant model es (a\<lparr>ja_content := ja_content a @ tok\<rparr>) t db
    | LoopEventReasoning _ \<Rightarrow> json_events env tenant model es a t db
    | LoopEventToolUse tc \<Rightarrow> json_events env tenant model es (a\<lparr>ja_calls := ja_calls a @ [tc]\<rparr>) t db
    | LoopEventToolResult _ _ \<Rightarrow> json_events env tenant model es a t db
    | LoopEventFinal _ finish u \<Rightarrow>
        json_events env tenant model es
          (a\<lparr>ja_usage := u, ja_finish := (if finish \<noteq> [] then finish else ja_finish a)\<rparr>)
          (case u of None \<Rightarrow> t | Some u \<Rightarrow> add_usage u t)
          (case u of None \<Rightarrow> db | Some u \<Rightarrow> record_usage env tenant model u db)
    | LoopEventError err \<Rightarrow>
        (if is_overloaded err then ReplyError StatusServiceUnavailable ''overloaded'' (loop_error_text err)
         else ReplyError StatusInternalServerError ''internal_error'' (loop_error_text err), t, db))"

definition handleOpenAINonStream ::
  "handler_env \<Rightarrow> string \<Rightarrow> string \<Rightarrow> string \<Rightarrow> loop_event list \<Rightarrow> usage_db \<Rightarrow> billing_db \<Rightarrow>
   chat_reply \<times> usage_db \<times> billing_db" where
  "handleOpenAINonStream env tenant model rid evs udb bdb =
    (case json_events env tenant model evs \<lparr>ja_content = [], ja_usage = None, ja_calls = [], ja_finish = ''stop''\<rparr> (0, 0) udb of
        (reply, totals, udb') \<Rightarrow> (reply, udb', close_hold env rid totals bdb))"

section \<open>The handler\<close>

text \<open>The loop of this request: images come from the upload store, messages go to the session's store.\<close>

definition request_loop :: "handler_env \<Rightarrow> files \<Rightarrow> loop_env" where
  "request_loop env fs = (he_loop env)
    \<lparr>le_chat_faults := ce_faults (he_chat env), le_now := ce_now (he_chat env),
     le_images := map_option (\<lambda>ue img. case upload_Load ue img fs of
        Inr d \<Rightarrow> Inr d | Inl UploadNotFound \<Rightarrow> Inl ErrImageNotFound | Inl _ \<Rightarrow> Inl (ImageFailure ''read upload'')) (he_uploads env)\<rparr>"

definition run_turn ::
  "handler_env \<Rightarrow> nat \<Rightarrow> SamplingParams \<Rightarrow> ToolDefinition list \<Rightarrow> ChatMessage \<Rightarrow> gateway \<Rightarrow> loop_event list \<times> gateway" where
  "run_turn env ref params clientTools turn gw =
    (case RunStreaming (request_loop env (gw_files gw)) params clientTools turn
            (ct_heap (gw_chat gw) ! ref, ct_db (gw_chat gw)) of
        (evs, (s, db)) \<Rightarrow>
          (evs, gw\<lparr>gw_chat := (gw_chat gw)\<lparr>ct_heap := (ct_heap (gw_chat gw))[ref := s], ct_db := db\<rparr>\<rparr>))"

definition on_session :: "nat \<Rightarrow> (Session \<Rightarrow> Session) \<Rightarrow> gateway \<Rightarrow> gateway" where
  "on_session ref f gw = gw\<lparr>gw_chat := (gw_chat gw)
     \<lparr>ct_heap := (ct_heap (gw_chat gw))[ref := f (ct_heap (gw_chat gw) ! ref)]\<rparr>\<rparr>"

definition seed_history :: "handler_env \<Rightarrow> nat \<Rightarrow> ChatMessage list \<Rightarrow> gateway \<Rightarrow> gateway" where
  "seed_history env ref prior gw =
    (if ss_Messages (ct_heap (gw_chat gw) ! ref) = []
     then gw\<lparr>gw_chat := fold (\<lambda>m st. session_add (he_chat env) ref m st) prior (gw_chat gw)\<rparr> else gw)"

definition request_params :: "OpenAIRequest \<Rightarrow> SamplingParams" where
  "request_params req = (if oq_MaxTokens req > 0
     then DefaultSamplingParams\<lparr>sp_MaxTokens := oq_MaxTokens req\<rparr> else DefaultSamplingParams)"

text \<open>The last part: hold, answer, and close the hold. Without a flusher the stream path returns early.\<close>

definition reserve_and_answer ::
  "handler_env \<Rightarrow> string \<Rightarrow> OpenAIRequest \<Rightarrow> nat \<Rightarrow> ChatMessage list \<Rightarrow> ChatMessage \<Rightarrow> gateway \<Rightarrow> chat_reply \<times> gateway" where
  "reserve_and_answer env tenant req ref msgs turn gw =
    (case reserveBilling env tenant (oq_Model req) msgs (request_params req) (gw_billing gw) of
        (Inl reply, bdb) \<Rightarrow> (reply, gw\<lparr>gw_billing := bdb\<rparr>)
      | (Inr rid, bdb) \<Rightarrow>
          if oq_Stream req \<and> \<not> he_flusher env
          then (ReplyError StatusInternalServerError ''internal_error'' ''streaming not supported'', gw\<lparr>gw_billing := bdb\<rparr>)
          else (case run_turn env ref (request_params req) (OpenAIToolsToInternal (oq_Tools req)) turn gw of
              (evs, gw') \<Rightarrow>
                (case (if oq_Stream req then handleOpenAIStream else handleOpenAINonStream)
                        env tenant (oq_Model req) rid evs (gw_usage gw') bdb of
                    (reply, udb, bdb') \<Rightarrow> (reply, gw'\<lparr>gw_usage := udb, gw_billing := bdb'\<rparr>))))"

definition with_session ::
  "handler_env \<Rightarrow> string \<Rightarrow> OpenAIRequest \<Rightarrow> nat \<Rightarrow> gateway \<Rightarrow> chat_reply \<times> gateway" where
  "with_session env tenant req ref gw0 =
    (let gw = on_session ref (\<lambda>s. s\<lparr>ss_Model := oq_Model req\<rparr>) gw0 in
     case OpenAIToInternal (oq_Messages req) ([], []) of (msgs0, prompt) \<Rightarrow>
     (case persistImages env msgs0 (gw_files gw) of
        (Inl _, fs) \<Rightarrow> (ReplyError StatusBadRequest ''invalid_request'' ''image'', gw\<lparr>gw_files := fs\<rparr>)
      | (Inr msgs, fs) \<Rightarrow>
          let gw1 = gw\<lparr>gw_files := fs\<rparr>;
              gw2 = (if prompt \<noteq> [] then on_session ref (SetSystemPrompt prompt) gw1 else gw1)
          in (case lastUserTurn msgs of
                None \<Rightarrow> (ReplyError StatusBadRequest ''invalid_request'' ''messages must contain a user message'', gw2)
              | Some (prior, turn) \<Rightarrow>
                  reserve_and_answer env tenant req ref msgs turn (seed_history env ref prior gw2))))"

text \<open>\<open>handleOpenAIChatCompletions\<close>; \<open>body\<close> is None when binding the JSON fails.\<close>

definition handleOpenAIChatCompletions ::
  "handler_env \<Rightarrow> Principal \<Rightarrow> string \<Rightarrow> OpenAIRequest option \<Rightarrow> gateway \<Rightarrow> chat_reply \<times> gateway" where
  "handleOpenAIChatCompletions env p headerSession body gw = (case body of
      None \<Rightarrow> (ReplyError StatusBadRequest ''invalid_request'' ''invalid body'', gw)
    | Some req \<Rightarrow> (case ValidateOpenAIRequest req of
        Some msg \<Rightarrow> (ReplyError StatusBadRequest ''invalid_request'' msg, gw)
      | None \<Rightarrow> (case resolveForTenant env (pr_TenantID p) (oq_Model req) gw of
          Inl reply \<Rightarrow> (reply, gw)
        | Inr d \<Rightarrow>
            (case (case checkQuota env (pr_TenantID p) gw of
                Some reply \<Rightarrow> (reply, gw)
              | None \<Rightarrow>
                  let sid = (if headerSession = [] then he_new_session env else headerSession) in
                  (case GetOrCreate (he_chat env) (he_queued env) (he_between env) sid (pr_TenantID p) (pr_UserID p) (gw_chat gw) of
                      (Inl ErrSessionForbidden, st) \<Rightarrow>
                        (ReplyError StatusNotFound ''NOT_FOUND'' ''session not found'', gw\<lparr>gw_chat := st\<rparr>)
                    | (Inl _, st) \<Rightarrow> (ReplyError StatusForbidden ''FORBIDDEN'' ''session'', gw\<lparr>gw_chat := st\<rparr>)
                    | (Inr ref, st) \<Rightarrow> with_session env (pr_TenantID p) req ref (gw\<lparr>gw_chat := st\<rparr>)))
             of (reply, gw') \<Rightarrow> (reply, gw'\<lparr>gw_released := gw_released gw' @ [concurrency_key d]\<rparr>)))))"

section \<open>The session routes\<close>

record session_view =
  sv_ID :: string
  sv_Title :: string
  sv_Model :: string
  sv_Messages :: "ChatMessage list"
  sv_CreatedAt :: int
  sv_UpdatedAt :: int

definition handleListSessions :: "handler_env \<Rightarrow> Principal option \<Rightarrow> gateway \<Rightarrow> SessionSummary list response" where
  "handleListSessions env p gw = (case p of
      None \<Rightarrow> WriteAPIError StatusUnauthorized ''UNAUTHORIZED'' ''missing claims''
    | Some p \<Rightarrow> (case fst (mgr_ListSessions (he_chat env) (pr_TenantID p) (pr_UserID p) (ct_db (gw_chat gw))) of
          Inl _ \<Rightarrow> WriteAPIError StatusInternalServerError ''INTERNAL_ERROR'' ''list sessions''
        | Inr l \<Rightarrow> WriteJSON StatusOK l))"

definition handleGetSession :: "handler_env \<Rightarrow> Principal \<Rightarrow> string \<Rightarrow> gateway \<Rightarrow> session_view response" where
  "handleGetSession env p sid gw =
    (case fst (GetPersisted (he_chat env) sid (pr_TenantID p) (pr_UserID p) (ct_db (gw_chat gw))) of
        Inl ErrSessionNotFound \<Rightarrow> WriteAPIError StatusNotFound ''NOT_FOUND'' ''session not found''
      | Inl _ \<Rightarrow> WriteAPIError StatusInternalServerError ''INTERNAL_ERROR'' ''load session''
      | Inr s \<Rightarrow> WriteJSON StatusOK \<lparr>sv_ID = ss_ID s, sv_Title = ss_Title s, sv_Model = ss_Model s,
          sv_Messages = ss_Messages s, sv_CreatedAt = ss_CreatedAt s, sv_UpdatedAt = ss_UpdatedAt s\<rparr>)"

definition handleRenameSession ::
  "handler_env \<Rightarrow> Principal \<Rightarrow> string \<Rightarrow> string option \<Rightarrow> gateway \<Rightarrow> (string \<times> string) response \<times> gateway" where
  "handleRenameSession env p sid title gw = (case title of
      None \<Rightarrow> (WriteAPIError StatusBadRequest ''INVALID_REQUEST'' ''title required'', gw)
    | Some t \<Rightarrow>
        if t = [] then (WriteAPIError StatusBadRequest ''INVALID_REQUEST'' ''title required'', gw)
        else (case mgr_RenameSession (he_chat env) sid (pr_TenantID p) (pr_UserID p) t (ct_db (gw_chat gw)) of
            (Inl ErrSessionNotFound, db) \<Rightarrow> (WriteAPIError StatusNotFound ''NOT_FOUND'' ''session not found'',
                gw\<lparr>gw_chat := (gw_chat gw)\<lparr>ct_db := db\<rparr>\<rparr>)
          | (Inl _, db) \<Rightarrow> (WriteAPIError StatusInternalServerError ''INTERNAL_ERROR'' ''rename session'',
                gw\<lparr>gw_chat := (gw_chat gw)\<lparr>ct_db := db\<rparr>\<rparr>)
          | (Inr _, db) \<Rightarrow> (WriteJSON StatusOK (sid, t), gw\<lparr>gw_chat := (gw_chat gw)\<lparr>ct_db := db\<rparr>\<rparr>)))"

definition handleDeleteSession ::
  "handler_env \<Rightarrow> Principal \<Rightarrow> string \<Rightarrow> gateway \<Rightarrow> unit response \<times> gateway" where
  "handleDeleteSession env p sid gw =
    (case mgr_DeleteSession (he_chat env) sid (pr_TenantID p) (pr_UserID p) (gw_chat gw) of
        (Inl ErrSessionNotFound, st) \<Rightarrow> (WriteAPIError StatusNotFound ''NOT_FOUND'' ''session not found'', gw\<lparr>gw_chat := st\<rparr>)
      | (Inl _, st) \<Rightarrow> (WriteAPIError StatusInternalServerError ''INTERNAL_ERROR'' ''delete session'', gw\<lparr>gw_chat := st\<rparr>)
      | (Inr _, st) \<Rightarrow> (WriteJSON StatusNoContent (), gw\<lparr>gw_chat := st\<rparr>))"

end
