(* ===== verification/ChatHandlerProofs.thy ===== *)
theory ChatHandlerProofs
  imports ChatHandler
begin

text \<open>
  The chat endpoint and the money: every hold that a request places is closed when the request ends,
  and what the caller is told, what the usage table records and what the ledger charges agree.
\<close>

section \<open>Holds\<close>

definition open_holds :: "billing_db \<Rightarrow> reservationRow list" where
  "open_holds db = filter (\<lambda>r. r_Status r = ReservationHeld) (reservations db)"

lemma reservations_set_status_last:
  assumes "reservations d = rs @ [r]" "\<not> tbl_has r_ID (r_ID r) rs"
  shows "reservations (set_reservation_status (r_ID r) st x d) =
    rs @ [r\<lparr>r_Status := st, r_SettledAt := (case x of None \<Rightarrow> r_SettledAt r | Some t \<Rightarrow> Some t)\<rparr>]"
  using assms tbl_update_absent[of r_ID "r_ID r" rs]
  by (auto simp: set_reservation_status_def tbl_update_def split: option.split)

text \<open>The state right after a committed hold.\<close>

lemma after_hold:
  assumes "wallet_Reserve flt now i db = (Inr x, d)" "billing_inv db"
  obtains w where "reservations d = reservations db @ [new_reservation now i]"
    "\<not> tbl_has r_ID (ri_ReservationID i) (reservations db)" "ledger d = ledger db"
    "tbl_find r_ID (ri_ReservationID i) (reservations d) = Some (new_reservation now i)"
    "tbl_find w_TenantID (ri_TenantID i) (wallets d) = Some w" "in_int64 (w_Reserved w - ri_Amount i)"
    "billing_inv d"
  using assms(1)
proof (cases rule: wallet_Reserve_commit)
  case (1 w)
  let ?c = "create_wallet now (ri_TenantID i) (ri_Currency i) (ri_InitialAllowance i) db"
  have inv: "billing_inv ?c" by (rule create_wallet_inv[OF assms(2)])
  then have u: "tbl_unique w_TenantID (wallets ?c)" by (simp add: inv_defs)
  have "w_Reserved w = wrap64 (held_sum (ri_TenantID i) (reservations ?c))"
    using inv u 1(1) by (auto simp: billing_inv_def inv_reserved_iff)
  then have r: "in_int64 (w_Reserved w)" by simp
  have "tbl_find w_TenantID (ri_TenantID i) (wallets d) =
      Some (w\<lparr>w_Reserved := w_Reserved w + ri_Amount i, w_UpdatedAt := now\<rparr>)"
    using 1(1,5) u by (simp add: find_wallet_add_reserved)
  then show thesis
    using 1(4,5) r reserved_found[OF assms(1)] reserve_inv[OF assms]
    by (intro that[of "w\<lparr>w_Reserved := w_Reserved w + ri_Amount i, w_UpdatedAt := now\<rparr>"])
      (simp_all add: tbl_insert_def)
qed

text \<open>Closing the hold of a request: released without usage, settled with it.\<close>

lemma release_own_hold:
  assumes "wallet_Reserve flt now i db = (Inr x, d)" "billing_inv db"
  shows "billing_inv (snd (wallet_Release no_faults now' (ri_ReservationID i) d)) \<and>
    open_holds (snd (wallet_Release no_faults now' (ri_ReservationID i) d)) = open_holds db \<and>
    ledger (snd (wallet_Release no_faults now' (ri_ReservationID i) d)) = ledger db"
proof (rule after_hold[OF assms])
  fix w
  let ?r = "new_reservation now i"
  assume h: "reservations d = reservations db @ [?r]" "\<not> tbl_has r_ID (ri_ReservationID i) (reservations db)"
    "ledger d = ledger db" "tbl_find r_ID (ri_ReservationID i) (reservations d) = Some ?r"
    "tbl_find w_TenantID (ri_TenantID i) (wallets d) = Some w" "in_int64 (w_Reserved w - ri_Amount i)"
    "billing_inv d"
  have f: "r_Status ?r = ReservationHeld" "r_ID ?r = ri_ReservationID i" "r_TenantID ?r = ri_TenantID i" "r_Amount ?r = ri_Amount i"
    by (simp_all add: new_reservation_def)
  have out: "wallet_Release no_faults now' (ri_ReservationID i) d =
      (Inr (), set_reservation_status (r_ID ?r) ReservationReleased None (add_reserved now' (ri_TenantID i) (- ri_Amount i) d))"
    using h(4-6) f by (simp add: wallet_Release_def sql_add_reserved_def tx_simps reserved_in_range_def)
  have "open_holds (snd (wallet_Release no_faults now' (ri_ReservationID i) d)) = open_holds db"
    unfolding out open_holds_def
    by (simp add: reservations_set_status_last[OF _ h(2)[folded f(2)]] h(1) del: f(2))
  then show ?thesis
    using op_inv(4)[OF h(7), of no_faults now' "ri_ReservationID i"] h(3) by (simp add: out)
qed

lemma settle_own_hold:
  assumes "wallet_Reserve flt now i db = (Inr x, d)" "billing_inv db"
  shows "billing_inv (snd (wallet_Settle no_faults now' (ri_ReservationID i) pt ct d)) \<and>
    open_holds (snd (wallet_Settle no_faults now' (ri_ReservationID i) pt ct d)) = open_holds db \<and>
    (\<exists>n b. ledger (snd (wallet_Settle no_faults now' (ri_ReservationID i) pt ct d)) = ledger db @
      [(charge_entry now' (new_reservation now i) (reservation_charge (new_reservation now i) pt ct) b)\<lparr>l_ID := n\<rparr>])"
proof (rule after_hold[OF assms])
  fix w
  let ?r = "new_reservation now i"
  assume h: "reservations d = reservations db @ [?r]" "\<not> tbl_has r_ID (ri_ReservationID i) (reservations db)"
    "ledger d = ledger db" "tbl_find r_ID (ri_ReservationID i) (reservations d) = Some ?r"
    "tbl_find w_TenantID (ri_TenantID i) (wallets d) = Some w" "in_int64 (w_Reserved w - ri_Amount i)"
    "billing_inv d"
  have f: "r_Status ?r = ReservationHeld" "r_ID ?r = ri_ReservationID i" "r_TenantID ?r = ri_TenantID i"
    by (simp_all add: new_reservation_def)
  have "\<not> ledger_key_taken (charge_key (ri_ReservationID i)) d"
    using charge_key_free[OF h(4) _ h(7)] f(1) by simp
  then obtain b rv where out: "snd (wallet_Settle no_faults now' (ri_ReservationID i) pt ct d) =
      set_reservation_status (r_ID ?r) ReservationSettled (Some now')
        (append_ledger (charge_entry now' ?r (reservation_charge ?r pt ct) b) (set_wallet now' (r_TenantID ?r) b (Some rv) d))"
    using h(4,5) f by (auto simp: wallet_Settle_def tx_simps Let_def ledger_key_taken_def)
  have "open_holds (snd (wallet_Settle no_faults now' (ri_ReservationID i) pt ct d)) = open_holds db"
    unfolding out open_holds_def
    by (simp add: reservations_set_status_last[OF _ h(2)[folded f(2)]] h(1) del: f(2))
  moreover have "billing_inv (snd (wallet_Settle no_faults now' (ri_ReservationID i) pt ct d))"
    by (rule op_inv(3)[OF h(7)])
  ultimately show ?thesis
    using h(3) by (auto simp: out append_ledger_def)
qed

section \<open>What a turn adds\<close>

abbreviation totals_of :: "Usage list \<Rightarrow> int \<times> int" where
  "totals_of us \<equiv> fold add_usage us (0, 0)"

text \<open>What the reply says of the usage.\<close>

definition told :: "chat_reply \<Rightarrow> Usage list \<Rightarrow> bool" where
  "told reply us \<longleftrightarrow> (case reply of
      ReplyError _ _ _ \<Rightarrow> us = []
    | ReplyJSON c \<Rightarrow> us = (case co_Usage c of None \<Rightarrow> [] | Some u \<Rightarrow> [u])
    | ReplyStream fs \<Rightarrow> us \<noteq> [] \<longrightarrow> (\<exists>f. SSEFinish f \<in> set fs))"

lemma stream_events_silent:
  "\<forall>e \<in> set pre. \<not> terminal e \<Longrightarrow> snd (stream_events env tenant model (pre @ es) t db) = snd (stream_events env tenant model es t db) \<and>
    set (fst (stream_events env tenant model es t db)) \<subseteq> set (fst (stream_events env tenant model (pre @ es) t db))"
  by (induction pre) (auto split: loop_event.split prod.split)

lemma json_events_silent:
  "\<forall>e \<in> set pre. \<not> terminal e \<Longrightarrow>
    \<exists>a'. ja_usage a' = ja_usage a \<and> json_events env tenant model (pre @ es) a t db = json_events env tenant model es a' t db"
proof (induction pre arbitrary: a)
  case (Cons e pre)
  then have IH: "\<exists>a'. ja_usage a' = ja_usage b \<and>
      json_events env tenant model (pre @ es) b t db = json_events env tenant model es a' t db" for b
    by simp
  show ?case
    using Cons.prems IH[of a] IH[of "a\<lparr>ja_content := ja_content a @ _\<rparr>"] IH[of "a\<lparr>ja_calls := ja_calls a @ [_]\<rparr>"]
    by (cases e) simp_all
qed auto

lemma answer_meters:
  assumes "ends_once evs"
    "(if stream then handleOpenAIStream else handleOpenAINonStream) env tenant model rid evs udb bdb = (reply, udb', bdb')"
  shows "\<exists>us. length us \<le> 1 \<and> told reply us \<and> udb' = fold (record_usage env tenant model) us udb \<and>
    bdb' = close_hold env rid (totals_of us) bdb"
proof -
  obtain pre t where evs: "evs = pre @ [t]" "terminal t" "\<forall>e \<in> set pre. \<not> terminal e"
    using assms(1) by (auto simp: ends_once_def)
  show ?thesis
  proof (cases stream)
    case True
    then show ?thesis
      using assms(2) stream_events_silent[OF evs(3), of env tenant model "[t]" "(0, 0)" udb] evs(2)
      by (intro exI[of _ "usages [t]"])
        (cases t; auto simp: evs(1) handleOpenAIStream_def told_def usages_def split: prod.splits option.splits)
  next
    case False
    then show ?thesis
      using assms(2) json_events_silent[OF evs(3), of "\<lparr>ja_content = [], ja_usage = None, ja_calls = [], ja_finish = ''stop''\<rparr>" env tenant model "[t]" "(0, 0)" udb] evs(2)
      by (intro exI[of _ "usages [t]"])
        (cases t; auto simp: evs(1) handleOpenAINonStream_def told_def usages_def split: prod.splits option.splits)
  qed
qed

section \<open>The ways through the handler\<close>

lemma frames [simp]:
  "gw_billing (on_session ref f gw) = gw_billing gw" "gw_usage (on_session ref f gw) = gw_usage gw"
  "gw_billing (seed_history env ref prior gw) = gw_billing gw" "gw_usage (seed_history env ref prior gw) = gw_usage gw"
  by (simp_all add: on_session_def seed_history_def)

lemma run_turn_frame:
  assumes "run_turn env ref params tools turn gw = (evs, gw')"
  shows "ends_once evs \<and> gw_billing gw' = gw_billing gw \<and> gw_usage gw' = gw_usage gw"
  using assms rounds_end_once[of "request_loop env (gw_files gw)" params tools MaxToolIterations
      "loop_add (request_loop env (gw_files gw)) turn (ct_heap (gw_chat gw) ! ref, ct_db (gw_chat gw))"]
  by (auto simp: run_turn_def RunStreaming_def split: prod.splits)

lemma reserve_and_answer_cases:
  assumes "reserve_and_answer env tenant req ref msgs turn gw = (reply, gw')"
  obtains (no_hold) "reserveBilling env tenant (oq_Model req) msgs (request_params req) (gw_billing gw) = (Inl reply, gw_billing gw')"
      "gw_usage gw' = gw_usage gw"
  | (no_stream) rid c k m where "reserveBilling env tenant (oq_Model req) msgs (request_params req) (gw_billing gw) = (Inr rid, gw_billing gw')"
      "oq_Stream req" "\<not> he_flusher env" "reply = ReplyError c k m" "gw_usage gw' = gw_usage gw"
  | (answered) rid d evs where "reserveBilling env tenant (oq_Model req) msgs (request_params req) (gw_billing gw) = (Inr rid, d)"
      "ends_once evs" "(if oq_Stream req then handleOpenAIStream else handleOpenAINonStream) env tenant (oq_Model req) rid evs (gw_usage gw) d =
        (reply, gw_usage gw', gw_billing gw')"
proof -
  obtain r d where r: "reserveBilling env tenant (oq_Model req) msgs (request_params req) (gw_billing gw) = (r, d)"
    by (rule prod.exhaust)
  show thesis
  proof (cases r)
    case (Inl e)
    then show ?thesis using assms r no_hold by (auto simp: reserve_and_answer_def)
  next
    case (Inr rid)
    show ?thesis
    proof (cases "oq_Stream req \<and> \<not> he_flusher env")
      case True
      then show ?thesis using assms r Inr no_stream by (auto simp: reserve_and_answer_def)
    next
      case False
      obtain evs gw1 where t: "run_turn env ref (request_params req) (OpenAIToolsToInternal (oq_Tools req)) turn gw = (evs, gw1)"
        by (rule prod.exhaust)
      obtain a u b where a: "(if oq_Stream req then handleOpenAIStream else handleOpenAINonStream) env tenant (oq_Model req) rid evs (gw_usage gw1) d = (a, u, b)"
        by (metis prod.exhaust)
      have "reply = a" "gw' = gw1\<lparr>gw_usage := u, gw_billing := b\<rparr>"
        using assms r Inr t a False by (auto simp: reserve_and_answer_def)
      then show ?thesis
        using a r Inr run_turn_frame[OF t] by (intro answered[of rid d evs]) auto
    qed
  qed
qed

lemma with_session_cases:
  assumes "with_session env tenant req ref gw = (reply, gw')"
  obtains (refused) c k m where "reply = ReplyError c k m" "gw_billing gw' = gw_billing gw" "gw_usage gw' = gw_usage gw"
  | (reached) msgs turn gw0 where "reserve_and_answer env tenant req ref msgs turn gw0 = (reply, gw')"
      "gw_billing gw0 = gw_billing gw" "gw_usage gw0 = gw_usage gw"
  using assms that
  by (auto simp: with_session_def Let_def split: prod.splits sum.splits option.splits if_splits)

lemma resolve_refusal: "resolveForTenant env tenant model gw = Inl r \<Longrightarrow> \<exists>c k m. r = ReplyError c k m"
  by (auto simp: resolveForTenant_def split: sum.splits if_splits)

lemma quota_refusal: "checkQuota env tenant gw = Some r \<Longrightarrow> \<exists>c k m. r = ReplyError c k m"
  by (auto simp: checkQuota_def split: option.splits quota_gate_error.splits)

lemma request_cases:
  assumes "handleOpenAIChatCompletions env p hdr (Some req) gw = (reply, gw')"
  obtains (refused) c k m where "reply = ReplyError c k m" "gw_billing gw' = gw_billing gw" "gw_usage gw' = gw_usage gw"
  | (reached) ref msgs turn gw0 gw1 where "reserve_and_answer env (pr_TenantID p) req ref msgs turn gw0 = (reply, gw1)"
      "gw_billing gw0 = gw_billing gw" "gw_usage gw0 = gw_usage gw"
      "gw_billing gw' = gw_billing gw1" "gw_usage gw' = gw_usage gw1"
proof (cases "ValidateOpenAIRequest req")
  case (Some msg)
  then show ?thesis using assms that(1) by (auto simp: handleOpenAIChatCompletions_def)
next
  case valid: None
  show ?thesis
  proof (cases "resolveForTenant env (pr_TenantID p) (oq_Model req) gw")
    case (Inl r)
    then show ?thesis
      using assms valid that(1) resolve_refusal[OF Inl] by (auto simp: handleOpenAIChatCompletions_def)
  next
    case (Inr d)
    let ?sid = "if hdr = [] then he_new_session env else hdr"
    obtain res st where g: "GetOrCreate (he_chat env) (he_queued env) (he_between env) ?sid (pr_TenantID p) (pr_UserID p) (gw_chat gw) = (res, st)"
      by (rule prod.exhaust)
    note here = assms[unfolded handleOpenAIChatCompletions_def, simplified valid Inr option.case sum.case Let_def g prod.case]
    show ?thesis
    proof (cases "checkQuota env (pr_TenantID p) gw")
      case (Some r)
      then show ?thesis using here that(1) quota_refusal[OF Some] by auto
    next
      case None
      show ?thesis
      proof (cases res)
        case (Inl e)
        then show ?thesis using here None that(1) by (cases e) auto
      next
        case (Inr ref)
        obtain gw1 where w: "with_session env (pr_TenantID p) req ref (gw\<lparr>gw_chat := st\<rparr>) = (reply, gw1)"
          "gw' = gw1\<lparr>gw_released := gw_released gw1 @ [concurrency_key d]\<rparr>"
          using here None Inr by (auto split: prod.splits)
        from w(1) show ?thesis
        proof (cases rule: with_session_cases)
          case (refused c k m)
          then show ?thesis using w(2) by (intro that(1)) auto
        next
          case (reached msgs turn gw0)
          then show ?thesis using w(2) by (intro that(2)[of ref msgs turn gw0 gw1]) auto
        qed
      qed
    qed
  qed
qed

section \<open>The hold of a request\<close>

lemma price_or_free_reads: "price_or_free cfg flt model db = (x, d) \<Longrightarrow> d = db"
  by (auto simp: price_or_free_def priceFor_def pricing_Get_def tx_simps
      split: prod.splits sum.splits billing_error.splits if_splits option.splits)

lemma svc_Reserve_rollback:
  assumes "svc_Reserve cfg flt now newid tenant model estInput maxOutput db = (Inl e, d)"
  shows "d = db"
proof (cases "mode_of (bc_Mode cfg) = ModeOff")
  case False
  obtain x d1 where p: "price_or_free cfg flt model db = (x, d1)" by (rule prod.exhaust)
  then have d1: "d1 = db" by (rule price_or_free_reads)
  show ?thesis
  proof (cases x)
    case (Inr price)
    then show ?thesis
      using assms False p d1 billing_rollback(1)
      by (auto simp: svc_Reserve_def tx_bind_def tx_return_def split: prod.splits sum.splits)
  qed (use assms False p d1 in \<open>simp add: svc_Reserve_def tx_bind_def\<close>)
qed (use assms in \<open>simp add: svc_Reserve_def tx_return_def\<close>)

lemma reserveBilling_cases:
  assumes "reserveBilling env tenant model msgs params db = (res, d)"
  obtains (refused) c k m where "res = Inl (ReplyError c k m)" "d = db"
  | (free) "res = Inr []" "d = db"
  | (held) cfg price i where "he_billing env = Some cfg" "mode_of (bc_Mode cfg) \<noteq> ModeOff" "res = Inr (he_new_reservation env)"
      "price_or_free cfg (he_faults env) model db = (Inr price, db)"
      "i = reserve_input cfg tenant (he_new_reservation env) price (sum_list (map estimateMessageTokens msgs)) (sp_MaxTokens params)"
      "wallet_Reserve (he_faults env) (he_now env) i db = (Inr (), d)"
proof (cases "he_billing env")
  case None
  then show ?thesis using assms free by (simp add: reserveBilling_def)
next
  case (Some cfg)
  let ?svc = "svc_Reserve cfg (he_faults env) (he_now env) (he_new_reservation env) tenant model
    (sum_list (map estimateMessageTokens msgs)) (sp_MaxTokens params) db"
  obtain x e where svc: "?svc = (x, e)" by (rule prod.exhaust)
  show ?thesis
  proof (cases x)
    case (Inl err)
    have "e = db" using svc Inl by (simp add: svc_Reserve_rollback)
    then show ?thesis
      using assms Some svc Inl refused by (auto simp: reserveBilling_def gate_Reserve_def split: if_splits)
  next
    case (Inr rid)
    have d: "d = e" "res = Inr rid"
      using assms Some svc Inr by (auto simp: reserveBilling_def gate_Reserve_def)
    show ?thesis
    proof (cases "mode_of (bc_Mode cfg) = ModeOff")
      case True
      then show ?thesis using svc Inr d free by (simp add: svc_Reserve_def tx_return_def)
    next
      case False
      obtain price where "price_or_free cfg (he_faults env) model db = (Inr price, db)" "rid = he_new_reservation env"
        "wallet_Reserve (he_faults env) (he_now env) (reserve_input cfg tenant (he_new_reservation env) price
          (sum_list (map estimateMessageTokens msgs)) (sp_MaxTokens params)) db = (Inr (), e)"
        by (rule svc_Reserve_commit[OF svc[unfolded Inr] False])
      then show ?thesis
        using d by (intro held[OF Some False _ _ refl, of price]) simp_all
    qed
  qed
qed

lemma close_hold_inv: "billing_inv d \<Longrightarrow> billing_inv (close_hold env rid t d)"
  by (auto simp: close_hold_def releaseBilling_def settleBilling_def svc_Release_def svc_Settle_def tx_return_def
      op_inv split: option.split)

lemma close_hold_free [simp]: "close_hold env [] t d = d"
  by (simp add: close_hold_def releaseBilling_def settleBilling_def split: option.split)

text \<open>The charge for the tokens of a request: none without tokens, else their cost at the model's price.\<close>

definition charges_of :: "string \<Rightarrow> string \<Rightarrow> Price \<Rightarrow> int \<times> int \<Rightarrow> (string \<times> string \<times> int) list" where
  "charges_of tenant rid price t = (if t = (0, 0) then []
     else [(tenant, rid, wrap64 (- (costMicro (fst t) (PricePerMillionInputTokens price) +
       costMicro (snd t) (PricePerMillionOutputTokens price))))])"

definition charge_view :: "ledgerRow \<Rightarrow> string \<times> string \<times> int" where
  "charge_view e = (l_TenantID e, l_RefID e, l_Amount e)"

lemma close_own_hold:
  assumes "he_billing env = Some cfg" "mode_of (bc_Mode cfg) \<noteq> ModeOff" "he_faults env = no_faults"
    "i = reserve_input cfg tenant (he_new_reservation env) price est mx" "he_new_reservation env \<noteq> []"
    "wallet_Reserve (he_faults env) (he_now env) i db = (Inr (), d)" "billing_inv db"
  shows "open_holds (close_hold env (he_new_reservation env) t d) = open_holds db \<and>
    map charge_view (ledger (close_hold env (he_new_reservation env) t d)) =
      map charge_view (ledger db) @ charges_of tenant (he_new_reservation env) price t"
proof -
  have rid: "ri_ReservationID i = he_new_reservation env" by (simp add: assms(4) reserve_input_def)
  let ?r = "new_reservation (he_now env) i"
  have r: "r_TenantID ?r = tenant" "r_ID ?r = he_new_reservation env"
    "reservation_charge ?r pt ct = wrap64 (costMicro pt (PricePerMillionInputTokens price) +
      costMicro ct (PricePerMillionOutputTokens price))" for pt ct
    by (simp_all add: assms(4) new_reservation_def reserve_input_def reservation_charge_def)
  note rel = release_own_hold[OF assms(6)[unfolded assms(3)] assms(7), of "he_now env"]
  note stl = settle_own_hold[OF assms(6)[unfolded assms(3)] assms(7), of "he_now env" "fst t" "snd t"]
  have rel_open: "t = (0, 0) \<Longrightarrow> close_hold env (he_new_reservation env) t d =
      snd (wallet_Release no_faults (he_now env) (ri_ReservationID i) d)"
    using assms(1-3,5) rid by (simp add: close_hold_def releaseBilling_def svc_Release_def)
  have stl_open: "t \<noteq> (0, 0) \<Longrightarrow> close_hold env (he_new_reservation env) t d =
      snd (wallet_Settle no_faults (he_now env) (ri_ReservationID i) (fst t) (snd t) d)"
    using assms(1-3,5) rid by (cases t) (auto simp: close_hold_def settleBilling_def svc_Settle_def)
  show ?thesis
  proof (cases "t = (0, 0)")
    case True
    then show ?thesis using rel rel_open by (simp add: charges_of_def)
  next
    case False
    then show ?thesis
      using stl stl_open r by (auto simp: charges_of_def charge_view_def charge_entry_def)
  qed
qed


section \<open>Metering and charging\<close>

definition event_view :: "usageRow \<Rightarrow> string \<times> string \<times> int \<times> int" where
  "event_view e = (usageRow.u_TenantID e, u_Model e, u_PromptTokens e, u_CompletionTokens e)"

definition countable_usage :: "Usage \<Rightarrow> bool" where
  "countable_usage u \<longleftrightarrow> in_int32 (us_PromptTokens u) \<and> in_int32 (us_CompletionTokens u)"

lemma recorded_usage:
  assumes "he_faults env = no_faults" "he_usage env" "\<forall>e \<in> set (pending db). usageRow.u_ID e < event_seq db"
    "length us \<le> 1" "\<forall>u \<in> set us. countable_usage u"
  shows "map event_view (events (fold (record_usage env tenant model) us db)) = map event_view (events db) @
    map (\<lambda>u. (tenant, model, us_PromptTokens u, us_CompletionTokens u)) us"
proof (cases us)
  case (Cons u rest)
  have "filter (\<lambda>e. usageRow.u_ID e = event_seq db) (pending db) = []"
    using assms(3) by (auto simp: filter_empty_conv)
  then show ?thesis
    using assms Cons
    by (simp add: record_usage_def usage_Record_def tx_simps countable_usage_def usage_commit_def usage_insert_def event_view_def)
qed simp


section \<open>A run\<close>

text \<open>A tenant with 1000 micro-credits asks a model with one \<open>READY\<close> deployment; the worker uses 10 + 20 tokens.\<close>

definition demo_worker :: loop_env where
  "demo_worker = demo_loop_env\<lparr>le_submit := (\<lambda>_ _. Inr
     [(demo_event ''token'')\<lparr>ge_Token := ''hi''\<rparr>,
      (demo_event ''final'')\<lparr>ge_StopReason := ''STOP_END_TURN'', ge_FinishReason := ''stop'',
        ge_Usage := Some \<lparr>us_PromptTokens = 10, us_CompletionTokens = 20, us_TotalTokens = 30\<rparr>\<rparr>])\<rparr>"

definition demo_handler :: handler_env where
  "demo_handler = \<lparr>he_faults = no_faults, he_now = 9, he_le = (\<lambda>_ _. True), he_billing = Some enforce_cfg,
     he_quota_mode = None, he_usage = True, he_allow = (\<lambda>_ _. Inr True), he_acquire = (\<lambda>_ _. Inr True),
     he_rpmLimit = 60, he_concLimit = 4, he_uploads = None, he_maxImages = 4, he_chat = sample_env,
     he_queued = id, he_between = id, he_new_session = ''s9'', he_new_reservation = ''r9'', he_flusher = True,
     he_loop = demo_worker\<rparr>"

definition demo_gateway :: gateway where
  "demo_gateway = \<lparr>
     gw_serving = \<lparr>outbox = [], models = [\<lparr>m_ID = ''1'', m_Name = ''m'', m_Description = [], m_Task = [], m_Framework = [],
         m_Status = [], m_CreatedAt = 0\<rparr>],
       model_versions = [\<lparr>mv_ID = ''v'', mv_ModelID = ''1'', mv_Version = [], mv_ArtifactURI = [], mv_Metadata = None,
         mv_Status = [], mv_CreatedAt = 0\<rparr>], templates = [], template_versions = [],
       deployments = [\<lparr>d_ID = ''d'', d_TenantID = ''t'', d_ModelVersionID = ''v'', d_TemplateVersionID = [], d_Name = [],
         d_Region = [], d_DesiredReplicas = 1, d_Status = DeploymentReady, d_WorkloadRef = [], d_CreatedAt = 0, d_UpdatedAt = 0\<rparr>],
       revisions = [], endpoints = [], idempotency_keys = []\<rparr>,
     gw_usage = \<lparr>quotas = [], events = [], pending = [], event_seq = 1, daily = [], last_event_id = 0\<rparr>,
     gw_billing = priced_db, gw_chat = sample_state, gw_files = Map.empty, gw_released = []\<rparr>"

definition demo_principal :: Principal where
  "demo_principal = \<lparr>pr_TenantID = ''t'', pr_UserID = ''u'', pr_Role = ''user''\<rparr>"

definition demo_request :: OpenAIRequest where
  "demo_request = \<lparr>oq_Model = ''m'', oq_Messages = [\<lparr>om_Role = ''user'', om_Content = \<lparr>oct_Text = ''hello'', oct_Images = []\<rparr>,
     om_ToolCalls = [], om_ToolCallID = []\<rparr>], oq_Stream = False, oq_MaxTokens = 100, oq_Tools = []\<rparr>"

abbreviation demo_answer :: "chat_reply \<times> gateway" where
  "demo_answer \<equiv> handleOpenAIChatCompletions demo_handler demo_principal [] (Some demo_request) demo_gateway"

lemma priced_db_inv: "billing_inv priced_db"
  using priced_db_solvent by (simp add: solvent_def)

lemma demo_answer_outcome:
  "(case demo_answer of (reply, g) \<Rightarrow> (reply, map charge_view (ledger (gw_billing g)), gw_released g)) =
     (ReplyJSON \<lparr>co_Model = ''m'', co_Content = ''hi'', co_ToolCalls = [], co_FinishReason = ''stop'',
        co_Usage = Some \<lparr>us_PromptTokens = 10, us_CompletionTokens = 20, us_TotalTokens = 30\<rparr>\<rparr>,
      [(''t'', ''r9'', - 50)], [''deployment:d:concurrency''])"
  by code_simp



end
