(* ===== verification/Paths.thy ===== *)
theory Paths
  imports Prelude
begin

text \<open>
  What the server uses of Go's \<open>path/filepath\<close> (on Unix) and \<open>strings\<close>: splitting and joining, the
  lexical \<open>Clean\<close>, \<open>Join\<close> and \<open>Abs\<close>. The guards of the image storage and of the tool sandbox rest on
  the facts at the end: a cleaned rooted path has no dot segments.
\<close>

section \<open>Splitting and joining\<close>

fun join_with :: "char \<Rightarrow> string list \<Rightarrow> string" where
  "join_with c [] = []"
| "join_with c [w] = w"
| "join_with c (w # ws) = w @ c # join_with c ws"

lemma split_on_clean: "w \<in> set (split_on c s) \<Longrightarrow> c \<notin> set w"
  by (induction s arbitrary: w) (auto split: list.splits if_splits)

lemma join_Cons: "ws \<noteq> [] \<Longrightarrow> join_with c (w # ws) = w @ c # join_with c ws"
  by (cases ws) auto

lemma join_split [simp]: "join_with c (split_on c s) = s"
proof (induction s)
  case (Cons x s)
  obtain y ys where s: "split_on c s = y # ys" by (meson list.exhaust split_on_nonempty)
  show ?case
  proof (cases "x = c")
    case True
    then show ?thesis using Cons s by (simp add: join_Cons)
  next
    case False
    then show ?thesis using Cons s by (cases ys) auto
  qed
qed simp

declare split_on_none [simp]

lemma split_join:
  "ws \<noteq> [] \<Longrightarrow> (\<And>w. w \<in> set ws \<Longrightarrow> c \<notin> set w) \<Longrightarrow> split_on c (join_with c ws) = ws"
  by (induction c ws rule: join_with.induct) (auto simp: split_on_append)

lemma join_append: "xs \<noteq> [] \<Longrightarrow> ys \<noteq> [] \<Longrightarrow> join_with c (xs @ ys) = join_with c xs @ c # join_with c ys"
proof (induction xs)
  case (Cons x xs)
  then show ?case by (cases xs) (auto simp: join_Cons)
qed simp

lemma join_eq_Nil: "join_with c ws = [] \<longleftrightarrow> ws = [] \<or> ws = [[]]"
  by (cases ws rule: list.exhaust; cases "tl ws") auto

section \<open>filepath.Clean\<close>

text \<open>One segment against the reversed list of the segments kept so far.\<close>

definition clean_step :: "bool \<Rightarrow> string \<Rightarrow> string list \<Rightarrow> string list" where
  "clean_step rooted seg acc =
    (if seg = [] \<or> seg = ''.'' then acc
     else if seg = ''..'' then (case acc of
         [] \<Rightarrow> if rooted then [] else [''..'']
       | s # rest \<Rightarrow> if s = ''..'' then ''..'' # acc else rest)
     else seg # acc)"

definition clean_segs :: "bool \<Rightarrow> string list \<Rightarrow> string list" where
  "clean_segs rooted segs = rev (fold (clean_step rooted) segs [])"

definition is_rooted :: "string \<Rightarrow> bool" where
  "is_rooted p \<longleftrightarrow> has_prefix p ''/''"

definition Clean :: "string \<Rightarrow> string" where
  "Clean p =
    (let s = join_with CHR ''/'' (clean_segs (is_rooted p) (split_on CHR ''/'' p))
     in if is_rooted p then CHR ''/'' # s else if s = [] then ''.'' else s)"

definition path_Join :: "string \<Rightarrow> string \<Rightarrow> string" where
  "path_Join a b =
    (if a = [] then (if b = [] then [] else Clean b)
     else if b = [] then Clean a else Clean (a @ CHR ''/'' # b))"

definition path_Abs :: "string \<Rightarrow> string \<Rightarrow> string" where
  "path_Abs cwd p = (if is_rooted p then Clean p else path_Join cwd p)"

section \<open>Cleaned paths\<close>

definition plain :: "string \<Rightarrow> bool" where
  "plain w \<longleftrightarrow> w \<noteq> [] \<and> w \<noteq> ''.'' \<and> w \<noteq> ''..'' \<and> CHR ''/'' \<notin> set w"

lemma clean_step_plain:
  "\<forall>w \<in> set acc. plain w \<Longrightarrow> CHR ''/'' \<notin> set seg \<Longrightarrow> \<forall>w \<in> set (clean_step True seg acc). plain w"
  by (cases acc) (auto simp: clean_step_def plain_def)

lemma clean_rooted_plain:
  assumes "\<forall>w \<in> set segs. CHR ''/'' \<notin> set w"
  shows "\<forall>w \<in> set (clean_segs True segs). plain w"
proof -
  have "\<forall>w \<in> set acc. plain w \<Longrightarrow> \<forall>w \<in> set (fold (clean_step True) segs acc). plain w" for acc
    using assms
  proof (induction segs arbitrary: acc)
    case (Cons a segs)
    have "\<forall>w \<in> set (clean_step True a acc). plain w"
      using Cons.prems(1,2) by (intro clean_step_plain) simp_all
    then have "\<forall>w \<in> set (fold (clean_step True) segs (clean_step True a acc)). plain w"
      using Cons.IH Cons.prems(2) by (metis list.set_intros(2))
    then show ?case by (simp only: fold.simps comp_def)
  qed simp
  from this[of "[]"] show ?thesis by (simp add: clean_segs_def)
qed

lemma fold_plain: "\<forall>w \<in> set segs. plain w \<Longrightarrow> fold (clean_step r) segs acc = rev segs @ acc"
  by (induction segs arbitrary: acc) (auto simp: clean_step_def plain_def)

lemma clean_segs_plain [simp]: "\<forall>w \<in> set segs. plain w \<Longrightarrow> clean_segs r segs = segs"
  by (simp add: clean_segs_def fold_plain)

lemma clean_segs_append_plain:
  "\<forall>w \<in> set ys. plain w \<Longrightarrow> clean_segs r (xs @ ys) = clean_segs r xs @ ys"
  by (simp add: clean_segs_def fold_plain)

lemma clean_segs_empty [simp]: "clean_segs r ([] # segs) = clean_segs r segs"
  by (simp add: clean_segs_def clean_step_def)

lemma clean_segs_dot [simp]: "clean_segs r (''.'' # segs) = clean_segs r segs"
  by (simp add: clean_segs_def clean_step_def)

text \<open>A rooted path is its list of plain segments.\<close>

definition rooted_path :: "string list \<Rightarrow> string" where
  "rooted_path ws = CHR ''/'' # join_with CHR ''/'' ws"

definition path_segs :: "string \<Rightarrow> string list" where
  "path_segs p = clean_segs True (split_on CHR ''/'' p)"

lemma path_segs_plain: "\<forall>w \<in> set (path_segs p). plain w"
  unfolding path_segs_def by (intro clean_rooted_plain ballI) (rule split_on_clean)

lemma Clean_rooted: "is_rooted p \<Longrightarrow> Clean p = rooted_path (path_segs p)"
  by (simp add: Clean_def rooted_path_def path_segs_def Let_def)

lemma split_rooted_path:
  assumes "\<forall>w \<in> set ws. plain w" "ws \<noteq> []"
  shows "split_on CHR ''/'' (rooted_path ws) = [] # ws"
proof -
  have "split_on CHR ''/'' (join_with CHR ''/'' ws) = ws"
    using assms by (intro split_join) (auto simp: plain_def)
  then show ?thesis by (simp add: rooted_path_def)
qed

lemma path_segs_rooted_path [simp]: "\<forall>w \<in> set ws. plain w \<Longrightarrow> path_segs (rooted_path ws) = ws"
  by (cases "ws = []") (simp_all add: path_segs_def split_rooted_path, simp add: rooted_path_def)

lemma rooted_path_rooted [simp]: "is_rooted (rooted_path ws)"
  by (simp add: is_rooted_def rooted_path_def has_prefix_def)

lemma Clean_idem: "is_rooted p \<Longrightarrow> Clean (Clean p) = Clean p"
  by (simp add: Clean_rooted path_segs_plain)

text \<open>\<open>root + "/"\<close> as a prefix of a cleaned path means that the segments of \<open>root\<close> lead its segments.\<close>

lemma rooted_prefix:
  assumes "\<forall>w \<in> set xs. plain w" "\<forall>w \<in> set ys. plain w"
    and "has_prefix (rooted_path ys) (rooted_path xs @ ''/'')"
  shows "\<exists>zs. ys = xs @ zs"
proof (cases "xs = []")
  case False
  obtain t where t: "rooted_path ys = rooted_path xs @ ''/'' @ t"
    using assms(3) by (auto simp: has_prefix_iff)
  have "length (rooted_path ys) = length (rooted_path xs) + 1 + length t"
    by (simp only: t length_append) simp
  then have ne: "ys \<noteq> []" by (auto simp: rooted_path_def)
  have "join_with CHR ''/'' ys = join_with CHR ''/'' xs @ CHR ''/'' # t"
    using t unfolding rooted_path_def by simp
  also have "\<dots> = join_with CHR ''/'' (xs @ split_on CHR ''/'' t)"
    using False by (simp add: join_append)
  finally have "split_on CHR ''/'' (join_with CHR ''/'' ys) = split_on CHR ''/'' (join_with CHR ''/'' (xs @ split_on CHR ''/'' t))"
    by simp
  moreover have "split_on CHR ''/'' (join_with CHR ''/'' ys) = ys"
    using ne assms(2) by (intro split_join) (auto simp: plain_def)
  moreover have "split_on CHR ''/'' (join_with CHR ''/'' (xs @ split_on CHR ''/'' t)) = xs @ split_on CHR ''/'' t"
    using False assms(1) by (intro split_join) (auto simp: plain_def dest: split_on_clean)
  ultimately have "ys = xs @ split_on CHR ''/'' t" by simp
  then show ?thesis ..
qed simp

lemma rooted_path_prefix:
  "xs \<noteq> [] \<Longrightarrow> zs \<noteq> [] \<Longrightarrow> has_prefix (rooted_path (xs @ zs)) (rooted_path xs @ ''/'')"
  by (simp add: rooted_path_def join_append has_prefix_iff)

lemma path_Abs_rooted: "is_rooted cwd \<Longrightarrow> \<exists>ws. path_Abs cwd p = rooted_path ws \<and> (\<forall>w \<in> set ws. plain w)"
proof -
  assume cwd: "is_rooted cwd"
  then have "cwd \<noteq> []" by (auto simp: is_rooted_def has_prefix_def)
  moreover have "is_rooted (cwd @ CHR ''/'' # p)" using cwd by (cases cwd) (auto simp: is_rooted_def has_prefix_def)
  ultimately show ?thesis
    using cwd path_segs_plain by (auto simp: path_Abs_def path_Join_def Clean_rooted)
qed

text \<open>The segments of a relative cleaned path: leading \<open>..\<close>, then plain ones.\<close>

lemma clean_relative:
  assumes "\<forall>w \<in> set segs. CHR ''/'' \<notin> set w"
  shows "\<exists>n ws. clean_segs False segs = replicate n ''..'' @ ws \<and> (\<forall>w \<in> set ws. plain w)"
proof -
  have "\<exists>n' ws'. fold (clean_step False) segs (rev ws @ replicate n ''..'') = rev ws' @ replicate n' ''..'' \<and> (\<forall>w \<in> set ws'. plain w)"
    if "\<forall>w \<in> set ws. plain w" for n ws
    using assms that
  proof (induction segs arbitrary: n ws)
    case (Cons s segs)
    have "\<exists>n' ws'. clean_step False s (rev ws @ replicate n ''..'') = rev ws' @ replicate n' ''..'' \<and> (\<forall>w \<in> set ws'. plain w)"
    proof (cases "s = ''..''")
      case True
      show ?thesis
      proof (cases ws rule: rev_cases)
        case Nil
        then have "clean_step False s (rev ws @ replicate n ''..'') = rev [] @ replicate (Suc n) ''..''"
          using True by (cases n) (auto simp: clean_step_def)
        then show ?thesis by (metis empty_iff list.set(1))
      next
        case (snoc us u)
        then have "clean_step False s (rev ws @ replicate n ''..'') = rev us @ replicate n ''..''"
          using True Cons.prems(2) by (auto simp: clean_step_def plain_def)
        then show ?thesis using Cons.prems(2) snoc by (metis Un_iff set_append)
      qed
    next
      case False
      show ?thesis
      proof (cases "s = [] \<or> s = ''.''")
        case True
        then have "clean_step False s (rev ws @ replicate n ''..'') = rev ws @ replicate n ''..''"
          by (auto simp: clean_step_def)
        then show ?thesis using Cons.prems(2) by blast
      next
        case no: False
        then have "clean_step False s (rev ws @ replicate n ''..'') = rev (ws @ [s]) @ replicate n ''..''"
          using False by (auto simp: clean_step_def)
        moreover have "\<forall>w \<in> set (ws @ [s]). plain w"
          using Cons.prems no False by (auto simp: plain_def)
        ultimately show ?thesis by blast
      qed
    qed
    then obtain n' ws' where "clean_step False s (rev ws @ replicate n ''..'') = rev ws' @ replicate n' ''..''" "\<forall>w \<in> set ws'. plain w"
      by blast
    then show ?case using Cons.IH[of ws' n'] Cons.prems(1) by simp
  next
    case Nil
    then show ?case by fastforce
  qed
  from this[of "[]" 0] show ?thesis
    by (auto simp: clean_segs_def) (metis rev_append rev_replicate rev_rev_ident)
qed

section \<open>Absolute paths\<close>


definition kept :: "string list \<Rightarrow> bool" where
  "kept acc \<longleftrightarrow> (\<forall>w \<in> set acc. w \<noteq> [] \<and> w \<noteq> ''.'')"

lemma kept_step: "kept acc \<Longrightarrow> kept (clean_step r s acc)"
  by (cases acc) (auto simp: kept_def clean_step_def)

lemma fold_clean_step:
  assumes "kept acc"
  shows "fold (clean_step True) (rev (clean_step False s acc)) a = clean_step True s (fold (clean_step True) (rev acc) a)"
proof (cases acc)
  case Nil
  then show ?thesis by (simp add: clean_step_def)
next
  case (Cons x r)
  then have "x \<noteq> []" "x \<noteq> ''.''" using assms by (simp_all add: kept_def)
  then show ?thesis using Cons by (simp add: clean_step_def)
qed

lemma fold_clean_rel:
  "kept acc \<Longrightarrow> fold (clean_step True) (rev (fold (clean_step False) segs acc)) a =
     fold (clean_step True) segs (fold (clean_step True) (rev acc) a)"
  by (induction segs arbitrary: acc) (simp_all add: kept_step fold_clean_step)

text \<open>Cleaning a relative path first does not change the absolute path it stands for.\<close>

lemma clean_segs_rel: "clean_segs True (xs @ clean_segs False ys) = clean_segs True (xs @ ys)"
  using fold_clean_rel[of "[]" ys] by (simp add: clean_segs_def kept_def)

lemma split_on_segments: "split_on c (a @ c # b) = split_on c a @ split_on c b"
  by (induction a) (auto split: list.splits)

lemma is_rooted_append: "is_rooted a \<Longrightarrow> is_rooted (a @ b)"
  by (cases a) (auto simp: is_rooted_def has_prefix_def)

lemma path_segs_Join:
  "is_rooted cwd \<Longrightarrow> p \<noteq> [] \<Longrightarrow> path_Join cwd p = rooted_path (clean_segs True (split_on CHR ''/'' cwd @ split_on CHR ''/'' p))"
proof -
  assume a: "is_rooted cwd" "p \<noteq> []"
  then have "cwd \<noteq> []" by (auto simp: is_rooted_def has_prefix_def)
  then show ?thesis using a by (simp add: path_Join_def Clean_rooted is_rooted_append path_segs_def split_on_segments)
qed

lemma rel_segs:
  obtains n ws where "clean_segs False (split_on CHR ''/'' p) = replicate n ''..'' @ ws" "\<forall>w \<in> set ws. plain w"
proof -
  have "\<forall>w \<in> set (split_on CHR ''/'' p). CHR ''/'' \<notin> set w" by (simp add: split_on_clean)
  from clean_relative[OF this] show ?thesis using that by blast
qed

lemma split_Clean_rel:
  assumes "\<not> is_rooted p"
  shows "clean_segs True (xs @ split_on CHR ''/'' (Clean p)) = clean_segs True (xs @ split_on CHR ''/'' p)"
proof -
  let ?ss = "clean_segs False (split_on CHR ''/'' p)"
  have plain: "CHR ''/'' \<notin> set w" if "w \<in> set ?ss" for w
  proof -
    obtain n ws where ss: "?ss = replicate n ''..'' @ ws" "\<forall>w \<in> set ws. plain w"
      by (rule rel_segs)
    have "w \<in> set (replicate n ''..'') \<or> plain w" using that ss(2) unfolding ss(1) by auto
    then show ?thesis by (auto simp: plain_def)
  qed
  have kept: "kept (fold (clean_step False) segs acc)" if "kept acc" for segs acc
    using that by (induction segs arbitrary: acc) (simp_all add: kept_step)
  have ne: "?ss \<noteq> [] \<Longrightarrow> join_with CHR ''/'' ?ss \<noteq> []"
    using kept[of "[]" "split_on CHR ''/'' p"] by (auto simp: join_eq_Nil clean_segs_def kept_def)
  show ?thesis
  proof (cases "?ss = []")
    case True
    then have "clean_segs True (xs @ split_on CHR ''/'' p) = clean_segs True xs"
      using clean_segs_rel[of xs "split_on CHR ''/'' p"] by simp
    moreover have "Clean p = ''.''" using True assms by (simp add: Clean_def)
    moreover have "clean_segs True (xs @ [''.'']) = clean_segs True xs"
      by (simp add: clean_segs_def clean_step_def)
    moreover have "split_on CHR ''/'' ''.'' = [''.'']" by simp
    ultimately show ?thesis by (simp only:)
  next
    case False
    have "Clean p = join_with CHR ''/'' ?ss" using assms ne[OF False] by (simp add: Clean_def)
    moreover have "split_on CHR ''/'' (join_with CHR ''/'' ?ss) = ?ss" by (rule split_join[OF False plain])
    ultimately show ?thesis by (simp only: clean_segs_rel)
  qed
qed

lemma Clean_rel_first: 
  assumes "\<not> is_rooted p" "p \<noteq> []" shows "\<not> is_rooted (Clean p) \<and> Clean p \<noteq> []"
proof -
  let ?ss = "clean_segs False (split_on CHR ''/'' p)"
  obtain n ws where ss: "?ss = replicate n ''..'' @ ws" "\<forall>w \<in> set ws. plain w"
    by (rule rel_segs)
  have "\<not> is_rooted (join_with CHR ''/'' ?ss)"
  proof (cases ?ss)
    case (Cons s rest)
    then have "s = ''..'' \<or> plain s" using ss by (cases n) auto
    then show ?thesis using Cons by (cases rest; cases s) (auto simp: is_rooted_def has_prefix_def plain_def)
  qed (simp add: is_rooted_def has_prefix_def)
  then show ?thesis using assms by (auto simp: Clean_def Let_def is_rooted_def has_prefix_def)
qed

lemma path_Abs_Clean:
  assumes "is_rooted cwd" "p \<noteq> []"
  shows "path_Abs cwd (Clean p) = path_Abs cwd p"
proof (cases "is_rooted p")
  case True
  then show ?thesis by (simp add: path_Abs_def Clean_rooted path_segs_plain)
next
  case False
  then show ?thesis
    using Clean_rel_first[OF False assms(2)] assms
    by (simp add: path_Abs_def path_segs_Join split_Clean_rel)
qed

text \<open>A file named by a plain name in a directory: its absolute path is the directory's with the name appended.\<close>

lemma path_Abs_Join_plain:
  assumes "is_rooted cwd" "dir \<noteq> []" "plain w"
  shows "path_Abs cwd (path_Join dir w) = rooted_path (path_segs (path_Abs cwd dir) @ [w])"
proof -
  have w: "w \<noteq> []" "CHR ''/'' \<notin> set w" using assms(3) by (auto simp: plain_def)
  have "path_Abs cwd (path_Join dir w) = path_Abs cwd (dir @ CHR ''/'' # w)"
    using assms w by (simp add: path_Join_def path_Abs_Clean)
  also have "\<dots> = rooted_path (path_segs (path_Abs cwd dir) @ [w])"
  proof (cases "is_rooted dir")
    case True
    then show ?thesis
      using assms(3) w by (simp add: path_Abs_def is_rooted_append Clean_rooted path_segs_plain path_segs_def[of "dir @ _"]
          split_on_segments clean_segs_append_plain) (simp add: path_segs_def)
  next
    case False
    then have "\<not> is_rooted (dir @ CHR ''/'' # w)" using assms(2) by (cases dir) (auto simp: is_rooted_def has_prefix_def)
    moreover have "\<forall>v \<in> set (clean_segs True (split_on CHR ''/'' cwd @ split_on CHR ''/'' dir)). plain v"
      by (intro clean_rooted_plain) (auto dest: split_on_clean)
    moreover have "clean_segs True (split_on CHR ''/'' cwd @ split_on CHR ''/'' dir @ [w]) =
        clean_segs True (split_on CHR ''/'' cwd @ split_on CHR ''/'' dir) @ [w]"
      using clean_segs_append_plain[of "[w]" True "split_on CHR ''/'' cwd @ split_on CHR ''/'' dir"] assms(3) by simp
    ultimately show ?thesis
      using False assms(1,2) w by (simp add: path_Abs_def path_segs_Join split_on_segments)
  qed
  finally show ?thesis .
qed

lemma rooted_path_eq: "\<forall>w \<in> set xs. plain w \<Longrightarrow> \<forall>w \<in> set ys. plain w \<Longrightarrow> rooted_path xs = rooted_path ys \<longleftrightarrow> xs = ys"
proof
  assume xs: "\<forall>w \<in> set xs. plain w" and ys: "\<forall>w \<in> set ys. plain w" and eq: "rooted_path xs = rooted_path ys"
  have "xs = path_segs (rooted_path xs)" by (rule path_segs_rooted_path[OF xs, symmetric])
  also have "\<dots> = ys" unfolding eq by (rule path_segs_rooted_path[OF ys])
  finally show "xs = ys" .
qed simp


end
