(* ===== verification/ImageStore.thy ===== *)
theory ImageStore
  imports Complex_Main ChatUploads Paths Usage
begin

text \<open>
  The image service's data (\<open>internal/services/image\<close>): \<open>model.go\<close> and \<open>models.go\<close>, the repositories over
  the tables \<open>image_assets\<close> and \<open>image_jobs\<close> (\<open>repository.go\<close>, migrations 0015 and 0016), and the disk
  storage of the generated files (\<open>storage.go\<close>). A row of a job has the fields of a job; a zero time
  is 0. Guidance scales are rationals; what a REAL column or a \<open>float32\<close> keeps of one is a parameter.
\<close>

section \<open>Rows\<close>

datatype job_status = JobQueued | JobRunning | JobSucceeded | JobFailed | JobCancelled

record Asset =
  as_ID :: string
  as_TenantID :: string
  as_JobID :: string
  as_Model :: string
  as_Prompt :: string
  as_NegativePrompt :: string
  as_Width :: int
  as_Height :: int
  as_Steps :: int
  as_GuidanceScale :: rat
  as_Seed :: int
  as_Scheduler :: string
  as_Path :: string
  as_CreatedAt :: int

record assetRow =
  ar_ID :: string
  ar_TenantID :: string
  ar_JobID :: "string option"
  ar_Model :: string
  ar_Prompt :: string
  ar_NegativePrompt :: string
  ar_Width :: int
  ar_Height :: int
  ar_Steps :: int
  ar_GuidanceScale :: rat
  ar_Seed :: int
  ar_Scheduler :: string
  ar_Path :: string
  ar_CreatedAt :: int

definition toAsset :: "assetRow \<Rightarrow> Asset" where
  "toAsset r = \<lparr>as_ID = ar_ID r, as_TenantID = ar_TenantID r,
     as_JobID = (case ar_JobID r of None \<Rightarrow> [] | Some j \<Rightarrow> j), as_Model = ar_Model r, as_Prompt = ar_Prompt r,
     as_NegativePrompt = ar_NegativePrompt r, as_Width = ar_Width r, as_Height = ar_Height r,
     as_Steps = ar_Steps r, as_GuidanceScale = ar_GuidanceScale r, as_Seed = ar_Seed r,
     as_Scheduler = ar_Scheduler r, as_Path = ar_Path r, as_CreatedAt = ar_CreatedAt r\<rparr>"

record Job =
  jb_ID :: string
  jb_TenantID :: string
  jb_Model :: string
  jb_Status :: job_status
  jb_Prompt :: string
  jb_NegativePrompt :: string
  jb_Width :: int
  jb_Height :: int
  jb_Steps :: int
  jb_GuidanceScale :: rat
  jb_Seed :: int
  jb_NumImages :: int
  jb_Scheduler :: string
  jb_ProgressStep :: int
  jb_Error :: string
  jb_CreatedAt :: int
  jb_UpdatedAt :: int

record image_db =
  asset_rows :: "assetRow list"
  job_rows :: "Job list"

datatype image_svc_error =
    ImgNotFound | ImgInvalidRequest string | ImgModelNotFound string | ImgDB string | ImgWorker string | ImgStorage string

type_synonym 'a image_tx = "(image_db, image_svc_error, 'a) tx"

abbreviation img_sql :: "faults \<Rightarrow> string \<Rightarrow> string \<Rightarrow> 'a image_tx \<Rightarrow> 'a image_tx" where
  "img_sql flt label k m \<equiv> stmt (flt label k) (ImgDB label) m"

section \<open>Assets\<close>

definition nullable_id :: "string \<Rightarrow> string option" where
  "nullable_id s = (if s = [] then None else Some s)"

text \<open>\<open>col\<close> is what the REAL column keeps of a guidance scale; INT columns hold 32 bits.\<close>

definition asset_row :: "(rat \<Rightarrow> rat) \<Rightarrow> Asset \<Rightarrow> assetRow" where
  "asset_row col a = \<lparr>ar_ID = as_ID a, ar_TenantID = as_TenantID a, ar_JobID = nullable_id (as_JobID a),
     ar_Model = as_Model a, ar_Prompt = as_Prompt a, ar_NegativePrompt = as_NegativePrompt a,
     ar_Width = as_Width a, ar_Height = as_Height a, ar_Steps = as_Steps a,
     ar_GuidanceScale = col (as_GuidanceScale a), ar_Seed = as_Seed a, ar_Scheduler = as_Scheduler a,
     ar_Path = as_Path a, ar_CreatedAt = as_CreatedAt a\<rparr>"

definition asset_Create :: "faults \<Rightarrow> (rat \<Rightarrow> rat) \<Rightarrow> int \<Rightarrow> Asset \<Rightarrow> Asset image_tx" where
  "asset_Create flt col now a0 =
    (let a = (if as_CreatedAt a0 = 0 then a0\<lparr>as_CreatedAt := now\<rparr> else a0) in
     img_sql flt ''create image asset'' (as_ID a)
       (tx_bind (require (\<lambda>db. \<not> tbl_has ar_ID (as_ID a) (asset_rows db) \<and> in_int32 (as_Width a) \<and>
            in_int32 (as_Height a) \<and> in_int32 (as_Steps a)) (ImgDB ''create image asset'')) (\<lambda>_.
        tx_bind (update (\<lambda>db. db\<lparr>asset_rows := tbl_insert (asset_row col a) (asset_rows db)\<rparr>)) (\<lambda>_.
        tx_return a))))"

definition asset_Get :: "faults \<Rightarrow> string \<Rightarrow> string \<Rightarrow> Asset image_tx" where
  "asset_Get flt tenant aid = img_sql flt ''get image asset'' []
     (tx_bind (fetch (\<lambda>db. find (\<lambda>r. ar_ID r = aid \<and> ar_TenantID r = tenant) (asset_rows db)) ImgNotFound)
       (\<lambda>r. tx_return (toAsset r)))"

definition limited :: "int \<Rightarrow> 'a list \<Rightarrow> 'a list" where
  "limited limit xs = (if limit > 0 then take (nat limit) xs else xs)"

definition asset_List :: "faults \<Rightarrow> string \<Rightarrow> int \<Rightarrow> Asset list image_tx" where
  "asset_List flt tenant limit = img_sql flt ''list image assets'' [] (query (\<lambda>db.
     map toAsset (limited limit (order_by (\<lambda>a b. ar_CreatedAt a \<ge> ar_CreatedAt b)
       (filter (\<lambda>r. ar_TenantID r = tenant) (asset_rows db))))))"

section \<open>Jobs\<close>

definition job_Create :: "faults \<Rightarrow> (rat \<Rightarrow> rat) \<Rightarrow> int \<Rightarrow> Job \<Rightarrow> Job image_tx" where
  "job_Create flt col now j0 =
    (let j = j0\<lparr>jb_CreatedAt := (if jb_CreatedAt j0 = 0 then now else jb_CreatedAt j0),
                jb_UpdatedAt := (if jb_UpdatedAt j0 = 0 then now else jb_UpdatedAt j0)\<rparr> in
     img_sql flt ''create image job'' (jb_ID j)
       (tx_bind (require (\<lambda>db. \<not> tbl_has jb_ID (jb_ID j) (job_rows db) \<and> in_int32 (jb_Width j) \<and>
            in_int32 (jb_Height j) \<and> in_int32 (jb_Steps j) \<and> in_int32 (jb_NumImages j) \<and>
            in_int32 (jb_ProgressStep j)) (ImgDB ''create image job'')) (\<lambda>_.
        tx_bind (update (\<lambda>db. db\<lparr>job_rows := tbl_insert (j\<lparr>jb_GuidanceScale := col (jb_GuidanceScale j)\<rparr>) (job_rows db)\<rparr>)) (\<lambda>_.
        tx_return j))))"

definition job_Get :: "faults \<Rightarrow> string \<Rightarrow> string \<Rightarrow> Job image_tx" where
  "job_Get flt tenant jid = img_sql flt ''get image job'' []
     (fetch (\<lambda>db. find (\<lambda>r. jb_ID r = jid \<and> jb_TenantID r = tenant) (job_rows db)) ImgNotFound)"

definition job_List :: "faults \<Rightarrow> string \<Rightarrow> int \<Rightarrow> Job list image_tx" where
  "job_List flt tenant limit = img_sql flt ''list image jobs'' [] (query (\<lambda>db.
     limited limit (order_by (\<lambda>a b. jb_CreatedAt a \<ge> jb_CreatedAt b)
       (filter (\<lambda>r. jb_TenantID r = tenant) (job_rows db)))))"

definition update_jobs :: "(Job \<Rightarrow> bool) \<Rightarrow> (Job \<Rightarrow> Job) \<Rightarrow> image_db \<Rightarrow> image_db" where
  "update_jobs P f db = db\<lparr>job_rows := map (\<lambda>j. if P j then f j else j) (job_rows db)\<rparr>"

definition job_UpdateStatus :: "faults \<Rightarrow> int \<Rightarrow> string \<Rightarrow> job_status \<Rightarrow> string \<Rightarrow> unit image_tx" where
  "job_UpdateStatus flt now jid st err = img_sql flt ''update image job status'' jid
     (update (update_jobs (\<lambda>j. jb_ID j = jid) (\<lambda>j. j\<lparr>jb_Status := st, jb_Error := err, jb_UpdatedAt := now\<rparr>)))"

definition job_UpdateProgress :: "faults \<Rightarrow> int \<Rightarrow> string \<Rightarrow> int \<Rightarrow> unit image_tx" where
  "job_UpdateProgress flt now jid step = img_sql flt ''update image job progress'' jid
     (tx_bind (require (\<lambda>_. in_int32 step) (ImgDB ''update image job progress'')) (\<lambda>_.
      update (update_jobs (\<lambda>j. jb_ID j = jid \<and> jb_Status j = JobRunning)
        (\<lambda>j. j\<lparr>jb_ProgressStep := step, jb_UpdatedAt := now\<rparr>))))"

text \<open>
  \<open>Claim\<close>. \<open>locked\<close> are the rows that other transactions hold at that moment (SKIP LOCKED passes over
  them); the order of RETURNING is free, so \<open>arrange\<close> orders the result.
\<close>

definition claimable :: "int \<Rightarrow> Job \<Rightarrow> bool" where
  "claimable staleBefore j \<longleftrightarrow>
    jb_Status j = JobQueued \<or> jb_Status j = JobRunning \<and> jb_UpdatedAt j < staleBefore"

definition claimed_ids :: "(string \<Rightarrow> bool) \<Rightarrow> int \<Rightarrow> int \<Rightarrow> image_db \<Rightarrow> string list" where
  "claimed_ids locked limit staleBefore db =
    map jb_ID (take (nat limit) (filter (\<lambda>j. \<not> locked (jb_ID j))
      (order_by (\<lambda>a b. jb_CreatedAt a \<le> jb_CreatedAt b) (filter (claimable staleBefore) (job_rows db)))))"

definition job_Claim ::
  "faults \<Rightarrow> int \<Rightarrow> (string \<Rightarrow> bool) \<Rightarrow> (Job list \<Rightarrow> Job list) \<Rightarrow> int \<Rightarrow> int \<Rightarrow> Job list image_tx" where
  "job_Claim flt now locked arrange limit staleBefore =
    (if limit \<le> 0 then tx_return [] else img_sql flt ''claim image jobs'' []
      (tx_bind (query (claimed_ids locked limit staleBefore)) (\<lambda>jids.
       tx_bind (update (update_jobs (\<lambda>j. List.member jids (jb_ID j))
         (\<lambda>j. j\<lparr>jb_Status := JobRunning, jb_UpdatedAt := now\<rparr>))) (\<lambda>_.
       query (\<lambda>db. arrange (filter (\<lambda>j. List.member jids (jb_ID j)) (job_rows db)))))))"

definition job_Finish :: "faults \<Rightarrow> int \<Rightarrow> string \<Rightarrow> job_status \<Rightarrow> string \<Rightarrow> unit image_tx" where
  "job_Finish flt now jid st err = img_sql flt ''finish image job'' jid
     (update (update_jobs (\<lambda>j. jb_ID j = jid \<and> jb_Status j = JobRunning)
       (\<lambda>j. j\<lparr>jb_Status := st, jb_Error := err, jb_UpdatedAt := now\<rparr>)))"

section \<open>Disk storage\<close>

text \<open>
  \<open>dk_cwd\<close> is the working directory that \<open>filepath.Abs\<close> asks for; \<open>dk_torn\<close> is what a failed write leaves
  in the temporary file.
\<close>

record disk_env =
  dk_dir :: string
  dk_cwd :: string
  dk_faults :: faults
  dk_torn :: "bytes option"

definition disk_path :: "disk_env \<Rightarrow> string \<Rightarrow> string" where
  "disk_path env k = path_Join (dk_dir env) (k @ ''.png'')"

definition disk_Save :: "disk_env \<Rightarrow> string \<Rightarrow> bytes \<Rightarrow> files \<Rightarrow> (string + string) \<times> files" where
  "disk_Save env k data fs =
    (let path = disk_path env k; tmp = path @ ''.tmp'' in
     if dk_faults env ''create image dir'' k then (Inl ''create image dir'', fs)
     else if dk_faults env ''write image'' k then (Inl ''write image'', fs(tmp := dk_torn env))
     else if dk_faults env ''commit image'' k then (Inl ''commit image'', fs(tmp \<mapsto> data))
     else (Inr path, (fs(tmp := None))(path \<mapsto> data)))"

definition disk_within :: "disk_env \<Rightarrow> string \<Rightarrow> string option" where
  "disk_within env path =
    (if dk_faults env ''getwd'' [] then Some ''getwd''
     else let root = path_Abs (dk_cwd env) (dk_dir env); p = path_Abs (dk_cwd env) path in
       if p \<noteq> root \<and> \<not> has_prefix p (root @ ''/'') then Some ''path escapes image storage'' else None)"

text \<open>The file system is keyed by the text of the path as given.\<close>

definition disk_Load :: "disk_env \<Rightarrow> string \<Rightarrow> files \<Rightarrow> string + bytes" where
  "disk_Load env path fs = (case disk_within env path of
      Some e \<Rightarrow> Inl e
    | None \<Rightarrow> if dk_faults env ''read image'' path then Inl ''read image''
        else case fs path of None \<Rightarrow> Inl ''no such file'' | Some d \<Rightarrow> Inr d)"

definition disk_Delete :: "disk_env \<Rightarrow> string \<Rightarrow> files \<Rightarrow> string option \<times> files" where
  "disk_Delete env path fs = (case disk_within env path of
      Some e \<Rightarrow> (Some e, fs)
    | None \<Rightarrow> if dk_faults env ''remove image'' path then (Some ''remove image'', fs)
        else case fs path of None \<Rightarrow> (Some ''no such file'', fs) | Some _ \<Rightarrow> (None, fs(path := None)))"

end
