(* ===== verification/ImageService.thy ===== *)
theory ImageService
  imports ImageStore Serving Http Base64
begin

text \<open>
  Text-to-image generation: the client of the Python image worker (\<open>infrastructure/image/client.go\<close>),
  the service and the job runner (\<open>services/image/service.go\<close>, \<open>runner.go\<close>) and the adapter that lets
  the image service resolve deployments (\<open>app/adapters.go\<close>). A call of the worker is a function of the
  request; ids and times come from streams.
\<close>

section \<open>The worker client\<close>

record ImgGenerateRequest =
  ig_RequestID :: string
  ig_Prompt :: string
  ig_NegativePrompt :: string
  ig_Width :: int
  ig_Height :: int
  ig_Steps :: int
  ig_GuidanceScale :: rat
  ig_Seed :: int
  ig_NumImages :: int
  ig_Scheduler :: string

record GenerateResult =
  rs_PNG :: "bytes list"
  rs_Width :: int
  rs_Height :: int
  rs_Seed :: int
  rs_Steps :: int
  rs_Scheduler :: string

record ProgressEvent =
  pe_Step :: int
  pe_TotalSteps :: int
  pe_Done :: bool
  pe_Result :: "GenerateResult option"
  pe_Error :: string

text \<open>The proto messages, as the generated code declares their fields.\<close>

record pbImageRequest =
  pir_RequestId :: string
  pir_Prompt :: string
  pir_NegativePrompt :: string
  pir_Width :: int
  pir_Height :: int
  pir_Steps :: int
  pir_GuidanceScale :: rat
  pir_Seed :: int
  pir_NumImages :: int
  pir_Scheduler :: string

record pbImageResponse =
  pis_Png :: "bytes list"
  pis_Width :: int
  pis_Height :: int
  pis_Seed :: int
  pis_Steps :: int
  pis_Scheduler :: string

record pbImageProgress =
  pip_Step :: int
  pip_TotalSteps :: int
  pip_Done :: bool
  pip_Result :: "pbImageResponse option"
  pip_Error :: string

definition toProtoRequest :: "ImgGenerateRequest \<Rightarrow> pbImageRequest" where
  "toProtoRequest req = \<lparr>pir_RequestId = ig_RequestID req, pir_Prompt = ig_Prompt req,
     pir_NegativePrompt = ig_NegativePrompt req, pir_Width = ig_Width req, pir_Height = ig_Height req,
     pir_Steps = ig_Steps req, pir_GuidanceScale = ig_GuidanceScale req, pir_Seed = ig_Seed req,
     pir_NumImages = ig_NumImages req, pir_Scheduler = ig_Scheduler req\<rparr>"

definition fromProtoResult :: "pbImageResponse option \<Rightarrow> GenerateResult option" where
  "fromProtoResult r = (case r of None \<Rightarrow> None
    | Some p \<Rightarrow> Some \<lparr>rs_PNG = pis_Png p, rs_Width = pis_Width p, rs_Height = pis_Height p,
        rs_Seed = pis_Seed p, rs_Steps = pis_Steps p, rs_Scheduler = pis_Scheduler p\<rparr>)"

text \<open>\<open>Client.Generate\<close>; a successful call of the generated stub returns a message.\<close>

definition client_Generate ::
  "(pbImageRequest \<Rightarrow> string + pbImageResponse) \<Rightarrow> ImgGenerateRequest \<Rightarrow> string + GenerateResult option" where
  "client_Generate rpc req = (case rpc (toProtoRequest req) of
      Inl e \<Rightarrow> Inl (''generate image: '' @ e)
    | Inr resp \<Rightarrow> Inr (fromProtoResult (Some resp)))"

definition progress_event :: "pbImageProgress \<Rightarrow> ProgressEvent" where
  "progress_event p = \<lparr>pe_Step = pip_Step p, pe_TotalSteps = pip_TotalSteps p, pe_Done = pip_Done p,
     pe_Result = fromProtoResult (pip_Result p), pe_Error = pip_Error p\<rparr>"

text \<open>
  The goroutine of \<open>Client.Stream\<close> over the outcomes of \<open>Recv\<close>: each comes with whether the context is
  cancelled when it is handled and, then, which branch the \<open>select\<close> takes (True: the send). The result is
  the events sent and whether the channel was closed; an empty list means that \<open>Recv\<close> has not returned.
\<close>

fun image_stream_loop :: "(bool \<times> bool \<times> pbImageProgress recv) list \<Rightarrow> ProgressEvent list \<times> bool" where
  "image_stream_loop [] = ([], False)"
| "image_stream_loop ((gone, pick, RecvEOF) # rs) = ([], True)"
| "image_stream_loop ((gone, pick, RecvErr e) # rs) =
    ([\<lparr>pe_Step = 0, pe_TotalSteps = 0, pe_Done = True, pe_Result = None,
       pe_Error = (if gone then ''cancelled'' else e)\<rparr>], True)"
| "image_stream_loop ((gone, pick, Recv p) # rs) =
    (if gone \<and> \<not> pick then ([], True)
     else if pip_Done p then ([progress_event p], True)
     else case image_stream_loop rs of (evs, shut) \<Rightarrow> (progress_event p # evs, shut))"

type_synonym image_stream = "pbImageRequest \<Rightarrow> string + (bool \<times> bool \<times> pbImageProgress recv) list"

definition client_Stream :: "image_stream \<Rightarrow> ImgGenerateRequest \<Rightarrow> string + ProgressEvent list \<times> bool" where
  "client_Stream rpc req = (case rpc (toProtoRequest req) of
      Inl e \<Rightarrow> Inl (''start image stream: '' @ e)
    | Inr rs \<Rightarrow> Inr (image_stream_loop rs))"

section \<open>Requests\<close>

record image_config =
  ic_DefaultWidth :: int
  ic_DefaultHeight :: int
  ic_DefaultSteps :: int
  ic_DefaultGuidance :: rat
  ic_MaxImages :: int

record GenerateParams =
  gp_Model :: string
  gp_Prompt :: string
  gp_NegativePrompt :: string
  gp_Width :: int
  gp_Height :: int
  gp_Steps :: int
  gp_GuidanceScale :: rat
  gp_Seed :: int
  gp_NumImages :: int
  gp_Scheduler :: string

definition minDimension :: int where "minDimension = 256"
definition maxDimension :: int where "maxDimension = 1536"
definition sizeMultiple :: int where "sizeMultiple = 8"

definition dimension_error :: "int \<Rightarrow> string option" where
  "dimension_error d =
    (if d < minDimension \<or> d > maxDimension then
       Some (''width/height must be between '' @ itoa minDimension @ '' and '' @ itoa maxDimension)
     else if d mod sizeMultiple \<noteq> 0 then Some (''width/height must be a multiple of '' @ itoa sizeMultiple)
     else None)"

definition validateSize :: "int \<Rightarrow> int \<Rightarrow> image_svc_error option" where
  "validateSize w h = map_option ImgInvalidRequest
     (case dimension_error w of Some e \<Rightarrow> Some e | None \<Rightarrow> dimension_error h)"

definition normalize :: "image_config \<Rightarrow> GenerateParams \<Rightarrow> image_svc_error + GenerateParams" where
  "normalize cfg p =
    (if trim_space (gp_Model p) = [] then Inl (ImgInvalidRequest ''model is required'')
     else if trim_space (gp_Prompt p) = [] then Inl (ImgInvalidRequest ''prompt is required'')
     else let w = (if gp_Width p \<le> 0 then ic_DefaultWidth cfg else gp_Width p);
              h = (if gp_Height p \<le> 0 then ic_DefaultHeight cfg else gp_Height p) in
       case validateSize w h of Some e \<Rightarrow> Inl e
     | None \<Rightarrow> let n = (if gp_NumImages p \<le> 0 then 1 else gp_NumImages p);
                  maxN = (if ic_MaxImages cfg \<le> 0 then 1 else ic_MaxImages cfg) in
         if n > maxN then Inl (ImgInvalidRequest (''n exceeds max_images ('' @ itoa maxN @ '')''))
         else Inr (p\<lparr>gp_Width := w, gp_Height := h,
           gp_Steps := (if gp_Steps p \<le> 0 then ic_DefaultSteps cfg else gp_Steps p),
           gp_GuidanceScale := (if gp_GuidanceScale p < 0 then ic_DefaultGuidance cfg else gp_GuidanceScale p),
           gp_NumImages := n\<rparr>))"

section \<open>The adapter to serving (app/adapters.go)\<close>

record ImgResolvedDeployment =
  ird_ID :: string
  ird_TenantID :: string
  ird_Region :: string

definition img_ResolveDeployment ::
  "faults \<Rightarrow> string \<Rightarrow> string \<Rightarrow> serving_db \<Rightarrow> serving_error + ImgResolvedDeployment" where
  "img_ResolveDeployment flt tenant modelName db = (case fst (deployment_Resolve flt tenant modelName db) of
      Inl e \<Rightarrow> Inl e
    | Inr d \<Rightarrow> Inr \<lparr>ird_ID = d_ID d, ird_TenantID = d_TenantID d, ird_Region = d_Region d\<rparr>)"

section \<open>The service\<close>

text \<open>
  \<open>ie_col\<close> and \<open>ie_float32\<close> are what the REAL column and a \<open>float32\<close> keep of a guidance scale;
  \<open>ie_text\<close> is the text of an error of the serving service.
\<close>

record image_env =
  ie_faults :: faults
  ie_cfg :: image_config
  ie_disk :: disk_env
  ie_serving :: serving_db
  ie_text :: "serving_error \<Rightarrow> string"
  ie_col :: "rat \<Rightarrow> rat"
  ie_float32 :: "rat \<Rightarrow> rat"

record image_state =
  im_db :: image_db
  im_files :: files

text \<open>\<open>err.Error()\<close>\<close>

fun img_error_text :: "image_svc_error \<Rightarrow> string" where
  "img_error_text ImgNotFound = ''not found''"
| "img_error_text (ImgInvalidRequest m) = ''invalid request: '' @ m"
| "img_error_text (ImgModelNotFound m) = ''no READY deployment for model: '' @ m"
| "img_error_text (ImgDB m) = m"
| "img_error_text (ImgWorker m) = m"
| "img_error_text (ImgStorage m) = m"

definition img_resolve :: "image_env \<Rightarrow> string \<Rightarrow> string \<Rightarrow> image_svc_error + ImgResolvedDeployment" where
  "img_resolve env tenant modelName = (case img_ResolveDeployment (ie_faults env) tenant modelName (ie_serving env) of
      Inl e \<Rightarrow> Inl (ImgModelNotFound (ie_text env e))
    | Inr d \<Rightarrow> Inr d)"

text \<open>A statement of the repositories on the service's state.\<close>

definition on_db :: "'a image_tx \<Rightarrow> image_state \<Rightarrow> (image_svc_error + 'a) \<times> image_state" where
  "on_db m st = (case m (im_db st) of (r, db) \<Rightarrow> (r, st\<lparr>im_db := db\<rparr>))"

definition storage_Save :: "image_env \<Rightarrow> string \<Rightarrow> bytes \<Rightarrow> image_state \<Rightarrow> (image_svc_error + string) \<times> image_state" where
  "storage_Save env k png st = (case disk_Save (ie_disk env) k png (im_files st) of
      (Inl e, fs) \<Rightarrow> (Inl (ImgStorage e), st\<lparr>im_files := fs\<rparr>)
    | (Inr p, fs) \<Rightarrow> (Inr p, st\<lparr>im_files := fs\<rparr>))"

text \<open>
  The loop that saves the images of a result, which \<open>Generate\<close> and \<open>ExecuteJob\<close> share in all but the
  fields of the asset: \<open>mk\<close> builds the asset of an id and a path; \<open>ids\<close> and \<open>clock\<close> are indexed by image.
\<close>

fun save_images ::
  "image_env \<Rightarrow> (string \<Rightarrow> string \<Rightarrow> Asset) \<Rightarrow> (nat \<Rightarrow> string) \<Rightarrow> (nat \<Rightarrow> int) \<Rightarrow> nat \<Rightarrow> bytes list \<Rightarrow> image_state \<Rightarrow>
   (image_svc_error + Asset list) \<times> image_state" where
  "save_images env mk ids clock i [] st = (Inr [], st)"
| "save_images env mk ids clock i (png # pngs) st = (case storage_Save env (ids i) png st of
      (Inl e, st1) \<Rightarrow> (Inl e, st1)
    | (Inr path, st1) \<Rightarrow> (case on_db (asset_Create (ie_faults env) (ie_col env) (clock i) (mk (ids i) path)) st1 of
        (Inl e, st2) \<Rightarrow> (Inl e, st2)
      | (Inr a, st2) \<Rightarrow> (case save_images env mk ids clock (Suc i) pngs st2 of
          (Inl e, st3) \<Rightarrow> (Inl e, st3)
        | (Inr rest, st3) \<Rightarrow> (Inr (a # rest), st3))))"

definition params_request :: "image_env \<Rightarrow> string \<Rightarrow> GenerateParams \<Rightarrow> ImgGenerateRequest" where
  "params_request env rid p = \<lparr>ig_RequestID = rid, ig_Prompt = gp_Prompt p, ig_NegativePrompt = gp_NegativePrompt p,
     ig_Width = wrap32 (gp_Width p), ig_Height = wrap32 (gp_Height p), ig_Steps = wrap32 (gp_Steps p),
     ig_GuidanceScale = ie_float32 env (gp_GuidanceScale p), ig_Seed = gp_Seed p,
     ig_NumImages = wrap32 (gp_NumImages p), ig_Scheduler = gp_Scheduler p\<rparr>"

definition params_asset :: "string \<Rightarrow> GenerateParams \<Rightarrow> GenerateResult \<Rightarrow> string \<Rightarrow> string \<Rightarrow> Asset" where
  "params_asset tenant p res aid path = \<lparr>as_ID = aid, as_TenantID = tenant, as_JobID = [], as_Model = gp_Model p,
     as_Prompt = gp_Prompt p, as_NegativePrompt = gp_NegativePrompt p, as_Width = rs_Width res,
     as_Height = rs_Height res, as_Steps = rs_Steps res, as_GuidanceScale = gp_GuidanceScale p,
     as_Seed = rs_Seed res, as_Scheduler = rs_Scheduler res, as_Path = path, as_CreatedAt = 0\<rparr>"

record Generation =
  gn_Assets :: "Asset list"
  gn_Seed :: int
  gn_Width :: int
  gn_Height :: int
  gn_Steps :: int
  gn_RevisedPrompt :: string

text \<open>\<open>Service.Generate\<close>; \<open>rpc\<close> never answers with no message, so \<open>result\<close> is not nil.\<close>

definition svc_Generate ::
  "image_env \<Rightarrow> (pbImageRequest \<Rightarrow> string + pbImageResponse) \<Rightarrow> string \<Rightarrow> (nat \<Rightarrow> string) \<Rightarrow> (nat \<Rightarrow> int) \<Rightarrow>
   string \<Rightarrow> GenerateParams \<Rightarrow> image_state \<Rightarrow> (image_svc_error + Generation) \<times> image_state" where
  "svc_Generate env rpc rid ids clock tenant p0 st = (case normalize (ie_cfg env) p0 of
      Inl e \<Rightarrow> (Inl e, st)
    | Inr p \<Rightarrow> (case img_resolve env tenant (gp_Model p) of
        Inl e \<Rightarrow> (Inl e, st)
      | Inr _ \<Rightarrow> (case client_Generate rpc (params_request env rid p) of
          Inl e \<Rightarrow> (Inl (ImgWorker e), st)
        | Inr None \<Rightarrow> (Inl (ImgWorker ''nil result''), st)
        | Inr (Some res) \<Rightarrow> (case save_images env (params_asset tenant p res) ids clock 0 (rs_PNG res) st of
            (Inl e, st1) \<Rightarrow> (Inl e, st1)
          | (Inr assets, st1) \<Rightarrow> (Inr \<lparr>gn_Assets = assets, gn_Seed = rs_Seed res, gn_Width = rs_Width res,
              gn_Height = rs_Height res, gn_Steps = rs_Steps res, gn_RevisedPrompt = gp_Prompt p\<rparr>, st1)))))"

definition new_job :: "string \<Rightarrow> string \<Rightarrow> GenerateParams \<Rightarrow> Job" where
  "new_job jid tenant p = \<lparr>jb_ID = jid, jb_TenantID = tenant, jb_Model = gp_Model p, jb_Status = JobQueued,
     jb_Prompt = gp_Prompt p, jb_NegativePrompt = gp_NegativePrompt p, jb_Width = gp_Width p,
     jb_Height = gp_Height p, jb_Steps = gp_Steps p, jb_GuidanceScale = gp_GuidanceScale p,
     jb_Seed = gp_Seed p, jb_NumImages = gp_NumImages p, jb_Scheduler = gp_Scheduler p,
     jb_ProgressStep = 0, jb_Error = [], jb_CreatedAt = 0, jb_UpdatedAt = 0\<rparr>"

definition svc_CreateJob ::
  "image_env \<Rightarrow> string \<Rightarrow> int \<Rightarrow> string \<Rightarrow> GenerateParams \<Rightarrow> image_state \<Rightarrow> (image_svc_error + Job) \<times> image_state" where
  "svc_CreateJob env jid now tenant p0 st = (case normalize (ie_cfg env) p0 of
      Inl e \<Rightarrow> (Inl e, st)
    | Inr p \<Rightarrow> (case img_resolve env tenant (gp_Model p) of
        Inl e \<Rightarrow> (Inl e, st)
      | Inr _ \<Rightarrow> on_db (job_Create (ie_faults env) (ie_col env) now (new_job jid tenant p)) st))"

text \<open>
  The loop of \<open>ExecuteJob\<close> over the channel of events: an error ends it, a done event ends it with its
  result, and a closed channel ends it with none. \<open>clock\<close> gives the time of each event.
\<close>

datatype loop_end = LoopError string | LoopDone "GenerateResult option" | LoopDrained

fun job_loop ::
  "faults \<Rightarrow> string \<Rightarrow> (nat \<Rightarrow> int) \<Rightarrow> nat \<Rightarrow> ProgressEvent list \<Rightarrow> image_db \<Rightarrow> loop_end \<times> image_db" where
  "job_loop flt jid clock i [] db = (LoopDrained, db)"
| "job_loop flt jid clock i (ev # evs) db =
    (if pe_Error ev \<noteq> [] then (LoopError (pe_Error ev), db)
     else let db1 = (if pe_Step ev > 0 then snd (job_UpdateProgress flt (clock i) jid (pe_Step ev) db) else db) in
       if pe_Done ev then (LoopDone (pe_Result ev), db1)
       else job_loop flt jid clock (Suc i) evs db1)"

definition job_request :: "image_env \<Rightarrow> Job \<Rightarrow> ImgGenerateRequest" where
  "job_request env j = \<lparr>ig_RequestID = jb_ID j, ig_Prompt = jb_Prompt j, ig_NegativePrompt = jb_NegativePrompt j,
     ig_Width = wrap32 (jb_Width j), ig_Height = wrap32 (jb_Height j), ig_Steps = wrap32 (jb_Steps j),
     ig_GuidanceScale = ie_float32 env (jb_GuidanceScale j), ig_Seed = jb_Seed j,
     ig_NumImages = wrap32 (jb_NumImages j), ig_Scheduler = jb_Scheduler j\<rparr>"

definition job_asset :: "Job \<Rightarrow> GenerateResult \<Rightarrow> string \<Rightarrow> string \<Rightarrow> Asset" where
  "job_asset j res aid path = \<lparr>as_ID = aid, as_TenantID = jb_TenantID j, as_JobID = jb_ID j, as_Model = jb_Model j,
     as_Prompt = jb_Prompt j, as_NegativePrompt = jb_NegativePrompt j, as_Width = rs_Width res,
     as_Height = rs_Height res, as_Steps = rs_Steps res, as_GuidanceScale = jb_GuidanceScale j,
     as_Seed = rs_Seed res, as_Scheduler = rs_Scheduler res, as_Path = path, as_CreatedAt = 0\<rparr>"

text \<open>
  What one execution of a job meets: whether the runner's context is cancelled before it (\<open>jr_gone\<close>) and
  when it has failed (\<open>jr_interrupted\<close>), the worker's stream, the ids and times it draws.
\<close>

record job_run =
  jr_gone :: bool
  jr_interrupted :: bool
  jr_stream :: image_stream
  jr_ids :: "nat \<Rightarrow> string"
  jr_event_clock :: "nat \<Rightarrow> int"
  jr_save_clock :: "nat \<Rightarrow> int"
  jr_finish_at :: int

text \<open>
  \<open>Service.ExecuteJob\<close>: None when the worker's stream neither ends nor answers, so that the loop waits
  for an event for ever; otherwise the error it returns, if any.
\<close>

definition ExecuteJob :: "image_env \<Rightarrow> job_run \<Rightarrow> Job \<Rightarrow> image_state \<Rightarrow> (image_svc_error option \<times> image_state) option" where
  "ExecuteJob env jr j st = (case img_resolve env (jb_TenantID j) (jb_Model j) of
      Inl e \<Rightarrow> Some (Some e, st)
    | Inr _ \<Rightarrow> (case client_Stream (jr_stream jr) (job_request env j) of
        Inl e \<Rightarrow> Some (Some (ImgWorker e), st)
      | Inr (evs, shut) \<Rightarrow> (case job_loop (ie_faults env) (jb_ID j) (jr_event_clock jr) 0 evs (im_db st) of
          (LoopError e, db) \<Rightarrow> Some (Some (ImgWorker e), st\<lparr>im_db := db\<rparr>)
        | (LoopDrained, db) \<Rightarrow>
            if shut then Some (Some (ImgWorker ''image stream ended without a result''), st\<lparr>im_db := db\<rparr>) else None
        | (LoopDone None, db) \<Rightarrow> Some (Some (ImgWorker ''image stream ended without a result''), st\<lparr>im_db := db\<rparr>)
        | (LoopDone (Some res), db) \<Rightarrow>
            (case save_images env (job_asset j res) (jr_ids jr) (jr_save_clock jr) 0 (rs_PNG res) (st\<lparr>im_db := db\<rparr>) of
              (Inl e, st1) \<Rightarrow> Some (Some e, st1)
            | (Inr _, st1) \<Rightarrow> Some (None, st1)))))"

definition svc_ListJobs :: "image_env \<Rightarrow> string \<Rightarrow> int \<Rightarrow> image_state \<Rightarrow> image_svc_error + Job list" where
  "svc_ListJobs env tenant limit st = fst (job_List (ie_faults env) tenant limit (im_db st))"

definition svc_GetJob :: "image_env \<Rightarrow> string \<Rightarrow> string \<Rightarrow> image_state \<Rightarrow> image_svc_error + Job" where
  "svc_GetJob env tenant jid st = fst (job_Get (ie_faults env) tenant jid (im_db st))"

definition svc_ListAssets :: "image_env \<Rightarrow> string \<Rightarrow> int \<Rightarrow> image_state \<Rightarrow> image_svc_error + Asset list" where
  "svc_ListAssets env tenant limit st = fst (asset_List (ie_faults env) tenant limit (im_db st))"

definition svc_GetAsset :: "image_env \<Rightarrow> string \<Rightarrow> string \<Rightarrow> image_state \<Rightarrow> image_svc_error + Asset \<times> bytes" where
  "svc_GetAsset env tenant aid st = (case fst (asset_Get (ie_faults env) tenant aid (im_db st)) of
      Inl e \<Rightarrow> Inl e
    | Inr a \<Rightarrow> (case disk_Load (ie_disk env) (as_Path a) (im_files st) of
        Inl e \<Rightarrow> Inl (ImgStorage e)
      | Inr data \<Rightarrow> Inr (a, data)))"

section \<open>The runner\<close>

definition jobLease :: int where "jobLease = 600 * 1000000000"
definition runnerBatch :: int where "runnerBatch = 4"

definition isTerminalJob :: "job_status \<Rightarrow> bool" where
  "isTerminalJob s = (case s of JobSucceeded \<Rightarrow> True | JobFailed \<Rightarrow> True | JobCancelled \<Rightarrow> True | _ \<Rightarrow> False)"

text \<open>
  The loop of \<open>RunOnce\<close> over the claimed jobs: the number of jobs finished and the context's error when
  the context was cancelled; None when a job waits for the worker for ever.
\<close>

definition finish_job :: "image_env \<Rightarrow> job_run \<Rightarrow> Job \<Rightarrow> image_svc_error option \<Rightarrow> image_state \<Rightarrow> image_state" where
  "finish_job env jr j err st = (case err of
      None \<Rightarrow> snd (on_db (job_Finish (ie_faults env) (jr_finish_at jr) (jb_ID j) JobSucceeded []) st)
    | Some e \<Rightarrow> snd (on_db (job_Finish (ie_faults env) (jr_finish_at jr) (jb_ID j) JobFailed (img_error_text e)) st))"

fun run_jobs ::
  "image_env \<Rightarrow> (nat \<Rightarrow> job_run) \<Rightarrow> nat \<Rightarrow> Job list \<Rightarrow> nat \<Rightarrow> image_state \<Rightarrow> ((nat \<times> bool) \<times> image_state) option" where
  "run_jobs env runs i [] finished st = Some ((finished, False), st)"
| "run_jobs env runs i (j # js) finished st =
    (if jr_gone (runs i) then Some ((finished, True), st)
     else case ExecuteJob env (runs i) j st of
       None \<Rightarrow> None
     | Some (err, st1) \<Rightarrow>
         if err \<noteq> None \<and> jr_interrupted (runs i) then Some ((finished, True), st1)
         else run_jobs env runs (Suc i) js (Suc finished) (finish_job env (runs i) j err st1))"

definition RunOnce ::
  "image_env \<Rightarrow> int \<Rightarrow> int \<Rightarrow> (string \<Rightarrow> bool) \<Rightarrow> (Job list \<Rightarrow> Job list) \<Rightarrow> (nat \<Rightarrow> job_run) \<Rightarrow> image_state \<Rightarrow>
   ((image_svc_error + nat \<times> bool) \<times> image_state) option" where
  "RunOnce env polled now locked arrange runs st =
    (case on_db (job_Claim (ie_faults env) now locked arrange runnerBatch (polled - jobLease)) st of
      (Inl e, st1) \<Rightarrow> Some (Inl e, st1)
    | (Inr jobs, st1) \<Rightarrow> map_option (\<lambda>(r, st2). (Inr r, st2)) (run_jobs env runs 0 jobs 0 st1))"

end
