(* ===== verification/ImageHandler.thy ===== *)
theory ImageHandler
  imports ImageService
begin

text \<open>
  The HTTP handlers of the image service (\<open>services/image/handler.go\<close>) and its server-sent events
  (\<open>sse.go\<close>). A handler runs for an authenticated principal, of which it uses the tenant; a request
  body that does not bind is None with the text of the binding error in \<open>hq_bind_error\<close>.
\<close>

section \<open>Requests\<close>

record openAIImageRequest =
  or_Model :: string
  or_Prompt :: string
  or_NegativePrompt :: string
  or_N :: "int option"
  or_Size :: string
  or_Steps :: "int option"
  or_GuidanceScale :: "rat option"
  or_Seed :: "int option"
  or_Scheduler :: string
  or_ResponseFormat :: string

record openAIImage =
  oi_B64JSON :: string
  oi_URL :: string
  oi_RevisedPrompt :: string
  oi_Seed :: int
  oi_Width :: int
  oi_Height :: int
  oi_Steps :: int

text \<open>\<open>intOr\<close>, \<open>floatOr\<close> and \<open>int64Or\<close>: a nil pointer stands for the default.\<close>

definition value_or :: "'a option \<Rightarrow> 'a \<Rightarrow> 'a" where
  "value_or v dflt = (case v of None \<Rightarrow> dflt | Some x \<Rightarrow> x)"

definition size_error :: string where
  "size_error = ''size must be WIDTHxHEIGHT''"

text \<open>\<open>strings.SplitN(s, "x", 2)\<close> has two parts exactly when there is a separator to cut at.\<close>

definition parseSize :: "string \<Rightarrow> string + int \<times> int" where
  "parseSize s = (case cut_at (CHR ''x'') (to_lower (trim_space s)) of
      None \<Rightarrow> Inl size_error
    | Some (a, b) \<Rightarrow> (case (atoi (trim_space a), atoi (trim_space b)) of
        (Some w, Some h) \<Rightarrow> if w \<le> 0 \<or> h \<le> 0 then Inl size_error else Inr (w, h)
      | _ \<Rightarrow> Inl size_error))"

definition toParams :: "openAIImageRequest \<Rightarrow> string + GenerateParams" where
  "toParams r =
    (let p = \<lparr>gp_Model = or_Model r, gp_Prompt = or_Prompt r, gp_NegativePrompt = or_NegativePrompt r,
       gp_Width = 0, gp_Height = 0, gp_Steps = value_or (or_Steps r) 0,
       gp_GuidanceScale = value_or (or_GuidanceScale r) (- 1), gp_Seed = value_or (or_Seed r) (- 1),
       gp_NumImages = value_or (or_N r) 0, gp_Scheduler = or_Scheduler r\<rparr> in
     if or_Size r = [] then Inr p
     else case parseSize (or_Size r) of
       Inl e \<Rightarrow> Inl e
     | Inr (w, h) \<Rightarrow> Inr (p\<lparr>gp_Width := w, gp_Height := h\<rparr>))"

definition parseLimit :: "string \<Rightarrow> int \<Rightarrow> int" where
  "parseLimit v dflt =
    (if v = [] then dflt else case atoi v of
       None \<Rightarrow> dflt | Some n \<Rightarrow> if n < 1 \<or> n > 200 then dflt else n)"

section \<open>Responses\<close>

text \<open>What a handler answers with: a JSON body, or the bytes of an image as \<open>image/png\<close>.\<close>

datatype image_body =
    Images int "openAIImage list"
  | AssetList "Asset list"
  | JobBody Job
  | JobList "Job list"
  | PngData bytes

definition internal_api_error :: "image_svc_error \<Rightarrow> 'a response" where
  "internal_api_error e = WriteAPIError StatusInternalServerError ''INTERNAL_ERROR'' (img_error_text e)"

definition writeGenerateError :: "image_svc_error \<Rightarrow> 'a response" where
  "writeGenerateError e = (case e of
      ImgInvalidRequest _ \<Rightarrow> WriteOpenAIError StatusBadRequest ''invalid_request'' (img_error_text e)
    | ImgModelNotFound _ \<Rightarrow> WriteOpenAIError StatusNotFound ''RESOURCE_NOT_FOUND'' (img_error_text e)
    | _ \<Rightarrow> WriteOpenAIError StatusInternalServerError ''internal_error'' (img_error_text e))"

definition writeResourceError :: "image_svc_error \<Rightarrow> 'a response" where
  "writeResourceError e = (case e of
      ImgNotFound \<Rightarrow> WriteAPIError StatusNotFound ''RESOURCE_NOT_FOUND'' ''not found''
    | _ \<Rightarrow> internal_api_error e)"

section \<open>Handlers\<close>

text \<open>What a request of the generation endpoints draws: the body, ids, times and the worker's answer.\<close>

record image_request =
  hq_tenant :: string
  hq_body :: "openAIImageRequest option"
  hq_bind_error :: string
  hq_rpc :: "pbImageRequest \<Rightarrow> string + pbImageResponse"
  hq_request_id :: string
  hq_ids :: "nat \<Rightarrow> string"
  hq_clock :: "nat \<Rightarrow> int"
  hq_now :: int

definition image_item :: "string \<Rightarrow> Asset \<Rightarrow> openAIImage" where
  "image_item prompt a = \<lparr>oi_B64JSON = [], oi_URL = [], oi_RevisedPrompt = prompt, oi_Seed = as_Seed a,
     oi_Width = as_Width a, oi_Height = as_Height a, oi_Steps = as_Steps a\<rparr>"

fun image_items ::
  "image_env \<Rightarrow> string \<Rightarrow> string \<Rightarrow> string \<Rightarrow> Asset list \<Rightarrow> image_state \<Rightarrow> image_svc_error + openAIImage list" where
  "image_items env tenant format prompt [] st = Inr []"
| "image_items env tenant format prompt (a # as) st =
    (let item = (if format = ''url''
                 then Inr ((image_item prompt a)\<lparr>oi_URL := ''/api/v1/images/assets/'' @ as_ID a\<rparr>)
                 else case svc_GetAsset env tenant (as_ID a) st of
                     Inl e \<Rightarrow> Inl e
                   | Inr (_, raw) \<Rightarrow> Inr ((image_item prompt a)\<lparr>oi_B64JSON := b64_encode_std (map unat raw)\<rparr>)) in
     case item of
       Inl e \<Rightarrow> Inl e
     | Inr it \<Rightarrow> (case image_items env tenant format prompt as st of
         Inl e \<Rightarrow> Inl e
       | Inr its \<Rightarrow> Inr (it # its)))"

definition handleGenerate :: "image_env \<Rightarrow> image_request \<Rightarrow> image_state \<Rightarrow> image_body response \<times> image_state" where
  "handleGenerate env q st = (case hq_body q of
      None \<Rightarrow> (WriteOpenAIError StatusBadRequest ''invalid_request'' (hq_bind_error q), st)
    | Some req \<Rightarrow> (case toParams req of
        Inl e \<Rightarrow> (WriteOpenAIError StatusBadRequest ''invalid_request'' e, st)
      | Inr p \<Rightarrow> (case svc_Generate env (hq_rpc q) (hq_request_id q) (hq_ids q) (hq_clock q) (hq_tenant q) p st of
          (Inl e, st1) \<Rightarrow> (writeGenerateError e, st1)
        | (Inr gen, st1) \<Rightarrow>
            (let format = (if or_ResponseFormat req = [] then ''b64_json'' else or_ResponseFormat req) in
             case image_items env (hq_tenant q) format (gn_RevisedPrompt gen) (gn_Assets gen) st1 of
               Inl e \<Rightarrow> (writeGenerateError e, st1)
             | Inr items \<Rightarrow> (WriteJSON StatusOK (Images (hq_now q div 1000000000) items), st1)))))"

definition handleListAssets :: "image_env \<Rightarrow> string \<Rightarrow> string \<Rightarrow> image_state \<Rightarrow> image_body response" where
  "handleListAssets env tenant limit st = (case svc_ListAssets env tenant (parseLimit limit 50) st of
      Inl e \<Rightarrow> internal_api_error e
    | Inr assets \<Rightarrow> WriteJSON StatusOK (AssetList assets))"

definition handleGetAsset :: "image_env \<Rightarrow> string \<Rightarrow> string \<Rightarrow> image_state \<Rightarrow> image_body response" where
  "handleGetAsset env tenant aid st = (case svc_GetAsset env tenant aid st of
      Inl e \<Rightarrow> writeResourceError e
    | Inr (_, raw) \<Rightarrow> WriteJSON StatusOK (PngData raw))"

definition handleCreateJob :: "image_env \<Rightarrow> image_request \<Rightarrow> image_state \<Rightarrow> image_body response \<times> image_state" where
  "handleCreateJob env q st = (case hq_body q of
      None \<Rightarrow> (WriteAPIError StatusBadRequest ''INVALID_REQUEST'' (hq_bind_error q), st)
    | Some req \<Rightarrow> (case toParams req of
        Inl e \<Rightarrow> (WriteAPIError StatusBadRequest ''INVALID_REQUEST'' e, st)
      | Inr p \<Rightarrow> (case svc_CreateJob env (hq_request_id q) (hq_now q) (hq_tenant q) p st of
          (Inl e, st1) \<Rightarrow> ((case e of
              ImgInvalidRequest _ \<Rightarrow> WriteAPIError StatusBadRequest ''INVALID_REQUEST'' (img_error_text e)
            | ImgModelNotFound _ \<Rightarrow> WriteAPIError StatusNotFound ''RESOURCE_NOT_FOUND'' (img_error_text e)
            | _ \<Rightarrow> internal_api_error e), st1)
        | (Inr job, st1) \<Rightarrow> (WriteJSON StatusAccepted (JobBody job), st1))))"

definition handleListJobs :: "image_env \<Rightarrow> string \<Rightarrow> string \<Rightarrow> image_state \<Rightarrow> image_body response" where
  "handleListJobs env tenant limit st = (case svc_ListJobs env tenant (parseLimit limit 50) st of
      Inl e \<Rightarrow> internal_api_error e
    | Inr jobs \<Rightarrow> WriteJSON StatusOK (JobList jobs))"

definition handleGetJob :: "image_env \<Rightarrow> string \<Rightarrow> string \<Rightarrow> image_state \<Rightarrow> image_body response" where
  "handleGetJob env tenant jid st = (case svc_GetJob env tenant jid st of
      Inl e \<Rightarrow> writeResourceError e
    | Inr job \<Rightarrow> WriteJSON StatusOK (JobBody job))"

section \<open>The event stream of a job\<close>

datatype job_frame = JobFrame Job | ErrorFrame string | DoneFrame

text \<open>
  The loop of \<open>handleJobEvents\<close>, which holds a job and sends it. A poll is what the next round meets:
  whether the write fails, whether the request's context ends before the tick, what \<open>GetJob\<close> then
  returns, and whether the write of its error fails. The result is the frames written and whether the handler returned; it has not when the polls
  run out first.
\<close>

record job_poll =
  po_write_fails :: bool
  po_gone :: bool
  po_next :: "image_svc_error + Job"
  po_error_write_fails :: bool

fun event_loop :: "Job \<Rightarrow> job_poll list \<Rightarrow> job_frame list \<times> bool" where
  "event_loop job [] = ([], False)"
| "event_loop job (p # ps) =
    (if po_write_fails p then ([], True)
     else if isTerminalJob (jb_Status job) then ([JobFrame job, DoneFrame], True)
     else if po_gone p then ([JobFrame job], True)
     else case po_next p of
         Inl e \<Rightarrow> (JobFrame job # (if po_error_write_fails p then [] else [ErrorFrame (img_error_text e), DoneFrame]), True)
       | Inr job' \<Rightarrow> (case event_loop job' ps of (fs, ret) \<Rightarrow> (JobFrame job # fs, ret)))"

datatype events_reply = EventsError "image_body response" | EventStream "job_frame list \<times> bool"

definition handleJobEvents ::
  "image_env \<Rightarrow> bool \<Rightarrow> string \<Rightarrow> string \<Rightarrow> job_poll list \<Rightarrow> image_state \<Rightarrow> events_reply" where
  "handleJobEvents env flushes tenant jid polls st = (case svc_GetJob env tenant jid st of
      Inl e \<Rightarrow> EventsError (writeResourceError e)
    | Inr job \<Rightarrow>
        if \<not> flushes then EventsError (WriteAPIError StatusInternalServerError ''INTERNAL_ERROR'' ''streaming not supported'')
        else EventStream (event_loop job polls))"

end
