(* ===== verification/ImageProofs.thy ===== *)
theory ImageProofs
  imports ImageHandler
begin

text \<open>
  Correctness of the image service: jobs under any interleaving of the statements of the handlers and of
  the runners of several replicas, what one pass of a runner does to the jobs it claimed, what an
  executed job leaves for its tenant, and the bounds of an accepted request.
\<close>

section \<open>The statements that write jobs\<close>

text \<open>
  The statements the service and the runner issue, at a time: \<open>UpdateStatus\<close> is not among them (nothing
  calls it). Statements of several processes interleave in any order.
\<close>

inductive image_step :: "int \<Rightarrow> image_db \<Rightarrow> image_db \<Rightarrow> bool" where
  create_asset: "image_step now db (snd (asset_Create flt col now a db))"
| create_job: "jb_Status j = JobQueued \<Longrightarrow> image_step now db (snd (job_Create flt col now j db))"
| progress_job: "image_step now db (snd (job_UpdateProgress flt now jid step db))"
| claim_jobs: "staleBefore \<le> now \<Longrightarrow> image_step now db (snd (job_Claim flt now locked arrange limit staleBefore db))"
| finish_job: "isTerminalJob st \<Longrightarrow> image_step now db (snd (job_Finish flt now jid st err db))"

text \<open>Any number of statements, none of them before the time \<open>t\<close>.\<close>

inductive image_steps :: "int \<Rightarrow> image_db \<Rightarrow> image_db \<Rightarrow> bool" where
  no_step: "image_steps t db db"
| more_step: "image_steps t db db1 \<Longrightarrow> image_step now db1 db2 \<Longrightarrow> t \<le> now \<Longrightarrow> image_steps t db db2"

lemma image_steps_one: "image_step now db db' \<Longrightarrow> t \<le> now \<Longrightarrow> image_steps t db db'"
  using image_steps.intros by blast

lemma image_steps_trans:
  assumes "image_steps t db1 db2" "image_steps t db0 db1" shows "image_steps t db0 db2"
  using assms by (induction rule: image_steps.induct) (auto intro: more_step)

lemma job_rows_create_asset [simp]: "job_rows (snd (asset_Create flt col now a db)) = job_rows db"
  by (simp add: asset_Create_def Let_def tx_simps split: if_splits)

lemma job_rows_create:
  "job_rows (snd (job_Create flt col now j db)) = job_rows db \<or>
   (\<exists>r. job_rows (snd (job_Create flt col now j db)) = tbl_insert r (job_rows db) \<and>
     jb_ID r = jb_ID j \<and> jb_Status r = jb_Status j \<and> \<not> tbl_has jb_ID (jb_ID j) (job_rows db))"
  by (auto simp: job_Create_def Let_def tx_simps)

lemma job_rows_update [simp]: "job_rows (update_jobs P f db) = map (\<lambda>j. if P j then f j else j) (job_rows db)"
  by (simp add: update_jobs_def)

lemma job_rows_progress:
  "job_rows (snd (job_UpdateProgress flt now jid step db)) = job_rows db \<or>
   job_rows (snd (job_UpdateProgress flt now jid step db)) =
     map (\<lambda>j. if jb_ID j = jid \<and> jb_Status j = JobRunning then j\<lparr>jb_ProgressStep := step, jb_UpdatedAt := now\<rparr> else j) (job_rows db)"
  by (auto simp: job_UpdateProgress_def tx_simps)

lemma job_rows_finish:
  "job_rows (snd (job_Finish flt now jid st err db)) = job_rows db \<or>
   job_rows (snd (job_Finish flt now jid st err db)) =
     map (\<lambda>j. if jb_ID j = jid \<and> jb_Status j = JobRunning then j\<lparr>jb_Status := st, jb_Error := err, jb_UpdatedAt := now\<rparr> else j) (job_rows db)"
  by (auto simp: job_Finish_def tx_simps)

lemma job_rows_claim:
  "job_rows (snd (job_Claim flt now locked arrange limit staleBefore db)) = job_rows db \<or>
   job_rows (snd (job_Claim flt now locked arrange limit staleBefore db)) =
     map (\<lambda>j. if List.member (claimed_ids locked limit staleBefore db) (jb_ID j)
       then j\<lparr>jb_Status := JobRunning, jb_UpdatedAt := now\<rparr> else j) (job_rows db)"
  by (auto simp: job_Claim_def tx_simps)

lemma claimed_claimable:
  "x \<in> set (claimed_ids locked limit staleBefore db) \<Longrightarrow>
    \<exists>j \<in> set (job_rows db). jb_ID j = x \<and> claimable staleBefore j \<and> \<not> locked x"
  unfolding claimed_ids_def by (force dest!: in_set_takeD)

section \<open>A finished job stays as it is\<close>

text \<open>Job ids are the primary key; statements keep them unique.\<close>

definition jobs_keyed :: "image_db \<Rightarrow> bool" where
  "jobs_keyed db \<longleftrightarrow> tbl_unique jb_ID (job_rows db)"

lemma keyed_row: "jobs_keyed db \<Longrightarrow> j \<in> set (job_rows db) \<Longrightarrow> k \<in> set (job_rows db) \<Longrightarrow> jb_ID j = jb_ID k \<Longrightarrow> j = k"
  by (metis jobs_keyed_def option.inject tbl_find_unique)

lemma map_keeps_keys: "(\<And>j. jb_ID (f j) = jb_ID j) \<Longrightarrow> tbl_unique jb_ID (map f rows) = tbl_unique jb_ID rows"
  by (simp add: tbl_unique_def comp_def)

lemma image_step_keyed: "image_step now db db' \<Longrightarrow> jobs_keyed db \<Longrightarrow> jobs_keyed db'"
proof (induction rule: image_step.induct)
  case (create_job j now db flt col)
  then show ?case using job_rows_create[of flt col now j db] by (auto simp: jobs_keyed_def tbl_unique_insert)
next
  case (progress_job now db flt jid step)
  then show ?case using job_rows_progress[of flt now jid step db] by (auto simp: jobs_keyed_def map_keeps_keys)
next
  case (claim_jobs staleBefore now db flt locked arrange limit)
  then show ?case using job_rows_claim[of flt now locked arrange limit staleBefore db] by (auto simp: jobs_keyed_def map_keeps_keys)
next
  case (finish_job st now db flt jid err)
  then show ?case using job_rows_finish[of flt now jid st err db] by (auto simp: jobs_keyed_def map_keeps_keys)
qed (simp add: jobs_keyed_def)

lemma terminal_not_running: "isTerminalJob s \<Longrightarrow> s \<noteq> JobRunning \<and> s \<noteq> JobQueued"
  by (cases s) (simp_all add: isTerminalJob_def)

lemma terminal_not_claimed:
  assumes "jobs_keyed db" "j \<in> set (job_rows db)" "isTerminalJob (jb_Status j)"
  shows "jb_ID j \<notin> set (claimed_ids locked limit staleBefore db)"
proof
  assume "jb_ID j \<in> set (claimed_ids locked limit staleBefore db)"
  then obtain k where "k \<in> set (job_rows db)" "jb_ID k = jb_ID j" "claimable staleBefore k"
    using claimed_claimable by blast
  then have "claimable staleBefore j" using keyed_row assms(1,2) by metis
  then show False using terminal_not_running[OF assms(3)] by (simp add: claimable_def)
qed

lemma image_step_final:
  "image_step now db db' \<Longrightarrow> jobs_keyed db \<Longrightarrow> j \<in> set (job_rows db) \<Longrightarrow> isTerminalJob (jb_Status j) \<Longrightarrow>
    j \<in> set (job_rows db')"
proof (induction rule: image_step.induct)
  case (create_job k now db flt col)
  then show ?case using job_rows_create[of flt col now k db] by (auto simp: tbl_insert_def)
next
  case (progress_job now db flt jid step)
  then show ?case using job_rows_progress[of flt now jid step db] terminal_not_running by fastforce
next
  case (claim_jobs staleBefore now db flt locked arrange limit)
  then show ?case
    using job_rows_claim[of flt now locked arrange limit staleBefore db] terminal_not_claimed[of db j locked limit staleBefore]
    by (force simp: image_iff)
next
  case (finish_job st now db flt jid err)
  then show ?case using job_rows_finish[of flt now jid st err db] terminal_not_running by fastforce
qed simp

lemma image_steps_final:
  assumes "image_steps t db db'" "jobs_keyed db" "j \<in> set (job_rows db)" "isTerminalJob (jb_Status j)"
  shows "jobs_keyed db' \<and> j \<in> set (job_rows db')"
  using assms by (induction rule: image_steps.induct) (auto intro: image_step_final image_step_keyed)

section \<open>Claims within a lease are disjoint\<close>

text \<open>The rows of some ids are held since a time: finished, or running and touched no earlier.\<close>

definition held_since :: "int \<Rightarrow> string set \<Rightarrow> image_db \<Rightarrow> bool" where
  "held_since t ids db \<longleftrightarrow> (\<forall>j \<in> set (job_rows db). jb_ID j \<in> ids \<longrightarrow>
     isTerminalJob (jb_Status j) \<or> jb_Status j = JobRunning \<and> t \<le> jb_UpdatedAt j)"

lemma held_not_claimed: "held_since t ids db \<Longrightarrow> staleBefore \<le> t \<Longrightarrow> x \<in> ids \<Longrightarrow> x \<notin> set (claimed_ids locked limit staleBefore db)"
  using claimed_claimable[of x locked limit staleBefore db] terminal_not_running
  by (fastforce simp: held_since_def claimable_def)

definition held_row :: "int \<Rightarrow> Job \<Rightarrow> bool" where
  "held_row t j \<longleftrightarrow> isTerminalJob (jb_Status j) \<or> jb_Status j = JobRunning \<and> t \<le> jb_UpdatedAt j"

lemma held_since_rows: "held_since t ids db \<longleftrightarrow> (\<forall>j \<in> set (job_rows db). jb_ID j \<in> ids \<longrightarrow> held_row t j)"
  by (simp add: held_since_def held_row_def)

lemma held_map:
  assumes "held_since t ids db" "job_rows db' = map f (job_rows db)"
    and "\<And>j. jb_ID (f j) = jb_ID j" "\<And>j. held_row t j \<Longrightarrow> held_row t (f j)"
  shows "held_since t ids db' \<and> jb_ID ` set (job_rows db') = jb_ID ` set (job_rows db)"
  using assms by (simp add: held_since_rows image_image)

lemma held_step:
  "image_step now db db' \<Longrightarrow> t \<le> now \<Longrightarrow> ids \<subseteq> jb_ID ` set (job_rows db) \<Longrightarrow> held_since t ids db \<Longrightarrow>
    held_since t ids db' \<and> ids \<subseteq> jb_ID ` set (job_rows db')"
proof (induction rule: image_step.induct)
  case (create_job j now db flt col)
  show ?case using job_rows_create[of flt col now j db]
  proof (elim disjE exE conjE)
    fix r assume r: "job_rows (snd (job_Create flt col now j db)) = tbl_insert r (job_rows db)"
      "jb_ID r = jb_ID j" "\<not> tbl_has jb_ID (jb_ID j) (job_rows db)"
    then have "jb_ID r \<notin> ids" using create_job.prems(2) by (auto simp: tbl_has_iff)
    then show ?thesis using create_job.prems r(1) by (auto simp: held_since_rows tbl_insert_def)
  qed (use create_job.prems in \<open>simp add: held_since_def\<close>)
next
  case (progress_job now db flt jid step)
  show ?case using job_rows_progress[of flt now jid step db]
  proof
    assume rows: "job_rows (snd (job_UpdateProgress flt now jid step db)) = map (\<lambda>j. if jb_ID j = jid \<and> jb_Status j = JobRunning
      then j\<lparr>jb_ProgressStep := step, jb_UpdatedAt := now\<rparr> else j) (job_rows db)"
    show ?thesis using held_map[OF progress_job.prems(3) rows] progress_job.prems by (auto simp: held_row_def)
  qed (use progress_job.prems in \<open>simp add: held_since_def\<close>)
next
  case (claim_jobs staleBefore now db flt locked arrange limit)
  show ?case using job_rows_claim[of flt now locked arrange limit staleBefore db]
  proof
    assume rows: "job_rows (snd (job_Claim flt now locked arrange limit staleBefore db)) =
      map (\<lambda>j. if List.member (claimed_ids locked limit staleBefore db) (jb_ID j)
       then j\<lparr>jb_Status := JobRunning, jb_UpdatedAt := now\<rparr> else j) (job_rows db)"
    show ?thesis using held_map[OF claim_jobs.prems(3) rows] claim_jobs.prems by (auto simp: held_row_def)
  qed (use claim_jobs.prems in \<open>simp add: held_since_def\<close>)
next
  case (finish_job st now db flt jid err)
  show ?case using job_rows_finish[of flt now jid st err db]
  proof
    assume rows: "job_rows (snd (job_Finish flt now jid st err db)) = map (\<lambda>j. if jb_ID j = jid \<and> jb_Status j = JobRunning
      then j\<lparr>jb_Status := st, jb_Error := err, jb_UpdatedAt := now\<rparr> else j) (job_rows db)"
    show ?thesis using held_map[OF finish_job.prems(3) rows] finish_job.prems finish_job.hyps by (auto simp: held_row_def)
  qed (use finish_job.prems in \<open>simp add: held_since_def\<close>)
qed (simp add: held_since_def)

lemma held_steps:
  assumes "image_steps t db db'" "ids \<subseteq> jb_ID ` set (job_rows db)" "held_since t ids db"
  shows "held_since t ids db'"
proof -
  have "held_since t ids db' \<and> ids \<subseteq> jb_ID ` set (job_rows db')"
    using assms by (induction rule: image_steps.induct) (auto dest: held_step)
  then show ?thesis ..
qed

lemma ids_updated: "(\<And>j. jb_ID (f j) = jb_ID j) \<Longrightarrow> jb_ID ` set (map (\<lambda>j. if P j then f j else j) rows) = jb_ID ` set rows"
  by (simp only: set_map image_image) (rule image_cong; simp)

text \<open>A claim that succeeds returns the rows of the ids it chose, running since now.\<close>

lemma claim_result:
  assumes "job_Claim flt now locked arrange limit staleBefore db = (Inr jobs, db')" "\<And>xs. set (arrange xs) = set xs"
  shows "set jobs = {j \<in> set (job_rows db'). jb_ID j \<in> set (claimed_ids locked limit staleBefore db)} \<or> jobs = [] \<and> db' = db \<and> limit \<le> 0"
    and "limit > 0 \<Longrightarrow> held_since now (set (claimed_ids locked limit staleBefore db)) db'"
    and "set (claimed_ids locked limit staleBefore db) \<subseteq> jb_ID ` set (job_rows db)"
    and "jb_ID ` set (job_rows db') = jb_ID ` set (job_rows db)"
proof -
  show "set (claimed_ids locked limit staleBefore db) \<subseteq> jb_ID ` set (job_rows db)"
    using claimed_claimable by fastforce
  show "set jobs = {j \<in> set (job_rows db'). jb_ID j \<in> set (claimed_ids locked limit staleBefore db)} \<or> jobs = [] \<and> db' = db \<and> limit \<le> 0"
    using assms by (auto simp: job_Claim_def tx_simps split: if_splits)
  show "limit > 0 \<Longrightarrow> held_since now (set (claimed_ids locked limit staleBefore db)) db'"
    using assms(1) by (auto simp: job_Claim_def tx_simps held_since_def split: if_splits)
  show "jb_ID ` set (job_rows db') = jb_ID ` set (job_rows db)"
    using job_rows_claim[of flt now locked arrange limit staleBefore db]
    unfolding assms(1) snd_conv by (elim disjE; simp only:) (rule ids_updated, simp)
qed

lemma claims_disjoint:
  assumes arr: "\<And>xs. set (arrange xs) = set xs" "\<And>xs. set (arrange' xs) = set xs"
    and c1: "job_Claim flt now locked arrange limit stale db = (Inr jobs, db1)"
    and run: "image_steps now db1 db2"
    and c2: "job_Claim flt' now' locked' arrange' limit' stale' db2 = (Inr jobs', db3)"
    and lease: "stale' \<le> now"
  shows "jb_ID ` set jobs \<inter> jb_ID ` set jobs' = {}"
proof (cases "limit > 0")
  case True
  let ?ids = "set (claimed_ids locked limit stale db)"
  have "held_since now ?ids db2"
    using run claim_result(3,4)[OF c1 arr(1)] claim_result(2)[OF c1 arr(1) True] by (intro held_steps[OF run]) auto
  then have "?ids \<inter> set (claimed_ids locked' limit' stale' db2) = {}"
    using held_not_claimed[OF _ lease] by blast
  moreover have "jb_ID ` set jobs \<subseteq> ?ids" using claim_result(1)[OF c1 arr(1)] by auto
  moreover have "jb_ID ` set jobs' \<subseteq> set (claimed_ids locked' limit' stale' db2)" using claim_result(1)[OF c2 arr(2)] by auto
  ultimately show ?thesis by blast
next
  case False
  then have "jobs = []" using c1 by (simp add: job_Claim_def tx_simps split: if_splits)
  then show ?thesis by simp
qed

section \<open>What one pass of a runner does\<close>

text \<open>Statements of an execution leave ids, statuses and other jobs' rows alone.\<close>

abbreviation stage :: "Job \<Rightarrow> string \<times> job_status" where
  "stage j \<equiv> (jb_ID j, jb_Status j)"

lemma stage_progress: "map stage (job_rows (snd (job_UpdateProgress flt now jid n db))) = map stage (job_rows db)"
  using job_rows_progress[of flt now jid n db] by (elim disjE; simp only: map_map) (simp add: comp_def)

lemma stage_loop:
  "map stage (job_rows (snd (job_loop flt jid clock i evs db))) = map stage (job_rows db)"
proof (induction evs arbitrary: i db)
  case (Cons ev evs)
  show ?case using Cons[of "Suc i"] by (simp add: Let_def stage_progress)
qed simp

lemma storage_Save_db: "storage_Save env k png st = (r, st1) \<Longrightarrow> im_db st1 = im_db st"
  by (auto simp: storage_Save_def split: prod.splits sum.splits)

lemma rows_save_images:
  "save_images env mk ids clock i pngs st = (r, st1) \<Longrightarrow> job_rows (im_db st1) = job_rows (im_db st)"
proof (induction pngs arbitrary: i st r st1)
  case (Cons png pngs)
  then show ?case
    by (auto simp: on_db_def split: prod.splits sum.splits dest!: storage_Save_db)
      (metis job_rows_create_asset snd_conv)+
qed simp

text \<open>The ways an execution ends.\<close>

lemma ExecuteJob_cases:
  assumes "ExecuteJob env jr j st = Some (err, st1)"
  obtains (early) e where "err = Some e" "st1 = st"
  | (looped) evs shut out db e where "client_Stream (jr_stream jr) (job_request env j) = Inr (evs, shut)"
      "job_loop (ie_faults env) (jb_ID j) (jr_event_clock jr) 0 evs (im_db st) = (out, db)"
      "err = Some e" "st1 = st\<lparr>im_db := db\<rparr>"
  | (saved) evs shut db res r where "client_Stream (jr_stream jr) (job_request env j) = Inr (evs, shut)"
      "job_loop (ie_faults env) (jb_ID j) (jr_event_clock jr) 0 evs (im_db st) = (LoopDone (Some res), db)"
      "save_images env (job_asset j res) (jr_ids jr) (jr_save_clock jr) 0 (rs_PNG res) (st\<lparr>im_db := db\<rparr>) = (r, st1)"
      "err = (case r of Inl e \<Rightarrow> Some e | Inr _ \<Rightarrow> None)"
proof (cases "img_resolve env (jb_TenantID j) (jb_Model j)")
  case (Inl e)
  then have "err = Some e" "st1 = st" using assms by (simp_all add: ExecuteJob_def)
  then show ?thesis by (rule early)
next
  case resolved: (Inr d)
  show ?thesis
  proof (cases "client_Stream (jr_stream jr) (job_request env j)")
    case (Inl e)
    then have "err = Some (ImgWorker e)" "st1 = st" using assms resolved by (simp_all add: ExecuteJob_def)
    then show ?thesis by (rule early)
  next
    case (Inr p)
    obtain evs shut where p: "p = (evs, shut)" by (rule prod.exhaust)
    obtain out db where loop: "job_loop (ie_faults env) (jb_ID j) (jr_event_clock jr) 0 evs (im_db st) = (out, db)"
      by (rule prod.exhaust)
    show ?thesis
    proof (cases "\<exists>res. out = LoopDone (Some res)")
      case True
      then obtain res where out: "out = LoopDone (Some res)" by blast
      obtain r st2 where save: "save_images env (job_asset j res) (jr_ids jr) (jr_save_clock jr) 0 (rs_PNG res) (st\<lparr>im_db := db\<rparr>) = (r, st2)"
        by (rule prod.exhaust)
      then have "st2 = st1" "err = (case r of Inl e \<Rightarrow> Some e | Inr _ \<Rightarrow> None)"
        using assms resolved Inr p loop out by (simp_all add: ExecuteJob_def split: sum.splits)
      then show ?thesis using saved Inr p loop out save by blast
    next
      case False
      then have "\<exists>e. err = Some e \<and> st1 = st\<lparr>im_db := db\<rparr>"
        using assms resolved Inr p loop by (auto simp: ExecuteJob_def split: loop_end.splits option.splits if_splits)
      then show ?thesis using looped Inr p loop by blast
    qed
  qed
qed

lemma stage_ExecuteJob:
  assumes "ExecuteJob env jr j st = Some (err, st1)"
  shows "map stage (job_rows (im_db st1)) = map stage (job_rows (im_db st))"
  using assms
proof (cases rule: ExecuteJob_cases)
  case (looped evs shut out db e)
  then show ?thesis using stage_loop[of "ie_faults env" "jb_ID j" "jr_event_clock jr" 0 evs "im_db st"] by simp
next
  case (saved evs shut db res r)
  then show ?thesis
    using stage_loop[of "ie_faults env" "jb_ID j" "jr_event_clock jr" 0 evs "im_db st"] rows_save_images[OF saved(3)] by simp
qed simp

text \<open>The jobs of a batch: those already handled are finished, and all are finished or running.\<close>

definition batch_state :: "string set \<Rightarrow> string set \<Rightarrow> image_db \<Rightarrow> bool" where
  "batch_state finished batch db \<longleftrightarrow> (\<forall>(i, s) \<in> set (map stage (job_rows db)).
     (i \<in> batch \<longrightarrow> isTerminalJob s \<or> s = JobRunning) \<and> (i \<in> finished \<longrightarrow> isTerminalJob s))"

definition no_finish_fault :: "faults \<Rightarrow> bool" where
  "no_finish_fault flt \<longleftrightarrow> (\<forall>k. \<not> flt ''finish image job'' k)"

lemma batch_finish:
  assumes "no_finish_fault (ie_faults env)" "batch_state F B (im_db st)" "jb_ID j \<in> B"
  shows "batch_state (insert (jb_ID j) F) B (im_db (finish_job env jr j err st))"
proof -
  have "im_db (finish_job env jr j err st) =
      update_jobs (\<lambda>k. jb_ID k = jb_ID j \<and> jb_Status k = JobRunning)
       (\<lambda>k. k\<lparr>jb_Status := (if err = None then JobSucceeded else JobFailed),
            jb_Error := (case err of None \<Rightarrow> [] | Some e \<Rightarrow> img_error_text e), jb_UpdatedAt := jr_finish_at jr\<rparr>) (im_db st)"
    using assms(1) by (simp add: finish_job_def on_db_def job_Finish_def tx_simps no_finish_fault_def split: option.splits)
  then show ?thesis
    using assms(2,3) by (auto simp: batch_state_def isTerminalJob_def)
qed

lemma run_jobs_finishes:
  "run_jobs env runs i js n st = Some ((m, False), st') \<Longrightarrow> no_finish_fault (ie_faults env) \<Longrightarrow>
    batch_state F B (im_db st) \<Longrightarrow> jb_ID ` set js \<subseteq> B \<Longrightarrow>
    m = n + length js \<and> batch_state (F \<union> jb_ID ` set js) B (im_db st')"
proof (induction js arbitrary: i n st F)
  case (Cons j js)
  from Cons.prems(1) obtain err st1 where ex: "ExecuteJob env (runs i) j st = Some (err, st1)"
    by (auto split: if_splits option.splits)
  with Cons.prems(1) have rest: "run_jobs env runs (Suc i) js (Suc n) (finish_job env (runs i) j err st1) = Some ((m, False), st')"
    by (auto split: if_splits)
  have "batch_state F B (im_db st1)"
    using Cons.prems(3) stage_ExecuteJob[OF ex] by (simp add: batch_state_def del: list.set_map)
  then have "batch_state (insert (jb_ID j) F) B (im_db (finish_job env (runs i) j err st1))"
    using batch_finish Cons.prems(2,4) by simp
  from Cons.IH[OF rest Cons.prems(2) this] Cons.prems(4) show ?case by simp
qed simp

text \<open>A pass and the handlers are runs of statements.\<close>

definition late :: "int \<Rightarrow> job_run \<Rightarrow> bool" where
  "late t jr \<longleftrightarrow> (\<forall>i. t \<le> jr_event_clock jr i \<and> t \<le> jr_save_clock jr i) \<and> t \<le> jr_finish_at jr"

lemma loop_steps:
  "(\<And>i. t \<le> clock i) \<Longrightarrow> image_steps t db (snd (job_loop flt jid clock i evs db))"
proof (induction evs arbitrary: i db)
  case (Cons ev evs)
  have "image_steps t db (if pe_Step ev > 0 then snd (job_UpdateProgress flt (clock i) jid (pe_Step ev) db) else db)"
    using Cons.prems by (auto intro: no_step image_steps_one progress_job)
  from image_steps_trans[OF Cons.IH[OF Cons.prems] this] this show ?case by (auto simp: Let_def intro: no_step)
qed (simp add: no_step)

lemma save_steps:
  "save_images env mk ids clock i pngs st = (r, st1) \<Longrightarrow> (\<And>i. t \<le> clock i) \<Longrightarrow> image_steps t (im_db st) (im_db st1)"
proof (induction pngs arbitrary: i st r st1)
  case (Cons png pngs)
  obtain r0 sa where save: "storage_Save env (ids i) png st = (r0, sa)" by (rule prod.exhaust)
  show ?case
  proof (cases r0)
    case (Inl e)
    then show ?thesis using Cons.prems(1) save storage_Save_db[OF save] by (simp add: no_step)
  next
    case (Inr path)
    obtain r1 sb where create: "on_db (asset_Create (ie_faults env) (ie_col env) (clock i) (mk (ids i) path)) sa = (r1, sb)"
      by (rule prod.exhaust)
    then have "im_db sb = snd (asset_Create (ie_faults env) (ie_col env) (clock i) (mk (ids i) path) (im_db sa))"
      by (auto simp: on_db_def split: prod.splits)
    then have one: "image_steps t (im_db st) (im_db sb)"
      using Cons.prems(2) storage_Save_db[OF save] by (auto intro: image_steps_one create_asset)
    show ?thesis
    proof (cases r1)
      case (Inl e)
      then show ?thesis using Cons.prems(1) save Inr create one by simp
    next
      case (Inr a)
      obtain r2 sc where more: "save_images env mk ids clock (Suc i) pngs sb = (r2, sc)" by (rule prod.exhaust)
      then have "st1 = sc" using Cons.prems(1) save \<open>r0 = Inr path\<close> create Inr by (auto split: sum.splits)
      then show ?thesis using image_steps_trans[OF Cons.IH[OF more Cons.prems(2)] one] by simp
    qed
  qed
qed (simp add: no_step)

lemma execute_steps:
  assumes "ExecuteJob env jr j st = Some (err, st1)" "late t jr"
  shows "image_steps t (im_db st) (im_db st1)"
  using assms(1)
proof (cases rule: ExecuteJob_cases)
  case (looped evs shut out db e)
  then show ?thesis
    using loop_steps[of t "jr_event_clock jr" "im_db st" "ie_faults env" "jb_ID j" 0 evs] assms(2) by (simp add: late_def)
next
  case (saved evs shut db res r)
  have "image_steps t (im_db st) db"
    using loop_steps[of t "jr_event_clock jr" "im_db st" "ie_faults env" "jb_ID j" 0 evs] assms(2) saved(2) by (simp add: late_def)
  then show ?thesis using image_steps_trans[OF save_steps[OF saved(3)]] assms(2) by (simp add: late_def)
qed (simp add: no_step)

lemma finish_steps: "t \<le> jr_finish_at jr \<Longrightarrow> image_steps t (im_db st) (im_db (finish_job env jr j err st))"
  by (auto simp: finish_job_def on_db_def isTerminalJob_def split: prod.splits option.splits
      intro!: image_steps_one)
    (metis finish_job isTerminalJob_def job_status.simps(23,24) snd_conv)+

lemma run_jobs_steps:
  "run_jobs env runs i js n st = Some (r, st') \<Longrightarrow> (\<And>i. late t (runs i)) \<Longrightarrow> image_steps t (im_db st) (im_db st')"
proof (induction js arbitrary: i n st)
  case (Cons j js)
  show ?case
  proof (cases "jr_gone (runs i)")
    case True
    then show ?thesis using Cons.prems(1) by (simp add: no_step)
  next
    case False
    obtain err st1 where ex: "ExecuteJob env (runs i) j st = Some (err, st1)"
      using Cons.prems(1) False by (auto split: option.splits)
    have one: "image_steps t (im_db st) (im_db st1)" by (rule execute_steps[OF ex Cons.prems(2)])
    show ?thesis
    proof (cases "err \<noteq> None \<and> jr_interrupted (runs i)")
      case True
      then show ?thesis using Cons.prems(1) False ex one by auto
    next
      case go: False
      then have rest: "run_jobs env runs (Suc i) js (Suc n) (finish_job env (runs i) j err st1) = Some (r, st')"
        using Cons.prems(1) False ex by auto
      have "image_steps t (im_db st) (im_db (finish_job env (runs i) j err st1))"
        using image_steps_trans[OF finish_steps one] Cons.prems(2)[of i] by (simp add: late_def)
      from image_steps_trans[OF Cons.IH[OF rest Cons.prems(2)] this] show ?thesis .
    qed
  qed
qed (simp add: no_step)

lemma RunOnce_split:
  assumes "RunOnce env polled now locked arrange runs st = Some (r, st')"
  obtains (no_claim) e where "job_Claim (ie_faults env) now locked arrange runnerBatch (polled - jobLease) (im_db st) = (Inl e, im_db st')"
      "r = Inl e" "im_files st' = im_files st"
  | (claimed) jobs db out where
      "job_Claim (ie_faults env) now locked arrange runnerBatch (polled - jobLease) (im_db st) = (Inr jobs, db)"
      "run_jobs env runs 0 jobs 0 (st\<lparr>im_db := db\<rparr>) = Some (out, st')" "r = Inr out"
proof -
  obtain c db where c: "job_Claim (ie_faults env) now locked arrange runnerBatch (polled - jobLease) (im_db st) = (c, db)"
    by (rule prod.exhaust)
  show ?thesis
  proof (cases c)
    case (Inl e)
    then have "r = Inl e" "st' = st\<lparr>im_db := db\<rparr>" using assms c by (simp_all add: RunOnce_def on_db_def)
    then show ?thesis using no_claim c Inl by simp
  next
    case (Inr jobs)
    then show ?thesis using assms c by (auto simp: RunOnce_def on_db_def intro: claimed)
  qed
qed

lemma RunOnce_steps:
  assumes "RunOnce env polled now locked arrange runs st = Some (r, st')"
    and "\<And>i. late t (runs i)" "t \<le> now" "polled \<le> now"
  shows "image_steps t (im_db st) (im_db st')"
proof -
  have "polled - jobLease \<le> now" using assms(4) by (simp add: jobLease_def)
  then have claim: "image_steps t (im_db st) (snd (job_Claim (ie_faults env) now locked arrange runnerBatch (polled - jobLease) (im_db st)))"
    using assms(3) by (blast intro: image_steps_one claim_jobs)
  show ?thesis
    using assms(1)
  proof (cases rule: RunOnce_split)
    case (claimed jobs db out)
    then show ?thesis using image_steps_trans[OF run_jobs_steps[OF claimed(2) assms(2)]] claim by simp
  qed (use claim in simp)
qed

lemma Generate_steps:
  assumes "svc_Generate env rpc rid ids clock tenant p st = (r, st')" "\<And>i. t \<le> clock i"
  shows "image_steps t (im_db st) (im_db st')"
proof (cases "st' = st")
  case False
  then obtain p' res r' where "save_images env (params_asset tenant p' res) ids clock 0 (rs_PNG res) st = (r', st')"
    using assms(1) by (auto simp: svc_Generate_def split: sum.splits option.splits prod.splits)
  then show ?thesis using assms(2) by (rule save_steps)
qed (simp add: no_step)

lemma CreateJob_steps:
  assumes "svc_CreateJob env jid now tenant p st = (r, st')" "t \<le> now"
  shows "image_steps t (im_db st) (im_db st')"
proof (cases "st' = st")
  case False
  then obtain p' where "on_db (job_Create (ie_faults env) (ie_col env) now (new_job jid tenant p')) st = (r, st')"
    using assms(1) by (auto simp: svc_CreateJob_def split: sum.splits)
  then have "im_db st' = snd (job_Create (ie_faults env) (ie_col env) now (new_job jid tenant p') (im_db st))"
    by (auto simp: on_db_def split: prod.splits)
  then show ?thesis using assms(2) by (auto intro!: image_steps_one create_job simp: new_job_def)
qed (simp add: no_step)

lemma handleGenerate_state:
  assumes "handleGenerate env q st = (r, st')"
  shows "st' = st \<or> (\<exists>p r'. svc_Generate env (hq_rpc q) (hq_request_id q) (hq_ids q) (hq_clock q) (hq_tenant q) p st = (r', st'))"
  using assms by (auto simp: handleGenerate_def Let_def split: option.splits sum.splits prod.splits)

lemma handleCreateJob_state:
  assumes "handleCreateJob env q st = (r, st')"
  shows "st' = st \<or> (\<exists>p r'. svc_CreateJob env (hq_request_id q) (hq_now q) (hq_tenant q) p st = (r', st'))"
  using assms by (auto simp: handleCreateJob_def split: option.splits sum.splits prod.splits)

section \<open>Jobs: the properties\<close>

text \<open>
  C14: a finished job is final. Whatever statements of handlers and runners follow, in any interleaving,
  its row stays in the table exactly as it was when it finished.
\<close>

theorem finished_jobs_are_final:
  assumes "image_steps t db db'" "jobs_keyed db" "j \<in> set (job_rows db)" "isTerminalJob (jb_Status j)"
  shows "j \<in> set (job_rows db')"
  using image_steps_final[OF assms] by simp

text \<open>
  C15: no two runners execute the same job within a lease. The jobs of a claim and the jobs of any later
  claim whose poll is less than a lease after it are disjoint, whatever statements ran in between.
\<close>

theorem claims_within_a_lease_are_disjoint:
  assumes "\<And>xs. set (arrange xs) = set xs" "\<And>xs. set (arrange' xs) = set xs"
    and "job_Claim flt now locked arrange runnerBatch (polled - jobLease) db = (Inr jobs, db1)"
    and "image_steps now db1 db2"
    and "job_Claim flt' now' locked' arrange' runnerBatch (polled' - jobLease) db2 = (Inr jobs', db3)"
    and "polled' \<le> now + jobLease"
  shows "jb_ID ` set jobs \<inter> jb_ID ` set jobs' = {}"
  using claims_disjoint[OF assms(1-5)] assms(6) by simp

lemma claim_keyed: "jobs_keyed db \<Longrightarrow> jobs_keyed (snd (job_Claim flt now locked arrange limit staleBefore db))"
  using job_rows_claim[of flt now locked arrange limit staleBefore db] by (auto simp: jobs_keyed_def map_keeps_keys)

lemma claim_count:
  assumes "job_Claim flt now locked arrange limit staleBefore db = (Inr jobs, db')" "limit > 0"
    and "\<And>xs. length (arrange xs) = length xs" "jobs_keyed db"
  shows "length jobs = card (set (claimed_ids locked limit staleBefore db))"
proof -
  let ?ids = "claimed_ids locked limit staleBefore db"
  let ?rows = "filter (\<lambda>j. jb_ID j \<in> set ?ids) (job_rows db')"
  have keyed: "distinct (map jb_ID (job_rows db'))"
    using claim_keyed[OF assms(4), of flt now locked arrange limit staleBefore] assms(1) by (simp add: jobs_keyed_def tbl_unique_def)
  have "length jobs = length ?rows" using assms(1-3) by (auto simp: job_Claim_def tx_simps split: if_splits)
  also have "\<dots> = card (jb_ID ` set ?rows)"
    using distinct_card[of "map jb_ID ?rows"] distinct_map_filter[OF keyed] by simp
  also have "jb_ID ` set ?rows = set ?ids"
  proof -
    have "jb_ID ` set (job_rows db') = jb_ID ` set (job_rows db)"
      using job_rows_claim[of flt now locked arrange limit staleBefore db]
      unfolding assms(1) snd_conv by (elim disjE; simp only:) (rule ids_updated, simp)
    then have "set ?ids \<subseteq> jb_ID ` set (job_rows db')" using claimed_claimable[of _ locked limit staleBefore db] by fastforce
    then show ?thesis by auto
  qed
  finally show ?thesis .
qed


section \<open>Stored images\<close>

text \<open>
  A storage the process can use: an absolute working directory, and a directory that is not the root
  of the file system.
\<close>

definition disk_ok :: "disk_env \<Rightarrow> bool" where
  "disk_ok env \<longleftrightarrow> is_rooted (dk_cwd env) \<and> dk_dir env \<noteq> [] \<and> path_segs (path_Abs (dk_cwd env) (dk_dir env)) \<noteq> [] \<and>
     \<not> dk_faults env ''getwd'' []"

lemma plain_png: "CHR ''/'' \<notin> set k \<Longrightarrow> plain (k @ ''.png'')"
  by (cases k) (auto simp: plain_def)

lemma disk_within_saved:
  assumes "disk_ok env" "CHR ''/'' \<notin> set k" shows "disk_within env (disk_path env k) = None"
proof -
  let ?root = "path_Abs (dk_cwd env) (dk_dir env)"
  obtain ws where ws: "?root = rooted_path ws" "\<forall>w \<in> set ws. plain w"
    using path_Abs_rooted[of "dk_cwd env" "dk_dir env"] assms(1) unfolding disk_ok_def by blast
  have "path_Abs (dk_cwd env) (disk_path env k) = rooted_path (ws @ [k @ ''.png''])"
    using path_Abs_Join_plain[OF _ _ plain_png[OF assms(2)]] assms(1) ws by (simp add: disk_ok_def disk_path_def)
  moreover have "ws \<noteq> []" using assms(1) ws by (simp add: disk_ok_def)
  ultimately show ?thesis
    using rooted_path_prefix[of ws "[k @ ''.png'']"] ws assms(1) by (simp add: disk_within_def disk_ok_def)
qed

lemma disk_path_inject:
  assumes "disk_ok env" "CHR ''/'' \<notin> set k" "CHR ''/'' \<notin> set k'" "disk_path env k = disk_path env k'"
  shows "k = k'"
proof -
  let ?ws = "path_segs (path_Abs (dk_cwd env) (dk_dir env))"
  have "rooted_path (?ws @ [k @ ''.png'']) = rooted_path (?ws @ [k' @ ''.png''])"
    using path_Abs_Join_plain[OF _ _ plain_png[OF assms(2)], of "dk_cwd env" "dk_dir env"]
      path_Abs_Join_plain[OF _ _ plain_png[OF assms(3)], of "dk_cwd env" "dk_dir env"] assms(1,4)
    by (simp add: disk_ok_def disk_path_def)
  then have "?ws @ [k @ ''.png''] = ?ws @ [k' @ ''.png'']"
    using rooted_path_eq[of "?ws @ [k @ ''.png'']" "?ws @ [k' @ ''.png'']"] path_segs_plain plain_png assms(2,3) by auto
  then show ?thesis by simp
qed

lemma Join_plain_suffix:
  assumes "dir \<noteq> []" "plain w" shows "\<exists>x. path_Join dir w = x @ w"
proof -
  have w: "w \<noteq> []" "CHR ''/'' \<notin> set w" using assms(2) by (auto simp: plain_def)
  have join: "\<exists>x. join_with CHR ''/'' (xs @ [w]) = x @ w" for xs
    by (cases "xs = []") (auto simp: join_append)
  have segs: "clean_segs r (split_on CHR ''/'' (dir @ CHR ''/'' # w)) = clean_segs r (split_on CHR ''/'' dir) @ [w]" for r
    using assms(2) w by (simp add: split_on_segments clean_segs_append_plain)
  let ?s = "\<lambda>r. join_with CHR ''/'' (clean_segs r (split_on CHR ''/'' (dir @ CHR ''/'' # w)))"
  have s: "\<exists>x. ?s r = x @ w" for r unfolding segs by (rule join)
  then obtain x y where xy: "?s True = x @ w" "?s False = y @ w" by blast
  have "\<exists>x. Clean (dir @ CHR ''/'' # w) = x @ w"
  proof (cases "is_rooted (dir @ CHR ''/'' # w)")
    case True
    then have "Clean (dir @ CHR ''/'' # w) = (CHR ''/'' # x) @ w" using xy(1) unfolding Clean_def Let_def by simp
    then show ?thesis by (rule exI)
  next
    case False
    then have "Clean (dir @ CHR ''/'' # w) = y @ w" using xy(2) w(1) unfolding Clean_def Let_def by simp
    then show ?thesis by (rule exI)
  qed
  then show ?thesis using assms(1) w by (simp add: path_Join_def)
qed

lemma disk_path_not_tmp: "dk_dir env \<noteq> [] \<Longrightarrow> CHR ''/'' \<notin> set k \<Longrightarrow> disk_path env k \<noteq> p @ ''.tmp''"
proof
  assume k: "dk_dir env \<noteq> []" "CHR ''/'' \<notin> set k" and eq: "disk_path env k = p @ ''.tmp''"
  obtain x where "disk_path env k = x @ k @ ''.png''"
    using Join_plain_suffix[OF k(1) plain_png[OF k(2)]] by (auto simp: disk_path_def)
  then have "last (x @ k @ ''.png'') = last (p @ ''.tmp'')" using eq by simp
  then show False by simp
qed

lemma disk_Save_ok:
  assumes "disk_Save env k data fs = (Inr path, fs')"
  shows "path = disk_path env k \<and> fs' path = Some data \<and>
    (\<forall>q. q \<noteq> path \<longrightarrow> q \<noteq> path @ ''.tmp'' \<longrightarrow> fs' q = fs q)"
  using assms by (auto simp: disk_Save_def Let_def split: if_splits)

lemma disk_Load_saved:
  assumes "disk_ok env" "CHR ''/'' \<notin> set k" "fs (disk_path env k) = Some data" "\<not> dk_faults env ''read image'' (disk_path env k)"
  shows "disk_Load env (disk_path env k) fs = Inr data"
  using assms disk_within_saved[OF assms(1,2)] by (simp add: disk_Load_def)

text \<open>The asset table holds exactly one row of an id.\<close>

definition asset_is :: "string \<Rightarrow> assetRow \<Rightarrow> image_db \<Rightarrow> bool" where
  "asset_is aid r db \<longleftrightarrow> filter (\<lambda>x. ar_ID x = aid) (asset_rows db) = [r]"

lemma find_filter: "find (\<lambda>r. P r \<and> Q r) xs = find Q (filter P xs)"
  by (induction xs) auto

lemma asset_Get_is:
  "asset_is aid r db \<Longrightarrow> \<not> flt ''get image asset'' [] \<Longrightarrow>
    fst (asset_Get flt tenant aid db) = (if ar_TenantID r = tenant then Inr (toAsset r) else Inl ImgNotFound)"
  by (simp add: asset_Get_def asset_is_def find_filter tx_simps)

lemma asset_Create_ok:
  assumes "asset_Create flt col now a db = (Inr a', db')"
  shows "a' = a\<lparr>as_CreatedAt := as_CreatedAt a'\<rparr>" "asset_rows db' = asset_rows db @ [asset_row col a']"
    "asset_is (as_ID a) (asset_row col a') db'"
    "aid \<noteq> as_ID a \<Longrightarrow> asset_is aid r db \<Longrightarrow> asset_is aid r db'"
proof -
  have fresh: "\<forall>x \<in> set (asset_rows db). ar_ID x \<noteq> as_ID a" and rows: "asset_rows db' = asset_rows db @ [asset_row col a']"
    and a': "a' = a\<lparr>as_CreatedAt := as_CreatedAt a'\<rparr>"
    using assms by (auto simp: asset_Create_def Let_def tx_simps tbl_insert_def tbl_has_def list_ex_iff split: if_splits)
  have ID: "ar_ID (asset_row col a') = as_ID a" by (subst a') (simp add: asset_row_def)
  show "a' = a\<lparr>as_CreatedAt := as_CreatedAt a'\<rparr>" "asset_rows db' = asset_rows db @ [asset_row col a']" by (fact a', fact rows)
  show "asset_is (as_ID a) (asset_row col a') db'" using fresh by (auto simp: asset_is_def rows ID filter_empty_conv)
  show "asset_is aid r db'" if "aid \<noteq> as_ID a" "asset_is aid r db" using that by (simp add: asset_is_def rows ID)
qed

text \<open>
  What a save leaves for one image: a row of the asset that \<open>mk\<close> made, and the image's bytes in the file
  that the row names.
\<close>

definition image_stored :: "image_env \<Rightarrow> (string \<Rightarrow> string \<Rightarrow> Asset) \<Rightarrow> string \<Rightarrow> bytes \<Rightarrow> image_state \<Rightarrow> bool" where
  "image_stored env mk aid png st \<longleftrightarrow>
    (\<exists>now. asset_is aid (asset_row (ie_col env) ((mk aid (disk_path (ie_disk env) aid))\<lparr>as_CreatedAt := now\<rparr>)) (im_db st)) \<and>
    im_files st (disk_path (ie_disk env) aid) = Some png"

definition file_ids :: "(nat \<Rightarrow> string) \<Rightarrow> bool" where
  "file_ids ids \<longleftrightarrow> inj ids \<and> (\<forall>i. CHR ''/'' \<notin> set (ids i))"

lemma save_one:
  assumes "disk_ok (ie_disk env)" "CHR ''/'' \<notin> set k" "\<And>x p. as_ID (mk x p) = x"
    and save: "storage_Save env k png st = (Inr path, st1)"
    and create: "on_db (asset_Create (ie_faults env) (ie_col env) now (mk k path)) st1 = (Inr a, st2)"
  shows "image_stored env mk k png st2" "as_ID a = k"
    and "k' \<noteq> k \<Longrightarrow> CHR ''/'' \<notin> set k' \<Longrightarrow> image_stored env mk k' png' st \<Longrightarrow> image_stored env mk k' png' st2"
proof -
  obtain fs where fs: "disk_Save (ie_disk env) k png (im_files st) = (Inr path, fs)" "st1 = st\<lparr>im_files := fs\<rparr>"
    using save by (auto simp: storage_Save_def split: prod.splits sum.splits)
  obtain db where db: "asset_Create (ie_faults env) (ie_col env) now (mk k path) (im_db st) = (Inr a, db)" "st2 = st1\<lparr>im_db := db\<rparr>"
    using create fs(2) by (auto simp: on_db_def split: prod.splits)
  note disk = disk_Save_ok[OF fs(1)] and row = asset_Create_ok[OF db(1)]
  have ID: "as_ID (mk k path) = k" by (rule assms(3))
  show "as_ID a = k" by (subst row(1)) (simp add: ID)
  have "asset_is k (asset_row (ie_col env) ((mk k path)\<lparr>as_CreatedAt := as_CreatedAt a\<rparr>)) db"
    using row(3) row(1) by (simp add: ID)
  then show "image_stored env mk k png st2"
    using disk fs(2) db(2) by (auto simp: image_stored_def)
  show "image_stored env mk k' png' st2"
    if "k' \<noteq> k" "CHR ''/'' \<notin> set k'" "image_stored env mk k' png' st"
  proof -
    have "disk_path (ie_disk env) k' \<noteq> disk_path (ie_disk env) k"
      using disk_path_inject[OF assms(1) that(2) assms(2)] that(1) by blast
    moreover have "disk_path (ie_disk env) k' \<noteq> disk_path (ie_disk env) k @ ''.tmp''"
      using disk_path_not_tmp that(2) assms(1) by (simp add: disk_ok_def)
    ultimately have "im_files st2 (disk_path (ie_disk env) k') = im_files st (disk_path (ie_disk env) k')"
      using disk fs(2) db(2) by simp
    moreover have "asset_is k' r db" if "asset_is k' r (im_db st)" for r
      using row(4) \<open>k' \<noteq> k\<close> that by (simp add: ID)
    ultimately show ?thesis using that(3) db(2) by (auto simp: image_stored_def)
  qed
qed

lemma save_images_stored:
  assumes "disk_ok (ie_disk env)" "file_ids ids" "\<And>x p. as_ID (mk x p) = x"
  shows "save_images env mk ids clock i pngs st = (Inr as, st') \<Longrightarrow>
    length as = length pngs \<and>
    (\<forall>n < length pngs. as_ID (as ! n) = ids (i + n) \<and> image_stored env mk (ids (i + n)) (pngs ! n) st') \<and>
    (\<forall>k < i. \<forall>png. image_stored env mk (ids k) png st \<longrightarrow> image_stored env mk (ids k) png st')"
proof (induction pngs arbitrary: i st as)
  case (Cons png pngs)
  have ok: "\<And>n. CHR ''/'' \<notin> set (ids n)" "inj ids" using assms(2) by (simp_all add: file_ids_def)
  obtain path sa where save: "storage_Save env (ids i) png st = (Inr path, sa)"
    using Cons.prems by (auto split: prod.splits sum.splits)
  obtain a sb where create: "on_db (asset_Create (ie_faults env) (ie_col env) (clock i) (mk (ids i) path)) sa = (Inr a, sb)"
    using Cons.prems save by (auto split: prod.splits sum.splits)
  obtain rest where more: "save_images env mk ids clock (Suc i) pngs sb = (Inr rest, st')" "as = a # rest"
    using Cons.prems save create by (auto split: prod.splits sum.splits)
  note one = save_one[where mk = mk, OF assms(1) ok(1) assms(3) save create]
  note IH = Cons.IH[OF more(1)]
  have "image_stored env mk (ids i) png st'" using IH one(1) by blast
  moreover have "image_stored env mk (ids k) png' st'" if "k < i" "image_stored env mk (ids k) png' st" for k png'
  proof -
    have "ids k \<noteq> ids i" using ok(2) that(1) by (metis injD less_irrefl)
    then show ?thesis using IH one(3)[OF _ ok(1) that(2)] that(1) by simp
  qed
  ultimately show ?case
    using IH one(2) more(2) by (auto simp: nth_Cons split: nat.split)
qed simp

text \<open>A stored image is read back by its tenant and by nobody else.\<close>

definition reads_ok :: "image_env \<Rightarrow> bool" where
  "reads_ok env \<longleftrightarrow> disk_ok (ie_disk env) \<and> \<not> ie_faults env ''get image asset'' [] \<and>
     (\<forall>p. \<not> dk_faults (ie_disk env) ''read image'' p)"

lemma stored_is_read:
  assumes "reads_ok env" "image_stored env mk aid png st" "CHR ''/'' \<notin> set aid"
    and "\<And>x p. as_TenantID (mk x p) = tenant" "\<And>x p. as_Path (mk x p) = p"
  shows "\<exists>a. svc_GetAsset env tenant aid st = Inr (a, png) \<and> as_JobID a = as_JobID (mk aid (as_Path a))"
    and "other \<noteq> tenant \<Longrightarrow> svc_GetAsset env other aid st = Inl ImgNotFound"
proof -
  obtain now where row: "asset_is aid (asset_row (ie_col env) ((mk aid (disk_path (ie_disk env) aid))\<lparr>as_CreatedAt := now\<rparr>)) (im_db st)"
    and data: "im_files st (disk_path (ie_disk env) aid) = Some png"
    using assms(2) by (auto simp: image_stored_def)
  note read = asset_Get_is[OF row, of "ie_faults env"]
  show "\<exists>a. svc_GetAsset env tenant aid st = Inr (a, png) \<and> as_JobID a = as_JobID (mk aid (as_Path a))"
    using read[of tenant] disk_Load_saved[where env = "ie_disk env" and k = aid and data = png and fs = "im_files st"] data assms
    by (simp add: svc_GetAsset_def reads_ok_def toAsset_def asset_row_def nullable_id_def)
  show "other \<noteq> tenant \<Longrightarrow> svc_GetAsset env other aid st = Inl ImgNotFound"
    using read[of other] assms(1,4) by (simp add: svc_GetAsset_def reads_ok_def asset_row_def)
qed

text \<open>The result a stream carries: that of its first done event, if no error comes before.\<close>

fun stream_result :: "ProgressEvent list \<Rightarrow> GenerateResult option" where
  "stream_result [] = None"
| "stream_result (ev # evs) = (if pe_Error ev \<noteq> [] then None else if pe_Done ev then pe_Result ev else stream_result evs)"

lemma loop_result: "job_loop flt jid clock i evs db = (LoopDone r, db') \<Longrightarrow> stream_result evs = r"
  by (induction evs arbitrary: i db) (auto simp: Let_def split: if_splits)

text \<open>
  C25: an execution that succeeds has stored what the worker produced. The images of the stream's result
  are then readable through the service, each under its id, with the job's id on the asset, by the
  job's tenant; every other tenant gets not found.
\<close>

theorem executed_job_is_readable:
  assumes "ExecuteJob env jr j st = Some (None, st')" "reads_ok env" "file_ids (jr_ids jr)"
  shows "\<exists>evs shut res. client_Stream (jr_stream jr) (job_request env j) = Inr (evs, shut) \<and>
    stream_result evs = Some res \<and>
    (\<forall>n < length (rs_PNG res).
      (\<exists>a. svc_GetAsset env (jb_TenantID j) (jr_ids jr n) st' = Inr (a, rs_PNG res ! n) \<and> as_JobID a = jb_ID j) \<and>
      (\<forall>other. other \<noteq> jb_TenantID j \<longrightarrow> svc_GetAsset env other (jr_ids jr n) st' = Inl ImgNotFound))"
  using assms(1)
proof (cases rule: ExecuteJob_cases)
  case (saved evs shut db res r)
  obtain as where r: "r = Inr as" using saved(4) by (cases r) auto
  have "disk_ok (ie_disk env)" using assms(2) by (simp add: reads_ok_def)
  note stored = save_images_stored[OF this assms(3), where mk = "job_asset j res", OF _ saved(3)[unfolded r]]
  have "(\<exists>a. svc_GetAsset env (jb_TenantID j) (jr_ids jr n) st' = Inr (a, rs_PNG res ! n) \<and> as_JobID a = jb_ID j) \<and>
      (\<forall>other. other \<noteq> jb_TenantID j \<longrightarrow> svc_GetAsset env other (jr_ids jr n) st' = Inl ImgNotFound)"
    if "n < length (rs_PNG res)" for n
  proof -
    have "image_stored env (job_asset j res) (jr_ids jr n) (rs_PNG res ! n) st'"
      using stored that by (simp add: job_asset_def)
    from stored_is_read[OF assms(2) this, where tenant = "jb_TenantID j"] assms(3) show ?thesis
      by (simp add: job_asset_def file_ids_def)
  qed
  then show ?thesis using saved(1) loop_result[OF saved(2)] by blast
qed simp_all

section \<open>Requests\<close>

lemma cut_at_append: "c \<notin> set a \<Longrightarrow> cut_at c (a @ c # b) = Some (a, b)"
  by (induction a) auto

lemma digit_facts: "is_digit c \<Longrightarrow> c \<noteq> CHR ''x'' \<and> lower_char c = c \<and> \<not> is_space c"
  by (auto simp: is_digit_def lower_char_def is_space_def Let_def)

lemma itoa_digits: "0 \<le> n \<Longrightarrow> c \<in> set (itoa n) \<Longrightarrow> is_digit c"
  by (auto simp: itoa_def dest: nat_digits_are_digits split: if_splits)

lemma itoa_nonempty [simp]: "itoa n \<noteq> []"
  by (simp add: itoa_def)

lemma trim_space_none: "(\<And>c. c \<in> set s \<Longrightarrow> \<not> is_space c) \<Longrightarrow> trim_space s = s"
proof -
  assume no: "\<And>c. c \<in> set s \<Longrightarrow> \<not> is_space c"
  then have "dropWhile is_space s = s" "dropWhile is_space (rev s) = rev s"
    by (metis dropWhile_eq_self_iff hd_in_set) (metis dropWhile_eq_self_iff hd_in_set no set_rev)
  then show ?thesis by (simp add: trim_space_def)
qed

lemma to_lower_same: "(\<And>c. c \<in> set s \<Longrightarrow> lower_char c = c) \<Longrightarrow> to_lower s = s"
  by (simp add: to_lower_def map_idI)

text \<open>
  sizes are read as they are written: the text \<open>WxH\<close> of two positive numbers parses to them, and
  whatever parses is a pair of positive numbers that \<open>int\<close> holds.
\<close>

theorem size_roundtrip:
  "(0 < w \<and> 0 < h \<and> in_int64 w \<and> in_int64 h \<longrightarrow> parseSize (itoa w @ ''x'' @ itoa h) = Inr (w, h)) \<and>
   (parseSize s = Inr (w, h) \<longrightarrow> 0 < w \<and> 0 < h \<and> in_int64 w \<and> in_int64 h)"
proof (intro conjI impI; (elim conjE)?)
  assume w: "0 < w" "in_int64 w" and h: "0 < h" "in_int64 h"
  let ?s = "itoa w @ ''x'' @ itoa h"
  have wd: "\<And>c. c \<in> set (itoa w) \<Longrightarrow> is_digit c" and hd: "\<And>c. c \<in> set (itoa h) \<Longrightarrow> is_digit c"
    using itoa_digits[of w] itoa_digits[of h] w h by auto
  have "lower_char (CHR ''x'') = CHR ''x''" "\<not> is_space (CHR ''x'')" by (simp_all add: lower_char_def is_space_def)
  then have "lower_char c = c \<and> \<not> is_space c" if "c \<in> set ?s" for c
    using that wd[of c] hd[of c] digit_facts[of c] by auto
  then have "trim_space ?s = ?s" "to_lower ?s = ?s" by (blast intro: trim_space_none to_lower_same)+
  then have "to_lower (trim_space ?s) = ?s" by simp
  moreover have "CHR ''x'' \<notin> set (itoa w)" using wd digit_facts by blast
  then have "cut_at (CHR ''x'') ?s = Some (itoa w, itoa h)" using cut_at_append[of "CHR ''x''" "itoa w" "itoa h"] by simp
  moreover have "trim_space (itoa w) = itoa w" "trim_space (itoa h) = itoa h"
    using wd hd digit_facts by (blast intro: trim_space_none)+
  moreover have "atoi (itoa w) = Some w" "atoi (itoa h) = Some h" using atoi_itoa w h by simp_all
  ultimately show "parseSize ?s = Inr (w, h)" using w h by (simp add: parseSize_def)
next
  assume "parseSize s = Inr (w, h)"
  then obtain a b where "atoi a = Some w" "atoi b = Some h" "0 < w" "0 < h"
    by (auto simp: parseSize_def split: option.splits if_splits prod.splits)
  then show "0 < w" "0 < h" "in_int64 w" "in_int64 h" using atoi_range by auto
qed

lemma dimension_ok: "dimension_error d = None \<longleftrightarrow> 256 \<le> d \<and> d \<le> 1536 \<and> d mod 8 = 0"
  by (auto simp: dimension_error_def minDimension_def maxDimension_def sizeMultiple_def)

lemma validateSize_ok: "validateSize w h = None \<longleftrightarrow> dimension_error w = None \<and> dimension_error h = None"
  by (auto simp: validateSize_def split: option.splits)

text \<open>
  what the service accepts is bounded. A request that \<open>normalize\<close> lets through has a width and a height
  that are multiples of 8 in 256 to 1536, and asks for at least one image and at most the configured
  maximum; model and prompt are as sent.
\<close>

theorem accepted_requests_are_bounded:
  assumes "normalize cfg p = Inr p'"
  shows "(\<forall>d \<in> {gp_Width p', gp_Height p'}. 256 \<le> d \<and> d \<le> 1536 \<and> d mod 8 = 0) \<and>
    1 \<le> gp_NumImages p' \<and> gp_NumImages p' \<le> max 1 (ic_MaxImages cfg) \<and>
    gp_Model p' = gp_Model p \<and> gp_Prompt p' = gp_Prompt p"
proof -
  define w where "w = (if gp_Width p \<le> 0 then ic_DefaultWidth cfg else gp_Width p)"
  define h where "h = (if gp_Height p \<le> 0 then ic_DefaultHeight cfg else gp_Height p)"
  define n where "n = (if gp_NumImages p \<le> 0 then 1 else gp_NumImages p)"
  have ok: "validateSize w h = None" and n: "n \<le> (if ic_MaxImages cfg \<le> 0 then 1 else ic_MaxImages cfg)"
    and p': "gp_Width p' = w" "gp_Height p' = h" "gp_NumImages p' = n" "gp_Model p' = gp_Model p" "gp_Prompt p' = gp_Prompt p"
    using assms by (auto simp: normalize_def Let_def w_def[symmetric] h_def[symmetric] n_def[symmetric] split: option.splits if_splits)
  have "1 \<le> n" by (simp add: n_def)
  then show ?thesis using ok n p' by (auto simp: validateSize_ok dimension_ok split: if_splits)
qed

section \<open>The event stream\<close>

text \<open>
  A client that keeps reading sees the job's rows in order and the end exactly at a finished job: if
  the stream closes with neither a failed write, a cancelled request nor a failed read, the last row sent is
  final, no row before it is, and the end marker follows it.
\<close>

definition quiet_poll :: "job_poll \<Rightarrow> bool" where
  "quiet_poll p \<longleftrightarrow> \<not> po_write_fails p \<and> \<not> po_gone p \<and> isl (po_next p) = False"

theorem event_stream_ends_at_a_finished_job:
  assumes "\<forall>p \<in> set polls. quiet_poll p"
  shows "\<exists>jobs. event_loop job polls =
      (map JobFrame jobs @ (if \<exists>j \<in> set jobs. isTerminalJob (jb_Status j) then [DoneFrame] else []),
       \<exists>j \<in> set jobs. isTerminalJob (jb_Status j)) \<and>
    jobs = take (length jobs) (job # map (projr \<circ> po_next) polls) \<and>
    (\<forall>j \<in> set (butlast jobs). \<not> isTerminalJob (jb_Status j)) \<and>
    (length jobs = length polls \<or> jobs \<noteq> [] \<and> isTerminalJob (jb_Status (last jobs)))"
  using assms
proof (induction polls arbitrary: job)
  case (Cons p ps)
  obtain job' where next': "po_next p = Inr job'" using Cons.prems by (cases "po_next p") (auto simp: quiet_poll_def)
  show ?case
  proof (cases "isTerminalJob (jb_Status job)")
    case True
    then show ?thesis using Cons.prems by (intro exI[of _ "[job]"]) (simp add: quiet_poll_def)
  next
    case False
    obtain jobs where jobs: "event_loop job' ps =
      (map JobFrame jobs @ (if \<exists>j \<in> set jobs. isTerminalJob (jb_Status j) then [DoneFrame] else []),
       \<exists>j \<in> set jobs. isTerminalJob (jb_Status j))"
      "jobs = take (length jobs) (job' # map (projr \<circ> po_next) ps)"
      "\<forall>j \<in> set (butlast jobs). \<not> isTerminalJob (jb_Status j)"
      "length jobs = length ps \<or> jobs \<noteq> [] \<and> isTerminalJob (jb_Status (last jobs))"
    proof -
      have "\<forall>p \<in> set ps. quiet_poll p" using Cons.prems by simp
      from Cons.IH[OF this, of job'] show ?thesis by (elim exE conjE) (rule that)
    qed
    show ?thesis
      using False Cons.prems next' jobs by (intro exI[of _ "job # jobs"]) (auto simp: quiet_poll_def comp_def)
  qed
qed simp

section \<open>The synchronous endpoint\<close>

lemma image_bytes: "is_bytes (map unat (png :: bytes))"
  using unsigned_less[where 'b = 8 and 'a = nat] by (auto simp: is_bytes_def list_all_iff)

lemma image_items_b64:
  assumes "format \<noteq> ''url''"
  shows "image_items env tenant format prompt as st = Inr items \<Longrightarrow>
    length items = length as \<and> (\<forall>n < length as. \<exists>a raw. svc_GetAsset env tenant (as_ID (as ! n)) st = Inr (a, raw) \<and>
      oi_B64JSON (items ! n) = b64_encode_std (map unat raw))"
proof (induction "as" arbitrary: items)
  case (Cons a as)
  obtain x raw where get: "svc_GetAsset env tenant (as_ID a) st = Inr (x, raw)"
    using Cons.prems assms by (auto simp: Let_def split: sum.splits)
  obtain its where more: "image_items env tenant format prompt as st = Inr its"
    "items = (image_item prompt a)\<lparr>oi_B64JSON := b64_encode_std (map unat raw)\<rparr> # its"
    using Cons.prems assms get by (auto simp: Let_def split: sum.splits)
  show ?case using Cons.IH[OF more(1)] get more(2) by (auto simp: nth_Cons split: nat.split)
qed simp

lemma svc_Generate_saved:
  assumes "svc_Generate env rpc rid ids clock tenant p0 st = (Inr gen, st')"
  obtains p res where "client_Generate rpc (params_request env rid p) = Inr (Some res)"
    "save_images env (params_asset tenant p res) ids clock 0 (rs_PNG res) st = (Inr (gn_Assets gen), st')"
  using assms by (auto simp: svc_Generate_def split: sum.splits option.splits prod.splits)

text \<open>
  C26: the generation endpoint answers with what the worker produced. When it answers 200 and the client
  did not ask for URLs, the answer has one item for each image of the worker's response, in its order, and
  the base64 text of each decodes to that image's bytes.
\<close>

theorem generated_images_reach_the_client:
  assumes "handleGenerate env q st = (WriteJSON StatusOK (Images created items), st')"
    and "hq_body q = Some req" "or_ResponseFormat req \<noteq> ''url''"
    and "reads_ok env" "file_ids (hq_ids q)"
  shows "\<exists>preq resp. hq_rpc q preq = Inr resp \<and> length items = length (pis_Png resp) \<and>
    (\<forall>n < length items. b64_decode_std (oi_B64JSON (items ! n)) = Some (map unat (pis_Png resp ! n)))"
proof -
  obtain p gen where gen: "svc_Generate env (hq_rpc q) (hq_request_id q) (hq_ids q) (hq_clock q) (hq_tenant q) p st = (Inr gen, st')"
    and items: "image_items env (hq_tenant q) (if or_ResponseFormat req = [] then ''b64_json'' else or_ResponseFormat req)
      (gn_RevisedPrompt gen) (gn_Assets gen) st' = Inr items"
    using assms(1,2) by (auto simp: handleGenerate_def Let_def writeGenerateError_def
        split: sum.splits prod.splits image_svc_error.splits if_splits)
  obtain p' res where res: "client_Generate (hq_rpc q) (params_request env (hq_request_id q) p') = Inr (Some res)"
    and save: "save_images env (params_asset (hq_tenant q) p' res) (hq_ids q) (hq_clock q) 0 (rs_PNG res) st = (Inr (gn_Assets gen), st')"
    using svc_Generate_saved[OF gen] by metis
  obtain resp where resp: "hq_rpc q (toProtoRequest (params_request env (hq_request_id q) p')) = Inr resp" "rs_PNG res = pis_Png resp"
    using res by (auto simp: client_Generate_def fromProtoResult_def split: sum.splits)
  have format: "(if or_ResponseFormat req = [] then ''b64_json'' else or_ResponseFormat req) \<noteq> ''url''" using assms(3) by simp
  note its = image_items_b64[OF format items]
  have "disk_ok (ie_disk env)" using assms(4) by (simp add: reads_ok_def)
  note stored = save_images_stored[OF this assms(5), where mk = "params_asset (hq_tenant q) p' res", OF _ save]
  have len: "length items = length (pis_Png resp)" using its stored resp(2) by (simp add: params_asset_def)
  have "b64_decode_std (oi_B64JSON (items ! n)) = Some (map unat (pis_Png resp ! n))" if "n < length items" for n
  proof -
    have img: "as_ID (gn_Assets gen ! n) = hq_ids q n"
      "image_stored env (params_asset (hq_tenant q) p' res) (hq_ids q n) (pis_Png resp ! n) st'"
      using stored that len resp(2) by (simp_all add: params_asset_def)
    have "\<exists>a. svc_GetAsset env (hq_tenant q) (hq_ids q n) st' = Inr (a, pis_Png resp ! n)"
      using stored_is_read(1)[OF assms(4) img(2), where tenant = "hq_tenant q"] assms(5)
      by (auto simp: params_asset_def file_ids_def)
    then have "oi_B64JSON (items ! n) = b64_encode_std (map unat (pis_Png resp ! n))"
      using its that img(1) by auto
    then show ?thesis by (simp add: b64_std_roundtrip[OF image_bytes])
  qed
  then show ?thesis using resp(1) len by blast
qed

section \<open>Crash recovery\<close>

lemma distinct_insert_by: "distinct (map f (insert_by le x xs)) \<longleftrightarrow> f x \<notin> f ` set xs \<and> distinct (map f xs)"
proof -
  obtain a b where "insert_by le x xs = a @ x # b" "xs = a @ b"
    by (metis insert_by_def takeWhile_dropWhile_id)
  then show ?thesis by auto
qed

lemma distinct_map_order_by: "distinct (map f (order_by le xs)) \<longleftrightarrow> distinct (map f xs)"
proof -
  have "distinct (map f (fold (insert_by le) xs ys)) \<longleftrightarrow> distinct (map f xs) \<and> distinct (map f ys) \<and> f ` set xs \<inter> f ` set ys = {}" for ys
    by (induction xs arbitrary: ys) (auto simp: distinct_insert_by)
  then show ?thesis by (simp add: order_by_def)
qed

text \<open>
  A job that a crashed runner left running is claimed again once its row has been still for a lease, unless
  the batch fills up with older jobs: a claim that returns fewer jobs than a batch leaves no such job behind.
\<close>

lemma claim_takes_all:
  assumes "job_Claim flt now locked arrange limit staleBefore db = (Inr jobs, db')" "limit > 0"
    and "\<And>xs. set (arrange xs) = set xs \<and> length (arrange xs) = length xs" "jobs_keyed db" "int (length jobs) < limit"
    and "j \<in> set (job_rows db)" "claimable staleBefore j" "\<not> locked (jb_ID j)"
  shows "jb_ID j \<in> jb_ID ` set jobs"
proof -
  let ?cand = "filter (\<lambda>j. \<not> locked (jb_ID j)) (order_by (\<lambda>a b. jb_CreatedAt a \<le> jb_CreatedAt b) (filter (claimable staleBefore) (job_rows db)))"
  have "length (take (nat limit) ?cand) \<le> length jobs"
  proof -
    have "distinct (claimed_ids locked limit staleBefore db)"
      using assms(4) by (simp add: claimed_ids_def take_map[symmetric] jobs_keyed_def tbl_unique_def distinct_map_filter distinct_map_order_by)
    from distinct_card[OF this] show ?thesis
      using claim_count[OF assms(1,2) _ assms(4)] assms(3) by (simp add: claimed_ids_def)
  qed
  then have "take (nat limit) ?cand = ?cand" using assms(5) by simp
  then have "jb_ID j \<in> set (claimed_ids locked limit staleBefore db)"
    using assms(6-8) by (simp add: claimed_ids_def)
  moreover from this obtain k where "k \<in> set (job_rows db')" "jb_ID k = jb_ID j"
    using claim_result(3,4)[OF assms(1)] assms(3) by (metis (no_types, lifting) imageE subsetD)
  moreover have "set jobs = {j \<in> set (job_rows db'). jb_ID j \<in> set (claimed_ids locked limit staleBefore db)}"
    using claim_result(1)[OF assms(1)] assms(2,3) by auto
  ultimately show ?thesis by (intro image_eqI[of _ _ k]) simp_all
qed

section \<open>Examples\<close>

definition demo_images :: image_env where
  "demo_images = \<lparr>ie_faults = no_faults,
     ie_cfg = \<lparr>ic_DefaultWidth = 1024, ic_DefaultHeight = 1024, ic_DefaultSteps = 30, ic_DefaultGuidance = 7, ic_MaxImages = 4\<rparr>,
     ie_disk = \<lparr>dk_dir = ''workspace/images'', dk_cwd = ''/srv'', dk_faults = no_faults, dk_torn = None\<rparr>,
     ie_serving = \<lparr>outbox = [], models = [\<lparr>m_ID = ''1'', m_Name = ''sdxl'', m_Description = [], m_Task = [], m_Framework = [],
         m_Status = [], m_CreatedAt = 0\<rparr>],
       model_versions = [\<lparr>mv_ID = ''v'', mv_ModelID = ''1'', mv_Version = [], mv_ArtifactURI = [], mv_Metadata = None,
         mv_Status = [], mv_CreatedAt = 0\<rparr>], templates = [], template_versions = [],
       deployments = [\<lparr>d_ID = ''d'', d_TenantID = ''t'', d_ModelVersionID = ''v'', d_TemplateVersionID = [], d_Name = [],
         d_Region = [], d_DesiredReplicas = 1, d_Status = DeploymentReady, d_WorkloadRef = [], d_CreatedAt = 0, d_UpdatedAt = 0\<rparr>],
       revisions = [], endpoints = [], idempotency_keys = []\<rparr>,
     ie_text = (\<lambda>_. []), ie_col = id, ie_float32 = id\<rparr>"

definition demo_job :: "string \<Rightarrow> Job" where
  "demo_job jid = (new_job jid ''t'' \<lparr>gp_Model = ''sdxl'', gp_Prompt = ''a cat'', gp_NegativePrompt = [], gp_Width = 512,
     gp_Height = 512, gp_Steps = 2, gp_GuidanceScale = 7, gp_Seed = 1, gp_NumImages = 2, gp_Scheduler = []\<rparr>)
     \<lparr>jb_CreatedAt := 5, jb_UpdatedAt := 5\<rparr>"

definition demo_response :: pbImageResponse where
  "demo_response = \<lparr>pis_Png = [[1, 2], [3]], pis_Width = 512, pis_Height = 512, pis_Seed = 1, pis_Steps = 2, pis_Scheduler = []\<rparr>"

definition demo_ids :: "nat \<Rightarrow> string" where
  "demo_ids n = replicate n (CHR ''a'')"

definition demo_run :: job_run where
  "demo_run = \<lparr>jr_gone = False, jr_interrupted = False,
     jr_stream = (\<lambda>_. Inr [(False, True, Recv \<lparr>pip_Step = 1, pip_TotalSteps = 2, pip_Done = False, pip_Result = None, pip_Error = []\<rparr>),
       (False, True, Recv \<lparr>pip_Step = 2, pip_TotalSteps = 2, pip_Done = True, pip_Result = Some demo_response, pip_Error = []\<rparr>)]),
     jr_ids = demo_ids, jr_event_clock = (\<lambda>i. 20 + int i), jr_save_clock = (\<lambda>i. 30 + int i), jr_finish_at = 40\<rparr>"

definition demo_image_state :: image_state where
  "demo_image_state = \<lparr>im_db = \<lparr>asset_rows = [], job_rows = [demo_job ''j1'']\<rparr>, im_files = Map.empty\<rparr>"

abbreviation demo_pass :: "((image_svc_error + nat \<times> bool) \<times> image_state) option" where
  "demo_pass \<equiv> RunOnce demo_images 10 10 (\<lambda>_. False) id (\<lambda>_. demo_run) demo_image_state"

lemma demo_pass_ends: "map_option fst demo_pass = Some (Inr (1, False))"
  by code_simp

lemma demo_pass_status: "map_option (\<lambda>x. map jb_Status (job_rows (im_db (snd x)))) demo_pass = Some [JobSucceeded]"
  by code_simp

lemma demo_reads_ok: "reads_ok demo_images"
proof -
  have "disk_ok (ie_disk demo_images)" unfolding disk_ok_def by code_simp
  then show ?thesis by (simp add: reads_ok_def demo_images_def)
qed

lemma demo_file_ids: "file_ids demo_ids"
proof -
  have "inj demo_ids" by (rule injI) (metis demo_ids_def length_replicate)
  then show ?thesis by (simp add: file_ids_def demo_ids_def)
qed

lemma demo_execution: "map_option fst (ExecuteJob demo_images demo_run (demo_job ''j1'') demo_image_state) = Some None"
  by code_simp

theorem executed_job_is_readable_witness:
  "\<exists>st' a. ExecuteJob demo_images demo_run (demo_job ''j1'') demo_image_state = Some (None, st') \<and>
     svc_GetAsset demo_images ''t'' ''a'' st' = Inr (a, [3])"
proof -
  obtain st' where run: "ExecuteJob demo_images demo_run (demo_job ''j1'') demo_image_state = Some (None, st')"
    using demo_execution by auto
  have ids: "file_ids (jr_ids demo_run)" using demo_file_ids by (simp add: demo_run_def)
  obtain evs shut res where res: "client_Stream (jr_stream demo_run) (job_request demo_images (demo_job ''j1'')) = Inr (evs, shut)"
    "stream_result evs = Some res"
    "\<forall>n < length (rs_PNG res). \<exists>a. svc_GetAsset demo_images ''t'' (jr_ids demo_run n) st' = Inr (a, rs_PNG res ! n)"
  proof -
    have "jb_TenantID (demo_job ''j1'') = ''t''" by (simp add: demo_job_def new_job_def)
    with executed_job_is_readable[OF run demo_reads_ok ids] show ?thesis by (metis that)
  qed
  have "rs_PNG res = [[1, 2], [3]]"
    using res(1,2) by (auto simp: client_Stream_def demo_run_def progress_event_def fromProtoResult_def demo_response_def)
  moreover have "jr_ids demo_run 1 = ''a''" by (simp add: demo_run_def demo_ids_def)
  ultimately show ?thesis using run res(3)[rule_format, of 1] by auto
qed


abbreviation demo_claim :: "int \<Rightarrow> image_db \<Rightarrow> (image_svc_error + Job list) \<times> image_db" where
  "demo_claim now db \<equiv> job_Claim no_faults now (\<lambda>_. False) id runnerBatch (now - jobLease) db"

abbreviation demo_progress :: image_db where
  "demo_progress \<equiv> snd (job_UpdateProgress no_faults 15 ''j1'' 1 (snd (demo_claim 10 (im_db demo_image_state))))"

lemma demo_first_claim: "map jb_ID (projr (fst (demo_claim 10 (im_db demo_image_state)))) = [''j1'']" "isl (fst (demo_claim 10 (im_db demo_image_state))) = False"
  by code_simp+

lemma demo_second_claim: "isl (fst (demo_claim 20 demo_progress)) = False"
  by code_simp

theorem claims_within_a_lease_are_disjoint_witness:
  "''j1'' \<notin> jb_ID ` set (projr (fst (demo_claim 20 demo_progress)))"
proof -
  obtain jobs db1 where c1: "demo_claim 10 (im_db demo_image_state) = (Inr jobs, db1)"
    using demo_first_claim(2) by (metis prod.exhaust isl_def old.sum.exhaust fst_conv)
  then have ids: "jb_ID ` set jobs = {''j1''}" using demo_first_claim(1) by (metis fst_conv list.set(1,2) list.set_map sum.sel(2))
  have step: "image_steps 10 db1 demo_progress"
    using image_steps_one[OF progress_job] c1 by simp
  obtain jobs' db3 where c2: "demo_claim 20 demo_progress = (Inr jobs', db3)"
    using demo_second_claim by (metis prod.exhaust isl_def old.sum.exhaust fst_conv)
  have "jb_ID ` set jobs \<inter> jb_ID ` set jobs' = {}"
    by (rule claims_within_a_lease_are_disjoint[OF _ _ c1 step c2]) (simp_all add: jobLease_def)
  then show ?thesis using ids c2 by simp
qed

theorem finished_jobs_are_final_witness:
  "(demo_job ''j1'')\<lparr>jb_Status := JobSucceeded\<rparr> \<in>
    set (job_rows (snd (job_Claim no_faults 99 (\<lambda>_. False) id 4 99 \<lparr>asset_rows = [], job_rows = [(demo_job ''j1'')\<lparr>jb_Status := JobSucceeded\<rparr>]\<rparr>)))"
  (is "?j \<in> set (job_rows (snd (job_Claim _ _ _ _ _ _ ?db)))")
proof (rule finished_jobs_are_final)
  show "image_steps 99 ?db (snd (job_Claim no_faults 99 (\<lambda>_. False) id 4 99 ?db))"
    by (rule image_steps_one[OF claim_jobs]) simp_all
  show "jobs_keyed ?db" by (simp add: jobs_keyed_def tbl_unique_def)
qed (simp_all add: isTerminalJob_def)

abbreviation demo_image_request :: image_request where
  "demo_image_request \<equiv> \<lparr>hq_tenant = ''t'', hq_body = Some \<lparr>or_Model = ''sdxl'', or_Prompt = ''a cat'', or_NegativePrompt = [],
     or_N = Some 2, or_Size = ''512x512'', or_Steps = None, or_GuidanceScale = None, or_Seed = None, or_Scheduler = [],
     or_ResponseFormat = []\<rparr>, hq_bind_error = [], hq_rpc = (\<lambda>_. Inr demo_response), hq_request_id = ''r'', hq_ids = demo_ids,
     hq_clock = (\<lambda>i. 30 + int i), hq_now = 40\<rparr>"

abbreviation demo_generated :: "image_body response \<times> image_state" where
  "demo_generated \<equiv> handleGenerate demo_images demo_image_request demo_image_state"

lemma demo_generated_images:
  "(case fst demo_generated of WriteJSON s (Images c its) \<Rightarrow> s = 200 \<and> length its = 2 | _ \<Rightarrow> False)"
  by code_simp

theorem generated_images_reach_the_client_witness:
  "\<exists>created items. fst demo_generated = WriteJSON StatusOK (Images created items) \<and>
     b64_decode_std (oi_B64JSON (items ! 1)) = Some [3]"
proof -
  obtain created items st' where gen: "demo_generated = (WriteJSON StatusOK (Images created items), st')" "length items = 2"
    using demo_generated_images by (cases demo_generated) (auto split: response.splits image_body.splits)
  have body: "hq_body demo_image_request = Some (the (hq_body demo_image_request))"
    "or_ResponseFormat (the (hq_body demo_image_request)) \<noteq> ''url''" by simp_all
  obtain resp where resp: "Inr demo_response = (Inr resp :: string + pbImageResponse)"
    "\<forall>n < length items. b64_decode_std (oi_B64JSON (items ! n)) = Some (map unat (pis_Png resp ! n))"
    using generated_images_reach_the_client[OF gen(1) body demo_reads_ok] demo_file_ids by auto
  then have "b64_decode_std (oi_B64JSON (items ! 1)) = Some (map unat (pis_Png demo_response ! 1))" using gen(2) by simp
  then show ?thesis using gen(1) by (simp add: demo_response_def)
qed

text \<open>
  A pass claims its whole batch at once and runs the jobs one after the other, touching the row only of the
  job it runs: a job that waits longer than a lease for its turn is claimed by a second runner as well,
  and both run it.
\<close>

lemma waiting_job_is_claimed_twice:
  "map jb_ID (projr (fst (demo_claim 10 \<lparr>asset_rows = [], job_rows = [demo_job ''j1'', demo_job ''j2'']\<rparr>))) = [''j1'', ''j2''] \<and>
   map jb_ID (projr (fst (demo_claim (11 + jobLease) (snd (job_UpdateProgress no_faults (10 + jobLease) ''j1'' 1
     (snd (demo_claim 10 \<lparr>asset_rows = [], job_rows = [demo_job ''j1'', demo_job ''j2'']\<rparr>))))))) = [''j2'']"
proof
  show "map jb_ID (projr (fst (demo_claim 10 \<lparr>asset_rows = [], job_rows = [demo_job ''j1'', demo_job ''j2'']\<rparr>))) = [''j1'', ''j2'']"
    by code_simp
  show "map jb_ID (projr (fst (demo_claim (11 + jobLease) (snd (job_UpdateProgress no_faults (10 + jobLease) ''j1'' 1
     (snd (demo_claim 10 \<lparr>asset_rows = [], job_rows = [demo_job ''j1'', demo_job ''j2'']\<rparr>))))))) = [''j2'']"
    by code_simp
qed

text \<open>Running a job again stores its images again: nothing of the first run is taken up.\<close>

lemma rerun_duplicates_assets:
  "(let again = \<lambda>n st. snd (the (ExecuteJob demo_images (demo_run\<lparr>jr_ids := \<lambda>i. n # demo_ids i\<rparr>) (demo_job ''j1'') st)) in
    map ar_JobID (asset_rows (im_db (again (CHR ''2'') (again (CHR ''1'') demo_image_state))))) = replicate 4 (Some ''j1'')"
  by code_simp

end
