(* ===== verification/Tools.thy ===== *)
theory Tools
  imports ChatLoop Paths
begin

text \<open>
  The server-side tools of the agentic loop (\<open>services/inference/tools.go\<close>, \<open>docker_tools.go\<close>): the
  executor that runs them on the host and the one that runs each in a throwaway container. The operating
  system and the docker command are parameters over a world they change. What \<open>json.Unmarshal\<close> makes of
  the raw parameters of a call is an error text or the fields a tool declares (empty when absent).
\<close>

section \<open>Calls and results\<close>

record tool_params =
  tp_Path :: string
  tp_Content :: string
  tp_Command :: string
  tp_WorkDir :: string
  tp_Pattern :: string

text \<open>\<open>jsonResult\<close> and \<open>jsonError\<close>: an object with one member.\<close>

datatype tool_json = jsonResult string | jsonError string

datatype builtin = ReadFile | WriteFile | RunCommand | ListFiles

text \<open>The parameters of a call as each tool reads them.\<close>

type_synonym raw_params = "builtin \<Rightarrow> string + tool_params"

definition pathSchema :: string where
  \<open>pathSchema = ''{"type":"object","properties":{"path":{"type":"string","description":"Path to the file to read"}},"required":["path"]}''\<close>

definition writeSchema :: string where
  \<open>writeSchema = ''{"type":"object","properties":{"path":{"type":"string","description":"Path to write to"},"content":{"type":"string","description":"Content to write"}},"required":["path","content"]}''\<close>

definition commandSchema :: string where
  \<open>commandSchema = ''{"type":"object","properties":{"command":{"type":"string","description":"The command to execute"},"workdir":{"type":"string","description":"Optional working directory"}},"required":["command"]}''\<close>

definition listSchema :: string where
  \<open>listSchema = ''{"type":"object","properties":{"path":{"type":"string","description":"Directory path to list"},"pattern":{"type":"string","description":"Optional glob pattern"}},"required":["path"]}''\<close>

text \<open>The registered tools of either executor, in the order they are registered.\<close>

definition builtin_tools :: "(ToolDefinition \<times> builtin) list" where
  "builtin_tools = [
     (\<lparr>td_Name = ''read_file'', td_Description = ''Read the contents of a file. Returns the file content as text.'',
       td_Parameters = pathSchema\<rparr>, ReadFile),
     (\<lparr>td_Name = ''write_file'', td_Description = ''Write content to a file. Creates or overwrites the file.'',
       td_Parameters = writeSchema\<rparr>, WriteFile),
     (\<lparr>td_Name = ''run_command'', td_Description = ''Run a shell command and return its output.'',
       td_Parameters = commandSchema\<rparr>, RunCommand),
     (\<lparr>td_Name = ''list_files'', td_Description = ''List files in a directory.'', td_Parameters = listSchema\<rparr>, ListFiles)]"

definition find_tool :: "string \<Rightarrow> builtin option" where
  "find_tool name = map_option snd (find (\<lambda>(td, _). td_Name td = name) builtin_tools)"

text \<open>A Go map is walked in any order: \<open>arrange\<close> is the order of one walk.\<close>

definition ListTools :: "(ToolDefinition list \<Rightarrow> ToolDefinition list) \<Rightarrow> ToolDefinition list" where
  "ListTools arrange = arrange (map fst builtin_tools)"

definition CanExecute :: "string \<Rightarrow> bool" where
  "CanExecute name \<longleftrightarrow> find_tool name \<noteq> None"

fun join_comma :: "string list \<Rightarrow> string" where
  "join_comma [] = []"
| "join_comma [w] = w"
| "join_comma (w # ws) = w @ '', '' @ join_comma ws"

definition toolNames :: "(ToolDefinition list \<Rightarrow> ToolDefinition list) \<Rightarrow> string" where
  "toolNames arrange = join_comma (map td_Name (arrange (map fst builtin_tools)))"

definition unknown_tool :: "(ToolDefinition list \<Rightarrow> ToolDefinition list) \<Rightarrow> string \<Rightarrow> string" where
  "unknown_tool arrange name = ''unknown tool: '' @ name @ '' (available: '' @ toolNames arrange @ '')''"

section \<open>On the host\<close>

text \<open>
  The operating system over a world \<open>'w\<close>: \<open>sh -c\<close> with a working directory returns an error, if any, and
  the combined output; the deadline of a call shows as its error.
\<close>

record 'w os =
  os_ReadFile :: "string \<Rightarrow> 'w \<Rightarrow> string + string"
  os_WriteFile :: "string \<Rightarrow> string \<Rightarrow> 'w \<Rightarrow> string option \<times> 'w"
  os_sh :: "string \<Rightarrow> string \<Rightarrow> 'w \<Rightarrow> (string option \<times> string) \<times> 'w"
  os_ReadDir :: "string \<Rightarrow> 'w \<Rightarrow> string + (string \<times> bool) list"

definition runReadFile :: "'w os \<Rightarrow> raw_params \<Rightarrow> 'w \<Rightarrow> tool_json \<times> 'w" where
  "runReadFile os raw w = (case raw ReadFile of
      Inl e \<Rightarrow> (jsonError (''invalid params: '' @ e), w)
    | Inr p \<Rightarrow> if tp_Path p = [] then (jsonError ''path is required'', w)
        else (case os_ReadFile os (tp_Path p) w of
            Inl e \<Rightarrow> (jsonError (''read_file failed: '' @ e), w)
          | Inr data \<Rightarrow> (jsonResult data, w)))"

definition runWriteFile :: "'w os \<Rightarrow> raw_params \<Rightarrow> 'w \<Rightarrow> tool_json \<times> 'w" where
  "runWriteFile os raw w = (case raw WriteFile of
      Inl e \<Rightarrow> (jsonError (''invalid params: '' @ e), w)
    | Inr p \<Rightarrow> if tp_Path p = [] then (jsonError ''path is required'', w)
        else (case os_WriteFile os (tp_Path p) (tp_Content p) w of
            (Some e, w1) \<Rightarrow> (jsonError (''write_file failed: '' @ e), w1)
          | (None, w1) \<Rightarrow> (jsonResult (''Wrote '' @ itoa (int (length (tp_Content p))) @ '' bytes to '' @ tp_Path p), w1)))"

definition nl :: string where
  "nl = [CHR 0x0A]"

definition runCommand :: "'w os \<Rightarrow> string \<Rightarrow> raw_params \<Rightarrow> 'w \<Rightarrow> tool_json \<times> 'w" where
  "runCommand os workDir raw w = (case raw RunCommand of
      Inl e \<Rightarrow> (jsonError (''invalid params: '' @ e), w)
    | Inr p \<Rightarrow> if tp_Command p = [] then (jsonError ''command is required'', w)
        else (case os_sh os (tp_Command p) (if tp_WorkDir p \<noteq> [] then tp_WorkDir p else workDir) w of
            ((Some e, output), w1) \<Rightarrow> (jsonError (''command failed: '' @ e @ nl @ ''Output: '' @ output), w1)
          | ((None, output), w1) \<Rightarrow> (jsonResult output, w1)))"

definition entry_name :: "string \<times> bool \<Rightarrow> string" where
  "entry_name entry = (case entry of (name, dir) \<Rightarrow> if dir then name @ ''/'' else name)"

definition runListFiles :: "'w os \<Rightarrow> raw_params \<Rightarrow> 'w \<Rightarrow> tool_json \<times> 'w" where
  "runListFiles os raw w = (case raw ListFiles of
      Inl e \<Rightarrow> (jsonError (''invalid params: '' @ e), w)
    | Inr p \<Rightarrow> if tp_Path p = [] then (jsonError ''path is required'', w)
        else (case os_ReadDir os (tp_Path p) w of
            Inl e \<Rightarrow> (jsonError (''list_files failed: '' @ e), w)
          | Inr entries \<Rightarrow> (jsonResult (join_with (CHR 0x0A) (map entry_name entries)), w)))"

definition local_run :: "'w os \<Rightarrow> string \<Rightarrow> builtin \<Rightarrow> raw_params \<Rightarrow> 'w \<Rightarrow> tool_json \<times> 'w" where
  "local_run os workDir b = (case b of
      ReadFile \<Rightarrow> runReadFile os | WriteFile \<Rightarrow> runWriteFile os
    | RunCommand \<Rightarrow> runCommand os workDir | ListFiles \<Rightarrow> runListFiles os)"

definition local_Execute ::
  "'w os \<Rightarrow> string \<Rightarrow> (ToolDefinition list \<Rightarrow> ToolDefinition list) \<Rightarrow> string \<Rightarrow> raw_params \<Rightarrow> 'w \<Rightarrow> (string + tool_json) \<times> 'w" where
  "local_Execute os workDir arrange name raw w = (case find_tool name of
      None \<Rightarrow> (Inl (unknown_tool arrange name), w)
    | Some b \<Rightarrow> (case local_run os workDir b raw w of (r, w1) \<Rightarrow> (Inr r, w1)))"

section \<open>In a container\<close>

record 'w docker_executor =
  dx_workDir :: string
  dx_image :: string
  dx_run :: "string list \<Rightarrow> string option \<Rightarrow> 'w \<Rightarrow> (string option \<times> string) \<times> 'w"

record dockerInvocation =
  di_script :: string
  di_env :: "string list"
  di_stdin :: string
  di_workdir :: string

definition workspaceMount :: string where
  "workspaceMount = ''/workspace''"

text \<open>\<open>cwd\<close> is what \<open>filepath.Abs\<close> finds as the working directory, None when it fails.\<close>

definition NewDockerToolExecutor ::
  "string option \<Rightarrow> (string list \<Rightarrow> string option \<Rightarrow> 'w \<Rightarrow> (string option \<times> string) \<times> 'w) \<Rightarrow> string \<Rightarrow> string \<Rightarrow> 'w docker_executor" where
  "NewDockerToolExecutor cwd run workDir img =
    (let wd = (if workDir = [] then ''.'' else workDir) in
     \<lparr>dx_workDir = (if is_rooted wd then Clean wd else case cwd of None \<Rightarrow> wd | Some d \<Rightarrow> path_Abs d wd),
      dx_image = (if img = [] then ''alpine:3.24'' else img), dx_run = run\<rparr>)"

text \<open>On Unix, \<open>filepath.VolumeName\<close> is empty and \<open>ToSlash\<close> changes nothing.\<close>

definition containerPath :: "string \<Rightarrow> string + string" where
  "containerPath rel =
    (if rel = [] then Inl ''path is required''
     else if CHR 0x5C \<in> set rel \<or> CHR '':'' \<in> set rel then Inl (''absolute or invalid path is not allowed: '' @ rel)
     else let cleaned = trim_prefix (Clean rel) ''/'' in
       if cleaned = ''.'' then Inr workspaceMount
       else if cleaned = ''..'' \<or> has_prefix cleaned ''../'' then Inl (''path escapes workspace: '' @ rel)
       else Inr (workspaceMount @ ''/'' @ cleaned))"

definition readScript :: string where
  \<open>readScript = ''cat -- "$AF_TOOL_PATH"''\<close>

definition writeScript :: string where
  \<open>writeScript = ''cat > "$AF_TOOL_PATH" && printf 'Wrote %s bytes to %s'' @ [CHR 0x5C] @ ''n' "$(wc -c < "$AF_TOOL_PATH" | tr -d ' ')" "$AF_TOOL_PATH"''\<close>

definition commandScript :: string where
  \<open>commandScript = ''sh -c "$AF_TOOL_CMD"''\<close>

definition listScript :: string where
  \<open>listScript = ''ls -1 -p -A -- "$AF_TOOL_DIR"''\<close>

definition invocation :: "string \<Rightarrow> string \<Rightarrow> dockerInvocation" where
  "invocation script env = \<lparr>di_script = script, di_env = [env], di_stdin = [], di_workdir = []\<rparr>"

definition docker_build :: "builtin \<Rightarrow> raw_params \<Rightarrow> string + dockerInvocation" where
  "docker_build b raw = (case raw b of
      Inl e \<Rightarrow> Inl (''invalid params: '' @ e)
    | Inr p \<Rightarrow> (case b of
        ReadFile \<Rightarrow> (case containerPath (tp_Path p) of Inl e \<Rightarrow> Inl e
          | Inr path \<Rightarrow> Inr (invocation readScript (''AF_TOOL_PATH='' @ path)))
      | WriteFile \<Rightarrow> (case containerPath (tp_Path p) of Inl e \<Rightarrow> Inl e
          | Inr path \<Rightarrow> Inr ((invocation writeScript (''AF_TOOL_PATH='' @ path))\<lparr>di_stdin := tp_Content p\<rparr>))
      | RunCommand \<Rightarrow> if tp_Command p = [] then Inl ''command is required''
          else (case (if tp_WorkDir p \<noteq> [] then containerPath (tp_WorkDir p) else Inr []) of Inl e \<Rightarrow> Inl e
          | Inr wd \<Rightarrow> Inr ((invocation commandScript (''AF_TOOL_CMD='' @ tp_Command p))\<lparr>di_workdir := wd\<rparr>))
      | ListFiles \<Rightarrow> (case containerPath (tp_Path p) of Inl e \<Rightarrow> Inl e
          | Inr dir \<Rightarrow> Inr (invocation listScript (''AF_TOOL_DIR='' @ dir)))))"

definition isolation_args :: "string \<Rightarrow> string \<Rightarrow> string list" where
  "isolation_args workDir wd = [''run'', ''--rm'', ''--network=none'', ''--read-only'', ''--tmpfs'', ''/tmp:rw,size=64m'',
     ''--cap-drop=ALL'', ''--security-opt=no-new-privileges'', ''--pids-limit=256'', ''--memory=512m'', ''--cpus=1'',
     ''-v'', workDir @ '':'' @ workspaceMount @ '':rw'', ''-w'', wd]"

definition containerArgs :: "'w docker_executor \<Rightarrow> dockerInvocation \<Rightarrow> string list" where
  "containerArgs x iv = isolation_args (dx_workDir x) (if di_workdir iv = [] then workspaceMount else di_workdir iv) @
     concat (map (\<lambda>kv. [''-e'', kv]) (di_env iv)) @ [dx_image x, ''sh'', ''-c'', di_script iv]"

definition trim_right_nl :: "string \<Rightarrow> string" where
  "trim_right_nl s = rev (dropWhile (\<lambda>c. c = CHR 0x0A) (rev s))"

definition docker_Execute ::
  "'w docker_executor \<Rightarrow> (ToolDefinition list \<Rightarrow> ToolDefinition list) \<Rightarrow> string \<Rightarrow> raw_params \<Rightarrow> 'w \<Rightarrow> (string + tool_json) \<times> 'w" where
  "docker_Execute x arrange name raw w = (case find_tool name of
      None \<Rightarrow> (Inl (unknown_tool arrange name), w)
    | Some b \<Rightarrow> (case docker_build b raw of
        Inl e \<Rightarrow> (Inr (jsonError e), w)
      | Inr iv \<Rightarrow>
          (case dx_run x (containerArgs x iv) (if di_stdin iv \<noteq> [] then Some (di_stdin iv) else None) w of
            ((Some e, out), w1) \<Rightarrow>
              (Inr (jsonError (''docker '' @ name @ '' failed: '' @ e @ nl @ ''Output: '' @ out)), w1)
          | ((None, out), w1) \<Rightarrow>
              (Inr (jsonResult (if name \<noteq> ''read_file'' then trim_right_nl out else out)), w1))))"

end
