(* ===== verification/ToolProofs.thy ===== *)
theory ToolProofs
  imports Tools
begin

text \<open>
  The tools: what either executor promises the loop, stated as an interface with one interpretation for
  each, and the sandbox of the container, whose paths stay under the mounted workspace and whose command
  lines carry the isolation whatever a model asks for.
\<close>

section \<open>The interface the loop relies on\<close>

locale tool_executor =
  fixes exec :: "string \<Rightarrow> raw_params \<Rightarrow> 'w \<Rightarrow> (string + tool_json) \<times> 'w"
    and can :: "string \<Rightarrow> bool"
    and listed :: "ToolDefinition list"
  assumes can_iff: "can name \<longleftrightarrow> name \<in> td_Name ` set listed"
    and answers: "can name \<Longrightarrow> \<exists>r. fst (exec name raw w) = Inr r"
    and refuses: "\<not> can name \<Longrightarrow> \<exists>e. exec name raw w = (Inl e, w)"
begin

lemma refused_iff: "isl (fst (exec name raw w)) \<longleftrightarrow> name \<notin> td_Name ` set listed"
  using answers[of name raw w] refuses[of name raw w] can_iff[of name] by auto

text \<open>
  In a turn whose calls can all be executed no tool message is an error of the executor: a tool that fails
  answers with a result that says so, which the model reads.
\<close>

lemma turn_has_no_failed_tool:
  assumes "le_can_execute env = can"
    and "\<And>i name args. le_exec env i name args =
      (case fst (exec name (parse args) (world i)) of Inl e \<Rightarrow> Inl e | Inr r \<Rightarrow> Inr (Some (render r)))"
    and "allExecutable env calls" "tc \<in> set calls"
  shows "\<not> m_IsError (tool_message env i tc)"
proof -
  have "can (tc_Name tc)" using assms(1,3,4) by (simp add: allExecutable_def list_all_iff)
  from answers[OF this] obtain r where "fst (exec (tc_Name tc) (parse (tc_Arguments tc)) (world i)) = Inr r" by blast
  then show ?thesis using assms(2) by (simp add: tool_message_def zero_message_def)
qed

end

lemma find_tool_iff: "find_tool name \<noteq> None \<longleftrightarrow> name \<in> {''read_file'', ''write_file'', ''run_command'', ''list_files''}"
  by (auto simp: find_tool_def builtin_tools_def)

lemma listed_names: "set (arrange (map fst builtin_tools)) = set (map fst builtin_tools) \<Longrightarrow>
    td_Name ` set (ListTools arrange) = {''read_file'', ''write_file'', ''run_command'', ''list_files''}"
  by (auto simp: ListTools_def builtin_tools_def)

interpretation host: tool_executor "local_Execute os workDir rev" CanExecute "ListTools rev" for os :: "'w os" and workDir
proof unfold_locales
  fix name raw and w :: 'w
  show "CanExecute name \<longleftrightarrow> name \<in> td_Name ` set (ListTools rev)"
    using listed_names[of rev] find_tool_iff by (simp add: CanExecute_def)
  show "CanExecute name \<Longrightarrow> \<exists>r. fst (local_Execute os workDir rev name raw w) = Inr r"
    by (auto simp: CanExecute_def local_Execute_def split: prod.splits)
  show "\<not> CanExecute name \<Longrightarrow> \<exists>e. local_Execute os workDir rev name raw w = (Inl e, w)"
    by (simp add: CanExecute_def local_Execute_def)
qed

interpretation docker: tool_executor "docker_Execute x id" CanExecute "ListTools id" for x :: "'w docker_executor"
proof unfold_locales
  fix name raw and w :: 'w
  show "CanExecute name \<longleftrightarrow> name \<in> td_Name ` set (ListTools id)"
    using listed_names[of id] find_tool_iff by (simp add: CanExecute_def)
  show "CanExecute name \<Longrightarrow> \<exists>r. fst (docker_Execute x id name raw w) = Inr r"
    by (auto simp: CanExecute_def docker_Execute_def split: prod.splits sum.splits option.splits)
  show "\<not> CanExecute name \<Longrightarrow> \<exists>e. docker_Execute x id name raw w = (Inl e, w)"
    by (simp add: CanExecute_def docker_Execute_def)
qed

section \<open>The sandbox\<close>

text \<open>A path of the container that lies in the mounted workspace, once its dots are resolved.\<close>

definition in_workspace :: "string \<Rightarrow> bool" where
  "in_workspace p \<longleftrightarrow> is_rooted p \<and> take 1 (path_segs p) = [''workspace'']"

lemma plain_workspace: "plain ''workspace''"
  by (simp add: plain_def)

lemma split_mount: "split_on CHR ''/'' (workspaceMount @ ''/'' @ s) = [] # ''workspace'' # split_on CHR ''/'' s"
  by (simp add: workspaceMount_def)

lemma mount_segs:
  assumes "\<forall>w \<in> set ws. plain w"
  shows "path_segs (workspaceMount @ ''/'' @ join_with CHR ''/'' ws) = ''workspace'' # ws"
proof -
  have "split_on CHR ''/'' (join_with CHR ''/'' ws) = (if ws = [] then [[]] else ws)"
    using assms split_join[of ws "CHR ''/''"] by (auto simp: plain_def)
  moreover have "clean_segs True (''workspace'' # ws) = ''workspace'' # ws"
    using assms plain_workspace by simp
  moreover have "clean_segs True [''workspace'', []] = [''workspace'']" by (simp add: clean_segs_def clean_step_def)
  ultimately show ?thesis unfolding path_segs_def split_mount by (auto simp del: clean_segs_plain)
qed

lemma in_mount: "\<forall>w \<in> set ws. plain w \<Longrightarrow> in_workspace (workspaceMount @ ''/'' @ join_with CHR ''/'' ws)"
  using mount_segs[of ws] by (simp add: in_workspace_def) (simp add: workspaceMount_def is_rooted_def has_prefix_def)

lemma mount_itself: "in_workspace workspaceMount"
  by (simp add: in_workspace_def workspaceMount_def is_rooted_def has_prefix_def path_segs_def clean_segs_def clean_step_def)

lemma join_plain_not_rooted: "\<forall>w \<in> set ws. plain w \<Longrightarrow> \<not> has_prefix (join_with CHR ''/'' ws) ''/''"
proof (cases ws)
  case (Cons w rest)
  assume "\<forall>w \<in> set ws. plain w"
  then obtain c cs where "w = c # cs" "c \<noteq> CHR ''/''" using Cons by (cases w) (auto simp: plain_def)
  then show ?thesis using Cons by (cases rest) (simp_all add: has_prefix_def)
qed (simp add: has_prefix_def)

lemma dotdot_prefix: "join_with CHR ''/'' (''..'' # rest) = ''..'' \<or> has_prefix (join_with CHR ''/'' (''..'' # rest)) ''../''"
  by (cases rest) (simp_all add: has_prefix_def)

lemma container_path_inside:
  assumes "containerPath rel = Inr p" shows "in_workspace p"
proof (cases "is_rooted rel")
  case True
  let ?ws = "path_segs rel"
  have "trim_prefix (Clean rel) ''/'' = join_with CHR ''/'' ?ws"
    using True by (simp add: Clean_rooted rooted_path_def trim_prefix_def has_prefix_def)
  then have "p = workspaceMount \<or> p = workspaceMount @ ''/'' @ join_with CHR ''/'' ?ws"
    using assms by (auto simp: containerPath_def Let_def split: if_splits)
  then show ?thesis using mount_itself in_mount[OF path_segs_plain] by metis
next
  case False
  obtain n ws where segs: "clean_segs False (split_on CHR ''/'' rel) = replicate n ''..'' @ ws" "\<forall>w \<in> set ws. plain w"
    by (rule rel_segs)
  have clean: "Clean rel = (if join_with CHR ''/'' (replicate n ''..'' @ ws) = [] then ''.'' else join_with CHR ''/'' (replicate n ''..'' @ ws))"
    using False segs(1) by (simp add: Clean_def Let_def)
  show ?thesis
  proof (cases n)
    case 0
    have cl: "Clean rel = (if join_with CHR ''/'' ws = [] then ''.'' else join_with CHR ''/'' ws)" using clean 0 by simp
    have "trim_prefix (Clean rel) ''/'' = Clean rel"
      using join_plain_not_rooted[OF segs(2)] unfolding cl trim_prefix_def by (simp add: has_prefix_def)
    then have "p = workspaceMount \<or> p = workspaceMount @ ''/'' @ join_with CHR ''/'' ws"
      using assms cl by (auto simp: containerPath_def Let_def split: if_splits)
    then show ?thesis using mount_itself in_mount[OF segs(2)] by metis
  next
    case (Suc m)
    let ?s = "join_with CHR ''/'' (''..'' # replicate m ''..'' @ ws)"
    have dd: "?s = ''..'' \<or> has_prefix ?s ''../''" by (rule dotdot_prefix)
    then have "?s \<noteq> []" by (auto simp: has_prefix_def)
    then have "Clean rel = ?s" using clean Suc by simp
    moreover have "\<not> has_prefix ?s ''/''" using dd by (auto simp: has_prefix_iff)
    ultimately have "trim_prefix (Clean rel) ''/'' = ?s" by (simp add: trim_prefix_def)
    moreover have "?s \<noteq> ''.''" using dd by (auto simp: has_prefix_iff)
    ultimately have "isl (containerPath rel)" using dd by (auto simp: containerPath_def Let_def)
    then show ?thesis using assms by simp
  qed
qed

text \<open>What a model chooses reaches the command line in three places only.\<close>

lemma docker_build_ok:
  assumes "docker_build b raw = Inr iv"
  shows "di_script iv \<in> {readScript, writeScript, commandScript, listScript} \<and>
    (di_workdir iv = [] \<or> in_workspace (di_workdir iv)) \<and>
    (\<exists>v. di_env iv = [''AF_TOOL_CMD='' @ v] \<or> in_workspace v \<and> di_env iv \<in> {[''AF_TOOL_PATH='' @ v], [''AF_TOOL_DIR='' @ v]})"
  using assms by (auto simp: docker_build_def invocation_def dest: container_path_inside
      split: builtin.splits sum.splits if_splits)

text \<open>The docker command as a log of its calls, with any answers.\<close>

type_synonym docker_log = "(string list \<times> string option) list"

definition logging :: "(string list \<Rightarrow> string option \<Rightarrow> docker_log \<Rightarrow> string option \<times> string) \<Rightarrow> string \<Rightarrow> string \<Rightarrow> docker_log docker_executor" where
  "logging answer workDir img = \<lparr>dx_workDir = workDir, dx_image = img,
     dx_run = (\<lambda>args stdin log. (answer args stdin log, log @ [(args, stdin)]))\<rparr>"


text \<open>The loop's view of an executor: \<open>parse\<close> reads the arguments, \<open>render\<close> is the JSON text of a result.\<close>

definition with_executor ::
  "(string \<Rightarrow> raw_params \<Rightarrow> 'w \<Rightarrow> (string + tool_json) \<times> 'w) \<Rightarrow> (string \<Rightarrow> raw_params) \<Rightarrow> (tool_json \<Rightarrow> string) \<Rightarrow>
   (nat \<Rightarrow> 'w) \<Rightarrow> ToolDefinition list \<Rightarrow> loop_env \<Rightarrow> loop_env" where
  "with_executor exec parse render world tools env = env\<lparr>le_can_execute := CanExecute, le_list_tools := tools,
     le_exec := \<lambda>i name args. (case fst (exec name (parse args) (world i)) of Inl e \<Rightarrow> Inl e | Inr r \<Rightarrow> Inr (Some (render r)))\<rparr>"

text \<open>
  Neither executor fails a turn. When all calls of an answer name tools the server has, no tool message
  that the loop records is an error of the executor, on the host and in the container alike: a tool that
  fails answers with a result that says so. And every tool either executor lists to the model is one that
  it runs.
\<close>

theorem executors_never_fail_a_turn:
  assumes "list_all (\<lambda>tc. CanExecute (tc_Name tc)) calls" "tc \<in> set calls"
  shows "\<not> m_IsError (tool_message (with_executor (local_Execute os workDir rev) parse render world (ListTools rev) env) i tc) \<and>
    \<not> m_IsError (tool_message (with_executor (docker_Execute x id) parse render world' (ListTools id) env) i tc) \<and>
    td_Name ` set (ListTools rev) = {n. CanExecute n} \<and> td_Name ` set (ListTools id) = {n. CanExecute n}"
proof (intro conjI)
  let ?l = "with_executor (local_Execute os workDir rev) parse render world (ListTools rev) env"
  let ?d = "with_executor (docker_Execute x id) parse render world' (ListTools id) env"
  have all: "allExecutable ?l calls" "allExecutable ?d calls" using assms(1) by (simp_all add: allExecutable_def with_executor_def)
  have can: "le_can_execute ?l = CanExecute" "le_can_execute ?d = CanExecute" by (simp_all add: with_executor_def)
  have exec: "\<And>i name args. le_exec ?l i name args = (case fst (local_Execute os workDir rev name (parse args) (world i)) of Inl e \<Rightarrow> Inl e | Inr r \<Rightarrow> Inr (Some (render r)))"
    "\<And>i name args. le_exec ?d i name args = (case fst (docker_Execute x id name (parse args) (world' i)) of Inl e \<Rightarrow> Inl e | Inr r \<Rightarrow> Inr (Some (render r)))"
    by (simp_all add: with_executor_def)
  show "\<not> m_IsError (tool_message ?l i tc)" by (rule host.turn_has_no_failed_tool[OF can(1) exec(1) all(1) assms(2)])
  show "\<not> m_IsError (tool_message ?d i tc)" by (rule docker.turn_has_no_failed_tool[OF can(2) exec(2) all(2) assms(2)])
  show "td_Name ` set (ListTools rev) = {n. CanExecute n}" "td_Name ` set (ListTools id) = {n. CanExecute n}"
    using host.can_iff docker.can_iff by auto
qed

definition demo_os :: "unit os" where
  "demo_os = \<lparr>os_ReadFile = (\<lambda>_ _. Inl ''no such file''), os_WriteFile = (\<lambda>_ _ w. (None, w)),
     os_sh = (\<lambda>_ _ w. ((None, ''ok''), w)), os_ReadDir = (\<lambda>_ _. Inr [])\<rparr>"

definition demo_parse :: "string \<Rightarrow> raw_params" where
  "demo_parse args b = Inr \<lparr>tp_Path = args, tp_Content = [], tp_Command = args, tp_WorkDir = [], tp_Pattern = []\<rparr>"

theorem executors_never_fail_a_turn_witness:
  "\<not> m_IsError (tool_message (with_executor (local_Execute demo_os ''/srv'' rev) demo_parse (\<lambda>_. []) (\<lambda>_. ()) (ListTools rev) demo_loop_env) 0
      \<lparr>tc_ID = ''c'', tc_Name = ''read_file'', tc_Arguments = ''x''\<rparr>)"
proof -
  let ?tc = "\<lparr>tc_ID = ''c'', tc_Name = ''read_file'', tc_Arguments = ''x''\<rparr>"
  have "list_all (\<lambda>tc. CanExecute (tc_Name tc)) [?tc]" using find_tool_iff[of "''read_file''"] by (simp add: CanExecute_def)
  then show ?thesis by (rule executors_never_fail_a_turn[THEN conjunct1]) simp
qed

text \<open>
  A write hands the content to the container on its standard input, but the command line does not ask docker
  to attach it (\<open>-i\<close>, \<open>--interactive\<close>).
\<close>

lemma write_does_not_attach_stdin:
  "let log = snd (docker_Execute (logging (\<lambda>_ _ _. (None, [])) ''/w'' ''alpine:3.24'') id ''write_file''
       (\<lambda>_. Inr \<lparr>tp_Path = ''a'', tp_Content = ''hello'', tp_Command = [], tp_WorkDir = [], tp_Pattern = []\<rparr>) []) in
   map snd log = [Some ''hello''] \<and> \<not> list_ex (\<lambda>args. list_ex (\<lambda>a. a = ''-i'' \<or> a = ''--interactive'') (fst args)) log"
  by code_simp

text \<open>The pattern that \<open>list_files\<close> advertises is never read.\<close>

lemma list_pattern_is_ignored:
  "runListFiles os (\<lambda>b. map_sum id (\<lambda>p. p\<lparr>tp_Pattern := pat\<rparr>) (raw b)) w = runListFiles os raw w"
  by (auto simp: runListFiles_def split: sum.splits)

end
