(* ===== verification/Limiter.thy ===== *)
theory Limiter
  imports Prelude
begin

text \<open>
  The Redis limiter and byte cache (\<open>infrastructure/cache/redis.go\<close>, \<open>kv.go\<close>). A Redis connection is a
  parameter: its commands over a server state \<open>'r\<close>, each with an error text or its reply. What the code
  relies on of the server is the predicate \<open>redis_laws\<close> below; times are nanoseconds.
\<close>

record 'r redis =
  rc_Incr :: "string \<Rightarrow> 'r \<Rightarrow> (string + int) \<times> 'r"
  rc_Decr :: "string \<Rightarrow> 'r \<Rightarrow> string option \<times> 'r"
  rc_Expire :: "string \<Rightarrow> int \<Rightarrow> 'r \<Rightarrow> string option \<times> 'r"
  rc_Get :: "string \<Rightarrow> 'r \<Rightarrow> string + string option"
  rc_Set :: "string \<Rightarrow> string \<Rightarrow> int \<Rightarrow> 'r \<Rightarrow> string option \<times> 'r"
  rc_Del :: "string \<Rightarrow> 'r \<Rightarrow> string option \<times> 'r"

section \<open>The limiter\<close>

definition concurrencyLease :: int where
  "concurrencyLease = 600 * 1000000000"

definition Allow :: "'r redis \<Rightarrow> string \<Rightarrow> int \<Rightarrow> int \<Rightarrow> 'r \<Rightarrow> (string + bool) \<times> 'r" where
  "Allow rdb key limit window r = (case rc_Incr rdb key r of
      (Inl e, r1) \<Rightarrow> (Inl e, r1)
    | (Inr n, r1) \<Rightarrow>
        if n = 1 then (case rc_Expire rdb key window r1 of
            (Some e, r2) \<Rightarrow> (Inl e, r2)
          | (None, r2) \<Rightarrow> (Inr (n \<le> limit), r2))
        else (Inr (n \<le> limit), r1))"

text \<open>The errors of the rollbacks are dropped.\<close>

definition Acquire :: "'r redis \<Rightarrow> string \<Rightarrow> int \<Rightarrow> 'r \<Rightarrow> (string + bool) \<times> 'r" where
  "Acquire rdb key limit r = (case rc_Incr rdb key r of
      (Inl e, r1) \<Rightarrow> (Inl e, r1)
    | (Inr n, r1) \<Rightarrow> (case (if n = 1 then rc_Expire rdb key concurrencyLease r1 else (None, r1)) of
        (Some e, r2) \<Rightarrow> (Inl e, snd (rc_Decr rdb key r2))
      | (None, r2) \<Rightarrow>
          if n > limit then (Inr False, snd (rc_Decr rdb key r2)) else (Inr True, r2)))"

definition Release :: "'r redis \<Rightarrow> string \<Rightarrow> 'r \<Rightarrow> string option \<times> 'r" where
  "Release rdb key r = rc_Decr rdb key r"

section \<open>The byte cache\<close>

text \<open>A miss is a value of its own, not an error.\<close>

definition kv_Get :: "'r redis \<Rightarrow> string \<Rightarrow> 'r \<Rightarrow> string + string option" where
  "kv_Get rdb key r = (case rc_Get rdb key r of
      Inl e \<Rightarrow> Inl e
    | Inr None \<Rightarrow> Inr None
    | Inr (Some b) \<Rightarrow> Inr (Some b))"

definition kv_Set :: "'r redis \<Rightarrow> string \<Rightarrow> string \<Rightarrow> int \<Rightarrow> 'r \<Rightarrow> string option \<times> 'r" where
  "kv_Set rdb key val ttl r = rc_Set rdb key val ttl r"

definition kv_Delete :: "'r redis \<Rightarrow> string \<Rightarrow> 'r \<Rightarrow> string option \<times> 'r" where
  "kv_Delete rdb key r = rc_Del rdb key r"

section \<open>What the limiter relies on\<close>

text \<open>
  The documented behaviour of INCR, DECR and EXPIRE on a server whose commands succeed or leave it as it was:
  \<open>count\<close> is the number at a key (0 when there is none), \<open>ttl\<close> whether the key has a time to live.
\<close>

definition redis_laws :: "'r redis \<Rightarrow> ('r \<Rightarrow> string \<Rightarrow> int) \<Rightarrow> ('r \<Rightarrow> string \<Rightarrow> bool) \<Rightarrow> bool" where
  "redis_laws rdb count ttl \<longleftrightarrow>
    (\<forall>k r n r'. rc_Incr rdb k r = (Inr n, r') \<longrightarrow>
       n = count r k + 1 \<and> count r' = (count r)(k := n) \<and> ttl r' = ttl r) \<and>
    (\<forall>k r e r'. rc_Incr rdb k r = (Inl e, r') \<longrightarrow> r' = r) \<and>
    (\<forall>k r r'. rc_Decr rdb k r = (None, r') \<longrightarrow> count r' = (count r)(k := count r k - 1) \<and> ttl r' = ttl r) \<and>
    (\<forall>k r e r'. rc_Decr rdb k r = (Some e, r') \<longrightarrow> r' = r) \<and>
    (\<forall>k d r r'. rc_Expire rdb k d r = (None, r') \<longrightarrow> count r' = count r \<and> ttl r' = (ttl r)(k := True)) \<and>
    (\<forall>k d r e r'. rc_Expire rdb k d r = (Some e, r') \<longrightarrow> r' = r)"

end
