(* ===== verification/LimiterProofs.thy ===== *)
theory LimiterProofs
  imports Limiter
begin

text \<open>
  The limiter: how many requests a window admits and how many holders a concurrency key ever has, with the
  commands of any number of requests interleaved; and what a failed EXPIRE leaves behind.
\<close>

section \<open>Single commands\<close>

lemma Incr_ok: "redis_laws rdb count ttl \<Longrightarrow> rc_Incr rdb k r = (Inr n, r') \<Longrightarrow>
    n = count r k + 1 \<and> count r' = (count r)(k := n) \<and> ttl r' = ttl r"
  unfolding redis_laws_def by (elim conjE allE[of _ k] allE[of _ r]) simp

lemma Decr_ok: "redis_laws rdb count ttl \<Longrightarrow> rc_Decr rdb k r = (None, r') \<Longrightarrow>
    count r' = (count r)(k := count r k - 1) \<and> ttl r' = ttl r"
  unfolding redis_laws_def by blast

lemma Decr_failed: "redis_laws rdb count ttl \<Longrightarrow> rc_Decr rdb k r = (Some e, r') \<Longrightarrow> r' = r"
  unfolding redis_laws_def by blast

lemma Expire_ok: "redis_laws rdb count ttl \<Longrightarrow> rc_Expire rdb k d r = (None, r') \<Longrightarrow>
    count r' = count r \<and> ttl r' = (ttl r)(k := True)"
  unfolding redis_laws_def by blast

lemma Expire_failed: "redis_laws rdb count ttl \<Longrightarrow> rc_Expire rdb k d r = (Some e, r') \<Longrightarrow> r' = r"
  unfolding redis_laws_def by blast

section \<open>The rate window\<close>

text \<open>A run of calls on one key while its window lasts.\<close>

fun allow_calls :: "'r redis \<Rightarrow> string \<Rightarrow> int \<Rightarrow> int \<Rightarrow> nat \<Rightarrow> 'r \<Rightarrow> (string + bool) list \<times> 'r" where
  "allow_calls rdb key limit window 0 r = ([], r)"
| "allow_calls rdb key limit window (Suc m) r = (case Allow rdb key limit window r of
     (res, r1) \<Rightarrow> (case allow_calls rdb key limit window m r1 of (rest, r2) \<Rightarrow> (res # rest, r2)))"

lemma Allow_counts:
  assumes "redis_laws rdb count ttl" "Allow rdb key limit window r = (Inr ok, r')"
  shows "ok \<longleftrightarrow> count r key + 1 \<le> limit" "count r' key = count r key + 1"
    "count r key \<noteq> 0 \<Longrightarrow> ttl r' = ttl r"
proof -
  obtain n r1 where incr: "rc_Incr rdb key r = (Inr n, r1)"
    using assms(2) by (auto simp: Allow_def split: prod.splits sum.splits)
  note n = Incr_ok[OF assms(1) incr]
  consider "n = 1" "rc_Expire rdb key window r1 = (None, r')" "ok \<longleftrightarrow> n \<le> limit" | "n \<noteq> 1" "r' = r1" "ok \<longleftrightarrow> n \<le> limit"
    using assms(2) incr by (auto simp: Allow_def split: if_splits prod.splits option.splits)
  then have "(ok \<longleftrightarrow> n \<le> limit) \<and> count r' = count r1 \<and> (n \<noteq> 1 \<longrightarrow> ttl r' = ttl r1)"
    by cases (use Expire_ok[OF assms(1)] in auto)
  then show "ok \<longleftrightarrow> count r key + 1 \<le> limit" "count r' key = count r key + 1"
    "count r key \<noteq> 0 \<Longrightarrow> ttl r' = ttl r" using n by simp_all
qed

lemma window_counts:
  assumes "redis_laws rdb count ttl"
  shows "allow_calls rdb key limit window m r = (results, r') \<Longrightarrow> list_all (\<lambda>x. \<not> isl x) results \<Longrightarrow>
    results = map (\<lambda>i. Inr (count r key + int i \<le> limit)) [1..<m + 1] \<and>
    (0 < count r key \<longrightarrow> ttl r' key = ttl r key)"
proof (induction m arbitrary: r results)
  case (Suc m)
  obtain res r1 rest where one: "Allow rdb key limit window r = (res, r1)"
    and more: "allow_calls rdb key limit window m r1 = (rest, r')" and results: "results = res # rest"
    using Suc.prems(1) by (auto split: prod.splits)
  obtain ok where res: "res = Inr ok" using Suc.prems(2) results by (cases res) auto
  note this_one = Allow_counts[OF assms one[unfolded res]]
  have IH: "rest = map (\<lambda>i. Inr (count r1 key + int i \<le> limit)) [1..<m + 1]" "0 < count r1 key \<longrightarrow> ttl r' key = ttl r1 key"
    using Suc.IH[OF more] Suc.prems(2) results by simp_all
  have upt: "[1..<Suc m + 1] = 1 # map Suc [1..<m + 1]" by (simp add: map_Suc_upt upt_conv_Cons del: upt_Suc)
  have "map (\<lambda>i. Inr (count r key + int i \<le> limit)) [1..<Suc m + 1] =
      (Inr (count r key + 1 \<le> limit) :: string + bool) # map (\<lambda>i. Inr (count r1 key + int i \<le> limit)) [1..<m + 1]"
    unfolding upt using this_one(2) by (simp add: algebra_simps del: upt_Suc)
  then have "results = map (\<lambda>i. Inr (count r key + int i \<le> limit)) [1..<Suc m + 1]"
    using results res this_one(1) IH(1) by (simp del: upt_Suc)
  moreover have "0 < count r key \<longrightarrow> ttl r' key = ttl r key" using IH(2) this_one(2,3) by simp
  ultimately show ?case ..
qed simp

text \<open>
  a window admits exactly its limit. While a window lasts and Redis answers, the calls on a fresh key are
  allowed up to the limit and refused from then on, in the order they reach the server.
\<close>

theorem window_admits_its_limit:
  assumes "redis_laws rdb count ttl" "count r key = 0"
    and "allow_calls rdb key limit window m r = (results, r')" "list_all (\<lambda>x. \<not> isl x) results"
  shows "results = map (\<lambda>i. Inr (int i \<le> limit)) [1..<m + 1]"
  using window_counts[OF assms(1,3,4)] assms(2) by simp

text \<open>
  An EXPIRE that fails leaves the key without a time to live, and no later call sets one: the key never
  lapses, so all calls from the limit on are refused for good.
\<close>

lemma lost_expiry_never_ends:
  assumes "redis_laws rdb count ttl" "count r key = 0" "\<not> ttl r key"
    and "rc_Incr rdb key r = (Inr n, r1)" "rc_Expire rdb key window r1 = (Some e, r2)"
    and "allow_calls rdb key limit window m r2 = (results, r')" "list_all (\<lambda>x. \<not> isl x) results"
  shows "fst (Allow rdb key limit window r) = Inl e" "\<not> ttl r' key"
    and "results = map (\<lambda>i. Inr (1 + int i \<le> limit)) [1..<m + 1]"
proof -
  note n = Incr_ok[OF assms(1,4)]
  have r2: "r2 = r1" by (rule Expire_failed[OF assms(1,5)])
  show "fst (Allow rdb key limit window r) = Inl e" using n assms(2,4,5) by (simp add: Allow_def)
  show "\<not> ttl r' key" "results = map (\<lambda>i. Inr (1 + int i \<le> limit)) [1..<m + 1]"
    using window_counts[OF assms(1,6,7)] n assms(2,3) r2 by simp_all
qed

section \<open>Concurrency slots\<close>

text \<open>
  Where a request stands on a concurrency key: between INCR and EXPIRE, holding a slot, about to roll back,
  or gone with its count left behind because a DECR failed.
\<close>

datatype slot = Outside | Leasing | Holding | RollingBack | Leaked

definition after_incr :: "int \<Rightarrow> int \<Rightarrow> slot" where
  "after_incr limit n = (if n = 1 then Leasing else if n > limit then RollingBack else Holding)"

definition after_lease :: "int \<Rightarrow> string option \<Rightarrow> slot" where
  "after_lease limit res = (if res \<noteq> None \<or> 1 > limit then RollingBack else Holding)"

definition after_decr :: "string option \<Rightarrow> slot" where
  "after_decr res = (if res = None then Outside else Leaked)"

text \<open>
  The commands of \<open>Acquire\<close> and \<open>Release\<close> of any number of requests on one key, one command at a time. No
  step lets the lease lapse: it outlasts every holder, which is how the code chose it.
\<close>

inductive slot_step :: "'r redis \<Rightarrow> string \<Rightarrow> int \<Rightarrow> 'r \<times> slot list \<Rightarrow> 'r \<times> slot list \<Rightarrow> bool"
  for rdb key limit where
  ask: "i < length ps \<Longrightarrow> ps ! i = Outside \<Longrightarrow> rc_Incr rdb key r = (Inr n, r') \<Longrightarrow>
    slot_step rdb key limit (r, ps) (r', ps[i := after_incr limit n])"
| lease: "i < length ps \<Longrightarrow> ps ! i = Leasing \<Longrightarrow> rc_Expire rdb key concurrencyLease r = (res, r') \<Longrightarrow>
    slot_step rdb key limit (r, ps) (r', ps[i := after_lease limit res])"
| give_back: "i < length ps \<Longrightarrow> ps ! i \<in> {Holding, RollingBack} \<Longrightarrow> rc_Decr rdb key r = (res, r') \<Longrightarrow>
    slot_step rdb key limit (r, ps) (r', ps[i := after_decr res])"

abbreviation slot_steps :: "'r redis \<Rightarrow> string \<Rightarrow> int \<Rightarrow> 'r \<times> slot list \<Rightarrow> 'r \<times> slot list \<Rightarrow> bool" where
  "slot_steps rdb key limit \<equiv> (slot_step rdb key limit)\<^sup>*\<^sup>*"

definition tally :: "(slot \<Rightarrow> bool) \<Rightarrow> slot list \<Rightarrow> int" where
  "tally P ps = sum_list (map (\<lambda>p. of_bool (P p)) ps)"

lemma tally_update: "i < length ps \<Longrightarrow> tally P (ps[i := x]) = tally P ps - of_bool (P (ps ! i)) + of_bool (P x)"
  unfolding tally_def by (induction ps arbitrary: i) (auto split: nat.split simp: nth_Cons)

lemma tally_mono: "(\<And>p. P p \<Longrightarrow> Q p) \<Longrightarrow> tally P ps \<le> tally Q ps"
  unfolding tally_def by (intro sum_list_mono) (simp add: of_bool_def)

definition slots_ok :: "('r \<Rightarrow> string \<Rightarrow> int) \<Rightarrow> string \<Rightarrow> int \<Rightarrow> 'r \<times> slot list \<Rightarrow> bool" where
  "slots_ok count key limit s \<longleftrightarrow> (case s of (r, ps) \<Rightarrow>
     count r key = tally (\<lambda>p. p \<noteq> Outside) ps \<and>
     tally (\<lambda>p. p = Holding \<or> p = Leasing \<and> 1 \<le> limit) ps \<le> limit)"

lemma slot_step_ok:
  assumes laws: "redis_laws rdb count ttl" and "0 \<le> limit"
  shows "slot_step rdb key limit s s' \<Longrightarrow> slots_ok count key limit s \<Longrightarrow> slots_ok count key limit s'"
proof (induction rule: slot_step.induct)
  case (ask i ps r n r')
  note n = Incr_ok[OF laws ask(3)]
  have le: "tally (\<lambda>p. p = Holding \<or> p = Leasing \<and> 1 \<le> limit) ps \<le> tally (\<lambda>p. p \<noteq> Outside) ps" by (rule tally_mono) auto
  show ?case using ask n le assms(2)
    by (auto simp: slots_ok_def tally_update after_incr_def)
next
  case (lease i ps r res r')
  have "count r' key = count r key"
    using Expire_ok[OF laws, of key concurrencyLease r r'] Expire_failed[OF laws, of key concurrencyLease r _ r'] lease(3)
    by (cases res) auto
  then show ?case using lease by (auto simp: slots_ok_def tally_update after_lease_def)
next
  case (give_back i ps r res r')
  have "count r' key = count r key - of_bool (res = None)"
  proof (cases res)
    case (Some e)
    then have "r' = r" using give_back(3) Decr_failed[OF laws] by blast
    then show ?thesis using Some by simp
  qed (use Decr_ok[OF laws] give_back(3) in simp)
  then show ?case using give_back by (auto simp: slots_ok_def tally_update after_decr_def)
qed

lemma slot_steps_ok:
  assumes "redis_laws rdb count ttl" "0 \<le> limit" "slot_steps rdb key limit s s'" "slots_ok count key limit s"
  shows "slots_ok count key limit s'"
  using assms(3,4) by (induction rule: rtranclp_induct) (auto intro: slot_step_ok[OF assms(1,2)])

lemma tally_filter: "tally P ps = int (length (filter P ps))"
  unfolding tally_def by (induction ps) auto

text \<open>The functions run alone are such steps.\<close>

lemma Acquire_is_steps:
  assumes "redis_laws rdb count ttl" "Acquire rdb key limit r = (Inr ok, r')" "i < length ps" "ps ! i = Outside"
  shows "\<exists>p. slot_steps rdb key limit (r, ps) (r', ps[i := p]) \<and> (p = Holding \<longleftrightarrow> ok)"
proof -
  obtain n r1 where incr: "rc_Incr rdb key r = (Inr n, r1)"
    using assms(2) by (auto simp: Acquire_def split: prod.splits sum.splits)
  have one: "slot_step rdb key limit (r, ps) (r1, ps[i := after_incr limit n])" by (rule ask[OF assms(3,4) incr])
  obtain r2 where lease: "(if n = 1 then rc_Expire rdb key concurrencyLease r1 else (None, r1)) = (None, r2)"
    using assms(2) incr by (auto simp: Acquire_def split: prod.splits option.splits if_splits)
  define p where "p = (if n > limit then RollingBack else Holding)"
  have two: "slot_steps rdb key limit (r, ps) (r2, ps[i := p])"
  proof (cases "n = 1")
    case True
    then have "slot_step rdb key limit (r1, ps[i := Leasing]) (r2, ps[i := Leasing, i := after_lease limit None])"
      using lease assms(3) by (intro slot_step.lease) auto
    moreover have "after_lease limit None = p" using True by (simp add: after_lease_def p_def)
    ultimately show ?thesis using one True by (simp add: after_incr_def)
  next
    case False
    then show ?thesis using one lease by (auto simp: after_incr_def p_def)
  qed
  show ?thesis
  proof (cases "n > limit")
    case True
    obtain res r3 where decr: "rc_Decr rdb key r2 = (res, r3)" by (rule prod.exhaust)
    then have "slot_step rdb key limit (r2, ps[i := p]) (r3, ps[i := p, i := after_decr res])"
      using assms(3) True by (intro give_back) (auto simp: p_def)
    moreover have "r3 = r'" "\<not> ok" using assms(2) incr lease True decr by (auto simp: Acquire_def)
    ultimately have "slot_steps rdb key limit (r, ps) (r', ps[i := after_decr res])" using two by simp
    moreover have "after_decr res \<noteq> Holding" by (simp add: after_decr_def)
    ultimately show ?thesis using \<open>\<not> ok\<close> by blast
  next
    case False
    then have "r2 = r'" "ok" using assms(2) incr lease by (auto simp: Acquire_def)
    then show ?thesis using two False by (auto simp: p_def intro!: exI[of _ p])
  qed
qed


section \<open>Examples\<close>

text \<open>A server in memory: numbers at keys, and the keys with a time to live.\<close>

definition mem_redis :: "((string \<Rightarrow> int) \<times> (string \<Rightarrow> bool)) redis" where
  "mem_redis = \<lparr>rc_Incr = (\<lambda>k (c, t). (Inr (c k + 1), (c(k := c k + 1), t))),
     rc_Decr = (\<lambda>k (c, t). (None, (c(k := c k - 1), t))),
     rc_Expire = (\<lambda>k d (c, t). (None, (c, t(k := True)))),
     rc_Get = (\<lambda>_ _. Inr None), rc_Set = (\<lambda>_ _ _ r. (None, r)), rc_Del = (\<lambda>_ r. (None, r))\<rparr>"

lemma mem_laws: "redis_laws mem_redis fst snd"
  by (auto simp: redis_laws_def mem_redis_def)

abbreviation mem_empty :: "(string \<Rightarrow> int) \<times> (string \<Rightarrow> bool)" where
  "mem_empty \<equiv> (\<lambda>_. 0, \<lambda>_. False)"

theorem window_admits_its_limit_witness:
  "fst (allow_calls mem_redis ''k'' 2 60 3 mem_empty) = [Inr True, Inr True, Inr False]"
proof -
  obtain results r' where calls: "allow_calls mem_redis ''k'' 2 60 3 mem_empty = (results, r')" by (rule prod.exhaust)
  have "list_all (\<lambda>x. \<not> isl x) (fst (allow_calls mem_redis ''k'' 2 60 3 mem_empty))" by code_simp
  then have "results = map (\<lambda>i. Inr (int i \<le> 2)) [1..<3 + 1]"
    using window_admits_its_limit[OF mem_laws _ calls] calls by simp
  then show ?thesis using calls by (simp add: upt_rec)
qed


text \<open>
  A request that Redis could not count is let in, and its handler still releases it: the counter goes below
  zero and the limit is off by one until it climbs back.
\<close>

lemma failed_open_release_drifts:
  "(let r = snd (Release mem_redis ''k'' mem_empty); (a, r1) = Acquire mem_redis ''k'' 1 r; (b, r2) = Acquire mem_redis ''k'' 1 r1 in
    fst r ''k'' = - 1 \<and> a = Inr True \<and> b = Inr True)"
  by (simp add: Release_def Acquire_def mem_redis_def)

end
