(* ===== verification/ConfigProofs.thy ===== *)
theory ConfigProofs
  imports Config BillingService ImageProofs Usage
begin

text \<open>
  What \<open>Load\<close> promises the services: the checks it makes, that the defaults load and suit the services that
  read them, and a setting that it does not check.
\<close>

section \<open>What the services receive (registry.go)\<close>

definition billing_of :: "Config \<Rightarrow> BillingConfig" where
  "billing_of cfg = NewService_cfg
     \<lparr>bc_Mode = bl_Mode (cf_Billing cfg), bc_Currency = bl_Currency (cf_Billing cfg),
      bc_InitialAllowance = bl_InitialAllowance (cf_Billing cfg),
      bc_ReservationTTL = bl_ReservationTTL (cf_Billing cfg)\<rparr>"

definition image_of :: "Config \<Rightarrow> image_config" where
  "image_of cfg =
     \<lparr>ic_DefaultWidth = is_DefaultWidth (cf_Image cfg), ic_DefaultHeight = is_DefaultHeight (cf_Image cfg),
      ic_DefaultSteps = is_DefaultSteps (cf_Image cfg), ic_DefaultGuidance = is_DefaultGuidance (cf_Image cfg),
      ic_MaxImages = is_MaxImages (cf_Image cfg)\<rparr>"

section \<open>Checks\<close>

text \<open>The secret in force: the variable when it is set, else the setting.\<close>

definition secret_of :: "viper \<Rightarrow> string \<Rightarrow> string" where
  "secret_of v path = (case ve_lookup v ''AI_FACTORY_JWT_SECRET'' of Some s \<Rightarrow> s
     | None \<Rightarrow> ve_string v (setting_of v path ''jwt_secret''))"

lemma Load_ok:
  "Load v path = Inr cfg \<longleftrightarrow>
     (path = [] \<or> ve_read v path = None) \<and> ve_lookup v ''AI_FACTORY_JWT_SECRET'' \<noteq> Some [] \<and>
     16 \<le> length (secret_of v path) \<and>
     ve_string v (setting_of v path ''tools.executor'') \<in> {''local'', ''docker''} \<and>
     ve_string v (setting_of v path ''quota.mode'') \<in> {''off'', ''shadow'', ''enforce''} \<and>
     cfg = configured v path (secret_of v path)"
proof -
  consider (unset) "ve_lookup v ''AI_FACTORY_JWT_SECRET'' = None" | (blank) "ve_lookup v ''AI_FACTORY_JWT_SECRET'' = Some []"
    | (given) c cs where "ve_lookup v ''AI_FACTORY_JWT_SECRET'' = Some (c # cs)"
    by (metis neq_Nil_conv option.exhaust)
  then show ?thesis
    by cases (auto simp: Load_def secret_of_def Let_def split: option.splits)
qed

text \<open>
  A configuration that loads is one the services can run on: the secret that signs the tokens has at least
  sixteen characters, the tool executor is one of the two there are and the quota mode one of the three the
  quota gate knows; and loading fails only where one of the checks fails.
\<close>

theorem loaded_settings_are_checked:
  "(Load v path = Inr cfg \<longrightarrow>
      16 \<le> length (cf_JWTSecret cfg) \<and> to_Executor (cf_Tools cfg) \<in> {''local'', ''docker''} \<and>
      qs_Mode (cf_Quota cfg) \<in> {''off'', ''shadow'', ''enforce''}) \<and>
   (Load v path = Inl e \<longrightarrow>
      path \<noteq> [] \<and> ve_read v path \<noteq> None \<or> ve_lookup v ''AI_FACTORY_JWT_SECRET'' = Some [] \<or>
      length (secret_of v path) < 16 \<or> ve_string v (setting_of v path ''tools.executor'') \<notin> {''local'', ''docker''} \<or>
      ve_string v (setting_of v path ''quota.mode'') \<notin> {''off'', ''shadow'', ''enforce''})"
proof (intro conjI impI)
  assume "Load v path = Inl e"
  then have "Load v path \<noteq> Inr (configured v path (secret_of v path))" by simp
  then show "path \<noteq> [] \<and> ve_read v path \<noteq> None \<or> ve_lookup v ''AI_FACTORY_JWT_SECRET'' = Some [] \<or>
      length (secret_of v path) < 16 \<or> ve_string v (setting_of v path ''tools.executor'') \<notin> {''local'', ''docker''} \<or>
      ve_string v (setting_of v path ''quota.mode'') \<notin> {''off'', ''shadow'', ''enforce''}"
    unfolding Load_ok by (simp add: not_le)
qed (auto simp: Load_ok configured_def Let_def)

section \<open>Defaults\<close>

text \<open>The casts of the library on values that have the type asked for, and on durations.\<close>

definition cast_laws :: "viper \<Rightarrow> bool" where
  "cast_laws v \<longleftrightarrow> (\<forall>s. ve_string v (SetStr s) = s) \<and>
     (\<forall>n. in_int64 n \<longrightarrow> ve_int v (SetInt n) = n \<and> ve_int64 v (SetInt n) = n) \<and>
     (\<forall>b. ve_bool v (SetBool b) = b) \<and> (\<forall>x. ve_float64 v (SetFloat x) = x) \<and>
     (\<forall>n. 0 \<le> n \<and> n < 100000 \<longrightarrow> ve_duration v (SetStr (itoa n @ ''s'')) = n * 1000000000 \<and>
        ve_duration v (SetStr (itoa n @ ''m'')) = n * 60000000000)"

lemma default_durations:
  assumes "cast_laws v"
  shows "ve_duration v (SetStr ''15m'') = 900000000000" "ve_duration v (SetStr ''1m'') = 60000000000"
    "ve_duration v (SetStr ''30m'') = 1800000000000" "ve_duration v (SetStr ''5m'') = 300000000000"
    "ve_duration v (SetStr ''10s'') = 10000000000" "ve_duration v (SetStr ''120s'') = 120000000000"
proof -
  have i: "itoa 15 = ''15''" "itoa 1 = ''1''" "itoa 30 = ''30''" "itoa 5 = ''5''" "itoa 10 = ''10''" "itoa 120 = ''120''"
    by code_simp+
  have m: "ve_duration v (SetStr (itoa n @ ''m'')) = n * 60000000000" and
    s: "ve_duration v (SetStr (itoa n @ ''s'')) = n * 1000000000" if "0 \<le> n" "n < 100000" for n
    using assms that by (simp_all add: cast_laws_def)
  show "ve_duration v (SetStr ''15m'') = 900000000000" using m[of 15] by (simp add: i)
  show "ve_duration v (SetStr ''1m'') = 60000000000" using m[of 1] by (simp add: i)
  show "ve_duration v (SetStr ''30m'') = 1800000000000" using m[of 30] by (simp add: i)
  show "ve_duration v (SetStr ''5m'') = 300000000000" using m[of 5] by (simp add: i)
  show "ve_duration v (SetStr ''10s'') = 10000000000" using s[of 10] by (simp add: i)
  show "ve_duration v (SetStr ''120s'') = 120000000000" using s[of 120] by (simp add: i)
qed

lemma unset_is_default: "ve_set v path key = None \<Longrightarrow> map_of config_defaults key = Some d \<Longrightarrow> setting_of v path key = d"
  by (simp add: setting_of_def)

lemma defaults_configured:
  assumes "cast_laws v" "\<And>key. ve_set v path key = None"
  shows "configured v path ''dev-secret-change-me'' = default_config"
  using assms default_durations[OF assms(1)]
  by (simp add: configured_def default_config_def setting_of_def config_defaults_def cast_laws_def in_int64_def)

lemma defaults_load:
  assumes "cast_laws v" "\<And>key. ve_set v [] key = None" "ve_lookup v ''AI_FACTORY_JWT_SECRET'' = None"
  shows "Load v [] = Inr default_config"
proof -
  have "secret_of v [] = ''dev-secret-change-me''"
    using assms by (simp add: secret_of_def setting_of_def config_defaults_def cast_laws_def)
  then show ?thesis
    using assms(1,3) defaults_configured[OF assms(1,2)]
    by (simp add: Load_ok setting_of_def assms(2) config_defaults_def cast_laws_def)
qed

text \<open>The default size of images passes the checks of the image service, so a request may leave it out.\<close>

lemma default_image_is_accepted:
  assumes "trim_space (gp_Model p) \<noteq> []" "trim_space (gp_Prompt p) \<noteq> []"
    and "gp_Width p \<le> 0" "gp_Height p \<le> 0" "gp_NumImages p \<le> 1"
  shows "\<exists>p'. normalize (image_of default_config) p = Inr p' \<and> gp_Width p' = 1024 \<and> gp_Height p' = 1024 \<and> gp_NumImages p' = 1"
  using assms
  by (auto simp: normalize_def image_of_def default_config_def validateSize_def dimension_error_def
      minDimension_def maxDimension_def sizeMultiple_def Let_def)

section \<open>The billing mode is not checked\<close>

text \<open>
  Any text loads as a billing mode. One that is none of the three, say \<open>Enforce\<close>, is not off either: holds are
  taken, and no request is ever refused for want of credit.
\<close>

lemma unknown_mode_never_refuses:
  assumes "bl_Mode (cf_Billing cfg) \<noteq> ''enforce''"
  shows "fst (svc_Reserve (billing_of cfg) flt now newid tenant model n k db) \<noteq> Inl ErrInsufficientCredits"
proof -
  have mode: "mode_of (bc_Mode (billing_of cfg)) \<noteq> ModeEnforce"
    using assms by (simp add: billing_of_def NewService_cfg_def mode_of_def)
  have price: "fst (price_or_free (billing_of cfg) flt model db) \<noteq> Inl ErrInsufficientCredits"
    by (auto simp: price_or_free_def priceFor_def pricing_Get_def tx_simps split: option.splits)
  have hold: "wallet_Reserve flt now (reserve_input (billing_of cfg) tenant newid p n k) db' \<noteq> (Inl ErrInsufficientCredits, x)" for p db' x
    using mode by (auto simp: wallet_Reserve_def reserve_input_def sql_add_reserved_def tx_simps split: option.splits)
  show ?thesis
    using price hold by (auto simp: svc_Reserve_def tx_bind_def tx_return_def split: prod.splits sum.splits)
qed

lemma misspelt_mode_loads:
  assumes "cast_laws v" "\<And>key. ve_set v [] key = (if key = ''billing.mode'' then Some (SetStr ''Enforce'') else None)"
    and "ve_lookup v ''AI_FACTORY_JWT_SECRET'' = None"
  shows "\<exists>cfg. Load v [] = Inr cfg \<and> bl_Mode (cf_Billing cfg) = ''Enforce''"
proof -
  have "secret_of v [] = ''dev-secret-change-me''"
    using assms by (simp add: secret_of_def setting_of_def config_defaults_def cast_laws_def)
  then show ?thesis
    using assms by (simp add: Load_ok setting_of_def config_defaults_def cast_laws_def configured_def)
qed

section \<open>Examples\<close>

text \<open>A library with nothing set that reads durations as digits and a unit.\<close>

definition plain_viper :: viper where
  "plain_viper = \<lparr>ve_read = (\<lambda>_. None), ve_set = (\<lambda>_ _. None), ve_lookup = (\<lambda>_. None),
     ve_string = (\<lambda>s. case s of SetStr x \<Rightarrow> x | _ \<Rightarrow> []), ve_int = (\<lambda>s. case s of SetInt n \<Rightarrow> n | _ \<Rightarrow> 0),
     ve_int64 = (\<lambda>s. case s of SetInt n \<Rightarrow> n | _ \<Rightarrow> 0), ve_bool = (\<lambda>s. case s of SetBool b \<Rightarrow> b | _ \<Rightarrow> False),
     ve_duration = (\<lambda>s. case s of SetStr x \<Rightarrow> (case atoi (butlast x) of None \<Rightarrow> 0
        | Some n \<Rightarrow> n * (if last x = CHR ''m'' then 60000000000 else 1000000000)) | _ \<Rightarrow> 0),
     ve_float64 = (\<lambda>s. case s of SetFloat x \<Rightarrow> x | _ \<Rightarrow> 0)\<rparr>"

lemma plain_viper_laws: "cast_laws plain_viper"
  by (simp add: cast_laws_def plain_viper_def atoi_itoa in_int64_def)

lemma plain_viper_loads: "Load plain_viper [] = Inr default_config"
  by (rule defaults_load[OF plain_viper_laws]) (simp_all add: plain_viper_def)

theorem loaded_settings_are_checked_witness:
  "to_Executor (cf_Tools default_config) = ''local'' \<and> 16 \<le> length (cf_JWTSecret default_config) \<and>
   Load (plain_viper\<lparr>ve_lookup := \<lambda>_. Some ''short''\<rparr>) [] = Inl SecretTooShort"
proof -
  have "16 \<le> length (cf_JWTSecret default_config)" "to_Executor (cf_Tools default_config) \<in> {''local'', ''docker''}"
    using loaded_settings_are_checked[of plain_viper "[]" default_config] plain_viper_loads by blast+
  moreover have "to_Executor (cf_Tools default_config) = ''local''" by (simp add: default_config_def)
  moreover have "Load (plain_viper\<lparr>ve_lookup := \<lambda>_. Some ''short''\<rparr>) [] = Inl SecretTooShort" by code_simp
  ultimately show ?thesis by simp
qed

end
