(* ===== verification/Container.thy ===== *)
theory Container
  imports Prelude
begin

text \<open>
  The dependency injection container (\<open>pkg/di\<close>). A provider is the tree of what it does with the
  container: it is done with an instance or an error, it must resolve a name (and panics with the error
  otherwise), or it resolves one and goes on with the result. Instances are of a type \<open>'i\<close>.
\<close>

section \<open>Providers and errors\<close>

datatype di_error = ProviderError string di_error | CircularDependencyError string | DiError string

datatype 'i provider =
    Built "di_error + 'i"
  | MustResolve string "'i \<Rightarrow> 'i provider"
  | TryResolve string "di_error + 'i \<Rightarrow> 'i provider"

text \<open>What a call comes to: an instance, an error, or a panic that unwinds the callers.\<close>

datatype 'i outcome = Resolved 'i | Failed di_error | Panicked di_error

section \<open>The container\<close>

record 'i entry =
  e_provider :: "'i provider"
  e_singleton :: bool
  e_instance :: "'i option"
  e_resolved :: bool
  e_resolving :: bool

record 'i container =
  c_entries :: "string \<rightharpoonup> 'i entry"
  c_order :: "string list"

definition NewContainer :: "'i container" where
  "NewContainer = \<lparr>c_entries = Map.empty, c_order = []\<rparr>"

text \<open>\<open>register\<close>; None is a nil provider. \<open>%q\<close> quotes the name.\<close>

definition quoted :: "string \<Rightarrow> string" where
  "quoted s = CHR 0x22 # s @ [CHR 0x22]"

definition register_provider :: "string \<Rightarrow> 'i provider option \<Rightarrow> bool \<Rightarrow> 'i container \<Rightarrow> di_error option \<times> 'i container" where
  "register_provider name provider singleton c = (case provider of
      None \<Rightarrow> (Some (DiError (''di: nil provider for '' @ quoted name)), c)
    | Some p \<Rightarrow> if c_entries c name \<noteq> None then (Some (DiError (''di: '' @ quoted name @ '' already registered'')), c)
        else (None, c\<lparr>c_entries := (c_entries c)(name \<mapsto>
          \<lparr>e_provider = p, e_singleton = singleton, e_instance = None, e_resolved = False, e_resolving = False\<rparr>)\<rparr>))"

definition Register :: "string \<Rightarrow> 'i provider option \<Rightarrow> 'i container \<Rightarrow> di_error option \<times> 'i container" where
  "Register name provider c = register_provider name provider False c"

definition RegisterSingleton :: "string \<Rightarrow> 'i provider option \<Rightarrow> 'i container \<Rightarrow> di_error option \<times> 'i container" where
  "RegisterSingleton name provider c = register_provider name provider True c"

definition Has :: "'i container \<Rightarrow> string \<Rightarrow> bool" where
  "Has c name \<longleftrightarrow> c_entries c name \<noteq> None"

definition set_entry :: "string \<Rightarrow> 'i entry \<Rightarrow> 'i container \<Rightarrow> 'i container" where
  "set_entry name e c = c\<lparr>c_entries := (c_entries c)(name \<mapsto> e)\<rparr>"

text \<open>A provider run with a way to resolve names; a panic ends it.\<close>

type_synonym 'i resolver = "string \<Rightarrow> 'i container \<Rightarrow> ('i outcome \<times> 'i container) option"

primrec run_provider :: "'i provider \<Rightarrow> 'i resolver \<Rightarrow> 'i container \<Rightarrow> ('i outcome \<times> 'i container) option" where
  "run_provider (Built r) res c = Some ((case r of Inl e \<Rightarrow> Failed e | Inr i \<Rightarrow> Resolved i), c)"
| "run_provider (MustResolve name k) res c = (case res name c of
      None \<Rightarrow> None
    | Some (Resolved i, c1) \<Rightarrow> run_provider (k i) res c1
    | Some (Failed e, c1) \<Rightarrow> Some (Panicked e, c1)
    | Some (Panicked e, c1) \<Rightarrow> Some (Panicked e, c1))"
| "run_provider (TryResolve name k) res c = (case res name c of
      None \<Rightarrow> None
    | Some (Resolved i, c1) \<Rightarrow> run_provider (k (Inr i)) res c1
    | Some (Failed e, c1) \<Rightarrow> run_provider (k (Inl e)) res c1
    | Some (Panicked e, c1) \<Rightarrow> Some (Panicked e, c1))"

text \<open>After the provider: a panic leaves the entry resolving.\<close>

definition settle_entry :: "string \<Rightarrow> 'i outcome \<times> 'i container \<Rightarrow> 'i outcome \<times> 'i container" where
  "settle_entry name rc = (case rc of (r, c) \<Rightarrow> (case c_entries c name of
      None \<Rightarrow> (r, c)
    | Some e \<Rightarrow> (case r of
        Panicked err \<Rightarrow> (Panicked err, c)
      | Failed err \<Rightarrow> (Failed (ProviderError name err), set_entry name (e\<lparr>e_resolving := False\<rparr>) c)
      | Resolved i \<Rightarrow> if e_singleton e
          then (Resolved i, (set_entry name (e\<lparr>e_resolving := False, e_instance := Some i, e_resolved := True\<rparr>) c)
                  \<lparr>c_order := c_order c @ [name]\<rparr>)
          else (Resolved i, set_entry name (e\<lparr>e_resolving := False\<rparr>) c))))"

text \<open>
  \<open>Resolve\<close>. A provider resolves its own dependencies, so the recursion is bounded by the number of entries
  not yet resolving; the fuel stands for that bound, and None means that it did not suffice.
\<close>

fun Resolve :: "nat \<Rightarrow> string \<Rightarrow> 'i container \<Rightarrow> ('i outcome \<times> 'i container) option" where
  "Resolve fuel name c = (case c_entries c name of
      None \<Rightarrow> Some (Failed (ProviderError name (DiError ''not registered'')), c)
    | Some e \<Rightarrow>
        if e_resolving e then Some (Failed (CircularDependencyError name), c)
        else case (e_singleton e \<and> e_resolved e, e_instance e) of
          (True, Some i) \<Rightarrow> Some (Resolved i, c)
        | _ \<Rightarrow> (case fuel of
            0 \<Rightarrow> None
          | Suc n \<Rightarrow> map_option (settle_entry name)
              (run_provider (e_provider e) (Resolve n) (set_entry name (e\<lparr>e_resolving := True\<rparr>) c))))"

declare Resolve.simps [simp del]

section \<open>Shutting down\<close>

text \<open>
  \<open>closeWith\<close>: the instances in resolution order, closed from the last to the first; \<open>close\<close> is what
  \<open>Shutdown\<close> or \<open>Close\<close> of an instance returns (None: no such method, or no error). The result is the
  instances in the order they are closed and the errors, joined.
\<close>

definition ordered_instances :: "'i container \<Rightarrow> 'i list" where
  "ordered_instances c = concat (map (\<lambda>name. case c_entries c name of
      Some e \<Rightarrow> (case e_instance e of Some i \<Rightarrow> [i] | None \<Rightarrow> []) | None \<Rightarrow> []) (c_order c))"

definition closeWith :: "('i \<Rightarrow> string option) \<Rightarrow> 'i container \<Rightarrow> 'i list \<times> string list" where
  "closeWith close c = (let insts = rev (ordered_instances c) in
     (insts, concat (map (\<lambda>i. case close i of None \<Rightarrow> [] | Some e \<Rightarrow> [e]) insts)))"

end
