(* ===== verification/Wiring.thy ===== *)
theory Wiring
  imports Container Config
begin

text \<open>
  The composition root (\<open>internal/app\<close>): which components \<open>RegisterAll\<close> registers for the roles a process
  runs (\<open>registry.go\<close>), what the boot resolves and starts (\<open>app.go\<close>), and the four programs (\<open>cmd\<close>). An
  instance is its name with the settings its constructor got and the instances it was built from. The world
  says which of the calls that reach outside fail and how, whether the broker is reachable and which
  directories exist.
\<close>

section \<open>Options and world\<close>

record Options =
  op_InferenceAddr :: string
  op_ImageInferenceAddr :: string
  op_WorkDir :: string
  op_MaxConcurrent :: int
  op_UIDir :: string

record app_world =
  aw_fails :: "string \<Rightarrow> string option"
  aw_kafka :: bool
  aw_exists :: "string \<Rightarrow> bool"

section \<open>Providers\<close>

datatype component = Component string "(string \<times> setting) list" "component list" | NilGate

text \<open>A provider that resolves its dependencies one after the other and builds its component of them.\<close>

fun build_from :: "string \<Rightarrow> (string \<times> setting) list \<Rightarrow> string list \<Rightarrow> component list \<Rightarrow> component provider" where
  "build_from kind settings [] got = Built (Inr (Component kind settings (rev got)))"
| "build_from kind settings (d # ds) got = MustResolve d (\<lambda>i. build_from kind settings ds (i # got))"

definition builds :: "string \<Rightarrow> (string \<times> setting) list \<Rightarrow> string list \<Rightarrow> component provider" where
  "builds kind settings deps = build_from kind settings deps []"

text \<open>A provider that calls a constructor which may fail.\<close>

definition opens :: "app_world \<Rightarrow> string \<Rightarrow> (string \<times> setting) list \<Rightarrow> component provider" where
  "opens w kind settings = Built (case aw_fails w kind of
      None \<Rightarrow> Inr (Component kind settings []) | Some e \<Rightarrow> Inl (DiError e))"

text \<open>\<open>database.Open\<close>: the settings of the pool that are positive are set; the connection is probed last.\<close>

definition pool_settings :: "Config \<Rightarrow> (string \<times> setting) list" where
  "pool_settings cfg = concat (map (\<lambda>(call, n). if n > 0 then [(call, SetInt n)] else [])
     [(''SetMaxOpenConns'', cf_DBMaxOpenConns cfg), (''SetMaxIdleConns'', cf_DBMaxIdleConns cfg),
      (''SetConnMaxLifetime'', cf_DBConnMaxLifetime cfg), (''SetConnMaxIdleTime'', cf_DBConnMaxIdleTime cfg)])"

definition database_Open :: "app_world \<Rightarrow> Config \<Rightarrow> string + component" where
  "database_Open w cfg =
    (case aw_fails w ''gorm.Open'' of Some e \<Rightarrow> Inl (''open gorm: '' @ e) | None \<Rightarrow>
     (case aw_fails w ''gorm.DB'' of Some e \<Rightarrow> Inl (''sql db: '' @ e) | None \<Rightarrow>
      (case aw_fails w ''sql.Ping'' of Some e \<Rightarrow> Inl (''ping: '' @ e) | None \<Rightarrow>
       Inr (Component ''db'' ((''dsn'', SetStr (cf_DatabaseURL cfg)) # pool_settings cfg) []))))"

definition open_and_migrate :: "app_world \<Rightarrow> Config \<Rightarrow> string + component" where
  "open_and_migrate w cfg = (case database_Open w cfg of Inl e \<Rightarrow> Inl e
     | Inr db \<Rightarrow> (case aw_fails w ''migrate'' of Some e \<Rightarrow> Inl e | None \<Rightarrow> Inr db))"

type_synonym registration = "string \<times> component provider"

definition infrastructure :: "app_world \<Rightarrow> Config \<Rightarrow> registration list" where
  "infrastructure w cfg = [
     (''logger'', builds ''logger'' [] []),
     (''db'', Built (case open_and_migrate w cfg of Inl e \<Rightarrow> Inl (DiError e) | Inr db \<Rightarrow> Inr db)),
     (''redis'', builds ''redis'' [(''Addr'', SetStr (cf_RedisAddr cfg))] []),
     (''limiter'', builds ''limiter'' [] [''redis'']),
     (''cache.kv'', builds ''cache.kv'' [] [''redis'']),
     (''bus'', if aw_kafka w then builds ''kafka'' [(''addr'', SetStr (cf_KafkaAddr cfg))] []
                else builds ''memory'' [] [])]"

definition data_plane :: "Options \<Rightarrow> Config \<Rightarrow> app_world \<Rightarrow> registration list" where
  "data_plane opts cfg w =
    (if sv_API (cf_Services cfg) then [
       (''inference.client'', opens w ''inference.client'' [(''addr'', SetStr (op_InferenceAddr opts))]),
       (''batch.scheduler'', builds ''batch.scheduler''
          ((if op_MaxConcurrent opts > 0 then [(''SetMaxBatchSize'', SetInt (op_MaxConcurrent opts))] else []) @
           [(''SetMaxInFlight'', SetInt (cf_InferenceMaxInFlightBatches cfg))]) [''inference.client'']),
       (''tool.executor'', if to_Executor (cf_Tools cfg) = ''docker''
          then builds ''docker'' [(''workDir'', SetStr (op_WorkDir opts)),
                                    (''image'', SetStr (to_DockerImage (cf_Tools cfg)))] []
          else builds ''local'' [(''workDir'', SetStr (op_WorkDir opts))] []),
       (''inference.images'', builds ''inference.images'' [(''dir'', SetStr (vi_UploadsDir (cf_Vision cfg))),
          (''maxBytes'', SetInt (vi_MaxImageBytes (cf_Vision cfg)))] []),
       (''inference.loop'', builds ''inference.loop'' [] [''batch.scheduler'', ''tool.executor'', ''inference.images''])] @
       (if sv_Image (cf_Services cfg) then [
         (''image.client'', opens w ''image.client'' [(''addr'', SetStr (op_ImageInferenceAddr opts))]),
         (''image.service'', builds ''image.service''
            [(''StorageDir'', SetStr (is_StorageDir (cf_Image cfg))),
             (''DefaultWidth'', SetInt (is_DefaultWidth (cf_Image cfg))),
             (''DefaultHeight'', SetInt (is_DefaultHeight (cf_Image cfg))),
             (''DefaultSteps'', SetInt (is_DefaultSteps (cf_Image cfg))),
             (''DefaultGuidance'', SetFloat (is_DefaultGuidance (cf_Image cfg))),
             (''MaxImages'', SetInt (is_MaxImages (cf_Image cfg)))] [''db'', ''image.client'', ''serving'']),
         (''image.runner'', builds ''image.runner'' [] [''image.service''])] else [])
     else [])"

text \<open>The lifetime of a token is eight hours.\<close>

definition control_plane :: "Config \<Rightarrow> registration list" where
  "control_plane cfg = [
     (''iam'', builds ''iam'' [] [''db'']),
     (''iam.auth'', builds ''iam.auth'' [(''secret'', SetStr (cf_JWTSecret cfg)),
        (''ttl'', SetInt (8 * 3600 * 1000000000))] [''iam'', ''cache.kv'']),
     (''iam.authenticator'', builds ''iam.authenticator'' [(''secret'', SetStr (cf_JWTSecret cfg))] [''iam.auth'']),
     (''serving'', builds ''serving'' [] [''db'']),
     (''usage'', builds ''usage'' [] [''db'']),
     (''usage.quota'', builds ''usage.quota'' [(''Mode'', SetStr (qs_Mode (cf_Quota cfg)))] [''db'']),
     (''billing'', builds ''billing''
        [(''Mode'', SetStr (bl_Mode (cf_Billing cfg))), (''Currency'', SetStr (bl_Currency (cf_Billing cfg))),
         (''InitialAllowance'', SetInt (bl_InitialAllowance (cf_Billing cfg))),
         (''ReservationTTL'', SetInt (bl_ReservationTTL (cf_Billing cfg)))] [''db''])]"

definition api_services :: "Config \<Rightarrow> registration list" where
  "api_services cfg =
    (if sv_API (cf_Services cfg) then [
       (''inference.manager'', builds ''inference.manager'' [] [''db'']),
       (''outbox.store'', builds ''outbox.store'' [] [''db'']),
       (''outbox.publisher'', builds ''outbox.publisher'' [] [''bus'', ''outbox.store'']),
       (''usage.roller'', builds ''usage.roller'' [] [''db''])] @
       (if sv_Billing (cf_Services cfg)
        then [(''billing.reaper'', builds ''billing.reaper''
                 [(''interval'', SetInt (bl_ReaperInterval (cf_Billing cfg)))] [''billing''])] else [])
     else [])"

definition workers :: "Options \<Rightarrow> Config \<Rightarrow> registration list" where
  "workers opts cfg =
    (if sv_Worker (cf_Services cfg)
     then [(''deployment.worker'', builds ''deployment.worker'' [(''addr'', SetStr (op_InferenceAddr opts))]
              [''bus'', ''serving''])] else [])"

text \<open>\<open>billingGateArg\<close> and \<open>quotaGateArg\<close>: a gate that is off is nil.\<close>

definition billingGateArg :: "Config \<Rightarrow> (component \<Rightarrow> component provider) \<Rightarrow> component provider" where
  "billingGateArg cfg k = (if \<not> sv_Billing (cf_Services cfg) \<or> bl_Mode (cf_Billing cfg) = ''off'' then k NilGate
     else MustResolve ''billing'' (\<lambda>b. k (Component ''billingGate'' [] [b])))"

definition quotaGateArg :: "Config \<Rightarrow> (component \<Rightarrow> component provider) \<Rightarrow> component provider" where
  "quotaGateArg cfg k = (if qs_Mode (cf_Quota cfg) = ''off'' then k NilGate
     else MustResolve ''usage.quota'' (\<lambda>q. k (Component ''quotaGate'' [] [q])))"

definition resolveUIDir :: "app_world \<Rightarrow> string \<Rightarrow> string" where
  "resolveUIDir w explicit =
    (if explicit \<noteq> [] then explicit else if aw_exists w ''ui'' then ''ui''
     else if aw_exists w ''../ui'' then ''../ui'' else [])"

definition chat_handler :: "Options \<Rightarrow> Config \<Rightarrow> app_world \<Rightarrow> component provider" where
  "chat_handler opts cfg w =
     MustResolve ''inference.manager'' (\<lambda>m. MustResolve ''inference.loop'' (\<lambda>l.
     MustResolve ''iam.authenticator'' (\<lambda>a. MustResolve ''serving'' (\<lambda>s. MustResolve ''usage'' (\<lambda>u.
     billingGateArg cfg (\<lambda>b. quotaGateArg cfg (\<lambda>q.
     MustResolve ''limiter'' (\<lambda>li. MustResolve ''inference.images'' (\<lambda>im.
     Built (Inr (Component ''http.handler''
       [(''uiDir'', SetStr (resolveUIDir w (op_UIDir opts))),
        (''maxImages'', SetInt (vi_MaxImagesPerMessage (cf_Vision cfg))),
        (''rpm'', SetInt (cf_RateLimitRPM cfg)), (''concurrency'', SetInt (cf_RateLimitConcurrency cfg))]
       [m, l, a, Component ''deploymentResolver'' [] [s], u, b, q, li, im])))))))))))"

definition http_handlers :: "Options \<Rightarrow> Config \<Rightarrow> app_world \<Rightarrow> registration list" where
  "http_handlers opts cfg w =
    (if \<not> sv_API (cf_Services cfg) then [] else [
       (''http.handler'', chat_handler opts cfg w),
       (''http.iam'', builds ''http.iam'' [] [''iam'', ''iam.auth'', ''iam.authenticator'']),
       (''http.serving'', builds ''http.serving'' [] [''serving'', ''iam.authenticator'', ''outbox.store'']),
       (''http.usage'', builds ''http.usage'' [] [''usage'', ''iam.authenticator''])] @
       (if sv_Billing (cf_Services cfg) then [(''http.billing'', builds ''http.billing'' [] [''billing'', ''iam.authenticator''])] else []) @
       (if sv_Image (cf_Services cfg) then [(''http.image'', builds ''http.image'' [] [''image.service'', ''iam.authenticator''])] else []))"

definition registrations :: "Options \<Rightarrow> Config \<Rightarrow> app_world \<Rightarrow> registration list" where
  "registrations opts cfg w = infrastructure w cfg @ data_plane opts cfg w @ control_plane cfg @ api_services cfg @
     workers opts cfg @ http_handlers opts cfg w"

text \<open>\<open>RegisterAll\<close>: the first registration that fails ends it.\<close>

fun register_each :: "registration list \<Rightarrow> component container \<Rightarrow> di_error option \<times> component container" where
  "register_each [] c = (None, c)"
| "register_each ((name, p) # rs) c = (case RegisterSingleton name (Some p) c of
      (Some e, c1) \<Rightarrow> (Some e, c1)
    | (None, c1) \<Rightarrow> register_each rs c1)"

definition RegisterAll :: "Options \<Rightarrow> Config \<Rightarrow> app_world \<Rightarrow> component container \<Rightarrow> di_error option \<times> component container" where
  "RegisterAll opts cfg w c = register_each (registrations opts cfg w) c"

section \<open>Boot\<close>

definition boot_names :: "Config \<Rightarrow> string list" where
  "boot_names cfg = [''db'', ''bus'', ''serving''] @
    (if sv_API (cf_Services cfg) then
       [''iam'', ''iam.auth'', ''iam.authenticator'', ''usage'', ''billing'',
        ''inference.manager'', ''inference.images'', ''inference.loop'',
        ''outbox.store'', ''outbox.publisher'', ''usage.roller'',
        ''http.handler'', ''http.iam'', ''http.serving'', ''http.usage''] @
       (if sv_Billing (cf_Services cfg) then [''billing.reaper'', ''http.billing''] else []) @
       (if sv_Image (cf_Services cfg) then [''image.client'', ''image.service'', ''image.runner'', ''http.image''] else [])
     else []) @
    (if sv_Worker (cf_Services cfg) then [''deployment.worker''] else [])"

text \<open>\<open>fuel\<close> bounds the depth of every resolution, as in \<open>Resolve\<close>.\<close>

fun resolve_each :: "nat \<Rightarrow> string list \<Rightarrow> 'i container \<Rightarrow> (unit outcome \<times> 'i container) option" where
  "resolve_each fuel [] c = Some (Resolved (), c)"
| "resolve_each fuel (n # ns) c = (case Resolve fuel n c of
      None \<Rightarrow> None
    | Some (Resolved _, c1) \<Rightarrow> resolve_each fuel ns c1
    | Some (Failed e, c1) \<Rightarrow> Some (Failed e, c1)
    | Some (Panicked e, c1) \<Rightarrow> Some (Panicked e, c1))"

definition NewAppFromContainer :: "nat \<Rightarrow> Config \<Rightarrow> component container \<Rightarrow> (unit outcome \<times> component container) option" where
  "NewAppFromContainer fuel cfg c = resolve_each fuel (boot_names cfg) c"

section \<open>Start\<close>

text \<open>
  What \<open>Run\<close> does, in order: seeding, starting a component, warning that no worker runs, and serving the
  mounted routes with the timeouts of the server. The errors that end it are those of seeding and of the
  worker's subscription; a server that stops listening ends it with the world's error.
\<close>

datatype app_action = SeedAll | StartComponent string | WarnNoKafka | ServeHTTP int int int "string list" | AwaitSignal

definition resolves :: "nat \<Rightarrow> component container \<Rightarrow> string \<Rightarrow> bool" where
  "resolves fuel c name = (case Resolve fuel name c of Some (Resolved _, _) \<Rightarrow> True | _ \<Rightarrow> False)"

definition NewHTTPHandler :: "nat \<Rightarrow> component container \<Rightarrow> string list" where
  "NewHTTPHandler fuel c = [''http.handler'', ''http.iam'', ''http.serving'', ''http.usage''] @
     (if resolves fuel c ''http.billing'' then [''http.billing''] else []) @
     (if resolves fuel c ''http.image'' then [''http.image''] else []) @ [''metrics'']"

definition startWorker :: "app_world \<Rightarrow> app_action list \<times> string option" where
  "startWorker w = (if \<not> aw_kafka w then ([WarnNoKafka], None)
     else ([StartComponent ''deployment.worker''], map_option (\<lambda>e. ''deployment worker: '' @ e) (aw_fails w ''deployment.worker'')))"

definition start_api :: "nat \<Rightarrow> Config \<Rightarrow> app_world \<Rightarrow> component container \<Rightarrow> app_action list \<times> string option" where
  "start_api fuel cfg w c =
    (if \<not> sv_API (cf_Services cfg) then ([], None)
     else case aw_fails w ''seed'' of Some e \<Rightarrow> ([SeedAll], Some e)
     | None \<Rightarrow> ([SeedAll, StartComponent ''outbox.publisher'', StartComponent ''usage.roller''] @
         (if resolves fuel c ''billing.reaper'' then [StartComponent ''billing.reaper''] else []) @
         (if sv_Image (cf_Services cfg) then [StartComponent ''image.runner''] else []), None))"

definition Run :: "nat \<Rightarrow> Config \<Rightarrow> int \<Rightarrow> app_world \<Rightarrow> component container \<Rightarrow> app_action list \<times> string option" where
  "Run fuel cfg port w c =
    (case start_api fuel cfg w c of (done1, Some e) \<Rightarrow> (done1, Some e) | (done1, None) \<Rightarrow>
     (case (if sv_Worker (cf_Services cfg) then startWorker w else ([], None)) of
        (done2, Some e) \<Rightarrow> (done1 @ done2, Some e)
      | (done2, None) \<Rightarrow>
         if sv_API (cf_Services cfg)
         then (done1 @ done2 @ [ServeHTTP port (cf_HTTPReadHeaderTimeout cfg) (cf_HTTPIdleTimeout cfg)
                 (NewHTTPHandler fuel c)], aw_fails w ''listen'')
         else (done1 @ done2 @ [AwaitSignal], None)))"

section \<open>Programs (cmd)\<close>

text \<open>A program ends with a failure of one of its steps, with a panic, or after its work.\<close>

datatype program_end = ExitFailure string "app_action list" | Panic di_error | Finished "app_action list"

definition boot_and_run :: "nat \<Rightarrow> Options \<Rightarrow> Config \<Rightarrow> int \<Rightarrow> app_world \<Rightarrow> program_end option" where
  "boot_and_run fuel opts cfg port w = (case RegisterAll opts cfg w NewContainer of
      (Some _, _) \<Rightarrow> Some (ExitFailure ''register'' [])
    | (None, c) \<Rightarrow> (case NewAppFromContainer fuel cfg c of
        None \<Rightarrow> None
      | Some (Panicked e, _) \<Rightarrow> Some (Panic e)
      | Some (Failed _, _) \<Rightarrow> Some (ExitFailure ''boot'' [])
      | Some (Resolved _, c1) \<Rightarrow> (case Run fuel cfg port w c1 of
          (acts, Some _) \<Rightarrow> Some (ExitFailure ''run'' acts)
        | (acts, None) \<Rightarrow> Some (Finished acts))))"

definition server_main :: "nat \<Rightarrow> viper \<Rightarrow> string \<Rightarrow> Options \<Rightarrow> int \<Rightarrow> app_world \<Rightarrow> program_end option" where
  "server_main fuel v path opts port w = (case Load v path of
      Inl _ \<Rightarrow> Some (ExitFailure ''config'' []) | Inr cfg \<Rightarrow> boot_and_run fuel opts cfg port w)"

definition worker_main :: "nat \<Rightarrow> viper \<Rightarrow> string \<Rightarrow> string \<Rightarrow> app_world \<Rightarrow> program_end option" where
  "worker_main fuel v path inferenceAddr w = (case Load v path of
      Inl _ \<Rightarrow> Some (ExitFailure ''config'' [])
    | Inr cfg \<Rightarrow> boot_and_run fuel
        \<lparr>op_InferenceAddr = inferenceAddr, op_ImageInferenceAddr = [], op_WorkDir = [], op_MaxConcurrent = 0, op_UIDir = []\<rparr>
        (cfg\<lparr>cf_Services := \<lparr>sv_API = False, sv_Worker = True, sv_Billing = False, sv_Image = False\<rparr>\<rparr>) 0 w)"

text \<open>\<open>RunMigrate\<close>: open, migrate, close.\<close>

definition RunMigrate :: "app_world \<Rightarrow> Config \<Rightarrow> string option" where
  "RunMigrate w cfg = (case open_and_migrate w cfg of Inl e \<Rightarrow> Some e | Inr _ \<Rightarrow> None)"

definition migrate_main :: "viper \<Rightarrow> string \<Rightarrow> app_world \<Rightarrow> program_end" where
  "migrate_main v path w = (case Load v path of
      Inl _ \<Rightarrow> ExitFailure ''config'' []
    | Inr cfg \<Rightarrow> (case RunMigrate w cfg of Some _ \<Rightarrow> ExitFailure ''migrate'' [] | None \<Rightarrow> Finished []))"

end
