(* ===== verification/WiringProofs.thy ===== *)
theory WiringProofs
  imports ConfigProofs Wiring
begin

text \<open>
  The container and the composition root: resolution always ends, builds a singleton once and after what it
  depends on; every combination of roles boots.
\<close>

section \<open>How a resolution changes a container\<close>

definition free :: "'i container \<Rightarrow> string set" where
  "free c = {n. \<exists>e. c_entries c n = Some e \<and> \<not> e_resolving e}"

text \<open>Entries are neither added nor dropped, keep their provider, and a resolved singleton keeps its instance.\<close>

definition entry_evolves :: "'i entry \<Rightarrow> 'i entry \<Rightarrow> bool" where
  "entry_evolves e e' \<longleftrightarrow> e_provider e' = e_provider e \<and> e_singleton e' = e_singleton e \<and>
     (e_resolving e \<longrightarrow> e_resolving e') \<and>
     (e_singleton e \<and> e_resolved e \<and> e_instance e \<noteq> None \<longrightarrow> e' = e)"

definition evolves :: "'i container \<Rightarrow> 'i container \<Rightarrow> bool" where
  "evolves c c' \<longleftrightarrow> (\<forall>n. rel_option entry_evolves (c_entries c n) (c_entries c' n)) \<and>
     (\<exists>built. c_order c' = c_order c @ built)"

lemma evolves_refl [simp]: "evolves c c"
  by (auto simp: evolves_def entry_evolves_def option.rel_refl)

lemma entry_evolves_trans: "entry_evolves a b \<Longrightarrow> entry_evolves b c \<Longrightarrow> entry_evolves a c"
  by (auto simp: entry_evolves_def)

lemma evolves_trans:
  assumes "evolves a b" "evolves b c" shows "evolves a c"
proof -
  have "rel_option entry_evolves (c_entries a n) (c_entries c n)" for n
  proof -
    have "rel_option entry_evolves (c_entries a n) (c_entries b n)" "rel_option entry_evolves (c_entries b n) (c_entries c n)"
      using assms by (simp_all add: evolves_def)
    then show ?thesis by (cases "c_entries a n"; cases "c_entries b n"; cases "c_entries c n") (auto intro: entry_evolves_trans)
  qed
  moreover have "\<exists>built. c_order c = c_order a @ built" using assms by (auto simp: evolves_def)
  ultimately show ?thesis by (simp add: evolves_def)
qed

lemma evolves_entry: "evolves c c' \<Longrightarrow> c_entries c n = Some e \<Longrightarrow> \<exists>e'. c_entries c' n = Some e' \<and> entry_evolves e e'"
  unfolding evolves_def by (metis option.rel_distinct(1) option.rel_sel option.exhaust_sel option.distinct(1) option.sel)

lemma evolves_absent: "evolves c c' \<Longrightarrow> c_entries c n = None \<longleftrightarrow> c_entries c' n = None"
  unfolding evolves_def by (metis option.rel_distinct option.exhaust)

lemma evolves_free: "evolves c c' \<Longrightarrow> free c' \<subseteq> free c"
proof
  fix n assume ev: "evolves c c'" and "n \<in> free c'"
  then obtain e' where e': "c_entries c' n = Some e'" "\<not> e_resolving e'" by (auto simp: free_def)
  then obtain e where "c_entries c n = Some e" using evolves_absent[OF ev, of n] by auto
  then show "n \<in> free c" using evolves_entry[OF ev] e' by (fastforce simp: free_def entry_evolves_def)
qed

definition well_behaved :: "'i resolver \<Rightarrow> bool" where
  "well_behaved res \<longleftrightarrow> (\<forall>n c r c'. res n c = Some (r, c') \<longrightarrow> evolves c c')"

lemma run_evolves: "well_behaved res \<Longrightarrow> run_provider p res c = Some (r, c') \<Longrightarrow> evolves c c'"
proof (induction p arbitrary: c)
  case (MustResolve n k)
  obtain r0 c1 where r0: "res n c = Some (r0, c1)" using MustResolve.prems(2) by (auto split: option.splits)
  then have "evolves c c1" using MustResolve.prems(1) by (simp add: well_behaved_def)
  moreover have "evolves c1 c'"
    using MustResolve.prems r0 MustResolve.IH by (auto split: outcome.splits)
  ultimately show ?case by (rule evolves_trans)
next
  case (TryResolve n k)
  obtain r0 c1 where r0: "res n c = Some (r0, c1)" using TryResolve.prems(2) by (auto split: option.splits)
  then have "evolves c c1" using TryResolve.prems(1) by (simp add: well_behaved_def)
  moreover have "evolves c1 c'"
    using TryResolve.prems r0 TryResolve.IH by (auto split: outcome.splits)
  ultimately show ?case by (rule evolves_trans)
qed auto

section \<open>Resolving\<close>

definition cached :: "'i entry \<Rightarrow> bool" where
  "cached e \<longleftrightarrow> e_singleton e \<and> e_resolved e \<and> e_instance e \<noteq> None"

lemma Resolve_absent: "c_entries c name = None \<Longrightarrow>
    Resolve fuel name c = Some (Failed (ProviderError name (DiError ''not registered'')), c)"
  by (simp add: Resolve.simps)

lemma Resolve_circular: "c_entries c name = Some e \<Longrightarrow> e_resolving e \<Longrightarrow>
    Resolve fuel name c = Some (Failed (CircularDependencyError name), c)"
  by (simp add: Resolve.simps)

lemma Resolve_cached: "c_entries c name = Some e \<Longrightarrow> \<not> e_resolving e \<Longrightarrow> cached e \<Longrightarrow>
    Resolve fuel name c = Some (Resolved (the (e_instance e)), c)"
  by (auto simp: Resolve.simps[of fuel name c] cached_def)

lemma Resolve_build: "c_entries c name = Some e \<Longrightarrow> \<not> e_resolving e \<Longrightarrow> \<not> cached e \<Longrightarrow>
    Resolve fuel name c = (case fuel of 0 \<Rightarrow> None | Suc n \<Rightarrow> map_option (settle_entry name)
      (run_provider (e_provider e) (Resolve n) (set_entry name (e\<lparr>e_resolving := True\<rparr>) c)))"
  by (auto simp: Resolve.simps[of fuel name c] cached_def split: option.split bool.split)

text \<open>The ways a resolution goes.\<close>

lemma Resolve_cases:
  assumes "Resolve fuel name c = Some (r, c')"
  obtains (absent) "c_entries c name = None" "r = Failed (ProviderError name (DiError ''not registered''))" "c' = c"
  | (circular) e where "c_entries c name = Some e" "e_resolving e" "r = Failed (CircularDependencyError name)" "c' = c"
  | (known) e i where "c_entries c name = Some e" "\<not> e_resolving e" "cached e" "e_instance e = Some i" "r = Resolved i" "c' = c"
  | (built) e n r2 c2 where "c_entries c name = Some e" "\<not> e_resolving e" "\<not> cached e" "fuel = Suc n"
      "run_provider (e_provider e) (Resolve n) (set_entry name (e\<lparr>e_resolving := True\<rparr>) c) = Some (r2, c2)"
      "settle_entry name (r2, c2) = (r, c')"
proof (cases "c_entries c name")
  case None
  then have "r = Failed (ProviderError name (DiError ''not registered''))" "c' = c"
    using assms Resolve_absent[OF None, of fuel] by simp_all
  then show ?thesis by (rule absent[OF None])
next
  case (Some e)
  consider "e_resolving e" | "\<not> e_resolving e" "cached e" | "\<not> e_resolving e" "\<not> cached e" by blast
  then show ?thesis
  proof cases
    case 1
    then have "r = Failed (CircularDependencyError name)" "c' = c" using assms Resolve_circular[OF Some 1, of fuel] by simp_all
    then show ?thesis by (rule circular[OF Some 1])
  next
    case 2
    obtain i where i: "e_instance e = Some i" using 2(2) by (auto simp: cached_def)
    then have "r = Resolved i" "c' = c" using assms Resolve_cached[OF Some 2] by simp_all
    then show ?thesis by (rule known[OF Some 2 i])
  next
    case 3
    obtain n where n: "fuel = Suc n" using assms Resolve_build[OF Some 3] by (cases fuel) auto
    then obtain r2 c2 where run: "run_provider (e_provider e) (Resolve n) (set_entry name (e\<lparr>e_resolving := True\<rparr>) c) = Some (r2, c2)"
      "settle_entry name (r2, c2) = (r, c')"
      using assms Resolve_build[OF Some 3] by auto
    then show ?thesis by (rule built[OF Some 3 n])
  qed
qed

lemma settle_entries:
  assumes "settle_entry name (r2, c2) = (r, c')" "c_entries c2 name = Some e2"
  shows "\<exists>e'. c_entries c' = (c_entries c2)(name \<mapsto> e') \<and> e_provider e' = e_provider e2 \<and> e_singleton e' = e_singleton e2"
    and "c_order c' = c_order c2 \<or> c_order c' = c_order c2 @ [name]"
proof -
  show "c_order c' = c_order c2 \<or> c_order c' = c_order c2 @ [name]"
    using assms by (auto simp: settle_entry_def set_entry_def split: outcome.splits if_splits)
  show "\<exists>e'. c_entries c' = (c_entries c2)(name \<mapsto> e') \<and> e_provider e' = e_provider e2 \<and> e_singleton e' = e_singleton e2"
  proof (cases r2)
    case (Panicked e)
    then have "c' = c2" using assms by (simp add: settle_entry_def)
    then show ?thesis using assms(2) by (intro exI[of _ e2]) (simp add: fun_upd_idem)
  qed (use assms in \<open>auto simp: settle_entry_def set_entry_def split: if_splits\<close>)
qed

lemma Resolve_evolves: "Resolve fuel name c = Some (r, c') \<Longrightarrow> evolves c c'" for c :: "'i container"
proof (induction fuel arbitrary: name c r c')
  case 0
  then show ?case by (cases rule: Resolve_cases) auto
next
  case (Suc k)
  from Suc.prems show ?case
  proof (cases rule: Resolve_cases)
    case (built e n r2 c2)
    let ?c1 = "set_entry name (e\<lparr>e_resolving := True\<rparr>) c"
    have "n = k" using built(4) by simp
    then have "well_behaved (Resolve n :: 'i resolver)" by (auto simp: well_behaved_def dest: Suc.IH)
    from run_evolves[OF this built(5)] have ev: "evolves ?c1 c2" .
    obtain e2 where e2: "c_entries c2 name = Some e2" "entry_evolves (e\<lparr>e_resolving := True\<rparr>) e2"
      using evolves_entry[OF ev, of name] by (auto simp: set_entry_def)
    obtain e' where e': "c_entries c' = (c_entries c2)(name \<mapsto> e')" "e_provider e' = e_provider e2" "e_singleton e' = e_singleton e2"
      and order: "c_order c' = c_order c2 \<or> c_order c' = c_order c2 @ [name]"
      using settle_entries[OF built(6) e2(1)] by blast
    have "rel_option entry_evolves (c_entries c n) (c_entries c' n)" for n
    proof (cases "n = name")
      case True
      then show ?thesis using e' e2(2) built(1-3) by (auto simp: entry_evolves_def cached_def)
    next
      case False
      have "rel_option entry_evolves (c_entries ?c1 n) (c_entries c2 n)" using ev by (simp add: evolves_def)
      then show ?thesis using False e'(1) by (simp add: set_entry_def)
    qed
    moreover have "\<exists>more. c_order c2 = c_order c @ more" using ev by (simp add: evolves_def set_entry_def)
    then have "\<exists>more. c_order c' = c_order c @ more" using order by auto
    ultimately show ?thesis by (simp add: evolves_def)
  qed auto
qed

section \<open>Resolution ends\<close>

lemma run_total:
  assumes "well_behaved res" "\<And>n c'. evolves c c' \<Longrightarrow> res n c' \<noteq> None"
  shows "run_provider p res c \<noteq> None"
proof -
  have "evolves c c0 \<Longrightarrow> run_provider p res c0 \<noteq> None" for c0
  proof (induction p arbitrary: c0)
    case (MustResolve n k)
    obtain r c1 where r: "res n c0 = Some (r, c1)" using assms(2)[OF MustResolve.prems] by (metis not_None_eq surj_pair)
    then have "evolves c c1" using MustResolve.prems assms(1) evolves_trans by (metis well_behaved_def)
    then show ?case using MustResolve.IH r by (auto split: outcome.split)
  next
    case (TryResolve n k)
    obtain r c1 where r: "res n c0 = Some (r, c1)" using assms(2)[OF TryResolve.prems] by (metis not_None_eq surj_pair)
    then have "evolves c c1" using TryResolve.prems assms(1) evolves_trans by (metis well_behaved_def)
    then show ?case using TryResolve.IH r by (auto split: outcome.split)
  qed simp
  then show ?thesis by simp
qed

lemma Resolve_total: "finite (free c) \<Longrightarrow> card (free c) \<le> fuel \<Longrightarrow> Resolve fuel name c \<noteq> None" for c :: "'i container"
proof (induction fuel arbitrary: name c)
  case 0
  then have "free c = {}" by simp
  then have "c_entries c name = None \<or> (\<exists>e. c_entries c name = Some e \<and> e_resolving e)"
    by (auto simp: free_def)
  then show ?case by (auto simp: Resolve_absent Resolve_circular)
next
  case (Suc n)
  show ?case
  proof (cases "\<exists>e. c_entries c name = Some e \<and> \<not> e_resolving e \<and> \<not> cached e")
    case True
    then obtain e where e: "c_entries c name = Some e" "\<not> e_resolving e" "\<not> cached e" by blast
    let ?c1 = "set_entry name (e\<lparr>e_resolving := True\<rparr>) c"
    have free1: "free ?c1 = free c - {name}" by (auto simp: free_def set_entry_def)
    have "name \<in> free c" using e by (auto simp: free_def)
    then have "Suc (card (free ?c1)) = card (free c)" unfolding free1 by (rule card_Suc_Diff1[OF Suc.prems(1)])
    then have card: "card (free ?c1) \<le> n" using Suc.prems(2) by linarith
    have "Resolve n m c' \<noteq> None" if "evolves ?c1 c'" for m and c' :: "'i container"
    proof -
      have "free c' \<subseteq> free ?c1" by (rule evolves_free[OF that])
      moreover have "finite (free ?c1)" using Suc.prems(1) free1 by simp
      ultimately have "finite (free c')" "card (free c') \<le> card (free ?c1)" by (auto intro: finite_subset card_mono)
      then have "finite (free c')" "card (free c') \<le> n" using card by simp_all
      then show ?thesis by (rule Suc.IH)
    qed
    moreover have "well_behaved (Resolve n :: 'i resolver)" by (auto simp: well_behaved_def dest: Resolve_evolves)
    ultimately have "run_provider (e_provider e) (Resolve n) ?c1 \<noteq> None" by (rule run_total[rotated])
    then show ?thesis using Resolve_build[OF e] by simp
  next
    case False
    then consider "c_entries c name = None" | e where "c_entries c name = Some e" "e_resolving e"
      | e where "c_entries c name = Some e" "\<not> e_resolving e" "cached e" by (cases "c_entries c name") auto
    then show ?thesis by cases (simp_all add: Resolve_absent Resolve_circular Resolve_cached)
  qed
qed

section \<open>Singletons and their order\<close>

text \<open>The order lists exactly the resolved entries, each once; those are singletons with an instance.\<close>

definition di_ok :: "'i container \<Rightarrow> bool" where
  "di_ok c \<longleftrightarrow> distinct (c_order c) \<and>
     (\<forall>n. n \<in> set (c_order c) \<longleftrightarrow> (\<exists>e. c_entries c n = Some e \<and> e_resolved e)) \<and>
     (\<forall>n e. c_entries c n = Some e \<longrightarrow> e_resolved e \<longrightarrow> cached e \<and> \<not> e_resolving e)"

definition keeps_ok :: "'i resolver \<Rightarrow> bool" where
  "keeps_ok res \<longleftrightarrow> (\<forall>n c r c'. res n c = Some (r, c') \<longrightarrow> di_ok c \<longrightarrow> di_ok c')"

lemma run_keeps_ok: "keeps_ok res \<Longrightarrow> run_provider p res c = Some (r, c') \<Longrightarrow> di_ok c \<Longrightarrow> di_ok c'"
proof (induction p arbitrary: c)
  case (MustResolve n k)
  obtain r0 c1 where r0: "res n c = Some (r0, c1)" using MustResolve.prems(2) by (auto split: option.splits)
  then have "di_ok c1" using MustResolve.prems(1,3) by (auto simp: keeps_ok_def)
  then show ?case using MustResolve.prems r0 MustResolve.IH by (auto split: outcome.splits)
next
  case (TryResolve n k)
  obtain r0 c1 where r0: "res n c = Some (r0, c1)" using TryResolve.prems(2) by (auto split: option.splits)
  then have "di_ok c1" using TryResolve.prems(1,3) by (auto simp: keeps_ok_def)
  then show ?case using TryResolve.prems r0 TryResolve.IH by (auto split: outcome.splits)
qed auto

lemma settle_ok:
  assumes "di_ok c2" "c_entries c2 name = Some e2" "e_resolving e2" "settle_entry name (r2, c2) = (r, c')"
  shows "di_ok c'"
proof -
  have "\<not> e_resolved e2" using assms(1-3) by (auto simp: di_ok_def)
  then have "name \<notin> set (c_order c2)" using assms(1,2) by (auto simp: di_ok_def)
  then show ?thesis using assms \<open>\<not> e_resolved e2\<close>
    by (auto simp: settle_entry_def set_entry_def di_ok_def cached_def split: outcome.splits if_splits)
qed

lemma Resolve_ok: "Resolve fuel name c = Some (r, c') \<Longrightarrow> di_ok c \<Longrightarrow> di_ok c'" for c :: "'i container"
proof (induction fuel arbitrary: name c r c')
  case 0
  from 0(1) show ?case by (cases rule: Resolve_cases) (use 0(2) in auto)
next
  case (Suc k)
  from Suc.prems(1) show ?case
  proof (cases rule: Resolve_cases)
    case (built e n r2 c2)
    let ?c1 = "set_entry name (e\<lparr>e_resolving := True\<rparr>) c"
    have "n = k" using built(4) by simp
    then have "keeps_ok (Resolve n :: 'i resolver)" by (auto simp: keeps_ok_def dest: Suc.IH)
    moreover have "\<not> e_resolved e" using Suc.prems(2) built(1,3) by (auto simp: di_ok_def)
    then have "di_ok ?c1"
      using Suc.prems(2) built(1) by (auto simp: di_ok_def set_entry_def)
    ultimately have "di_ok c2" using run_keeps_ok built(5) by blast
    moreover have "evolves ?c1 c2"
      using run_evolves[OF _ built(5)] by (auto simp: well_behaved_def dest: Resolve_evolves)
    then obtain e2 where "c_entries c2 name = Some e2" "e_resolving e2"
      using evolves_entry[of ?c1 c2 name "e\<lparr>e_resolving := True\<rparr>"] by (auto simp: set_entry_def entry_evolves_def)
    ultimately show ?thesis using settle_ok built(6) by blast
  qed (use Suc.prems(2) in auto)
qed

text \<open>A singleton just resolved is cached.\<close>

lemma Resolved_is_cached:
  assumes "Resolve fuel name c = Some (Resolved i, c')" "c_entries c name = Some e" "e_singleton e"
  shows "\<exists>e'. c_entries c' name = Some e' \<and> cached e' \<and> e_instance e' = Some i \<and> \<not> e_resolving e'"
  using assms(1)
proof (cases rule: Resolve_cases)
  case (built e0 n r2 c2)
  let ?c1 = "set_entry name (e\<lparr>e_resolving := True\<rparr>) c"
  have e0: "e0 = e" using assms(2) built(1) by simp
  have "evolves ?c1 c2" using run_evolves[OF _ built(5)] e0 by (auto simp: well_behaved_def dest: Resolve_evolves)
  then obtain e2 where "c_entries c2 name = Some e2" "e_singleton e2"
    using evolves_entry[of ?c1 c2 name "e\<lparr>e_resolving := True\<rparr>"] assms(3) by (auto simp: set_entry_def entry_evolves_def)
  then show ?thesis
    using built(6) by (auto simp: settle_entry_def set_entry_def cached_def split: outcome.splits)
qed (use assms in auto)

lemma resolve_each_evolves: "resolve_each fuel ns c = Some (r, c') \<Longrightarrow> evolves c c'"
proof (induction ns arbitrary: c)
  case (Cons n ns)
  obtain r0 c1 where one: "Resolve fuel n c = Some (r0, c1)" using Cons.prems by (auto split: option.splits)
  have "evolves c1 c'" using Cons one by (cases r0) auto
  then show ?case using Resolve_evolves[OF one] evolves_trans by blast
qed simp

lemma resolved_stays:
  assumes "c_entries c name = Some e" "e_singleton e"
    and "Resolve fuel name c = Some (Resolved i, c1)" "evolves c1 c2"
  shows "Resolve fuel'' name c2 = Some (Resolved i, c2)"
proof -
  obtain e1 where e1: "c_entries c1 name = Some e1" "cached e1" "e_instance e1 = Some i" "\<not> e_resolving e1"
    using Resolved_is_cached[OF assms(3,1,2)] by blast
  obtain e2 where "c_entries c2 name = Some e2" "entry_evolves e1 e2"
    using evolves_entry[OF assms(4) e1(1)] by blast
  then have "c_entries c2 name = Some e1" using e1(2) by (auto simp: entry_evolves_def cached_def)
  from Resolve_cached[OF this e1(4,2)] show ?thesis using e1(3) by simp
qed

text \<open>
  a singleton is built once. Once a singleton has been resolved, every later resolution of it, after any
  number of resolutions of other components, failed ones included, returns the same instance and changes
  nothing.
\<close>

theorem singleton_is_built_once:
  assumes "c_entries c name = Some e" "e_singleton e"
    and "Resolve fuel name c = Some (Resolved i, c1)" "resolve_each fuel' ns c1 = Some (r, c2)"
  shows "Resolve fuel'' name c2 = Some (Resolved i, c2)"
  by (rule resolved_stays[OF assms(1-3) resolve_each_evolves[OF assms(4)]])

text \<open>
  C40: resolution ends. Whatever the providers do with the container, and however they depend on each other, a
  fuel of as many units as there are entries not being resolved suffices: \<open>Resolve\<close> then returns an
  instance, an error or a panic.
\<close>

theorem resolution_terminates:
  assumes "finite (dom (c_entries c))" "card {n. \<exists>e. c_entries c n = Some e \<and> \<not> e_resolving e} \<le> fuel"
  shows "Resolve fuel name c \<noteq> None"
proof (rule Resolve_total)
  show "finite (free c)" using assms(1) by (rule finite_subset[rotated]) (auto simp: free_def)
qed (use assms(2) in \<open>simp add: free_def\<close>)

text \<open>Names of the order whose entries are as before have the instances they had.\<close>

definition instances_of :: "'i container \<Rightarrow> string list \<Rightarrow> 'i list" where
  "instances_of c ns = concat (map (\<lambda>name. case c_entries c name of
      Some e \<Rightarrow> (case e_instance e of Some i \<Rightarrow> [i] | None \<Rightarrow> []) | None \<Rightarrow> []) ns)"

lemma instances_kept:
  assumes "evolves c c'" "di_ok c" shows "instances_of c' (c_order c) = instances_of c (c_order c)"
proof -
  have "c_entries c' n = c_entries c n" if n: "n \<in> set (c_order c)" for n
  proof -
    obtain e where e: "c_entries c n = Some e" "cached e" using assms(2) n by (auto simp: di_ok_def)
    obtain e' where "c_entries c' n = Some e'" "entry_evolves e e'" using evolves_entry[OF assms(1) e(1)] by blast
    then show ?thesis using e by (auto simp: entry_evolves_def cached_def)
  qed
  then show ?thesis unfolding instances_of_def by (intro arg_cong[of _ _ concat] map_cong) auto
qed

text \<open>
  Components are closed before what they were built on. When a singleton is built, the container closes
  it first, then what was built while its provider ran, and then what had been built before, in the order
  it had for them; nothing is closed twice.
\<close>

theorem close_reverses_construction:
  assumes "di_ok c" "c_entries c name = Some e" "e_singleton e" "\<not> e_resolved e" "\<not> e_resolving e"
    and "Resolve fuel name c = Some (Resolved i, c')"
  shows "\<exists>built. c_order c' = c_order c @ built @ [name] \<and> distinct (c_order c') \<and>
    fst (closeWith close c') = i # rev (instances_of c' built) @ fst (closeWith close c)"
  using assms(6)
proof (cases rule: Resolve_cases)
  case (built e0 n r2 c2)
  let ?c1 = "set_entry name (e\<lparr>e_resolving := True\<rparr>) c"
  have e0: "e0 = e" using assms(2) built(1) by simp
  have "evolves ?c1 c2" using run_evolves[OF _ built(5)] e0 by (auto simp: well_behaved_def dest: Resolve_evolves)
  then obtain e2 more where e2: "c_entries c2 name = Some e2" "e_singleton e2" and more: "c_order c2 = c_order c @ more"
    using evolves_entry[of ?c1 c2 name "e\<lparr>e_resolving := True\<rparr>"] assms(3)
    by (auto simp: set_entry_def entry_evolves_def evolves_def)
  have order: "c_order c' = c_order c @ more @ [name]"
    using built(6) e2 more by (auto simp: settle_entry_def set_entry_def split: outcome.splits)
  obtain e' where e': "c_entries c' name = Some e'" "e_instance e' = Some i"
    using Resolved_is_cached[OF assms(6,2,3)] by blast
  have "di_ok c'" by (rule Resolve_ok[OF assms(6,1)])
  then have "distinct (c_order c')" by (simp add: di_ok_def)
  moreover have "ordered_instances c' = instances_of c' (c_order c) @ instances_of c' more @ [i]"
    using e' by (simp add: ordered_instances_def instances_of_def order)
  then have "fst (closeWith close c') = i # rev (instances_of c' more) @ fst (closeWith close c)"
    using instances_kept[OF Resolve_evolves[OF assms(6)] assms(1)]
    by (simp add: closeWith_def Let_def ordered_instances_def instances_of_def)
  ultimately show ?thesis using order by blast
qed (use assms in \<open>auto simp: cached_def\<close>)

section \<open>When resolution succeeds\<close>

text \<open>
  A sound provider never fails by itself and only resolves names of a set; it is how the registry writes
  its providers when no constructor fails.
\<close>

primrec sound :: "string set \<Rightarrow> 'i provider \<Rightarrow> bool" where
  "sound S (Built r) \<longleftrightarrow> \<not> isl r"
| "sound S (MustResolve n k) \<longleftrightarrow> n \<in> S \<and> (\<forall>i. sound S (k i))"
| "sound S (TryResolve n k) \<longleftrightarrow> n \<in> S \<and> (\<forall>r. sound S (k r))"

lemma sound_mono: "S \<subseteq> T \<Longrightarrow> sound S p \<Longrightarrow> sound T p"
  by (induction p) auto

lemma sound_builds [simp]: "sound S (builds kind settings deps) \<longleftrightarrow> set deps \<subseteq> S"
proof -
  have "sound S (build_from kind settings deps got) \<longleftrightarrow> set deps \<subseteq> S" for got
    by (induction deps arbitrary: got) auto
  then show ?thesis by (simp add: builds_def)
qed

text \<open>A container whose entries are sound over entries of lower rank.\<close>

definition ranked :: "(string \<Rightarrow> nat) \<Rightarrow> 'i container \<Rightarrow> bool" where
  "ranked rank c \<longleftrightarrow> (\<forall>n e. c_entries c n = Some e \<longrightarrow>
     sound {m. m \<in> dom (c_entries c) \<and> rank m < rank n} (e_provider e))"

definition resolving_names :: "'i container \<Rightarrow> string set" where
  "resolving_names c = {n. \<exists>e. c_entries c n = Some e \<and> e_resolving e}"

lemma evolves_dom: "evolves c c' \<Longrightarrow> dom (c_entries c') = dom (c_entries c)"
  by (auto simp: dom_def evolves_absent[of c c'])

lemma evolves_ranked: "evolves c c' \<Longrightarrow> ranked rank c \<Longrightarrow> ranked rank c'"
proof -
  assume ev: "evolves c c'" and r: "ranked rank c"
  have "sound {m. m \<in> dom (c_entries c') \<and> rank m < rank n} (e_provider e')" if "c_entries c' n = Some e'" for n e'
  proof -
    obtain e where e: "c_entries c n = Some e" using evolves_absent[OF ev, of n] \<open>c_entries c' n = Some e'\<close> by auto
    then have "e_provider e' = e_provider e" using evolves_entry[OF ev e] \<open>c_entries c' n = Some e'\<close> by (auto simp: entry_evolves_def)
    then show ?thesis using r e evolves_dom[OF ev] by (simp add: ranked_def)
  qed
  then show ?thesis by (simp add: ranked_def)
qed

definition succeeds :: "'i resolver \<Rightarrow> string set \<Rightarrow> 'i container \<Rightarrow> bool" where
  "succeeds res S c \<longleftrightarrow> (\<forall>n c0. n \<in> S \<longrightarrow> evolves c c0 \<longrightarrow> resolving_names c0 = resolving_names c \<longrightarrow>
     (\<exists>i c1. res n c0 = Some (Resolved i, c1) \<and> evolves c0 c1 \<and> resolving_names c1 = resolving_names c0))"

lemma run_succeeds:
  assumes "succeeds res S c" "sound S p"
  shows "evolves c c0 \<Longrightarrow> resolving_names c0 = resolving_names c \<Longrightarrow>
    \<exists>i c1. run_provider p res c0 = Some (Resolved i, c1) \<and> evolves c0 c1 \<and> resolving_names c1 = resolving_names c"
  using assms(2)
proof (induction p arbitrary: c0)
  case (Built r)
  then show ?case by (cases r) auto
next
  case (MustResolve n k)
  obtain i c1 where one: "res n c0 = Some (Resolved i, c1)" "evolves c0 c1" "resolving_names c1 = resolving_names c0"
    using assms(1)[unfolded succeeds_def, rule_format, of n c0] MustResolve.prems by auto
  have "evolves c c1" using MustResolve.prems(1) one(2) evolves_trans by blast
  then obtain j c2 where "run_provider (k i) res c1 = Some (Resolved j, c2)" "evolves c1 c2" "resolving_names c2 = resolving_names c"
    using MustResolve.IH[of "k i" c1] MustResolve.prems one(3) by auto
  then show ?case using one evolves_trans by fastforce
next
  case (TryResolve n k)
  obtain i c1 where one: "res n c0 = Some (Resolved i, c1)" "evolves c0 c1" "resolving_names c1 = resolving_names c0"
    using assms(1)[unfolded succeeds_def, rule_format, of n c0] TryResolve.prems by auto
  have "evolves c c1" using TryResolve.prems(1) one(2) evolves_trans by blast
  then obtain j c2 where "run_provider (k (Inr i)) res c1 = Some (Resolved j, c2)" "evolves c1 c2" "resolving_names c2 = resolving_names c"
    using TryResolve.IH[of "k (Inr i)" c1] TryResolve.prems one(3) by auto
  then show ?case using one evolves_trans by fastforce
qed

lemma settle_success:
  assumes "c_entries c2 name = Some e2" "settle_entry name (Resolved i, c2) = (r, c')"
  shows "r = Resolved i \<and> resolving_names c' = resolving_names c2 - {name}"
  using assms by (auto simp: settle_entry_def set_entry_def resolving_names_def split: if_splits)

lemma Resolve_succeeds:
  "ranked rank c \<Longrightarrow> name \<in> dom (c_entries c) \<Longrightarrow> (\<And>n. n \<in> resolving_names c \<Longrightarrow> rank name < rank n) \<Longrightarrow>
    rank name < fuel \<Longrightarrow>
    \<exists>i c'. Resolve fuel name c = Some (Resolved i, c') \<and> evolves c c' \<and> resolving_names c' = resolving_names c"
  for c :: "'i container"
proof (induction fuel arbitrary: name c)
  case (Suc n)
  obtain e where e: "c_entries c name = Some e" using Suc.prems(2) by blast
  have nr: "\<not> e_resolving e" using Suc.prems(3) e by (auto simp: resolving_names_def)
  show ?case
  proof (cases "cached e")
    case True
    then show ?thesis using Resolve_cached[OF e nr] by auto
  next
    case False
    let ?c1 = "set_entry name (e\<lparr>e_resolving := True\<rparr>) c"
    let ?S = "{m. m \<in> dom (c_entries c) \<and> rank m < rank name}"
    have rn1: "resolving_names ?c1 = insert name (resolving_names c)" by (auto simp: resolving_names_def set_entry_def)
    have dom1: "dom (c_entries ?c1) = dom (c_entries c)" using e by (auto simp: set_entry_def)
    have rk1: "ranked rank ?c1" using Suc.prems(1) e dom1 by (auto simp: ranked_def set_entry_def)
    have "\<exists>i c2. Resolve n m c0 = Some (Resolved i, c2) \<and> evolves c0 c2 \<and> resolving_names c2 = resolving_names c0"
      if "m \<in> ?S" "evolves ?c1 c0" "resolving_names c0 = resolving_names ?c1" for m and c0 :: "'i container"
    proof (rule Suc.IH)
      show "ranked rank c0" by (rule evolves_ranked[OF that(2) rk1])
      show "m \<in> dom (c_entries c0)" using that(1) evolves_dom[OF that(2)] dom1 by blast
      show "rank m < rank k" if "k \<in> resolving_names c0" for k
      proof -
        have "k = name \<or> k \<in> resolving_names c" using \<open>k \<in> resolving_names c0\<close> \<open>resolving_names c0 = resolving_names ?c1\<close> rn1 by blast
        moreover have "rank m < rank name" using \<open>m \<in> ?S\<close> by blast
        ultimately show ?thesis using Suc.prems(3)[of k] by (elim disjE) (blast, linarith)
      qed
      show "rank m < n" using that(1) Suc.prems(4) by auto
    qed
    then have "succeeds (Resolve n) ?S ?c1" unfolding succeeds_def by blast
    moreover have "sound ?S (e_provider e)" using Suc.prems(1) e by (simp add: ranked_def)
    ultimately obtain i c2 where run: "run_provider (e_provider e) (Resolve n) ?c1 = Some (Resolved i, c2)"
      "evolves ?c1 c2" "resolving_names c2 = resolving_names ?c1"
      using run_succeeds[of "Resolve n" ?S ?c1 "e_provider e" ?c1] by auto
    obtain e2 where e2: "c_entries c2 name = Some e2" using evolves_dom[OF run(2)] dom1 e by blast
    obtain r c' where settle: "settle_entry name (Resolved i, c2) = (r, c')" by (rule prod.exhaust)
    note settled = settle_success[OF e2 settle]
    have res: "Resolve (Suc n) name c = Some (Resolved i, c')"
      using Resolve_build[OF e nr False, of "Suc n"] run(1) settle settled by simp
    have "name \<notin> resolving_names c" using e nr by (auto simp: resolving_names_def)
    then have "resolving_names c' = resolving_names c" using settled run(3) rn1 by auto
    then show ?thesis using res Resolve_evolves[OF res] by blast
  qed
qed simp

section \<open>The composition root\<close>

lemma register_each_ok:
  assumes "distinct (map fst rs)" "\<forall>n \<in> set (map fst rs). c_entries c n = None"
  shows "\<exists>c'. register_each rs c = (None, c') \<and> dom (c_entries c') = dom (c_entries c) \<union> set (map fst rs) \<and>
    (\<forall>n p. (n, p) \<in> set rs \<longrightarrow> c_entries c' n =
      Some \<lparr>e_provider = p, e_singleton = True, e_instance = None, e_resolved = False, e_resolving = False\<rparr>) \<and>
    (\<forall>n. n \<notin> set (map fst rs) \<longrightarrow> c_entries c' n = c_entries c n) \<and> c_order c' = c_order c"
  using assms
proof (induction rs arbitrary: c)
  case (Cons r rs)
  obtain n p where r: "r = (n, p)" by (rule prod.exhaust)
  let ?e = "\<lparr>e_provider = p, e_singleton = True, e_instance = None, e_resolved = False, e_resolving = False\<rparr>"
  let ?c = "c\<lparr>c_entries := (c_entries c)(n \<mapsto> ?e)\<rparr>"
  have one: "RegisterSingleton n (Some p) c = (None, ?c)"
    using Cons.prems(2) r by (simp add: RegisterSingleton_def register_provider_def)
  have "distinct (map fst rs)" "\<forall>m \<in> set (map fst rs). c_entries ?c m = None" using Cons.prems r by auto
  from Cons.IH[OF this] obtain c' where c': "register_each rs ?c = (None, c')"
    "dom (c_entries c') = dom (c_entries ?c) \<union> set (map fst rs)"
    "\<forall>m q. (m, q) \<in> set rs \<longrightarrow> c_entries c' m =
      Some \<lparr>e_provider = q, e_singleton = True, e_instance = None, e_resolved = False, e_resolving = False\<rparr>"
    "\<forall>m. m \<notin> set (map fst rs) \<longrightarrow> c_entries c' m = c_entries ?c m" "c_order c' = c_order ?c" by (elim exE conjE)
  have n: "c_entries c' n = Some ?e" using c'(4) Cons.prems(1) r by simp
  show ?case
  proof (intro exI[of _ c'] conjI)
    show "register_each (r # rs) c = (None, c')" using one r c'(1) by simp
    show "dom (c_entries c') = dom (c_entries c) \<union> set (map fst (r # rs))" using c'(2) r by auto
    show "\<forall>m q. (m, q) \<in> set (r # rs) \<longrightarrow> c_entries c' m =
      Some \<lparr>e_provider = q, e_singleton = True, e_instance = None, e_resolved = False, e_resolving = False\<rparr>"
      using c'(3) n r by auto
    show "\<forall>m. m \<notin> set (map fst (r # rs)) \<longrightarrow> c_entries c' m = c_entries c m" using c'(4) r by auto
    show "c_order c' = c_order c" using c'(5) by simp
  qed
qed auto

text \<open>The layers of the registry: a component only uses components of lower layers.\<close>

definition layer :: "string \<Rightarrow> nat" where
  "layer n =
    (if n \<in> {''logger'', ''db'', ''redis'', ''bus'', ''inference.client'', ''tool.executor'', ''inference.images'', ''image.client''} then 0
     else if n \<in> {''limiter'', ''cache.kv'', ''batch.scheduler'', ''iam'', ''serving'', ''usage'', ''usage.quota'', ''billing'',
       ''inference.manager'', ''outbox.store'', ''usage.roller''} then 1
     else if n \<in> {''inference.loop'', ''image.service'', ''iam.auth'', ''outbox.publisher'', ''billing.reaper'', ''deployment.worker''} then 2
     else if n \<in> {''iam.authenticator'', ''image.runner''} then 3 else 4)"

lemmas registry_defs = registrations_def infrastructure_def data_plane_def control_plane_def api_services_def
  workers_def http_handlers_def

lemma layers:
  "layer ''logger'' = 0"
  "layer ''db'' = 0"
  "layer ''redis'' = 0"
  "layer ''bus'' = 0"
  "layer ''inference.client'' = 0"
  "layer ''tool.executor'' = 0"
  "layer ''inference.images'' = 0"
  "layer ''image.client'' = 0"
  "layer ''limiter'' = 1"
  "layer ''cache.kv'' = 1"
  "layer ''batch.scheduler'' = 1"
  "layer ''iam'' = 1"
  "layer ''serving'' = 1"
  "layer ''usage'' = 1"
  "layer ''usage.quota'' = 1"
  "layer ''billing'' = 1"
  "layer ''inference.manager'' = 1"
  "layer ''outbox.store'' = 1"
  "layer ''usage.roller'' = 1"
  "layer ''inference.loop'' = 2"
  "layer ''image.service'' = 2"
  "layer ''iam.auth'' = 2"
  "layer ''outbox.publisher'' = 2"
  "layer ''billing.reaper'' = 2"
  "layer ''deployment.worker'' = 2"
  "layer ''iam.authenticator'' = 3"
  "layer ''image.runner'' = 3"
  "layer ''http.handler'' = 4"
  "layer ''http.iam'' = 4"
  "layer ''http.serving'' = 4"
  "layer ''http.usage'' = 4"
  "layer ''http.billing'' = 4"
  "layer ''http.image'' = 4"
  by code_simp+

lemma registry_distinct: "distinct (map fst (registrations opts cfg w))"
  by (cases "sv_API (cf_Services cfg)"; cases "sv_Worker (cf_Services cfg)"; cases "sv_Billing (cf_Services cfg)";
      cases "sv_Image (cf_Services cfg)") (simp_all add: registry_defs)

definition available :: "string set \<Rightarrow> string \<Rightarrow> string set" where
  "available R n = {m \<in> R. layer m < layer n}"

abbreviation registered :: "Options \<Rightarrow> Config \<Rightarrow> app_world \<Rightarrow> string set" where
  "registered opts cfg w \<equiv> set (map fst (registrations opts cfg w))"

lemma always_registered:
  "{''logger'', ''db'', ''redis'', ''limiter'', ''cache.kv'', ''bus'', ''iam'', ''iam.auth'', ''iam.authenticator'', ''serving'',
    ''usage'', ''usage.quota'', ''billing''} \<subseteq> registered opts cfg w"
  by (simp add: registrations_def infrastructure_def control_plane_def)

lemma registered_for_api:
  "sv_API (cf_Services cfg) \<Longrightarrow> {''inference.client'', ''batch.scheduler'', ''tool.executor'', ''inference.images'',
    ''inference.loop'', ''inference.manager'', ''outbox.store''} \<subseteq> registered opts cfg w"
  by (simp add: registrations_def data_plane_def api_services_def)

lemma registered_for_images:
  "sv_API (cf_Services cfg) \<Longrightarrow> sv_Image (cf_Services cfg) \<Longrightarrow> {''image.client'', ''image.service''} \<subseteq> registered opts cfg w"
  by (simp add: registrations_def data_plane_def)

lemma registry_sound:
  assumes "\<And>k. aw_fails w k = None"
  shows "\<forall>(n, p) \<in> set (registrations opts cfg w). sound (available (registered opts cfg w) n) p"
proof -
  let ?S = "available (registered opts cfg w)"
  have "\<forall>(n, p) \<in> set (infrastructure w cfg). sound (?S n) p"
    using assms always_registered[of opts cfg w]
    by (simp add: infrastructure_def open_and_migrate_def database_Open_def available_def layers)
  moreover have "\<forall>(n, p) \<in> set (control_plane cfg). sound (?S n) p"
    using always_registered[of opts cfg w] by (simp add: control_plane_def available_def layers)
  moreover have "\<forall>(n, p) \<in> set (data_plane opts cfg w). sound (?S n) p"
    using assms always_registered[of opts cfg w] registered_for_api[of cfg opts w] registered_for_images[of cfg opts w]
    by (cases "sv_API (cf_Services cfg)"; cases "sv_Image (cf_Services cfg)") (simp_all add: data_plane_def opens_def available_def layers)
  moreover have "\<forall>(n, p) \<in> set (api_services cfg). sound (?S n) p"
    using always_registered[of opts cfg w] registered_for_api[of cfg opts w]
    by (cases "sv_API (cf_Services cfg)"; cases "sv_Billing (cf_Services cfg)") (simp_all add: api_services_def available_def layers)
  moreover have "\<forall>(n, p) \<in> set (workers opts cfg). sound (?S n) p"
    using always_registered[of opts cfg w] by (simp add: workers_def available_def layers)
  moreover have "\<forall>(n, p) \<in> set (http_handlers opts cfg w). sound (?S n) p"
    using always_registered[of opts cfg w] registered_for_api[of cfg opts w] registered_for_images[of cfg opts w]
    by (cases "sv_API (cf_Services cfg)"; cases "sv_Billing (cf_Services cfg)"; cases "sv_Image (cf_Services cfg)")
       (simp_all add: http_handlers_def chat_handler_def billingGateArg_def quotaGateArg_def available_def layers)
  ultimately show ?thesis by (simp add: registrations_def ball_Un)
qed

lemma boot_names_registered: "set (boot_names cfg) \<subseteq> set (map fst (registrations opts cfg w))"
  by (cases "sv_API (cf_Services cfg)"; cases "sv_Worker (cf_Services cfg)"; cases "sv_Billing (cf_Services cfg)";
      cases "sv_Image (cf_Services cfg)") (simp_all add: registry_defs boot_names_def)

lemma resolve_each_succeeds:
  "ranked rank c \<Longrightarrow> resolving_names c = {} \<Longrightarrow> set ns \<subseteq> dom (c_entries c) \<Longrightarrow> (\<And>n. rank n < fuel) \<Longrightarrow>
    \<exists>c'. resolve_each fuel ns c = Some (Resolved (), c') \<and> (\<forall>n \<in> set ns. \<exists>i. Resolve fuel n c' = Some (Resolved i, c'))"
  if "\<And>n e. c_entries c n = Some e \<Longrightarrow> e_singleton e" for c :: "'i container"
  using that
proof (induction ns arbitrary: c)
  case (Cons n ns)
  obtain i c1 where one: "Resolve fuel n c = Some (Resolved i, c1)" "evolves c c1" "resolving_names c1 = {}"
    using Resolve_succeeds[of rank c n fuel] Cons.prems by auto
  obtain e where e: "c_entries c n = Some e" using Cons.prems(3) by auto
  have "e_singleton e1" if e1: "c_entries c1 m = Some e1" for m e1
  proof -
    obtain e0 where "c_entries c m = Some e0" using evolves_absent[OF one(2), of m] e1 by (cases "c_entries c m") auto
    then show ?thesis using evolves_entry[OF one(2)] Cons.prems(5) e1 by (fastforce simp: entry_evolves_def)
  qed
  moreover have "ranked rank c1" "set ns \<subseteq> dom (c_entries c1)"
    using evolves_ranked[OF one(2) Cons.prems(1)] evolves_dom[OF one(2)] Cons.prems(3) by auto
  ultimately obtain c2 where c2: "resolve_each fuel ns c1 = Some (Resolved (), c2)"
    "\<forall>n \<in> set ns. \<exists>i. Resolve fuel n c2 = Some (Resolved i, c2)"
    using Cons.IH[of c1] one(3) Cons.prems(4) by blast
  have "Resolve fuel n c2 = Some (Resolved i, c2)"
    using resolved_stays[OF e Cons.prems(5)[OF e] one(1) resolve_each_evolves[OF c2(1)]] .
  then show ?case using one(1) c2 by auto
qed simp

lemma registered_container:
  assumes "\<And>k. aw_fails w k = None"
  shows "\<exists>c. RegisterAll opts cfg w NewContainer = (None, c) \<and> dom (c_entries c) = set (map fst (registrations opts cfg w)) \<and>
    ranked layer c \<and> resolving_names c = {} \<and> (\<forall>n e. c_entries c n = Some e \<longrightarrow> e_singleton e)"
proof -
  let ?R = "registrations opts cfg w"
  obtain c where c: "register_each ?R NewContainer = (None, c)" "dom (c_entries c) = set (map fst ?R)"
    "\<forall>n p. (n, p) \<in> set ?R \<longrightarrow> c_entries c n =
      Some \<lparr>e_provider = p, e_singleton = True, e_instance = None, e_resolved = False, e_resolving = False\<rparr>"
    using register_each_ok[OF registry_distinct, of opts cfg w NewContainer] by (auto simp: NewContainer_def)
  have entry: "\<exists>p. (n, p) \<in> set ?R \<and> e = \<lparr>e_provider = p, e_singleton = True, e_instance = None, e_resolved = False, e_resolving = False\<rparr>"
    if "c_entries c n = Some e" for n e
  proof -
    have "n \<in> set (map fst ?R)" using that c(2) by blast
    then obtain p where "(n, p) \<in> set ?R" by auto
    then show ?thesis using c(3) that by auto
  qed
  have "ranked layer c"
    using entry registry_sound[OF assms, of opts cfg] c(2) by (fastforce simp: ranked_def available_def)
  moreover have "resolving_names c = {}" using entry by (fastforce simp: resolving_names_def)
  moreover have "\<forall>n e. c_entries c n = Some e \<longrightarrow> e_singleton e" using entry by fastforce
  ultimately show ?thesis using c by (auto simp: RegisterAll_def)
qed

text \<open>What the boot resolved resolves, and what the configuration leaves out does not.\<close>

lemma booted_container:
  assumes "\<And>k. aw_fails w k = None"
  shows "\<exists>c c'. RegisterAll opts cfg w NewContainer = (None, c) \<and> NewAppFromContainer 5 cfg c = Some (Resolved (), c') \<and>
    (\<forall>n \<in> set (boot_names cfg). resolves 5 c' n) \<and>
    (\<forall>n. n \<notin> set (map fst (registrations opts cfg w)) \<longrightarrow> \<not> resolves 5 c' n)"
proof -
  obtain c where c: "RegisterAll opts cfg w NewContainer = (None, c)" "dom (c_entries c) = set (map fst (registrations opts cfg w))"
    "ranked layer c" "resolving_names c = {}" "\<forall>n e. c_entries c n = Some e \<longrightarrow> e_singleton e"
    using registered_container[OF assms, of opts cfg] by (elim exE conjE)
  have "\<And>n. layer n < 5" by (simp add: layer_def)
  then obtain c' where c': "resolve_each 5 (boot_names cfg) c = Some (Resolved (), c')"
    "\<forall>n \<in> set (boot_names cfg). \<exists>i. Resolve 5 n c' = Some (Resolved i, c')"
    using resolve_each_succeeds[of c layer "boot_names cfg" 5] boot_names_registered[of cfg opts w] c(2-5) by auto
  have "c_entries c' n = None" if "n \<notin> set (map fst (registrations opts cfg w))" for n
    using evolves_dom[OF resolve_each_evolves[OF c'(1)]] that c(2) by (metis domIff)
  then show ?thesis
    using c(1) c' by (intro exI[of _ c] exI[of _ c']) (auto simp: NewAppFromContainer_def resolves_def Resolve_absent)
qed

text \<open>
  Every process boots. Whatever roles the configuration enables and however the gates are set, when no
  constructor fails the registry registers without a clash, the boot resolves all the names the roles need
  (no name is missing and no cycle is met) and each of them then resolves to the instance it has; a process
  without the API role does not even know the names of the HTTP stack and the data plane.
\<close>

theorem every_role_boots:
  assumes "\<And>k. aw_fails w k = None"
  shows "\<exists>c c'. RegisterAll opts cfg w NewContainer = (None, c) \<and> NewAppFromContainer 5 cfg c = Some (Resolved (), c') \<and>
    (\<forall>n \<in> set (boot_names cfg). resolves 5 c' n) \<and>
    (sv_API (cf_Services cfg) \<or> \<not> resolves 5 c' ''http.handler'' \<and> \<not> resolves 5 c' ''inference.client'' \<and> \<not> resolves 5 c' ''outbox.publisher'')"
proof -
  obtain c c' where c: "RegisterAll opts cfg w NewContainer = (None, c)" "NewAppFromContainer 5 cfg c = Some (Resolved (), c')"
    "\<forall>n \<in> set (boot_names cfg). resolves 5 c' n" and no: "\<forall>n. n \<notin> set (map fst (registrations opts cfg w)) \<longrightarrow> \<not> resolves 5 c' n"
    using booted_container[OF assms, of opts cfg] by (elim exE conjE)
  have "\<not> sv_API (cf_Services cfg) \<Longrightarrow> n \<in> {''http.handler'', ''inference.client'', ''outbox.publisher''} \<Longrightarrow>
      n \<notin> set (map fst (registrations opts cfg w))" for n
    by (auto simp: registry_defs)
  then show ?thesis using c no by blast
qed

section \<open>Programs\<close>

definition started_workers :: "app_world \<Rightarrow> app_action list" where
  "started_workers w = (if aw_kafka w then [StartComponent ''deployment.worker''] else [WarnNoKafka])"

definition served_routes :: "Config \<Rightarrow> string list" where
  "served_routes cfg = [''http.handler'', ''http.iam'', ''http.serving'', ''http.usage''] @
     (if sv_Billing (cf_Services cfg) then [''http.billing''] else []) @
     (if sv_Image (cf_Services cfg) then [''http.image''] else []) @ [''metrics'']"

definition started_api :: "Config \<Rightarrow> app_action list" where
  "started_api cfg = [SeedAll, StartComponent ''outbox.publisher'', StartComponent ''usage.roller''] @
     (if sv_Billing (cf_Services cfg) then [StartComponent ''billing.reaper''] else []) @
     (if sv_Image (cf_Services cfg) then [StartComponent ''image.runner''] else [])"

lemma optional_registered:
  "sv_API (cf_Services cfg) \<Longrightarrow> \<not> sv_Billing (cf_Services cfg) \<Longrightarrow>
     ''http.billing'' \<notin> set (map fst (registrations opts cfg w)) \<and> ''billing.reaper'' \<notin> set (map fst (registrations opts cfg w))"
  "sv_API (cf_Services cfg) \<Longrightarrow> \<not> sv_Image (cf_Services cfg) \<Longrightarrow> ''http.image'' \<notin> set (map fst (registrations opts cfg w))"
  by (auto simp: registry_defs)

lemma boot_and_run_finishes:
  assumes "\<And>k. aw_fails w k = None"
  shows "boot_and_run 5 opts cfg port w = Some (Finished
    ((if sv_API (cf_Services cfg) then started_api cfg else []) @
     (if sv_Worker (cf_Services cfg) then started_workers w else []) @
     (if sv_API (cf_Services cfg) then [ServeHTTP port (cf_HTTPReadHeaderTimeout cfg) (cf_HTTPIdleTimeout cfg) (served_routes cfg)]
      else [AwaitSignal])))"
proof -
  obtain c c' where c: "RegisterAll opts cfg w NewContainer = (None, c)" "NewAppFromContainer 5 cfg c = Some (Resolved (), c')"
    and yes: "\<And>n. n \<in> set (boot_names cfg) \<Longrightarrow> resolves 5 c' n"
    and no: "\<And>n. n \<notin> set (map fst (registrations opts cfg w)) \<Longrightarrow> \<not> resolves 5 c' n"
    using booted_container[OF assms, of opts cfg] by (elim exE conjE) blast
  have opt: "resolves 5 c' ''http.billing'' = sv_Billing (cf_Services cfg)" "resolves 5 c' ''billing.reaper'' = sv_Billing (cf_Services cfg)"
    "resolves 5 c' ''http.image'' = sv_Image (cf_Services cfg)" if api: "sv_API (cf_Services cfg)"
    using api yes[of "''http.billing''"] yes[of "''billing.reaper''"] yes[of "''http.image''"]
      no optional_registered[of cfg opts w] by (auto simp: boot_names_def)
  have "Run 5 cfg port w c' = ((if sv_API (cf_Services cfg) then started_api cfg else []) @
     (if sv_Worker (cf_Services cfg) then started_workers w else []) @
     (if sv_API (cf_Services cfg) then [ServeHTTP port (cf_HTTPReadHeaderTimeout cfg) (cf_HTTPIdleTimeout cfg) (served_routes cfg)]
      else [AwaitSignal]), None)"
    using opt assms by (simp add: Run_def start_api_def startWorker_def NewHTTPHandler_def served_routes_def started_api_def
      started_workers_def)
  then show ?thesis using c by (simp add: boot_and_run_def)
qed

text \<open>
  C36: the programs reach their work. With a configuration that loads, and when nothing outside fails, the server
  seeds, starts the background components of its roles, and serves exactly the routes of its roles; and the worker
  program starts the deployment worker (or warns that there is no broker), serves no HTTP and waits, whatever
  roles the configuration names.
\<close>

theorem programs_reach_their_work:
  assumes "Load v path = Inr cfg" "\<And>k. aw_fails w k = None"
  shows "server_main 5 v path opts port w = Some (Finished
      ((if sv_API (cf_Services cfg) then started_api cfg else []) @
       (if sv_Worker (cf_Services cfg) then started_workers w else []) @
       (if sv_API (cf_Services cfg) then [ServeHTTP port (cf_HTTPReadHeaderTimeout cfg) (cf_HTTPIdleTimeout cfg) (served_routes cfg)]
        else [AwaitSignal]))) \<and>
    worker_main 5 v path addr w = Some (Finished (started_workers w @ [AwaitSignal]))"
  using assms(1) by (simp add: server_main_def worker_main_def boot_and_run_finishes[OF assms(2)])

section \<open>Examples\<close>

text \<open>Two singletons, of which the second is built from the first.\<close>

definition demo_container :: "component container" where
  "demo_container = snd (register_each [(''a'', builds ''a'' [] []), (''b'', builds ''b'' [] [''a''])] NewContainer)"

lemma demo_entries:
  "c_entries demo_container = [''a'' \<mapsto> \<lparr>e_provider = builds ''a'' [] [], e_singleton = True, e_instance = None, e_resolved = False, e_resolving = False\<rparr>,
     ''b'' \<mapsto> \<lparr>e_provider = builds ''b'' [] [''a''], e_singleton = True, e_instance = None, e_resolved = False, e_resolving = False\<rparr>]"
  "c_order demo_container = []"
  by (simp_all add: demo_container_def RegisterSingleton_def register_provider_def NewContainer_def)

theorem resolution_terminates_witness: "Resolve 2 ''b'' demo_container \<noteq> None"
proof (rule resolution_terminates)
  show "finite (dom (c_entries demo_container))" by (simp add: demo_entries)
  have "{n. \<exists>e. c_entries demo_container n = Some e \<and> \<not> e_resolving e} = {''a'', ''b''}" by (auto simp: demo_entries)
  then show "card {n. \<exists>e. c_entries demo_container n = Some e \<and> \<not> e_resolving e} \<le> 2" by simp
qed

lemma demo_b: "map_option fst (Resolve 2 ''b'' demo_container) = Some (Resolved (Component ''b'' [] [Component ''a'' [] []]))"
  by code_simp

theorem singleton_is_built_once_witness:
  "Resolve 7 ''b'' (snd (the (Resolve 2 ''b'' demo_container))) =
     Some (Resolved (Component ''b'' [] [Component ''a'' [] []]), snd (the (Resolve 2 ''b'' demo_container)))"
proof -
  obtain c1 where c1: "Resolve 2 ''b'' demo_container = Some (Resolved (Component ''b'' [] [Component ''a'' [] []]), c1)"
    using demo_b by auto
  from singleton_is_built_once[OF _ _ c1, of _ 0 "[]" "Resolved ()" c1 7] show ?thesis
    using c1 by (simp add: demo_entries)
qed

theorem close_reverses_construction_witness:
  "fst (closeWith (\<lambda>_. None) (snd (the (Resolve 2 ''b'' demo_container)))) =
     [Component ''b'' [] [Component ''a'' [] []], Component ''a'' [] []]"
proof -
  obtain c1 where c1: "Resolve 2 ''b'' demo_container = Some (Resolved (Component ''b'' [] [Component ''a'' [] []]), c1)"
    using demo_b by auto
  have "di_ok demo_container" by (auto simp: di_ok_def demo_entries)
  from close_reverses_construction[OF this _ _ _ _ c1] obtain built where
    "c_order c1 = built @ [''b'']" "fst (closeWith (\<lambda>_. None) c1) = Component ''b'' [] [Component ''a'' [] []] # rev (instances_of c1 built)"
    by (fastforce simp: demo_entries closeWith_def ordered_instances_def)
  moreover have "map_option (\<lambda>x. (c_order (snd x), instances_of (snd x) [''a''])) (Resolve 2 ''b'' demo_container) =
      Some ([''a'', ''b''], [Component ''a'' [] []])" unfolding instances_of_def by code_simp
  then have "c_order c1 = [''a'', ''b'']" "instances_of c1 [''a''] = [Component ''a'' [] []]" using c1 by simp_all
  ultimately show ?thesis using c1 by simp
qed

text \<open>The flags of the server, and a world in which nothing fails.\<close>

definition server_options :: Options where
  "server_options = \<lparr>op_InferenceAddr = ''localhost:50051'', op_ImageInferenceAddr = ''localhost:50052'',
     op_WorkDir = ''.'', op_MaxConcurrent = 0, op_UIDir = []\<rparr>"

definition worker_config :: Config where
  "worker_config = default_config
     \<lparr>cf_Services := \<lparr>sv_API = False, sv_Worker = True, sv_Billing = False, sv_Image = False\<rparr>\<rparr>"

definition calm_world :: app_world where
  "calm_world = \<lparr>aw_fails = (\<lambda>_. None), aw_kafka = True, aw_exists = (\<lambda>_. False)\<rparr>"

theorem every_role_boots_witness:
  "\<exists>c c'. RegisterAll server_options worker_config calm_world NewContainer = (None, c) \<and> NewAppFromContainer 5 worker_config c = Some (Resolved (), c') \<and>
     resolves 5 c' ''deployment.worker'' \<and> \<not> resolves 5 c' ''http.handler''"
proof -
  have "\<And>k. aw_fails calm_world k = None" by (simp add: calm_world_def)
  from every_role_boots[OF this, of server_options worker_config] show ?thesis by (fastforce simp: worker_config_def boot_names_def)
qed

theorem programs_reach_their_work_witness:
  "server_main 5 plain_viper [] server_options 8080 calm_world = Some (Finished
     [SeedAll, StartComponent ''outbox.publisher'', StartComponent ''usage.roller'', StartComponent ''billing.reaper'',
      StartComponent ''image.runner'', StartComponent ''deployment.worker'',
      ServeHTTP 8080 10000000000 120000000000
        [''http.handler'', ''http.iam'', ''http.serving'', ''http.usage'', ''http.billing'', ''http.image'', ''metrics'']])"
proof -
  have calm: "\<And>k. aw_fails calm_world k = None" by (simp add: calm_world_def)
  show ?thesis
    using programs_reach_their_work[OF plain_viper_loads calm, of server_options 8080 "[]"]
    by (simp add: default_config_def started_api_def started_workers_def served_routes_def calm_world_def)
qed

text \<open>A worker process builds its own components and nothing else.\<close>

lemma worker_builds_its_own:
  "map_option (\<lambda>x. c_order (snd x)) (NewAppFromContainer 5 worker_config (snd (RegisterAll server_options worker_config calm_world NewContainer))) =
     Some [''db'', ''bus'', ''serving'', ''deployment.worker'']"
  by code_simp

text \<open>
  An address the inference client rejects is no error of the boot but a panic: the boot resolves
  \<open>inference.loop\<close>, whose dependencies are resolved with \<open>MustResolve\<close>. A rejected image address, which
  the boot resolves by name, is an error.
\<close>

definition api_config :: Config where
  "api_config = worker_config\<lparr>cf_Services := \<lparr>sv_API = True, sv_Worker = False, sv_Billing = False, sv_Image = True\<rparr>\<rparr>"

lemma bad_inference_address_panics:
  "(case NewAppFromContainer 5 api_config (snd (RegisterAll server_options api_config
      (calm_world\<lparr>aw_fails := \<lambda>k. if k = ''inference.client'' then Some ''bad'' else None\<rparr>) NewContainer)) of
     Some (Panicked _, _) \<Rightarrow> True | _ \<Rightarrow> False)"
  by code_simp

text \<open>A panic leaves its entries marked as resolving, so a later resolution reports a cycle that is not there.\<close>

lemma panic_reports_a_cycle_later:
  "(let c = snd (register_each [(''a'', Built (Inl (DiError ''down''))), (''b'', builds ''b'' [] [''a''])] NewContainer);
        c1 = snd (the (Resolve 2 ''b'' c)) in
    map_option fst (Resolve 2 ''b'' c) = Some (Panicked (ProviderError ''a'' (DiError ''down''))) \<and>
    map_option fst (Resolve 2 ''b'' c1) = Some (Failed (CircularDependencyError ''b'')))"
  by code_simp

end
