(* ===== verification/Seeder.thy ===== *)
theory Seeder
  imports Iam Serving BillingService
begin

text \<open>
  The demo data (\<open>internal/app/seeder.go\<close>): the platform admin, the demo deployments, the prices and the
  credits of the demo tenant, over the services of iam, serving and billing. Each service has its own
  database state; the environment variables are a function that gives the empty string for an unset one.
  The ids a seeder draws and the time of its statements are arguments.
\<close>

section \<open>Errors and environment\<close>

datatype seed_error =
    SeedIam string iam_error | SeedServing string serving_error | SeedBilling string billing_error | SeedHash

text \<open>\<open>fmt.Errorf\<close> with \<open>%w\<close>: the step that failed, around its error.\<close>

definition wrap_err :: "('e \<Rightarrow> 'f) \<Rightarrow> ('s, 'e, 'a) tx \<Rightarrow> ('s, 'f, 'a) tx" where
  "wrap_err f m s = (case m s of (Inl e, s') \<Rightarrow> (Inl (f e), s') | (Inr x, s') \<Rightarrow> (Inr x, s'))"

definition envOr :: "(string \<Rightarrow> string) \<Rightarrow> string \<Rightarrow> string \<Rightarrow> string" where
  "envOr env key dflt = (if env key \<noteq> [] then env key else dflt)"

definition skip_seed :: "(string \<Rightarrow> string) \<Rightarrow> bool" where
  "skip_seed env \<longleftrightarrow> env ''AI_FACTORY_SKIP_SEED'' = ''1''"

definition demo_tenant :: "(string \<Rightarrow> string) \<Rightarrow> string" where
  "demo_tenant env = envOr env ''AI_FACTORY_DEMO_TENANT'' ''acme''"

section \<open>The admin\<close>

record seed_ids =
  si_tenant :: string
  si_user :: string

text \<open>\<open>pick\<close> chooses the row \<open>Take\<close> returns; \<open>salt\<close> is None when \<open>rand.Read\<close> fails.\<close>

definition seed_tenant ::
  "faults \<Rightarrow> (string \<Rightarrow> string \<Rightarrow> bool) \<Rightarrow> int \<Rightarrow> seed_ids \<Rightarrow> string \<Rightarrow> (iam_db, seed_error, tenantRow) tx" where
  "seed_tenant flt le now ids name =
    tx_bind (wrap_err (SeedIam ''list tenants for seed'') (tenant_List flt le)) (\<lambda>ts.
    case find (\<lambda>t. tn_Name t = name) ts of
      Some t \<Rightarrow> tx_return t
    | None \<Rightarrow> wrap_err (SeedIam ''seed tenant'') (svc_CreateTenant flt now (si_tenant ids) name))"

definition seedAdmin ::
  "(string \<Rightarrow> string) \<Rightarrow> (string \<Rightarrow> nat list \<Rightarrow> nat list) \<Rightarrow> nat list option \<Rightarrow> faults \<Rightarrow> (string \<Rightarrow> string \<Rightarrow> bool) \<Rightarrow>
   ((userRow \<times> membershipRow) list \<Rightarrow> (userRow \<times> membershipRow)) \<Rightarrow> int \<Rightarrow> seed_ids \<Rightarrow>
   (iam_db, seed_error, unit) tx" where
  "seedAdmin env kdf salt flt le pick now ids db =
    (if skip_seed env then (Inr (), db)
     else let username = envOr env ''AI_FACTORY_ADMIN_USER'' ''admin'';
              password = envOr env ''AI_FACTORY_ADMIN_PASSWORD'' ''admin1234'' in
     case user_GetByUsername flt pick username db of
       (Inr _, db1) \<Rightarrow> (Inr (), db1)
     | (Inl iam_error.ErrNotFound, db1) \<Rightarrow>
         tx_bind (seed_tenant flt le now ids (demo_tenant env)) (\<lambda>tenant.
         case salt of
           None \<Rightarrow> tx_fail SeedHash
         | Some s \<Rightarrow>
             tx_bind (wrap_err (SeedIam ''seed admin'') (svc_CreateUser flt now (si_user ids) username
               (username @ ''@localhost'') (HashPassword kdf s password) RolePlatformAdmin (tn_ID tenant)))
             (\<lambda>_. tx_return ())) db1
     | (Inl e, db1) \<Rightarrow> (Inl (SeedIam ''look up admin for seed'' e), db1))"

section \<open>Find or create\<close>

definition findOrCreateModel ::
  "faults \<Rightarrow> (string \<Rightarrow> string \<Rightarrow> bool) \<Rightarrow> int \<Rightarrow> string \<Rightarrow> Model \<Rightarrow> Model serving_tx" where
  "findOrCreateModel flt le now newid want = tx_bind (model_List flt le) (\<lambda>ms.
     case find (\<lambda>m. m_Name m = m_Name want \<and> m_Framework m = m_Framework want) ms of
       Some m \<Rightarrow> tx_return m
     | None \<Rightarrow> svc_CreateModel flt now newid want)"

definition findOrCreateModelVersion ::
  "faults \<Rightarrow> int \<Rightarrow> string \<Rightarrow> string \<Rightarrow> ModelVersion \<Rightarrow> ModelVersion serving_tx" where
  "findOrCreateModelVersion flt now newid modelID want db = (case model_GetVersion flt modelID (mv_Version want) db of
      (Inr mv, db1) \<Rightarrow> (Inr mv, db1)
    | (Inl (serving_error.ErrNotFound _), db1) \<Rightarrow> svc_CreateModelVersion flt now newid (want\<lparr>mv_ModelID := modelID\<rparr>) db1
    | (Inl e, db1) \<Rightarrow> (Inl e, db1))"

definition findOrCreateTemplate ::
  "faults \<Rightarrow> (string \<Rightarrow> string \<Rightarrow> bool) \<Rightarrow> int \<Rightarrow> string \<Rightarrow> ServingTemplate \<Rightarrow> ServingTemplate serving_tx" where
  "findOrCreateTemplate flt le now newid want = tx_bind (template_List flt le) (\<lambda>ts.
     case find (\<lambda>t. st_Name t = st_Name want) ts of
       Some t \<Rightarrow> tx_return t
     | None \<Rightarrow> svc_CreateTemplate flt now newid want)"

definition findOrCreateTemplateVersion ::
  "faults \<Rightarrow> int \<Rightarrow> string \<Rightarrow> string \<Rightarrow> TemplateVersion \<Rightarrow> TemplateVersion serving_tx" where
  "findOrCreateTemplateVersion flt now newid templateID want db =
    (case template_GetVersion flt templateID (tv_Version want) db of
      (Inr tv, db1) \<Rightarrow> (Inr tv, db1)
    | (Inl (serving_error.ErrNotFound _), db1) \<Rightarrow> svc_CreateTemplateVersion flt now newid (want\<lparr>tv_TemplateID := templateID\<rparr>) db1
    | (Inl e, db1) \<Rightarrow> (Inl e, db1))"

section \<open>The deployments\<close>

text \<open>The literals in which the three seeders of deployments differ.\<close>

record demo_spec =
  ds_label :: string
  ds_Model :: string
  ds_Task :: string
  ds_Framework :: string
  ds_Artifact :: string
  ds_Template :: string
  ds_Runtime :: string
  ds_Image :: string
  ds_Deployment :: string

definition demo_text :: demo_spec where
  "demo_text = \<lparr>ds_label = ''seed '', ds_Model = ''qwen3.5-9b'', ds_Task = ''text-generation'',
     ds_Framework = ''llama.cpp'', ds_Artifact = ''local://qwen3.5-9b'', ds_Template = ''llama-openai'',
     ds_Runtime = ''llama.cpp'', ds_Image = ''qwen3.5-9b:latest'', ds_Deployment = ''qwen3.5-9b-prod''\<rparr>"

definition demo_image :: demo_spec where
  "demo_image = \<lparr>ds_label = ''seed image '', ds_Model = ''sdxl-1.0'', ds_Task = ''text-to-image'',
     ds_Framework = ''diffusers'', ds_Artifact = ''stabilityai/stable-diffusion-xl-base-1.0'',
     ds_Template = ''diffusers-sdxl'', ds_Runtime = ''diffusers'', ds_Image = ''sdxl:latest'',
     ds_Deployment = ''sdxl-1.0-prod''\<rparr>"

definition demo_vision :: demo_spec where
  "demo_vision = \<lparr>ds_label = ''seed vision '', ds_Model = ''qwen2.5-vl-3b'', ds_Task = ''image-text-to-text'',
     ds_Framework = ''transformers'', ds_Artifact = ''Qwen/Qwen2.5-VL-3B-Instruct'',
     ds_Template = ''transformers-vl'', ds_Runtime = ''transformers'', ds_Image = ''qwen2.5-vl:latest'',
     ds_Deployment = ''qwen2.5-vl-3b-prod''\<rparr>"

text \<open>The literals of the code leave the other fields at their zero values.\<close>

definition want_model :: "demo_spec \<Rightarrow> Model" where
  "want_model s = \<lparr>m_ID = [], m_Name = ds_Model s, m_Description = [], m_Task = ds_Task s,
     m_Framework = ds_Framework s, m_Status = [], m_CreatedAt = 0\<rparr>"

definition want_version :: "demo_spec \<Rightarrow> ModelVersion" where
  "want_version s = \<lparr>mv_ID = [], mv_ModelID = [], mv_Version = ''v1'', mv_ArtifactURI = ds_Artifact s,
     mv_Metadata = None, mv_Status = [], mv_CreatedAt = 0\<rparr>"

definition want_template :: "demo_spec \<Rightarrow> ServingTemplate" where
  "want_template s = \<lparr>st_ID = [], st_Name = ds_Template s, st_Description = [], st_Runtime = ds_Runtime s,
     st_Status = [], st_CreatedAt = 0\<rparr>"

definition want_template_version :: "demo_spec \<Rightarrow> TemplateVersion" where
  "want_template_version s = \<lparr>tv_ID = [], tv_TemplateID = [], tv_Version = ''v1'', tv_Image = ds_Image s,
     tv_Command = None, tv_Environment = None, tv_ConfigSchema = None, tv_CreatedAt = 0\<rparr>"

definition want_deployment :: "demo_spec \<Rightarrow> string \<Rightarrow> string \<Rightarrow> string \<Rightarrow> Deployment" where
  "want_deployment s tenant mvid tvid = \<lparr>d_ID = [], d_TenantID = tenant, d_ModelVersionID = mvid,
     d_TemplateVersionID = tvid, d_Name = ds_Deployment s, d_Region = ''local'', d_DesiredReplicas = 1,
     d_Status = DeploymentPending, d_WorkloadRef = [], d_CreatedAt = 0, d_UpdatedAt = 0\<rparr>"

record demo_ids =
  di_model :: string
  di_version :: string
  di_template :: string
  di_tversion :: string
  di_deployment :: string

text \<open>The transitions to READY; \<open>k\<close> tells the statements of the three steps apart for the oracle.\<close>

fun seed_transitions :: "faults \<Rightarrow> int \<Rightarrow> string \<Rightarrow> string \<Rightarrow> deployment_status list \<Rightarrow> (serving_db, seed_error, unit) tx" where
  "seed_transitions flt now label did [] = tx_return ()"
| "seed_transitions flt now label did (to_st # rest) =
    tx_bind (wrap_err (SeedServing (label @ ''transition to '' @ status_text to_st))
        (svc_TransitionDeployment flt now (status_text to_st) did to_st))
      (\<lambda>_. seed_transitions flt now label did rest)"

definition seed_steps :: "deployment_status list" where
  "seed_steps = [DeploymentProvisioning, DeploymentStarting, DeploymentReady]"

definition create_demo ::
  "faults \<Rightarrow> (string \<Rightarrow> string \<Rightarrow> bool) \<Rightarrow> int \<Rightarrow> demo_ids \<Rightarrow> demo_spec \<Rightarrow> string \<Rightarrow> (serving_db, seed_error, unit) tx" where
  "create_demo flt le now ids s tenant =
    tx_bind (wrap_err (SeedServing (ds_label s @ ''model''))
      (findOrCreateModel flt le now (di_model ids) (want_model s))) (\<lambda>model.
    tx_bind (wrap_err (SeedServing (ds_label s @ ''model version''))
      (findOrCreateModelVersion flt now (di_version ids) (m_ID model) (want_version s))) (\<lambda>mv.
    tx_bind (wrap_err (SeedServing (ds_label s @ ''template''))
      (findOrCreateTemplate flt le now (di_template ids) (want_template s))) (\<lambda>tpl.
    tx_bind (wrap_err (SeedServing (ds_label s @ ''template version''))
      (findOrCreateTemplateVersion flt now (di_tversion ids) (st_ID tpl) (want_template_version s))) (\<lambda>tv.
    tx_bind (wrap_err (SeedServing (ds_label s @ ''deployment''))
      (svc_CreateDeployment flt now (di_deployment ids) (want_deployment s tenant (mv_ID mv) (tv_ID tv)))) (\<lambda>d.
    seed_transitions flt now (ds_label s) (d_ID d) seed_steps)))))"

definition seed_deployment ::
  "faults \<Rightarrow> (string \<Rightarrow> string \<Rightarrow> bool) \<Rightarrow> int \<Rightarrow> demo_ids \<Rightarrow> demo_spec \<Rightarrow> string \<Rightarrow> (serving_db, seed_error, unit) tx" where
  "seed_deployment flt le now ids s tenant db = (case deployment_Resolve flt tenant (ds_Model s) db of
      (Inr _, db1) \<Rightarrow> (Inr (), db1)
    | (Inl (serving_error.ErrNotFound _), db1) \<Rightarrow> create_demo flt le now ids s tenant db1
    | (Inl e, db1) \<Rightarrow> (Inl (SeedServing ''resolve for seed'' e), db1))"

text \<open>
  \<open>demoTenantID\<close>, which \<open>seedDemo\<close> and \<open>seedBilling\<close> write out: the empty string when there is no such
  tenant. A failing list is returned as it is.
\<close>

definition demoTenantID ::
  "(string \<Rightarrow> string) \<Rightarrow> faults \<Rightarrow> (string \<Rightarrow> string \<Rightarrow> bool) \<Rightarrow> iam_db \<Rightarrow> seed_error + string" where
  "demoTenantID env flt le db = (case fst (tenant_List flt le db) of
      Inl e \<Rightarrow> Inl (SeedIam [] e)
    | Inr ts \<Rightarrow> Inr (case find (\<lambda>t. tn_Name t = demo_tenant env) ts of None \<Rightarrow> [] | Some t \<Rightarrow> tn_ID t))"

definition seed_model ::
  "demo_spec \<Rightarrow> (string \<Rightarrow> string) \<Rightarrow> faults \<Rightarrow> (string \<Rightarrow> string \<Rightarrow> bool) \<Rightarrow> int \<Rightarrow> demo_ids \<Rightarrow> iam_db \<Rightarrow>
   (serving_db, seed_error, unit) tx" where
  "seed_model s env flt le now ids idb db =
    (if skip_seed env then (Inr (), db)
     else case demoTenantID env flt le idb of
       Inl e \<Rightarrow> (Inl e, db)
     | Inr tenant \<Rightarrow> if tenant = [] then (Inr (), db) else seed_deployment flt le now ids s tenant db)"

definition seedDemo ::
  "(string \<Rightarrow> string) \<Rightarrow> faults \<Rightarrow> (string \<Rightarrow> string \<Rightarrow> bool) \<Rightarrow> int \<Rightarrow> demo_ids \<Rightarrow> iam_db \<Rightarrow> (serving_db, seed_error, unit) tx" where
  "seedDemo = seed_model demo_text"

definition seedImage ::
  "(string \<Rightarrow> string) \<Rightarrow> faults \<Rightarrow> (string \<Rightarrow> string \<Rightarrow> bool) \<Rightarrow> int \<Rightarrow> demo_ids \<Rightarrow> iam_db \<Rightarrow> (serving_db, seed_error, unit) tx" where
  "seedImage = seed_model demo_image"

definition seedVision ::
  "(string \<Rightarrow> string) \<Rightarrow> faults \<Rightarrow> (string \<Rightarrow> string \<Rightarrow> bool) \<Rightarrow> int \<Rightarrow> demo_ids \<Rightarrow> iam_db \<Rightarrow> (serving_db, seed_error, unit) tx" where
  "seedVision = seed_model demo_vision"

section \<open>Prices and credits\<close>

definition demo_price :: "string \<Rightarrow> Price" where
  "demo_price model = \<lparr>Model = model, Currency = [], PricePerMillionInputTokens = 150000,
     PricePerMillionOutputTokens = 600000\<rparr>"

definition demo_prices :: "Price list" where
  "demo_prices = map demo_price [''qwen3.5-9b'', ''qwen-3b'', ''qwen2.5-vl-3b'']"

fun seed_prices ::
  "BillingConfig \<Rightarrow> faults \<Rightarrow> int \<Rightarrow> (string \<Rightarrow> string) \<Rightarrow> Price list \<Rightarrow> (billing_db, seed_error, unit) tx" where
  "seed_prices cfg flt now newid [] = tx_return ()"
| "seed_prices cfg flt now newid (p # ps) =
    tx_bind (wrap_err (SeedBilling (''seed price '' @ Model p)) (svc_UpsertPrice cfg flt now (newid (Model p)) p))
      (\<lambda>_. seed_prices cfg flt now newid ps)"

text \<open>The credits to give: a variable that does not parse, or is negative, leaves the default.\<close>

definition demo_credits :: "(string \<Rightarrow> string) \<Rightarrow> int" where
  "demo_credits env = (let v = env ''AI_FACTORY_DEMO_CREDITS'' in
     if v = [] then 10 else case atoi v of Some n \<Rightarrow> if n \<ge> 0 then n else 10 | None \<Rightarrow> 10)"

definition seed_key :: "string \<Rightarrow> string" where
  "seed_key tenant = ''seed-demo-'' @ tenant"

definition seed_credits ::
  "(string \<Rightarrow> string) \<Rightarrow> BillingConfig \<Rightarrow> (string \<Rightarrow> int \<Rightarrow> string \<Rightarrow> billing_error + string) \<Rightarrow> faults \<Rightarrow> int \<Rightarrow> string \<Rightarrow> string \<Rightarrow>
   (billing_db, seed_error, unit) tx" where
  "seed_credits env cfg charge flt now newid tenant =
    (if demo_credits env > 0
     then tx_bind (wrap_err (SeedBilling ''seed credits'')
        (svc_TopUp cfg ''mock'' charge flt now newid tenant (wrap64 (demo_credits env * 1000000)) (seed_key tenant)))
        (\<lambda>_. tx_return ())
     else tx_return ())"

definition seedBilling ::
  "(string \<Rightarrow> string) \<Rightarrow> BillingConfig \<Rightarrow> (string \<Rightarrow> int \<Rightarrow> string \<Rightarrow> billing_error + string) \<Rightarrow> faults \<Rightarrow>
   (string \<Rightarrow> string \<Rightarrow> bool) \<Rightarrow> int \<Rightarrow> (string \<Rightarrow> string) \<Rightarrow> iam_db \<Rightarrow> (billing_db, seed_error, unit) tx" where
  "seedBilling env cfg charge flt le now newid idb db =
    (if skip_seed env then (Inr (), db)
     else case demoTenantID env flt le idb of
       Inl e \<Rightarrow> (Inl e, db)
     | Inr tenant \<Rightarrow> if tenant = [] then (Inr (), db)
         else tx_bind (seed_prices cfg flt now newid demo_prices)
           (\<lambda>_. seed_credits env cfg charge flt now (newid ''topup'') tenant) db)"

section \<open>Start (app.go, runner.go)\<close>

record seed_state =
  sd_iam :: iam_db
  sd_srv :: serving_db
  sd_bill :: billing_db

text \<open>What a run of the seeders depends on: environment, statement failures, time, drawn ids.\<close>

record seed_env =
  se_getenv :: "string \<Rightarrow> string"
  se_kdf :: "string \<Rightarrow> nat list \<Rightarrow> nat list"
  se_salt :: "nat list option"
  se_faults :: faults
  se_le :: "string \<Rightarrow> string \<Rightarrow> bool"
  se_pick :: "(userRow \<times> membershipRow) list \<Rightarrow> (userRow \<times> membershipRow)"
  se_now :: int
  se_ids :: seed_ids
  se_text :: demo_ids
  se_image :: demo_ids
  se_vision :: demo_ids
  se_bill_ids :: "string \<Rightarrow> string"
  se_charge :: "string \<Rightarrow> int \<Rightarrow> string \<Rightarrow> billing_error + string"

definition on_iam :: "(iam_db, seed_error, unit) tx \<Rightarrow> (seed_state, seed_error, unit) tx" where
  "on_iam m st = (case m (sd_iam st) of (r, db) \<Rightarrow> (r, st\<lparr>sd_iam := db\<rparr>))"

definition on_srv :: "(iam_db \<Rightarrow> (serving_db, seed_error, unit) tx) \<Rightarrow> (seed_state, seed_error, unit) tx" where
  "on_srv m st = (case m (sd_iam st) (sd_srv st) of (r, db) \<Rightarrow> (r, st\<lparr>sd_srv := db\<rparr>))"

definition on_bill :: "(iam_db \<Rightarrow> (billing_db, seed_error, unit) tx) \<Rightarrow> (seed_state, seed_error, unit) tx" where
  "on_bill m st = (case m (sd_iam st) (sd_bill st) of (r, db) \<Rightarrow> (r, st\<lparr>sd_bill := db\<rparr>))"

definition run_seedAdmin :: "seed_env \<Rightarrow> (seed_state, seed_error, unit) tx" where
  "run_seedAdmin e = on_iam (seedAdmin (se_getenv e) (se_kdf e) (se_salt e) (se_faults e) (se_le e) (se_pick e)
     (se_now e) (se_ids e))"

definition run_seedDemo :: "seed_env \<Rightarrow> (seed_state, seed_error, unit) tx" where
  "run_seedDemo e = on_srv (seedDemo (se_getenv e) (se_faults e) (se_le e) (se_now e) (se_text e))"

definition run_seedImage :: "seed_env \<Rightarrow> (seed_state, seed_error, unit) tx" where
  "run_seedImage e = on_srv (seedImage (se_getenv e) (se_faults e) (se_le e) (se_now e) (se_image e))"

definition run_seedVision :: "seed_env \<Rightarrow> (seed_state, seed_error, unit) tx" where
  "run_seedVision e = on_srv (seedVision (se_getenv e) (se_faults e) (se_le e) (se_now e) (se_vision e))"

definition run_seedBilling :: "BillingConfig \<Rightarrow> seed_env \<Rightarrow> (seed_state, seed_error, unit) tx" where
  "run_seedBilling cfg e = on_bill (seedBilling (se_getenv e) cfg (se_charge e) (se_faults e) (se_le e) (se_now e) (se_bill_ids e))"

text \<open>A seeder whose error is only logged.\<close>

definition logged :: "('s, 'e, unit) tx \<Rightarrow> ('s, 'e, unit) tx" where
  "logged m st = (Inr (), snd (m st))"

text \<open>\<open>App.seed\<close> on an API node, under the roles \<open>services.image\<close> and \<open>services.billing\<close>.\<close>

definition app_seed :: "bool \<Rightarrow> bool \<Rightarrow> BillingConfig \<Rightarrow> seed_env \<Rightarrow> (seed_state, seed_error, unit) tx" where
  "app_seed withImage withBilling cfg e =
    tx_bind (run_seedAdmin e) (\<lambda>_.
    tx_bind (logged (run_seedDemo e)) (\<lambda>_.
    tx_bind (if withImage then logged (run_seedImage e) else tx_return ()) (\<lambda>_.
    tx_bind (logged (run_seedVision e)) (\<lambda>_.
    if withBilling then logged (run_seedBilling cfg e) else tx_return ()))))"

text \<open>\<open>RunSeed\<close>: the program that only seeds.\<close>

definition RunSeed :: "seed_env \<Rightarrow> (seed_state, seed_error, unit) tx" where
  "RunSeed e = tx_bind (run_seedAdmin e) (\<lambda>_. run_seedDemo e)"

end
