(* ===== verification/SeederProofs.thy ===== *)
theory SeederProofs
  imports Seeder
begin

text \<open>
  What seeding guarantees: a demo model resolves once it has been seeded, starting a server again changes
  nothing but the time stamps of the prices, and what goes wrong when it is interrupted or when an operator
  has changed what it finds.
\<close>

section \<open>Steps\<close>

lemma wrap_err_ok: "wrap_err f m s = (Inr x, s') \<longleftrightarrow> m s = (Inr x, s')"
  by (auto simp: wrap_err_def split: prod.splits sum.splits)

lemmas seed_ok = wrap_err_ok tx_ok

lemma find_row: "find P (order_by le xs) = Some x \<Longrightarrow> x \<in> set xs \<and> P x"
  by (metis find_Some_iff nth_mem set_order_by)

lemma findOrCreateModel_ok:
  assumes "findOrCreateModel flt le now newid want db = (Inr m, db')"
  shows "m \<in> set (models db') \<and> m_Name m = m_Name want \<and> set (models db) \<subseteq> set (models db') \<and>
    model_versions db' = model_versions db \<and> deployments db' = deployments db"
  using assms by (auto simp: findOrCreateModel_def model_List_def svc_CreateModel_def model_Create_def
      seed_ok Let_def tbl_insert_def split: option.splits dest: find_row)

lemma GetVersion_state:
  "model_GetVersion flt a b db = (Inl e, db') \<Longrightarrow> db' = db"
  "template_GetVersion flt a b db = (r, db') \<Longrightarrow> db' = db"
  by (auto simp: model_GetVersion_def template_GetVersion_def stmt_def fetch_def split: if_splits option.splits)

lemma GetVersion_row: "model_GetVersion flt mid v db = (Inr mv, db') \<Longrightarrow> db' = db \<and> mv \<in> set (model_versions db) \<and> mv_ModelID mv = mid"
  by (auto simp: model_GetVersion_def seed_ok dest: tbl_find_SomeD)

lemma findOrCreateModelVersion_ok:
  assumes "findOrCreateModelVersion flt now newid mid want db = (Inr mv, db')"
  shows "mv \<in> set (model_versions db') \<and> mv_ModelID mv = mid \<and>
    set (model_versions db) \<subseteq> set (model_versions db') \<and> models db' = models db \<and> deployments db' = deployments db"
  using assms by (auto simp: findOrCreateModelVersion_def svc_CreateModelVersion_def
      model_CreateVersion_def seed_ok Let_def tbl_insert_def
      split: prod.splits sum.splits serving_error.splits dest!: GetVersion_row GetVersion_state)

lemma findOrCreateTemplate_ok:
  assumes "findOrCreateTemplate flt le now newid want db = (Inr t, db')"
  shows "models db' = models db \<and> model_versions db' = model_versions db \<and> deployments db' = deployments db"
  using assms by (auto simp: findOrCreateTemplate_def template_List_def svc_CreateTemplate_def template_Create_def
      seed_ok Let_def split: option.splits)

lemma findOrCreateTemplateVersion_ok:
  assumes "findOrCreateTemplateVersion flt now newid tid want db = (Inr tv, db')"
  shows "models db' = models db \<and> model_versions db' = model_versions db \<and> deployments db' = deployments db"
  using assms by (auto simp: findOrCreateTemplateVersion_def svc_CreateTemplateVersion_def
      template_CreateVersion_def seed_ok Let_def split: prod.splits sum.splits serving_error.splits dest!: GetVersion_state)

lemma transition_ok:
  assumes "svc_TransitionDeployment flt now k did to_st db = (Inr d, db')"
  shows "db' = set_deployment did (\<lambda>d. d\<lparr>d_Status := to_st, d_UpdatedAt := now\<rparr>) db"
  using assms by (auto simp: svc_TransitionDeployment_def deployment_Get_def deployment_UpdateStatus_def seed_ok Let_def
      split: if_splits)

lemma seeded_transitions:
  assumes "seed_transitions flt now label did seed_steps db = (Inr (), db')"
  shows "db' = set_deployment did (\<lambda>d. d\<lparr>d_Status := DeploymentReady, d_UpdatedAt := now\<rparr>) db"
proof -
  have "db' = set_deployment did (\<lambda>d. d\<lparr>d_Status := DeploymentReady, d_UpdatedAt := now\<rparr>)
    (set_deployment did (\<lambda>d. d\<lparr>d_Status := DeploymentStarting, d_UpdatedAt := now\<rparr>)
      (set_deployment did (\<lambda>d. d\<lparr>d_Status := DeploymentProvisioning, d_UpdatedAt := now\<rparr>) db))"
    using assms by (auto simp: seed_steps_def seed_ok dest!: transition_ok)
  moreover have "set_deployment did f (set_deployment did g db) = set_deployment did (\<lambda>d. f (g d)) db"
    if "\<And>d. d_ID (g d) = d_ID d" for f g
    using that by (simp add: set_deployment_def tbl_update_def comp_def)
  ultimately show ?thesis by simp
qed

section \<open>What seeding a deployment does\<close>

text \<open>A deployment that the model's name resolves to, whatever order its readers use.\<close>

definition serves :: "string \<Rightarrow> string \<Rightarrow> Deployment \<Rightarrow> serving_db \<Rightarrow> bool" where
  "serves tenant model d db \<longleftrightarrow> d \<in> set (deployments db) \<and> model \<in> set (model_names_of db d) \<and>
     d_TenantID d = tenant \<and> d_Status d = DeploymentReady"

lemma resolve_iff:
  "(\<exists>d. deployment_Resolve flt tenant model db = (Inr d, db)) \<longleftrightarrow>
     \<not> flt ''resolve deployment'' [] \<and> (\<exists>d. serves tenant model d db)"
proof -
  define ready where "ready = filter (\<lambda>d. List.member (model_names_of db d) model \<and> d_TenantID d = tenant \<and>
    d_Status d = DeploymentReady) (deployments db)"
  define sorted where "sorted = order_by (\<lambda>a b. d_CreatedAt a \<ge> d_CreatedAt b) ready"
  have "sorted = [] \<longleftrightarrow> set ready = {}" unfolding sorted_def by (metis set_empty set_order_by)
  also have "\<dots> \<longleftrightarrow> \<not> (\<exists>d. serves tenant model d db)" unfolding ready_def serves_def by auto
  finally have "sorted = [] \<longleftrightarrow> \<not> (\<exists>d. serves tenant model d db)" .
  moreover have "deployment_Resolve flt tenant model db = (if flt ''resolve deployment'' [] then (Inl (ServingDB ''resolve deployment''), db)
     else (case sorted of [] \<Rightarrow> (Inl (serving_error.ErrNotFound ''resolve deployment''), db) | d # _ \<Rightarrow> (Inr d, db)))"
    by (simp add: deployment_Resolve_def stmt_def fetch_def sorted_def ready_def split: list.splits)
  ultimately show ?thesis by (cases sorted) auto
qed

lemma resolve_state: "deployment_Resolve flt tenant model db = (r, db') \<Longrightarrow> db' = db"
  by (auto simp: deployment_Resolve_def stmt_def fetch_def split: if_splits option.splits list.splits)

lemma resolve_not_found:
  "deployment_Resolve flt tenant model db = (Inl (serving_error.ErrNotFound s), db') \<Longrightarrow> \<nexists>d. serves tenant model d db"
  using resolve_iff[of "\<lambda>_ _. False" tenant model db]
  by (auto simp: deployment_Resolve_def stmt_def fetch_def split: if_splits option.splits list.splits)

text \<open>What a database gains: rows are added to the catalog and the deployments, none is changed.\<close>

definition grows :: "serving_db \<Rightarrow> serving_db \<Rightarrow> bool" where
  "grows db db' \<longleftrightarrow> set (models db) \<subseteq> set (models db') \<and> set (model_versions db) \<subseteq> set (model_versions db') \<and>
     set (deployments db) \<subseteq> set (deployments db')"

lemma model_names_iff:
  "n \<in> set (model_names_of db d) \<longleftrightarrow> (\<exists>mv \<in> set (model_versions db). \<exists>m \<in> set (models db).
     mv_ID mv = d_ModelVersionID d \<and> m_ID m = mv_ModelID mv \<and> m_Name m = n)"
  by (auto simp: model_names_of_def)

lemma serves_grows: "grows db db' \<Longrightarrow> serves tenant model d db \<Longrightarrow> serves tenant model d db'"
  by (auto simp: serves_def grows_def model_names_iff)

lemma create_demo_adds:
  assumes "create_demo flt le now ids s tenant db = (Inr (), db')"
  obtains d where "serves tenant (ds_Model s) d db'" "deployments db' = deployments db @ [d]" "grows db db'"
proof -
  obtain m mv tpl tv db1 db2 db3 db4 db5 d where
    m: "findOrCreateModel flt le now (di_model ids) (want_model s) db = (Inr m, db1)" and
    mv: "findOrCreateModelVersion flt now (di_version ids) (m_ID m) (want_version s) db1 = (Inr mv, db2)" and
    tpl: "findOrCreateTemplate flt le now (di_template ids) (want_template s) db2 = (Inr tpl, db3)" and
    tv: "findOrCreateTemplateVersion flt now (di_tversion ids) (st_ID tpl) (want_template_version s) db3 = (Inr tv, db4)" and
    dep: "svc_CreateDeployment flt now (di_deployment ids) (want_deployment s tenant (mv_ID mv) (tv_ID tv)) db4 = (Inr d, db5)" and
    steps: "seed_transitions flt now (ds_label s) (d_ID d) seed_steps db5 = (Inr (), db')"
    using assms by (auto simp: create_demo_def seed_ok)
  let ?row = "deployment_row now ((want_deployment s tenant (mv_ID mv) (tv_ID tv))\<lparr>d_ID := di_deployment ids, d_Status := DeploymentPending\<rparr>)"
  note found = findOrCreateModel_ok[OF m] findOrCreateModelVersion_ok[OF mv] findOrCreateTemplate_ok[OF tpl]
    findOrCreateTemplateVersion_ok[OF tv]
  have kept: "m \<in> set (models db4)" "m_Name m = ds_Model s" "mv \<in> set (model_versions db4)" "mv_ModelID mv = m_ID m"
    "deployments db4 = deployments db" "set (models db) \<subseteq> set (models db4)" "set (model_versions db) \<subseteq> set (model_versions db4)"
    using found by (auto simp: want_model_def)
  have d: "d_ID d = di_deployment ids" "db5 = db4\<lparr>deployments := tbl_insert ?row (deployments db4)\<rparr>"
    "di_deployment ids \<notin> d_ID ` set (deployments db)"
    using dep kept(5) by (auto simp: svc_CreateDeployment_def deployment_Create_def insert_deployment_def seed_ok tbl_has_iff)
  have db': "db' = set_deployment (di_deployment ids) (\<lambda>d. d\<lparr>d_Status := DeploymentReady, d_UpdatedAt := now\<rparr>) db5"
    using seeded_transitions[OF steps] d(1) by simp
  let ?final = "?row\<lparr>d_Status := DeploymentReady, d_UpdatedAt := now\<rparr>"
  have id: "d_ID ?row = di_deployment ids" by (simp add: deployment_row_def)
  have rows: "deployments db' = deployments db @ [?final]"
  proof -
    have "tbl_update d_ID (di_deployment ids) f (deployments db) = deployments db" for f
      by (rule tbl_update_absent) (use d(3) in \<open>simp add: tbl_has_iff\<close>)
    then show ?thesis using kept(5) id by (simp add: db' d(2) set_deployment_def tbl_insert_def) (simp add: tbl_update_def)
  qed
  have same: "models db' = models db4" "model_versions db' = model_versions db4"
    by (simp_all add: db' d(2) set_deployment_def)
  have "serves tenant (ds_Model s) ?final db'"
    unfolding serves_def model_names_iff rows same using kept(1-4)
    by (force simp: deployment_row_def want_deployment_def)
  moreover have "grows db db'" using kept(6,7) by (simp add: grows_def same rows subset_iff)
  ultimately show ?thesis using that rows by blast
qed

text \<open>Seeding a deployment that succeeds found one that serves, or added one.\<close>

lemma seed_deployment_cases:
  assumes "seed_deployment flt le now ids s tenant db = (Inr (), db')"
  obtains (found) d where "serves tenant (ds_Model s) d db" "db' = db"
  | (added) d where "\<nexists>d. serves tenant (ds_Model s) d db" "serves tenant (ds_Model s) d db'"
      "deployments db' = deployments db @ [d]" "grows db db'"
proof (cases "deployment_Resolve flt tenant (ds_Model s) db")
  case (Pair r db1)
  have db1: "db1 = db" by (rule resolve_state[OF Pair])
  show ?thesis
  proof (cases r)
    case (Inr d)
    have "deployment_Resolve flt tenant (ds_Model s) db = (Inr d, db)" using Pair db1 Inr by simp
    then obtain d0 where "serves tenant (ds_Model s) d0 db" using resolve_iff[of flt tenant "ds_Model s" db] by blast
    moreover have "db' = db" using assms Pair db1 Inr by (simp add: seed_deployment_def)
    ultimately show ?thesis by (rule found)
  next
    case (Inl e)
    then obtain x where e: "e = serving_error.ErrNotFound x" and c: "create_demo flt le now ids s tenant db = (Inr (), db')"
      using Pair db1 assms by (auto simp: seed_deployment_def split: serving_error.splits)
    show ?thesis
      by (rule create_demo_adds[OF c]) (use added resolve_not_found Pair Inl e in blast)
  qed
qed

lemma seed_deployment_serves:
  "seed_deployment flt le now ids s tenant db = (Inr (), db') \<Longrightarrow> (\<exists>d. serves tenant (ds_Model s) d db') \<and> grows db db'"
  by (erule seed_deployment_cases) (auto simp: grows_def)

text \<open>While the model resolves, seeding changes nothing, whatever fails.\<close>

lemma seed_deployment_again:
  assumes "serves tenant (ds_Model s) d db"
  shows "snd (seed_deployment flt le now ids s tenant db) = db"
proof (cases "deployment_Resolve flt tenant (ds_Model s) db")
  case (Pair r db1)
  then show ?thesis using resolve_state[OF Pair] resolve_not_found[of flt tenant "ds_Model s" db _ db1] assms
    by (auto simp: seed_deployment_def split: sum.splits serving_error.splits)
qed

section \<open>The admin\<close>

lemma set_accounts: "set (accounts db) = {(u, m). u \<in> set (users db) \<and> m \<in> set (memberships db) \<and> mb_UserID m = us_ID u}"
  by (auto simp: accounts_def)

definition has_account :: "string \<Rightarrow> iam_db \<Rightarrow> bool" where
  "has_account login db \<longleftrightarrow> (\<exists>(u, m) \<in> set (accounts db). us_Username u = login \<or> us_Email u = login)"

lemma get_user_state: "user_GetByUsername flt pick login db = (r, db') \<Longrightarrow> db' = db"
  by (auto simp: user_GetByUsername_def stmt_def fetch_def Let_def split: if_splits option.splits)

lemma get_user_found: "user_GetByUsername flt pick login db = (Inr x, db') \<Longrightarrow> has_account login db"
  by (fastforce simp: user_GetByUsername_def stmt_def fetch_def Let_def has_account_def filter_empty_conv
      split: if_splits option.splits)

lemma get_user_not_found: "user_GetByUsername flt pick login db = (Inl iam_error.ErrNotFound, db') \<Longrightarrow> \<not> has_account login db"
  by (fastforce simp: user_GetByUsername_def stmt_def fetch_def Let_def has_account_def filter_empty_conv
      split: if_splits option.splits)

lemma create_user_account:
  assumes "svc_CreateUser flt now newid username email hash role tenant db = (Inr u, db')"
  shows "has_account username db'"
proof -
  let ?u = "\<lparr>us_ID = newid, us_Username = username, us_Email = email, us_PasswordHash = hash, us_Status = ''ACTIVE'', us_CreatedAt = now\<rparr>"
  let ?m = "\<lparr>mb_UserID = newid, mb_TenantID = tenant, mb_Role = role\<rparr>"
  have "users db' = users db @ [?u]" "memberships db' = memberships db @ [?m]"
    using assms by (auto simp: svc_CreateUser_def user_Create_def seed_ok Let_def tbl_insert_def)
  then have "(?u, ?m) \<in> set (accounts db')" by (simp add: set_accounts)
  then show ?thesis unfolding has_account_def by (rule rev_bexI) simp
qed

abbreviation admin_name :: "(string \<Rightarrow> string) \<Rightarrow> string" where
  "admin_name env \<equiv> envOr env ''AI_FACTORY_ADMIN_USER'' ''admin''"

lemma seedAdmin_account:
  assumes "seedAdmin env kdf salt flt le pick now ids db = (Inr (), db')" "\<not> skip_seed env"
  shows "has_account (admin_name env) db'"
proof (cases "user_GetByUsername flt pick (admin_name env) db")
  case (Pair r db1)
  show ?thesis
  proof (cases r)
    case (Inr x)
    then show ?thesis using assms Pair get_user_found get_user_state by (simp add: seedAdmin_def Let_def) blast
  next
    case (Inl e)
    then show ?thesis using assms Pair
      by (auto simp: seedAdmin_def Let_def seed_ok split: iam_error.splits option.splits dest: create_user_account)
  qed
qed

lemma seedAdmin_again:
  assumes "has_account (admin_name env) db \<or> skip_seed env"
  shows "snd (seedAdmin env kdf salt flt le pick now ids db) = db"
proof (cases "user_GetByUsername flt pick (admin_name env) db")
  case (Pair r db1)
  then show ?thesis using assms get_user_state[OF Pair] get_user_not_found[of flt pick "admin_name env" db db1]
    by (cases r) (auto simp: seedAdmin_def Let_def split: iam_error.splits)
qed

section \<open>Prices and credits\<close>

text \<open>A price table in which a demo model has the seeded price, and tables that differ in time stamps only.\<close>

definition demo_priced :: "BillingConfig \<Rightarrow> string \<Rightarrow> billing_db \<Rightarrow> bool" where
  "demo_priced cfg model db \<longleftrightarrow> tbl_has price_key (model, bc_Currency cfg) (pricing db) \<and>
     (\<forall>r \<in> set (pricing db). price_key r = (model, bc_Currency cfg) \<longrightarrow>
        p_PricePerMillionInputTokens r = 150000 \<and> p_PricePerMillionOutputTokens r = 600000)"

definition untimed :: "pricingRow \<Rightarrow> pricingRow" where
  "untimed r = r\<lparr>p_UpdatedAt := 0\<rparr>"

definition same_but_times :: "billing_db \<Rightarrow> billing_db \<Rightarrow> bool" where
  "same_but_times db db' \<longleftrightarrow> map untimed (pricing db') = map untimed (pricing db) \<and> db' = db\<lparr>pricing := pricing db'\<rparr>"

lemma same_but_times_refl [simp]: "same_but_times db db"
  by (simp add: same_but_times_def)

lemma same_but_times_trans: "same_but_times a b \<Longrightarrow> same_but_times b c \<Longrightarrow> same_but_times a c"
  by (cases a; cases b; cases c) (simp add: same_but_times_def)

lemma untimed_fields:
  "price_key (untimed r) = price_key r"
  "p_PricePerMillionInputTokens (untimed r) = p_PricePerMillionInputTokens r"
  "p_PricePerMillionOutputTokens (untimed r) = p_PricePerMillionOutputTokens r"
  by (simp_all add: untimed_def price_key_def)

lemma demo_priced_untimed:
  "demo_priced cfg m db \<longleftrightarrow> (m, bc_Currency cfg) \<in> price_key ` set (map untimed (pricing db)) \<and>
     (\<forall>r \<in> set (map untimed (pricing db)). price_key r = (m, bc_Currency cfg) \<longrightarrow>
        p_PricePerMillionInputTokens r = 150000 \<and> p_PricePerMillionOutputTokens r = 600000)"
  by (simp add: demo_priced_def tbl_has_iff image_image untimed_fields)

lemma demo_priced_same: "same_but_times db db' \<Longrightarrow> demo_priced cfg m db \<Longrightarrow> demo_priced cfg m db'"
  unfolding demo_priced_untimed same_but_times_def by simp

definition set_demo_price :: "BillingConfig \<Rightarrow> int \<Rightarrow> string \<Rightarrow> string \<Rightarrow> billing_db \<Rightarrow> billing_db" where
  "set_demo_price cfg now newid m db = snd (pricing_Upsert no_faults now newid ((demo_price m)\<lparr>Currency := bc_Currency cfg\<rparr>) db)"

lemma upsert_demo_price:
  assumes "svc_UpsertPrice cfg flt now newid (demo_price m) db = (r, db')" "trim_space m = m" "m \<noteq> []"
  shows "db' = db \<or> db' = set_demo_price cfg now newid m db"
    and "r = Inr p \<Longrightarrow> db' = set_demo_price cfg now newid m db"
  using assms by (auto simp: svc_UpsertPrice_def demo_price_def Let_def tx_bind_def pricing_Upsert_def pricing_Get_def
      set_demo_price_def stmt_def update_def fetch_def tx_return_def tx_fail_def split: if_splits prod.splits sum.splits option.splits)

abbreviation reprice :: "int \<Rightarrow> pricingRow \<Rightarrow> pricingRow" where
  "reprice now r \<equiv> r\<lparr>p_PricePerMillionInputTokens := 150000, p_PricePerMillionOutputTokens := 600000, p_UpdatedAt := now\<rparr>"

lemma set_demo_price_is:
  "set_demo_price cfg now newid m db =
    (if tbl_has price_key (m, bc_Currency cfg) (pricing db)
     then db\<lparr>pricing := tbl_update price_key (m, bc_Currency cfg) (reprice now) (pricing db)\<rparr>
     else db\<lparr>pricing := pricing db @ [\<lparr>p_ID = newid, p_Model = m, p_Currency = bc_Currency cfg,
       p_PricePerMillionInputTokens = 150000, p_PricePerMillionOutputTokens = 600000, p_CreatedAt = now, p_UpdatedAt = now\<rparr>]\<rparr>)"
  by (simp add: set_demo_price_def pricing_Upsert_def stmt_def update_def demo_price_def)

lemma ball_repriced: "(\<forall>r \<in> set (tbl_update price_key k (reprice now) rows). P r) \<longleftrightarrow>
    (\<forall>r \<in> set rows. P (if price_key r = k then reprice now r else r))"
  by (auto simp: tbl_update_def)

lemma reprice_key [simp]: "price_key (reprice now r) = price_key r"
  by (simp add: price_key_def)

lemma has_repriced: "tbl_has price_key k (tbl_update price_key k' (reprice now) rows) \<longleftrightarrow> tbl_has price_key k rows"
  by (rule tbl_has_update) (simp add: price_key_def)

lemma set_demo_price_priced: "demo_priced cfg m (set_demo_price cfg now newid m db)"
proof (cases "tbl_has price_key (m, bc_Currency cfg) (pricing db)")
  case True
  then show ?thesis by (simp add: set_demo_price_is demo_priced_def has_repriced ball_repriced)
next
  case False
  then show ?thesis by (auto simp: set_demo_price_is demo_priced_def tbl_has_iff price_key_def)
qed

lemma set_demo_price_keeps:
  assumes "demo_priced cfg m db"
  shows "demo_priced cfg m (set_demo_price cfg now newid m' db)"
proof (cases "tbl_has price_key (m', bc_Currency cfg) (pricing db)")
  case True
  then show ?thesis using assms by (simp add: set_demo_price_is demo_priced_def has_repriced ball_repriced)
next
  case False
  then show ?thesis using assms by (auto simp: set_demo_price_is demo_priced_def tbl_has_iff price_key_def)
qed

lemma set_demo_price_same:
  assumes "demo_priced cfg m db"
  shows "same_but_times db (set_demo_price cfg now newid m db)"
proof -
  have "map untimed (tbl_update price_key (m, bc_Currency cfg) (reprice now) (pricing db)) = map untimed (pricing db)"
    using assms by (auto simp: tbl_update_def demo_priced_def untimed_def)
  then show ?thesis
    using assms by (simp add: same_but_times_def set_demo_price_is demo_priced_def)
qed

lemma seed_prices_priced:
  assumes "seed_prices cfg flt now newid (map demo_price ms) db = (Inr (), db')" "\<forall>m \<in> set ms. trim_space m = m \<and> m \<noteq> []"
  shows "(\<forall>m. m \<in> set ms \<or> demo_priced cfg m db \<longrightarrow> demo_priced cfg m db') \<and> topups db' = topups db"
  using assms
proof (induction ms arbitrary: db)
  case (Cons m ms)
  obtain p db1 where one: "svc_UpsertPrice cfg flt now (newid (Model (demo_price m))) (demo_price m) db = (Inr p, db1)"
    "seed_prices cfg flt now newid (map demo_price ms) db1 = (Inr (), db')"
    using Cons.prems(1) by (auto simp: seed_ok)
  have db1: "db1 = set_demo_price cfg now (newid (Model (demo_price m))) m db"
    using upsert_demo_price(2)[OF one(1)] Cons.prems(2) by simp
  have "topups db1 = topups db" unfolding db1 by (simp add: set_demo_price_is)
  moreover have "demo_priced cfg k db1" if "k = m \<or> demo_priced cfg k db" for k
    using that set_demo_price_priced set_demo_price_keeps unfolding db1 by auto
  ultimately show ?case using Cons.IH[OF one(2)] Cons.prems(2) by auto
qed simp

lemma seed_prices_again:
  assumes "\<forall>m \<in> set ms. demo_priced cfg m db" "\<forall>m \<in> set ms. trim_space m = m \<and> m \<noteq> []"
  shows "same_but_times db (snd (seed_prices cfg flt now newid (map demo_price ms) db))"
  using assms
proof (induction ms arbitrary: db)
  case (Cons m ms)
  obtain r db1 where one: "svc_UpsertPrice cfg flt now (newid (Model (demo_price m))) (demo_price m) db = (r, db1)"
    by (cases "svc_UpsertPrice cfg flt now (newid (Model (demo_price m))) (demo_price m) db")
  have db1: "same_but_times db db1"
    using upsert_demo_price(1)[OF one] Cons.prems set_demo_price_same by auto
  then have "same_but_times db1 (snd (seed_prices cfg flt now newid (map demo_price ms) db1))"
    using Cons.prems demo_priced_same by (intro Cons.IH) auto
  then show ?case
    using one db1 same_but_times_trans[OF db1] by (cases r) (auto simp: tx_bind_def wrap_err_def)
qed (simp add: tx_return_def)

definition credited :: "string \<Rightarrow> billing_db \<Rightarrow> bool" where
  "credited key db \<longleftrightarrow> tbl_find t_IdempotencyKey key (topups db) \<noteq> None"

lemma topup_credits: "topup_TopUp flt now newid i db = (Inr out, db') \<Longrightarrow>
    credited (ti_IdemKey i) db' \<and> pricing db' = pricing db"
  by (erule topup_TopUp_commit) (auto simp: credited_def tbl_find_insert new_topup_def append_ledger_def set_wallet_def
    create_wallet_def split: option.splits)

lemma topup_again: "topup_TopUp flt now newid i db = (r, db') \<Longrightarrow> credited (ti_IdemKey i) db \<Longrightarrow> db' = db"
  by (auto simp: credited_def topup_TopUp_def transaction_def tx_bind_def stmt_def query_def tx_fail_def tx_return_def
      split: prod.splits sum.splits option.splits if_splits)

lemma seed_credits_credited:
  "seed_credits env cfg charge flt now newid tenant db = (Inr (), db') \<Longrightarrow>
     (demo_credits env > 0 \<longrightarrow> credited (seed_key tenant) db') \<and> pricing db' = pricing db"
  by (auto simp: seed_credits_def svc_TopUp_def seed_ok split: if_splits sum.splits dest!: topup_credits)

lemma seed_credits_again:
  "demo_credits env > 0 \<longrightarrow> credited (seed_key tenant) db \<Longrightarrow>
     snd (seed_credits env cfg charge flt now newid tenant db) = db"
  by (auto simp: seed_credits_def svc_TopUp_def tx_bind_def wrap_err_def tx_fail_def tx_return_def
      split: sum.splits prod.splits dest!: topup_again)

section \<open>A server that starts again\<close>

definition tenant_id :: "(string \<Rightarrow> string) \<Rightarrow> (string \<Rightarrow> string \<Rightarrow> bool) \<Rightarrow> iam_db \<Rightarrow> string" where
  "tenant_id env le db = (case find (\<lambda>t. tn_Name t = demo_tenant env)
     (order_by (\<lambda>a b. le (tn_Name a) (tn_Name b)) (tenants db)) of None \<Rightarrow> [] | Some t \<Rightarrow> tn_ID t)"

lemma demoTenantID_is: "demoTenantID env flt le db =
    (if flt ''list tenants'' [] then Inl (SeedIam [] (IamDB ''list tenants'')) else Inr (tenant_id env le db))"
  by (simp add: demoTenantID_def tenant_List_def stmt_def query_def tenant_id_def)

text \<open>A demo model is there when it resolves for the demo tenant, should there be one.\<close>

definition model_seeded :: "demo_spec \<Rightarrow> string \<Rightarrow> serving_db \<Rightarrow> bool" where
  "model_seeded s tenant db \<longleftrightarrow> tenant = [] \<or> (\<exists>d. serves tenant (ds_Model s) d db)"

lemma seed_model_seeded:
  assumes "seed_model s env flt le now ids idb db = (Inr (), db')" "\<not> skip_seed env"
  shows "model_seeded s (tenant_id env le idb) db' \<and> grows db db'"
  using assms seed_deployment_serves
  by (fastforce simp: seed_model_def demoTenantID_is model_seeded_def grows_def split: if_splits)

lemma seed_model_again:
  assumes "model_seeded s (tenant_id env le idb) db \<or> skip_seed env"
  shows "snd (seed_model s env flt le now ids idb db) = db"
  using assms seed_deployment_again by (auto simp: seed_model_def demoTenantID_is model_seeded_def)

lemma model_seeded_grows: "grows db db' \<Longrightarrow> model_seeded s t db \<Longrightarrow> model_seeded s t db'"
  unfolding model_seeded_def by (meson serves_grows)

abbreviation demo_models :: "string list" where
  "demo_models \<equiv> [''qwen3.5-9b'', ''qwen-3b'', ''qwen2.5-vl-3b'']"

lemma demo_models_plain: "\<forall>m \<in> set demo_models. trim_space m = m \<and> m \<noteq> []"
  by code_simp

definition billing_seeded :: "(string \<Rightarrow> string) \<Rightarrow> BillingConfig \<Rightarrow> string \<Rightarrow> billing_db \<Rightarrow> bool" where
  "billing_seeded env cfg tenant db \<longleftrightarrow> tenant = [] \<or> (\<forall>m \<in> set demo_models. demo_priced cfg m db) \<and>
     (demo_credits env > 0 \<longrightarrow> credited (seed_key tenant) db)"

lemma demo_priced_pricing: "pricing db' = pricing db \<Longrightarrow> demo_priced cfg m db' = demo_priced cfg m db"
  by (simp add: demo_priced_def)

lemma seedBilling_seeded:
  assumes "seedBilling env cfg charge flt le now newid idb db = (Inr (), db')" "\<not> skip_seed env"
  shows "billing_seeded env cfg (tenant_id env le idb) db'"
proof (cases "tenant_id env le idb = []")
  case False
  then obtain db1 where db1: "seed_prices cfg flt now newid (map demo_price demo_models) db = (Inr (), db1)"
    "seed_credits env cfg charge flt now (newid ''topup'') (tenant_id env le idb) db1 = (Inr (), db')"
    using assms by (auto simp: seedBilling_def demoTenantID_is demo_prices_def seed_ok split: if_splits)
  show ?thesis
    using seed_prices_priced[OF db1(1) demo_models_plain] seed_credits_credited[OF db1(2)] demo_priced_pricing[of db' db1]
    unfolding billing_seeded_def by blast
qed (simp add: billing_seeded_def)

lemma credited_same: "same_but_times db db' \<Longrightarrow> credited k db \<Longrightarrow> credited k db'"
proof -
  assume "same_but_times db db'"
  then have "db' = db\<lparr>pricing := pricing db'\<rparr>" by (simp add: same_but_times_def)
  then have "topups db' = topups db" by (metis billing_db.select_convs(6) billing_db.surjective billing_db.update_convs(1))
  then show "credited k db \<Longrightarrow> credited k db'" by (simp add: credited_def)
qed

lemma seedBilling_again:
  assumes "billing_seeded env cfg (tenant_id env le idb) db \<or> skip_seed env"
  shows "same_but_times db (snd (seedBilling env cfg charge flt le now newid idb db))"
proof (cases "skip_seed env \<or> flt ''list tenants'' [] \<or> tenant_id env le idb = []")
  case True
  then show ?thesis by (auto simp: seedBilling_def demoTenantID_is)
next
  case False
  let ?t = "tenant_id env le idb"
  obtain r db1 where prices: "seed_prices cfg flt now newid (map demo_price demo_models) db = (r, db1)"
    by (cases "seed_prices cfg flt now newid (map demo_price demo_models) db")
  have there: "\<forall>m \<in> set demo_models. demo_priced cfg m db" "demo_credits env > 0 \<longrightarrow> credited (seed_key ?t) db"
    using assms False by (auto simp: billing_seeded_def)
  have db1: "same_but_times db db1" using seed_prices_again[OF there(1) demo_models_plain] prices by (metis snd_conv)
  moreover have "snd (seed_credits env cfg charge flt now (newid ''topup'') ?t db1) = db1"
    by (rule seed_credits_again) (use there(2) credited_same[OF db1] in blast)
  ultimately show ?thesis
    using False prices by (cases r) (simp_all add: seedBilling_def demoTenantID_is demo_prices_def tx_bind_def)
qed

text \<open>The start of a server in which no seeder fails.\<close>

definition strict_seed :: "bool \<Rightarrow> bool \<Rightarrow> BillingConfig \<Rightarrow> seed_env \<Rightarrow> (seed_state, seed_error, unit) tx" where
  "strict_seed withImage withBilling cfg e =
    tx_bind (run_seedAdmin e) (\<lambda>_.
    tx_bind (run_seedDemo e) (\<lambda>_.
    tx_bind (if withImage then run_seedImage e else tx_return ()) (\<lambda>_.
    tx_bind (run_seedVision e) (\<lambda>_.
    if withBilling then run_seedBilling cfg e else tx_return ()))))"

definition all_seeded :: "bool \<Rightarrow> bool \<Rightarrow> BillingConfig \<Rightarrow> (string \<Rightarrow> string) \<Rightarrow> (string \<Rightarrow> string \<Rightarrow> bool) \<Rightarrow> seed_state \<Rightarrow> bool" where
  "all_seeded withImage withBilling cfg env le st \<longleftrightarrow> (let t = tenant_id env le (sd_iam st) in
     has_account (admin_name env) (sd_iam st) \<and>
     model_seeded demo_text t (sd_srv st) \<and> (withImage \<longrightarrow> model_seeded demo_image t (sd_srv st)) \<and>
     model_seeded demo_vision t (sd_srv st) \<and> (withBilling \<longrightarrow> billing_seeded env cfg t (sd_bill st)))"

lemma on_iam_ok: "on_iam m st = (r, st') \<Longrightarrow> \<exists>db. m (sd_iam st) = (r, db) \<and> st' = st\<lparr>sd_iam := db\<rparr>"
  by (auto simp: on_iam_def split: prod.splits)

lemma on_srv_ok: "on_srv m st = (r, st') \<Longrightarrow> \<exists>db. m (sd_iam st) (sd_srv st) = (r, db) \<and> st' = st\<lparr>sd_srv := db\<rparr>"
  by (auto simp: on_srv_def split: prod.splits)

lemma on_bill_ok: "on_bill m st = (r, st') \<Longrightarrow> \<exists>db. m (sd_iam st) (sd_bill st) = (r, db) \<and> st' = st\<lparr>sd_bill := db\<rparr>"
  by (auto simp: on_bill_def split: prod.splits)

lemma strict_seed_seeds:
  assumes "strict_seed wi wb cfg e st = (Inr (), st')" "\<not> skip_seed (se_getenv e)"
  shows "all_seeded wi wb cfg (se_getenv e) (se_le e) st'"
proof -
  obtain idb db1 db2 db3 bdb where
    admin: "seedAdmin (se_getenv e) (se_kdf e) (se_salt e) (se_faults e) (se_le e) (se_pick e) (se_now e) (se_ids e) (sd_iam st) = (Inr (), idb)" and
    demo: "seedDemo (se_getenv e) (se_faults e) (se_le e) (se_now e) (se_text e) idb (sd_srv st) = (Inr (), db1)" and
    img: "wi \<longrightarrow> seedImage (se_getenv e) (se_faults e) (se_le e) (se_now e) (se_image e) idb db1 = (Inr (), db2)" "\<not> wi \<longrightarrow> db2 = db1" and
    vis: "seedVision (se_getenv e) (se_faults e) (se_le e) (se_now e) (se_vision e) idb db2 = (Inr (), db3)" and
    bill: "wb \<longrightarrow> seedBilling (se_getenv e) cfg (se_charge e) (se_faults e) (se_le e) (se_now e) (se_bill_ids e) idb (sd_bill st) = (Inr (), bdb)" and
    st': "sd_iam st' = idb" "sd_srv st' = db3" "wb \<longrightarrow> sd_bill st' = bdb"
    using assms(1)
    by (auto simp: strict_seed_def tx_bind_ok run_seedAdmin_def run_seedDemo_def run_seedImage_def run_seedVision_def
        run_seedBilling_def dest!: on_iam_ok on_srv_ok on_bill_ok split: if_splits)
  let ?t = "tenant_id (se_getenv e) (se_le e) idb"
  note one = seed_model_seeded[OF _ assms(2)]
  have "model_seeded demo_text ?t db1" using one[OF demo[unfolded seedDemo_def]] by simp
  moreover have "grows db1 db2 \<and> (wi \<longrightarrow> model_seeded demo_image ?t db2)"
    using one[OF img(1)[rule_format, unfolded seedImage_def]] img(2) by (cases wi) (auto simp: grows_def)
  moreover have "grows db2 db3 \<and> model_seeded demo_vision ?t db3" using one[OF vis[unfolded seedVision_def]] by simp
  ultimately have "model_seeded demo_text ?t db3 \<and> (wi \<longrightarrow> model_seeded demo_image ?t db3) \<and> model_seeded demo_vision ?t db3"
    using model_seeded_grows by meson
  moreover have "wb \<longrightarrow> billing_seeded (se_getenv e) cfg ?t bdb" using bill seedBilling_seeded[OF _ assms(2)] by blast
  moreover have "has_account (admin_name (se_getenv e)) idb" by (rule seedAdmin_account[OF admin assms(2)])
  ultimately show ?thesis by (simp add: all_seeded_def st')
qed

lemma logged_run: "logged m st = (Inr (), snd (m st))"
  by (simp add: logged_def)

lemma app_seed_again:
  assumes "all_seeded wi wb cfg (se_getenv e) (se_le e) st \<or> skip_seed (se_getenv e)"
  shows "sd_iam (snd (app_seed wi wb cfg e st)) = sd_iam st \<and> sd_srv (snd (app_seed wi wb cfg e st)) = sd_srv st \<and>
    same_but_times (sd_bill st) (sd_bill (snd (app_seed wi wb cfg e st)))"
proof -
  let ?t = "tenant_id (se_getenv e) (se_le e) (sd_iam st)"
  have same: "on_srv m st = (fst (on_srv m st), st)" if "snd (m (sd_iam st) (sd_srv st)) = sd_srv st" for m
    using that by (cases "m (sd_iam st) (sd_srv st)") (simp add: on_srv_def)
  have "has_account (admin_name (se_getenv e)) (sd_iam st) \<or> skip_seed (se_getenv e)" using assms by (auto simp: all_seeded_def Let_def)
  then have admin: "snd (run_seedAdmin e st) = st"
    using seedAdmin_again[of "se_getenv e" "sd_iam st"] by (simp add: run_seedAdmin_def on_iam_def split: prod.splits)
      (metis seed_state.surjective seed_state.update_convs(1) snd_conv)
  have demo: "snd (run_seedDemo e st) = st"
    using assms same[of "seedDemo (se_getenv e) (se_faults e) (se_le e) (se_now e) (se_text e)"] seed_model_again
    by (auto simp: run_seedDemo_def seedDemo_def all_seeded_def Let_def) (metis snd_conv)+
  have img: "wi \<Longrightarrow> snd (run_seedImage e st) = st"
    using assms same[of "seedImage (se_getenv e) (se_faults e) (se_le e) (se_now e) (se_image e)"] seed_model_again
    by (auto simp: run_seedImage_def seedImage_def all_seeded_def Let_def) (metis snd_conv)+
  have vis: "snd (run_seedVision e st) = st"
    using assms same[of "seedVision (se_getenv e) (se_faults e) (se_le e) (se_now e) (se_vision e)"] seed_model_again
    by (auto simp: run_seedVision_def seedVision_def all_seeded_def Let_def) (metis snd_conv)+
  have bill: "wb \<Longrightarrow> \<exists>db. snd (run_seedBilling cfg e st) = st\<lparr>sd_bill := db\<rparr> \<and> same_but_times (sd_bill st) db"
    using assms seedBilling_again[of "se_getenv e" cfg "se_le e" "sd_iam st" "sd_bill st" "se_charge e" "se_faults e" "se_now e" "se_bill_ids e"]
    by (auto simp: run_seedBilling_def on_bill_def all_seeded_def Let_def split: prod.splits)
  have "snd (app_seed wi wb cfg e st) = st \<or> (wb \<and> snd (app_seed wi wb cfg e st) = snd (run_seedBilling cfg e st))"
    using admin demo img vis by (cases "run_seedAdmin e st"; cases "fst (run_seedAdmin e st)")
      (auto simp: app_seed_def tx_bind_def logged_run tx_return_def)
  then show ?thesis using bill by auto
qed

text \<open>
  C37: starting a server again is harmless. After a start in which every seeder succeeded, a later start with the
  same environment, at any time, with any drawn ids and whatever statements fail in it, leaves the users, the
  catalog, the deployments, the wallets, the ledger and the top-ups as they are; at most the time stamps of
  the demo prices move.
\<close>

theorem restart_is_idempotent:
  assumes "strict_seed wi wb cfg e st = (Inr (), st1)"
    and "se_getenv e' = se_getenv e" "se_le e' = se_le e"
  shows "sd_iam (snd (app_seed wi wb cfg e' st1)) = sd_iam st1 \<and> sd_srv (snd (app_seed wi wb cfg e' st1)) = sd_srv st1 \<and>
    same_but_times (sd_bill st1) (sd_bill (snd (app_seed wi wb cfg e' st1)))"
  by (rule app_seed_again) (use assms strict_seed_seeds[OF assms(1)] in auto)

text \<open>After such a start the demo models resolve for the demo tenant.\<close>

lemma seeded_models_resolve:
  assumes "strict_seed wi wb cfg e st = (Inr (), st1)" "\<not> skip_seed (se_getenv e)"
    and "tenant_id (se_getenv e) (se_le e) (sd_iam st1) \<noteq> []"
    and "s = demo_text \<or> s = demo_vision \<or> wi \<and> s = demo_image"
  shows "\<exists>d. deployment_Resolve no_faults (tenant_id (se_getenv e) (se_le e) (sd_iam st1)) (ds_Model s) (sd_srv st1) = (Inr d, sd_srv st1)"
  unfolding resolve_iff using strict_seed_seeds[OF assms(1,2)] assms(3,4)
  by (auto simp: all_seeded_def Let_def model_seeded_def)

section \<open>What an operator loses\<close>

text \<open>
  A price an operator has set for a demo model lasts until the next start of an API server, which sets the
  demo price again.
\<close>

lemma restart_resets_prices:
  assumes "seedBilling env cfg charge flt le now newid idb db = (Inr (), db1)" "\<not> skip_seed env"
    and "tenant_id env le idb \<noteq> []" "m \<in> set demo_models"
  shows "\<exists>p. pricing_Get no_faults m (bc_Currency cfg) db1 = (Inr p, db1) \<and>
    PricePerMillionInputTokens p = 150000 \<and> PricePerMillionOutputTokens p = 600000"
proof -
  have priced: "demo_priced cfg m db1"
    using seedBilling_seeded[OF assms(1,2)] assms(3,4) by (auto simp: billing_seeded_def)
  then obtain r where r: "tbl_find price_key (m, bc_Currency cfg) (pricing db1) = Some r"
    using tbl_find_None[of price_key "(m, bc_Currency cfg)" "pricing db1"]
    by (cases "tbl_find price_key (m, bc_Currency cfg) (pricing db1)") (auto simp: demo_priced_def tbl_has_iff)
  then show ?thesis using tbl_find_SomeD[OF r] priced
    by (auto simp: pricing_Get_def stmt_def fetch_def demo_priced_def toPrice_def tx_bind_def tx_return_def)
qed

text \<open>
  Seeding looks only for a READY deployment: where the last one was stopped, has failed or never became READY, a
  start adds another one under the same name and leaves the old one as it is.
\<close>

lemma start_adds_a_deployment:
  assumes "seed_deployment flt le now ids s tenant db = (Inr (), db')" "\<nexists>d. serves tenant (ds_Model s) d db"
  shows "\<exists>d. deployments db' = deployments db @ [d] \<and> serves tenant (ds_Model s) d db'"
  using assms(1)
proof (cases rule: seed_deployment_cases)
  case (found d)
  then show ?thesis using assms(2) by blast
next
  case (added d)
  then show ?thesis by blast
qed

section \<open>Examples\<close>

definition fresh_state :: seed_state where
  "fresh_state = \<lparr>sd_iam = \<lparr>tenants = [], users = [], memberships = [], api_keys = []\<rparr>,
     sd_srv = \<lparr>outbox = [], models = [], model_versions = [], templates = [], template_versions = [],
       deployments = [], revisions = [], endpoints = [], idempotency_keys = []\<rparr>,
     sd_bill = \<lparr>pricing = [], wallets = [], ledger = [], ledger_seq = 1, reservations = [], topups = []\<rparr>\<rparr>"

definition drawn :: "string \<Rightarrow> demo_ids" where
  "drawn p = \<lparr>di_model = p @ ''1'', di_version = p @ ''2'', di_template = p @ ''3'', di_tversion = p @ ''4'', di_deployment = p @ ''5''\<rparr>"

definition start_at :: "int \<Rightarrow> string \<Rightarrow> faults \<Rightarrow> seed_env" where
  "start_at now p flt = \<lparr>se_getenv = (\<lambda>_. []), se_kdf = (\<lambda>_ _. [7]), se_salt = Some [1], se_faults = flt,
     se_le = (\<lambda>_ _. True), se_pick = hd, se_now = now, se_ids = \<lparr>si_tenant = p @ ''t'', si_user = p @ ''u''\<rparr>,
     se_text = drawn (p @ ''a''), se_image = drawn (p @ ''b''), se_vision = drawn (p @ ''c''),
     se_bill_ids = (\<lambda>k. p @ k), se_charge = MockProvider_Charge (p @ ''ref'')\<rparr>"

definition demo_billing :: BillingConfig where
  "demo_billing = \<lparr>bc_Mode = ''shadow'', bc_Currency = ''USD'', bc_InitialAllowance = 0, bc_ReservationTTL = 900\<rparr>"

lemma first_start:
  "fst (strict_seed True True demo_billing (start_at 5 ''x'' no_faults) fresh_state) = Inr ()"
  by code_simp

theorem restart_is_idempotent_witness:
  "let st1 = snd (strict_seed True True demo_billing (start_at 5 ''x'' no_faults) fresh_state);
       st2 = snd (app_seed True True demo_billing (start_at 9 ''y'' no_faults) st1)
   in sd_srv st2 = sd_srv st1 \<and> wallets (sd_bill st2) = wallets (sd_bill st1)"
proof -
  obtain st1 where st1: "strict_seed True True demo_billing (start_at 5 ''x'' no_faults) fresh_state = (Inr (), st1)"
    using first_start by (metis prod.collapse)
  have "sd_srv (snd (app_seed True True demo_billing (start_at 9 ''y'' no_faults) st1)) = sd_srv st1"
    "same_but_times (sd_bill st1) (sd_bill (snd (app_seed True True demo_billing (start_at 9 ''y'' no_faults) st1)))"
    using restart_is_idempotent[OF st1, of "start_at 9 ''y'' no_faults"] by (simp_all add: start_at_def)
  moreover from this(2) have "wallets (sd_bill (snd (app_seed True True demo_billing (start_at 9 ''y'' no_faults) st1))) = wallets (sd_bill st1)"
    unfolding same_but_times_def by (metis billing_db.select_convs(2) billing_db.surjective billing_db.update_convs(1))
  ultimately show ?thesis by (simp add: st1 Let_def)
qed

text \<open>What the first start leaves: three READY deployments and ten credits for the demo tenant.\<close>

lemma first_start_result:
  "let st1 = snd (strict_seed True True demo_billing (start_at 5 ''x'' no_faults) fresh_state) in
    map (\<lambda>d. (d_Name d, d_Status d)) (deployments (sd_srv st1)) =
      [(''qwen3.5-9b-prod'', DeploymentReady), (''sdxl-1.0-prod'', DeploymentReady), (''qwen2.5-vl-3b-prod'', DeploymentReady)] \<and>
    map (\<lambda>w. (w_TenantID w, w_Balance w)) (wallets (sd_bill st1)) = [(''xt'', 10000000)]"
  by code_simp

text \<open>
  A start that dies between the INSERT of the deployment and its last transition leaves a deployment in
  STARTING; the next start adds a second one of the same name and the first stays in STARTING.
\<close>

lemma interrupted_seed_adds_a_second:
  "let st1 = snd (app_seed False False demo_billing
         (start_at 5 ''x'' (\<lambda>l k. l = ''update deployment'' \<and> k = ''READY'')) fresh_state);
       st2 = snd (app_seed False False demo_billing (start_at 9 ''y'' no_faults) st1)
   in map (\<lambda>d. (d_Name d, d_Status d)) (filter (\<lambda>d. d_Name d = ''qwen3.5-9b-prod'') (deployments (sd_srv st2))) =
     [(''qwen3.5-9b-prod'', DeploymentStarting), (''qwen3.5-9b-prod'', DeploymentReady)]"
  by code_simp

end
