(* ===== verification/Migrations.thy ===== *)
theory Migrations
  imports Usage
begin

text \<open>
  The schema migrations (\<open>internal/migrations\<close>) and their adoption from goose
  (\<open>internal/infrastructure/database/migrate.go\<close>). A schema is the list of its tables and indexes; a
  statement is the SQL the code sends, as data, and its execution checks what PostgreSQL checks: a relation
  that exists already, a table, column or reference that does not. Of the rows only those that a migration
  touches are part of the state: usage events, their daily sums and the watermark. The migration library is
  a parameter.
\<close>

section \<open>Statements\<close>

datatype col_type = TUuid | TText | TInt | TBigint | TSmallint | TBigserial | TTimestamptz | TJsonb | TBool | TDate | TReal

datatype delete_rule = OnDeleteCascade | OnDeleteSetNull | NoAction

datatype direction = Asc | Desc

text \<open>A reference is always to the column \<open>id\<close> of its table.\<close>

record column =
  cl_name :: string
  cl_type :: col_type
  cl_notnull :: bool
  cl_default :: "string option"
  cl_ref :: "(string \<times> delete_rule) option"

record table_def =
  tb_name :: string
  tb_columns :: "column list"
  tb_primary :: "string list"
  tb_unique :: "string list list"
  tb_checks :: "string list"

datatype ddl =
    CreateExtension string
  | CreateTable table_def
  | CreateIndex string string "(string \<times> direction) list" "string option"
  | AddColumn string column
  | DropTables "string list" bool
  | DropColumn string string bool
  | BackfillUsage
  | InitRollupState

definition col :: "string \<Rightarrow> col_type \<Rightarrow> column" where
  "col n t = \<lparr>cl_name = n, cl_type = t, cl_notnull = True, cl_default = None, cl_ref = None\<rparr>"

definition nullable :: "column \<Rightarrow> column" where
  "nullable c = c\<lparr>cl_notnull := False\<rparr>"

definition dflt :: "string \<Rightarrow> column \<Rightarrow> column" where
  "dflt e c = c\<lparr>cl_default := Some e\<rparr>"

definition refs :: "string \<Rightarrow> delete_rule \<Rightarrow> column \<Rightarrow> column" where
  "refs t r c = c\<lparr>cl_ref := Some (t, r)\<rparr>"

definition sql_quoted :: "string \<Rightarrow> string" where
  "sql_quoted s = CHR 0x27 # s @ [CHR 0x27]"

definition table :: "string \<Rightarrow> column list \<Rightarrow> string list \<Rightarrow> string list list \<Rightarrow> string list \<Rightarrow> table_def" where
  "table n cs pk uqs checks = \<lparr>tb_name = n, tb_columns = cs, tb_primary = pk, tb_unique = uqs, tb_checks = checks\<rparr>"

record migration =
  mg_ID :: string
  mg_up :: "ddl list"
  mg_down :: "ddl list"

section \<open>The migrations\<close>

definition M0001Init :: migration where
  "M0001Init = \<lparr>mg_ID = ''0001_init'',
     mg_up = [
     CreateExtension ''pgcrypto'',
     CreateTable (table ''tenants'' [
       dflt ''gen_random_uuid()'' (col ''id'' TUuid),
       col ''name'' TText,
       dflt (sql_quoted ''ACTIVE'') (col ''status'' TText),
       dflt ''now()'' (col ''created_at'' TTimestamptz),
       dflt ''now()'' (col ''updated_at'' TTimestamptz)]
       [''id''] [[''name'']] []),
     CreateTable (table ''users'' [
       dflt ''gen_random_uuid()'' (col ''id'' TUuid),
       col ''username'' TText,
       col ''email'' TText,
       col ''password_hash'' TText,
       dflt (sql_quoted ''ACTIVE'') (col ''status'' TText),
       dflt ''now()'' (col ''created_at'' TTimestamptz)]
       [''id''] [[''username''], [''email'']] []),
     CreateTable (table ''tenant_memberships'' [
       refs ''users'' OnDeleteCascade (col ''user_id'' TUuid),
       refs ''tenants'' OnDeleteCascade (col ''tenant_id'' TUuid),
       col ''role'' TText,
       dflt ''now()'' (col ''created_at'' TTimestamptz)]
       [''user_id'', ''tenant_id''] [] []),
     CreateTable (table ''api_keys'' [
       dflt ''gen_random_uuid()'' (col ''id'' TUuid),
       refs ''tenants'' OnDeleteCascade (col ''tenant_id'' TUuid),
       col ''name'' TText,
       col ''key_hash'' TText,
       dflt (sql_quoted ''ACTIVE'') (col ''status'' TText),
       nullable (col ''expires_at'' TTimestamptz),
       nullable (col ''last_used_at'' TTimestamptz),
       dflt ''now()'' (col ''created_at'' TTimestamptz)]
       [''id''] [[''key_hash'']] []),
     CreateTable (table ''tenant_quotas'' [
       dflt ''gen_random_uuid()'' (col ''id'' TUuid),
       refs ''tenants'' OnDeleteCascade (col ''tenant_id'' TUuid),
       col ''quota_type'' TText,
       col ''limit_value'' TBigint,
       col ''period'' TText,
       dflt ''now()'' (col ''created_at'' TTimestamptz),
       dflt ''now()'' (col ''updated_at'' TTimestamptz)]
       [''id''] [[''tenant_id'', ''quota_type'', ''period'']] []),
     CreateTable (table ''models'' [
       dflt ''gen_random_uuid()'' (col ''id'' TUuid),
       col ''name'' TText,
       dflt (sql_quoted '''') (col ''description'' TText),
       col ''task'' TText,
       col ''framework'' TText,
       dflt (sql_quoted ''ACTIVE'') (col ''status'' TText),
       dflt ''now()'' (col ''created_at'' TTimestamptz),
       dflt ''now()'' (col ''updated_at'' TTimestamptz)]
       [''id''] [[''name'', ''framework'']] []),
     CreateTable (table ''model_versions'' [
       dflt ''gen_random_uuid()'' (col ''id'' TUuid),
       refs ''models'' OnDeleteCascade (col ''model_id'' TUuid),
       col ''version'' TText,
       col ''artifact_uri'' TText,
       dflt (sql_quoted ''{}'') (col ''metadata_json'' TJsonb),
       dflt (sql_quoted ''ACTIVE'') (col ''status'' TText),
       dflt ''now()'' (col ''created_at'' TTimestamptz)]
       [''id''] [[''model_id'', ''version'']] []),
     CreateTable (table ''serving_templates'' [
       dflt ''gen_random_uuid()'' (col ''id'' TUuid),
       col ''name'' TText,
       dflt (sql_quoted '''') (col ''description'' TText),
       col ''runtime'' TText,
       dflt (sql_quoted ''ACTIVE'') (col ''status'' TText),
       dflt ''now()'' (col ''created_at'' TTimestamptz),
       dflt ''now()'' (col ''updated_at'' TTimestamptz)]
       [''id''] [[''name'']] []),
     CreateTable (table ''serving_template_versions'' [
       dflt ''gen_random_uuid()'' (col ''id'' TUuid),
       refs ''serving_templates'' OnDeleteCascade (col ''template_id'' TUuid),
       col ''version'' TText,
       col ''image'' TText,
       dflt (sql_quoted ''[]'') (col ''command'' TJsonb),
       dflt (sql_quoted ''{}'') (col ''environment'' TJsonb),
       dflt (sql_quoted ''{}'') (col ''config_schema'' TJsonb),
       dflt ''now()'' (col ''created_at'' TTimestamptz)]
       [''id''] [[''template_id'', ''version'']] []),
     CreateTable (table ''deployments'' [
       dflt ''gen_random_uuid()'' (col ''id'' TUuid),
       refs ''tenants'' OnDeleteCascade (col ''tenant_id'' TUuid),
       refs ''model_versions'' NoAction (col ''model_version_id'' TUuid),
       refs ''serving_template_versions'' NoAction (col ''template_version_id'' TUuid),
       col ''name'' TText,
       col ''region'' TText,
       dflt ''1'' (col ''desired_replicas'' TInt),
       col ''status'' TText,
       dflt ''now()'' (col ''created_at'' TTimestamptz),
       dflt ''now()'' (col ''updated_at'' TTimestamptz)]
       [''id''] [] []),
     CreateTable (table ''deployment_revisions'' [
       dflt ''gen_random_uuid()'' (col ''id'' TUuid),
       refs ''deployments'' OnDeleteCascade (col ''deployment_id'' TUuid),
       col ''revision'' TInt,
       col ''spec_json'' TJsonb,
       dflt ''now()'' (col ''created_at'' TTimestamptz),
       refs ''users'' NoAction (nullable (col ''created_by'' TUuid))]
       [''id''] [[''deployment_id'', ''revision'']] []),
     CreateTable (table ''endpoints'' [
       dflt ''gen_random_uuid()'' (col ''id'' TUuid),
       refs ''deployments'' OnDeleteCascade (col ''deployment_id'' TUuid),
       col ''path'' TText,
       dflt (sql_quoted ''http'') (col ''protocol'' TText),
       dflt (sql_quoted ''ACTIVE'') (col ''status'' TText),
       dflt ''now()'' (col ''created_at'' TTimestamptz)]
       [''id''] [] [])],
     mg_down = [DropTables [''endpoints'', ''deployment_revisions'', ''deployments'', ''serving_template_versions'', ''serving_templates'', ''model_versions'', ''models'', ''tenant_quotas'', ''api_keys'', ''tenant_memberships'', ''users'', ''tenants''] True]\<rparr>"

definition M0002DeploymentWorkloadRef :: migration where
  "M0002DeploymentWorkloadRef = \<lparr>mg_ID = ''0002_deployment_workload_ref'',
     mg_up = [
     AddColumn ''deployments'' (dflt (sql_quoted '''') (col ''workload_ref'' TText))],
     mg_down = [DropColumn ''deployments'' ''workload_ref'' False]\<rparr>"

definition M0003IdempotencyKeys :: migration where
  "M0003IdempotencyKeys = \<lparr>mg_ID = ''0003_idempotency_keys'',
     mg_up = [
     CreateTable (table ''idempotency_keys'' [
       dflt ''gen_random_uuid()'' (col ''id'' TUuid),
       refs ''tenants'' OnDeleteCascade (col ''tenant_id'' TUuid),
       col ''key'' TText,
       col ''resource_type'' TText,
       col ''resource_id'' TUuid,
       dflt ''now()'' (col ''created_at'' TTimestamptz)]
       [''id''] [[''tenant_id'', ''key'']] []),
     CreateIndex ''idempotency_keys_resource'' ''idempotency_keys'' [(''resource_type'', Asc), (''resource_id'', Asc)] None],
     mg_down = [DropTables [''idempotency_keys''] False]\<rparr>"

definition M0004ChatHistory :: migration where
  "M0004ChatHistory = \<lparr>mg_ID = ''0004_chat_history'',
     mg_up = [
     CreateTable (table ''sessions'' [
       col ''id'' TText,
       refs ''tenants'' OnDeleteCascade (col ''tenant_id'' TUuid),
       refs ''users'' OnDeleteSetNull (nullable (col ''user_id'' TUuid)),
       dflt (sql_quoted '''') (col ''model'' TText),
       dflt (sql_quoted '''') (col ''system_prompt'' TText),
       dflt ''8192'' (col ''max_tokens'' TInt),
       dflt ''now()'' (col ''created_at'' TTimestamptz),
       dflt ''now()'' (col ''updated_at'' TTimestamptz)]
       [''id''] [] []),
     CreateIndex ''sessions_tenant_updated_idx'' ''sessions'' [(''tenant_id'', Asc), (''updated_at'', Desc)] None,
     CreateTable (table ''messages'' [
       col ''id'' TBigserial,
       refs ''sessions'' OnDeleteCascade (col ''session_id'' TText),
       col ''seq'' TInt,
       col ''role'' TText,
       dflt (sql_quoted '''') (col ''content'' TText),
       dflt (sql_quoted ''[]'') (col ''tool_calls'' TJsonb),
       dflt (sql_quoted '''') (col ''tool_call_id'' TText),
       dflt (sql_quoted '''') (col ''tool_result'' TText),
       dflt ''false'' (col ''is_error'' TBool),
       dflt ''now()'' (col ''created_at'' TTimestamptz)]
       [''id''] [[''session_id'', ''seq'']] [])],
     mg_down = [DropTables [''messages'', ''sessions''] True]\<rparr>"

definition M0006UsageEvents :: migration where
  "M0006UsageEvents = \<lparr>mg_ID = ''0006_usage_events'',
     mg_up = [
     CreateTable (table ''usage_events'' [
       col ''id'' TBigserial,
       refs ''tenants'' OnDeleteCascade (col ''tenant_id'' TUuid),
       dflt (sql_quoted '''') (col ''model'' TText),
       dflt ''0'' (col ''prompt_tokens'' TInt),
       dflt ''0'' (col ''completion_tokens'' TInt),
       dflt ''now()'' (col ''created_at'' TTimestamptz)]
       [''id''] [] []),
     CreateIndex ''usage_events_tenant_created_idx'' ''usage_events'' [(''tenant_id'', Asc), (''created_at'', Desc)] None],
     mg_down = [DropTables [''usage_events''] True]\<rparr>"

definition M0007SessionTitle :: migration where
  "M0007SessionTitle = \<lparr>mg_ID = ''0007_session_title'',
     mg_up = [
     AddColumn ''sessions'' (dflt (sql_quoted '''') (col ''title'' TText))],
     mg_down = [DropColumn ''sessions'' ''title'' True]\<rparr>"

definition M0008Outbox :: migration where
  "M0008Outbox = \<lparr>mg_ID = ''0008_outbox'',
     mg_up = [
     CreateTable (table ''outbox'' [
       col ''id'' TUuid,
       col ''topic'' TText,
       col ''event_id'' TText,
       col ''event_type'' TText,
       col ''tenant_id'' TText,
       col ''resource_id'' TText,
       col ''event'' TJsonb,
       dflt ''now()'' (col ''created_at'' TTimestamptz),
       nullable (col ''published_at'' TTimestamptz),
       dflt ''0'' (col ''attempts'' TInt),
       dflt (sql_quoted '''') (col ''last_error'' TText)]
       [''id''] [] []),
     CreateIndex ''outbox_unpublished_idx'' ''outbox'' [(''created_at'', Asc)] (Some ''published_at IS NULL'')],
     mg_down = [DropTables [''outbox''] True]\<rparr>"

definition M0009UsageDaily :: migration where
  "M0009UsageDaily = \<lparr>mg_ID = ''0009_usage_daily'',
     mg_up = [
     CreateTable (table ''usage_daily'' [
       refs ''tenants'' OnDeleteCascade (col ''tenant_id'' TUuid),
       dflt (sql_quoted '''') (col ''model'' TText),
       col ''day'' TDate,
       dflt ''0'' (col ''prompt_tokens'' TBigint),
       dflt ''0'' (col ''completion_tokens'' TBigint),
       dflt ''0'' (col ''requests'' TBigint),
       dflt ''now()'' (col ''updated_at'' TTimestamptz)]
       [''tenant_id'', ''model'', ''day''] [] []),
     CreateIndex ''usage_daily_tenant_day_idx'' ''usage_daily'' [(''tenant_id'', Asc), (''day'', Desc)] None],
     mg_down = [DropTables [''usage_daily''] True]\<rparr>"

definition M0010BackfillUsageDaily :: migration where
  "M0010BackfillUsageDaily = \<lparr>mg_ID = ''0010_backfill_usage_daily'',
     mg_up = [
     BackfillUsage],
     mg_down = []\<rparr>"

definition M0011UsageRollupState :: migration where
  "M0011UsageRollupState = \<lparr>mg_ID = ''0011_usage_rollup_state'',
     mg_up = [
     CreateTable (table ''usage_rollup_state'' [
       col ''id'' TSmallint,
       dflt ''0'' (col ''last_event_id'' TBigint),
       dflt ''now()'' (col ''updated_at'' TTimestamptz)]
       [''id''] [] [''id = 1'']),
     InitRollupState],
     mg_down = [DropTables [''usage_rollup_state''] False]\<rparr>"

definition M0012ModelPricing :: migration where
  "M0012ModelPricing = \<lparr>mg_ID = ''0012_model_pricing'',
     mg_up = [
     CreateTable (table ''model_pricing'' [
       col ''id'' TUuid,
       col ''model'' TText,
       dflt (sql_quoted ''USD'') (col ''currency'' TText),
       dflt ''0'' (col ''price_per_million_input_tokens'' TBigint),
       dflt ''0'' (col ''price_per_million_output_tokens'' TBigint),
       dflt ''now()'' (col ''created_at'' TTimestamptz),
       dflt ''now()'' (col ''updated_at'' TTimestamptz)]
       [''id''] [[''model'', ''currency'']] [])],
     mg_down = [DropTables [''model_pricing''] True]\<rparr>"

definition M0013WalletLedger :: migration where
  "M0013WalletLedger = \<lparr>mg_ID = ''0013_wallet_ledger'',
     mg_up = [
     CreateTable (table ''wallets'' [
       refs ''tenants'' OnDeleteCascade (col ''tenant_id'' TUuid),
       dflt (sql_quoted ''USD'') (col ''currency'' TText),
       dflt ''0'' (col ''balance'' TBigint),
       dflt ''0'' (col ''reserved'' TBigint),
       dflt ''now()'' (col ''updated_at'' TTimestamptz)]
       [''tenant_id''] [] []),
     CreateTable (table ''ledger_entries'' [
       col ''id'' TBigserial,
       refs ''tenants'' OnDeleteCascade (col ''tenant_id'' TUuid),
       col ''kind'' TText,
       col ''amount'' TBigint,
       col ''balance_after'' TBigint,
       dflt (sql_quoted ''USD'') (col ''currency'' TText),
       dflt (sql_quoted '''') (col ''ref_type'' TText),
       dflt (sql_quoted '''') (col ''ref_id'' TText),
       nullable (col ''idempotency_key'' TText),
       nullable (col ''metadata'' TJsonb),
       dflt ''now()'' (col ''created_at'' TTimestamptz)]
       [''id''] [[''idempotency_key'']] []),
     CreateIndex ''ledger_entries_tenant_id_idx'' ''ledger_entries'' [(''tenant_id'', Asc), (''id'', Desc)] None,
     CreateTable (table ''wallet_reservations'' [
       col ''id'' TUuid,
       refs ''tenants'' OnDeleteCascade (col ''tenant_id'' TUuid),
       col ''amount'' TBigint,
       dflt ''0'' (col ''input_price'' TBigint),
       dflt ''0'' (col ''output_price'' TBigint),
       dflt (sql_quoted ''USD'') (col ''currency'' TText),
       dflt (sql_quoted ''held'') (col ''status'' TText),
       col ''expires_at'' TTimestamptz,
       dflt ''now()'' (col ''created_at'' TTimestamptz),
       nullable (col ''settled_at'' TTimestamptz)]
       [''id''] [] []),
     CreateIndex ''wallet_reservations_tenant_status_idx'' ''wallet_reservations'' [(''tenant_id'', Asc), (''status'', Asc)] None,
     CreateIndex ''wallet_reservations_expires_idx'' ''wallet_reservations'' [(''expires_at'', Asc)] None,
     CreateTable (table ''topup_transactions'' [
       col ''id'' TUuid,
       refs ''tenants'' OnDeleteCascade (col ''tenant_id'' TUuid),
       col ''amount'' TBigint,
       dflt (sql_quoted ''USD'') (col ''currency'' TText),
       dflt (sql_quoted ''mock'') (col ''provider'' TText),
       dflt (sql_quoted '''') (col ''provider_ref'' TText),
       dflt (sql_quoted ''succeeded'') (col ''status'' TText),
       col ''idempotency_key'' TText,
       dflt ''now()'' (col ''created_at'' TTimestamptz),
       dflt ''now()'' (col ''updated_at'' TTimestamptz)]
       [''id''] [[''idempotency_key'']] [])],
     mg_down = [DropTables [''topup_transactions'', ''wallet_reservations'', ''ledger_entries'', ''wallets''] True]\<rparr>"

definition M0014APIKeyRevoke :: migration where
  "M0014APIKeyRevoke = \<lparr>mg_ID = ''0014_api_key_revoke'',
     mg_up = [
     AddColumn ''api_keys'' (nullable (col ''revoked_at'' TTimestamptz))],
     mg_down = [DropColumn ''api_keys'' ''revoked_at'' True]\<rparr>"

definition M0015ImageAssets :: migration where
  "M0015ImageAssets = \<lparr>mg_ID = ''0015_image_assets'',
     mg_up = [
     CreateTable (table ''image_assets'' [
       col ''id'' TUuid,
       refs ''tenants'' OnDeleteCascade (col ''tenant_id'' TUuid),
       nullable (col ''job_id'' TUuid),
       dflt (sql_quoted '''') (col ''model'' TText),
       dflt (sql_quoted '''') (col ''prompt'' TText),
       dflt (sql_quoted '''') (col ''negative_prompt'' TText),
       col ''width'' TInt,
       col ''height'' TInt,
       col ''steps'' TInt,
       dflt ''0'' (col ''guidance_scale'' TReal),
       dflt ''0'' (col ''seed'' TBigint),
       dflt (sql_quoted '''') (col ''scheduler'' TText),
       col ''path'' TText,
       dflt ''now()'' (col ''created_at'' TTimestamptz)]
       [''id''] [] []),
     CreateIndex ''image_assets_tenant_created_idx'' ''image_assets'' [(''tenant_id'', Asc), (''created_at'', Desc)] None],
     mg_down = [DropTables [''image_assets''] True]\<rparr>"

definition M0016ImageJobs :: migration where
  "M0016ImageJobs = \<lparr>mg_ID = ''0016_image_jobs'',
     mg_up = [
     CreateTable (table ''image_jobs'' [
       col ''id'' TUuid,
       refs ''tenants'' OnDeleteCascade (col ''tenant_id'' TUuid),
       dflt (sql_quoted '''') (col ''model'' TText),
       dflt (sql_quoted ''queued'') (col ''status'' TText),
       dflt (sql_quoted '''') (col ''prompt'' TText),
       dflt (sql_quoted '''') (col ''negative_prompt'' TText),
       col ''width'' TInt,
       col ''height'' TInt,
       col ''steps'' TInt,
       dflt ''0'' (col ''guidance_scale'' TReal),
       dflt ''-1'' (col ''seed'' TBigint),
       dflt ''1'' (col ''num_images'' TInt),
       dflt (sql_quoted '''') (col ''scheduler'' TText),
       dflt ''0'' (col ''progress_step'' TInt),
       dflt (sql_quoted '''') (col ''error'' TText),
       dflt ''now()'' (col ''created_at'' TTimestamptz),
       dflt ''now()'' (col ''updated_at'' TTimestamptz)]
       [''id''] [] []),
     CreateIndex ''image_jobs_tenant_created_idx'' ''image_jobs'' [(''tenant_id'', Asc), (''created_at'', Desc)] None,
     CreateIndex ''image_jobs_status_idx'' ''image_jobs'' [(''status'', Asc)] None],
     mg_down = [DropTables [''image_jobs''] True]\<rparr>"

definition M0017MessageImages :: migration where
  "M0017MessageImages = \<lparr>mg_ID = ''0017_message_images'',
     mg_up = [
     AddColumn ''messages'' (dflt (sql_quoted ''[]'') (col ''images'' TJsonb))],
     mg_down = [DropColumn ''messages'' ''images'' True]\<rparr>"

definition All :: "migration list" where
  "All = [M0001Init, M0002DeploymentWorkloadRef, M0003IdempotencyKeys, M0004ChatHistory, M0006UsageEvents,
     M0007SessionTitle, M0008Outbox, M0009UsageDaily, M0010BackfillUsageDaily, M0011UsageRollupState,
     M0012ModelPricing, M0013WalletLedger, M0014APIKeyRevoke, M0015ImageAssets, M0016ImageJobs, M0017MessageImages]"

section \<open>Execution\<close>

text \<open>
  \<open>md_applied\<close> are the rows of \<open>schema_migrations\<close> (None while the table does not exist), \<open>md_goose\<close> those of
  \<open>goose_db_version\<close>, \<open>md_rollup_row\<close> says whether \<open>usage_rollup_state\<close> has its row.
\<close>

record schema =
  sc_tables :: "table_def list"
  sc_indexes :: "(string \<times> string) list"

record mig_db =
  md_schema :: schema
  md_extensions :: "string list"
  md_applied :: "string list option"
  md_goose :: "(int \<times> bool) list option"
  md_usage :: usage_db
  md_rollup_row :: bool

definition table_names :: "schema \<Rightarrow> string list" where
  "table_names s = map tb_name (sc_tables s)"

definition column_names :: "table_def \<Rightarrow> string list" where
  "column_names t = map cl_name (tb_columns t)"

definition ref_tables :: "table_def \<Rightarrow> string list" where
  "ref_tables t = map fst (List.map_filter cl_ref (tb_columns t))"

definition create_table :: "table_def \<Rightarrow> schema \<Rightarrow> string + schema" where
  "create_table t s =
    (if List.member (table_names s) (tb_name t) then Inl (''relation already exists: '' @ tb_name t)
     else if \<not> list_all (\<lambda>r. r = tb_name t \<or> List.member (table_names s) r) (ref_tables t)
       then Inl (''relation does not exist: referenced by '' @ tb_name t)
     else Inr (s\<lparr>sc_tables := sc_tables s @ [t]\<rparr>))"

definition create_index :: "string \<Rightarrow> string \<Rightarrow> (string \<times> direction) list \<Rightarrow> schema \<Rightarrow> string + schema" where
  "create_index n t cs s = (case find (\<lambda>x. tb_name x = t) (sc_tables s) of
      None \<Rightarrow> Inl (''relation does not exist: '' @ t)
    | Some x \<Rightarrow> if List.member (map fst (sc_indexes s)) n then Inl (''relation already exists: '' @ n)
        else if \<not> list_all (\<lambda>c. List.member (column_names x) (fst c)) cs then Inl (''column does not exist: '' @ n)
        else Inr (s\<lparr>sc_indexes := sc_indexes s @ [(n, t)]\<rparr>))"

definition on_table :: "string \<Rightarrow> (table_def \<Rightarrow> table_def) \<Rightarrow> schema \<Rightarrow> schema" where
  "on_table n f s = s\<lparr>sc_tables := map (\<lambda>t. if tb_name t = n then f t else t) (sc_tables s)\<rparr>"

definition add_column :: "string \<Rightarrow> column \<Rightarrow> schema \<Rightarrow> string + schema" where
  "add_column n c s = (case find (\<lambda>t. tb_name t = n) (sc_tables s) of
      None \<Rightarrow> Inl (''relation does not exist: '' @ n)
    | Some t \<Rightarrow> if List.member (column_names t) (cl_name c) then Inl (''column already exists: '' @ cl_name c)
        else Inr (on_table n (\<lambda>t. t\<lparr>tb_columns := tb_columns t @ [c]\<rparr>) s))"

definition drop_column :: "string \<Rightarrow> string \<Rightarrow> bool \<Rightarrow> schema \<Rightarrow> string + schema" where
  "drop_column n c ifExists s = (case find (\<lambda>t. tb_name t = n) (sc_tables s) of
      None \<Rightarrow> Inl (''relation does not exist: '' @ n)
    | Some t \<Rightarrow> if \<not> List.member (column_names t) c \<and> \<not> ifExists then Inl (''column does not exist: '' @ c)
        else Inr (on_table n (\<lambda>t. t\<lparr>tb_columns := filter (\<lambda>x. cl_name x \<noteq> c) (tb_columns t)\<rparr>) s))"

text \<open>
  \<open>DROP TABLE IF EXISTS\<close>: with \<open>CASCADE\<close> the references of other tables to the dropped ones go too, without it
  they are an error. The indexes of a table go with it.
\<close>

definition forget_refs :: "string list \<Rightarrow> table_def \<Rightarrow> table_def" where
  "forget_refs ns t = t\<lparr>tb_columns := map (\<lambda>c. case cl_ref c of
      Some (r, _) \<Rightarrow> if List.member ns r then c\<lparr>cl_ref := None\<rparr> else c | None \<Rightarrow> c) (tb_columns t)\<rparr>"

definition drop_tables :: "string list \<Rightarrow> bool \<Rightarrow> schema \<Rightarrow> string + schema" where
  "drop_tables ns isCascade s =
    (let kept = filter (\<lambda>t. \<not> List.member ns (tb_name t)) (sc_tables s) in
     if \<not> isCascade \<and> list_ex (\<lambda>t. list_ex (List.member ns) (ref_tables t)) kept
     then Inl ''other objects depend on it''
     else Inr (s\<lparr>sc_tables := map (forget_refs ns) kept,
                 sc_indexes := filter (\<lambda>i. \<not> List.member ns (snd i)) (sc_indexes s)\<rparr>))"

text \<open>A table that is created is empty.\<close>

definition empty_table :: "string \<Rightarrow> mig_db \<Rightarrow> mig_db" where
  "empty_table n db =
    (if n = ''usage_events'' then db\<lparr>md_usage := (md_usage db)\<lparr>events := [], pending := [], event_seq := 1\<rparr>\<rparr>
     else if n = ''usage_daily'' then db\<lparr>md_usage := (md_usage db)\<lparr>daily := []\<rparr>\<rparr>
     else if n = ''usage_rollup_state'' then db\<lparr>md_rollup_row := False\<rparr>
     else db)"

text \<open>
  The two statements on rows. The backfill is one statement: all sums or, when a sum leaves 64 bits, none. The
  watermark starts at \<open>COALESCE(MAX(id), 0)\<close>.
\<close>

definition backfill_rows :: "int \<Rightarrow> usageRow list \<Rightarrow> usageDailyRow list" where
  "backfill_rows now evs =
    group_by event_key (\<lambda>(tenant, model, dy) es.
      \<lparr>d_TenantID = tenant, d_Model = model, d_Day = dy, d_PromptTokens = sum_of u_PromptTokens es,
       d_CompletionTokens = sum_of u_CompletionTokens es, d_Requests = int (length es), d_UpdatedAt = now\<rparr>) evs"

definition coalesce_max :: "usageRow list \<Rightarrow> int" where
  "coalesce_max evs = (case map u_ID evs of [] \<Rightarrow> 0 | x # xs \<Rightarrow> fold max xs x)"

definition backfill_usage :: "int \<Rightarrow> mig_db \<Rightarrow> string option \<times> mig_db" where
  "backfill_usage now db =
    (if \<not> (List.member (table_names (md_schema db)) ''usage_daily'' \<and> List.member (table_names (md_schema db)) ''usage_events'')
     then (Some ''relation does not exist'', db)
     else case upsert_all no_faults now (backfill_rows now (events (md_usage db))) (md_usage db) of
        (Inl _, _) \<Rightarrow> (Some ''bigint out of range'', db)
      | (Inr _, u) \<Rightarrow> (None, db\<lparr>md_usage := u\<rparr>))"

definition init_rollup_state :: "mig_db \<Rightarrow> string option \<times> mig_db" where
  "init_rollup_state db =
    (if \<not> List.member (table_names (md_schema db)) ''usage_rollup_state'' then (Some ''relation does not exist'', db)
     else if md_rollup_row db then (Some ''duplicate key'', db)
     else (None, db\<lparr>md_usage := (md_usage db)\<lparr>last_event_id := coalesce_max (events (md_usage db))\<rparr>, md_rollup_row := True\<rparr>))"

definition on_schema :: "(schema \<Rightarrow> string + schema) \<Rightarrow> mig_db \<Rightarrow> string option \<times> mig_db" where
  "on_schema f db = (case f (md_schema db) of Inl e \<Rightarrow> (Some e, db) | Inr s \<Rightarrow> (None, db\<lparr>md_schema := s\<rparr>))"

fun exec_ddl :: "int \<Rightarrow> ddl \<Rightarrow> mig_db \<Rightarrow> string option \<times> mig_db" where
  "exec_ddl now (CreateExtension x) db = (None, db\<lparr>md_extensions := List.insert x (md_extensions db)\<rparr>)"
| "exec_ddl now (CreateTable t) db = (case on_schema (create_table t) db of
      (Some e, db1) \<Rightarrow> (Some e, db1) | (None, db1) \<Rightarrow> (None, empty_table (tb_name t) db1))"
| "exec_ddl now (CreateIndex n t cs cond) db = on_schema (create_index n t cs) db"
| "exec_ddl now (AddColumn t c) db = on_schema (add_column t c) db"
| "exec_ddl now (DropTables ns isCascade) db = on_schema (drop_tables ns isCascade) db"
| "exec_ddl now (DropColumn t c ifExists) db = on_schema (drop_column t c ifExists) db"
| "exec_ddl now BackfillUsage db = backfill_usage now db"
| "exec_ddl now InitRollupState db = init_rollup_state db"

text \<open>
  The function of a migration: its statements in order, up to the first error. The statements run one by one on
  the handle the library gives (\<open>flt\<close> fails a statement by its position in the migration), so those before an
  error stay.
\<close>

fun exec_all :: "faults \<Rightarrow> int \<Rightarrow> string \<Rightarrow> nat \<Rightarrow> ddl list \<Rightarrow> mig_db \<Rightarrow> string option \<times> mig_db" where
  "exec_all flt now label k [] db = (None, db)"
| "exec_all flt now label k (d # ds) db =
    (if flt label (itoa (int k)) then (Some label, db)
     else case exec_ddl now d db of
       (Some e, db1) \<Rightarrow> (Some e, db1)
     | (None, db1) \<Rightarrow> exec_all flt now label (Suc k) ds db1)"

definition migrate_up :: "faults \<Rightarrow> int \<Rightarrow> migration \<Rightarrow> mig_db \<Rightarrow> string option \<times> mig_db" where
  "migrate_up flt now m = exec_all flt now (mg_ID m) 0 (mg_up m)"

definition migrate_down :: "faults \<Rightarrow> int \<Rightarrow> migration \<Rightarrow> mig_db \<Rightarrow> string option \<times> mig_db" where
  "migrate_down flt now m = exec_all flt now (mg_ID m) 0 (mg_down m)"

section \<open>Adoption (migrate.go)\<close>

definition gooseVersionIDs :: "(int \<times> string) list" where
  "gooseVersionIDs = [(1, ''0001_init''), (2, ''0002_deployment_workload_ref''), (3, ''0003_idempotency_keys''),
     (4, ''0004_chat_history''), (6, ''0006_usage_events''), (7, ''0007_session_title'')]"

definition gooseVersionToID :: "int \<Rightarrow> string" where
  "gooseVersionToID v = (case map_of gooseVersionIDs v of None \<Rightarrow> [] | Some i \<Rightarrow> i)"

definition record_applied :: "string \<Rightarrow> mig_db \<Rightarrow> mig_db" where
  "record_applied i db = db\<lparr>md_applied := map_option (\<lambda>xs. if List.member xs i then xs else xs @ [i]) (md_applied db)\<rparr>"

fun adopt_versions :: "faults \<Rightarrow> int list \<Rightarrow> mig_db \<Rightarrow> string option \<times> mig_db" where
  "adopt_versions flt [] db = (None, db)"
| "adopt_versions flt (v # vs) db =
    (let i = gooseVersionToID v in
     if i = [] then adopt_versions flt vs db
     else if flt ''adopt'' i then (Some (''adopt '' @ i), db)
     else adopt_versions flt vs (record_applied i db))"

text \<open>\<open>arrange\<close> is the order in which the versions are read.\<close>

definition adoptGoose :: "faults \<Rightarrow> (int list \<Rightarrow> int list) \<Rightarrow> mig_db \<Rightarrow> string option \<times> mig_db" where
  "adoptGoose flt arrange db =
    (if flt ''check goose table'' [] then (Some ''check goose table'', db)
     else case md_goose db of None \<Rightarrow> (None, db)
     | Some versions \<Rightarrow>
       if flt ''create migration table'' [] then (Some ''create migration table'', db)
       else let db1 = db\<lparr>md_applied := Some (case md_applied db of None \<Rightarrow> [] | Some xs \<Rightarrow> xs)\<rparr> in
       if flt ''count migrations'' [] then (Some ''count migrations'', db1)
       else if md_applied db1 \<noteq> Some [] then (None, db1)
       else if flt ''read goose versions'' [] then (Some ''read goose versions'', db1)
       else adopt_versions flt (arrange (map fst (filter (\<lambda>(v, applied). applied \<and> v > 0) versions))) db1)"

text \<open>\<open>Migrate\<close>: adoption, then the library's run of all migrations.\<close>

definition Migrate :: "(migration list \<Rightarrow> mig_db \<Rightarrow> string option \<times> mig_db) \<Rightarrow> faults \<Rightarrow> (int list \<Rightarrow> int list) \<Rightarrow>
    mig_db \<Rightarrow> string option \<times> mig_db" where
  "Migrate gormigrate flt arrange db = (case adoptGoose flt arrange db of
      (Some e, db1) \<Rightarrow> (Some e, db1) | (None, db1) \<Rightarrow> gormigrate All db1)"

end
