(* ===== verification/MigrationProofs.thy ===== *)
theory MigrationProofs
  imports Migrations UsageProofs
begin

text \<open>
  What the migrations establish: the invariant of the usage rollup, a schema that rolling back restores, and a
  boot that migrates once; and what an interruption leaves behind.
\<close>

section \<open>The library\<close>

text \<open>
  The documented behaviour of the migration library with its default options: it creates its table, passes over
  the migrations that are recorded, and runs the others in order, each followed by its record, up to the first
  that fails. What a failing migration has done stays.
\<close>

definition with_table :: "mig_db \<Rightarrow> mig_db" where
  "with_table db = db\<lparr>md_applied := Some (case md_applied db of None \<Rightarrow> [] | Some xs \<Rightarrow> xs)\<rparr>"

definition recorded :: "mig_db \<Rightarrow> string list" where
  "recorded db = (case md_applied db of None \<Rightarrow> [] | Some xs \<Rightarrow> xs)"

definition gormigrate_laws :: "faults \<Rightarrow> int \<Rightarrow> (migration list \<Rightarrow> mig_db \<Rightarrow> string option \<times> mig_db) \<Rightarrow> bool" where
  "gormigrate_laws flt now run \<longleftrightarrow>
     (\<forall>db. run [] db = (None, with_table db)) \<and>
     (\<forall>m ms db. mg_ID m \<in> set (recorded db) \<longrightarrow> run (m # ms) db = run ms db) \<and>
     (\<forall>m ms db e db1. mg_ID m \<notin> set (recorded db) \<longrightarrow> migrate_up flt now m (with_table db) = (Some e, db1) \<longrightarrow>
        run (m # ms) db = (Some e, db1)) \<and>
     (\<forall>m ms db db1. mg_ID m \<notin> set (recorded db) \<longrightarrow> migrate_up flt now m (with_table db) = (None, db1) \<longrightarrow>
        run (m # ms) db = run ms (record_applied (mg_ID m) db1))"

text \<open>The function these laws determine.\<close>

fun run_pending :: "faults \<Rightarrow> int \<Rightarrow> migration list \<Rightarrow> mig_db \<Rightarrow> string option \<times> mig_db" where
  "run_pending flt now [] db = (None, with_table db)"
| "run_pending flt now (m # ms) db =
    (if mg_ID m \<in> set (recorded db) then run_pending flt now ms db
     else case migrate_up flt now m (with_table db) of
       (Some e, db1) \<Rightarrow> (Some e, db1)
     | (None, db1) \<Rightarrow> run_pending flt now ms (record_applied (mg_ID m) db1))"

lemma run_pending_laws: "gormigrate_laws flt now (run_pending flt now)"
  by (simp add: gormigrate_laws_def)

lemma laws_determine: "gormigrate_laws flt now run \<Longrightarrow> run ms db = run_pending flt now ms db"
proof (induction ms arbitrary: db)
  case (Cons m ms)
  show ?case
  proof (cases "mg_ID m \<in> set (recorded db)")
    case True
    then show ?thesis using Cons by (simp add: gormigrate_laws_def)
  next
    case False
    obtain r db1 where up: "migrate_up flt now m (with_table db) = (r, db1)" by (rule prod.exhaust)
    show ?thesis
      using Cons.IH[OF Cons.prems] Cons.prems[unfolded gormigrate_laws_def] False up by (cases r) simp_all
  qed
qed (simp add: gormigrate_laws_def)

lemma with_table_idem [simp]: "with_table (with_table db) = with_table db" "recorded (with_table db) = recorded db"
  by (simp_all add: with_table_def recorded_def)

lemma with_table_fields [simp]:
  "md_schema (with_table db) = md_schema db" "md_usage (with_table db) = md_usage db"
  "md_rollup_row (with_table db) = md_rollup_row db" "md_goose (with_table db) = md_goose db"
  "md_applied (with_table db) = Some (recorded db)"
  by (simp_all add: with_table_def recorded_def)

lemma record_applied_fields [simp]:
  "md_schema (record_applied i db) = md_schema db" "md_usage (record_applied i db) = md_usage db"
  "md_rollup_row (record_applied i db) = md_rollup_row db" "md_goose (record_applied i db) = md_goose db"
  by (simp_all add: record_applied_def)

lemma recorded_applied: "md_applied db = Some xs \<Longrightarrow> set (recorded (record_applied i db)) = insert i (set xs)"
  by (auto simp: recorded_def record_applied_def)

section \<open>What statements leave alone\<close>

lemma on_schema_fields: "on_schema f db = (r, db') \<Longrightarrow>
    md_applied db' = md_applied db \<and> md_goose db' = md_goose db \<and> md_usage db' = md_usage db \<and> md_rollup_row db' = md_rollup_row db"
  by (auto simp: on_schema_def split: sum.splits)

lemma exec_ddl_applied: "exec_ddl now d db = (r, db') \<Longrightarrow> md_applied db' = md_applied db \<and> md_goose db' = md_goose db"
  by (cases d) (auto simp: backfill_usage_def init_rollup_state_def empty_table_def
      split: prod.splits sum.splits if_splits option.splits dest!: on_schema_fields)

lemma exec_all_applied: "exec_all flt now l k ds db = (r, db') \<Longrightarrow> md_applied db' = md_applied db \<and> md_goose db' = md_goose db"
  by (induction ds arbitrary: k db) (fastforce split: if_splits prod.splits option.splits dest: exec_ddl_applied)+

text \<open>Statements that touch no row of usage.\<close>

definition no_usage :: "ddl \<Rightarrow> bool" where
  "no_usage d = (case d of BackfillUsage \<Rightarrow> False | InitRollupState \<Rightarrow> False
     | CreateTable t \<Rightarrow> \<not> List.member [''usage_events'', ''usage_daily'', ''usage_rollup_state''] (tb_name t) | _ \<Rightarrow> True)"

lemma no_usage_ddl: "exec_ddl now d db = (r, db') \<Longrightarrow> no_usage d \<Longrightarrow> md_usage db' = md_usage db"
  by (cases d) (auto simp: no_usage_def empty_table_def split: prod.splits option.splits if_splits dest!: on_schema_fields)

lemma no_usage_all: "exec_all flt now l k ds db = (r, db') \<Longrightarrow> list_all no_usage ds \<Longrightarrow> md_usage db' = md_usage db"
  by (induction ds arbitrary: k db) (fastforce split: if_splits prod.splits option.splits dest: no_usage_ddl)+

lemma run_pending_append: "run_pending flt now (xs @ ys) db =
    (case run_pending flt now xs db of (Some e, d) \<Rightarrow> (Some e, d) | (None, d) \<Rightarrow> run_pending flt now ys d)"
proof (induction xs arbitrary: db)
  case Nil
  have "run_pending flt now ys (with_table db) = run_pending flt now ys db" for db
    by (induction ys arbitrary: db) simp_all
  then show ?case by simp
qed (auto split: prod.splits option.splits)

lemma run_pending_recorded:
  "run_pending flt now ms db = (None, db') \<Longrightarrow> md_goose db' = md_goose db \<and>
     md_applied db' = Some (recorded db') \<and> set (recorded db') = set (recorded db) \<union> mg_ID ` set ms"
proof (induction ms arbitrary: db)
  case (Cons m ms)
  show ?case
  proof (cases "mg_ID m \<in> set (recorded db)")
    case True
    then show ?thesis using Cons by auto
  next
    case False
    then obtain db1 where up: "migrate_up flt now m (with_table db) = (None, db1)"
      "run_pending flt now ms (record_applied (mg_ID m) db1) = (None, db')"
      using Cons.prems by (auto split: prod.splits option.splits)
    have "md_applied db1 = Some (recorded db)" "md_goose db1 = md_goose db"
      using exec_all_applied[OF up(1)[unfolded migrate_up_def]] by simp_all
    then show ?thesis using Cons.IH[OF up(2)] recorded_applied[of db1 "recorded db"] by auto
  qed
next
  case Nil
  then have "db' = with_table db" by simp
  then show ?case by simp
qed

lemma run_pending_no_usage:
  "run_pending flt now ms db = (None, db') \<Longrightarrow> \<forall>m \<in> set ms. list_all no_usage (mg_up m) \<Longrightarrow> md_usage db' = md_usage db"
proof (induction ms arbitrary: db)
  case (Cons m ms)
  show ?case
  proof (cases "mg_ID m \<in> set (recorded db)")
    case False
    then obtain db1 where up: "migrate_up flt now m (with_table db) = (None, db1)"
      "run_pending flt now ms (record_applied (mg_ID m) db1) = (None, db')"
      using Cons.prems(1) by (auto split: prod.splits option.splits)
    then show ?thesis using Cons.IH[OF up(2)] Cons.prems(2) no_usage_all[OF up(1)[unfolded migrate_up_def]] by simp
  qed (use Cons in simp)
next
  case Nil
  then have "db' = with_table db" by simp
  then show ?case by simp
qed

section \<open>The start of the rollup\<close>

lemma daily_of_backfill: "daily_of k (backfill_rows now evs) = event_vals k evs"
proof -
  have "tbl_find daily_key k (backfill_rows now evs) =
    (if k \<in> event_key ` set evs then
       Some (case k of (t, m, dy) \<Rightarrow> (let es = filter (\<lambda>e. event_key e = k) evs in
       \<lparr>d_TenantID = t, d_Model = m, d_Day = dy, d_PromptTokens = sum_of u_PromptTokens es,
       d_CompletionTokens = sum_of u_CompletionTokens es, d_Requests = int (length es), d_UpdatedAt = now\<rparr>))
     else None)"
    unfolding backfill_rows_def
    by (subst find_group_by) (auto simp: daily_key_def Let_def split: prod.splits)
  then show ?thesis
    using event_vals_none[of k evs] by (cases k) (auto simp: daily_of_def row_vals_def event_vals_def Let_def)
qed

lemma backfill_keys: "distinct (map daily_key (backfill_rows now evs))"
  by (simp add: backfill_rows_def group_by_def comp_def daily_key_def case_prod_unfold)

lemma coalesce_max_ge: "e \<in> set evs \<Longrightarrow> u_ID e \<le> coalesce_max evs"
  by (cases evs) (auto simp: coalesce_max_def fold_max_ge fold_max_acc)

definition usage_migrations :: "migration list" where
  "usage_migrations = [M0009UsageDaily, M0010BackfillUsageDaily, M0011UsageRollupState]"

definition before_usage :: "migration list" where
  "before_usage = [M0001Init, M0002DeploymentWorkloadRef, M0003IdempotencyKeys, M0004ChatHistory, M0006UsageEvents,
     M0007SessionTitle, M0008Outbox]"

definition after_usage :: "migration list" where
  "after_usage = [M0012ModelPricing, M0013WalletLedger, M0014APIKeyRevoke, M0015ImageAssets, M0016ImageJobs, M0017MessageImages]"

lemma All_parts: "All = before_usage @ usage_migrations @ after_usage"
  by (simp add: All_def before_usage_def usage_migrations_def after_usage_def)

lemma after_usage_quiet: "\<forall>m \<in> set after_usage. list_all no_usage (mg_up m)"
  by code_simp

lemma usage_ids: "map mg_ID usage_migrations = [''0009_usage_daily'', ''0010_backfill_usage_daily'', ''0011_usage_rollup_state'']"
  "mg_ID ` set before_usage \<inter> mg_ID ` set usage_migrations = {}"
  by code_simp+

lemma up_usage_daily:
  assumes "migrate_up flt now M0009UsageDaily db = (None, db1)"
  shows "daily (md_usage db1) = [] \<and> events (md_usage db1) = events (md_usage db)"
  using assms
  by (auto simp: migrate_up_def M0009UsageDaily_def table_def on_schema_def empty_table_def
      split: if_splits sum.splits prod.splits option.splits)

lemma up_backfill:
  assumes "migrate_up flt now M0010BackfillUsageDaily db = (None, db1)" "daily (md_usage db) = []"
  shows "tbl_unique daily_key (daily (md_usage db1)) \<and> events (md_usage db1) = events (md_usage db) \<and>
    (\<forall>k. daily_of k (daily (md_usage db1)) = event_vals k (events (md_usage db)))"
proof -
  obtain u where u: "upsert_all no_faults now (backfill_rows now (events (md_usage db))) (md_usage db) = (Inr (), u)"
    "db1 = db\<lparr>md_usage := u\<rparr>"
    using assms(1) by (auto simp: migrate_up_def M0010BackfillUsageDaily_def backfill_usage_def
      split: if_splits sum.splits prod.splits option.splits)
  show ?thesis
    using upsert_all_commit[OF u(1) _ backfill_keys] assms(2) u(2)
    by (auto simp: daily_of_backfill only_daily_def tbl_unique_def daily_of_def[of _ "[]"])
qed

lemma up_rollup_state:
  assumes "migrate_up flt now M0011UsageRollupState db = (None, db1)"
  shows "md_usage db1 = (md_usage db)\<lparr>last_event_id := coalesce_max (events (md_usage db))\<rparr>"
  using assms
  by (auto simp: migrate_up_def M0011UsageRollupState_def table_def on_schema_def empty_table_def init_rollup_state_def
      split: if_splits sum.splits prod.splits option.splits)

lemma usage_migrations_roll:
  assumes "run_pending flt now usage_migrations db = (None, db')"
    and "mg_ID ` set usage_migrations \<inter> set (recorded db) = {}"
  shows "rolled (md_usage db') \<and> counted (md_usage db') = events (md_usage db')"
proof -
  let ?i9 = "mg_ID M0009UsageDaily" and ?i10 = "mg_ID M0010BackfillUsageDaily" and ?i11 = "mg_ID M0011UsageRollupState"
  have ids: "?i9 \<noteq> ?i10" "?i10 \<noteq> ?i11" "?i9 \<noteq> ?i11" by code_simp+
  have new: "?i9 \<notin> set (recorded db)" "?i10 \<notin> set (recorded db)" "?i11 \<notin> set (recorded db)"
    using assms(2) by (auto simp: usage_migrations_def)
  obtain d1 where d1: "migrate_up flt now M0009UsageDaily (with_table db) = (None, d1)"
    "run_pending flt now [M0010BackfillUsageDaily, M0011UsageRollupState] (record_applied ?i9 d1) = (None, db')"
    using assms(1) new(1) by (auto simp: usage_migrations_def split: prod.splits option.splits)
  have r1: "set (recorded (record_applied ?i9 d1)) = insert ?i9 (set (recorded db))"
    using exec_all_applied[OF d1(1)[unfolded migrate_up_def]] recorded_applied[of d1 "recorded db"] by simp
  obtain d2 where d2: "migrate_up flt now M0010BackfillUsageDaily (with_table (record_applied ?i9 d1)) = (None, d2)"
    "run_pending flt now [M0011UsageRollupState] (record_applied ?i10 d2) = (None, db')"
    using d1(2) r1 new(2) ids by (auto split: prod.splits option.splits)
  have r2: "set (recorded (record_applied ?i10 d2)) = insert ?i10 (set (recorded (record_applied ?i9 d1)))"
    using exec_all_applied[OF d2(1)[unfolded migrate_up_def]] recorded_applied[of d2] by simp
  obtain d3 where d3: "migrate_up flt now M0011UsageRollupState (with_table (record_applied ?i10 d2)) = (None, d3)"
    "db' = with_table (record_applied ?i11 d3)"
    using d2(2) r1 r2 new(3) ids by (auto split: prod.splits option.splits)
  note steps = up_usage_daily[OF d1(1)] up_backfill[OF d2(1)] up_rollup_state[OF d3(1)]
  have u: "md_usage db' = (md_usage d2)\<lparr>last_event_id := coalesce_max (events (md_usage d2))\<rparr>"
    using steps(3) d3(2) by simp
  have all: "counted (md_usage db') = events (md_usage db')"
    unfolding counted_def u by (simp add: coalesce_max_ge)
  then show ?thesis
    using steps(1,2) unfolding rolled_iff all by (simp add: u)
qed

lemma record_applied_recorded: "set (recorded (record_applied i db)) \<subseteq> insert i (set (recorded db))"
  by (auto simp: recorded_def record_applied_def split: option.splits if_splits)

lemma adopted_usage: "adopt_versions flt vs db = (r, db') \<Longrightarrow>
    md_usage db' = md_usage db \<and> md_schema db' = md_schema db \<and> md_goose db' = md_goose db \<and>
    set (recorded db') \<subseteq> set (recorded db) \<union> gooseVersionToID ` set vs"
proof (induction vs arbitrary: db)
  case (Cons v vs)
  show ?case
  proof (cases "gooseVersionToID v = [] \<or> flt ''adopt'' (gooseVersionToID v)")
    case True
    then show ?thesis using Cons by (auto simp: Let_def split: if_splits)
  next
    case False
    then have "adopt_versions flt vs (record_applied (gooseVersionToID v) db) = (r, db')" using Cons.prems by (simp add: Let_def)
    from Cons.IH[OF this] show ?thesis using record_applied_recorded[of "gooseVersionToID v" db] by auto
  qed
qed simp

lemma goose_ids: "gooseVersionToID v \<notin> mg_ID ` set usage_migrations"
proof (cases "map_of gooseVersionIDs v")
  case (Some i)
  have "(v, i) \<in> set gooseVersionIDs" using Some by (rule map_of_SomeD)
  then have "i \<in> snd ` set gooseVersionIDs" by force
  moreover have "snd ` set gooseVersionIDs \<inter> mg_ID ` set usage_migrations = {}" by code_simp
  ultimately show ?thesis using Some by (auto simp: gooseVersionToID_def)
next
  case None
  have "[] \<notin> mg_ID ` set usage_migrations" by code_simp
  then show ?thesis using None by (simp add: gooseVersionToID_def)
qed

lemma adoptGoose_effect:
  assumes "adoptGoose flt arrange db = (r, db')"
  shows "md_usage db' = md_usage db \<and> md_schema db' = md_schema db \<and> md_goose db' = md_goose db \<and>
    (mg_ID ` set usage_migrations \<inter> set (recorded db) = {} \<longrightarrow> mg_ID ` set usage_migrations \<inter> set (recorded db') = {})"
proof -
  let ?db1 = "db\<lparr>md_applied := Some (case md_applied db of None \<Rightarrow> [] | Some xs \<Rightarrow> xs)\<rparr>"
  consider (same) "db' = db" | (table) "db' = ?db1" | (adopted) vs where "adopt_versions flt vs ?db1 = (r, db')"
    using assms by (auto simp: adoptGoose_def Let_def split: if_splits option.splits)
  then show ?thesis
  proof cases
    case table
    then show ?thesis by (simp add: recorded_def)
  next
    case adopted
    have "recorded ?db1 = recorded db" by (simp add: recorded_def)
    moreover have "mg_ID ` set usage_migrations \<inter> gooseVersionToID ` set vs = {}" by (metis (no_types, lifting) disjoint_iff goose_ids imageE)
    ultimately show ?thesis using adopted_usage[OF adopted] by simp blast
  qed simp
qed

lemma migrated_rolls:
  assumes "gormigrate_laws flt now run" "Migrate run flt' arrange db = (None, db')"
    and "mg_ID ` set usage_migrations \<inter> set (recorded db) = {}"
  shows "rolled (md_usage db') \<and> counted (md_usage db') = events (md_usage db')"
proof -
  obtain d0 where d0: "adoptGoose flt' arrange db = (None, d0)" "run_pending flt now All d0 = (None, db')"
    using assms(2) laws_determine[OF assms(1)] by (auto simp: Migrate_def split: prod.splits option.splits)
  obtain d1 where d1: "run_pending flt now before_usage d0 = (None, d1)"
    "run_pending flt now (usage_migrations @ after_usage) d1 = (None, db')"
    using d0(2) unfolding All_parts run_pending_append[of flt now before_usage] by (auto split: prod.splits option.splits)
  obtain d2 where d2: "run_pending flt now usage_migrations d1 = (None, d2)" "run_pending flt now after_usage d2 = (None, db')"
    using d1(2) unfolding run_pending_append by (auto split: prod.splits option.splits)
  have "mg_ID ` set usage_migrations \<inter> set (recorded d1) = {}"
    using adoptGoose_effect[OF d0(1)] assms(3) run_pending_recorded[OF d1(1)] usage_ids(2) by blast
  from usage_migrations_roll[OF d2(1) this] show ?thesis
    using run_pending_no_usage[OF d2(2) after_usage_quiet] by simp
qed

text \<open>
  C38: the migrations hand the rollup a database on which it is exact. Whatever events the table holds, when the
  migrations that introduce the daily sums run through, on a fresh database, on one that older migrations or goose
  have prepared, every bucket is the sum of the events of its tenant, model and day and the watermark covers them
  all; and from there every run of recorders and rollups that commits ahead of the watermark keeps each bucket
  the sum of the events up to the watermark.
\<close>

theorem migrations_start_the_rollup:
  assumes "gormigrate_laws flt now run" "Migrate run flt' arrange db = (None, db')"
    and "mg_ID ` set usage_migrations \<inter> set (recorded db) = {}"
    and "commits_ahead steps (md_usage db')"
  shows "counted (md_usage db') = events (md_usage db') \<and> rolled (fold run_step steps (md_usage db'))"
  using migrated_rolls[OF assms(1-3)] rolled_steps[OF _ assms(4)] by blast

section \<open>A boot migrates once\<close>

lemma migrated_recorded:
  assumes "gormigrate_laws flt now run" "Migrate run flt' arrange db = (None, db')"
  shows "md_applied db' = Some (recorded db') \<and> mg_ID ` set All \<subseteq> set (recorded db')"
proof -
  obtain d0 where "run_pending flt now All d0 = (None, db')"
    using assms(2) laws_determine[OF assms(1)] by (auto simp: Migrate_def split: prod.splits option.splits)
  from run_pending_recorded[OF this] show ?thesis by auto
qed

lemma run_pending_nothing:
  "mg_ID ` set ms \<subseteq> set (recorded db) \<Longrightarrow> run_pending flt now ms db = (None, with_table db)"
  by (induction ms arbitrary: db) auto

text \<open>Every later boot, whatever fails in it, leaves the database as the first one left it.\<close>

lemma later_boots_change_nothing:
  assumes "gormigrate_laws flt now run" "Migrate run flt1 arrange db = (None, db')"
    and "gormigrate_laws flt2 now2 run2"
  shows "snd (Migrate run2 flt3 arrange2 db') = db'"
proof -
  have rec: "md_applied db' = Some (recorded db')" "mg_ID ` set All \<subseteq> set (recorded db')"
    using migrated_recorded[OF assms(1,2)] by blast+
  have ne: "recorded db' \<noteq> []" using rec(2) by (auto simp: All_def)
  have same: "db'\<lparr>md_applied := Some (recorded db')\<rparr> = db'" using rec(1) by (metis (no_types, lifting) mig_db.surjective mig_db.update_convs(3))
  then have "with_table db' = db'" by (simp add: with_table_def recorded_def)
  then have run: "run2 All db' = (None, db')"
    using laws_determine[OF assms(3)] run_pending_nothing[OF rec(2)] by simp
  have "snd (adoptGoose flt3 arrange2 db') = db'"
    using rec(1) ne same by (auto simp: adoptGoose_def Let_def split: option.splits)
  then obtain r where "adoptGoose flt3 arrange2 db' = (r, db')" by (metis prod.collapse)
  then show ?thesis using run by (cases r) (simp_all add: Migrate_def)
qed

section \<open>Rolling back\<close>

text \<open>
  A schema is well formed when its table names are distinct, every reference is to a table it has and every index
  belongs to one.
\<close>

definition wf_schema :: "schema \<Rightarrow> bool" where
  "wf_schema s \<longleftrightarrow> distinct (table_names s) \<and> (\<forall>t \<in> set (sc_tables s). set (ref_tables t) \<subseteq> set (table_names s)) \<and>
     snd ` set (sc_indexes s) \<subseteq> set (table_names s)"

text \<open>Lists of statements that only create: the tables they create, and the tables they index.\<close>

fun created :: "ddl list \<Rightarrow> string list" where
  "created [] = []"
| "created (CreateTable t # ds) = tb_name t # created ds"
| "created (_ # ds) = created ds"

fun indexed :: "ddl list \<Rightarrow> string list" where
  "indexed [] = []"
| "indexed (CreateIndex _ t _ _ # ds) = t # indexed ds"
| "indexed (_ # ds) = indexed ds"

definition creating :: "ddl \<Rightarrow> bool" where
  "creating d = (case d of CreateExtension _ \<Rightarrow> True | CreateTable _ \<Rightarrow> True | CreateIndex _ _ _ _ \<Rightarrow> True
     | InitRollupState \<Rightarrow> True | _ \<Rightarrow> False)"

definition extends_by :: "schema \<Rightarrow> string list \<Rightarrow> string list \<Rightarrow> schema \<Rightarrow> bool" where
  "extends_by s ns xs s' \<longleftrightarrow> (\<exists>ts ixs. s' = s\<lparr>sc_tables := sc_tables s @ ts, sc_indexes := sc_indexes s @ ixs\<rparr> \<and>
     map tb_name ts = ns \<and> set ns \<inter> set (table_names s) = {} \<and> snd ` set ixs \<subseteq> set xs)"

lemma empty_table_schema [simp]: "md_schema (empty_table n db) = md_schema db"
  by (simp add: empty_table_def)

lemma exec_creating:
  assumes "exec_ddl now d db = (None, db')" "creating d"
  shows "extends_by (md_schema db) (created [d]) (indexed [d]) (md_schema db')"
proof (cases d)
  case (CreateTable t)
  then have "md_schema db' = (md_schema db)\<lparr>sc_tables := sc_tables (md_schema db) @ [t]\<rparr>"
    "tb_name t \<notin> set (table_names (md_schema db))"
    using assms(1) by (auto simp: on_schema_def create_table_def split: prod.splits option.splits sum.splits if_splits)
  then show ?thesis unfolding extends_by_def CreateTable by (intro exI[of _ "[t]"] exI[of _ "[]"]) simp
next
  case (CreateIndex n t cs c)
  then have "md_schema db' = (md_schema db)\<lparr>sc_indexes := sc_indexes (md_schema db) @ [(n, t)]\<rparr>"
    using assms(1) by (auto simp: on_schema_def create_index_def split: option.splits sum.splits if_splits)
  then show ?thesis unfolding extends_by_def CreateIndex by (intro exI[of _ "[]"] exI[of _ "[(n, t)]"]) simp
qed (use assms in \<open>auto simp: creating_def extends_by_def init_rollup_state_def split: if_splits\<close>)

lemma extends_by_trans:
  assumes "extends_by s ns xs s1" "extends_by s1 ms ys s2"
  shows "extends_by s (ns @ ms) (xs @ ys) s2"
proof -
  obtain ts ixs where 1: "s1 = s\<lparr>sc_tables := sc_tables s @ ts, sc_indexes := sc_indexes s @ ixs\<rparr>" "map tb_name ts = ns"
    "set ns \<inter> set (table_names s) = {}" "snd ` set ixs \<subseteq> set xs" using assms(1) by (auto simp: extends_by_def)
  obtain us js where 2: "s2 = s1\<lparr>sc_tables := sc_tables s1 @ us, sc_indexes := sc_indexes s1 @ js\<rparr>" "map tb_name us = ms"
    "set ms \<inter> set (table_names s1) = {}" "snd ` set js \<subseteq> set ys" using assms(2) by (auto simp: extends_by_def)
  have "set (table_names s) \<subseteq> set (table_names s1)" using 1(1) by (auto simp: table_names_def)
  then show ?thesis unfolding extends_by_def
    using 1 2 by (intro exI[of _ "ts @ us"] exI[of _ "ixs @ js"]) auto
qed

lemma exec_all_creating:
  "exec_all flt now l k ds db = (None, db') \<Longrightarrow> list_all creating ds \<Longrightarrow>
     extends_by (md_schema db) (created ds) (indexed ds) (md_schema db')"
proof (induction ds arbitrary: k db)
  case (Cons d ds)
  obtain db1 where d: "exec_ddl now d db = (None, db1)" "exec_all flt now l (Suc k) ds db1 = (None, db')"
    using Cons.prems(1) by (auto split: if_splits prod.splits option.splits)
  have "created (d # ds) = created [d] @ created ds" "indexed (d # ds) = indexed [d] @ indexed ds" by (cases d; simp)+
  then show ?case
    using extends_by_trans[OF exec_creating[OF d(1)] Cons.IH[OF d(2)]] Cons.prems(2) by simp
next
  case Nil
  then show ?case by (auto simp: extends_by_def intro!: exI[of _ "[]"])
qed

lemma forget_refs_same: "set (ref_tables t) \<inter> set ns = {} \<Longrightarrow> forget_refs ns t = t"
proof -
  assume a: "set (ref_tables t) \<inter> set ns = {}"
  have "map (\<lambda>c. case cl_ref c of Some (r, _) \<Rightarrow> if List.member ns r then c\<lparr>cl_ref := None\<rparr> else c | None \<Rightarrow> c) (tb_columns t) = tb_columns t"
  proof (rule map_idI)
    fix c assume c: "c \<in> set (tb_columns t)"
    have "r \<notin> set ns" if "cl_ref c = Some (r, d)" for r d
    proof -
      have "r \<in> set (ref_tables t)" using c that by (force simp: ref_tables_def List.map_filter_def)
      then show ?thesis using a by auto
    qed
    then show "(case cl_ref c of Some (r, _) \<Rightarrow> if List.member ns r then c\<lparr>cl_ref := None\<rparr> else c | None \<Rightarrow> c) = c"
      by (auto split: option.splits)
  qed
  then show ?thesis by (simp add: forget_refs_def)
qed

lemma drop_created:
  assumes "extends_by s ns xs s'" "wf_schema s" "set ds = set ns" "set xs \<subseteq> set ns"
  shows "drop_tables ds c s' = Inr s"
proof -
  obtain ts ixs where s': "s' = s\<lparr>sc_tables := sc_tables s @ ts, sc_indexes := sc_indexes s @ ixs\<rparr>" "map tb_name ts = ns"
    "set ns \<inter> set (table_names s) = {}" "snd ` set ixs \<subseteq> set xs" using assms(1) by (auto simp: extends_by_def)
  have new: "tb_name t \<in> set ds" if "t \<in> set ts" for t
    unfolding assms(3) s'(2)[symmetric] using that by simp
  have out: "n \<notin> set ds" if "n \<in> set (table_names s)" for n using that s'(3) assms(3) by blast
  have old: "tb_name t \<notin> set ds" "set (ref_tables t) \<inter> set ds = {}" if "t \<in> set (sc_tables s)" for t
  proof -
    show "tb_name t \<notin> set ds" using that by (intro out) (simp add: table_names_def)
    have "set (ref_tables t) \<subseteq> set (table_names s)" using that assms(2) by (simp add: wf_schema_def)
    then show "set (ref_tables t) \<inter> set ds = {}" using out by blast
  qed
  have idx: "snd i \<in> set ds" if "i \<in> set ixs" for i using that s'(4) assms(3,4) by blast
  have oidx: "snd i \<notin> set ds" if "i \<in> set (sc_indexes s)" for i
    using that assms(2) by (intro out) (auto simp: wf_schema_def)
  have kept: "filter (\<lambda>t. \<not> List.member ds (tb_name t)) (sc_tables s') = sc_tables s"
    using new old by (simp add: s'(1) filter_empty_conv filter_id_conv)
  have kept_idx: "filter (\<lambda>i. \<not> List.member ds (snd i)) (sc_indexes s') = sc_indexes s"
    using idx oidx by (simp add: s'(1) filter_empty_conv filter_id_conv)
  have refs: "map (forget_refs ds) (sc_tables s) = sc_tables s"
    using old by (intro map_idI forget_refs_same) auto
  have free: "\<not> list_ex (\<lambda>t. list_ex (List.member ds) (ref_tables t)) (sc_tables s)"
    using old(2) by (fastforce simp: list_ex_iff)
  show ?thesis unfolding drop_tables_def Let_def kept kept_idx refs using free by (simp add: s'(1))
qed

lemma drop_added:
  assumes "add_column n c s = Inr s'" "wf_schema s"
  shows "drop_column n (cl_name c) b s' = Inr s"
proof -
  obtain t where t: "find (\<lambda>t. tb_name t = n) (sc_tables s) = Some t" "cl_name c \<notin> set (column_names t)"
    "s' = on_table n (\<lambda>t. t\<lparr>tb_columns := tb_columns t @ [c]\<rparr>) s"
    using assms(1) by (auto simp: add_column_def split: option.splits if_splits)
  have only: "u = t" if "u \<in> set (sc_tables s)" "tb_name u = n" for u
    using that t(1) assms(2) by (metis (mono_tags, lifting) find_Some_iff nth_mem table_names_def wf_schema_def distinct_map inj_on_eq_iff)
  have free: "filter (\<lambda>x. cl_name x \<noteq> cl_name c) (tb_columns u) = tb_columns u" if "u \<in> set (sc_tables s)" "tb_name u = n" for u
  proof (rule filter_True, rule ballI)
    fix x assume "x \<in> set (tb_columns u)"
    then have "cl_name x \<in> set (column_names t)" using only[OF that] by (simp add: column_names_def)
    then show "cl_name x \<noteq> cl_name c" using t(2) by auto
  qed
  have "find (\<lambda>t. tb_name t = n) (sc_tables s') = Some (t\<lparr>tb_columns := tb_columns t @ [c]\<rparr>)"
  proof -
    have "find (\<lambda>t. tb_name t = n) (map (\<lambda>t. if tb_name t = n then t\<lparr>tb_columns := tb_columns t @ [c]\<rparr> else t) ts) =
        map_option (\<lambda>t. t\<lparr>tb_columns := tb_columns t @ [c]\<rparr>) (find (\<lambda>t. tb_name t = n) ts)" for ts :: "table_def list"
      by (induction ts) auto
    then show ?thesis using t(1,3) by (simp add: on_table_def)
  qed
  moreover have "on_table n (\<lambda>t. t\<lparr>tb_columns := filter (\<lambda>x. cl_name x \<noteq> cl_name c) (tb_columns t)\<rparr>) s' = s"
  proof -
    have "map (\<lambda>u. if tb_name u = n then u\<lparr>tb_columns := filter (\<lambda>x. cl_name x \<noteq> cl_name c) (tb_columns u)\<rparr> else u) (sc_tables s) = sc_tables s"
      using free by (intro map_idI) auto
    then show ?thesis by (simp add: t(3) on_table_def comp_def if_distrib[of tb_name] cong: if_cong)
  qed
  ultimately show ?thesis by (simp add: drop_column_def column_names_def)
qed

text \<open>The three shapes of a migration and its rollback.\<close>

definition undoes_tables :: "migration \<Rightarrow> bool" where
  "undoes_tables m \<longleftrightarrow> list_all creating (mg_up m) \<and> (case mg_down m of
     [DropTables ds c] \<Rightarrow> set ds = set (created (mg_up m)) \<and> set (indexed (mg_up m)) \<subseteq> set (created (mg_up m)) | _ \<Rightarrow> False)"

fun column_pair :: "ddl list \<Rightarrow> ddl list \<Rightarrow> bool" where
  "column_pair [AddColumn n c] [DropColumn n' x b] \<longleftrightarrow> n' = n \<and> x = cl_name c"
| "column_pair _ _ \<longleftrightarrow> False"

fun_cases column_pairE: "column_pair us ds"

definition undoes_column :: "migration \<Rightarrow> bool" where
  "undoes_column m \<longleftrightarrow> column_pair (mg_up m) (mg_down m)"

definition keeps_schema :: "migration \<Rightarrow> bool" where
  "keeps_schema m \<longleftrightarrow> mg_up m = [BackfillUsage] \<and> mg_down m = []"

lemma shapes: "list_all (\<lambda>m. undoes_tables m \<or> undoes_column m \<or> keeps_schema m) All"
  by code_simp


section \<open>Examples\<close>

definition blank_db :: mig_db where
  "blank_db = \<lparr>md_schema = \<lparr>sc_tables = [], sc_indexes = []\<rparr>, md_extensions = [], md_applied = None, md_goose = None,
     md_usage = empty_usage, md_rollup_row = False\<rparr>"

text \<open>A fresh database: everything runs, and the tables are there in the end.\<close>

lemma fresh_migration:
  "(let (r, db) = Migrate (run_pending no_faults 50) no_faults id blank_db in
     r = None \<and> md_applied db = Some (map mg_ID All) \<and>
     table_names (md_schema db) = [''tenants'', ''users'', ''tenant_memberships'', ''api_keys'', ''tenant_quotas'', ''models'',
       ''model_versions'', ''serving_templates'', ''serving_template_versions'', ''deployments'', ''deployment_revisions'',
       ''endpoints'', ''idempotency_keys'', ''sessions'', ''messages'', ''usage_events'', ''outbox'', ''usage_daily'',
       ''usage_rollup_state'', ''model_pricing'', ''wallets'', ''ledger_entries'', ''wallet_reservations'',
       ''topup_transactions'', ''image_assets'', ''image_jobs''])"
  by code_simp

text \<open>A database that goose has brought to version 7, in use: two events were recorded.\<close>

definition goose_db :: mig_db where
  "goose_db = (snd (run_pending no_faults 1 (take 6 All) blank_db))
     \<lparr>md_applied := None, md_goose := Some [(0, True), (1, True), (2, True), (3, True), (4, True), (6, True), (7, True)],
      md_usage := fold run_step [StepInsert 10 ''t'' ''m'' 3 4, StepInsert 11 ''t'' ''m'' 5 6, StepCommit 1, StepCommit 2] empty_usage\<rparr>"

lemma goose_adoption:
  "(let (r, db) = Migrate (run_pending no_faults 50) no_faults id goose_db in
     r = None \<and> commits_ahead [StepInsert 60 ''t'' ''m'' 1 1, StepCommit 3, StepRollup no_faults 70] (md_usage db) \<and>
     daily_of (''t'', ''m'', 0) (daily (md_usage db)) = (8, 10, 2))"
  by code_simp

theorem migrations_start_the_rollup_witness:
  "let db' = snd (Migrate (run_pending no_faults 50) no_faults id goose_db) in
     rolled (fold run_step [StepInsert 60 ''t'' ''m'' 1 1, StepCommit 3, StepRollup no_faults 70] (md_usage db')) \<and>
     daily_of (''t'', ''m'', 0) (daily (md_usage db')) = (8, 10, 2)"
proof -
  let ?run = "Migrate (run_pending no_faults 50) no_faults id goose_db"
  have ok: "?run = (None, snd ?run)"
    and ahead: "commits_ahead [StepInsert 60 ''t'' ''m'' 1 1, StepCommit 3, StepRollup no_faults 70] (md_usage (snd ?run))"
    and day: "daily_of (''t'', ''m'', 0) (daily (md_usage (snd ?run))) = (8, 10, 2)"
    using goose_adoption by (simp_all add: Let_def split_beta prod_eq_iff)
  have "recorded goose_db = []" by (simp add: recorded_def goose_db_def)
  then have new: "mg_ID ` set usage_migrations \<inter> set (recorded goose_db) = {}" by simp
  show ?thesis using migrations_start_the_rollup[OF run_pending_laws ok new ahead] day by (simp add: Let_def)
qed


section \<open>Interruptions\<close>

text \<open>
  A migration of several statements that is interrupted in the middle is not recorded, and what it created stays:
  the next boot runs it again from the start, fails on the first table that exists, and so does every later one.
\<close>

lemma interrupted_migration_blocks_the_boot:
  "(let db1 = snd (Migrate (run_pending (\<lambda>l k. l = ''0001_init'' \<and> k = ''3'') 1) no_faults id blank_db);
        db2 = snd (Migrate (run_pending no_faults 2) no_faults id db1)
    in fst (Migrate (run_pending no_faults 2) no_faults id db1) = Some ''relation already exists: tenants'' \<and> db2 = db1)"
  by code_simp

text \<open>
  An adoption that is interrupted leaves the table of the library non-empty; the next boot takes it for adopted and
  runs the remaining migrations on the tables goose has made.
\<close>

lemma interrupted_adoption_is_not_resumed:
  "(let (r1, db1) = Migrate (run_pending no_faults 1) (\<lambda>l k. l = ''adopt'' \<and> k = ''0002_deployment_workload_ref'') id goose_db
    in r1 = Some ''adopt 0002_deployment_workload_ref'' \<and> md_applied db1 = Some [''0001_init''] \<and>
       fst (Migrate (run_pending no_faults 2) no_faults id db1) = Some ''column already exists: workload_ref'')"
  by code_simp

text \<open>
  An event that another replica commits between the backfill and the watermark is in neither: the backfill has not
  seen it and the watermark has passed it.
\<close>

lemma event_between_backfill_and_watermark_is_lost:
  "(let db1 = snd (run_pending no_faults 50 [M0009UsageDaily, M0010BackfillUsageDaily] (snd (adoptGoose no_faults id goose_db)));
        db2 = db1\<lparr>md_usage := usage_commit 3 (usage_insert 20 ''t'' ''m'' 7 7 (md_usage db1))\<rparr>;
        db3 = snd (run_pending no_faults 51 All db2)
    in length (events (md_usage db3)) = 3 \<and>
       daily_of (''t'', ''m'', 0) (daily (snd (usage_Rollup no_faults 60 (md_usage db3)))) = (8, 10, 2))"
  by code_simp

end
