(* ===== verification/Telemetry.thy ===== *)
theory Telemetry
  imports Complex_Main Http
begin

text \<open>
  Traces, metrics and log levels (\<open>internal/infrastructure/observability\<close>). A counter is an integer per metric and
  list of label values; the registry and the encoders of log lines are external, what reaches them is the value.
  \<open>rnd\<close> is \<open>crypto/rand\<close>: None when it fails, else as many bytes as asked for.
\<close>

section \<open>Traces (trace.go)\<close>

record span =
  sn_TraceID :: string
  sn_SpanID :: string
  sn_ParentID :: string
  sn_Name :: string
  sn_start :: int
  sn_attrs :: "(string \<times> string) list"

text \<open>What a context carries: the parent of an inbound header (trace id, span id) and the current span.\<close>

record trace_ctx =
  tc_remote :: "(string \<times> string) option"
  tc_span :: "span option"

definition background :: trace_ctx where
  "background = \<lparr>tc_remote = None, tc_span = None\<rparr>"

definition hex_digit :: "nat \<Rightarrow> char" where
  "hex_digit n = (if n < 10 then char_of (48 + n) else char_of (87 + n))"

definition hex_encode :: "nat list \<Rightarrow> string" where
  "hex_encode bs = concat (map (\<lambda>b. [hex_digit (b div 16), hex_digit (b mod 16)]) bs)"

definition newID :: "(nat \<Rightarrow> nat list option) \<Rightarrow> nat \<Rightarrow> string" where
  "newID rnd n = (case rnd n of None \<Rightarrow> replicate (n * 2) (CHR ''0'') | Some bs \<Rightarrow> hex_encode bs)"

definition StartSpan :: "(nat \<Rightarrow> nat list option) \<Rightarrow> int \<Rightarrow> trace_ctx \<Rightarrow> string \<Rightarrow> (string \<times> string) list \<Rightarrow> trace_ctx \<times> span" where
  "StartSpan rnd now ctx name attrs =
    (let remote = (case tc_remote ctx of Some rp \<Rightarrow> rp | None \<Rightarrow> ([], []));
         (traceID, parentID) = (case tc_span ctx of Some p \<Rightarrow> (sn_TraceID p, sn_SpanID p) | None \<Rightarrow> remote);
         s = \<lparr>sn_TraceID = (if traceID = [] then newID rnd 16 else traceID), sn_SpanID = newID rnd 8,
              sn_ParentID = parentID, sn_Name = name, sn_start = now, sn_attrs = attrs\<rparr>
     in (ctx\<lparr>tc_span := Some s\<rparr>, s))"

text \<open>The line \<open>End\<close> logs; times are microseconds, the duration is in milliseconds.\<close>

record span_line =
  sl_trace_id :: string
  sl_span_id :: string
  sl_parent_span_id :: string
  sl_name :: string
  sl_duration_ms :: rat
  sl_attrs :: "(string \<times> string) list"

definition span_End :: "int \<Rightarrow> span \<Rightarrow> span_line" where
  "span_End now s = \<lparr>sl_trace_id = sn_TraceID s, sl_span_id = sn_SpanID s, sl_parent_span_id = sn_ParentID s,
     sl_name = sn_Name s, sl_duration_ms = of_int (now - sn_start s) / 1000, sl_attrs = sn_attrs s\<rparr>"

definition ExtractTraceparent :: "trace_ctx \<Rightarrow> string \<Rightarrow> trace_ctx" where
  "ExtractTraceparent ctx header =
    (let parts = split_on (CHR ''-'') header in
     if length parts \<noteq> 4 \<or> parts ! 0 \<noteq> ''00'' then ctx
     else if length (parts ! 1) \<noteq> 32 \<or> length (parts ! 2) \<noteq> 16 then ctx
     else ctx\<lparr>tc_remote := Some (parts ! 1, parts ! 2)\<rparr>)"

text \<open>
  The spans below a request: the loop starts one from the context of the request and hands that context, not the
  one of its span, to the scheduler (\<open>loop.go\<close>); a batch starts one from the context of its first item
  (\<open>batch_scheduler.go\<close>).
\<close>

definition agent_span :: "(nat \<Rightarrow> nat list option) \<Rightarrow> int \<Rightarrow> trace_ctx \<Rightarrow> string \<Rightarrow> span" where
  "agent_span rnd now ctx sid = snd (StartSpan rnd now ctx ''agent.loop'' [(''session_id'', sid)])"

definition batch_span :: "(nat \<Rightarrow> nat list option) \<Rightarrow> int \<Rightarrow> string \<Rightarrow> trace_ctx option list \<Rightarrow> span" where
  "batch_span rnd now batchID items =
    snd (StartSpan rnd now (case items of Some ctx # _ \<Rightarrow> ctx | _ \<Rightarrow> background) ''inference.batch''
      [(''batch_id'', batchID), (''batch_size'', itoa (int (length items)))])"

section \<open>Metrics (metrics.go)\<close>

text \<open>The metrics with the names of their labels, in the order of the code.\<close>

definition metric_labels :: "(string \<times> string list) list" where
  "metric_labels = [
     (''serving_requests_total'', [''tenant'', ''deployment'', ''model'', ''region'', ''status'']),
     (''serving_request_duration_seconds'', [''tenant'', ''deployment'', ''model'', ''region'', ''status'']),
     (''serving_tokens_total'', [''tenant'', ''model'', ''type'']),
     (''serving_inflight_requests'', []),
     (''serving_overloaded_total'', [''tenant'', ''model'']),
     (''billing_reservations_total'', [''model'']),
     (''billing_charge_micro_total'', []),
     (''billing_insufficient_total'', [''tenant'']),
     (''quota_exceeded_total'', [''tenant'', ''quota_type'', ''mode''])]"

text \<open>\<open>ms_observed\<close> are the observations of the histogram of durations.\<close>

record metrics =
  ms_value :: "string \<times> string list \<Rightarrow> int"
  ms_observed :: "(string list \<times> int) list"

definition add_metric :: "string \<Rightarrow> string list \<Rightarrow> int \<Rightarrow> metrics \<Rightarrow> metrics" where
  "add_metric name ls n m = m\<lparr>ms_value := (ms_value m)((name, ls) := ms_value m (name, ls) + n)\<rparr>"

definition RecordTokenUsage :: "string \<Rightarrow> string \<Rightarrow> int \<Rightarrow> int \<Rightarrow> metrics \<Rightarrow> metrics" where
  "RecordTokenUsage tenant model promptTokens completionTokens m =
    (let m1 = (if promptTokens > 0 then add_metric ''serving_tokens_total'' [tenant, model, ''prompt''] promptTokens m else m) in
     if completionTokens > 0 then add_metric ''serving_tokens_total'' [tenant, model, ''completion''] completionTokens m1 else m1)"

definition IncOverloaded :: "string \<Rightarrow> string \<Rightarrow> metrics \<Rightarrow> metrics" where
  "IncOverloaded tenant model = add_metric ''serving_overloaded_total'' [tenant, model] 1"

definition IncInflight :: "metrics \<Rightarrow> metrics" where
  "IncInflight = add_metric ''serving_inflight_requests'' [] 1"

definition DecInflight :: "metrics \<Rightarrow> metrics" where
  "DecInflight = add_metric ''serving_inflight_requests'' [] (- 1)"

definition RecordBillingReservation :: "string \<Rightarrow> metrics \<Rightarrow> metrics" where
  "RecordBillingReservation model = add_metric ''billing_reservations_total'' [model] 1"

definition RecordBillingChargeMicro :: "int \<Rightarrow> metrics \<Rightarrow> metrics" where
  "RecordBillingChargeMicro micro m = (if micro > 0 then add_metric ''billing_charge_micro_total'' [] micro m else m)"

definition IncBillingInsufficient :: "string \<Rightarrow> metrics \<Rightarrow> metrics" where
  "IncBillingInsufficient tenant = add_metric ''billing_insufficient_total'' [tenant] 1"

definition RecordQuotaExceeded :: "string \<Rightarrow> string \<Rightarrow> string \<Rightarrow> metrics \<Rightarrow> metrics" where
  "RecordQuotaExceeded tenant quotaType mode = add_metric ''quota_exceeded_total'' [tenant, quotaType, mode] 1"

text \<open>The counter and the histogram of a request that is over.\<close>

definition observe_request :: "string list \<Rightarrow> int \<Rightarrow> metrics \<Rightarrow> metrics" where
  "observe_request ls duration m = (add_metric ''serving_requests_total'' ls 1 m)
     \<lparr>ms_observed := ms_observed m @ [(ls, duration)]\<rparr>"

definition inflight :: "metrics \<Rightarrow> int" where
  "inflight m = ms_value m (''serving_inflight_requests'', [])"

section \<open>Logs (log.go)\<close>

datatype log_level = DebugLevel | InfoLevel | WarnLevel | ErrorLevel

definition zapLevel :: "string \<Rightarrow> log_level" where
  "zapLevel level = (if level = ''debug'' then DebugLevel else if level = ''warn'' then WarnLevel
     else if level = ''error'' then ErrorLevel else InfoLevel)"

text \<open>Levels are ordered by severity; a logger writes the lines of its level and above.\<close>

definition severity :: "log_level \<Rightarrow> nat" where
  "severity l = (case l of DebugLevel \<Rightarrow> 0 | InfoLevel \<Rightarrow> 1 | WarnLevel \<Rightarrow> 2 | ErrorLevel \<Rightarrow> 3)"

instantiation log_level :: linorder
begin

definition less_eq_log_level :: "log_level \<Rightarrow> log_level \<Rightarrow> bool" where
  "less_eq_log_level a b \<longleftrightarrow> severity a \<le> severity b"

definition less_log_level :: "log_level \<Rightarrow> log_level \<Rightarrow> bool" where
  "less_log_level a b \<longleftrightarrow> severity a < severity b"

instance
  by standard (auto simp: less_eq_log_level_def less_log_level_def severity_def split: log_level.splits)

end

definition writes_line :: "log_level \<Rightarrow> log_level \<Rightarrow> bool" where
  "writes_line configured l \<longleftrightarrow> configured \<le> l"

text \<open>Errors are written whatever the level is set to, and a level that is misspelt logs like info.\<close>

lemma errors_are_always_logged: "writes_line (zapLevel level) ErrorLevel"
  by (simp add: writes_line_def zapLevel_def less_eq_log_level_def severity_def)

text \<open>Where lines go: to the standard output and, when the variable names a file, to it, rotated at 100 MB.\<close>

datatype log_sink = Stdout | RotatedFile string int int int bool

definition SetupLogger :: "(string \<Rightarrow> string) \<Rightarrow> string \<Rightarrow> log_sink list \<times> log_level" where
  "SetupLogger env level =
    (let name = env ''AI_FACTORY_LOG_FILE'' in
     (Stdout # (if name \<noteq> [] then [RotatedFile name 100 3 7 True] else []), zapLevel level))"

section \<open>Facts\<close>

lemma hex_digit_hex: "n < 16 \<Longrightarrow> hex_digit n \<in> set ''0123456789abcdef''"
proof -
  have all: "list_all (\<lambda>n. hex_digit n \<in> set ''0123456789abcdef'') [0..<16]" by code_simp
  show "n < 16 \<Longrightarrow> hex_digit n \<in> set ''0123456789abcdef''"
    using all by (auto simp: list_all_iff simp del: upt_rec_numeral)
qed

lemma hex_encode_length [simp]: "length (hex_encode bs) = 2 * length bs"
  by (induction bs) (simp_all add: hex_encode_def)

lemma hex_encode_hex: "\<forall>b \<in> set bs. b < 256 \<Longrightarrow> set (hex_encode bs) \<subseteq> set ''0123456789abcdef''"
proof
  fix x assume b: "\<forall>b \<in> set bs. b < 256" and "x \<in> set (hex_encode bs)"
  then obtain n where n: "n \<in> set bs" "x = hex_digit (n div 16) \<or> x = hex_digit (n mod 16)"
    by (auto simp: hex_encode_def)
  have "n div 16 < 16" using b n(1) by (intro less_mult_imp_div_less) auto
  then show "x \<in> set ''0123456789abcdef''" using n(2) hex_digit_hex[of "n div 16"] hex_digit_hex[of "n mod 16"] by auto
qed

text \<open>\<open>crypto/rand\<close> fills the whole buffer with bytes or fails.\<close>

definition random_bytes :: "(nat \<Rightarrow> nat list option) \<Rightarrow> bool" where
  "random_bytes rnd \<longleftrightarrow> (\<forall>n bs. rnd n = Some bs \<longrightarrow> length bs = n \<and> (\<forall>b \<in> set bs. b < 256))"

lemma newID_length: "random_bytes rnd \<Longrightarrow> length (newID rnd n) = 2 * n"
  by (auto simp: newID_def random_bytes_def split: option.splits)

lemma StartSpan_facts:
  assumes "StartSpan rnd now ctx name attrs = (ctx', s)"
  shows "tc_span ctx' = Some s" "tc_remote ctx' = tc_remote ctx" "sn_Name s = name"
    and "sn_SpanID s = newID rnd 8"
    and "tc_span ctx = Some p \<Longrightarrow> sn_TraceID p \<noteq> [] \<Longrightarrow> sn_TraceID s = sn_TraceID p \<and> sn_ParentID s = sn_SpanID p"
    and "tc_span ctx = None \<Longrightarrow> tc_remote ctx = Some (t, sp) \<Longrightarrow> t \<noteq> [] \<Longrightarrow> sn_TraceID s = t \<and> sn_ParentID s = sp"
    and "tc_span ctx = None \<Longrightarrow> tc_remote ctx = None \<Longrightarrow> sn_TraceID s = newID rnd 16 \<and> sn_ParentID s = []"
  using assms by (auto simp: StartSpan_def Let_def split: option.splits prod.splits)

text \<open>A header that is taken has ids of the lengths W3C asks for.\<close>

lemma ExtractTraceparent_lengths:
  assumes "tc_remote (ExtractTraceparent background header) = Some (t, sp)"
  shows "length t = 32 \<and> length sp = 16 \<and> (\<exists>flags. split_on (CHR ''-'') header = [''00'', t, sp, flags])"
proof -
  let ?p = "split_on (CHR ''-'') header"
  have p: "length ?p = 4" "?p ! 0 = ''00''" "length (?p ! 1) = 32" "length (?p ! 2) = 16" "t = ?p ! 1" "sp = ?p ! 2"
    using assms by (auto simp: ExtractTraceparent_def background_def Let_def split: if_splits)
  have "?p = [?p ! 0, ?p ! 1, ?p ! 2, ?p ! 3]"
    using p(1) by (intro nth_equalityI) (auto simp: less_Suc_eq numeral_eq_Suc)
  then show ?thesis using p by metis
qed

text \<open>The ids are not checked to be hexadecimal.\<close>

lemma non_hex_traceparent_is_taken:
  "ExtractTraceparent background (''00-'' @ replicate 32 (CHR ''?'') @ ''-'' @ replicate 16 (CHR ''!'') @ ''-01'') =
   \<lparr>tc_remote = Some (replicate 32 (CHR ''?''), replicate 16 (CHR ''!'')), tc_span = None\<rparr>"
  by code_simp

end
