(* ===== verification/Gateway.thy ===== *)
theory Gateway
  imports Telemetry Iam Wiring
begin

text \<open>
  The HTTP engine (\<open>NewHTTPHandler\<close> in \<open>internal/app/app.go\<close>): the routes of the services with the gates in
  front of them (\<open>router.go\<close> of each service), and the middleware every request passes
  (\<open>internal/infrastructure/middleware/global.go\<close>). The router (gin), the handlers' work on the services and
  the clock are parameters.
\<close>

section \<open>Routes (router.go)\<close>

datatype http_method = GET | POST | PUT | PATCH | DELETE | OPTIONS | OtherMethod string

definition method_text :: "http_method \<Rightarrow> string" where
  "method_text m = (case m of GET \<Rightarrow> ''GET'' | POST \<Rightarrow> ''POST'' | PUT \<Rightarrow> ''PUT'' | PATCH \<Rightarrow> ''PATCH''
     | DELETE \<Rightarrow> ''DELETE'' | OPTIONS \<Rightarrow> ''OPTIONS'' | OtherMethod s \<Rightarrow> s)"

datatype route_gate = AuthGate | PermissionGate action | InferenceGate

record route =
  rt_Method :: http_method
  rt_Path :: string
  rt_Gates :: "route_gate list"
  rt_Handler :: string

definition handle :: "http_method \<Rightarrow> string \<Rightarrow> route_gate list \<Rightarrow> string \<Rightarrow> route" where
  "handle m path gates h = \<lparr>rt_Method = m, rt_Path = path, rt_Gates = gates, rt_Handler = h\<rparr>"

text \<open>\<open>e.Group\<close>: the routes of a route_group have its path and its gates in front of theirs.\<close>

definition route_group :: "string \<Rightarrow> route_gate list \<Rightarrow> route list \<Rightarrow> route list" where
  "route_group prefix gates = map (\<lambda>r. r\<lparr>rt_Path := prefix @ rt_Path r, rt_Gates := gates @ rt_Gates r\<rparr>)"

definition inference_routes :: "route list" where
  "inference_routes = [
     handle POST ''/v1/chat/completions'' [InferenceGate] ''inference.handleOpenAIChatCompletions'',
     handle GET ''/health'' [] ''inference.handleHealth''] @
   route_group ''/api/v1/sessions'' [AuthGate] [
     handle GET [] [] ''inference.handleListSessions'',
     handle GET ''/:id'' [] ''inference.handleGetSession'',
     handle PATCH ''/:id'' [] ''inference.handleRenameSession'',
     handle DELETE ''/:id'' [] ''inference.handleDeleteSession''] @ [
     handle GET ''/api/v1/uploads/:id'' [AuthGate] ''inference.handleGetUpload'',
     handle GET ''/'' [] ''inference.handleUI'',
     handle GET ''/chat'' [] ''inference.handleUI'',
     handle GET ''/keys'' [] ''inference.handleUI'',
     handle GET ''/concepts'' [] ''inference.handleConcepts'']"

definition iam_routes :: "route list" where
  "iam_routes = [handle POST ''/api/v1/auth/login'' [] ''iam.handleLogin''] @
   route_group ''/api/v1/api-keys'' [PermissionGate ActionKeyManage] [
     handle POST [] [] ''iam.handleCreateAPIKey'',
     handle GET [] [] ''iam.handleListAPIKeys'',
     handle POST ''/:id/revoke'' [] ''iam.handleRevokeAPIKey''] @
   route_group ''/api/v1/tenants'' [] [
     handle POST [] [PermissionGate ActionTenantManage] ''iam.handleCreateTenant'',
     handle GET [] [PermissionGate ActionTenantRead] ''iam.handleListTenants''] @
   route_group ''/api/v1/users'' [PermissionGate ActionTenantManage] [
     handle POST [] [] ''iam.handleCreateUser'',
     handle GET [] [] ''iam.handleListUsers'']"

definition serving_routes :: "route list" where
  "serving_routes = [
     handle POST ''/api/v1/models'' [PermissionGate ActionModelWrite] ''serving.handleCreateModel'',
     handle GET ''/api/v1/models'' [PermissionGate ActionModelRead] ''serving.handleListModels'',
     handle GET ''/api/v1/models/:id'' [PermissionGate ActionModelRead] ''serving.handleGetModel'',
     handle POST ''/api/v1/models/:id/versions'' [PermissionGate ActionModelWrite] ''serving.handleCreateModelVersion'',
     handle GET ''/api/v1/models/:id/versions'' [PermissionGate ActionModelRead] ''serving.handleListModelVersions'',
     handle POST ''/api/v1/templates'' [PermissionGate ActionTemplateWrite] ''serving.handleCreateTemplate'',
     handle GET ''/api/v1/templates'' [PermissionGate ActionTemplateRead] ''serving.handleListTemplates'',
     handle GET ''/api/v1/templates/:id'' [PermissionGate ActionTemplateRead] ''serving.handleGetTemplate'',
     handle POST ''/api/v1/templates/:id/versions'' [PermissionGate ActionTemplateWrite] ''serving.handleCreateTemplateVersion'',
     handle GET ''/api/v1/templates/:id/versions'' [PermissionGate ActionTemplateRead] ''serving.handleListTemplateVersions'',
     handle POST ''/api/v1/deployments'' [PermissionGate ActionDeployWrite] ''serving.handleCreateDeployment'',
     handle GET ''/api/v1/deployments'' [PermissionGate ActionDeployRead] ''serving.handleListDeployments'',
     handle GET ''/api/v1/deployments/:id'' [PermissionGate ActionDeployRead] ''serving.handleDeploymentByID'',
     handle GET ''/api/v1/deployments/:id/revisions'' [PermissionGate ActionDeployRead] ''serving.handleDeploymentRevisions'',
     handle POST ''/api/v1/deployments/:id/:action'' [PermissionGate ActionDeployWrite] ''serving.handleDeploymentAction'']"

definition usage_routes :: "route list" where
  "usage_routes = [
     handle POST ''/api/v1/quotas'' [PermissionGate ActionQuotaManage] ''usage.handleUpsertQuota'',
     handle GET ''/api/v1/quotas'' [PermissionGate ActionUsageRead] ''usage.handleListQuotas'',
     handle GET ''/api/v1/usage'' [PermissionGate ActionUsageRead] ''usage.handleGetUsage'']"

definition billing_routes :: "route list" where
  "billing_routes = [
     handle GET ''/api/v1/billing/wallet'' [PermissionGate ActionBillingRead] ''billing.handleGetWallet'',
     handle GET ''/api/v1/billing/ledger'' [PermissionGate ActionBillingRead] ''billing.handleListLedger'',
     handle GET ''/api/v1/billing/pricing'' [PermissionGate ActionBillingRead] ''billing.handleListPrices'',
     handle POST ''/api/v1/billing/topup'' [PermissionGate ActionBillingManage] ''billing.handleTopUp'',
     handle PUT ''/api/v1/billing/pricing'' [PermissionGate ActionBillingPricing] ''billing.handleUpsertPrice'']"

definition image_routes :: "route list" where
  "image_routes = [handle POST ''/v1/images/generations'' [InferenceGate] ''image.handleGenerate''] @
   route_group ''/api/v1/images'' [AuthGate] [
     handle GET ''/assets'' [] ''image.handleListAssets'',
     handle GET ''/assets/:id'' [] ''image.handleGetAsset'',
     handle POST ''/jobs'' [] ''image.handleCreateJob'',
     handle GET ''/jobs'' [] ''image.handleListJobs'',
     handle GET ''/jobs/:id'' [] ''image.handleGetJob'',
     handle GET ''/jobs/:id/events'' [] ''image.handleJobEvents'']"

text \<open>What each of the names \<open>NewHTTPHandler\<close> mounts registers.\<close>

definition mounted :: "string \<Rightarrow> route list" where
  "mounted name = (if name = ''http.handler'' then inference_routes else if name = ''http.iam'' then iam_routes
     else if name = ''http.serving'' then serving_routes else if name = ''http.usage'' then usage_routes
     else if name = ''http.billing'' then billing_routes else if name = ''http.image'' then image_routes
     else if name = ''metrics'' then [handle GET ''/metrics'' [] ''observability.MetricsHandler''] else [])"

definition engine_routes :: "string list \<Rightarrow> route list" where
  "engine_routes names = concat (map mounted names)"

section \<open>Requests and replies\<close>

record http_request =
  rq_Method :: http_method
  rq_Path :: string
  rq_Authorization :: string
  rq_Traceparent :: string

text \<open>
  What the chain has written: the status of the first \<open>WriteHeader\<close> (None when there was none), the bodies of
  the handler, the error objects of the middleware, the labels the handler set, and whether it panicked.
\<close>

record 'b handled =
  hd_Status :: "int option"
  hd_Body :: "'b list"
  hd_Errors :: "(string \<times> string) list"
  hd_Labels :: "string list"
  hd_Panics :: bool

definition nothing_written :: "'b handled" where
  "nothing_written = \<lparr>hd_Status = None, hd_Body = [], hd_Errors = [], hd_Labels = [[], [], [], []], hd_Panics = False\<rparr>"

definition abort_with :: "int \<Rightarrow> string \<Rightarrow> string \<Rightarrow> 'b handled" where
  "abort_with status code msg = nothing_written\<lparr>hd_Status := Some status, hd_Errors := [(code, msg)]\<rparr>"

text \<open>\<open>en_ran\<close> is the history of handlers that ran, with the principal of the request.\<close>

record ('s, 'c) engine =
  en_services :: 's
  en_cache :: 'c
  en_metrics :: metrics
  en_spans :: "span_line list"
  en_log :: "(string \<times> string) list"
  en_ran :: "(string \<times> Principal option) list"

type_synonym ('s, 'c, 'b) chain = "('s, 'c) engine \<Rightarrow> 'b handled \<times> ('s, 'c) engine"

text \<open>The router answers with a route, a redirect of its own, or says that the method or the path is unknown.\<close>

datatype found = Found route | NoMethod | NoPath | Redirect int

record ('s, 'c, 'b) http_env =
  hv_find :: "route list \<Rightarrow> http_method \<Rightarrow> string \<Rightarrow> found"
  hv_parse :: "string \<Rightarrow> port_error + Principal"
  hv_key :: "string \<Rightarrow> 'c \<Rightarrow> (port_error + Principal) \<times> 'c"
  hv_run :: "string \<Rightarrow> Principal option \<Rightarrow> trace_ctx \<Rightarrow> http_request \<Rightarrow> 's \<Rightarrow> 'b handled \<times> 's"
  hv_rnd :: "nat \<Rightarrow> nat list option"
  hv_start :: int
  hv_end :: int

section \<open>Gates\<close>

definition run_gate :: "('s, 'c, 'b) http_env \<Rightarrow> route_gate \<Rightarrow> string \<Rightarrow> 'c \<Rightarrow> gate \<times> 'c" where
  "run_gate env g header c = (case g of
      AuthGate \<Rightarrow> (mw_authenticate (hv_parse env) header, c)
    | PermissionGate act \<Rightarrow> (RequirePermission (hv_parse env) RoleAllows act header, c)
    | InferenceGate \<Rightarrow> InferenceAuth (hv_parse env) (hv_key env) header c)"

datatype gated = Passed "Principal option" | Refused int string string

fun run_gates :: "('s, 'c, 'b) http_env \<Rightarrow> route_gate list \<Rightarrow> string \<Rightarrow> Principal option \<Rightarrow> 'c \<Rightarrow> gated \<times> 'c" where
  "run_gates env [] header p c = (Passed p, c)"
| "run_gates env (g # gs) header p c = (case run_gate env g header c of
      (Next q, c') \<Rightarrow> run_gates env gs header (Some q) c'
    | (Abort s k m, c') \<Rightarrow> (Refused s k m, c'))"

definition serve_route :: "('s, 'c, 'b) http_env \<Rightarrow> http_request \<Rightarrow> route \<Rightarrow> trace_ctx \<Rightarrow> ('s, 'c, 'b) chain" where
  "serve_route env rq r ctx w =
    (case run_gates env (rt_Gates r) (rq_Authorization rq) None (en_cache w) of
       (Refused s k m, c) \<Rightarrow> (abort_with s k m, w\<lparr>en_cache := c\<rparr>)
     | (Passed p, c) \<Rightarrow> (case hv_run env (rt_Handler r) p ctx rq (en_services w) of
         (h, s) \<Rightarrow> (h, w\<lparr>en_cache := c, en_services := s, en_ran := en_ran w @ [(rt_Handler r, p)]\<rparr>)))"

section \<open>Middleware (global.go)\<close>

text \<open>A panic becomes a 500, unless the status has been sent: then only the error object is written.\<close>

definition Recovery :: "('s, 'c, 'b) chain \<Rightarrow> ('s, 'c, 'b) chain" where
  "Recovery nxt w = (case nxt w of (h, w') \<Rightarrow>
     (if hd_Panics h
      then h\<lparr>hd_Status := Some (case hd_Status h of Some s \<Rightarrow> s | None \<Rightarrow> StatusInternalServerError),
             hd_Errors := hd_Errors h @ [(''INTERNAL_ERROR'', ''internal error'')], hd_Panics := False\<rparr>
      else h, w'))"

definition cors_methods :: "http_method list" where
  "cors_methods = [GET, POST, DELETE, OPTIONS]"

definition cors_headers :: "(string \<times> string) list" where
  "cors_headers = [(''Access-Control-Allow-Origin'', ''*''),
     (''Access-Control-Allow-Methods'', ''GET, POST, DELETE, OPTIONS''),
     (''Access-Control-Allow-Headers'', ''Content-Type, Authorization, x-session-id'')]"

definition CORS :: "http_request \<Rightarrow> ('s, 'c, 'b) chain \<Rightarrow> ('s, 'c, 'b) chain" where
  "CORS rq nxt w = (if rq_Method rq = OPTIONS then (nothing_written\<lparr>hd_Status := Some StatusNoContent\<rparr>, w) else nxt w)"

text \<open>The span ends when the handler returns or panics.\<close>

definition Trace :: "('s, 'c, 'b) http_env \<Rightarrow> http_request \<Rightarrow> (trace_ctx \<Rightarrow> ('s, 'c, 'b) chain) \<Rightarrow> ('s, 'c, 'b) chain" where
  "Trace env rq nxt w =
    (let ctx = ExtractTraceparent background (rq_Traceparent rq);
         (ctx', s) = StartSpan (hv_rnd env) (hv_start env) ctx
           (''http '' @ method_text (rq_Method rq) @ '' '' @ rq_Path rq) [] in
     case nxt ctx' w of (h, w') \<Rightarrow> (h, w'\<lparr>en_spans := en_spans w' @ [span_End (hv_end env) s]\<rparr>))"

definition Logging :: "http_request \<Rightarrow> ('s, 'c, 'b) chain \<Rightarrow> ('s, 'c, 'b) chain" where
  "Logging rq nxt w = nxt (w\<lparr>en_log := en_log w @ [(method_text (rq_Method rq), rq_Path rq)]\<rparr>)"

text \<open>What comes after the handler is skipped when it panics; the status of the writer starts as 200.\<close>

definition Metrics :: "('s, 'c, 'b) http_env \<Rightarrow> ('s, 'c, 'b) chain \<Rightarrow> ('s, 'c, 'b) chain" where
  "Metrics env nxt w =
    (case nxt (w\<lparr>en_metrics := IncInflight (en_metrics w)\<rparr>) of (h, w') \<Rightarrow>
      (h, if hd_Panics h then w'
          else w'\<lparr>en_metrics := observe_request
                 (hd_Labels h @ [itoa (case hd_Status h of Some s \<Rightarrow> s | None \<Rightarrow> StatusOK)]) (hv_end env - hv_start env)
                 (DecInflight (en_metrics w'))\<rparr>))"

section \<open>The engine\<close>

record 'b http_reply =
  rp_Status :: int
  rp_Headers :: "(string \<times> string) list"
  rp_Body :: "'b list"
  rp_Errors :: "(string \<times> string) list"

text \<open>A request without a route runs the middleware; when nothing was written, the router writes 404 or 405.\<close>

definition StatusMethodNotAllowed :: int where
  "StatusMethodNotAllowed = 405"

definition answer :: "found \<Rightarrow> 'b handled \<Rightarrow> 'b http_reply" where
  "answer f h = \<lparr>rp_Status = (case hd_Status h of Some s \<Rightarrow> s | None \<Rightarrow>
       (case f of NoPath \<Rightarrow> StatusNotFound | NoMethod \<Rightarrow> StatusMethodNotAllowed | _ \<Rightarrow> StatusOK)),
     rp_Headers = cors_headers, rp_Body = hd_Body h, rp_Errors = hd_Errors h\<rparr>"

definition ServeHTTP :: "('s, 'c, 'b) http_env \<Rightarrow> string list \<Rightarrow> http_request \<Rightarrow> ('s, 'c) engine \<Rightarrow> 'b http_reply \<times> ('s, 'c) engine" where
  "ServeHTTP env names rq w =
    (case hv_find env (engine_routes names) (rq_Method rq) (rq_Path rq) of
       Redirect s \<Rightarrow> (\<lparr>rp_Status = s, rp_Headers = [], rp_Body = [], rp_Errors = []\<rparr>, w)
     | f \<Rightarrow>
       (let handler = (case f of Found r \<Rightarrow> serve_route env rq r | _ \<Rightarrow> (\<lambda>ctx w. (nothing_written, w))) in
        case Recovery (CORS rq (Trace env rq (\<lambda>ctx. Logging rq (Metrics env (handler ctx))))) w of
          (h, w') \<Rightarrow> (answer f h, w')))"

end
