(* ===== verification/GatewayProofs.thy ===== *)
theory GatewayProofs
  imports Gateway IamProofs
begin

text \<open>
  Who reaches which handler. The access table below is the specification: it lists handlers by caller. The routes
  are shown to be unambiguous, so the router has no choice, and a request runs the handler of its route exactly
  when the table admits its caller. The lemmas at the end are about the other middleware: panics, the gauge of
  requests in flight, preflight requests, and the spans of a request.
\<close>

section \<open>The router\<close>

text \<open>A pattern is matched segment by segment; a segment \<open>:name\<close> takes any non-empty one.\<close>

definition is_param :: "string \<Rightarrow> bool" where
  "is_param s \<longleftrightarrow> (case s of [] \<Rightarrow> False | c # _ \<Rightarrow> c = CHR '':'')"

fun fits_segments :: "string list \<Rightarrow> string list \<Rightarrow> bool" where
  "fits_segments [] [] \<longleftrightarrow> True"
| "fits_segments (p # ps) (s # ss) \<longleftrightarrow> (if is_param p then s \<noteq> [] else p = s) \<and> fits_segments ps ss"
| "fits_segments _ _ \<longleftrightarrow> False"

definition fits :: "string \<Rightarrow> string \<Rightarrow> bool" where
  "fits pattern path \<longleftrightarrow> fits_segments (split_on (CHR ''/'') pattern) (split_on (CHR ''/'') path)"

text \<open>What gin documents: it finds a registered route of the method that fits the path, if there is one.\<close>

definition router_law :: "(route list \<Rightarrow> http_method \<Rightarrow> string \<Rightarrow> found) \<Rightarrow> bool" where
  "router_law route \<longleftrightarrow> (\<forall>rs m p.
     (\<forall>r. route rs m p = Found r \<longrightarrow> r \<in> set rs \<and> rt_Method r = m \<and> fits (rt_Path r) p) \<and>
     ((\<exists>r \<in> set rs. rt_Method r = m \<and> fits (rt_Path r) p) \<longrightarrow> (\<exists>r. route rs m p = Found r)))"

definition first_fit :: "route list \<Rightarrow> http_method \<Rightarrow> string \<Rightarrow> found" where
  "first_fit rs m p = (case find (\<lambda>r. rt_Method r = m \<and> fits (rt_Path r) p) rs of
      Some r \<Rightarrow> Found r
    | None \<Rightarrow> if list_ex (\<lambda>r. fits (rt_Path r) p) rs then NoMethod else NoPath)"

lemma first_fit_law: "router_law first_fit"
  by (auto simp: router_law_def first_fit_def find_Some_iff find_None_iff split: option.splits)

section \<open>The routes are unambiguous\<close>

fun overlap :: "string list \<Rightarrow> string list \<Rightarrow> bool" where
  "overlap [] [] \<longleftrightarrow> True"
| "overlap (p # ps) (q # qs) \<longleftrightarrow> (is_param p \<or> is_param q \<or> p = q) \<and> overlap ps qs"
| "overlap _ _ \<longleftrightarrow> False"

lemma fits_overlap: "fits_segments p s \<Longrightarrow> fits_segments q s \<Longrightarrow> overlap p q"
proof (induction p s arbitrary: q rule: fits_segments.induct)
  case (1 q)
  then show ?case by (cases q) auto
next
  case (2 p ps s ss q)
  then show ?case by (cases q) (auto split: if_splits)
qed auto

definition route_key :: "route \<Rightarrow> http_method \<times> string list" where
  "route_key r = (rt_Method r, split_on (CHR ''/'') (rt_Path r))"

fun clash_free :: "(http_method \<times> string list) list \<Rightarrow> bool" where
  "clash_free [] \<longleftrightarrow> True"
| "clash_free (k # ks) \<longleftrightarrow> list_all (\<lambda>l. fst l = fst k \<longrightarrow> \<not> overlap (snd k) (snd l)) ks \<and> clash_free ks"

definition all_routes :: "route list" where
  "all_routes = inference_routes @ iam_routes @ serving_routes @ usage_routes @ billing_routes @ image_routes @
     [handle GET ''/metrics'' [] ''observability.MetricsHandler'']"

lemma mounted_routes: "set (engine_routes names) \<subseteq> set all_routes"
  by (auto simp: engine_routes_def mounted_def all_routes_def split: if_splits)

lemma all_routes_clash_free: "clash_free (map route_key all_routes)"
  by code_simp

lemma clash_free_unique:
  "clash_free (map route_key rs) \<Longrightarrow> r \<in> set rs \<Longrightarrow> r' \<in> set rs \<Longrightarrow> rt_Method r = rt_Method r' \<Longrightarrow>
     fits (rt_Path r) p \<Longrightarrow> fits (rt_Path r') p \<Longrightarrow> r = r'"
proof (induction rs)
  case (Cons a rs)
  have no: "x \<in> set rs \<Longrightarrow> rt_Method a = rt_Method x \<Longrightarrow> fits (rt_Path a) p \<Longrightarrow> fits (rt_Path x) p \<Longrightarrow> False" for x
    using Cons.prems(1) fits_overlap[of "snd (route_key a)" _ "snd (route_key x)"]
    by (auto simp: route_key_def fits_def list_all_iff)
  then show ?case using Cons no[of r] no[of r'] by auto
qed simp

text \<open>So the router's choice is determined.\<close>

lemma routed:
  assumes "router_law route" "r \<in> set (engine_routes names)" "rt_Method r = m" "fits (rt_Path r) p"
  shows "route (engine_routes names) m p = Found r"
proof -
  obtain r' where r': "route (engine_routes names) m p = Found r'" "r' \<in> set (engine_routes names)" "rt_Method r' = m" "fits (rt_Path r') p"
    using assms(1)[unfolded router_law_def, THEN spec, THEN spec, THEN spec, of "engine_routes names" m p] assms(2-4) by blast
  have "r' = r"
    by (rule clash_free_unique[OF all_routes_clash_free]) (use r' assms mounted_routes in auto)
  then show ?thesis using r'(1) by simp
qed

section \<open>The access table\<close>

text \<open>Open to everybody; to a token or an API key; to every token; and, by role, what each role has over the one below.\<close>

definition open_handlers :: "string list" where
  "open_handlers = [''inference.handleHealth'', ''inference.handleUI'', ''inference.handleUI'', ''inference.handleUI'',
     ''inference.handleConcepts'', ''iam.handleLogin'', ''observability.MetricsHandler'']"

definition key_handlers :: "string list" where
  "key_handlers = [''inference.handleOpenAIChatCompletions'', ''image.handleGenerate'']"

definition member_handlers :: "string list" where
  "member_handlers = [''inference.handleListSessions'', ''inference.handleGetSession'', ''inference.handleRenameSession'',
     ''inference.handleDeleteSession'', ''inference.handleGetUpload'', ''image.handleListAssets'', ''image.handleGetAsset'',
     ''image.handleCreateJob'', ''image.handleListJobs'', ''image.handleGetJob'', ''image.handleJobEvents'']"

definition viewer_handlers :: "string list" where
  "viewer_handlers = [''serving.handleListModels'', ''serving.handleGetModel'', ''serving.handleListModelVersions'',
     ''serving.handleListTemplates'', ''serving.handleGetTemplate'', ''serving.handleListTemplateVersions'',
     ''serving.handleListDeployments'', ''serving.handleDeploymentByID'', ''serving.handleDeploymentRevisions'',
     ''usage.handleListQuotas'', ''usage.handleGetUsage'', ''billing.handleGetWallet'', ''billing.handleListLedger'',
     ''billing.handleListPrices'']"

definition developer_handlers :: "string list" where
  "developer_handlers = [''serving.handleCreateDeployment'', ''serving.handleDeploymentAction'']"

definition admin_handlers :: "string list" where
  "admin_handlers = [''iam.handleCreateAPIKey'', ''iam.handleListAPIKeys'', ''iam.handleRevokeAPIKey'',
     ''iam.handleListTenants'', ''usage.handleUpsertQuota'', ''billing.handleTopUp'']"

definition platform_handlers :: "string list" where
  "platform_handlers = [''iam.handleCreateTenant'', ''iam.handleCreateUser'', ''iam.handleListUsers'',
     ''serving.handleCreateModel'', ''serving.handleCreateModelVersion'', ''serving.handleCreateTemplate'',
     ''serving.handleCreateTemplateVersion'', ''billing.handleUpsertPrice'']"

definition role_handlers :: "string \<Rightarrow> string set" where
  "role_handlers role = (if role = RoleTenantViewer then set viewer_handlers
     else if role = RoleTenantDeveloper then set viewer_handlers \<union> set developer_handlers
     else if role = RoleTenantAdmin then set viewer_handlers \<union> set developer_handlers \<union> set admin_handlers
     else if role = RolePlatformAdmin
       then set viewer_handlers \<union> set developer_handlers \<union> set admin_handlers \<union> set platform_handlers
     else {})"

definition token_handlers :: "string \<Rightarrow> string set" where
  "token_handlers role = set key_handlers \<union> set member_handlers \<union> role_handlers role"

definition admits :: "('s, 'c, 'b) http_env \<Rightarrow> string \<Rightarrow> 'c \<Rightarrow> string \<Rightarrow> Principal option \<Rightarrow> bool" where
  "admits env header c h po \<longleftrightarrow> h \<in> set open_handlers \<and> po = None \<or>
     (\<exists>tok p. header = bearer @ tok \<and> po = Some p \<and>
       (hv_parse env tok = Inr p \<and> h \<in> token_handlers (pr_Role p) \<or>
        (\<forall>q. hv_parse env tok \<noteq> Inr q) \<and> fst (hv_key env tok c) = Inr p \<and> h \<in> set key_handlers))"

section \<open>The routes implement the table\<close>

definition with_gates :: "(route_gate list \<Rightarrow> bool) \<Rightarrow> string list" where
  "with_gates P = map rt_Handler (filter (\<lambda>r. P (rt_Gates r)) all_routes)"

definition grants :: "action list \<Rightarrow> route_gate list \<Rightarrow> bool" where
  "grants acts gs = (case gs of [PermissionGate a] \<Rightarrow> List.member acts a | _ \<Rightarrow> False)"

text \<open>The actions of a role, as what each has over the one below.\<close>

definition role_actions :: "string \<Rightarrow> action list" where
  "role_actions role =
    (let viewer = [ActionModelRead, ActionTemplateRead, ActionDeployRead, ActionUsageRead, ActionBillingRead];
         developer = viewer @ [ActionDeployWrite];
         admin = developer @ [ActionTenantRead, ActionKeyManage, ActionQuotaManage, ActionBillingManage];
         platform = admin @ [ActionTenantManage, ActionModelWrite, ActionTemplateWrite, ActionBillingPricing] in
     if role = RoleTenantViewer then viewer else if role = RoleTenantDeveloper then developer
     else if role = RoleTenantAdmin then admin else if role = RolePlatformAdmin then platform else [])"

lemma role_actions: "List.member (role_actions role) a \<longleftrightarrow> RoleAllows role a"
proof -
  have d: "RoleTenantViewer \<noteq> RoleTenantDeveloper" "RoleTenantViewer \<noteq> RoleTenantAdmin" "RoleTenantViewer \<noteq> RolePlatformAdmin"
    "RoleTenantDeveloper \<noteq> RoleTenantAdmin" "RoleTenantDeveloper \<noteq> RolePlatformAdmin" "RoleTenantAdmin \<noteq> RolePlatformAdmin"
    by (simp_all add: RolePlatformAdmin_def RoleTenantAdmin_def RoleTenantDeveloper_def RoleTenantViewer_def)
  consider "role = RoleTenantViewer" | "role = RoleTenantDeveloper" | "role = RoleTenantAdmin" | "role = RolePlatformAdmin"
    | "role \<noteq> RoleTenantViewer" "role \<noteq> RoleTenantDeveloper" "role \<noteq> RoleTenantAdmin" "role \<noteq> RolePlatformAdmin" by blast
  then show ?thesis
    by cases (use d in \<open>auto simp: role_actions_def RoleAllows_def rolePermissions_def Let_def\<close>)
qed

lemma open_routes: "with_gates (\<lambda>gs. gs = []) = open_handlers"
  by code_simp

lemma key_routes: "with_gates (\<lambda>gs. gs = [InferenceGate]) = key_handlers"
  by code_simp

lemma member_routes: "with_gates (\<lambda>gs. gs = [AuthGate]) = member_handlers"
  by code_simp

lemma viewer_routes: "with_gates (grants [ActionModelRead, ActionTemplateRead, ActionDeployRead, ActionUsageRead, ActionBillingRead]) = viewer_handlers"
  by code_simp

lemma developer_routes: "with_gates (grants [ActionDeployWrite]) = developer_handlers"
  by code_simp

lemma admin_routes: "with_gates (grants [ActionTenantRead, ActionKeyManage, ActionQuotaManage, ActionBillingManage]) = admin_handlers"
  by code_simp

lemma platform_routes: "with_gates (grants [ActionTenantManage, ActionModelWrite, ActionTemplateWrite, ActionBillingPricing]) = platform_handlers"
  by code_simp

lemma one_gate: "list_all (\<lambda>r. length (rt_Gates r) \<le> 1) all_routes"
  by code_simp

lemma no_preflight_route: "list_all (\<lambda>r. rt_Method r \<noteq> OPTIONS) all_routes"
  by code_simp

text \<open>A handler with a gate has one route, and an open one has none with a gate.\<close>

lemma gated_handlers_distinct: "distinct (remdups open_handlers @ with_gates (\<lambda>gs. gs \<noteq> []))"
  by code_simp

lemma in_with_gates: "h \<in> set (with_gates P) \<longleftrightarrow> (\<exists>r \<in> set all_routes. P (rt_Gates r) \<and> rt_Handler r = h)"
  by (auto simp: with_gates_def)

lemma same_handler:
  assumes "r \<in> set all_routes" "r' \<in> set all_routes" "rt_Handler r = rt_Handler r'"
  shows "rt_Gates r = rt_Gates r'"
proof -
  have d: "distinct (with_gates (\<lambda>gs. gs \<noteq> []))" "set open_handlers \<inter> set (with_gates (\<lambda>gs. gs \<noteq> [])) = {}"
    using gated_handlers_distinct by auto
  have mixed: "x \<in> set all_routes \<Longrightarrow> y \<in> set all_routes \<Longrightarrow> rt_Handler x = rt_Handler y \<Longrightarrow> rt_Gates x = [] \<Longrightarrow> rt_Gates y = []" for x y
  proof (rule ccontr)
    assume a: "x \<in> set all_routes" "y \<in> set all_routes" "rt_Handler x = rt_Handler y" "rt_Gates x = []" "rt_Gates y \<noteq> []"
    have "rt_Handler x \<in> set open_handlers" unfolding open_routes[symmetric] in_with_gates using a by blast
    moreover have "rt_Handler x \<in> set (with_gates (\<lambda>gs. gs \<noteq> []))" unfolding in_with_gates using a by metis
    ultimately show False using d(2) by blast
  qed
  show ?thesis
  proof (cases "rt_Gates r = []")
    case True
    then show ?thesis using mixed[OF assms] by simp
  next
    case False
    then have "rt_Gates r' \<noteq> []" using mixed[of r' r] assms by auto
    then have "r = r'" using d(1) False assms unfolding with_gates_def distinct_map by (auto dest: inj_onD)
    then show ?thesis by simp
  qed
qed

lemma handler_gates: "r \<in> set all_routes \<Longrightarrow> rt_Handler r \<in> set (with_gates P) \<longleftrightarrow> P (rt_Gates r)"
  unfolding in_with_gates using same_handler by metis

lemma table:
  assumes "r \<in> set all_routes"
  shows "rt_Handler r \<in> set open_handlers \<longleftrightarrow> rt_Gates r = []"
    and "rt_Handler r \<in> set key_handlers \<longleftrightarrow> rt_Gates r = [InferenceGate]"
    and "rt_Handler r \<in> set member_handlers \<longleftrightarrow> rt_Gates r = [AuthGate]"
    and "rt_Handler r \<in> role_handlers role \<longleftrightarrow> (\<exists>a. rt_Gates r = [PermissionGate a] \<and> RoleAllows role a)"
proof -
  note lists = open_routes[symmetric] key_routes[symmetric] member_routes[symmetric] viewer_routes[symmetric]
    developer_routes[symmetric] admin_routes[symmetric] platform_routes[symmetric]
  show "rt_Handler r \<in> set open_handlers \<longleftrightarrow> rt_Gates r = []" unfolding lists handler_gates[OF assms] ..
  show "rt_Handler r \<in> set key_handlers \<longleftrightarrow> rt_Gates r = [InferenceGate]" unfolding lists handler_gates[OF assms] ..
  show "rt_Handler r \<in> set member_handlers \<longleftrightarrow> rt_Gates r = [AuthGate]" unfolding lists handler_gates[OF assms] ..
  have g: "grants as gs \<longleftrightarrow> (\<exists>a. gs = [PermissionGate a] \<and> List.member as a)" for as gs
    by (cases gs; cases "tl gs"; cases "hd gs") (auto simp: grants_def)
  have by_role: "rt_Handler r \<in> role_handlers role \<longleftrightarrow> (\<exists>a. rt_Gates r = [PermissionGate a] \<and> List.member (role_actions role) a)"
    unfolding role_handlers_def role_actions_def lists by (simp add: handler_gates[OF assms] g) blast
  show "rt_Handler r \<in> role_handlers role \<longleftrightarrow> (\<exists>a. rt_Gates r = [PermissionGate a] \<and> RoleAllows role a)"
    unfolding by_role using role_actions by auto
qed

lemma passes:
  assumes "r \<in> set all_routes"
  shows "fst (run_gates env (rt_Gates r) header None c) = Passed po \<longleftrightarrow> admits env header c (rt_Handler r) po"
proof -
  consider "rt_Gates r = []" | g where "rt_Gates r = [g]"
    using one_gate assms by (cases "rt_Gates r") (auto simp: list_all_iff)
  then show ?thesis
  proof cases
    case 1
    then show ?thesis by (auto simp: admits_def token_handlers_def table[OF assms])
  next
    case (2 g)
    have role: "RequirePermission (hv_parse env) RoleAllows a header = Next p \<longleftrightarrow>
        (\<exists>tok. header = bearer @ tok \<and> hv_parse env tok = Inr p \<and> RoleAllows (pr_Role p) a)" for a p
      using authenticator.passes_iff[of RoleAllows "hv_parse env" a header p] iam_auth.authenticator_axioms
      by (auto simp: authenticator_def)
    show ?thesis
    proof (cases g)
      case (PermissionGate a)
      have "fst (run_gates env (rt_Gates r) header None c) = Passed po \<longleftrightarrow>
          (\<exists>p. RequirePermission (hv_parse env) RoleAllows a header = Next p \<and> po = Some p)"
        by (auto simp: 2 PermissionGate run_gate_def split: gate.splits)
      then show ?thesis unfolding role by (auto simp: 2 PermissionGate admits_def token_handlers_def table[OF assms])
    next
      case AuthGate
      then show ?thesis
        by (auto simp: 2 admits_def token_handlers_def table[OF assms] run_gate_def mw_authenticate_def has_prefix_iff
            split: gate.splits sum.splits)
    next
      case InferenceGate
      then show ?thesis
        by (auto simp: 2 admits_def token_handlers_def table[OF assms] run_gate_def InferenceAuth_def has_prefix_iff
            split: gate.splits prod.splits sum.splits port_error.splits)
    qed
  qed
qed

section \<open>The engine\<close>

lemmas engine_defs = ServeHTTP_def Recovery_def CORS_def Trace_def Logging_def Metrics_def serve_route_def Let_def

lemma refusals:
  assumes "run_gates env gs header p c = (Refused s k m, c')"
  shows "s = StatusUnauthorized \<or> s = StatusForbidden"
  using assms
proof (induction gs arbitrary: p c)
  case (Cons g gs)
  have abort: "run_gate env g header c = (Abort a b d, e) \<Longrightarrow> a = StatusUnauthorized \<or> a = StatusForbidden" for a b d e
    by (cases g) (auto simp: run_gate_def RequirePermission_def mw_authenticate_def InferenceAuth_def Let_def
        split: if_splits sum.splits prod.splits port_error.splits)
  show ?case using Cons.prems Cons.IH abort by (auto split: gate.splits prod.splits)
qed simp

text \<open>The context a handler gets: that of the root span of its request.\<close>

definition root_span :: "('s, 'c, 'b) http_env \<Rightarrow> http_request \<Rightarrow> trace_ctx \<times> span" where
  "root_span env rq = StartSpan (hv_rnd env) (hv_start env) (ExtractTraceparent background (rq_Traceparent rq))
     (''http '' @ method_text (rq_Method rq) @ '' '' @ rq_Path rq) []"

text \<open>A request on its route, step by step: the gates decide, the handler runs on the state they leave.\<close>

lemma served:
  assumes "hv_find env (engine_routes names) (rq_Method rq) (rq_Path rq) = Found r" "rq_Method rq \<noteq> OPTIONS"
    and "run_gates env (rt_Gates r) (rq_Authorization rq) None (en_cache w) = (g, c)"
  shows "case g of
      Refused s k m \<Rightarrow> rp_Status (fst (ServeHTTP env names rq w)) = s \<and> rp_Errors (fst (ServeHTTP env names rq w)) = [(k, m)] \<and>
        rp_Body (fst (ServeHTTP env names rq w)) = [] \<and>
        en_ran (snd (ServeHTTP env names rq w)) = en_ran w \<and> en_services (snd (ServeHTTP env names rq w)) = en_services w
    | Passed po \<Rightarrow> en_ran (snd (ServeHTTP env names rq w)) = en_ran w @ [(rt_Handler r, po)] \<and>
        en_services (snd (ServeHTTP env names rq w)) = snd (hv_run env (rt_Handler r) po (fst (root_span env rq)) rq (en_services w))"
  using assms by (cases g) (simp_all add: engine_defs answer_def abort_with_def nothing_written_def root_span_def case_prod_beta)

lemma unserved:
  assumes "\<And>r. hv_find env (engine_routes names) (rq_Method rq) (rq_Path rq) \<noteq> Found r \<or> rq_Method rq = OPTIONS"
  shows "en_ran (snd (ServeHTTP env names rq w)) = en_ran w \<and> en_services (snd (ServeHTTP env names rq w)) = en_services w"
  using assms[of undefined] assms
  by (cases "hv_find env (engine_routes names) (rq_Method rq) (rq_Path rq)")
    (auto simp: engine_defs nothing_written_def case_prod_beta)

text \<open>
  C30: every handler runs behind its gate, and only there. On whichever handlers a process has mounted, a request
  that fits a route runs its handler exactly when the access table admits the caller, with the principal of the
  token or key it carries, and the other requests on it are answered with 401 or 403 and leave the services as they
  are; a request that fits no route runs no handler.
\<close>

theorem routes_follow_the_access_table:
  assumes "router_law (hv_find env)" "ServeHTTP env names rq w = (reply, w')"
  shows "(\<forall>r \<in> set (engine_routes names). rt_Method r = rq_Method rq \<and> fits (rt_Path r) (rq_Path rq) \<longrightarrow>
      (\<exists>po. admits env (rq_Authorization rq) (en_cache w) (rt_Handler r) po \<and> en_ran w' = en_ran w @ [(rt_Handler r, po)]) \<or>
      (\<nexists>po. admits env (rq_Authorization rq) (en_cache w) (rt_Handler r) po) \<and> rp_Status reply \<in> {401, 403} \<and>
        en_ran w' = en_ran w \<and> en_services w' = en_services w) \<and>
    ((\<nexists>r. r \<in> set (engine_routes names) \<and> rt_Method r = rq_Method rq \<and> fits (rt_Path r) (rq_Path rq)) \<longrightarrow>
      en_ran w' = en_ran w \<and> en_services w' = en_services w)"
proof (intro conjI ballI impI)
  fix r assume r: "r \<in> set (engine_routes names)" and at: "rt_Method r = rq_Method rq \<and> fits (rt_Path r) (rq_Path rq)"
  have all: "r \<in> set all_routes" using r mounted_routes by auto
  have found: "hv_find env (engine_routes names) (rq_Method rq) (rq_Path rq) = Found r"
    using routed[OF assms(1) r] at by simp
  have opt: "rq_Method rq \<noteq> OPTIONS" using no_preflight_route all at by (auto simp: list_all_iff)
  obtain g c where g: "run_gates env (rt_Gates r) (rq_Authorization rq) None (en_cache w) = (g, c)" by fastforce
  note p = passes[OF all, of env "rq_Authorization rq" "en_cache w", unfolded g fst_conv]
  show "(\<exists>po. admits env (rq_Authorization rq) (en_cache w) (rt_Handler r) po \<and> en_ran w' = en_ran w @ [(rt_Handler r, po)]) \<or>
      (\<nexists>po. admits env (rq_Authorization rq) (en_cache w) (rt_Handler r) po) \<and> rp_Status reply \<in> {401, 403} \<and>
        en_ran w' = en_ran w \<and> en_services w' = en_services w"
  proof (cases g)
    case (Passed po)
    then show ?thesis using served[OF found opt g] p[of po] assms(2) by auto
  next
    case (Refused s k m)
    then show ?thesis using served[OF found opt g] p refusals[OF g[unfolded Refused]] assms(2) by auto
  qed
next
  assume "\<nexists>r. r \<in> set (engine_routes names) \<and> rt_Method r = rq_Method rq \<and> fits (rt_Path r) (rq_Path rq)"
  then have "\<And>r. hv_find env (engine_routes names) (rq_Method rq) (rq_Path rq) \<noteq> Found r"
    using assms(1) unfolding router_law_def by blast
  then show "en_ran w' = en_ran w" "en_services w' = en_services w" using unserved[of env names rq w] assms(2) by auto
qed

section \<open>Panics, the gauge and preflight requests\<close>

text \<open>A panic is answered with 500, but the gauge of requests in flight is not decremented and nothing is observed.\<close>

lemma panic_leaves_the_gauge:
  assumes "hv_find env (engine_routes names) (rq_Method rq) (rq_Path rq) = Found r" "rq_Method rq \<noteq> OPTIONS"
    and "run_gates env (rt_Gates r) (rq_Authorization rq) None (en_cache w) = (Passed po, c)"
    and "hd_Panics (fst (hv_run env (rt_Handler r) po (fst (root_span env rq)) rq (en_services w)))"
    and "hd_Status (fst (hv_run env (rt_Handler r) po (fst (root_span env rq)) rq (en_services w))) = None"
  shows "rp_Status (fst (ServeHTTP env names rq w)) = 500 \<and>
    inflight (en_metrics (snd (ServeHTTP env names rq w))) = inflight (en_metrics w) + 1 \<and>
    ms_observed (en_metrics (snd (ServeHTTP env names rq w))) = ms_observed (en_metrics w)"
  using assms by (simp add: engine_defs answer_def root_span_def case_prod_beta inflight_def IncInflight_def add_metric_def)

text \<open>Every other request leaves the gauge as it found it.\<close>

lemma gauge_returns:
  assumes "hv_find env (engine_routes names) (rq_Method rq) (rq_Path rq) = Found r" "rq_Method rq \<noteq> OPTIONS"
    and "run_gates env (rt_Gates r) (rq_Authorization rq) None (en_cache w) = (g, c)"
    and "\<And>po. g = Passed po \<Longrightarrow> \<not> hd_Panics (fst (hv_run env (rt_Handler r) po (fst (root_span env rq)) rq (en_services w)))"
  shows "inflight (en_metrics (snd (ServeHTTP env names rq w))) = inflight (en_metrics w)"
  using assms
  by (cases g) (simp_all add: engine_defs answer_def abort_with_def nothing_written_def root_span_def case_prod_beta inflight_def
      IncInflight_def DecInflight_def add_metric_def observe_request_def)

text \<open>A request without a route is answered 404 and counted as 200: the router writes after the middleware.\<close>

lemma missing_route_counts_as_ok:
  assumes "hv_find env (engine_routes names) (rq_Method rq) (rq_Path rq) = NoPath" "rq_Method rq \<noteq> OPTIONS"
  shows "rp_Status (fst (ServeHTTP env names rq w)) = 404 \<and>
    ms_value (en_metrics (snd (ServeHTTP env names rq w))) (''serving_requests_total'', [[], [], [], [], ''200'']) =
    ms_value (en_metrics w) (''serving_requests_total'', [[], [], [], [], ''200'']) + 1"
proof -
  have "itoa 200 = ''200''" by code_simp
  then show ?thesis using assms
    by (simp add: engine_defs answer_def nothing_written_def case_prod_beta IncInflight_def DecInflight_def add_metric_def observe_request_def)
qed

text \<open>A preflight request reaches no gate and no handler.\<close>

lemma preflight_is_answered:
  assumes "rq_Method rq = OPTIONS" "\<forall>s. hv_find env (engine_routes names) OPTIONS (rq_Path rq) \<noteq> Redirect s"
  shows "rp_Status (fst (ServeHTTP env names rq w)) = 204 \<and> snd (ServeHTTP env names rq w) = w"
  using assms by (cases "hv_find env (engine_routes names) OPTIONS (rq_Path rq)")
    (simp_all add: engine_defs answer_def nothing_written_def)

text \<open>The routes a browser on another origin cannot call: their methods are not in the list CORS allows.\<close>

lemma routes_cors_forgets:
  "map rt_Handler (filter (\<lambda>r. \<not> List.member cors_methods (rt_Method r)) all_routes) =
   [''inference.handleRenameSession'', ''billing.handleUpsertPrice'']"
  by code_simp

section \<open>The spans of a request\<close>

text \<open>
  The spans of a request share one trace: the caller's, when its header is well-formed, and a new one otherwise;
  the spans of the loop and of the batch are children of the root span.
\<close>

lemma spans_share_a_trace:
  assumes "root_span env rq = (ctx, s)" "random_bytes (hv_rnd env)"
  shows "sn_TraceID (agent_span rnd now ctx sid) = sn_TraceID s" "sn_ParentID (agent_span rnd now ctx sid) = sn_SpanID s"
    and "sn_TraceID (batch_span rnd' now' b (Some ctx # items)) = sn_TraceID s"
    and "sn_ParentID (batch_span rnd' now' b (Some ctx # items)) = sn_SpanID s"
    and "length (sn_TraceID s) = 32" "length (sn_SpanID s) = 16"
    and "tc_remote (ExtractTraceparent background (rq_Traceparent rq)) = Some (t, p) \<Longrightarrow> sn_TraceID s = t \<and> sn_ParentID s = p"
proof -
  let ?c = "ExtractTraceparent background (rq_Traceparent rq)"
  have no: "tc_span ?c = None" by (simp add: ExtractTraceparent_def background_def Let_def)
  note f = StartSpan_facts[OF assms(1)[unfolded root_span_def]]
  show remote: "sn_TraceID s = t \<and> sn_ParentID s = p" if "tc_remote ?c = Some (t, p)" for t p
  proof -
    have "t \<noteq> []" using ExtractTraceparent_lengths[OF that] by (cases t) auto
    then show ?thesis using f(6)[OF no that] by simp
  qed
  show len: "length (sn_TraceID s) = 32"
  proof (cases "tc_remote ?c")
    case None
    then show ?thesis using f(7)[OF no] newID_length[OF assms(2), of 16] by simp
  next
    case (Some tp)
    then show ?thesis using remote[of "fst tp" "snd tp"] ExtractTraceparent_lengths[of "rq_Traceparent rq" "fst tp" "snd tp"] by simp
  qed
  show "length (sn_SpanID s) = 16" using f(4) newID_length[OF assms(2), of 8] by simp
  have "sn_TraceID s \<noteq> []" using len by auto
  note child = StartSpan_facts(5)[OF _ f(1) this]
  show "sn_TraceID (agent_span rnd now ctx sid) = sn_TraceID s" "sn_ParentID (agent_span rnd now ctx sid) = sn_SpanID s"
    unfolding agent_span_def using child[OF surjective_pairing] by blast+
  show "sn_TraceID (batch_span rnd' now' b (Some ctx # items)) = sn_TraceID s"
    "sn_ParentID (batch_span rnd' now' b (Some ctx # items)) = sn_SpanID s"
    unfolding batch_span_def list.case option.case using child[OF surjective_pairing] by blast+
qed

text \<open>So the batch is not a child of the loop's span.\<close>

lemma batch_is_no_child_of_the_loop:
  assumes "root_span env rq = (ctx, s)" "random_bytes (hv_rnd env)" "newID rnd 8 \<noteq> newID (hv_rnd env) 8"
  shows "sn_ParentID (batch_span rnd' now' b (Some ctx # items)) \<noteq> sn_SpanID (agent_span rnd now ctx sid)"
proof -
  have "sn_SpanID s = newID (hv_rnd env) 8" "sn_SpanID (agent_span rnd now ctx sid) = newID rnd 8"
    using StartSpan_facts(4)[OF assms(1)[unfolded root_span_def]] StartSpan_facts(4)[OF surjective_pairing] by (simp_all add: agent_span_def)
  then show ?thesis using spans_share_a_trace(4)[OF assms(1,2)] assms(3) by simp
qed

section \<open>Examples\<close>

definition example_viewer :: Principal where
  "example_viewer = \<lparr>pr_TenantID = ''t1'', pr_UserID = ''u1'', pr_Role = RoleTenantViewer\<rparr>"

text \<open>One token, one API key; the services are a counter of the handlers that ran.\<close>

definition example_http :: "(int, unit, string) http_env" where
  "example_http = \<lparr>hv_find = first_fit,
     hv_parse = (\<lambda>tok. if tok = ''jwt'' then Inr example_viewer else Inl PortInvalidToken),
     hv_key = (\<lambda>tok c. (if tok = ''sk-1'' then Inr \<lparr>pr_TenantID = ''t1'', pr_UserID = [], pr_Role = []\<rparr> else Inl PortInvalidToken, c)),
     hv_run = (\<lambda>h p ctx rq n. (nothing_written\<lparr>hd_Status := Some 200, hd_Body := [h]\<rparr>, n + 1)),
     hv_rnd = (\<lambda>n. Some (replicate n 7)), hv_start = 0, hv_end = 5\<rparr>"

definition example_engine :: "(int, unit) engine" where
  "example_engine = \<lparr>en_services = 0, en_cache = (), en_metrics = \<lparr>ms_value = (\<lambda>_. 0), ms_observed = []\<rparr>, en_spans = [],
     en_log = [], en_ran = []\<rparr>"

definition create_model_request :: "string \<Rightarrow> http_request" where
  "create_model_request auth = \<lparr>rq_Method = POST, rq_Path = ''/api/v1/models'', rq_Authorization = auth, rq_Traceparent = []\<rparr>"

lemma example_lists_models:
  "rp_Body (fst (ServeHTTP example_http [''http.serving''] ((create_model_request ''Bearer jwt'')\<lparr>rq_Method := GET\<rparr>) example_engine)) =
   [''serving.handleListModels'']"
  by code_simp

theorem routes_follow_the_access_table_witness:
  "rp_Status (fst (ServeHTTP example_http [''http.serving''] (create_model_request ''Bearer jwt'') example_engine)) \<in> {401, 403} \<and>
   en_services (snd (ServeHTTP example_http [''http.serving''] (create_model_request ''Bearer jwt'') example_engine)) = 0"
proof -
  let ?rq = "create_model_request ''Bearer jwt''"
  let ?r = "handle POST ''/api/v1/models'' [PermissionGate ActionModelWrite] ''serving.handleCreateModel''"
  have law: "router_law (hv_find example_http)" by (simp add: example_http_def first_fit_law)
  have r: "?r \<in> set (engine_routes [''http.serving''])" by (simp add: engine_routes_def mounted_def serving_routes_def)
  have "fits ''/api/v1/models'' ''/api/v1/models''" by code_simp
  then have at: "rt_Method ?r = rq_Method ?rq \<and> fits (rt_Path ?r) (rq_Path ?rq)" by (simp add: handle_def create_model_request_def)
  have all: "?r \<in> set all_routes" using r mounted_routes by blast
  have "fst (run_gates example_http (rt_Gates ?r) (rq_Authorization ?rq) None (en_cache example_engine)) =
      Refused 403 ''FORBIDDEN'' ''permission denied''" by code_simp
  then have no: "\<nexists>po. admits example_http (rq_Authorization ?rq) (en_cache example_engine) (rt_Handler ?r) po"
    using passes[OF all, of example_http "rq_Authorization ?rq" "en_cache example_engine"] by auto
  have "en_services example_engine = 0" by (simp add: example_engine_def)
  then show ?thesis
    using routes_follow_the_access_table[OF law surjective_pairing, THEN conjunct1, rule_format, OF r at] no by simp
qed

end
