(* ===== verification/Tokens.thy ===== *)
theory Tokens
  imports IamProofs
begin

text \<open>
  Access tokens (\<open>internal/services/iam/jwt.go\<close>) from login to the gate of a route. The JWT library is a
  parameter; times are seconds, the precision of its numeric dates.
\<close>

record Claims =
  tk_UserID :: string
  tk_TenantID :: string
  tk_Role :: string
  tk_ExpiresAt :: int
  tk_IssuedAt :: int
  tk_ID :: string

text \<open>\<open>SignedString\<close> under HS256, and \<open>ParseWithClaims\<close> at a time, with a secret and the accepted methods.\<close>

record jwt_lib =
  jw_sign :: "string \<Rightarrow> Claims \<Rightarrow> string + string"
  jw_parse :: "int \<Rightarrow> string \<Rightarrow> string list \<Rightarrow> string \<Rightarrow> string + Claims"

definition IssueToken :: "jwt_lib \<Rightarrow> int \<Rightarrow> string \<Rightarrow> string \<Rightarrow> string \<Rightarrow> string \<Rightarrow> string \<Rightarrow> int \<Rightarrow> iam_error + string" where
  "IssueToken jw now newid secret userID tenantID role ttl =
    map_sum ErrToken id (jw_sign jw secret \<lparr>tk_UserID = userID, tk_TenantID = tenantID, tk_Role = role,
      tk_ExpiresAt = now + ttl, tk_IssuedAt = now, tk_ID = newid\<rparr>)"

definition ParseToken :: "jwt_lib \<Rightarrow> int \<Rightarrow> string \<Rightarrow> string \<Rightarrow> iam_error + Claims" where
  "ParseToken jw now secret token = map_sum ErrToken id (jw_parse jw now secret [''HS256''] token)"

definition claims_principal :: "Claims \<Rightarrow> Principal" where
  "claims_principal c = \<lparr>pr_TenantID = tk_TenantID c, pr_UserID = tk_UserID c, pr_Role = tk_Role c\<rparr>"

text \<open>\<open>Authenticator.ParseToken\<close> and \<open>AuthService.Login\<close> with the library.\<close>

definition authenticator_parse :: "jwt_lib \<Rightarrow> string \<Rightarrow> int \<Rightarrow> string \<Rightarrow> port_error + Principal" where
  "authenticator_parse jw secret now = auth_ParseToken (\<lambda>tok. map_sum id claims_principal (ParseToken jw now secret tok))"

definition auth_Login ::
  "jwt_lib \<Rightarrow> int \<Rightarrow> string \<Rightarrow> string \<Rightarrow> int \<Rightarrow> (string \<Rightarrow> nat list \<Rightarrow> nat list) \<Rightarrow> faults \<Rightarrow>
   ((userRow \<times> membershipRow) list \<Rightarrow> (userRow \<times> membershipRow)) \<Rightarrow> string \<Rightarrow> string \<Rightarrow> iam_db \<Rightarrow> iam_error + string" where
  "auth_Login jw now newid secret ttl kdf =
    svc_Login kdf (\<lambda>u. IssueToken jw now newid secret (u_ID u) (u_TenantID u) (u_Role u) ttl)"

text \<open>
  What the library documents: a token parses to its claims under the secret it was signed with until it expires,
  and is refused afterwards and under any other secret.
\<close>

definition jwt_laws :: "jwt_lib \<Rightarrow> bool" where
  "jwt_laws jw \<longleftrightarrow> (\<forall>secret c tok now secret'. jw_sign jw secret c = Inr tok \<longrightarrow>
     (if secret' = secret \<and> now < tk_ExpiresAt c then jw_parse jw now secret' [''HS256''] tok = Inr c
      else \<exists>e. jw_parse jw now secret' [''HS256''] tok = Inl e))"

lemma issued_token_parses:
  assumes "jwt_laws jw" "IssueToken jw now newid secret uid tid role ttl = Inr tok"
  shows "authenticator_parse jw secret' later tok =
    (if secret' = secret \<and> later < now + ttl then Inr \<lparr>pr_TenantID = tid, pr_UserID = uid, pr_Role = role\<rparr> else Inl PortInvalidToken)"
proof -
  let ?c = "\<lparr>tk_UserID = uid, tk_TenantID = tid, tk_Role = role, tk_ExpiresAt = now + ttl, tk_IssuedAt = now, tk_ID = newid\<rparr>"
  have "jw_sign jw secret ?c = Inr tok"
    using assms(2) by (cases "jw_sign jw secret ?c") (auto simp: IssueToken_def)
  then have "if secret' = secret \<and> later < now + ttl then jw_parse jw later secret' [''HS256''] tok = Inr ?c
      else \<exists>e. jw_parse jw later secret' [''HS256''] tok = Inl e"
    using assms(1)[unfolded jwt_laws_def, rule_format, of secret ?c tok secret' later] by simp
  then show ?thesis by (auto simp: authenticator_parse_def auth_ParseToken_def ParseToken_def claims_principal_def split: if_splits)
qed

text \<open>
  C29: a login opens the control plane, to the account that logged in and for the lifetime of the token. When a
  login succeeds, the token belongs to an active account with that name or address and password; until it expires
  it passes the gate of a route exactly when the account's role may do what the route needs, and the handler sees
  the account's user, tenant and role; from then on, and under any other secret, every gate answers 401.
\<close>

theorem login_opens_the_gates:
  assumes "jwt_laws jw" "\<And>xs. xs \<noteq> [] \<Longrightarrow> pick xs \<in> set xs"
    and "auth_Login jw now newid secret ttl kdf flt pick username password db = Inr tok"
  shows "\<exists>u m. u \<in> set (users db) \<and> m \<in> set (memberships db) \<and> mb_UserID m = us_ID u \<and>
    (us_Username u = username \<or> us_Email u = username) \<and> us_Status u = ''ACTIVE'' \<and>
    VerifyPassword kdf (us_PasswordHash u) password \<and>
    (\<forall>act later secret'. RequirePermission (authenticator_parse jw secret' later) RoleAllows act (bearer @ tok) =
      (if secret' = secret \<and> later < now + ttl then
         if RoleAllows (mb_Role m) act
         then Next \<lparr>pr_TenantID = mb_TenantID m, pr_UserID = us_ID u, pr_Role = mb_Role m\<rparr>
         else Abort 403 ''FORBIDDEN'' ''permission denied''
       else Abort 401 ''UNAUTHORIZED'' ''invalid token''))"
proof -
  obtain u m where um: "u \<in> set (users db)" "m \<in> set (memberships db)" "mb_UserID m = us_ID u"
    "us_Username u = username \<or> us_Email u = username" "us_Status u = ''ACTIVE''" "VerifyPassword kdf (us_PasswordHash u) password"
    and tok: "IssueToken jw now newid secret (us_ID u) (mb_TenantID m) (mb_Role m) ttl = Inr tok"
    using login_sound_parts(1)[OF assms(2) assms(3)[unfolded auth_Login_def]] by (auto simp: account_user_def)
  have "RequirePermission (authenticator_parse jw secret' later) RoleAllows act (bearer @ tok) =
      (if secret' = secret \<and> later < now + ttl then
         if RoleAllows (mb_Role m) act
         then Next \<lparr>pr_TenantID = mb_TenantID m, pr_UserID = us_ID u, pr_Role = mb_Role m\<rparr>
         else Abort 403 ''FORBIDDEN'' ''permission denied''
       else Abort 401 ''UNAUTHORIZED'' ''invalid token'')" for act later secret'
    by (simp add: RequirePermission_def mw_authenticate_def issued_token_parses[OF assms(1) tok])
  then show ?thesis using um by blast
qed

section \<open>Example\<close>

text \<open>A library that writes the secret and the claims down, each field escaped and closed by a dot.\<close>

fun enc_field :: "string \<Rightarrow> string" where
  "enc_field [] = [CHR ''.'']"
| "enc_field (x # xs) = CHR ''c'' # x # enc_field xs"

fun dec_field :: "string \<Rightarrow> (string \<times> string) option" where
  "dec_field [] = None"
| "dec_field [c] = (if c = CHR ''.'' then Some ([], []) else None)"
| "dec_field (c # x # r) = (if c = CHR ''.'' then Some ([], x # r) else map_option (\<lambda>(s, r'). (x # s, r')) (dec_field r))"

fun dec_fields :: "nat \<Rightarrow> string \<Rightarrow> string list option" where
  "dec_fields 0 t = Some []"
| "dec_fields (Suc n) t = (case dec_field t of None \<Rightarrow> None | Some (s, r) \<Rightarrow> map_option ((#) s) (dec_fields n r))"

lemma dec_enc: "dec_field (enc_field s @ r) = Some (s, r)"
proof (induction s)
  case Nil
  then show ?case by (cases r) auto
qed auto

lemma dec_encs: "dec_fields (length ss) (concat (map enc_field ss)) = Some ss"
  by (induction ss) (simp_all add: dec_enc)

definition unary :: "int \<Rightarrow> string" where
  "unary n = (if n < 0 then CHR ''-'' # replicate (nat (- n)) (CHR ''1'') else replicate (nat n) (CHR ''1''))"

definition from_unary :: "string \<Rightarrow> int" where
  "from_unary s = (case s of [] \<Rightarrow> 0 | c # cs \<Rightarrow> if c = CHR ''-'' then - int (length cs) else int (length s))"

lemma from_unary: "from_unary (unary n) = n"
proof (cases "n = 0")
  case False
  then show ?thesis by (cases "nat n") (auto simp: unary_def from_unary_def)
qed (simp add: unary_def from_unary_def)

definition plain_jwt :: jwt_lib where
  "plain_jwt = \<lparr>jw_sign = (\<lambda>secret c. Inr (concat (map enc_field [secret, tk_UserID c, tk_TenantID c, tk_Role c,
       unary (tk_ExpiresAt c), unary (tk_IssuedAt c), tk_ID c]))),
     jw_parse = (\<lambda>now secret methods tok. case dec_fields 7 tok of
       Some [s, uid, tid, role, ex, iat, i] \<Rightarrow>
         if s \<noteq> secret then Inl ''signature is invalid'' else if from_unary ex \<le> now then Inl ''token is expired''
         else Inr \<lparr>tk_UserID = uid, tk_TenantID = tid, tk_Role = role, tk_ExpiresAt = from_unary ex,
           tk_IssuedAt = from_unary iat, tk_ID = i\<rparr>
     | _ \<Rightarrow> Inl ''token is malformed'')\<rparr>"

lemma plain_jwt_laws: "jwt_laws plain_jwt"
proof -
  have "dec_fields 7 (concat (map enc_field [a, b, c, d, e, f, g])) = Some [a, b, c, d, e, f, g]" for a b c d e f g
    using dec_encs[of "[a, b, c, d, e, f, g]"] by (simp add: eval_nat_numeral)
  then show ?thesis by (simp add: jwt_laws_def plain_jwt_def from_unary)
qed

definition demo_token :: string where
  "demo_token = concat (map enc_field [''k'', ''u'', ''t'', RoleTenantViewer, unary 5, unary 2, ''id''])"

theorem login_opens_the_gates_witness:
  "RequirePermission (authenticator_parse plain_jwt ''k'' 4) RoleAllows ActionUsageRead (bearer @ demo_token) =
     Next \<lparr>pr_TenantID = ''t'', pr_UserID = ''u'', pr_Role = RoleTenantViewer\<rparr> \<and>
   RequirePermission (authenticator_parse plain_jwt ''k'' 5) RoleAllows ActionUsageRead (bearer @ demo_token) =
     Abort 401 ''UNAUTHORIZED'' ''invalid token''"
proof -
  have "auth_Login plain_jwt 2 ''id'' ''k'' 3 demo_kdf no_faults hd ''ann'' ''pw'' demo_iam = Inr demo_token"
    by code_simp
  from login_opens_the_gates[OF plain_jwt_laws hd_in_set this] obtain u m where
    um: "u \<in> set (users demo_iam)" "m \<in> set (memberships demo_iam)" and
    gate: "\<And>act later secret'. RequirePermission (authenticator_parse plain_jwt secret' later) RoleAllows act (bearer @ demo_token) =
      (if secret' = ''k'' \<and> later < 2 + 3 then
         if RoleAllows (mb_Role m) act
         then Next \<lparr>pr_TenantID = mb_TenantID m, pr_UserID = us_ID u, pr_Role = mb_Role m\<rparr>
         else Abort 403 ''FORBIDDEN'' ''permission denied''
       else Abort 401 ''UNAUTHORIZED'' ''invalid token'')"
    by blast
  have "us_ID u = ''u''" "mb_TenantID m = ''t''" "mb_Role m = RoleTenantViewer" using um by (auto simp: demo_iam_def)
  moreover have "RoleAllows RoleTenantViewer ActionUsageRead" by code_simp
  ultimately show ?thesis by (simp add: gate)
qed

end
