(* ===== verification/Background.thy ===== *)
theory Background
  imports ImageProofs UsageProofs BillingService Outbox
begin

text \<open>
  The background loops of an API node: the usage roller (\<open>usage/roller.go\<close>), the billing reaper
  (\<open>billing/reaper.go\<close>), the outbox publisher (\<open>infrastructure/outbox/publisher.go\<close>) and the image job runner
  (\<open>image/runner.go\<close>). They share their \<open>Start\<close> and \<open>Close\<close>: a goroutine that makes a pass, waits for the
  ticker or the cancellation, and starts over; \<open>Close\<close> cancels and waits for it. A pass is any number of pieces,
  the transactions and statements it runs, interleaved with those of the rest of the system.
\<close>

section \<open>The loop\<close>

datatype loop_phase = NotStarted | InPass | Selecting | Exited

text \<open>\<open>lp_ticked\<close> says that the channel of the ticker holds a tick (it keeps at most one).\<close>

record 's loop =
  lp_work :: 's
  lp_phase :: loop_phase
  lp_cancelled :: bool
  lp_ticked :: bool
  lp_closing :: bool
  lp_returned :: bool

definition fresh_loop :: "'s \<Rightarrow> 's loop" where
  "fresh_loop s = \<lparr>lp_work = s, lp_phase = NotStarted, lp_cancelled = False, lp_ticked = False, lp_closing = False, lp_returned = False\<rparr>"

text \<open>
  When both channels of the select are ready, either may be taken. \<open>Close\<close> cancels only a loop that was started
  (\<open>r.cancel\<close> is nil before), and returns when no goroutine runs.
\<close>

inductive loop_step :: "('s \<Rightarrow> 's \<Rightarrow> bool) \<Rightarrow> ('s \<Rightarrow> 's \<Rightarrow> bool) \<Rightarrow> 's loop \<Rightarrow> 's loop \<Rightarrow> bool"
  for piece other where
  start: "lp_phase l = NotStarted \<Longrightarrow> loop_step piece other l (l\<lparr>lp_phase := InPass\<rparr>)"
| tick: "lp_phase l = InPass \<or> lp_phase l = Selecting \<Longrightarrow> loop_step piece other l (l\<lparr>lp_ticked := True\<rparr>)"
| works: "lp_phase l = InPass \<Longrightarrow> piece (lp_work l) s \<Longrightarrow> loop_step piece other l (l\<lparr>lp_work := s\<rparr>)"
| pass_ends: "lp_phase l = InPass \<Longrightarrow> loop_step piece other l (l\<lparr>lp_phase := Selecting\<rparr>)"
| again: "lp_phase l = Selecting \<Longrightarrow> lp_ticked l \<Longrightarrow> loop_step piece other l (l\<lparr>lp_phase := InPass, lp_ticked := False\<rparr>)"
| leave: "lp_phase l = Selecting \<Longrightarrow> lp_cancelled l \<Longrightarrow> loop_step piece other l (l\<lparr>lp_phase := Exited\<rparr>)"
| close_called: "loop_step piece other l (l\<lparr>lp_cancelled := lp_cancelled l \<or> lp_phase l \<noteq> NotStarted, lp_closing := True\<rparr>)"
| close_returns: "lp_closing l \<Longrightarrow> lp_phase l = NotStarted \<or> lp_phase l = Exited \<Longrightarrow> loop_step piece other l (l\<lparr>lp_returned := True\<rparr>)"
| elsewhere: "other (lp_work l) s \<Longrightarrow> loop_step piece other l (l\<lparr>lp_work := s\<rparr>)"

inductive_cases loop_stepE: "loop_step piece other l l'"

section \<open>The pieces of the four loops\<close>

definition roller_piece :: "usage_db \<Rightarrow> usage_db \<Rightarrow> bool" where
  "roller_piece db db' \<longleftrightarrow> (\<exists>flt now. db' = snd (usage_Rollup flt now db))"

definition reaper_piece :: "BillingConfig \<Rightarrow> billing_db \<Rightarrow> billing_db \<Rightarrow> bool" where
  "reaper_piece cfg db db' \<longleftrightarrow> (\<exists>flt pick now. picks_from pick \<and> db' = snd (svc_ReapExpired cfg flt pick now reapBatch db))"

definition publisher_piece :: "'a outbox_db_scheme \<Rightarrow> 'a outbox_db_scheme \<Rightarrow> bool" where
  "publisher_piece db db' \<longleftrightarrow> (\<exists>flt now rid cause. db' = snd (MarkFailed flt rid cause db) \<or> db' = snd (MarkPublished flt now rid db))"

definition runner_piece :: "image_db \<Rightarrow> image_db \<Rightarrow> bool" where
  "runner_piece db db' \<longleftrightarrow> (\<exists>now. image_step now db db')"

text \<open>The four loops, and the interval \<open>NewReaper\<close> takes for one that is not positive.\<close>

definition roller_loop :: "(usage_db \<Rightarrow> usage_db \<Rightarrow> bool) \<Rightarrow> usage_db loop \<Rightarrow> usage_db loop \<Rightarrow> bool" where
  "roller_loop other = loop_step roller_piece other"

definition reaper_goroutine :: "BillingConfig \<Rightarrow> (billing_db \<Rightarrow> billing_db \<Rightarrow> bool) \<Rightarrow> billing_db loop \<Rightarrow> billing_db loop \<Rightarrow> bool" where
  "reaper_goroutine cfg other = loop_step (reaper_piece cfg) other"

definition publisher_loop :: "(outbox_db \<Rightarrow> outbox_db \<Rightarrow> bool) \<Rightarrow> outbox_db loop \<Rightarrow> outbox_db loop \<Rightarrow> bool" where
  "publisher_loop other = loop_step publisher_piece other"

definition runner_loop :: "(image_db \<Rightarrow> image_db \<Rightarrow> bool) \<Rightarrow> image_db loop \<Rightarrow> image_db loop \<Rightarrow> bool" where
  "runner_loop other = loop_step runner_piece other"

definition reaper_interval :: "int \<Rightarrow> int" where
  "reaper_interval interval = (if interval \<le> 0 then 60000000000 else interval)"

section \<open>Closing\<close>

text \<open>A loop that has exited stays so, and changes nothing any more.\<close>

lemma exited_rests:
  assumes "(loop_step piece other)\<^sup>*\<^sup>* l l'" "lp_phase l = Exited"
  shows "lp_phase l' = Exited \<and> other\<^sup>*\<^sup>* (lp_work l) (lp_work l')"
  using assms
proof (induction rule: rtranclp_induct)
  case (step y z)
  then show ?case by (auto elim!: loop_stepE intro: rtranclp.rtrancl_into_rtrancl)
qed simp

lemma returned_is_over:
  assumes "(loop_step piece other)\<^sup>*\<^sup>* (fresh_loop s) l"
  shows "lp_returned l \<longrightarrow> lp_closing l"
    and "lp_cancelled l \<longrightarrow> lp_phase l \<noteq> NotStarted"
    and "lp_phase l = Exited \<longrightarrow> lp_cancelled l"
proof -
  have "(lp_returned l \<longrightarrow> lp_closing l) \<and> (lp_cancelled l \<longrightarrow> lp_phase l \<noteq> NotStarted) \<and> (lp_phase l = Exited \<longrightarrow> lp_cancelled l)"
    using assms
  proof (induction rule: rtranclp_induct)
    case (step y z)
    then show ?case by (auto elim!: loop_stepE)
  qed (simp add: fresh_loop_def)
  then show "lp_returned l \<longrightarrow> lp_closing l" "lp_cancelled l \<longrightarrow> lp_phase l \<noteq> NotStarted" "lp_phase l = Exited \<longrightarrow> lp_cancelled l"
    by blast+
qed

text \<open>
  When \<open>Close\<close> returns on a loop that was started, its goroutine has left: no pass is under way, none begins
  afterwards, and only the rest of the system changes the data. And \<open>Close\<close> can always return: whatever happened,
  the loop reaches its exit without starting another pass.
\<close>

theorem closed_loops_rest:
  assumes "(loop_step piece other)\<^sup>*\<^sup>* (fresh_loop s) l" "loop_step piece other l l1" "lp_returned l1" "\<not> lp_returned l"
    and "lp_phase l \<noteq> NotStarted" "(loop_step piece other)\<^sup>*\<^sup>* l1 l2"
  shows "lp_phase l2 = Exited \<and> other\<^sup>*\<^sup>* (lp_work l1) (lp_work l2)"
proof -
  have "lp_phase l1 = Exited" using assms(2,3,4,5) by (auto elim!: loop_stepE)
  then show ?thesis using exited_rests[OF assms(6)] by simp
qed

lemma close_can_return:
  assumes "lp_closing l" "lp_cancelled l \<or> lp_phase l = NotStarted \<or> lp_phase l = Exited"
  shows "\<exists>l'. (loop_step piece other)\<^sup>*\<^sup>* l l' \<and> lp_returned l' \<and> lp_work l' = lp_work l"
proof -
  have ret: "lp_phase m = NotStarted \<or> lp_phase m = Exited \<Longrightarrow> lp_closing m \<Longrightarrow> loop_step piece other m (m\<lparr>lp_returned := True\<rparr>)" for m
    by (rule close_returns)
  consider "lp_phase l = NotStarted \<or> lp_phase l = Exited" | "lp_phase l = Selecting" | "lp_phase l = InPass"
    by (cases "lp_phase l") auto
  then show ?thesis
  proof cases
    case 1
    then show ?thesis using ret[of l] assms(1) by (intro exI[of _ "l\<lparr>lp_returned := True\<rparr>"]) auto
  next
    case 2
    have "loop_step piece other l (l\<lparr>lp_phase := Exited\<rparr>)" using leave[of l] 2 assms(2) by simp
    moreover have "loop_step piece other (l\<lparr>lp_phase := Exited\<rparr>) (l\<lparr>lp_phase := Exited, lp_returned := True\<rparr>)"
      using ret[of "l\<lparr>lp_phase := Exited\<rparr>"] assms(1) by simp
    ultimately show ?thesis
      by (intro exI[of _ "l\<lparr>lp_phase := Exited, lp_returned := True\<rparr>"]) (auto intro: converse_rtranclp_into_rtranclp)
  next
    case 3
    have "loop_step piece other l (l\<lparr>lp_phase := Selecting\<rparr>)" using pass_ends[of l] 3 by simp
    moreover have "loop_step piece other (l\<lparr>lp_phase := Selecting\<rparr>) (l\<lparr>lp_phase := Exited\<rparr>)"
      using leave[of "l\<lparr>lp_phase := Selecting\<rparr>"] 3 assms(2) by simp
    moreover have "loop_step piece other (l\<lparr>lp_phase := Exited\<rparr>) (l\<lparr>lp_phase := Exited, lp_returned := True\<rparr>)"
      using ret[of "l\<lparr>lp_phase := Exited\<rparr>"] assms(1) by simp
    ultimately show ?thesis
      by (intro exI[of _ "l\<lparr>lp_phase := Exited, lp_returned := True\<rparr>"]) (auto intro: converse_rtranclp_into_rtranclp)
  qed
qed

text \<open>A loop that is closed before it is started returns at once, and a later \<open>Start\<close> still runs it.\<close>

lemma closed_before_start_still_runs:
  "\<exists>l. (loop_step piece other)\<^sup>*\<^sup>* (fresh_loop s) l \<and> lp_returned l \<and> lp_phase l = InPass"
proof -
  let ?a = "(fresh_loop s)\<lparr>lp_closing := True\<rparr>"
  have "loop_step piece other (fresh_loop s) ?a"
    using close_called[of piece other "fresh_loop s"] by (simp add: fresh_loop_def)
  moreover have "loop_step piece other ?a (?a\<lparr>lp_returned := True\<rparr>)" by (rule close_returns) (simp_all add: fresh_loop_def)
  moreover have "loop_step piece other (?a\<lparr>lp_returned := True\<rparr>) (?a\<lparr>lp_returned := True, lp_phase := InPass\<rparr>)"
    by (rule start[of "?a\<lparr>lp_returned := True\<rparr>", simplified]) (simp add: fresh_loop_def)
  ultimately show ?thesis
    by (intro exI[of _ "?a\<lparr>lp_returned := True, lp_phase := InPass\<rparr>"]) (auto intro: converse_rtranclp_into_rtranclp)
qed

section \<open>What the loops keep\<close>

text \<open>A loop over a system: an invariant that the pieces of the loop and the steps of the others keep.\<close>

locale background_loop =
  fixes piece other :: "'s \<Rightarrow> 's \<Rightarrow> bool" and holds :: "'s \<Rightarrow> bool"
  assumes piece_keeps: "piece s s' \<Longrightarrow> holds s \<Longrightarrow> holds s'"
    and other_keeps: "other s s' \<Longrightarrow> holds s \<Longrightarrow> holds s'"
begin

lemma step_keeps: "loop_step piece other l l' \<Longrightarrow> holds (lp_work l) \<Longrightarrow> holds (lp_work l')"
  by (auto elim!: loop_stepE dest: piece_keeps other_keeps)

lemma run_keeps:
  assumes "(loop_step piece other)\<^sup>*\<^sup>* l l'" "holds (lp_work l)" shows "holds (lp_work l')"
  using assms by (induction rule: rtranclp_induct) (auto intro: step_keeps)

end

definition recorders :: "usage_db \<Rightarrow> usage_db \<Rightarrow> bool" where
  "recorders db db' \<longleftrightarrow> (\<exists>now tenant model pt ct. db' = usage_insert now tenant model pt ct db) \<or>
     (\<exists>eid. last_event_id db < eid \<and> db' = usage_commit eid db)"

interpretation roller: background_loop roller_piece recorders rolled
proof unfold_locales
  show "roller_piece s s' \<Longrightarrow> rolled s \<Longrightarrow> rolled s'" for s s' by (auto simp: roller_piece_def rolled_rollup)
  show "recorders s s' \<Longrightarrow> rolled s \<Longrightarrow> rolled s'" for s s'
    by (auto simp: recorders_def rolled_commit) (simp add: rolled_iff counted_def usage_insert_def)
qed

definition billing_requests :: "billing_db \<Rightarrow> billing_db \<Rightarrow> bool" where
  "billing_requests db db' \<longleftrightarrow> (\<exists>flt now opn. picks_ok opn \<and> db' = billing_step flt now opn db)"

interpretation reaper: background_loop "reaper_piece cfg" billing_requests billing_inv for cfg
proof unfold_locales
  show "reaper_piece cfg s s' \<Longrightarrow> billing_inv s \<Longrightarrow> billing_inv s'" for s s'
    by (auto simp: reaper_piece_def svc_ReapExpired_def tx_simps intro: op_inv(5))
  show "billing_requests s s' \<Longrightarrow> billing_inv s \<Longrightarrow> billing_inv s'" for s s'
    by (auto simp: billing_requests_def billing_step_inv)
qed

text \<open>No event of the outbox disappears or changes.\<close>

definition keeps_events :: "Record list \<Rightarrow> 'a outbox_db_scheme \<Rightarrow> bool" where
  "keeps_events rows db \<longleftrightarrow> (\<forall>r \<in> set rows. \<exists>r' \<in> set (outbox db). o_ID r' = o_ID r \<and> o_Topic r' = o_Topic r \<and> o_Event r' = o_Event r)"

definition enqueuers :: "'a outbox_db_scheme \<Rightarrow> 'a outbox_db_scheme \<Rightarrow> bool" where
  "enqueuers db db' \<longleftrightarrow> (\<exists>rows. outbox db' = outbox db @ rows)"

lemma tbl_update_keeps:
  assumes "\<And>r. o_ID (f r) = o_ID r \<and> o_Topic (f r) = o_Topic r \<and> o_Event (f r) = o_Event r"
    and "keeps_events rows db" "outbox db' = tbl_update o_ID rid f (outbox db)"
  shows "keeps_events rows db'"
  unfolding keeps_events_def
proof
  fix r assume "r \<in> set rows"
  then obtain r' where r': "r' \<in> set (outbox db)" "o_ID r' = o_ID r" "o_Topic r' = o_Topic r" "o_Event r' = o_Event r"
    using assms(2) by (auto simp: keeps_events_def)
  let ?r = "if o_ID r' = rid then f r' else r'"
  have "?r \<in> set (outbox db')" using r'(1) by (auto simp: assms(3) tbl_update_def)
  then show "\<exists>r' \<in> set (outbox db'). o_ID r' = o_ID r \<and> o_Topic r' = o_Topic r \<and> o_Event r' = o_Event r"
    using r'(2-4) assms(1) by (intro bexI[of _ ?r]) auto
qed

interpretation publisher: background_loop publisher_piece enqueuers "keeps_events rows" for rows
proof unfold_locales
  show "enqueuers s s' \<Longrightarrow> keeps_events rows s \<Longrightarrow> keeps_events rows s'" for s s' :: "'a outbox_db_scheme"
    by (fastforce simp: enqueuers_def keeps_events_def)
  show "publisher_piece s s' \<Longrightarrow> keeps_events rows s \<Longrightarrow> keeps_events rows s'" for s s' :: "'a outbox_db_scheme"
    by (auto simp: publisher_piece_def MarkFailed_def MarkPublished_def stmt_def update_def split: if_splits
        intro: tbl_update_keeps[rotated])
qed

text \<open>A job that is finished stays as it is, whatever runners and handlers do.\<close>

definition finished_as :: "Job \<Rightarrow> image_db \<Rightarrow> bool" where
  "finished_as j db \<longleftrightarrow> jobs_keyed db \<and> j \<in> set (job_rows db) \<and> isTerminalJob (jb_Status j)"

interpretation runner: background_loop runner_piece runner_piece "finished_as j" for j
  by unfold_locales (use image_steps_final[OF image_steps_one] in \<open>fastforce simp: runner_piece_def finished_as_def\<close>)+

text \<open>The invariants under the four loops, on the model's definitions.\<close>

lemma rolled_under_the_roller: "(roller_loop recorders)\<^sup>*\<^sup>* l l' \<Longrightarrow> rolled (lp_work l) \<Longrightarrow> rolled (lp_work l')"
  unfolding roller_loop_def by (rule roller.run_keeps)

lemma books_under_the_reaper: "(reaper_goroutine cfg billing_requests)\<^sup>*\<^sup>* l l' \<Longrightarrow> billing_inv (lp_work l) \<Longrightarrow> billing_inv (lp_work l')"
  unfolding reaper_goroutine_def by (rule reaper.run_keeps)

lemma events_under_the_publisher:
  "(publisher_loop enqueuers)\<^sup>*\<^sup>* l l' \<Longrightarrow> keeps_events (outbox (lp_work l)) (lp_work l')"
  unfolding publisher_loop_def by (erule publisher.run_keeps) (auto simp: keeps_events_def)

lemma finished_under_the_runner: "(runner_loop runner_piece)\<^sup>*\<^sup>* l l' \<Longrightarrow> finished_as j (lp_work l) \<Longrightarrow> finished_as j (lp_work l')"
  unfolding runner_loop_def by (rule runner.run_keeps)

end
