(* ===== verification/Meters.thy ===== *)
theory Meters
  imports Telemetry ChatHandler BillingBooks
begin

text \<open>
  Where the code counts (the calls of \<open>observability\<close> in the chat handlers and the wallet): the counters agree with
  what is billed on the paths that commit, and where a rolled-back statement leaves them ahead.
\<close>

section \<open>Tokens\<close>

text \<open>What the two answering loops of the chat handler count while they consume the events of a turn.\<close>

fun meter_events :: "string \<Rightarrow> string \<Rightarrow> loop_event list \<Rightarrow> metrics \<Rightarrow> metrics" where
  "meter_events tenant model [] m = m"
| "meter_events tenant model (e # es) m = (case e of
      LoopEventFinal _ _ u \<Rightarrow> meter_events tenant model es (case u of None \<Rightarrow> m
        | Some u \<Rightarrow> RecordTokenUsage tenant model (us_PromptTokens u) (us_CompletionTokens u) m)
    | LoopEventError err \<Rightarrow> if is_overloaded err then IncOverloaded tenant model m else m
    | _ \<Rightarrow> meter_events tenant model es m)"

definition tokens_of :: "string \<Rightarrow> string \<Rightarrow> metrics \<Rightarrow> int \<times> int" where
  "tokens_of tenant model m = (ms_value m (''serving_tokens_total'', [tenant, model, ''prompt'']),
     ms_value m (''serving_tokens_total'', [tenant, model, ''completion'']))"

definition counts_nonneg :: "loop_event \<Rightarrow> bool" where
  "counts_nonneg e \<longleftrightarrow> (case e of LoopEventFinal _ _ (Some u) \<Rightarrow> 0 \<le> us_PromptTokens u \<and> 0 \<le> us_CompletionTokens u | _ \<Rightarrow> True)"

lemma tokens_of_RecordTokenUsage:
  "0 \<le> p \<Longrightarrow> 0 \<le> c \<Longrightarrow> tokens_of tenant model (RecordTokenUsage tenant model p c m) =
     (fst (tokens_of tenant model m) + p, snd (tokens_of tenant model m) + c)"
  by (auto simp: tokens_of_def RecordTokenUsage_def add_metric_def Let_def)

lemma tokens_of_IncOverloaded: "tokens_of tenant model (IncOverloaded tenant' model' m) = tokens_of tenant model m"
  by (simp add: tokens_of_def IncOverloaded_def add_metric_def)

definition plus2 :: "int \<times> int \<Rightarrow> int \<times> int \<Rightarrow> int \<times> int" where
  "plus2 a b = (fst a + fst b, snd a + snd b)"

text \<open>The tokens of a turn, added up as both loops do.\<close>

fun turn_totals :: "loop_event list \<Rightarrow> int \<times> int \<Rightarrow> int \<times> int" where
  "turn_totals [] t = t"
| "turn_totals (e # es) t = (case e of LoopEventError _ \<Rightarrow> t
    | LoopEventFinal _ _ (Some u) \<Rightarrow> turn_totals es (add_usage u t) | _ \<Rightarrow> turn_totals es t)"

lemma stream_totals: "stream_events env tenant model evs t db = (frames, t', db') \<Longrightarrow> t' = turn_totals evs t"
proof (induction evs arbitrary: t db frames)
  case (Cons e es)
  then show ?case by (cases e) (auto split: prod.splits option.splits)
qed simp

lemma json_totals: "json_events env tenant model evs a t db = (reply, t', db') \<Longrightarrow> t' = turn_totals evs t"
proof (induction evs arbitrary: a t db)
  case (Cons e es)
  then show ?case by (cases e) (auto split: option.splits)
qed simp

lemma meter_totals:
  "list_all counts_nonneg evs \<Longrightarrow>
     plus2 t (tokens_of tenant model (meter_events tenant model evs m)) = plus2 (tokens_of tenant model m) (turn_totals evs t)"
proof (induction evs arbitrary: t m)
  case (Cons e es)
  show ?case
  proof (cases e)
    case (LoopEventFinal x f u)
    then show ?thesis
      using Cons.prems Cons.IH[of t m] Cons.IH[of "add_usage (the u) t" "RecordTokenUsage tenant model (us_PromptTokens (the u)) (us_CompletionTokens (the u)) m"]
      by (cases u) (auto simp: counts_nonneg_def tokens_of_RecordTokenUsage plus2_def add_usage_def)
  qed (use Cons in \<open>auto simp: tokens_of_IncOverloaded plus2_def\<close>)
qed (simp add: plus2_def)

text \<open>The counters rise by the totals that are settled, on the stream and on the JSON path.\<close>

theorem tokens_are_metered_as_billed:
  assumes "list_all counts_nonneg evs"
    and "stream_events env tenant model evs (0, 0) udb = (frames, t, udb') \<or> json_events env tenant model evs a (0, 0) udb = (reply, t, udb')"
  shows "tokens_of tenant model (meter_events tenant model evs m) = plus2 (tokens_of tenant model m) t"
  using meter_totals[OF assms(1), of "(0, 0)" tenant model m] stream_totals json_totals assms(2) by (fastforce simp: plus2_def)

section \<open>Charges\<close>

text \<open>
  \<open>Settle\<close> with its counter: the call stands in the transaction, after the ledger entry and before the last
  statement, and a rollback does not undo it.
\<close>

definition charge_counted :: "faults \<Rightarrow> string \<Rightarrow> int \<Rightarrow> int \<Rightarrow> billing_db \<Rightarrow> int option" where
  "charge_counted flt rid promptTokens completionTokens db =
    (if flt ''settle: lock reservation'' [] then None
     else case tbl_find r_ID rid (reservations db) of None \<Rightarrow> None
     | Some res \<Rightarrow>
        if r_Status res = ReservationSettled \<or> flt ''settle: lock wallet'' [] \<or> \<not> tbl_has w_TenantID (r_TenantID res) (wallets db) \<or>
           flt ''settle: update wallet'' [] \<or> flt ''settle: ledger'' [] then None
        else Some (reservation_charge res promptTokens completionTokens))"

definition metered_Settle :: "faults \<Rightarrow> int \<Rightarrow> string \<Rightarrow> int \<Rightarrow> int \<Rightarrow> billing_db \<times> metrics \<Rightarrow> (billing_error + unit) \<times> billing_db \<times> metrics" where
  "metered_Settle flt now rid promptTokens completionTokens dm =
    (case wallet_Settle flt now rid promptTokens completionTokens (fst dm) of (r, db') \<Rightarrow>
      (r, db', case charge_counted flt rid promptTokens completionTokens (fst dm) of
         None \<Rightarrow> snd dm | Some charge \<Rightarrow> RecordBillingChargeMicro charge (snd dm)))"

definition charged :: "metrics \<Rightarrow> int" where
  "charged m = ms_value m (''billing_charge_micro_total'', [])"

text \<open>A settlement that commits is counted with its charge, and one that had been settled before is not.\<close>

lemma committed_charge_is_counted:
  assumes "wallet_Settle flt now rid pt ct db = (Inr x, db')" "tbl_find r_ID rid (reservations db) = Some res"
  shows "charge_counted flt rid pt ct db = (if r_Status res = ReservationSettled then None else Some (reservation_charge res pt ct))"
proof -
  have "tbl_find w_TenantID t (wallets db) = Some w \<Longrightarrow> tbl_has w_TenantID t (wallets db)" for t w
    using tbl_find_None[of w_TenantID t "wallets db"] by (auto simp: tbl_has_iff)
  then show ?thesis using assms
    by (auto simp: wallet_Settle_def charge_counted_def tx_simps Let_def split: if_splits option.splits)
qed

text \<open>A settlement whose last statement fails leaves no trace in the books and its charge in the counter; the retry counts it again.\<close>

lemma rolled_back_charge_stays_counted:
  "(let m0 = \<lparr>ms_value = (\<lambda>_. 0), ms_observed = []\<rparr>;
        (r1, db1, m1) = metered_Settle (\<lambda>l k. l = ''settle: status'') 2 ''r1'' 20 50 (held_db, m0);
        (r2, db2, m2) = metered_Settle no_faults 3 ''r1'' 20 50 (db1, m1)
    in db1 = held_db \<and> charged m1 = 120 \<and> r2 = Inr () \<and> charged m2 = 240 \<and>
       map_option w_Balance (tbl_find w_TenantID ''t'' (wallets db2)) = Some 880)"
  by code_simp

end
