(* ===== verification/Spec2Isabelle.thy ===== *)
theory Spec2Isabelle
  imports CircuitBreaker Retry BillingBooks BillingService UsageProofs Base64 IamProofs Outbox ServingProperties
    BatchSchedulerProperties SessionProofs ChatHandlerProofs ImageProofs ToolProofs LimiterProofs WiringProofs SeederProofs
    MigrationProofs GatewayProofs Tokens Background Meters
begin

text \<open>
  The AI Factory control plane and gateway: the Go server under \<open>src/go-server\<close>, which serves language and
  image models to tenants. All paths below are relative to that directory, and those of services to
  \<open>internal/services\<close>. This theory only gathers the others.

  The program. One binary runs in up to four roles (\<open>services.api\<close>, \<open>worker\<close>, \<open>billing\<close>, \<open>image\<close>). An API node
  answers OpenAI-style chat and image requests and the management API. A chat request passes the gate of its route,
  resolves its model to a READY deployment, takes the rate and concurrency limits from Redis, the quota from the
  usage tables and a hold from the tenant's wallet, finds its session, and runs the agentic loop, which submits to
  the batch scheduler, calls tools and answers as JSON or as an event stream; in the end its tokens are recorded and
  its hold is settled or released. Deployments are rows with a state machine: the API writes a deployment and an
  outbox event in one transaction, the publisher drains the outbox to the bus, and a worker node brings the
  deployment up. Image jobs are rows that runners claim under leases. Rollers, reapers, publishers and runners are
  background loops of the API nodes.

  Conventions of the model (theory Prelude). A database is a record of tables, a table a list of rows in the order
  of insertion, with its keys and foreign keys checked by the statements. An operation is a function of the state to
  a result (\<open>Inl\<close> an error, \<open>Inr\<close> a value) and the new state; its statements fail where the oracle
  \<open>faults\<close> says, by the label the code wraps its error in, and \<open>transaction\<close> takes a failed operation back.
  Clocks, drawn ids, random bytes and the order of rows that SQL leaves open are arguments, so the theorems hold for
  all of them. Integers that can overflow wrap at 64 or 32 bits (\<open>wrap64\<close>, \<open>wrap32\<close>). What is outside the
  repository is a parameter with what its documentation promises as a named hypothesis: Redis, argon2, SHA-256, the
  JWT library, gRPC and the Python workers, Kafka, gin, viper, gormigrate, the file system, the shell and docker.

  Billing (\<open>billing\<close>). BillingStore: the rows of \<open>models.go\<close>, the repositories of
  \<open>repository_wallet.go\<close> and \<open>repository_pricing.go\<close>. BillingService: \<open>service.go\<close>, \<open>pricing.go\<close>,
  \<open>wallet.go\<close>, \<open>topup.go\<close>, \<open>provider.go\<close>, the handlers. BillingProofs and BillingBooks: the invariant of
  wallets, reservations and ledger under any run with any failing statements, the wallet as the replay of its ledger,
  settlement and top-up exactly once, solvency under enforcement, rounding.

  Usage (\<open>usage\<close>). Usage: events, the rollup under its watermark, quotas, reports. UsageProofs: every event is
  counted once when commits come in id order, and what happens when they do not; the views of usage agree.

  Identity (\<open>iam\<close>, \<open>internal/infrastructure/middleware/auth.go\<close>). Base64, Iam: password hashes, tenants, users,
  API keys with their cache, roles, gates. IamProofs: revocation, roles, login. Tokens (\<open>jwt.go\<close>): from login to
  the gate, for the lifetime of the token.

  HTTP (\<open>pkg/response\<close>, the routers, \<open>internal/infrastructure/middleware/global.go\<close>). Http: envelopes and query
  parameters. Gateway: the route tables and the middleware chain. GatewayProofs: routes are unambiguous and admit
  exactly the callers of an access table; panics, preflight requests, spans. Telemetry and Meters
  (\<open>internal/infrastructure/observability\<close>): spans, counters and where they are incremented.

  Serving (\<open>serving\<close>, \<open>internal/infrastructure/outbox\<close>, \<open>message\<close>, \<open>circuitbreaker\<close>, \<open>retry\<close>). Serving:
  catalog, deployments, state machine, idempotency keys, handlers. ServingWorker: the worker's event handlers over
  the runtime interfaces, with CircuitBreaker and Retry. Messaging, Outbox: envelope, buses, store and drain.
  ServingProofs and ServingProperties: the worker moves along the state machine, an invariant of the whole system of
  API, publisher and worker, a created event brings its deployment up, creation is atomic and idempotent.

  Inference (\<open>inference\<close>, \<open>internal/infrastructure/inference\<close>). InferenceWire: requests, events, the client's
  stream loop. BatchScheduler with its Proofs and Properties: submitters, collector, dispatchers and consumers as a
  step relation; channels are closed once, no request is lost, bounds, each request sees its own stream. Session,
  SessionProofs: truncation, numbering, reload. SessionManager: map and linked list refine a
  least-recently-used cache. ChatSessions: access to sessions over cache and store. ChatUploads: the image store.
  ChatLoop: the loop with its ten rounds. Tools, ToolProofs: both executors, the confinement of the sandbox.
  ChatHandler, ChatHandlerProofs: the chat route end to end and its money. Limiter, LimiterProofs
  (\<open>internal/infrastructure/cache\<close>): windows and concurrency slots.

  Images (\<open>services/image\<close>, \<open>internal/infrastructure/image\<close>). Paths: \<open>path/filepath\<close>. ImageStore: jobs and
  assets, claims under row locks. ImageService: worker client, generation, execution, runner. ImageHandler: routes
  and event stream. ImageProofs: jobs are final, claims are disjoint within a lease, passes finish their jobs,
  results read back. Background: \<open>Start\<close> and \<open>Close\<close> of the four loops over the statements of their passes.

  Process (\<open>pkg/di\<close>, \<open>internal/config\<close>, \<open>internal/app\<close>, \<open>cmd\<close>, \<open>internal/migrations\<close>,
  \<open>internal/infrastructure/database\<close>). Container: registration, resolution, closing. Config, ConfigProofs: defaults,
  checks. Wiring, WiringProofs: every registration with its settings, the boot and start of each role, the programs.
  Seeder, SeederProofs: demo data; a restart changes nothing. Migrations, MigrationProofs: every migration and its
  rollback as statements over a schema, adoption of older databases; the migrations hand the rollup a consistent
  state.

  Interfaces. Where a component relies on another, the contract is a locale with its laws and an interpretation on
  the code's model: \<open>keyed_store\<close> (Prelude), \<open>authenticator\<close> (IamProofs), \<open>worker_statements\<close> and
  \<open>ComputeProvider\<close> (ServingProofs), \<open>session_cache\<close> (SessionManager), \<open>tool_executor\<close> (ToolProofs),
  \<open>background_loop\<close> (Background).

  Bounds and fuel. \<open>Resolve\<close> takes a bound on the depth of nested resolutions; the registry has five layers, so 5 is
  enough to boot every role, and any container resolves with as much fuel as it has entries. The loop of a turn runs at most
  \<open>MaxToolIterations\<close> rounds, as in the code. \<open>ExecuteJob\<close> and \<open>RunOnce\<close> are None when a worker's stream
  neither ends nor answers, and the theorems about them say when they are \<open>Some\<close>. All other recursion is structural
  or has a measure.

  Not modelled. The generated protobuf code and the field-by-field encoding behind it; the Python workers, the web
  pages and the deployment files, which are other programs; the files the static pages are served from; the text of
  log lines; the internals of the external libraries named above, among them the consumer groups of Kafka (a bus
  delivers any sequence of events, with repetitions). JSON bodies are the values they bind to. Goroutines appear where
  their interleaving matters (scheduler, limiter, image jobs, usage events, serving system, background loops); the
  other operations are single steps, as the mutexes and transactions of the code make them.
\<close>

end
